(* ===== verification/PyValue.thy ===== *)
theory PyValue
  imports Prelude
begin

text \<open>
  The values a YAML or JSON document is loaded into (\<open>None\<close>, booleans, integers, floats,
  strings, lists and dictionaries) with the operations of Python the sources apply to them:
  truthiness, \<open>==\<close>, \<open>dict.get\<close>, iteration, \<open>str()\<close> and \<open>repr()\<close>.
  A dictionary is an association list in insertion order, a float is the text \<open>repr\<close> gives it.
\<close>

datatype pyval =
    VNone
  | VBool bool
  | VInt int
  | VFloat string
  | VStr string
  | VList "pyval list"
  | VDict "(string \<times> pyval) list"

abbreviation emptydict :: pyval where "emptydict \<equiv> VDict []"

section \<open>Truthiness, lookup and iteration\<close>

fun truthy :: "pyval \<Rightarrow> bool" where
  "truthy VNone = False"
| "truthy (VBool b) = b"
| "truthy (VInt i) = (i \<noteq> 0)"
| "truthy (VFloat t) = (t \<noteq> ''0.0'' \<and> t \<noteq> ''-0.0'')"
| "truthy (VStr s) = (s \<noteq> [])"
| "truthy (VList xs) = (xs \<noteq> [])"
| "truthy (VDict d) = (d \<noteq> [])"

text \<open>\<open>a or b\<close> and \<open>x.get(k, default)\<close>; only a dictionary has \<open>get\<close>.\<close>

definition py_or :: "pyval \<Rightarrow> pyval \<Rightarrow> pyval" where
  "py_or a b = (if truthy a then a else b)"

fun py_get :: "pyval \<Rightarrow> string \<Rightarrow> pyval \<Rightarrow> pyval result" where
  "py_get (VDict d) k dflt = Inr (case map_of d k of None \<Rightarrow> dflt | Some v \<Rightarrow> v)"
| "py_get _ k dflt = Inl AttributeError"

fun is_dict :: "pyval \<Rightarrow> bool" where
  "is_dict (VDict _) = True"
| "is_dict _ = False"

fun is_list :: "pyval \<Rightarrow> bool" where
  "is_list (VList _) = True"
| "is_list _ = False"

fun py_iter :: "pyval \<Rightarrow> pyval list result" where
  "py_iter (VList xs) = Inr xs"
| "py_iter (VDict d) = Inr (map (VStr \<circ> fst) d)"
| "py_iter (VStr s) = Inr (map (\<lambda>c. VStr [c]) s)"
| "py_iter _ = Inl TypeError"

section \<open>Equality\<close>

text \<open>
  \<open>==\<close> on loaded values: dictionaries are compared as maps, a boolean equals the integer 0 or 1,
  and an integral float equals its integer.
\<close>

definition as_num :: "pyval \<Rightarrow> string option" where
  "as_num v = (case v of
      VBool b \<Rightarrow> Some (if b then ''1.0'' else ''0.0'')
    | VInt i \<Rightarrow> Some (str_int i @ ''.0'')
    | VFloat t \<Rightarrow> Some (if t = ''-0.0'' then ''0.0'' else t)
    | _ \<Rightarrow> None)"

fun py_eq :: "pyval \<Rightarrow> pyval \<Rightarrow> bool"
  and eq_list :: "pyval list \<Rightarrow> pyval list \<Rightarrow> bool"
  and eq_items :: "(string \<times> pyval) list \<Rightarrow> (string \<times> pyval) list \<Rightarrow> bool" where
  "py_eq VNone w = (w = VNone)"
| "py_eq (VBool b) w = (case w of VBool c \<Rightarrow> b = c | _ \<Rightarrow> as_num w = as_num (VBool b))"
| "py_eq (VInt i) w = (case w of VInt j \<Rightarrow> i = j | _ \<Rightarrow> as_num w = as_num (VInt i))"
| "py_eq (VFloat t) w = (as_num w = as_num (VFloat t))"
| "py_eq (VStr s) w = (w = VStr s)"
| "py_eq (VList xs) w = (case w of VList ys \<Rightarrow> eq_list xs ys | _ \<Rightarrow> False)"
| "py_eq (VDict d) w = (case w of VDict e \<Rightarrow> length d = length e \<and> eq_items d e | _ \<Rightarrow> False)"
| "eq_list [] ys = (ys = [])"
| "eq_list (x # xs) ys = (case ys of [] \<Rightarrow> False | y # ys' \<Rightarrow> py_eq x y \<and> eq_list xs ys')"
| "eq_items [] e = True"
| "eq_items (kv # d) e =
     ((case map_of e (fst kv) of None \<Rightarrow> False | Some w \<Rightarrow> py_eq (snd kv) w) \<and> eq_items d e)"

text \<open>A loaded dictionary has each key once, at every level.\<close>

fun wf_val :: "pyval \<Rightarrow> bool" where
  "wf_val (VList xs) = (\<forall>x \<in> set xs. wf_val x)"
| "wf_val (VDict d) = (distinct (map fst d) \<and> (\<forall>kv \<in> set d. wf_val (snd kv)))"
| "wf_val _ = True"

lemma eq_items_iff:
  "eq_items d e \<longleftrightarrow> (\<forall>kv \<in> set d. \<exists>w. map_of e (fst kv) = Some w \<and> py_eq (snd kv) w)"
  by (induction d) (auto split: option.splits)

lemma eq_list_iff: "eq_list xs ys \<longleftrightarrow> list_all2 py_eq xs ys"
  by (induction xs arbitrary: ys) (auto split: list.splits simp: list_all2_Cons1)

lemma py_eq_refl: "wf_val v \<Longrightarrow> py_eq v v"
proof (induction v)
  case (VList xs)
  then show ?case by (auto simp: eq_list_iff list_all2_conv_all_nth)
next
  case (VDict d)
  have "\<exists>w. map_of d (fst kv) = Some w \<and> py_eq (snd kv) w" if "kv \<in> set d" for kv
  proof -
    from that VDict.prems have "map_of d (fst kv) = Some (snd kv)" by simp
    moreover have "py_eq (snd kv) (snd kv)"
      using VDict.IH[of kv "snd kv"] VDict.prems that by (cases kv) auto
    ultimately show ?thesis by blast
  qed
  then show ?case by (simp add: eq_items_iff)
qed auto

text \<open>Symmetry, for dictionaries whose keys are distinct: the key sets of equal length agree.\<close>

lemma eq_items_keys:
  assumes "eq_items d e" and "length d = length e" and "distinct (map fst d)" and "distinct (map fst e)"
  shows "fst ` set d = fst ` set e"
proof (rule card_subset_eq)
  show "finite (fst ` set e)" by simp
  show "fst ` set d \<subseteq> fst ` set e"
  proof
    fix k assume "k \<in> fst ` set d"
    then obtain kv where "kv \<in> set d" "k = fst kv" by auto
    with assms(1) obtain w where "map_of e k = Some w" by (auto simp: eq_items_iff)
    then show "k \<in> fst ` set e" by (force dest: map_of_SomeD)
  qed
  have "card (fst ` set d) = length d" "card (fst ` set e) = length e"
    using distinct_card[OF assms(3)] distinct_card[OF assms(4)] by simp_all
  then show "card (fst ` set d) = card (fst ` set e)" using assms(2) by simp
qed

lemma as_num_simps [simp]:
  "as_num VNone = None" "as_num (VStr s) = None" "as_num (VList xs) = None" "as_num (VDict d) = None"
  "as_num (VBool b) = Some (if b then ''1.0'' else ''0.0'')" "as_num (VInt i) = Some (str_int i @ ''.0'')"
  "as_num (VFloat t) = Some (if t = ''-0.0'' then ''0.0'' else t)"
  by (simp_all add: as_num_def)

lemma as_num_not_None: "as_num w = Some t \<Longrightarrow> w \<noteq> VNone"
  by auto

lemma py_eq_sym: "wf_val v \<Longrightarrow> wf_val w \<Longrightarrow> py_eq v w \<Longrightarrow> py_eq w v"
proof (induction v arbitrary: w)
  case (VList xs)
  from VList.prems(3) obtain ys where w: "w = VList ys" and l: "list_all2 py_eq xs ys"
    by (auto simp: eq_list_iff split: pyval.splits)
  have "list_all2 py_eq ys xs"
    using l VList.IH VList.prems(1,2) w by (auto simp: list_all2_conv_all_nth)
  with w show ?case by (simp add: eq_list_iff)
next
  case (VDict d)
  from VDict.prems(3) obtain e where w: "w = VDict e" and len: "length d = length e"
    and it: "eq_items d e" by (auto split: pyval.splits)
  have dist: "distinct (map fst d)" "distinct (map fst e)" using VDict.prems w by auto
  have "\<exists>v. map_of d (fst kw) = Some v \<and> py_eq (snd kw) v" if kw: "kw \<in> set e" for kw
  proof -
    have "fst kw \<in> fst ` set d" using eq_items_keys[OF it len dist] kw by auto
    then obtain v where v: "(fst kw, v) \<in> set d" by auto
    from it v obtain u where "map_of e (fst kw) = Some u" "py_eq v u" by (auto simp: eq_items_iff)
    moreover have "map_of e (fst kw) = Some (snd kw)" using dist(2) kw by simp
    ultimately have "py_eq v (snd kw)" by simp
    then have "py_eq (snd kw) v"
      using VDict.IH[of "(fst kw, v)" v "snd kw"] v kw VDict.prems w by auto
    moreover have "map_of d (fst kw) = Some v" using dist(1) v by simp
    ultimately show ?thesis by blast
  qed
  with w len show ?case by (simp add: eq_items_iff)
next
  case (VFloat t)
  then show ?case by (cases w) auto
qed (auto split: pyval.splits)

section \<open>str() and repr()\<close>

fun hex_digit :: "nat \<Rightarrow> char" where
  "hex_digit d = (if d < 10 then char_of (48 + d) else char_of (87 + d))"

definition repr_char :: "char \<Rightarrow> char \<Rightarrow> string" where
  "repr_char q c = (let n = of_char c :: nat in
     if c = q \<or> n = 92 then [CHR 0x5C, c]
     else if n = 10 then [CHR 0x5C, CHR ''n'']
     else if n = 13 then [CHR 0x5C, CHR ''r'']
     else if n = 9 then [CHR 0x5C, CHR ''t'']
     else if n < 32 \<or> n = 127 then [CHR 0x5C, CHR ''x'', hex_digit (n div 16), hex_digit (n mod 16)]
     else [c])"

definition repr_str :: "string \<Rightarrow> string" where
  "repr_str s = (let q = (if CHR 0x27 \<in> set s \<and> CHR 0x22 \<notin> set s then CHR 0x22 else CHR 0x27)
     in [q] @ concat (map (repr_char q) s) @ [q])"

fun py_repr :: "pyval \<Rightarrow> string" where
  "py_repr VNone = ''None''"
| "py_repr (VBool b) = (if b then ''True'' else ''False'')"
| "py_repr (VInt i) = str_int i"
| "py_repr (VFloat t) = t"
| "py_repr (VStr s) = repr_str s"
| "py_repr (VList xs) = ''['' @ join '', '' (map py_repr xs) @ '']''"
| "py_repr (VDict d) =
     ''{'' @ join '', '' (map (\<lambda>kv. repr_str (fst kv) @ '': '' @ py_repr (snd kv)) d) @ ''}''"

fun py_str :: "pyval \<Rightarrow> string" where
  "py_str (VStr s) = s"
| "py_str v = py_repr v"

end
