(* ===== verification/FleetStatus.thy ===== *)
theory FleetStatus
  imports PyValue
begin

text \<open>
  The compute fleet status protocol of \<open>pcluster/models/compute_fleet_status_manager.py\<close>: the
  statuses, the two managers that keep the status in a DynamoDB item (a JSON document from version
  3.2.0 on, a plain attribute before), the conditional write, and the loop that waits for the
  cluster daemon to move the status on.  DynamoDB is a parameter: the record \<open>ddb\<close> of its three
  operations, with the documented behaviour of conditional writes as the locale
  \<open>dynamodb\<close>.  What \<open>update_status\<close> relies on is the locale \<open>status_store\<close>, which both
  managers provide.
\<close>

section \<open>Statuses\<close>

datatype compute_fleet_status =
  STOPPED | RUNNING | STOPPING | STARTING | STOP_REQUESTED | START_REQUESTED | UNKNOWN | PROTECTED

fun status_value :: "compute_fleet_status \<Rightarrow> string" where
  "status_value STOPPED = ''STOPPED''"
| "status_value RUNNING = ''RUNNING''"
| "status_value STOPPING = ''STOPPING''"
| "status_value STARTING = ''STARTING''"
| "status_value STOP_REQUESTED = ''STOP_REQUESTED''"
| "status_value START_REQUESTED = ''START_REQUESTED''"
| "status_value UNKNOWN = ''UNKNOWN''"
| "status_value PROTECTED = ''PROTECTED''"

definition all_statuses :: "compute_fleet_status list" where
  "all_statuses = [STOPPED, RUNNING, STOPPING, STARTING, STOP_REQUESTED, START_REQUESTED, UNKNOWN, PROTECTED]"

text \<open>\<open>ComputeFleetStatus(value)\<close> raises \<open>ValueError\<close> on a text that is no status.\<close>

definition status_of_value :: "pyval \<Rightarrow> compute_fleet_status result" where
  "status_of_value v = (case find (\<lambda>st. v = VStr (status_value st)) all_statuses of
     None \<Rightarrow> Inl ValueError | Some st \<Rightarrow> Inr st)"

definition is_start_in_progress :: "compute_fleet_status \<Rightarrow> bool" where
  "is_start_in_progress st \<longleftrightarrow> st \<in> {START_REQUESTED, STARTING}"

definition is_stop_in_progress :: "compute_fleet_status \<Rightarrow> bool" where
  "is_stop_in_progress st \<longleftrightarrow> st \<in> {STOP_REQUESTED, STOPPING}"

definition is_stop_status :: "compute_fleet_status \<Rightarrow> bool" where
  "is_stop_status st \<longleftrightarrow> st \<in> {STOP_REQUESTED, STOPPING, STOPPED}"

definition is_start_status :: "compute_fleet_status \<Rightarrow> bool" where
  "is_start_status st \<longleftrightarrow> st \<in> {START_REQUESTED, STARTING, RUNNING}"

lemma status_of_value_value [simp]: "status_of_value (VStr (status_value st)) = Inr st"
  by (cases st) (simp_all add: status_of_value_def all_statuses_def)

lemma status_of_value_Inr: "status_of_value v = Inr st \<longleftrightarrow> v = VStr (status_value st)"
proof
  assume "status_of_value v = Inr st"
  then have "find (\<lambda>st. v = VStr (status_value st)) all_statuses = Some st"
    by (simp add: status_of_value_def split: option.splits)
  then show "v = VStr (status_value st)" by (auto simp: find_Some_iff)
qed simp

lemma status_of_literal [simp]:
  "status_of_value (VStr ''RUNNING'') = Inr RUNNING" "status_of_value (VStr ''STOPPED'') = Inr STOPPED"
  by (simp_all add: status_of_value_def all_statuses_def)

lemma status_value_inj [simp]: "status_value a = status_value b \<longleftrightarrow> a = b"
  by (metis status_of_value_value sum.inject(2))

lemma start_stop_disjoint: "\<not> (is_start_status st \<and> is_stop_status st)"
  by (cases st) (auto simp: is_start_status_def is_stop_status_def)

section \<open>The table: DynamoDB as a parameter\<close>

text \<open>
  An item is a dictionary; a condition names an attribute path and the value it must have.
  A client error of the service carries its code and its message.
\<close>

datatype client_error = ConditionalCheckFailedException | OtherClientError string string

type_synonym condition = "string list \<times> pyval"

record 's ddb =
  ddb_get_item :: "'s \<Rightarrow> string \<Rightarrow> client_error + pyval option"
  ddb_put_item :: "'s \<Rightarrow> string \<Rightarrow> (string \<times> pyval) list \<Rightarrow> condition \<Rightarrow> client_error + 's"
  ddb_update_item ::
    "'s \<Rightarrow> string \<Rightarrow> (string list \<times> pyval) list \<Rightarrow> condition \<Rightarrow> client_error + 's"

fun attr_at :: "pyval \<Rightarrow> string list \<Rightarrow> pyval option" where
  "attr_at v [] = Some v"
| "attr_at (VDict d) (k # ks) = (case map_of d k of None \<Rightarrow> None | Some w \<Rightarrow> attr_at w ks)"
| "attr_at _ (k # ks) = None"

fun dict_set :: "(string \<times> pyval) list \<Rightarrow> string \<Rightarrow> pyval \<Rightarrow> (string \<times> pyval) list" where
  "dict_set [] k v = [(k, v)]"
| "dict_set (x # d) k v = (if fst x = k then (k, v) # d else x # dict_set d k v)"

lemma map_of_dict_set: "map_of (dict_set d k v) = (map_of d)(k \<mapsto> v)"
  by (induction d) auto

fun set_attr :: "pyval \<Rightarrow> string list \<Rightarrow> pyval \<Rightarrow> pyval" where
  "set_attr v [] w = w"
| "set_attr (VDict d) (k # ks) w =
     (case map_of d k of
        None \<Rightarrow> (if ks = [] then VDict (dict_set d k w) else VDict d)
      | Some u \<Rightarrow> VDict (dict_set d k (set_attr u ks w)))"
| "set_attr v (k # ks) w = v"

definition set_attrs :: "(string list \<times> pyval) list \<Rightarrow> pyval \<Rightarrow> pyval" where
  "set_attrs as v = fold (\<lambda>a u. set_attr u (fst a) (snd a)) as v"

text \<open>\<open>handle_client_exception\<close> of \<open>pcluster/aws/common.py\<close>.\<close>

definition throttling_error_codes :: "string set" where
  "throttling_error_codes = {''RequestLimitExceeded'', ''ThrottlingException''}"

definition client_exn :: "client_error \<Rightarrow> py_exn" where
  "client_exn e = (case e of
      ConditionalCheckFailedException \<Rightarrow> Exc ''AWSClientError'' ''The conditional request failed''
    | OtherClientError code message \<Rightarrow>
        if code \<in> throttling_error_codes then Exc ''LimitExceededError'' message
        else if code = ''ValidationError'' then Exc ''BadRequestError'' message
        else Exc ''AWSClientError'' message)"

definition conditional_status_update_failed :: py_exn where
  "conditional_status_update_failed = Exc ''ConditionalStatusUpdateFailed'' ''''"

definition put_result :: "client_error + 's \<Rightarrow> 's result" where
  \<comment> \<open>the \<open>except AWSClientError\<close> clause both managers share\<close>
  "put_result r = (case r of
      Inr s \<Rightarrow> Inr s
    | Inl ConditionalCheckFailedException \<Rightarrow> Inl conditional_status_update_failed
    | Inl e \<Rightarrow> Inl (client_exn e))"

definition read_item :: "'s ddb \<Rightarrow> 's \<Rightarrow> string \<Rightarrow> pyval result" where
  "read_item D s k = (case ddb_get_item D s k of
      Inl e \<Rightarrow> Inl (client_exn e)
    | Inr None \<Rightarrow> Inl (Exc ''Exception'' ''COMPUTE_FLEET data not found in db table'')
    | Inr (Some it) \<Rightarrow> Inr it)"

section \<open>The two managers\<close>

definition DB_KEY :: string where "DB_KEY = ''COMPUTE_FLEET''"
definition DB_DATA :: string where "DB_DATA = ''Data''"
definition JSON_STATUS :: string where "JSON_STATUS = ''status''"
definition JSON_LAST_UPDATED :: string where "JSON_LAST_UPDATED = ''lastStatusUpdatedTime''"
definition PLAIN_STATUS :: string where "PLAIN_STATUS = ''Status''"
definition PLAIN_LAST_UPDATED :: string where "PLAIN_LAST_UPDATED = ''LastUpdatedTime''"

lemmas key_defs = DB_KEY_def DB_DATA_def JSON_STATUS_def JSON_LAST_UPDATED_def PLAIN_STATUS_def
  PLAIN_LAST_UPDATED_def

text \<open>Any exception while reading is swallowed and the fallbacks are returned.\<close>

definition or_fallback :: "compute_fleet_status \<times> pyval \<Rightarrow> (compute_fleet_status \<times> pyval) result
    \<Rightarrow> compute_fleet_status \<times> pyval" where
  "or_fallback fb r = (case r of Inl e \<Rightarrow> fb | Inr x \<Rightarrow> x)"

definition json_get_status_with_last_updated_time ::
  "'s ddb \<Rightarrow> 's \<Rightarrow> compute_fleet_status \<Rightarrow> pyval \<Rightarrow> compute_fleet_status \<times> pyval" where
  "json_get_status_with_last_updated_time D s status_fallback last_updated_time_fallback =
     or_fallback (status_fallback, last_updated_time_fallback)
       (rbind (read_item D s DB_KEY) (\<lambda>item.
        rbind (py_get item DB_DATA VNone) (\<lambda>data.
        rbind (py_get data JSON_STATUS VNone) (\<lambda>v.
        rbind (status_of_value v) (\<lambda>st.
        rmap (\<lambda>t. (st, t)) (py_get data JSON_LAST_UPDATED VNone))))))"

definition json_put_status ::
  "'s ddb \<Rightarrow> string \<Rightarrow> 's \<Rightarrow> compute_fleet_status \<Rightarrow> compute_fleet_status \<Rightarrow> 's result" where
  "json_put_status D now s current_status next_status = put_result
     (ddb_update_item D s DB_KEY
        [([DB_DATA, JSON_STATUS], VStr (status_value next_status)),
         ([DB_DATA, JSON_LAST_UPDATED], VStr now)]
        ([DB_DATA, JSON_STATUS], VStr (status_value current_status)))"

text \<open>\<open>item["Status"]\<close> raises \<open>KeyError\<close> where \<open>get\<close> would return \<open>None\<close>.\<close>

fun py_index :: "pyval \<Rightarrow> string \<Rightarrow> pyval result" where
  "py_index (VDict d) k = (case map_of d k of None \<Rightarrow> Inl KeyError | Some v \<Rightarrow> Inr v)"
| "py_index _ k = Inl TypeError"

definition plain_get_status_with_last_updated_time ::
  "'s ddb \<Rightarrow> 's \<Rightarrow> compute_fleet_status \<Rightarrow> pyval \<Rightarrow> compute_fleet_status \<times> pyval" where
  "plain_get_status_with_last_updated_time D s status_fallback last_updated_time_fallback =
     or_fallback (status_fallback, last_updated_time_fallback)
       (rbind (read_item D s DB_KEY) (\<lambda>item.
        rbind (py_index item PLAIN_STATUS) (\<lambda>v.
        rbind (status_of_value v) (\<lambda>st.
        rmap (\<lambda>t. (st, t)) (py_get item PLAIN_LAST_UPDATED VNone)))))"

definition plain_put_status ::
  "'s ddb \<Rightarrow> string \<Rightarrow> 's \<Rightarrow> compute_fleet_status \<Rightarrow> compute_fleet_status \<Rightarrow> 's result" where
  "plain_put_status D now s current_status next_status = put_result
     (ddb_put_item D s DB_KEY
        [(''Id'', VStr DB_KEY),
         (PLAIN_STATUS, VStr (status_value next_status)),
         (PLAIN_LAST_UPDATED, VStr now)]
        ([PLAIN_STATUS], VStr (status_value current_status)))"

text \<open>The abstract class: a manager is the pair of its two abstract methods.\<close>

record 's manager =
  get_status_with_last_updated_time ::
    "'s \<Rightarrow> compute_fleet_status \<Rightarrow> pyval \<Rightarrow> compute_fleet_status \<times> pyval"
  put_status :: "'s \<Rightarrow> compute_fleet_status \<Rightarrow> compute_fleet_status \<Rightarrow> 's result"

definition json_manager :: "'s ddb \<Rightarrow> string \<Rightarrow> 's manager" where
  "json_manager D now = \<lparr>get_status_with_last_updated_time = json_get_status_with_last_updated_time D,
     put_status = json_put_status D now\<rparr>"

definition plain_manager :: "'s ddb \<Rightarrow> string \<Rightarrow> 's manager" where
  "plain_manager D now = \<lparr>get_status_with_last_updated_time = plain_get_status_with_last_updated_time D,
     put_status = plain_put_status D now\<rparr>"

text \<open>
  The version comparison is the \<open>packaging\<close> library's: a parameter that tells whether the first
  version is older than the second.
\<close>

definition get_manager :: "(string \<Rightarrow> string \<Rightarrow> bool) \<Rightarrow> 's ddb \<Rightarrow> string \<Rightarrow> string \<Rightarrow> 's manager" where
  "get_manager version_lt D now version =
     (if version_lt version ''3.2.0a0'' then plain_manager D now else json_manager D now)"

definition get_status :: "'s manager \<Rightarrow> 's \<Rightarrow> compute_fleet_status \<Rightarrow> compute_fleet_status" where
  "get_status M s fallback = fst (get_status_with_last_updated_time M s fallback VNone)"

section \<open>Waiting for a transition\<close>

text \<open>
  The loop of \<open>_wait_for_status_transition\<close>.  \<open>obs k\<close> is what the \<open>k\<close>-th poll reads and
  \<open>clk k\<close> the clock when the guard is evaluated for the \<open>k\<close>-th time.  The result is \<open>None\<close> if
  the loop never ends.
\<close>

partial_function (option) wait_loop ::
  "(nat \<Rightarrow> int) \<Rightarrow> (nat \<Rightarrow> compute_fleet_status) \<Rightarrow> compute_fleet_status \<Rightarrow> int \<Rightarrow> int \<Rightarrow> nat
    \<Rightarrow> compute_fleet_status \<Rightarrow> (nat \<times> compute_fleet_status) option" where
  "wait_loop clk obs wait_on start timeout k current =
     (if current = wait_on \<and> \<not> (clk k - start > timeout)
      then wait_loop clk obs wait_on start timeout (Suc k) (obs (Suc k))
      else Some (k, current))"

definition timeout_error :: py_exn where
  "timeout_error = Exc ''TimeoutError'' ''Timeout expired while waiting for status transition.''"

definition wait_for_status_transition ::
  "(nat \<Rightarrow> int) \<Rightarrow> (nat \<Rightarrow> compute_fleet_status) \<Rightarrow> compute_fleet_status \<Rightarrow> int \<Rightarrow> nat
    \<Rightarrow> (nat \<times> compute_fleet_status) result option" where
  "wait_for_status_transition clk obs wait_on timeout k =
     (case wait_loop clk obs wait_on (clk k) timeout k (obs k) of
        None \<Rightarrow> None
      | Some (j, current) \<Rightarrow> Some (if current = wait_on then Inl timeout_error else Inr (j, current)))"

section \<open>Changing the status\<close>

definition no_status_error :: py_exn where
  "no_status_error = Exc ''Exception'' ''Could not retrieve compute fleet status.''"

text \<open>The request part of \<open>update_status\<close>: everything before the \<open>wait_transition\<close> test.\<close>

definition request_status_change ::
  "'s manager \<Rightarrow> 's \<Rightarrow> compute_fleet_status \<Rightarrow> compute_fleet_status \<Rightarrow> compute_fleet_status \<Rightarrow> 's result" where
  "request_status_change M s request_status in_progress_status final_status =
     (let compute_fleet_status = get_status M s UNKNOWN in
      if compute_fleet_status = UNKNOWN then Inl no_status_error
      else if compute_fleet_status = final_status then Inr s
      else if compute_fleet_status \<notin> {request_status, in_progress_status, final_status}
        then put_status M s compute_fleet_status request_status
      else Inr s)"

text \<open>
  The whole of \<open>update_status\<close>.  With \<open>wait_transition\<close> the table is polled: \<open>obs\<close> is what
  the polls read, \<open>clk\<close> the clock.
\<close>

definition final_state_error :: "compute_fleet_status \<Rightarrow> py_exn" where
  "final_state_error st = Exc ''Exception'' (''Unexpected final state '' @ status_value st @
     '' probably due to a concurrent status update request.'')"

definition update_status ::
  "'s manager \<Rightarrow> 's \<Rightarrow> (nat \<Rightarrow> int) \<Rightarrow> (nat \<Rightarrow> compute_fleet_status)
    \<Rightarrow> compute_fleet_status \<Rightarrow> compute_fleet_status \<Rightarrow> compute_fleet_status \<Rightarrow> bool
    \<Rightarrow> 's result option" where
  "update_status M s clk obs request_status in_progress_status final_status wait_transition =
     (case request_status_change M s request_status in_progress_status final_status of
        Inl e \<Rightarrow> Some (Inl e)
      | Inr s' \<Rightarrow>
          if get_status M s UNKNOWN = final_status \<or> \<not> wait_transition then Some (Inr s')
          else case wait_for_status_transition clk obs request_status 180 0 of
            None \<Rightarrow> None
          | Some (Inl e) \<Rightarrow> Some (Inl e)
          | Some (Inr (j, st)) \<Rightarrow>
             (if st \<noteq> in_progress_status
              then Some (if st \<noteq> final_status then Inl (final_state_error st) else Inr s')
              else case wait_for_status_transition clk obs in_progress_status 600 (Suc j) of
                 None \<Rightarrow> None
               | Some (Inl e) \<Rightarrow> Some (Inl e)
               | Some (Inr (_, st')) \<Rightarrow>
                   Some (if st' \<noteq> final_status then Inl (final_state_error st') else Inr s')))"

definition start_compute_fleet :: "'s manager \<Rightarrow> 's \<Rightarrow> 's result" where
  "start_compute_fleet M s = request_status_change M s START_REQUESTED STARTING RUNNING"

definition stop_compute_fleet :: "'s manager \<Rightarrow> 's \<Rightarrow> 's result" where
  "stop_compute_fleet M s = request_status_change M s STOP_REQUESTED STOPPING STOPPED"

lemma update_status_no_wait:
  "update_status M s clk obs req prog fin False = Some (request_status_change M s req prog fin)"
  by (simp add: update_status_def split: sum.splits)

section \<open>The interface update_status relies on\<close>

text \<open>
  A store that answers the status it holds (the fallback when it holds none) and writes the next
  status only when the current one is still what the caller read.
\<close>

locale status_store =
  fixes M :: "'s manager" and stored :: "'s \<Rightarrow> compute_fleet_status option"
  assumes get_stored: "get_status M s fb = (case stored s of Some st \<Rightarrow> st | None \<Rightarrow> fb)"
    and put_ok: "stored s = Some cur \<Longrightarrow> \<exists>s'. put_status M s cur nxt = Inr s' \<and> stored s' = Some nxt"
    and put_conflict: "stored s \<noteq> Some cur \<Longrightarrow>
          put_status M s cur nxt = Inl conditional_status_update_failed"
begin

lemma request_result:
  assumes "request_status_change M s req prog fin = Inr s'"
    and "req \<noteq> UNKNOWN" and "prog \<noteq> UNKNOWN" and "fin \<noteq> UNKNOWN"
  shows "stored s' \<in> {Some req, Some prog, Some fin} \<and>
         (stored s \<in> {Some req, Some prog, Some fin} \<longrightarrow> s' = s)"
proof (cases "stored s")
  case None
  with assms(1) show ?thesis by (simp add: request_status_change_def get_stored)
next
  case (Some st)
  show ?thesis
  proof (cases "st \<in> {req, prog, fin}")
    case True
    with Some assms show ?thesis
      by (auto simp: request_status_change_def get_stored Let_def split: if_splits)
  next
    case False
    with Some assms have put: "put_status M s st req = Inr s'"
      by (auto simp: request_status_change_def get_stored Let_def split: if_splits)
    from put_ok[OF Some, of req] put have "stored s' = Some req" by auto
    with False Some show ?thesis by auto
  qed
qed

lemma request_succeeds:
  assumes "stored s = Some st" and "st \<noteq> UNKNOWN"
  shows "\<exists>s'. request_status_change M s req prog fin = Inr s'"
  using assms put_ok[OF assms(1), of req]
  by (auto simp: request_status_change_def get_stored Let_def)

lemma request_unreadable:
  assumes "stored s = None \<or> stored s = Some UNKNOWN"
  shows "request_status_change M s req prog fin = Inl no_status_error"
  using assms by (auto simp: request_status_change_def get_stored)

lemma first_write_wins:
  assumes "put_status M s cur nxt = Inr s'" and "nxt \<noteq> cur"
  shows "stored s = Some cur \<and> stored s' = Some nxt \<and>
         put_status M s' cur other = Inl conditional_status_update_failed"
proof -
  have cur: "stored s = Some cur"
  proof (rule ccontr)
    assume "stored s \<noteq> Some cur"
    from put_conflict[OF this, of nxt] assms(1) show False by simp
  qed
  from put_ok[OF this, of nxt] assms(1) have "stored s' = Some nxt" by auto
  moreover from this assms(2) have "stored s' \<noteq> Some cur" by simp
  from put_conflict[OF this] have "put_status M s' cur other = Inl conditional_status_update_failed" .
  ultimately show ?thesis using cur by blast
qed

end

section \<open>DynamoDB's documented behaviour, and the managers on top of it\<close>

definition condition_holds :: "pyval option \<Rightarrow> condition \<Rightarrow> bool" where
  "condition_holds it c = (case it of None \<Rightarrow> False | Some v \<Rightarrow> attr_at v (fst c) = Some (snd c))"

locale dynamodb =
  fixes D :: "'s ddb" and item_of :: "'s \<Rightarrow> string \<Rightarrow> pyval option"
  assumes get_item: "ddb_get_item D s k = Inr (item_of s k)"
    and update_item_ok: "condition_holds (item_of s k) c \<Longrightarrow>
      \<exists>s'. ddb_update_item D s k as c = Inr s' \<and>
           item_of s' = (item_of s)(k \<mapsto> set_attrs as (the (item_of s k)))"
    and put_item_ok: "condition_holds (item_of s k) c \<Longrightarrow>
      \<exists>s'. ddb_put_item D s k d c = Inr s' \<and> item_of s' = (item_of s)(k \<mapsto> VDict d)"
    and update_item_conflict: "\<not> condition_holds (item_of s k) c \<Longrightarrow>
      ddb_update_item D s k as c = Inl ConditionalCheckFailedException"
    and put_item_conflict: "\<not> condition_holds (item_of s k) c \<Longrightarrow>
      ddb_put_item D s k d c = Inl ConditionalCheckFailedException"

definition stored_at :: "string list \<Rightarrow> pyval option \<Rightarrow> compute_fleet_status option" where
  "stored_at path it = (case it of None \<Rightarrow> None | Some v \<Rightarrow>
     (case attr_at v path of None \<Rightarrow> None | Some w \<Rightarrow>
       (case status_of_value w of Inl _ \<Rightarrow> None | Inr st \<Rightarrow> Some st)))"

definition json_stored :: "('s \<Rightarrow> string \<Rightarrow> pyval option) \<Rightarrow> 's \<Rightarrow> compute_fleet_status option" where
  "json_stored item_of s = stored_at [DB_DATA, JSON_STATUS] (item_of s DB_KEY)"

definition plain_stored :: "('s \<Rightarrow> string \<Rightarrow> pyval option) \<Rightarrow> 's \<Rightarrow> compute_fleet_status option" where
  "plain_stored item_of s = stored_at [PLAIN_STATUS] (item_of s DB_KEY)"

lemma condition_holds_stored:
  "condition_holds it (path, VStr (status_value st)) \<longleftrightarrow> stored_at path it = Some st"
  by (auto simp: condition_holds_def stored_at_def status_of_value_Inr split: option.splits sum.splits)

lemma attr_at_set_attr_same: "attr_at v p = Some u \<Longrightarrow> attr_at (set_attr v p w) p = Some w"
  by (induction v p w rule: set_attr.induct) (auto simp: map_of_dict_set split: option.splits)

lemma attr_at_set_attr_other:
  "attr_at v [a, b] = Some u \<Longrightarrow> b \<noteq> c \<Longrightarrow> attr_at (set_attr v [a, c] w) [a, b] = Some u"
  by (cases v) (auto simp: map_of_dict_set split: option.splits pyval.splits elim: attr_at.elims)

lemma stored_set_attrs:
  assumes "stored_at [DB_DATA, JSON_STATUS] (Some it) = Some st"
  shows "stored_at [DB_DATA, JSON_STATUS]
           (Some (set_attrs [([DB_DATA, JSON_STATUS], VStr (status_value nxt)),
                             ([DB_DATA, JSON_LAST_UPDATED], VStr now)] it)) = Some nxt"
proof -
  from assms obtain u where "attr_at it [DB_DATA, JSON_STATUS] = Some u"
    by (auto simp: stored_at_def split: option.splits)
  note attr_at_set_attr_same[OF this, of "VStr (status_value nxt)"]
  from attr_at_set_attr_other[OF this, of JSON_LAST_UPDATED "VStr now"] show ?thesis
    by (simp add: stored_at_def set_attrs_def key_defs)
qed

lemma json_get_status:
  assumes "\<And>k. ddb_get_item D s k = Inr (item_of s k)"
  shows "fst (json_get_status_with_last_updated_time D s fb VNone)
         = (case json_stored item_of s of Some st \<Rightarrow> st | None \<Rightarrow> fb)"
proof (cases "item_of s DB_KEY")
  case None
  with assms show ?thesis
    by (simp add: json_get_status_with_last_updated_time_def read_item_def json_stored_def
        stored_at_def or_fallback_def)
next
  case (Some it)
  have none: "status_of_value VNone = Inl ValueError"
    by (simp add: status_of_value_def all_statuses_def)
  show ?thesis
  proof (cases it)
    case (VDict d)
    with Some assms none show ?thesis
      by (cases "map_of d DB_DATA"; cases "the (map_of d DB_DATA)")
         (auto simp: json_get_status_with_last_updated_time_def read_item_def json_stored_def
            stored_at_def or_fallback_def rmap_def rbind_def split: option.splits sum.splits)
  qed (use Some assms in \<open>simp_all add: json_get_status_with_last_updated_time_def read_item_def
         json_stored_def stored_at_def or_fallback_def\<close>)
qed

lemma plain_get_status:
  assumes "\<And>k. ddb_get_item D s k = Inr (item_of s k)"
  shows "fst (plain_get_status_with_last_updated_time D s fb VNone)
         = (case plain_stored item_of s of Some st \<Rightarrow> st | None \<Rightarrow> fb)"
proof (cases "item_of s DB_KEY")
  case None
  with assms show ?thesis
    by (simp add: plain_get_status_with_last_updated_time_def read_item_def plain_stored_def
        stored_at_def or_fallback_def)
next
  case (Some it)
  with assms show ?thesis
    by (cases it)
       (auto simp: plain_get_status_with_last_updated_time_def read_item_def plain_stored_def
          stored_at_def or_fallback_def rmap_def rbind_def split: option.splits sum.splits)
qed

sublocale dynamodb \<subseteq> json: status_store "json_manager D now" "json_stored item_of" for now
proof
  fix s fb
  show "get_status (json_manager D now) s fb = (case json_stored item_of s of Some st \<Rightarrow> st | None \<Rightarrow> fb)"
    using json_get_status[of D s item_of fb, OF get_item] by (simp add: get_status_def json_manager_def)
next
  fix s cur nxt
  assume st: "json_stored item_of s = Some cur"
  then have c: "condition_holds (item_of s DB_KEY) ([DB_DATA, JSON_STATUS], VStr (status_value cur))"
    by (simp add: json_stored_def condition_holds_stored)
  then obtain it where it: "item_of s DB_KEY = Some it" by (auto simp: condition_holds_def split: option.splits)
  from update_item_ok[OF c, of "[([DB_DATA, JSON_STATUS], VStr (status_value nxt)),
      ([DB_DATA, JSON_LAST_UPDATED], VStr now)]"] it stored_set_attrs st
  show "\<exists>s'. put_status (json_manager D now) s cur nxt = Inr s' \<and> json_stored item_of s' = Some nxt"
    by (fastforce simp: json_manager_def json_put_status_def put_result_def json_stored_def)
next
  fix s cur nxt
  assume "json_stored item_of s \<noteq> Some cur"
  then have "\<not> condition_holds (item_of s DB_KEY) ([DB_DATA, JSON_STATUS], VStr (status_value cur))"
    by (simp add: json_stored_def condition_holds_stored)
  then show "put_status (json_manager D now) s cur nxt = Inl conditional_status_update_failed"
    by (simp add: json_manager_def json_put_status_def put_result_def update_item_conflict)
qed

sublocale dynamodb \<subseteq> plain: status_store "plain_manager D now" "plain_stored item_of" for now
proof
  fix s fb
  show "get_status (plain_manager D now) s fb = (case plain_stored item_of s of Some st \<Rightarrow> st | None \<Rightarrow> fb)"
    using plain_get_status[of D s item_of fb, OF get_item] by (simp add: get_status_def plain_manager_def)
next
  fix s cur nxt
  assume st: "plain_stored item_of s = Some cur"
  then have c: "condition_holds (item_of s DB_KEY) ([PLAIN_STATUS], VStr (status_value cur))"
    by (simp add: plain_stored_def condition_holds_stored)
  obtain s' where "ddb_put_item D s DB_KEY [(''Id'', VStr DB_KEY), (PLAIN_STATUS, VStr (status_value nxt)),
        (PLAIN_LAST_UPDATED, VStr now)] ([PLAIN_STATUS], VStr (status_value cur)) = Inr s'"
    and "item_of s' = (item_of s)(DB_KEY \<mapsto> VDict [(''Id'', VStr DB_KEY),
        (PLAIN_STATUS, VStr (status_value nxt)), (PLAIN_LAST_UPDATED, VStr now)])"
    using put_item_ok[OF c] by blast
  then show "\<exists>s'. put_status (plain_manager D now) s cur nxt = Inr s' \<and> plain_stored item_of s' = Some nxt"
    by (simp add: plain_manager_def plain_put_status_def put_result_def plain_stored_def stored_at_def
        key_defs)
next
  fix s cur nxt
  assume "plain_stored item_of s \<noteq> Some cur"
  then have "\<not> condition_holds (item_of s DB_KEY) ([PLAIN_STATUS], VStr (status_value cur))"
    by (simp add: plain_stored_def condition_holds_stored)
  then show "put_status (plain_manager D now) s cur nxt = Inl conditional_status_update_failed"
    by (simp add: plain_manager_def plain_put_status_def put_result_def put_item_conflict)
qed

context dynamodb
begin

lemma json_store: "status_store (json_manager D now) (json_stored item_of)"
  by unfold_locales

lemma plain_store: "status_store (plain_manager D now) (plain_stored item_of)"
  by unfold_locales

end

text \<open>
  A table whose items are a partial map from keys satisfies the documented behaviour: the
  hypotheses below can hold.
\<close>

definition table_ddb :: "(string \<Rightarrow> pyval option) ddb" where
  "table_ddb = \<lparr>ddb_get_item = (\<lambda>s k. Inr (s k)),
     ddb_put_item = (\<lambda>s k d c. if condition_holds (s k) c then Inr (s(k \<mapsto> VDict d))
                               else Inl ConditionalCheckFailedException),
     ddb_update_item = (\<lambda>s k as c. if condition_holds (s k) c then Inr (s(k \<mapsto> set_attrs as (the (s k))))
                               else Inl ConditionalCheckFailedException)\<rparr>"

interpretation table: dynamodb table_ddb "\<lambda>s. s"
  by unfold_locales (auto simp: table_ddb_def)

section \<open>Waiting ends, and what its result means\<close>

lemma wait_loop_result:
  assumes "0 < retry" and "\<And>i. clk i + retry \<le> clk (Suc i)"
  shows "\<exists>j. wait_loop clk obs wait_on start timeout k (obs k) = Some (j, obs j) \<and> k \<le> j \<and>
           (\<forall>i. k \<le> i \<and> i < j \<longrightarrow> obs i = wait_on) \<and>
           (obs j = wait_on \<longrightarrow> timeout < clk j - start) \<and>
           retry * (int j - int k) \<le> max 0 (start + timeout - clk k + retry)"
proof (induction "nat (start + timeout + 1 - clk k)" arbitrary: k rule: less_induct)
  case less
  show ?case
  proof (cases "obs k = wait_on \<and> \<not> (clk k - start > timeout)")
    case False
    then have "wait_loop clk obs wait_on start timeout k (obs k) = Some (k, obs k)"
      by (subst wait_loop.simps) auto
    with False show ?thesis by auto
  next
    case True
    have step: "wait_loop clk obs wait_on start timeout k (obs k) =
                wait_loop clk obs wait_on start timeout (Suc k) (obs (Suc k))"
      using True by (subst wait_loop.simps) auto
    have "nat (start + timeout + 1 - clk (Suc k)) < nat (start + timeout + 1 - clk k)"
      using True assms(1) assms(2)[of k] by linarith
    from less.hyps[OF this] obtain j where j:
      "wait_loop clk obs wait_on start timeout (Suc k) (obs (Suc k)) = Some (j, obs j)" "Suc k \<le> j"
      "\<forall>i. Suc k \<le> i \<and> i < j \<longrightarrow> obs i = wait_on" "obs j = wait_on \<longrightarrow> timeout < clk j - start"
      "retry * (int j - int (Suc k)) \<le> max 0 (start + timeout - clk (Suc k) + retry)"
      by blast
    have "retry * (int j - int k) = retry * (int j - int (Suc k)) + retry"
      by (simp add: algebra_simps)
    also have "\<dots> \<le> max 0 (start + timeout - clk k + retry)"
      using j(5) True assms(1) assms(2)[of k] by linarith
    finally have "retry * (int j - int k) \<le> max 0 (start + timeout - clk k + retry)" .
    moreover have "\<forall>i. k \<le> i \<and> i < j \<longrightarrow> obs i = wait_on"
      using j(3) True by (metis Suc_leI le_neq_implies_less)
    ultimately show ?thesis using step j by (metis Suc_leD)
  qed
qed

lemma wait_for_status_transition_result:
  assumes "0 < retry" and "\<And>i. clk i + retry \<le> clk (Suc i)" and "0 \<le> timeout"
  shows "\<exists>j. k \<le> j \<and> retry * (int j - int k) \<le> timeout + retry \<and>
           (\<forall>i. k \<le> i \<and> i < j \<longrightarrow> obs i = wait_on) \<and>
           wait_for_status_transition clk obs wait_on timeout k
             = Some (if obs j = wait_on then Inl timeout_error else Inr (j, obs j)) \<and>
           (obs j = wait_on \<longrightarrow> timeout < clk j - clk k)"
proof -
  obtain j where "wait_loop clk obs wait_on (clk k) timeout k (obs k) = Some (j, obs j)" "k \<le> j"
    "\<forall>i. k \<le> i \<and> i < j \<longrightarrow> obs i = wait_on" "obs j = wait_on \<longrightarrow> timeout < clk j - clk k"
    "retry * (int j - int k) \<le> max 0 (clk k + timeout - clk k + retry)"
    using wait_loop_result[of retry clk obs wait_on "clk k" timeout k] assms by blast
  with assms show ?thesis
    by (intro exI[of _ j]) (auto simp: wait_for_status_transition_def)
qed

section \<open>Properties\<close>

lemma get_manager_cases:
  "get_manager version_lt D now version \<in> {plain_manager D now, json_manager D now}"
  by (simp add: get_manager_def)

text \<open>C19: no status update is lost.  Whatever version the cluster has, if one client's conditional
  write from the status it read succeeds, a second client that read the same status gets
  \<open>ConditionalStatusUpdateFailed\<close> instead of overwriting the first request.\<close>

theorem fleet_first_write_wins:
  assumes "dynamodb D item_of"
    and "put_status (get_manager version_lt D now version) s cur nxt = Inr s'" and "nxt \<noteq> cur"
  shows "put_status (get_manager version_lt D now' version) s' cur other
         = Inl conditional_status_update_failed"
proof (cases "version_lt version ''3.2.0a0''")
  case True
  with assms(2) have "put_status (plain_manager D now) s cur nxt = Inr s'" by (simp add: get_manager_def)
  from status_store.first_write_wins[OF dynamodb.plain_store[OF assms(1)] this assms(3)]
  have "plain_stored item_of s' \<noteq> Some cur" using assms(3) by auto
  from status_store.put_conflict[OF dynamodb.plain_store[OF assms(1)] this] True
  show ?thesis by (simp add: get_manager_def)
next
  case False
  with assms(2) have "put_status (json_manager D now) s cur nxt = Inr s'" by (simp add: get_manager_def)
  from status_store.first_write_wins[OF dynamodb.json_store[OF assms(1)] this assms(3)]
  have "json_stored item_of s' \<noteq> Some cur" using assms(3) by auto
  from status_store.put_conflict[OF dynamodb.json_store[OF assms(1)] this] False
  show ?thesis by (simp add: get_manager_def)
qed

definition example_table :: "compute_fleet_status \<Rightarrow> string \<Rightarrow> pyval option" where
  "example_table st = [DB_KEY \<mapsto> VDict [(DB_DATA, VDict [(JSON_STATUS, VStr (status_value st)),
     (JSON_LAST_UPDATED, VStr ''t0'')])]]"

lemma example_put:
  "put_status (json_manager table_ddb now) (example_table st) st nxt = Inr
     ((example_table st)(DB_KEY \<mapsto> VDict [(DB_DATA, VDict [(JSON_STATUS, VStr (status_value nxt)),
     (JSON_LAST_UPDATED, VStr now)])]))"
  by (simp add: json_manager_def json_put_status_def put_result_def table_ddb_def example_table_def
      condition_holds_def set_attrs_def key_defs)

theorem fleet_first_write_wins_witness:
  "put_status (get_manager (\<lambda>_ _. False) table_ddb ''t2'' ''3.8.0'')
     ((example_table RUNNING)(DB_KEY \<mapsto> VDict [(DB_DATA, VDict [(JSON_STATUS, VStr (status_value STOP_REQUESTED)),
     (JSON_LAST_UPDATED, VStr ''t1'')])])) RUNNING START_REQUESTED = Inl conditional_status_update_failed"
  by (rule fleet_first_write_wins[OF table.dynamodb_axioms, where s = "example_table RUNNING" and now = "''t1''"
        and cur = RUNNING and nxt = STOP_REQUESTED])
     (simp_all add: get_manager_def example_put)



end
