(* ===== verification/LoginNodes.thy ===== *)
theory LoginNodes
  imports PyValue
begin

text \<open>
  The status of the login nodes (\<open>pcluster/models/login_nodes_status.py\<close>).  What the load
  balancer API answers for one pool is the record \<open>pool_observation\<close>; \<open>pool_status\<close> is the
  object \<open>PoolStatus\<close> builds from it, \<open>login_nodes_status\<close> the object that sums over the pools.
\<close>

section \<open>One pool\<close>

datatype pool_state = PENDING | ACTIVE | FAILED

text \<open>
  The observations: the load balancers tagged for the pool, the description of the first one (its
  state code, DNS name and scheme), its target groups and the health states of the first group's
  targets; \<open>None\<close> stands for a call that raised.
\<close>

record pool_observation =
  load_balancer_arns :: "string list"
  load_balancer :: "(string \<times> string \<times> string) option"
  target_groups :: "string list option"
  target_health_states :: "string list option"

record pool_status =
  ps_status :: "pool_state option"
  ps_dns_name :: "string option"
  ps_scheme :: "string option"
  ps_pool_available :: bool
  ps_load_balancer_arn :: "string option"
  ps_target_group_arn :: "string option"
  ps_healthy_nodes :: "int option"
  ps_unhealthy_nodes :: "int option"

definition initial_pool_status :: pool_status where
  "initial_pool_status = \<lparr>ps_status = None, ps_dns_name = None, ps_scheme = None,
     ps_pool_available = False, ps_load_balancer_arn = None, ps_target_group_arn = None,
     ps_healthy_nodes = None, ps_unhealthy_nodes = None\<rparr>"

definition map_status :: "string \<Rightarrow> pool_state" where
  "map_status load_balancer_state =
     (if load_balancer_state = ''provisioning'' then PENDING
      else if load_balancer_state = ''active'' then ACTIVE else FAILED)"

definition retrieve_assigned_load_balancer :: "pool_observation \<Rightarrow> pool_status \<Rightarrow> pool_status" where
  "retrieve_assigned_load_balancer ob p =
     (case load_balancer_arns ob of [] \<Rightarrow> p
      | arn # _ \<Rightarrow> (let p = p\<lparr>ps_load_balancer_arn := Some arn\<rparr> in
          case load_balancer ob of None \<Rightarrow> p
          | Some (code, dns, scheme) \<Rightarrow>
              p\<lparr>ps_status := Some (map_status code), ps_dns_name := Some dns, ps_scheme := Some scheme\<rparr>))"

definition populate_target_groups :: "pool_observation \<Rightarrow> pool_status \<Rightarrow> pool_status" where
  "populate_target_groups ob p =
     (if ps_status p = Some ACTIVE
      then (case target_groups ob of Some (g # _) \<Rightarrow> p\<lparr>ps_target_group_arn := Some g\<rparr> | _ \<Rightarrow> p)
      else p)"

definition populate_target_group_health :: "pool_observation \<Rightarrow> pool_status \<Rightarrow> pool_status" where
  "populate_target_group_health ob p =
     (case ps_target_group_arn p of None \<Rightarrow> p
      | Some _ \<Rightarrow> (case target_health_states ob of None \<Rightarrow> p
          | Some states \<Rightarrow> (let healthy_target = filter (\<lambda>st. st = ''healthy'') states in
              p\<lparr>ps_healthy_nodes := Some (int (length healthy_target)),
                ps_unhealthy_nodes := Some (int (length states) - int (length healthy_target))\<rparr>)))"

definition make_pool_status :: "pool_observation \<Rightarrow> pool_status" where
  "make_pool_status ob =
     (let p = retrieve_assigned_load_balancer ob initial_pool_status in
      if ps_load_balancer_arn p \<noteq> None
      then populate_target_group_health ob (populate_target_groups ob (p\<lparr>ps_pool_available := True\<rparr>))
      else p)"

section \<open>All pools\<close>

record login_nodes_status =
  pool_status_dict :: "(string \<times> pool_status) list"
  login_nodes_pool_available :: bool
  total_healthy_nodes :: "int option"
  total_unhealthy_nodes :: "int option"

definition initial_login_nodes_status :: login_nodes_status where
  "initial_login_nodes_status = \<lparr>pool_status_dict = [], login_nodes_pool_available = False,
     total_healthy_nodes = None, total_unhealthy_nodes = None\<rparr>"

text \<open>Assignment to a key of a dictionary keeps the key's place; a missing count is skipped.\<close>

fun put_pool :: "string \<Rightarrow> pool_status \<Rightarrow> (string \<times> pool_status) list \<Rightarrow> (string \<times> pool_status) list" where
  "put_pool k v [] = [(k, v)]"
| "put_pool k v (x # xs) = (if fst x = k then (k, v) # xs else x # put_pool k v xs)"

definition sum_counts :: "int option list \<Rightarrow> int" where
  "sum_counts xs = sum_list (map (\<lambda>x. case x of None \<Rightarrow> 0 | Some n \<Rightarrow> n) xs)"

definition retrieve_data ::
  "(string \<Rightarrow> pool_observation) \<Rightarrow> string list \<Rightarrow> login_nodes_status \<Rightarrow> login_nodes_status" where
  "retrieve_data obs login_node_pool_names s =
     (let d = fold (\<lambda>n. put_pool n (make_pool_status (obs n))) login_node_pool_names (pool_status_dict s) in
      s\<lparr>pool_status_dict := d,
        total_healthy_nodes := Some (sum_counts (map (ps_healthy_nodes \<circ> snd) d)),
        total_unhealthy_nodes := Some (sum_counts (map (ps_unhealthy_nodes \<circ> snd) d)),
        login_nodes_pool_available := list_ex (ps_pool_available \<circ> snd) d\<rparr>)"

text \<open>A named pool that is not in the dictionary has no \<open>get_healthy_nodes\<close>: \<open>AttributeError\<close>.\<close>

definition get_healthy_nodes :: "login_nodes_status \<Rightarrow> string \<Rightarrow> int option result" where
  "get_healthy_nodes s pool_name =
     (if pool_name \<noteq> []
      then (case map_of (pool_status_dict s) pool_name of
              None \<Rightarrow> Inl AttributeError | Some p \<Rightarrow> Inr (ps_healthy_nodes p))
      else Inr (total_healthy_nodes s))"

definition get_unhealthy_nodes :: "login_nodes_status \<Rightarrow> string \<Rightarrow> int option result" where
  "get_unhealthy_nodes s pool_name =
     (if pool_name \<noteq> []
      then (case map_of (pool_status_dict s) pool_name of
              None \<Rightarrow> Inl AttributeError | Some p \<Rightarrow> Inr (ps_unhealthy_nodes p))
      else Inr (total_unhealthy_nodes s))"

section \<open>Counts\<close>

lemma make_pool_status_counts:
  "(ps_healthy_nodes (make_pool_status ob) = None \<longleftrightarrow> ps_unhealthy_nodes (make_pool_status ob) = None) \<and>
   (\<forall>h u. ps_healthy_nodes (make_pool_status ob) = Some h \<and> ps_unhealthy_nodes (make_pool_status ob) = Some u \<longrightarrow>
      0 \<le> h \<and> 0 \<le> u)"
  by (auto simp: make_pool_status_def retrieve_assigned_load_balancer_def populate_target_groups_def
      populate_target_group_health_def initial_pool_status_def Let_def
      split: list.splits option.splits if_splits)

lemma map_of_put_pool: "map_of (put_pool k v d) = (map_of d)(k \<mapsto> v)"
  by (induction d) auto

lemma keys_put_pool: "set (map fst (put_pool k v d)) = insert k (set (map fst d))"
  by (induction d) auto

lemma distinct_put_pool: "distinct (map fst d) \<Longrightarrow> distinct (map fst (put_pool k v d))"
  by (induction d) (use keys_put_pool in force)+

end
