(* ===== verification/ClusterState.thy ===== *)
theory ClusterState
  imports FleetStatus LoginNodes
begin

text \<open>
  The part of a \<open>Cluster\<close> object (\<open>pcluster/models/cluster.py\<close>) that the update checks
  consult: the compute fleet status, the login nodes status, the head node's state, and the two
  cached answers \<open>__has_running_capacity\<close> and \<open>__has_running_login_nodes\<close>.  Consulting the
  cluster writes the caches, so a check is a computation over the cluster that may raise:
  \<open>'a check\<close>.
\<close>

section \<open>Computations over the cluster\<close>

record cluster =
  cl_fleet_status :: compute_fleet_status
  cl_login_nodes_status :: login_nodes_status
  cl_head_node_state :: "string option"
  cl_has_running_capacity :: "bool option"
  cl_has_running_login_nodes :: "bool option"

type_synonym 'a check = "cluster \<Rightarrow> ('a \<times> cluster) result"

definition ret :: "'a \<Rightarrow> 'a check" where
  "ret x c = Inr (x, c)"

definition lift_result :: "'a result \<Rightarrow> 'a check" where
  "lift_result r c = rmap (\<lambda>x. (x, c)) r"

definition cbind :: "'a check \<Rightarrow> ('a \<Rightarrow> 'b check) \<Rightarrow> 'b check" where
  "cbind m f c = rbind (m c) (\<lambda>(x, c'). f x c')"

text \<open>Python's \<open>not\<close>, \<open>and\<close> and \<open>or\<close>: the right operand is only evaluated when needed.\<close>

definition c_not :: "bool check \<Rightarrow> bool check" where
  "c_not m = cbind m (\<lambda>b. ret (\<not> b))"

definition c_and :: "bool check \<Rightarrow> bool check \<Rightarrow> bool check" where
  "c_and m n = cbind m (\<lambda>b. if b then n else ret False)"

definition c_or :: "bool check \<Rightarrow> bool check \<Rightarrow> bool check" where
  "c_or m n = cbind m (\<lambda>b. if b then ret True else n)"

lemma ret_apply [simp]: "ret x c = Inr (x, c)"
  by (simp add: ret_def)

lemma lift_result_simps [simp]:
  "lift_result (Inr x) c = Inr (x, c)" "lift_result (Inl e) c = Inl e"
  by (simp_all add: lift_result_def)

lemma cbind_ret [simp]: "cbind (ret x) f = f x"
  by (rule ext) (simp add: cbind_def)

lemma cbind_apply: "cbind m f c = (case m c of Inl e \<Rightarrow> Inl e | Inr (x, c') \<Rightarrow> f x c')"
  by (cases "m c") (auto simp: cbind_def)

lemma cbind_Inr_iff:
  "cbind m f c = Inr (y, c') \<longleftrightarrow> (\<exists>x c1. m c = Inr (x, c1) \<and> f x c1 = Inr (y, c'))"
  by (auto simp: cbind_apply split: sum.splits)

lemma c_not_apply: "c_not m c = (case m c of Inl e \<Rightarrow> Inl e | Inr (b, c') \<Rightarrow> Inr (\<not> b, c'))"
  by (auto simp: c_not_def cbind_apply split: sum.splits)

lemma c_and_apply: "c_and m n c =
    (case m c of Inl e \<Rightarrow> Inl e | Inr (b, c') \<Rightarrow> if b then n c' else Inr (False, c'))"
  by (auto simp: c_and_def cbind_apply split: sum.splits)

lemma c_or_apply: "c_or m n c =
    (case m c of Inl e \<Rightarrow> Inl e | Inr (b, c') \<Rightarrow> if b then Inr (True, c') else n c')"
  by (auto simp: c_or_def cbind_apply split: sum.splits)

lemmas check_apply = cbind_apply c_not_apply c_and_apply c_or_apply

section \<open>Consulting the cluster\<close>

definition has_running_capacity :: "bool \<Rightarrow> bool check" where
  "has_running_capacity updated_value c =
     (let c' = (if cl_has_running_capacity c = None \<or> updated_value
                then c\<lparr>cl_has_running_capacity := Some (cl_fleet_status c \<noteq> STOPPED)\<rparr> else c)
      in Inr (the (cl_has_running_capacity c'), c'))"

definition has_running_login_nodes :: "bool \<Rightarrow> string \<Rightarrow> bool check" where
  "has_running_login_nodes updated_value pool_name c =
     rbind (get_healthy_nodes (cl_login_nodes_status c) pool_name) (\<lambda>healthy_nodes.
     rbind (get_unhealthy_nodes (cl_login_nodes_status c) pool_name) (\<lambda>unhealthy_nodes.
       let c' = (if cl_has_running_login_nodes c = None \<or> updated_value
                 then c\<lparr>cl_has_running_login_nodes := Some (case (healthy_nodes, unhealthy_nodes) of
                        (Some h, Some u) \<Rightarrow> h + u \<noteq> 0 | _ \<Rightarrow> False)\<rparr> else c)
       in Inr (the (cl_has_running_login_nodes c'), c')))"

definition head_node_instance_state :: "string check" where
  "head_node_instance_state c = (case cl_head_node_state c of
     None \<Rightarrow> Inl (Exc ''ClusterActionError'' ''Unable to retrieve head node information.'')
   | Some st \<Rightarrow> Inr (st, c))"

text \<open>A cluster object that has just been built: nothing is cached.\<close>

definition fresh :: "cluster \<Rightarrow> bool" where
  "fresh c \<longleftrightarrow> cl_has_running_capacity c = None \<and> cl_has_running_login_nodes c = None"

text \<open>What the cluster answers about its capacity, cached or not.\<close>

definition running :: "cluster \<Rightarrow> bool" where
  "running c = (case cl_has_running_capacity c of None \<Rightarrow> cl_fleet_status c \<noteq> STOPPED | Some b \<Rightarrow> b)"

lemma has_running_capacity_apply:
  "has_running_capacity False c = Inr (running c, c\<lparr>cl_has_running_capacity := Some (running c)\<rparr>)"
  by (cases c) (auto simp: has_running_capacity_def running_def Let_def split: option.splits)

lemma running_cached [simp]: "running (c\<lparr>cl_has_running_capacity := Some b\<rparr>) = b"
  by (simp add: running_def)

lemma running_login_cached [simp]: "running (c\<lparr>cl_has_running_login_nodes := x\<rparr>) = running c"
  by (simp add: running_def split: option.splits)

lemma has_running_login_nodes_state:
  assumes "has_running_login_nodes False p c = Inr (b, c')"
  shows "c' = c\<lparr>cl_has_running_login_nodes := Some b\<rparr>"
  using assms by (cases c) (auto simp: has_running_login_nodes_def rbind_Inr_iff Let_def split: if_splits)

lemma has_running_login_nodes_cached:
  assumes "cl_has_running_login_nodes c = Some b"
    and "get_healthy_nodes (cl_login_nodes_status c) p = Inr h"
    and "get_unhealthy_nodes (cl_login_nodes_status c) p = Inr u"
  shows "has_running_login_nodes False p c = Inr (b, c)"
  using assms by (simp add: has_running_login_nodes_def)

text \<open>
  The login-nodes answer is cached without the pool it was computed for: after one pool has been asked
  about, every other known pool gets the first pool's answer.
\<close>

lemma login_nodes_answer_ignores_pool:
  assumes "has_running_login_nodes False p1 c = Inr (b, c')"
    and "get_healthy_nodes (cl_login_nodes_status c) p2 = Inr h"
    and "get_unhealthy_nodes (cl_login_nodes_status c) p2 = Inr u"
  shows "has_running_login_nodes False p2 c' = Inr (b, c')"
  using has_running_login_nodes_state[OF assms(1)] assms(2,3)
  by (intro has_running_login_nodes_cached) auto

definition example_pool :: "int \<Rightarrow> int \<Rightarrow> pool_status" where
  "example_pool h u = initial_pool_status\<lparr>ps_healthy_nodes := Some h, ps_unhealthy_nodes := Some u\<rparr>"

definition example_cluster :: cluster where
  "example_cluster = \<lparr>cl_fleet_status = RUNNING,
     cl_login_nodes_status = \<lparr>pool_status_dict = [(''empty'', example_pool 0 0), (''busy'', example_pool 2 1)],
       login_nodes_pool_available = True, total_healthy_nodes = Some 2, total_unhealthy_nodes = Some 1\<rparr>,
     cl_head_node_state = Some ''running'', cl_has_running_capacity = None, cl_has_running_login_nodes = None\<rparr>"

end
