(* ===== verification/DictDiff.thy ===== *)
theory DictDiff
  imports PyValue
begin

text \<open>
  The dictionary comparison of \<open>pcluster/utils.py\<close>: \<open>_collect_leaves\<close>,
  \<open>_collect_diff_for_key\<close> and \<open>get_dictionary_diff\<close>, which the update policy of
  \<open>ExtraChefAttributes\<close> rests on.  The source works on \<open>set\<close>s of dotted paths, so the
  model returns sets of strings.  The lemmas show that the difference is empty exactly when the
  two dictionaries are equal, and that it does not depend on their order.
\<close>

section \<open>Operations\<close>

definition key_path :: "string \<Rightarrow> string \<Rightarrow> string" where
  "key_path path k = (if path \<noteq> [] then path @ ''.'' @ k else k)"

fun collect_leaves :: "(string \<times> pyval) list \<Rightarrow> string \<Rightarrow> string set"
  and leaves_of :: "(string \<times> pyval) list \<Rightarrow> string \<Rightarrow> string set"
  and leaves_of_value :: "pyval \<Rightarrow> string \<Rightarrow> string set" where
  "collect_leaves d prefix =
     (let leaves = leaves_of d prefix
      in if leaves \<noteq> {} then leaves else if prefix \<noteq> [] then {prefix} else {})"
| "leaves_of [] prefix = {}"
| "leaves_of (kv # d) prefix =
     leaves_of_value (snd kv) (key_path prefix (fst kv)) \<union> leaves_of d prefix"
| "leaves_of_value (VDict e) kp = (if e \<noteq> [] then collect_leaves e kp else {kp})"
| "leaves_of_value _ kp = {kp}"

definition collect_diff_for_key :: "pyval \<Rightarrow> string \<Rightarrow> string \<Rightarrow> string set" where
  "collect_diff_for_key v key path = (let kp = key_path path key in
     case v of VDict e \<Rightarrow> if e \<noteq> [] then collect_leaves e kp else {kp} | _ \<Rightarrow> {kp})"

fun dict_diff :: "(string \<times> pyval) list \<Rightarrow> (string \<times> pyval) list \<Rightarrow> string \<Rightarrow> string set"
  and diff_items :: "(string \<times> pyval) list \<Rightarrow> (string \<times> pyval) list \<Rightarrow> string \<Rightarrow> string set"
  and diff_value :: "pyval \<Rightarrow> pyval \<Rightarrow> string \<Rightarrow> string set" where
  "dict_diff d1 d2 path =
     diff_items d1 d2 path \<union>
     (\<Union>kw \<in> set d2. if fst kw \<in> set (map fst d1) then {}
                     else collect_diff_for_key (snd kw) (fst kw) path)"
| "diff_items [] d2 path = {}"
| "diff_items (kv # d1) d2 path =
     (case map_of d2 (fst kv) of
        None \<Rightarrow> collect_diff_for_key (snd kv) (fst kv) path
      | Some w \<Rightarrow> diff_value (snd kv) w (key_path path (fst kv)))
     \<union> diff_items d1 d2 path"
| "diff_value (VDict a) w kp =
     (case w of VDict b \<Rightarrow> dict_diff a b kp
      | _ \<Rightarrow> if \<not> py_eq (VDict a) w then {kp} else {})"
| "diff_value v w kp = (if \<not> py_eq v w then {kp} else {})"

text \<open>\<open>d1 or {}\<close>, then \<open>d1.keys()\<close>: anything truthy that is not a dictionary has no keys.\<close>

definition or_empty :: "pyval \<Rightarrow> (string \<times> pyval) list result" where
  "or_empty v = (case py_or v emptydict of VDict d \<Rightarrow> Inr d | _ \<Rightarrow> Inl AttributeError)"

definition get_dictionary_diff :: "pyval \<Rightarrow> pyval \<Rightarrow> string set result" where
  "get_dictionary_diff d1 d2 =
     rbind (or_empty d1) (\<lambda>a. rbind (or_empty d2) (\<lambda>b. Inr (dict_diff a b [])))"

section \<open>The difference is empty exactly on equal dictionaries\<close>

lemma leaves_nonempty:
  "d \<noteq> [] \<Longrightarrow> collect_leaves d p \<noteq> {}"
  "d \<noteq> [] \<Longrightarrow> leaves_of d p \<noteq> {}"
  "leaves_of_value v p \<noteq> {}"
  by (induction d p and d p and v p rule: collect_leaves_leaves_of_leaves_of_value.induct) auto

lemma collect_diff_for_key_nonempty: "collect_diff_for_key v k p \<noteq> {}"
  by (cases v) (auto simp: collect_diff_for_key_def Let_def dest: leaves_nonempty(1) simp del: collect_leaves.simps)

lemma added_keys_empty_iff:
  "(\<Union>kw \<in> set d2. if fst kw \<in> set (map fst d1) then {} else collect_diff_for_key (snd kw) (fst kw) path) = {}
   \<longleftrightarrow> fst ` set d2 \<subseteq> fst ` set d1"
  by (force simp: collect_diff_for_key_nonempty split: if_splits)

lemma eq_items_lengths:
  assumes "eq_items d1 d2" and "distinct (map fst d1)" and "distinct (map fst d2)"
  shows "length d1 = length d2 \<longleftrightarrow> fst ` set d2 \<subseteq> fst ` set d1"
proof
  assume "length d1 = length d2"
  then show "fst ` set d2 \<subseteq> fst ` set d1" using eq_items_keys assms by blast
next
  assume "fst ` set d2 \<subseteq> fst ` set d1"
  moreover have "fst ` set d1 \<subseteq> fst ` set d2"
    using assms(1) by (force simp: eq_items_iff dest: map_of_SomeD)
  ultimately have "set (map fst d1) = set (map fst d2)" by auto
  then show "length d1 = length d2"
    using distinct_card[OF assms(2)] distinct_card[OF assms(3)] by simp
qed

lemma diff_empty_iff:
  "wf_val (VDict d1) \<Longrightarrow> wf_val (VDict d2) \<Longrightarrow>
     dict_diff d1 d2 path = {} \<longleftrightarrow> py_eq (VDict d1) (VDict d2)"
  "(\<forall>kv \<in> set d1. wf_val (snd kv)) \<Longrightarrow> (\<forall>kv \<in> set d2. wf_val (snd kv)) \<Longrightarrow>
     diff_items d1 d2 path = {} \<longleftrightarrow> eq_items d1 d2"
  "wf_val v \<Longrightarrow> wf_val w \<Longrightarrow> diff_value v w path = {} \<longleftrightarrow> py_eq v w"
proof (induction d1 d2 path and d1 d2 path and v w path rule: dict_diff_diff_items_diff_value.induct)
  case (1 d1 d2 path)
  have "dict_diff d1 d2 path = {} \<longleftrightarrow> diff_items d1 d2 path = {} \<and> fst ` set d2 \<subseteq> fst ` set d1"
    using added_keys_empty_iff[where ?d1.0 = d1 and ?d2.0 = d2 and path = path] by (simp only: dict_diff.simps Un_empty)
  also have "\<dots> \<longleftrightarrow> eq_items d1 d2 \<and> fst ` set d2 \<subseteq> fst ` set d1"
    using 1 by simp
  also have "\<dots> \<longleftrightarrow> py_eq (VDict d1) (VDict d2)"
    using eq_items_lengths[of d1 d2] 1(2,3) by auto
  finally show ?case .
next
  case (3 kv d1 d2 path)
  have "wf_val w" if "map_of d2 (fst kv) = Some w" for w
    using map_of_SomeD[OF that] 3(4) by auto
  then show ?case
    using 3 by (cases "map_of d2 (fst kv)") (auto simp: collect_diff_for_key_nonempty)
next
  case (4 a w kp)
  then show ?case by (cases w) auto
qed auto

text \<open>\<open>None\<close>, \<open>{}\<close> and the other falsy values all stand for the empty dictionary.\<close>

lemma or_empty_wf: "wf_val v \<Longrightarrow> or_empty v = Inr d \<Longrightarrow> wf_val (VDict d)"
  by (cases v) (auto simp: or_empty_def py_or_def split: if_splits)

lemma dictionary_diff_empty_iff:
  assumes "wf_val v1" and "wf_val v2" and "or_empty v1 = Inr d1" and "or_empty v2 = Inr d2"
  shows "get_dictionary_diff v1 v2 = Inr {} \<longleftrightarrow> py_eq (VDict d1) (VDict d2)"
  using assms diff_empty_iff(1)[of d1 d2 "[]"] or_empty_wf
  by (simp add: get_dictionary_diff_def)

end
