(* ===== verification/UpdatePolicy.thy ===== *)
theory UpdatePolicy
  imports ClusterState DictDiff
begin

text \<open>
  The update policies of \<open>pcluster/config/update_policy.py\<close> (with
  \<open>update_policy_utils.py\<close>): the policy objects, the condition checkers, the failure reasons
  and the actions, and \<open>UpdatePolicy.check\<close>.  A function stored in a policy object is a
  constructor of a datatype, interpreted by \<open>run_checker\<close>, \<open>run_fail_reason\<close> and
  \<open>run_action_needed\<close>, so that policy objects can be compared as the code compares them.
\<close>

section \<open>Policy objects, changes and patches\<close>

datatype check_result = SUCCEEDED | ACTION_NEEDED | FAILED

datatype checker =
    Check_true
  | Check_false
  | Check_extra_chef_attributes
  | Check_queue_update_strategy
  | Check_resize_update_strategy_on_remove
  | Check_managed_placement_group
  | Check_shared_storage_update_policy
  | Check_compute_fleet_stop_on_remove
  | Check_compute_fleet_stop
  | Check_head_node_stop
  | Check_unless_adc
  | Check_managed_fsx
  | Check_login_nodes_pools
  | Check_login_nodes_stop
  | Check_login_nodes_pool_stop
  | Check_compute_and_login_nodes_stop

datatype reason =
    Reason_text string
  | Reason_extra_chef_attributes
  | Reason_queue_update_strategy
  | Reason_resize_update_strategy_on_remove
  | Reason_managed_placement_group
  | Reason_shared_storage_update_policy
  | Reason_managed_fsx
  | Reason_cookbook_update
  | Reason_login_nodes_running
  | Reason_login_nodes_pool_running
  | Reason_compute_or_login_nodes_running
  | Reason_read_only_resource_bucket
  | Reason_unsupported
  | Reason_unless_adc

datatype action =
    Action_text string
  | Action_pcluster_stop
  | Action_queue_update_strategy
  | Action_resize_update_strategy_on_remove
  | Action_managed_placement_group
  | Action_shared_storage_update
  | Action_managed_fsx
  | Action_login_nodes_stop
  | Action_extra_chef_attributes
  | Action_read_only_resource_bucket
  | Action_unsupported
  | Action_unless_adc
  | Action_compute_and_login_nodes_stop

record update_policy =
  up_name :: "string option"
  up_level :: int
  up_fail_reason :: "reason option"
  up_action_needed :: "action option"
  up_condition_checker :: "checker option"
  up_print_succeeded :: bool

record change =
  ch_path :: "string list"
  ch_key :: string
  ch_old_value :: pyval
  ch_new_value :: pyval
  ch_update_policy :: update_policy
  ch_is_list :: bool

text \<open>
  What a check reads of a patch.  The region of the environment and \<open>json.loads\<close> (\<open>None\<close>
  where it raises) are parameters; the cluster is the state of the \<open>check\<close> computations.
\<close>

record patch =
  base_config :: pyval
  target_config :: pyval
  changes :: "change list"
  env_region :: "string option"
  json_loads :: "string \<Rightarrow> pyval option"

text \<open>
  The constructor: what is given (and truthy) overrides what the base policy had;
  \<open>print_succeeded\<close> is never inherited.
\<close>

definition truthy_text :: "string option \<Rightarrow> bool" where
  "truthy_text x = (x \<noteq> None \<and> x \<noteq> Some [])"

definition init_update_policy ::
  "update_policy option \<Rightarrow> string option \<Rightarrow> int option \<Rightarrow> reason option \<Rightarrow> action option
    \<Rightarrow> checker option \<Rightarrow> bool \<Rightarrow> update_policy" where
  "init_update_policy base_policy name level fail_reason action_needed condition_checker print_succeeded =
     (let p = (case base_policy of
         None \<Rightarrow> \<lparr>up_name = None, up_level = 0, up_fail_reason = None, up_action_needed = None,
                  up_condition_checker = None, up_print_succeeded = print_succeeded\<rparr>
       | Some b \<Rightarrow> b\<lparr>up_print_succeeded := print_succeeded\<rparr>);
        p = (if truthy_text name then p\<lparr>up_name := name\<rparr> else p);
        p = (case level of Some l \<Rightarrow> if l \<noteq> 0 then p\<lparr>up_level := l\<rparr> else p | None \<Rightarrow> p);
        p = (if fail_reason \<noteq> None \<and> fail_reason \<noteq> Some (Reason_text []) then p\<lparr>up_fail_reason := fail_reason\<rparr> else p);
        p = (if action_needed \<noteq> None \<and> action_needed \<noteq> Some (Action_text []) then p\<lparr>up_action_needed := action_needed\<rparr> else p)
      in if condition_checker \<noteq> None then p\<lparr>up_condition_checker := condition_checker\<rparr> else p)"

text \<open>\<open>__eq__\<close> compares the failure reason and the level only.\<close>

definition policy_eq :: "update_policy \<Rightarrow> update_policy \<Rightarrow> bool" where
  "policy_eq p q \<longleftrightarrow> up_fail_reason p = up_fail_reason q \<and> up_level p = up_level q"

section \<open>Paths\<close>

definition is_slurm_queues_change :: "change \<Rightarrow> bool" where
  "is_slurm_queues_change change = list_ex (\<lambda>path. startswith path ''SlurmQueues['') (ch_path change)"

definition get_region :: "patch \<Rightarrow> string result" where
  "get_region patch = (case env_region patch of
     None \<Rightarrow> Inl (Exc ''AWSClientError'' ''AWS region not configured'') | Some r \<Rightarrow> Inr r)"

definition is_adc_region :: "patch \<Rightarrow> bool result" where
  "is_adc_region patch = rmap (\<lambda>region. startswith region ''us-iso'') (get_region patch)"

text \<open>
  \<open>re.search(".+(?=\\[)", s)\<close>: from the leftmost start that works, the longest non-empty run of
  characters other than a newline that is followed by the bracket; \<open>re.search("(?<=\\[).+(?=\\])", s)\<close>
  in addition starts right after an opening bracket.
\<close>

definition greedy_before :: "char \<Rightarrow> string \<Rightarrow> string option" where
  "greedy_before c s =
     (case rev (filter (\<lambda>j. j < length s \<and> s ! j = c)
                  [1..<Suc (length (takeWhile (\<lambda>x. x \<noteq> CHR 0x0A) s))]) of
        [] \<Rightarrow> None | j # _ \<Rightarrow> Some (take j s))"

definition search_type :: "string \<Rightarrow> string option" where
  "search_type s = find_map (\<lambda>i. greedy_before (CHR ''['') (drop i s)) [0..<length s]"

definition search_name :: "string \<Rightarrow> string option" where
  "search_name s = find_map
     (\<lambda>i. if s ! (i - 1) = CHR ''['' then greedy_before (CHR '']'') (drop i s) else None) [1..<length s]"

definition extract_type_and_name_from_path :: "string \<Rightarrow> (string \<times> string) result" where
  "extract_type_and_name_from_path path =
     (case search_type path of None \<Rightarrow> Inl AttributeError
      | Some obj_type \<Rightarrow> (case search_name path of None \<Rightarrow> Inl AttributeError
         | Some obj_name \<Rightarrow> Inr (obj_type, obj_name)))"

lemma extract_type_and_name_example:
  "extract_type_and_name_from_path ''SlurmQueues[slurm-q-name]'' = Inr (''SlurmQueues'', ''slurm-q-name'')"
  by code_simp

section \<open>Looking up the configuration\<close>

fun first_named :: "string \<Rightarrow> pyval list \<Rightarrow> pyval result" where
  "first_named n [] = Inr emptydict"
| "first_named n (x # xs) = rbind (py_get x ''Name'' VNone)
     (\<lambda>v. if py_eq v (VStr n) then Inr x else first_named n xs)"

text \<open>The last path element that names a list item of the given kind.\<close>

definition last_path_item :: "string \<Rightarrow> string list \<Rightarrow> (string \<times> string) option result" where
  "last_path_item marker path =
     rfold (\<lambda>p acc. if str_contains marker p then rmap Some (extract_type_and_name_from_path p) else Inr acc)
       path None"

definition get_q_from_config :: "change \<Rightarrow> pyval \<Rightarrow> pyval result" where
  "get_q_from_config change config =
     rbind (last_path_item ''Queues['' (ch_path change)) (\<lambda>q. case q of
       None \<Rightarrow> Inr emptydict
     | Some (q_type, q_name) \<Rightarrow>
         rbind (py_get config ''Scheduling'' emptydict) (\<lambda>scheduling.
         rbind (py_get scheduling q_type emptydict) (\<lambda>queues.
         rbind (py_iter queues) (first_named q_name))))"

definition get_cr_from_config :: "change \<Rightarrow> pyval \<Rightarrow> pyval result" where
  "get_cr_from_config change config =
     rbind (last_path_item ''ComputeResources['' (ch_path change)) (\<lambda>cr. case cr of
       None \<Rightarrow> Inr emptydict
     | Some (cr_type, cr_name) \<Rightarrow>
         rbind (get_q_from_config change config) (\<lambda>queue.
         rbind (py_get queue cr_type emptydict) (\<lambda>crs.
         rbind (py_iter crs) (first_named cr_name))))"

definition is_placement_group_managed_for_compute_resource :: "pyval \<Rightarrow> pyval \<Rightarrow> bool result" where
  "is_placement_group_managed_for_compute_resource queue_networking compute_resource_networking =
     rbind (py_get compute_resource_networking ''PlacementGroup'' VNone) (\<lambda>cr_pg.
     rbind (if truthy cr_pg then Inr cr_pg else py_get queue_networking ''PlacementGroup'' VNone) (\<lambda>chosen_pg.
     if \<not> truthy chosen_pg then Inr False
     else rbind (py_get chosen_pg ''Enabled'' VNone) (\<lambda>enabled.
          if \<not> truthy enabled then Inr False
          else rbind (py_get chosen_pg ''Name'' VNone) (\<lambda>name.
               if truthy name then Inr False
               else rmap (\<lambda>pg_id. \<not> truthy pg_id) (py_get chosen_pg ''Id'' VNone)))))"

definition networking_of :: "pyval result \<Rightarrow> pyval result" where
  "networking_of r = rbind r (\<lambda>v. py_get v ''Networking'' emptydict)"

definition is_managed_placement_group_deletion :: "change \<Rightarrow> patch \<Rightarrow> bool result" where
  "is_managed_placement_group_deletion change patch =
     rbind (networking_of (get_q_from_config change (base_config patch))) (\<lambda>base_q_networking.
     rbind (networking_of (get_cr_from_config change (base_config patch))) (\<lambda>base_cr_networking.
     rbind (networking_of (get_q_from_config change (target_config patch))) (\<lambda>target_q_networking.
     rbind (networking_of (get_cr_from_config change (target_config patch))) (\<lambda>target_cr_networking.
     rbind (is_placement_group_managed_for_compute_resource base_q_networking base_cr_networking) (\<lambda>b.
     if \<not> b then Inr False
     else rmap Not (is_placement_group_managed_for_compute_resource target_q_networking target_cr_networking))))))"

text \<open>\<open>x in v\<close>: a key of a dictionary, an element of a list, a part of a string.\<close>

fun py_in :: "pyval \<Rightarrow> pyval \<Rightarrow> bool result" where
  "py_in x (VDict d) =
     (case x of VStr k \<Rightarrow> Inr (k \<in> set (map fst d))
      | VList _ \<Rightarrow> Inl TypeError | VDict _ \<Rightarrow> Inl TypeError | _ \<Rightarrow> Inr False)"
| "py_in x (VList xs) = Inr (list_ex (py_eq x) xs)"
| "py_in x (VStr s) = (case x of VStr k \<Rightarrow> Inr (str_contains k s) | _ \<Rightarrow> Inl TypeError)"
| "py_in x _ = Inl TypeError"

definition is_managed_fsx :: "pyval \<Rightarrow> bool result" where
  "is_managed_fsx storage =
     rbind (py_get storage ''StorageType'' VNone) (\<lambda>st.
     if \<not> py_eq st (VStr ''FsxLustre'') then Inr False
     else rbind (py_get storage ''FsxLustreSettings'' emptydict) (\<lambda>settings.
          rmap Not (py_in (VStr ''FileSystemId'') settings)))"

fun rfilter :: "('a \<Rightarrow> bool result) \<Rightarrow> 'a list \<Rightarrow> 'a list result" where
  "rfilter p [] = Inr []"
| "rfilter p (x # xs) = rbind (p x) (\<lambda>b. rmap (\<lambda>ys. if b then x # ys else ys) (rfilter p xs))"

definition get_managed_fsx_from_config :: "pyval \<Rightarrow> pyval list result" where
  "get_managed_fsx_from_config config =
     rbind (py_get config ''SharedStorage'' (VList [])) (\<lambda>storages.
     rbind (py_iter storages) (rfilter is_managed_fsx))"

text \<open>Elements of a Python \<open>set\<close> have to be hashable: a list or a dictionary is not.\<close>

definition hashable_name :: "pyval \<Rightarrow> pyval result" where
  "hashable_name fsx = rbind (py_get fsx ''Name'' VNone)
     (\<lambda>n. if is_list n \<or> is_dict n then Inl TypeError else Inr n)"

definition unchanged_managed_fsx_lustre_names :: "patch \<Rightarrow> pyval list result" where
  "unchanged_managed_fsx_lustre_names patch =
     rbind (rbind (get_managed_fsx_from_config (base_config patch)) (rmap_list hashable_name)) (\<lambda>before.
     rbind (rbind (get_managed_fsx_from_config (target_config patch)) (rmap_list hashable_name)) (\<lambda>after.
     Inr (filter (\<lambda>n. list_ex (py_eq n) after) before)))"

section \<open>Shared storage\<close>

definition EXTERNAL_STORAGE_KEYS :: "string list" where
  "EXTERNAL_STORAGE_KEYS = [''VolumeId'', ''FileSystemId'', ''FileCacheId'']"

definition STORAGE_TYPES_SUPPORTING_LIVE_UPDATES :: "string list" where
  "STORAGE_TYPES_SUPPORTING_LIVE_UPDATES =
     [''Efs'', ''FsxLustre'', ''FsxOntap'', ''FsxOpenZfs'', ''FileCache'']"

record shared_storage_change_info =
  is_mount :: bool
  is_unmount :: bool
  is_external :: bool
  storage_type :: pyval

fun rany :: "('a \<Rightarrow> bool result) \<Rightarrow> 'a list \<Rightarrow> bool result" where
  "rany p [] = Inr False"
| "rany p (x # xs) = rbind (p x) (\<lambda>b. if b then Inr True else rany p xs)"

definition make_shared_storage_change_info :: "change \<Rightarrow> shared_storage_change_info result" where
  "make_shared_storage_change_info change =
     (let old_value = ch_old_value change; new_value = ch_new_value change;
          is_storage_list_change = (ch_is_list change \<and> ch_key change = ''SharedStorage'');
          storage_item = (if new_value \<noteq> VNone then new_value else old_value)
      in rbind (py_get storage_item ''StorageType'' VNone) (\<lambda>st.
         rbind (py_get storage_item (py_str st @ ''Settings'') emptydict) (\<lambda>settings.
         rmap (\<lambda>ext. \<lparr>is_mount = (is_storage_list_change \<and> old_value = VNone \<and> new_value \<noteq> VNone),
                   is_unmount = (is_storage_list_change \<and> old_value \<noteq> VNone \<and> new_value = VNone),
                   is_external = ext, storage_type = st\<rparr>)
           (rany (\<lambda>key. py_in (VStr key) settings) EXTERNAL_STORAGE_KEYS))))"

definition is_live_update_supported :: "change \<Rightarrow> bool result" where
  "is_live_update_supported change =
     rmap (\<lambda>i. is_external i \<and> list_ex (\<lambda>t. py_eq (storage_type i) (VStr t)) STORAGE_TYPES_SUPPORTING_LIVE_UPDATES)
       (make_shared_storage_change_info change)"

definition is_login_fleet_update_supported_for_shared_storage :: "change \<Rightarrow> bool result" where
  "is_login_fleet_update_supported_for_shared_storage change = is_live_update_supported change"

definition is_compute_fleet_update_supported_for_shared_storage :: "change \<Rightarrow> bool result" where
  "is_compute_fleet_update_supported_for_shared_storage change = is_live_update_supported change"

definition QUEUE_UPDATE_STRATEGY_DEFAULT :: string where
  "QUEUE_UPDATE_STRATEGY_DEFAULT = ''COMPUTE_FLEET_STOP''"

definition target_queue_update_strategy :: "patch \<Rightarrow> pyval result" where
  "target_queue_update_strategy patch =
     rbind (py_get (target_config patch) ''Scheduling'' VNone) (\<lambda>scheduling.
     rbind (py_get scheduling ''SlurmSettings'' emptydict) (\<lambda>settings.
     py_get settings ''QueueUpdateStrategy'' (VStr QUEUE_UPDATE_STRATEGY_DEFAULT)))"

definition is_queue_update_strategy_set :: "patch \<Rightarrow> bool result" where
  "is_queue_update_strategy_set patch =
     rmap (\<lambda>v. \<not> py_eq v (VStr QUEUE_UPDATE_STRATEGY_DEFAULT)) (target_queue_update_strategy patch)"

definition is_resize_update_strategy_terminate :: "patch \<Rightarrow> bool result" where
  "is_resize_update_strategy_terminate patch =
     rmap (\<lambda>v. py_eq v (VStr ''TERMINATE'')) (target_queue_update_strategy patch)"

definition is_compute_fleet_stop_required_for_shared_storage_change :: "change \<Rightarrow> patch \<Rightarrow> bool check" where
  "is_compute_fleet_stop_required_for_shared_storage_change change patch =
     c_and (has_running_capacity False)
       (c_and (c_not (lift_result (is_compute_fleet_update_supported_for_shared_storage change)))
              (c_not (lift_result (is_queue_update_strategy_set patch))))"

definition is_login_fleet_stop_required_for_shared_storage_change :: "change \<Rightarrow> bool check" where
  "is_login_fleet_stop_required_for_shared_storage_change change =
     c_and (has_running_login_nodes False [])
       (c_not (lift_result (is_login_fleet_update_supported_for_shared_storage change)))"

definition mounts_home :: "pyval \<Rightarrow> bool result" where
  "mounts_home v = (if \<not> truthy v then Inr False
     else rmap (\<lambda>d. py_eq d (VStr ''home'') \<or> py_eq d (VStr ''/home'')) (py_get v ''MountDir'' VNone))"

definition is_home_change :: "change \<Rightarrow> bool result" where
  "is_home_change change =
     (if ch_key change = ''SharedStorage''
      then rbind (mounts_home (ch_old_value change)) (\<lambda>b. if b then Inr True else mounts_home (ch_new_value change))
      else Inr False)"

section \<open>Condition checkers\<close>

definition condition_checker_compute_fleet_stop_on_remove :: "change \<Rightarrow> patch \<Rightarrow> bool check" where
  "condition_checker_compute_fleet_stop_on_remove change patch =
     cbind (c_not (has_running_capacity False)) (\<lambda>result.
     ret (if ch_is_list change \<and> (is_slurm_queues_change change \<or> ch_key change = ''SlurmQueues'')
          then result \<or> (ch_old_value change = VNone \<and> ch_new_value change \<noteq> VNone) else result))"

definition condition_checker_queue_update_strategy :: "change \<Rightarrow> patch \<Rightarrow> bool check" where
  "condition_checker_queue_update_strategy change patch =
     (if is_slurm_queues_change change
      then c_or (c_not (has_running_capacity False)) (lift_result (is_queue_update_strategy_set patch))
      else c_not (has_running_capacity False))"

text \<open>\<open>int(value)\<close>: a decimal text, the integral part of a float (in positional notation), a number.\<close>

definition nat_of_digits :: "string \<Rightarrow> int result" where
  "nat_of_digits s = (if s \<noteq> [] \<and> list_all is_digit s
     then Inr (foldl (\<lambda>n c. 10 * n + (int (of_char c) - 48)) 0 s) else Inl ValueError)"

definition int_of_text :: "string \<Rightarrow> int result" where
  "int_of_text s = (case s of
      c # r \<Rightarrow> if c = CHR ''-'' then rmap uminus (nat_of_digits r)
               else if c = CHR ''+'' then nat_of_digits r else nat_of_digits s
    | [] \<Rightarrow> Inl ValueError)"

fun py_int :: "pyval \<Rightarrow> int result" where
  "py_int (VInt i) = Inr i"
| "py_int (VBool b) = Inr (if b then 1 else 0)"
| "py_int (VStr s) = int_of_text s"
| "py_int (VFloat t) = int_of_text (takeWhile (\<lambda>c. c \<noteq> CHR ''.'') t)"
| "py_int _ = Inl TypeError"

definition DEFAULT_MAX_COUNT :: int where "DEFAULT_MAX_COUNT = 10"
definition DEFAULT_MIN_COUNT :: int where "DEFAULT_MIN_COUNT = 0"

definition convert_value_to_int :: "pyval \<Rightarrow> int \<Rightarrow> int result" where
  "convert_value_to_int value dflt = (if value \<noteq> VNone then py_int value else Inr dflt)"

definition max_count_not_decreased :: "change \<Rightarrow> bool result" where
  "max_count_not_decreased change =
     rbind (convert_value_to_int (ch_new_value change) DEFAULT_MAX_COUNT) (\<lambda>n.
     rmap (\<lambda>old. old \<le> n) (convert_value_to_int (ch_old_value change) DEFAULT_MAX_COUNT))"

definition min_count_follows_max_count :: "change \<Rightarrow> patch \<Rightarrow> bool result" where
  "min_count_follows_max_count change patch =
     (case find (\<lambda>other. ch_path change = ch_path other \<and> ch_key other = ''MaxCount'') (changes patch) of
        None \<Rightarrow> Inr False
      | Some other_change \<Rightarrow>
          rbind (convert_value_to_int (ch_new_value other_change) DEFAULT_MAX_COUNT) (\<lambda>other_change_new_value.
          rbind (convert_value_to_int (ch_old_value other_change) DEFAULT_MAX_COUNT) (\<lambda>other_change_old_value.
          rbind (convert_value_to_int (ch_new_value change) DEFAULT_MIN_COUNT) (\<lambda>change_new_value.
          rbind (convert_value_to_int (ch_old_value change) DEFAULT_MIN_COUNT) (\<lambda>change_old_value.
          Inr (other_change_new_value - other_change_old_value \<ge> change_new_value - change_old_value))))))"

definition condition_checker_resize_update_strategy_on_remove :: "change \<Rightarrow> patch \<Rightarrow> bool check" where
  "condition_checker_resize_update_strategy_on_remove change patch =
     cbind (c_not (has_running_capacity False)) (\<lambda>result.
     cbind (if \<not> result \<and> (is_slurm_queues_change change \<or> ch_key change = ''SlurmQueues'')
            then cbind (lift_result (is_resize_update_strategy_terminate patch)) (\<lambda>result.
                 ret (if \<not> result \<and> ch_is_list change
                      then ch_old_value change = VNone \<and> ch_new_value change \<noteq> VNone else result))
            else ret result) (\<lambda>result.
     cbind (if \<not> result \<and> ch_key change = ''MaxCount''
            then lift_result (max_count_not_decreased change) else ret result) (\<lambda>result.
     if \<not> result \<and> ch_key change = ''MinCount''
     then lift_result (min_count_follows_max_count change patch) else ret result)))"

fun rall :: "('a \<Rightarrow> bool result) \<Rightarrow> 'a list \<Rightarrow> bool result" where
  "rall p [] = Inr True"
| "rall p (x # xs) = rbind (p x) (\<lambda>b. if b then rall p xs else Inr False)"

definition only_adds_elements :: "change \<Rightarrow> bool result" where
  "only_adds_elements change = (case ch_old_value change of
      VList xs \<Rightarrow> rall (\<lambda>value. py_in value (ch_new_value change)) xs
    | _ \<Rightarrow> Inr False)"

definition condition_checker_queue_update_strategy_on_remove :: "change \<Rightarrow> patch \<Rightarrow> bool check" where
  "condition_checker_queue_update_strategy_on_remove change patch =
     (if is_slurm_queues_change change
      then c_or (c_not (has_running_capacity False))
             (c_or (lift_result (is_queue_update_strategy_set patch)) (lift_result (only_adds_elements change)))
      else c_not (has_running_capacity False))"

definition condition_checker_managed_placement_group :: "change \<Rightarrow> patch \<Rightarrow> bool check" where
  "condition_checker_managed_placement_group change patch =
     cbind (c_and (lift_result (is_managed_placement_group_deletion change patch)) (has_running_capacity False))
       (\<lambda>b. if b then ret False else condition_checker_queue_update_strategy change patch)"

definition condition_checker_managed_fsx :: "change \<Rightarrow> patch \<Rightarrow> bool check" where
  "condition_checker_managed_fsx change patch =
     cbind (lift_result (unchanged_managed_fsx_lustre_names patch))
       (\<lambda>names. if names \<noteq> [] then ret False else condition_checker_queue_update_strategy_on_remove change patch)"

definition condition_checker_shared_storage_update_policy :: "change \<Rightarrow> patch \<Rightarrow> bool check" where
  "condition_checker_shared_storage_update_policy change patch =
     cbind (lift_result (is_home_change change)) (\<lambda>home.
     if home then ret False else
     cbind (c_and (has_running_login_nodes False [])
              (c_not (lift_result (is_login_fleet_update_supported_for_shared_storage change)))) (\<lambda>login_stop.
     if login_stop then ret False else
     cbind (c_and (has_running_capacity False)
              (c_and (c_not (lift_result (is_compute_fleet_update_supported_for_shared_storage change)))
                     (c_not (lift_result (is_queue_update_strategy_set patch))))) (\<lambda>fleet_stop.
     if fleet_stop then ret False else ret True)))"

definition condition_checker_login_nodes_pools_policy :: "change \<Rightarrow> bool check" where
  "condition_checker_login_nodes_pools_policy change =
     cbind (c_not (has_running_login_nodes False [])) (\<lambda>result.
     ret (if ch_is_list change \<and> ch_key change = ''Pools''
          then result \<or> (ch_old_value change = VNone \<and> ch_new_value change \<noteq> VNone) else result))"

definition condition_checker_login_nodes_stop_policy :: "bool check" where
  "condition_checker_login_nodes_stop_policy = c_not (has_running_login_nodes False [])"

fun pool_name_of_paths :: "string list \<Rightarrow> string result" where
  "pool_name_of_paths [] = Inr []"
| "pool_name_of_paths (path # paths) =
     (if str_contains ''Pools['' path then rmap snd (extract_type_and_name_from_path path)
      else pool_name_of_paths paths)"

definition get_pool_name_from_change_paths :: "change \<Rightarrow> string result" where
  "get_pool_name_from_change_paths change = pool_name_of_paths (ch_path change)"

definition condition_checker_login_nodes_pool_stop_policy :: "change \<Rightarrow> bool check" where
  "condition_checker_login_nodes_pool_stop_policy change =
     cbind (lift_result (get_pool_name_from_change_paths change))
       (\<lambda>pool_name. c_not (has_running_login_nodes False pool_name))"

definition EXTRA_CHEF_ATTRIBUTES_UPDATABLE_PATHS :: "string list" where
  "EXTRA_CHEF_ATTRIBUTES_UPDATABLE_PATHS =
     [''cluster.slurm.reconfigure_timeout'',
      ''cluster.cluster_readiness_check_enabled'',
      ''cluster.cluster_readiness_check_ignore_failure'']"

text \<open>
  \<open>parse_json_string(value, raise_on_error=False, default={})\<close>: what is not a string makes
  \<open>json.loads\<close> raise \<open>TypeError\<close>, which is caught like a decoding error.
\<close>

definition parse_json_string :: "(string \<Rightarrow> pyval option) \<Rightarrow> pyval \<Rightarrow> pyval \<Rightarrow> pyval" where
  "parse_json_string loads value dflt =
     (case value of VStr s \<Rightarrow> (case loads s of None \<Rightarrow> dflt | Some v \<Rightarrow> v) | _ \<Rightarrow> dflt)"

definition get_non_updatable_changes ::
  "(string \<Rightarrow> pyval option) \<Rightarrow> pyval \<Rightarrow> pyval \<Rightarrow> string set result" where
  "get_non_updatable_changes loads old_value new_value =
     (let old_attrs = (if truthy old_value then parse_json_string loads old_value emptydict else emptydict);
          new_attrs = (if truthy new_value then parse_json_string loads new_value emptydict else emptydict)
      in rmap (Set.filter (\<lambda>p. p \<notin> set EXTRA_CHEF_ATTRIBUTES_UPDATABLE_PATHS))
           (get_dictionary_diff old_attrs new_attrs))"

definition condition_checker_extra_chef_attributes :: "change \<Rightarrow> patch \<Rightarrow> bool result" where
  "condition_checker_extra_chef_attributes change patch =
     rmap Set.is_empty (get_non_updatable_changes (json_loads patch) (ch_old_value change) (ch_new_value change))"

text \<open>Calling the checker a policy holds.\<close>

fun run_checker :: "checker \<Rightarrow> change \<Rightarrow> patch \<Rightarrow> bool check" where
  "run_checker Check_true change patch = ret True"
| "run_checker Check_false change patch = ret False"
| "run_checker Check_extra_chef_attributes change patch =
     lift_result (condition_checker_extra_chef_attributes change patch)"
| "run_checker Check_queue_update_strategy change patch = condition_checker_queue_update_strategy change patch"
| "run_checker Check_resize_update_strategy_on_remove change patch =
     condition_checker_resize_update_strategy_on_remove change patch"
| "run_checker Check_managed_placement_group change patch = condition_checker_managed_placement_group change patch"
| "run_checker Check_shared_storage_update_policy change patch =
     condition_checker_shared_storage_update_policy change patch"
| "run_checker Check_compute_fleet_stop_on_remove change patch =
     condition_checker_compute_fleet_stop_on_remove change patch"
| "run_checker Check_compute_fleet_stop change patch = c_not (has_running_capacity False)"
| "run_checker Check_head_node_stop change patch =
     cbind head_node_instance_state (\<lambda>state. ret (state = ''stopped''))"
| "run_checker Check_unless_adc change patch = c_not (lift_result (is_adc_region patch))"
| "run_checker Check_managed_fsx change patch = condition_checker_managed_fsx change patch"
| "run_checker Check_login_nodes_pools change patch = condition_checker_login_nodes_pools_policy change"
| "run_checker Check_login_nodes_stop change patch = condition_checker_login_nodes_stop_policy"
| "run_checker Check_login_nodes_pool_stop change patch = condition_checker_login_nodes_pool_stop_policy change"
| "run_checker Check_compute_and_login_nodes_stop change patch =
     c_and (c_not (has_running_capacity False)) condition_checker_login_nodes_stop_policy"

section \<open>Failure reasons and actions\<close>

definition fail_reason_queue_update_strategy :: "change \<Rightarrow> string" where
  "fail_reason_queue_update_strategy change =
     ''All compute nodes must be stopped'' @
     (if is_slurm_queues_change change then '' or QueueUpdateStrategy must be set'' else '''')"

definition fail_reason_resize_update_strategy_on_remove :: string where
  "fail_reason_resize_update_strategy_on_remove =
     ''All compute nodes must be stopped or QueueUpdateStrategy must be set to TERMINATE''"

definition fail_reason_managed_placement_group :: "change \<Rightarrow> patch \<Rightarrow> string result" where
  "fail_reason_managed_placement_group change patch =
     rmap (\<lambda>b. if b then ''All compute nodes must be stopped for a managed placement group deletion''
               else fail_reason_queue_update_strategy change)
       (is_managed_placement_group_deletion change patch)"

definition fail_reason_managed_fsx :: "change \<Rightarrow> patch \<Rightarrow> string result" where
  "fail_reason_managed_fsx change patch =
     rmap (\<lambda>names. if names \<noteq> [] then
         ch_key change @ '' configuration cannot be updated when a managed FSx for Lustre file system is configured. '' @
         ''Forcing an update would trigger a deletion of the existing file system and result in potential data loss''
       else fail_reason_queue_update_strategy change)
       (unchanged_managed_fsx_lustre_names patch)"

definition fail_reason_shared_storage_update_policy :: "change \<Rightarrow> patch \<Rightarrow> string check" where
  "fail_reason_shared_storage_update_policy change patch =
     cbind (lift_result (is_home_change change)) (\<lambda>home.
     if home then ret ''The /home directory cannot be changed during an update'' else
     cbind (is_compute_fleet_stop_required_for_shared_storage_change change patch) (\<lambda>fleet.
     cbind (is_login_fleet_stop_required_for_shared_storage_change change) (\<lambda>login.
     ret (join '' ''
       ((if fleet then [''All compute nodes must be stopped or QueueUpdateStrategy must be set.''] else []) @
        (if login then [''All login nodes must be stopped''] else []))))))"

definition fail_reason_extra_chef_attributes :: "change \<Rightarrow> patch \<Rightarrow> string result" where
  "fail_reason_extra_chef_attributes change patch =
     rmap (\<lambda>paths. ''The following ExtraChefAttributes fields cannot be updated: '' @
                  join '', '' (sorted_list_of_set paths))
       (get_non_updatable_changes (json_loads patch) (ch_old_value change) (ch_new_value change))"

definition quoted :: "string \<Rightarrow> string" where
  "quoted s = CHR 0x27 # s @ [CHR 0x27]"

definition fail_reason_read_only_resource_bucket :: "change \<Rightarrow> string" where
  "fail_reason_read_only_resource_bucket change =
     quoted (ch_key change) @ '' parameter is a read only parameter that cannot be updated. '' @
     ''New value '' @ quoted (py_str (ch_new_value change)) @ '' will be ignored and old value '' @
     quoted (py_str (ch_old_value change)) @ '' will be used if you force the update.''"

fun run_fail_reason :: "reason \<Rightarrow> change \<Rightarrow> patch \<Rightarrow> string check" where
  "run_fail_reason (Reason_text t) change patch = ret t"
| "run_fail_reason Reason_extra_chef_attributes change patch =
     lift_result (fail_reason_extra_chef_attributes change patch)"
| "run_fail_reason Reason_queue_update_strategy change patch = ret (fail_reason_queue_update_strategy change)"
| "run_fail_reason Reason_resize_update_strategy_on_remove change patch =
     ret fail_reason_resize_update_strategy_on_remove"
| "run_fail_reason Reason_managed_placement_group change patch =
     lift_result (fail_reason_managed_placement_group change patch)"
| "run_fail_reason Reason_shared_storage_update_policy change patch =
     fail_reason_shared_storage_update_policy change patch"
| "run_fail_reason Reason_managed_fsx change patch = lift_result (fail_reason_managed_fsx change patch)"
| "run_fail_reason Reason_cookbook_update change patch = ret
     (''Updating cookbook related parameter is not supported because it only '' @
      ''applies updates to compute nodes. If you still want to proceed, first stop the compute fleet with the '' @
      ''pcluster update-compute-fleet command and then run an update with the --force-update flag'')"
| "run_fail_reason Reason_login_nodes_running change patch =
     ret ''The update is not supported when login nodes are running''"
| "run_fail_reason Reason_login_nodes_pool_running change patch =
     lift_result (rmap (\<lambda>pool. ''The update is not supported when login nodes in '' @ pool @ '' are running'')
       (get_pool_name_from_change_paths change))"
| "run_fail_reason Reason_compute_or_login_nodes_running change patch =
     ret ''The update is not supported when compute or login nodes are running''"
| "run_fail_reason Reason_read_only_resource_bucket change patch =
     ret (fail_reason_read_only_resource_bucket change)"
| "run_fail_reason Reason_unsupported change patch = ret
     (''Update actions are not currently supported for the '' @ quoted (ch_key change) @ '' parameter'')"
| "run_fail_reason Reason_unless_adc change patch = ret
     (''Updating '' @ quoted (ch_key change) @ '' during a cluster update is not supported in ADC regions.'')"

definition action_pcluster_stop :: string where
  "action_pcluster_stop = ''Stop the compute fleet with the pcluster update-compute-fleet command''"

definition actions_needed_queue_update_strategy :: "change \<Rightarrow> string" where
  "actions_needed_queue_update_strategy change = action_pcluster_stop @
     (if is_slurm_queues_change change
      then '', or set QueueUpdateStrategy in the configuration used for the '' @ quoted ''update-cluster'' @ '' operation''
      else '''')"

definition actions_needed_resize_update_strategy_on_remove :: string where
  "actions_needed_resize_update_strategy_on_remove =
     ''Stop the compute fleet or set QueueUpdateStrategy:TERMINATE in config '' @
     ''to remove nodes from the scheduler, terminate the associated instances & any running jobs''"

definition actions_needed_managed_placement_group :: "change \<Rightarrow> patch \<Rightarrow> string result" where
  "actions_needed_managed_placement_group change patch =
     rmap (\<lambda>b. if b then action_pcluster_stop @ ''.'' else actions_needed_queue_update_strategy change)
       (is_managed_placement_group_deletion change patch)"

definition action_compute_nodes_stop :: string where
  "action_compute_nodes_stop = action_pcluster_stop @
     '', or set QueueUpdateStrategy in the configuration used for the '' @ quoted ''update-cluster'' @ '' operation.''"

definition action_login_nodes_stop :: string where
  "action_login_nodes_stop = ''Stop the login nodes by setting Count parameter to 0 '' @
     ''and update the cluster with the pcluster update-cluster command''"

definition actions_needed_shared_storage_update :: "change \<Rightarrow> patch \<Rightarrow> string check" where
  "actions_needed_shared_storage_update change patch =
     cbind (lift_result (is_home_change change)) (\<lambda>home.
     if home then ret ''Please revert any changes to the /home mount'' else
     cbind (is_compute_fleet_stop_required_for_shared_storage_change change patch) (\<lambda>fleet.
     cbind (is_login_fleet_stop_required_for_shared_storage_change change) (\<lambda>login.
     ret (join '' '' ((if fleet then [action_compute_nodes_stop] else []) @
                     (if login then [action_login_nodes_stop] else []))))))"

definition actions_needed_managed_fsx :: "change \<Rightarrow> patch \<Rightarrow> string result" where
  "actions_needed_managed_fsx change patch =
     rmap (\<lambda>names. if names \<noteq> [] then
         ''If you intend to preserve the same file system or you want to create a new one please refer to the '' @
         ''shared storage section in ParallelCluster user guide.''
       else actions_needed_queue_update_strategy change)
       (unchanged_managed_fsx_lustre_names patch)"

definition action_unsupported :: "change \<Rightarrow> string" where
  "action_unsupported change =
     (if ch_old_value change \<noteq> VNone
      then ''Restore '' @ quoted (ch_key change) @ '' value to '' @ quoted (py_str (ch_old_value change))
      else (if ch_is_list change then ''Restore'' else ''Remove'') @ '' the parameter '' @ quoted (ch_key change))
     @ ''. If you need this change, please consider creating a new cluster instead of updating the existing one.''"

fun run_action_needed :: "action \<Rightarrow> change \<Rightarrow> patch \<Rightarrow> string check" where
  "run_action_needed (Action_text t) change patch = ret t"
| "run_action_needed Action_pcluster_stop change patch = ret action_pcluster_stop"
| "run_action_needed Action_queue_update_strategy change patch = ret (actions_needed_queue_update_strategy change)"
| "run_action_needed Action_resize_update_strategy_on_remove change patch =
     ret actions_needed_resize_update_strategy_on_remove"
| "run_action_needed Action_managed_placement_group change patch =
     lift_result (actions_needed_managed_placement_group change patch)"
| "run_action_needed Action_shared_storage_update change patch = actions_needed_shared_storage_update change patch"
| "run_action_needed Action_managed_fsx change patch = lift_result (actions_needed_managed_fsx change patch)"
| "run_action_needed Action_login_nodes_stop change patch = ret action_login_nodes_stop"
| "run_action_needed Action_extra_chef_attributes change patch =
     ret ''Revert the non-updatable ExtraChefAttributes fields to their original values.''"
| "run_action_needed Action_read_only_resource_bucket change patch = ret
     (''Restore the value of parameter '' @ quoted (ch_key change) @ '' to '' @ quoted (py_str (ch_old_value change)))"
| "run_action_needed Action_unsupported change patch = ret (action_unsupported change)"
| "run_action_needed Action_unless_adc change patch = ret
     (''Restore '' @ quoted (ch_key change) @ '' to its previous value.'')"
| "run_action_needed Action_compute_and_login_nodes_stop change patch = ret
     (action_pcluster_stop @ ''. '' @ action_login_nodes_stop)"

section \<open>The policies\<close>

definition ebs_volume_resize :: string where
  "ebs_volume_resize = ''Updating the file system after a resize operation requires commands specific to your '' @
     ''operating system.''"

definition ebs_volume_update :: string where
  "ebs_volume_update = ''Follow the instructions at '' @
     ''https://docs.aws.amazon.com/AWSEC2/latest/UserGuide/requesting-ebs-volume-modifications.html'' @
     ''#modify-ebs-volume to modify your volume from AWS Console.''"

definition IGNORED :: update_policy where
  "IGNORED = init_update_policy None (Some ''IGNORED'') (Some (-10)) (Some (Reason_text ''-'')) None
     (Some Check_true) False"

definition SUPPORTED :: update_policy where
  "SUPPORTED = init_update_policy None (Some ''SUPPORTED'') (Some 0) (Some (Reason_text ''-'')) None
     (Some Check_true) True"

definition EXTRA_CHEF_ATTRIBUTES :: update_policy where
  "EXTRA_CHEF_ATTRIBUTES = init_update_policy None (Some ''EXTRA_CHEF_ATTRIBUTES'') (Some 5)
     (Some Reason_extra_chef_attributes) (Some Action_extra_chef_attributes)
     (Some Check_extra_chef_attributes) True"

definition QUEUE_UPDATE_STRATEGY :: update_policy where
  "QUEUE_UPDATE_STRATEGY = init_update_policy None (Some ''QUEUE_UPDATE_STRATEGY'') (Some 5)
     (Some Reason_queue_update_strategy) (Some Action_queue_update_strategy)
     (Some Check_queue_update_strategy) True"

definition RESIZE_UPDATE_STRATEGY_ON_REMOVE :: update_policy where
  "RESIZE_UPDATE_STRATEGY_ON_REMOVE = init_update_policy None (Some ''RESIZE_UPDATE_STRATEGY_ON_REMOVE'') (Some 5)
     (Some Reason_resize_update_strategy_on_remove) (Some Action_resize_update_strategy_on_remove)
     (Some Check_resize_update_strategy_on_remove) True"

definition MANAGED_PLACEMENT_GROUP :: update_policy where
  "MANAGED_PLACEMENT_GROUP = init_update_policy None (Some ''MANAGED_PLACEMENT_GROUP'') (Some 5)
     (Some Reason_managed_placement_group) (Some Action_managed_placement_group)
     (Some Check_managed_placement_group) True"

definition SHARED_STORAGE_UPDATE_POLICY :: update_policy where
  "SHARED_STORAGE_UPDATE_POLICY = init_update_policy None (Some ''SHARED_STORAGE_UPDATE_POLICY'') (Some 6)
     (Some Reason_shared_storage_update_policy) (Some Action_shared_storage_update)
     (Some Check_shared_storage_update_policy) True"

definition COMPUTE_FLEET_STOP_ON_REMOVE :: update_policy where
  "COMPUTE_FLEET_STOP_ON_REMOVE = init_update_policy None (Some ''COMPUTE_FLEET_STOP_ON_REMOVE'') (Some 7)
     (Some (Reason_text ''All compute nodes must be stopped'')) (Some Action_pcluster_stop)
     (Some Check_compute_fleet_stop_on_remove) True"

definition COMPUTE_FLEET_STOP :: update_policy where
  "COMPUTE_FLEET_STOP = init_update_policy None (Some ''COMPUTE_FLEET_STOP'') (Some 10)
     (Some (Reason_text ''All compute nodes must be stopped'')) (Some Action_pcluster_stop)
     (Some Check_compute_fleet_stop) True"

definition HEAD_NODE_STOP :: update_policy where
  "HEAD_NODE_STOP = init_update_policy None (Some ''HEAD_NODE_STOP'') (Some 20)
     (Some (Reason_text ''To perform this update action, the head node must be in a stopped state''))
     (Some Action_pcluster_stop) (Some Check_head_node_stop) True"

definition READ_ONLY_RESOURCE_BUCKET :: update_policy where
  "READ_ONLY_RESOURCE_BUCKET = init_update_policy None (Some ''READ_ONLY_RESOURCE_BUCKET'') (Some 30)
     (Some Reason_read_only_resource_bucket) (Some Action_read_only_resource_bucket) (Some Check_false) False"

definition UNKNOWN_POLICY :: update_policy where
  "UNKNOWN_POLICY = init_update_policy None (Some ''UNKNOWN'') (Some 100)
     (Some (Reason_text ''Update currently not supported''))
     (Some (Action_text ''Restore the previous parameter value for the unsupported changes.'')) None True"

definition UNSUPPORTED :: update_policy where
  "UNSUPPORTED = init_update_policy None (Some ''UNSUPPORTED'') (Some 1000)
     (Some Reason_unsupported) (Some Action_unsupported) None True"

definition SUPPORTED_UNLESS_ADC :: update_policy where
  "SUPPORTED_UNLESS_ADC = init_update_policy None (Some ''SUPPORTED_UNLESS_ADC'') (Some 1000)
     (Some Reason_unless_adc) (Some Action_unless_adc) (Some Check_unless_adc) True"

definition MANAGED_FSX :: update_policy where
  "MANAGED_FSX = init_update_policy None (Some ''MANAGED_FSX'') (Some 6)
     (Some Reason_managed_fsx) (Some Action_managed_fsx) (Some Check_managed_fsx) True"

definition LOGIN_NODES_POOLS :: update_policy where
  "LOGIN_NODES_POOLS = init_update_policy None (Some ''LOGIN_NODES_POOLS_UPDATE_POLICY'') (Some 6)
     (Some Reason_login_nodes_running) (Some Action_login_nodes_stop) (Some Check_login_nodes_pools) True"

definition LOGIN_NODES_STOP :: update_policy where
  "LOGIN_NODES_STOP = init_update_policy None (Some ''LOGIN_NODES_STOP'') (Some 10)
     (Some Reason_login_nodes_running) (Some Action_login_nodes_stop) (Some Check_login_nodes_stop) True"

definition LOGIN_NODES_POOL_STOP :: update_policy where
  "LOGIN_NODES_POOL_STOP = init_update_policy None (Some ''LOGIN_NODES_POOL_STOP'') (Some 10)
     (Some Reason_login_nodes_pool_running) (Some Action_login_nodes_stop) (Some Check_login_nodes_pool_stop) True"

definition COMPUTE_AND_LOGIN_NODES_STOP :: update_policy where
  "COMPUTE_AND_LOGIN_NODES_STOP = init_update_policy None (Some ''COMPUTE_AND_LOGIN_NODES_STOP'') (Some 10)
     (Some Reason_compute_or_login_nodes_running) (Some Action_compute_and_login_nodes_stop)
     (Some Check_compute_and_login_nodes_stop) True"

section \<open>Checking a change\<close>

record check_row =
  cr_result :: check_result
  cr_fail_reason :: "string option"
  cr_action_needed :: "string option"
  cr_print_change :: bool

definition opt_check :: "('a \<Rightarrow> string check) \<Rightarrow> 'a option \<Rightarrow> string option check" where
  "opt_check f x = (case x of None \<Rightarrow> ret None | Some a \<Rightarrow> cbind (f a) (\<lambda>s. ret (Some s)))"

definition check :: "update_policy \<Rightarrow> change \<Rightarrow> patch \<Rightarrow> check_row check" where
  "check p change patch =
     cbind (case up_condition_checker p of
              Some chk \<Rightarrow> cbind (run_checker chk change patch) (\<lambda>ok. ret
                (if ok then (SUCCEEDED, Some (Reason_text ''-''), None, up_print_succeeded p)
                 else (ACTION_NEEDED, up_fail_reason p, up_action_needed p, True)))
            | None \<Rightarrow> ret (FAILED, up_fail_reason p, up_action_needed p, True))
       (\<lambda>(result, fail_reason, action_needed, print_change).
        cbind (opt_check (\<lambda>a. run_action_needed a change patch) action_needed) (\<lambda>action_text.
        cbind (opt_check (\<lambda>r. run_fail_reason r change patch) fail_reason) (\<lambda>reason_text.
        ret \<lparr>cr_result = result, cr_fail_reason = reason_text, cr_action_needed = action_text,
             cr_print_change = print_change\<rparr>)))"

end
