(* ===== verification/ConfigPatch.thy ===== *)
theory ConfigPatch
  imports UpdatePolicy
begin

text \<open>
  The difference between two cluster configurations, \<open>pcluster/config/config_patch.py\<close>: the
  comparison of two loaded documents along a schema (\<open>_compare_section\<close>, \<open>_compare_list\<close>),
  the check of all detected changes and the change set given to the user.  A schema is the list of
  its declared fields; a field is a simple parameter, a nested section or a list of nested sections.
\<close>

section \<open>Schemas as seen by the comparison\<close>

datatype field =
    Param string "update_policy option"
  | Section string "update_policy option" "field list"
  | SectionList string "update_policy option" "string option" "field list"

definition policy_or_default :: "update_policy option \<Rightarrow> update_policy" where
  "policy_or_default p = (case p of None \<Rightarrow> UNSUPPORTED | Some q \<Rightarrow> q)"

section \<open>Comparison\<close>

text \<open>
  A change of a section itself refers to the \<open>param_path\<close> list of the running call, which a later
  \<open>param_path.pop()\<close> still shortens: it is kept with the mark \<open>True\<close> and receives the path the
  call ends with.  A change found in a nested section has its own copy of the path.
\<close>

type_synonym pending = "(bool \<times> change) list"

definition resolve_path :: "string list \<Rightarrow> bool \<times> change \<Rightarrow> change" where
  "resolve_path path bc = (if fst bc then (snd bc)\<lparr>ch_path := path\<rparr> else snd bc)"

definition mk_change :: "string \<Rightarrow> pyval \<Rightarrow> pyval \<Rightarrow> update_policy \<Rightarrow> bool \<Rightarrow> change" where
  "mk_change key old_value new_value policy in_list =
     \<lparr>ch_path = [], ch_key = key, ch_old_value = old_value, ch_new_value = new_value,
      ch_update_policy = policy, ch_is_list = in_list\<rparr>"

text \<open>\<open>_get_value_from_section\<close>, with its special case for installation scripts.\<close>

definition get_value_from_section :: "string \<Rightarrow> pyval \<Rightarrow> (pyval \<times> string) result" where
  "get_value_from_section data_key section =
     (if \<not> truthy section then Inr (VNone, data_key)
      else rbind (py_get section data_key VNone) (\<lambda>value.
        if data_key = ''Script'' \<and> value = VNone
        then rmap (\<lambda>value. (value, if truthy value then ''Sequence'' else data_key))
               (py_get section ''Sequence'' VNone)
        else Inr (value, data_key)))"

definition get_or_none :: "pyval \<Rightarrow> string \<Rightarrow> pyval result" where
  "get_or_none section data_key = (if truthy section then py_get section data_key VNone else Inr VNone)"

definition compare_param ::
  "string \<Rightarrow> update_policy \<Rightarrow> pyval \<Rightarrow> pyval \<Rightarrow> string list \<times> pending \<Rightarrow> (string list \<times> pending) result" where
  "compare_param data_key policy base_section target_section st =
     rbind (get_value_from_section data_key target_section) (\<lambda>(target_value, target_data_key).
     rbind (get_value_from_section data_key base_section) (\<lambda>(base_value, base_data_key).
     rbind (if target_data_key \<noteq> base_data_key
            then (if fst st = [] then Inl IndexError
                  else Inr (last (fst st), VDict [(base_data_key, base_value)],
                            VDict [(target_data_key, target_value)], butlast (fst st)))
            else Inr (target_data_key, base_value, target_value, fst st))
       (\<lambda>(key, base_value, target_value, path).
        Inr (path, if \<not> py_eq target_value base_value
                   then snd st @ [(True, mk_change key base_value target_value policy False)]
                   else snd st))))"

fun update_key_value :: "string option \<Rightarrow> pyval \<Rightarrow> pyval result" where
  "update_key_value (Some k) item = py_get item k VNone"
| "update_key_value None item = (if is_dict item then Inr VNone else Inl AttributeError)"

fun find_base_item :: "string option \<Rightarrow> pyval \<Rightarrow> pyval list \<Rightarrow> nat \<Rightarrow> (nat \<times> pyval) option result" where
  "find_base_item uk v [] n = Inr None"
| "find_base_item uk v (x # xs) n = rbind (update_key_value uk x)
     (\<lambda>w. if py_eq w v then Inr (Some (n, x)) else find_base_item uk v xs (Suc n))"

definition section_items :: "pyval \<Rightarrow> string \<Rightarrow> pyval list result" where
  "section_items section data_key = rbind (py_get section data_key (VList [])) py_iter"

text \<open>
  The second loop of \<open>_compare_list\<close>: the base items that were not visited have been removed.
  An item counts as visited when the first loop marked it or when it has a truthy key
  \<open>visited\<close> of its own.
\<close>

fun removed_items :: "string \<Rightarrow> update_policy \<Rightarrow> nat list \<Rightarrow> pyval list \<Rightarrow> nat \<Rightarrow> pending result" where
  "removed_items key policy visited [] n = Inr []"
| "removed_items key policy visited (x # xs) n =
     rbind (if n \<in> set visited then Inr True else rmap truthy (py_get x ''visited'' (VBool False))) (\<lambda>seen.
     rmap (\<lambda>rest. if seen then rest else (True, mk_change key x VNone policy True) # rest)
       (removed_items key policy visited xs (Suc n)))"

definition no_value :: "pyval \<Rightarrow> pyval" where
  "no_value v = (if truthy v then v else VStr ''-'')"

text \<open>
  One step of the first loop of \<open>_compare_list\<close>; the comparison of the nested section is the
  parameter \<open>compare_nested\<close>, which gets the two sections and the path of the item.
\<close>

definition added_item :: "string \<Rightarrow> update_policy \<Rightarrow> pyval \<Rightarrow> bool \<times> change" where
  "added_item data_key policy target_item = (True, mk_change data_key VNone target_item policy True)"

definition compare_item ::
  "(pyval \<Rightarrow> pyval \<Rightarrow> string list \<Rightarrow> change list result) \<Rightarrow> string \<Rightarrow> update_policy \<Rightarrow> string option
    \<Rightarrow> pyval \<Rightarrow> string list \<Rightarrow> pyval \<Rightarrow> nat list \<times> pending \<Rightarrow> (nat list \<times> pending) result" where
  "compare_item compare_nested data_key policy update_key base_section path target_item st =
     rbind (update_key_value update_key target_item) (\<lambda>v.
     rbind (section_items base_section data_key) (\<lambda>base_items.
     rbind (find_base_item update_key v base_items 0) (\<lambda>found.
     case found of
       Some (n, base_item) \<Rightarrow>
         (if truthy base_item
          then rmap (\<lambda>chs. (fst st @ [n], snd st @ map (Pair False) chs))
                 (compare_nested base_item target_item (path @ [data_key @ ''['' @ py_str v @ '']'']))
          else Inr (fst st, snd st @ [added_item data_key policy target_item]))
     | None \<Rightarrow> Inr (fst st, snd st @ [added_item data_key policy target_item]))))"

fun compare_section :: "field list \<Rightarrow> pyval \<Rightarrow> pyval \<Rightarrow> string list \<Rightarrow> change list result"
  and compare_fields ::
    "field list \<Rightarrow> pyval \<Rightarrow> pyval \<Rightarrow> string list \<times> pending \<Rightarrow> (string list \<times> pending) result"
  and compare_field ::
    "field \<Rightarrow> pyval \<Rightarrow> pyval \<Rightarrow> string list \<times> pending \<Rightarrow> (string list \<times> pending) result" where
  "compare_section fds base_section target_section param_path =
     rmap (\<lambda>st. map (resolve_path (fst st)) (snd st))
       (compare_fields fds base_section target_section (param_path, []))"
| "compare_fields [] base_section target_section st = Inr st"
| "compare_fields (f # fs) base_section target_section st =
     rbind (compare_field f base_section target_section st)
       (\<lambda>st'. compare_fields fs base_section target_section st')"
| "compare_field (Param data_key policy) base_section target_section st =
     compare_param data_key (policy_or_default policy) base_section target_section st"
| "compare_field (Section data_key policy fds) base_section target_section st =
     rbind (get_or_none target_section data_key) (\<lambda>target_value.
     rbind (get_or_none base_section data_key) (\<lambda>base_value.
     if truthy target_value \<and> truthy base_value \<or>
        (truthy target_value \<or> truthy base_value) \<and> policy_or_default policy = IGNORED
     then rmap (\<lambda>chs. (fst st, snd st @ map (Pair False) chs))
            (compare_section fds base_value target_value (fst st @ [data_key]))
     else if truthy target_value \<or> truthy base_value
     then Inr (fst st, snd st @ [(True, mk_change data_key (no_value base_value) (no_value target_value)
                                   (policy_or_default policy) False)])
     else Inr st))"
| "compare_field (SectionList data_key policy update_key fds) base_section target_section st =
     rbind (section_items target_section data_key) (\<lambda>target_items.
     rbind (rfold (compare_item (\<lambda>b t p. compare_section fds b t p) data_key (policy_or_default policy)
                     update_key base_section (fst st))
            target_items ([], snd st)) (\<lambda>vp.
     if truthy base_section
     then rbind (section_items base_section data_key) (\<lambda>base_items.
          rmap (\<lambda>rest. (fst st, snd vp @ rest))
            (removed_items data_key (policy_or_default policy) (fst vp) base_items 0))
     else Inr (fst st, snd vp)))"

section \<open>The patch and its check\<close>

text \<open>
  \<open>ConfigPatch.__init__\<close>.  The marks \<open>visited\<close> that \<open>_compare_list\<close> leaves in the copy of the
  base configuration are read by nobody else and are kept in the loop's list of visited indices.
\<close>

definition config_patch ::
  "field list \<Rightarrow> pyval \<Rightarrow> pyval \<Rightarrow> string option \<Rightarrow> (string \<Rightarrow> pyval option) \<Rightarrow> patch result" where
  "config_patch cluster_schema base target region loads =
     rmap (\<lambda>chs. \<lparr>base_config = base, target_config = target, changes = chs,
                  env_region = region, json_loads = loads\<rparr>)
       (compare_section cluster_schema base target [])"

definition update_policy_level :: "patch \<Rightarrow> int" where
  "update_policy_level patch =
     (if changes patch \<noteq> [] then Max (set (map (up_level \<circ> ch_update_policy) (changes patch)))
      else up_level SUPPORTED)"

text \<open>A cell of the report is a path or a value.\<close>

datatype cell = Path_cell "string list" | Val_cell pyval

definition header_row :: "cell list" where
  "header_row = map (Val_cell \<circ> VStr) [''param_path'', ''parameter'', ''old value'', ''new value'',
     ''check'', ''reason'', ''action_needed'', ''update_policy'']"

fun check_result_value :: "check_result \<Rightarrow> string" where
  "check_result_value SUCCEEDED = ''SUCCEEDED''"
| "check_result_value ACTION_NEEDED = ''ACTION NEEDED''"
| "check_result_value FAILED = ''FAILED''"

definition opt_str :: "string option \<Rightarrow> pyval" where
  "opt_str x = (case x of None \<Rightarrow> VNone | Some s \<Rightarrow> VStr s)"

definition report_row :: "change \<Rightarrow> check_row \<Rightarrow> cell list" where
  "report_row ch row = [Path_cell (ch_path ch), Val_cell (VStr (ch_key ch)), Val_cell (ch_old_value ch),
     Val_cell (ch_new_value ch), Val_cell (VStr (check_result_value (cr_result row))),
     Val_cell (opt_str (cr_fail_reason row)), Val_cell (opt_str (cr_action_needed row)),
     Val_cell (opt_str (up_name (ch_update_policy ch)))]"

fun check_changes :: "patch \<Rightarrow> change list \<Rightarrow> bool \<times> cell list list \<Rightarrow> (bool \<times> cell list list) check" where
  "check_changes patch [] st = ret st"
| "check_changes patch (ch # chs) st =
     cbind (check (ch_update_policy ch) ch patch) (\<lambda>row.
       check_changes patch chs
         (fst st \<and> cr_result row = SUCCEEDED,
          if cr_print_change row then snd st @ [report_row ch row] else snd st))"

definition check_patch :: "patch \<Rightarrow> (bool \<times> cell list list) check" where
  "check_patch patch = check_changes patch (changes patch) (True, [header_row])"

section \<open>The change set\<close>

definition build_config_param_path :: "string list \<Rightarrow> string \<Rightarrow> string" where
  "build_config_param_path path parameter =
     join ''.'' (path @ (if parameter \<noteq> [] then [parameter] else []))"

text \<open>
  \<open>{key: index for index, key in enumerate(changes[0])}\<close> and the lookup of a cell by the name of
  its column.
\<close>

fun change_attributes :: "cell list \<Rightarrow> nat \<Rightarrow> (string \<times> nat) list" where
  "change_attributes [] n = []"
| "change_attributes (Val_cell (VStr k) # cs) n = change_attributes cs (Suc n) @ [(k, n)]"
| "change_attributes (c # cs) n = change_attributes cs (Suc n)"

definition cell_of :: "(string \<times> nat) list \<Rightarrow> cell list \<Rightarrow> string \<Rightarrow> cell result" where
  "cell_of attrs row key = (case map_of attrs key of
     None \<Rightarrow> Inl KeyError
   | Some n \<Rightarrow> if n < length row then Inr (row ! n) else Inl IndexError)"

fun as_path :: "cell \<Rightarrow> string list result" where
  "as_path (Path_cell p) = Inr p"
| "as_path (Val_cell v) = Inl TypeError"

fun as_value :: "cell \<Rightarrow> pyval" where
  "as_value (Path_cell p) = VList (map VStr p)"
| "as_value (Val_cell v) = v"

fun as_name :: "cell \<Rightarrow> string result" where
  "as_name (Val_cell (VStr s)) = Inr s"
| "as_name _ = Inl TypeError"

definition change_entry :: "(string \<times> nat) list \<Rightarrow> cell list \<Rightarrow> pyval result" where
  "change_entry attrs row =
     rbind (cell_of attrs row ''param_path'') (\<lambda>path. rbind (as_path path) (\<lambda>path.
     rbind (cell_of attrs row ''parameter'') (\<lambda>parameter. rbind (as_name parameter) (\<lambda>parameter.
     rbind (cell_of attrs row ''new value'') (\<lambda>new_value.
     rbind (cell_of attrs row ''old value'') (\<lambda>old_value.
     rbind (cell_of attrs row ''update_policy'') (\<lambda>policy.
     Inr (VDict [(''parameter'', VStr (build_config_param_path path parameter)),
                 (''requestedValue'', as_value new_value), (''currentValue'', as_value old_value),
                 (''updatePolicy'', as_value policy)]))))))))"

definition generate_json_change_set :: "cell list list \<Rightarrow> pyval result" where
  "generate_json_change_set rows = (case rows of
     [] \<Rightarrow> Inl IndexError
   | header # rest \<Rightarrow> rmap (\<lambda>entries. VDict [(''changeSet'', VList entries)])
       (rmap_list (change_entry (change_attributes header 0)) rest))"

end
