(* ===== verification/SchemaFields.thy ===== *)
theory SchemaFields
  imports ConfigPatch
begin

text \<open>
  Configuration schemas as the sources declare them (\<open>pcluster/schemas/common_schema.py\<close>): fields with
  their kind, validators and update policy, the PascalCase names they get in a configuration file,
  and the fields a schema shows to the comparison of two configurations.  What the schema library
  does with kinds and validators when it loads a document is not modelled.
\<close>

section \<open>Constants\<close>

definition FSX_LUSTRE :: string where "FSX_LUSTRE = ''FsxLustre''"
definition FSX_OPENZFS :: string where "FSX_OPENZFS = ''FsxOpenZfs''"
definition FSX_ONTAP :: string where "FSX_ONTAP = ''FsxOntap''"
definition FILE_CACHE :: string where "FILE_CACHE = ''FileCache''"

definition SUPPORTED_OSES :: "string list" where
  "SUPPORTED_OSES = [''alinux2023'', ''ubuntu2204'', ''ubuntu2404'', ''rhel8'', ''rocky8'', ''rhel9'', ''rocky9'']"

definition DELETION_POLICIES :: "string list" where
  "DELETION_POLICIES = [''Delete'', ''Retain'']"

definition DELETION_POLICIES_WITH_SNAPSHOT :: "string list" where
  "DELETION_POLICIES_WITH_SNAPSHOT = DELETION_POLICIES @ [''Snapshot'']"

definition SUPPORTED_ARCHITECTURES :: "string list" where
  "SUPPORTED_ARCHITECTURES = [''x86_64'', ''arm64'']"

definition SUPPORTED_IMDS_VERSIONS :: "string list" where
  "SUPPORTED_IMDS_VERSIONS = [''v1.0'', ''v2.0'']"

definition MIN_SLURM_NODE_PRIORITY :: int where "MIN_SLURM_NODE_PRIORITY = 1"
definition MAX_SLURM_NODE_PRIORITY :: int where "MAX_SLURM_NODE_PRIORITY = 2 ^ 32 - 1"

definition PCLUSTER_AMI_ID_REGEX :: string where
  "PCLUSTER_AMI_ID_REGEX = ''^ami-[0-9a-z]{8}$|^ami-[0-9a-z]{17}$''"
definition FSX_VOLUME_ID_REGEX :: string where "FSX_VOLUME_ID_REGEX = ''^fsvol-[0-9a-f]{17}$''"
definition FILE_CACHE_ID_REGEX :: string where "FILE_CACHE_ID_REGEX = ''^(fc-[0-9a-f]{8,18})$''"
definition IAM_ROLE_REGEX :: string where "IAM_ROLE_REGEX = ''^arn:.*:role/''"
definition IAM_INSTANCE_PROFILE_REGEX :: string where "IAM_INSTANCE_PROFILE_REGEX = ''^arn:.*:instance-profile/''"
definition IAM_POLICY_REGEX :: string where "IAM_POLICY_REGEX = ''^arn:.*:policy/''"

text \<open>The values of the enumerations that fields range over.\<close>

definition CapacityType :: "string list" where
  "CapacityType = [''CAPACITY_BLOCK'', ''ONDEMAND'', ''SPOT'']"

definition AllocationStrategy :: "string list" where
  "AllocationStrategy = [''lowest-price'', ''capacity-optimized'', ''price-capacity-optimized'', ''prioritized'',
     ''capacity-optimized-prioritized'']"

definition QueueUpdateStrategy :: "string list" where
  "QueueUpdateStrategy = [''DRAIN'', ''COMPUTE_FLEET_STOP'', ''TERMINATE'']"

definition DefaultUserHomeType :: "string list" where
  "DefaultUserHomeType = [''Shared'', ''Local'']"

section \<open>Declared fields\<close>

text \<open>A regular expression is kept as its text, a validating function as its name.\<close>

datatype validator =
    OneOf "pyval list"
  | Range "int option" "int option"
  | Length "int option" "int option" "int option"
  | Regexp string
  | Check_function string
  | All_of "validator list"

datatype kind = FStr | FInt | FBool | FFloat | FRaw | FDict | FList kind "validator list"

text \<open>
  A field has the name of its Python attribute and possibly a \<open>data_key\<close> of its own; a simple field
  then its kind, whether it is required, its validators and its update policy; a nested field whether
  it is a list (\<open>many\<close>), whether it is required, its policy, its update key and its schema.
\<close>

datatype decl =
    Simple_field string "string option" kind bool "validator list" "update_policy option"
  | Nested_field string "string option" bool bool "update_policy option" "string option" "decl list"

fun decl_name :: "decl \<Rightarrow> string" where
  "decl_name (Simple_field name data_key kind required validators policy) = name"
| "decl_name (Nested_field name data_key many required policy update_key schema) = name"

fun data_key_of :: "decl \<Rightarrow> string option" where
  "data_key_of (Simple_field name data_key kind required validators policy) = data_key"
| "data_key_of (Nested_field name data_key many required policy update_key schema) = data_key"

definition ALLOWED_VALUES :: "(string \<times> validator) list" where
  "ALLOWED_VALUES = [
     (''cidr'', Regexp (''^(([0-9]|[1-9][0-9]|1[0-9]{2}|2[0-4][0-9]|25[0-5])'' @ [CHR 0x5C] @ ''.){3}'' @
        ''([0-9]|[1-9][0-9]|1[0-9]{2}|2[0-4][0-9]|25[0-5])'' @ ''('' @ [CHR 0x5C] @ ''/([0-9]|[1-2][0-9]|3[0-2]))$'')),
     (''file_path'', Regexp (''^'' @ [CHR 0x5C] @ ''/?[^'' @ [CHR 0x5C] @ ''/.'' @ [CHR 0x5C, CHR 0x5C] @ ''][^'' @ [CHR 0x5C]
        @ ''/'' @ [CHR 0x5C, CHR 0x5C] @ '']*('' @ [CHR 0x5C] @ ''/[^'' @ [CHR 0x5C] @ ''/.'' @ [CHR 0x5C, CHR 0x5C] @ ''][^''
        @ [CHR 0x5C] @ ''/]*)*$'')),
     (''prefix-list'', Regexp ''^pl-[a-zA-Z0-9]''),
     (''security_group_id'', Regexp ''^sg-[0-9a-z]{8}$|^sg-[0-9a-z]{17}$''),
     (''subnet_id'', Regexp ''^subnet-[0-9a-z]{8}$|^subnet-[0-9a-z]{17}$''),
     (''architectures'', OneOf (map VStr SUPPORTED_ARCHITECTURES)),
     (''volume_type'', OneOf (map VStr [''standard'', ''io1'', ''io2'', ''gp2'', ''st1'', ''sc1'', ''gp3'']))]"

definition get_field_validator :: "string \<Rightarrow> validator" where
  "get_field_validator field_name = the (map_of ALLOWED_VALUES field_name)"

text \<open>\<open>UpdatePolicy(base, fail_reason=\<dots>, action_needed=\<dots>)\<close>.\<close>

definition derived_policy :: "update_policy \<Rightarrow> reason option \<Rightarrow> action option \<Rightarrow> update_policy" where
  "derived_policy base fail_reason action_needed =
     init_update_policy (Some base) None None fail_reason action_needed None True"

text \<open>
  The fields a class declares are those of its base class, in their place even when redeclared,
  followed by the new ones.
\<close>

definition inherit :: "decl list \<Rightarrow> decl list \<Rightarrow> decl list" where
  "inherit base own =
     map (\<lambda>b. case find (\<lambda>f. decl_name f = decl_name b) own of Some f \<Rightarrow> f | None \<Rightarrow> b) base @
     filter (\<lambda>f. decl_name f \<notin> set (map decl_name base)) own"

text \<open>
  \<open>OneOrManyCustomActionField\<close>: a nested field whose schema is built from the update policy of the
  field.
\<close>

definition build_dynamic_schema_class :: "update_policy \<Rightarrow> decl list" where
  "build_dynamic_schema_class policy =
     [Simple_field ''script'' None FStr True [] (Some policy),
      Simple_field ''args'' None (FList FStr []) False [] (Some policy)]"

definition one_or_many_custom_action :: "string \<Rightarrow> update_policy \<Rightarrow> decl" where
  "one_or_many_custom_action name policy =
     Nested_field name None False False (Some policy) None (build_dynamic_schema_class policy)"

section \<open>Binding\<close>

definition to_pascal_case :: "string \<Rightarrow> string" where
  "to_pascal_case snake_case_word = concat (map str_title (split_on (CHR ''_'') snake_case_word))"

definition on_bind_field :: "string \<Rightarrow> string option \<Rightarrow> string" where
  "on_bind_field field_name data_key = (case data_key of None \<Rightarrow> to_pascal_case field_name | Some k \<Rightarrow> k)"

definition bound_key :: "decl \<Rightarrow> string" where
  "bound_key f = on_bind_field (decl_name f) (data_key_of f)"

text \<open>The fields of a schema as the comparison of configurations reads them.\<close>

fun comparison_field :: "decl \<Rightarrow> field" where
  "comparison_field (Simple_field name data_key kind required validators policy) =
     Param (on_bind_field name data_key) policy"
| "comparison_field (Nested_field name data_key many required policy update_key schema) =
     (if many then SectionList (on_bind_field name data_key) policy update_key (map comparison_field schema)
      else Section (on_bind_field name data_key) policy (map comparison_field schema))"

section \<open>The schemas shared with the image builder\<close>

definition TagSchema :: "decl list" where
  "TagSchema =
    [Simple_field ''key'' None FStr True [Length None (Some 128) None] (Some UNSUPPORTED),
     Simple_field ''value'' None FStr True [Length None (Some 256) None] (Some SUPPORTED_UNLESS_ADC)]"

definition AdditionalIamPolicySchema :: "decl list" where
  "AdditionalIamPolicySchema =
    [Simple_field ''policy'' None FStr True [Regexp IAM_POLICY_REGEX] (Some SUPPORTED)]"

definition CookbookSchema :: "decl list" where
  "CookbookSchema =
    [Simple_field ''chef_cookbook'' None FStr False []
       (Some (derived_policy UNSUPPORTED (Some Reason_cookbook_update) None)),
     Simple_field ''extra_chef_attributes'' None FStr False [] (Some EXTRA_CHEF_ATTRIBUTES)]"

definition LambdaFunctionsVpcConfigSchema :: "decl list" where
  "LambdaFunctionsVpcConfigSchema =
    [Simple_field ''security_group_ids'' None (FList FStr [get_field_validator ''security_group_id'']) True
       [Length (Some 1) (Some 5) None] (Some UNSUPPORTED),
     Simple_field ''subnet_ids'' None (FList FStr [get_field_validator ''subnet_id'']) True
       [Length (Some 1) (Some 16) None] (Some UNSUPPORTED)]"

definition BaseDeploymentSettingsSchema :: "decl list" where
  "BaseDeploymentSettingsSchema =
    [Nested_field ''lambda_functions_vpc_config'' None False False (Some UNSUPPORTED) None
       LambdaFunctionsVpcConfigSchema]"

definition BaseDevSettingsSchema :: "decl list" where
  "BaseDevSettingsSchema =
    [Nested_field ''cookbook'' None False False (Some IGNORED) None CookbookSchema,
     Simple_field ''node_package'' None FStr False [] (Some UNSUPPORTED)]"

definition TopLevelImdsSchema :: "decl list" where
  "TopLevelImdsSchema =
    [Simple_field ''imds_support'' (Some ''ImdsSupport'') FStr False
       [OneOf (map VStr SUPPORTED_IMDS_VERSIONS)] (Some UNSUPPORTED)]"

end
