(* ===== verification/ClusterSchema.thy ===== *)
theory ClusterSchema
  imports SchemaFields
begin

text \<open>
  The schema of a cluster configuration, \<open>pcluster/schemas/cluster_schema.py\<close>: one definition per schema
  class, holding its declared fields in their order.  A private class drops the leading underscore
  of its name; the \<open>ImdsSchema\<close> of \<open>common_schema\<close> is imported there as \<open>TopLevelImdsSchema\<close>.
\<close>

definition HeadNodeRootVolumeSchema :: "decl list" where
  "HeadNodeRootVolumeSchema =
    [Simple_field ''volume_type'' None FStr False [get_field_validator ''volume_type'']
       (Some (derived_policy UNSUPPORTED None (Some (Action_text ebs_volume_update)))),
     Simple_field ''iops'' None FInt False [] (Some UNSUPPORTED),
     Simple_field ''size'' None FInt False []
       (Some (derived_policy UNSUPPORTED (Some (Reason_text ebs_volume_resize)) (Some (Action_text ebs_volume_update)))),
     Simple_field ''throughput'' None FInt False [] (Some UNSUPPORTED),
     Simple_field ''encrypted'' None FBool False [] (Some UNSUPPORTED),
     Simple_field ''delete_on_termination'' None FBool False [] (Some UNSUPPORTED)]"

definition QueueRootVolumeSchema :: "decl list" where
  "QueueRootVolumeSchema =
    [Simple_field ''size'' None FInt False [] (Some QUEUE_UPDATE_STRATEGY),
     Simple_field ''encrypted'' None FBool False [] (Some QUEUE_UPDATE_STRATEGY),
     Simple_field ''volume_type'' None FStr False [] (Some QUEUE_UPDATE_STRATEGY),
     Simple_field ''iops'' None FInt False [] (Some QUEUE_UPDATE_STRATEGY),
     Simple_field ''throughput'' None FInt False [] (Some QUEUE_UPDATE_STRATEGY)]"

definition RaidSchema :: "decl list" where
  "RaidSchema =
    [Simple_field ''raid_type'' (Some ''Type'') FInt True [OneOf (map VInt [0, 1])] (Some UNSUPPORTED),
     Simple_field ''number_of_volumes'' None FInt False [Range (Some 2) (Some 5)] (Some UNSUPPORTED)]"

definition EbsSettingsSchema :: "decl list" where
  "EbsSettingsSchema =
    [Simple_field ''volume_type'' None FStr False [get_field_validator ''volume_type'']
       (Some (derived_policy UNSUPPORTED None (Some (Action_text ebs_volume_update)))),
     Simple_field ''iops'' None FInt False [] (Some SUPPORTED),
     Simple_field ''size'' None FInt False []
       (Some (derived_policy UNSUPPORTED (Some (Reason_text ebs_volume_resize)) (Some (Action_text ebs_volume_update)))),
     Simple_field ''kms_key_id'' None FStr False [] (Some UNSUPPORTED),
     Simple_field ''throughput'' None FInt False [] (Some SUPPORTED),
     Simple_field ''encrypted'' None FBool False [] (Some UNSUPPORTED),
     Simple_field ''snapshot_id'' None FStr False [Regexp ''^snap-[0-9a-z]{8}$|^snap-[0-9a-z]{17}$'']
       (Some UNSUPPORTED),
     Simple_field ''volume_id'' None FStr False [Regexp ''^vol-[0-9a-z]{8}$|^vol-[0-9a-z]{17}$'']
       (Some UNSUPPORTED),
     Nested_field ''raid'' None False False (Some UNSUPPORTED) None RaidSchema,
     Simple_field ''deletion_policy'' None FStr False [OneOf (map VStr DELETION_POLICIES_WITH_SNAPSHOT)]
       (Some SUPPORTED)]"

definition HeadNodeEphemeralVolumeSchema :: "decl list" where
  "HeadNodeEphemeralVolumeSchema =
    [Simple_field ''mount_dir'' None FStr False [get_field_validator ''file_path''] (Some UNSUPPORTED)]"

definition QueueEphemeralVolumeSchema :: "decl list" where
  "QueueEphemeralVolumeSchema =
    [Simple_field ''mount_dir'' None FStr False [get_field_validator ''file_path''] (Some QUEUE_UPDATE_STRATEGY)]"

definition HeadNodeStorageSchema :: "decl list" where
  "HeadNodeStorageSchema =
    [Nested_field ''root_volume'' None False False (Some UNSUPPORTED) None HeadNodeRootVolumeSchema,
     Nested_field ''ephemeral_volume'' None False False (Some UNSUPPORTED) None HeadNodeEphemeralVolumeSchema]"

definition QueueStorageSchema :: "decl list" where
  "QueueStorageSchema =
    [Nested_field ''root_volume'' None False False (Some QUEUE_UPDATE_STRATEGY) None QueueRootVolumeSchema,
     Nested_field ''ephemeral_volume'' None False False (Some QUEUE_UPDATE_STRATEGY) None
       QueueEphemeralVolumeSchema]"

definition EfsSettingsSchema :: "decl list" where
  "EfsSettingsSchema =
    [Simple_field ''encrypted'' None FBool False [] (Some UNSUPPORTED),
     Simple_field ''kms_key_id'' None FStr False [] (Some UNSUPPORTED),
     Simple_field ''performance_mode'' None FStr False [OneOf (map VStr [''generalPurpose'', ''maxIO''])]
       (Some UNSUPPORTED),
     Simple_field ''throughput_mode'' None FStr False [OneOf (map VStr [''provisioned'', ''bursting''])]
       (Some SUPPORTED),
     Simple_field ''provisioned_throughput'' None FInt False [Range (Some 1) (Some 1024)] (Some SUPPORTED),
     Simple_field ''file_system_id'' None FStr False [Regexp ''^fs-[0-9a-z]{8}$|^fs-[0-9a-z]{17}$'']
       (Some UNSUPPORTED),
     Simple_field ''deletion_policy'' None FStr False [OneOf (map VStr DELETION_POLICIES)] (Some SUPPORTED),
     Simple_field ''access_point_id'' None FStr False [Regexp ''^fsap-[0-9a-z]{17}$''] (Some UNSUPPORTED),
     Simple_field ''encryption_in_transit'' None FBool False [] (Some UNSUPPORTED),
     Simple_field ''iam_authorization'' None FBool False [] (Some UNSUPPORTED)]"

definition DataRepositoryAssociationSchema :: "decl list" where
  "DataRepositoryAssociationSchema =
    [Simple_field ''name'' None FStr True [] (Some UNSUPPORTED),
     Simple_field ''batch_import_meta_data_on_create'' None FBool False [] (Some UNSUPPORTED),
     Simple_field ''data_repository_path'' None FStr True [] (Some UNSUPPORTED),
     Simple_field ''file_system_path'' None FStr True
       [Regexp (''^[^'' @ [CHR 0x5C] @ ''u0000'' @ [CHR 0x5C] @ ''u0085'' @ [CHR 0x5C] @ ''u2028'' @ [CHR 0x5C] @ ''u2029'' @ [CHR 0x5C] @ ''r'' @ [CHR 0x5C] @ ''n]{1,4096}$'')]
       (Some UNSUPPORTED),
     Simple_field ''imported_file_chunk_size'' None FInt False [Range (Some 1) (Some 512000)] (Some SUPPORTED),
     Simple_field ''auto_export_policy'' None
       (FList FStr [OneOf (map VStr [''NEW'', ''CHANGED'', ''DELETED''])]) False [Length None (Some 3) None]
       (Some SUPPORTED),
     Simple_field ''auto_import_policy'' None
       (FList FStr [OneOf (map VStr [''NEW'', ''CHANGED'', ''DELETED''])]) False [Length None (Some 3) None]
       (Some SUPPORTED)]"

definition FsxLustreSettingsSchema :: "decl list" where
  "FsxLustreSettingsSchema =
    [Simple_field ''storage_capacity'' None FInt False [] (Some UNSUPPORTED),
     Simple_field ''deployment_type'' None FStr False
       [OneOf (map VStr [''SCRATCH_1'', ''SCRATCH_2'', ''PERSISTENT_1'', ''PERSISTENT_2''])] (Some UNSUPPORTED),
     Simple_field ''imported_file_chunk_size'' None FInt False [Range (Some 1) (Some 512000)] (Some UNSUPPORTED),
     Simple_field ''export_path'' None FStr False [] (Some UNSUPPORTED),
     Simple_field ''import_path'' None FStr False [] (Some UNSUPPORTED),
     Simple_field ''weekly_maintenance_start_time'' None FStr False
       [Regexp (''^[1-7]:([01]'' @ [CHR 0x5C] @ ''d|2[0-3]):([0-5]'' @ [CHR 0x5C] @ ''d)$'')] (Some SUPPORTED),
     Simple_field ''automatic_backup_retention_days'' None FInt False [Range (Some 0) (Some 90)] (Some SUPPORTED),
     Simple_field ''copy_tags_to_backups'' None FBool False [] (Some UNSUPPORTED),
     Simple_field ''daily_automatic_backup_start_time'' None FStr False
       [Regexp (''^([01]'' @ [CHR 0x5C] @ ''d|2[0-3]):([0-5]'' @ [CHR 0x5C] @ ''d)$'')] (Some SUPPORTED),
     Simple_field ''per_unit_storage_throughput'' None FInt False [] (Some UNSUPPORTED),
     Simple_field ''backup_id'' None FStr False [Regexp ''^(backup-[0-9a-f]{8,})$''] (Some UNSUPPORTED),
     Simple_field ''kms_key_id'' None FStr False [] (Some UNSUPPORTED),
     Simple_field ''file_system_id'' None FStr False [Regexp ''^fs-[0-9a-z]{17}$''] (Some UNSUPPORTED),
     Simple_field ''auto_import_policy'' None FStr False
       [OneOf (map VStr [''NEW'', ''NEW_CHANGED'', ''NEW_CHANGED_DELETED''])] (Some UNSUPPORTED),
     Simple_field ''drive_cache_type'' None FStr False [OneOf (map VStr [''READ''])] (Some UNSUPPORTED),
     Simple_field ''data_compression_type'' None FStr False [OneOf (map VStr [''LZ4''])] (Some SUPPORTED),
     Simple_field ''fsx_storage_type'' (Some ''StorageType'') FStr False [OneOf (map VStr [''HDD'', ''SSD''])]
       (Some UNSUPPORTED),
     Simple_field ''deletion_policy'' None FStr False [OneOf (map VStr DELETION_POLICIES)] (Some SUPPORTED),
     Nested_field ''data_repository_associations'' None True False (Some SUPPORTED) (Some ''Name'')
       DataRepositoryAssociationSchema]"

definition FsxOpenZfsSettingsSchema :: "decl list" where
  "FsxOpenZfsSettingsSchema =
    [Simple_field ''volume_id'' None FStr True [Regexp FSX_VOLUME_ID_REGEX] (Some UNSUPPORTED)]"

definition FsxOntapSettingsSchema :: "decl list" where
  "FsxOntapSettingsSchema =
    [Simple_field ''volume_id'' None FStr True [Regexp FSX_VOLUME_ID_REGEX] (Some UNSUPPORTED)]"

definition FileCacheSettingsSchema :: "decl list" where
  "FileCacheSettingsSchema =
    [Simple_field ''file_cache_id'' None FStr True [Regexp FILE_CACHE_ID_REGEX] (Some UNSUPPORTED)]"

definition SharedStorageSchema :: "decl list" where
  "SharedStorageSchema =
    [Simple_field ''mount_dir'' None FStr True [get_field_validator ''file_path'']
       (Some SHARED_STORAGE_UPDATE_POLICY),
     Simple_field ''name'' None FStr True [] (Some UNSUPPORTED),
     Simple_field ''storage_type'' None FStr True
       [OneOf (map VStr [''Ebs'', FSX_LUSTRE, FSX_OPENZFS, FSX_ONTAP, ''Efs'', FILE_CACHE])] (Some UNSUPPORTED),
     Nested_field ''ebs_settings'' None False False (Some IGNORED) None EbsSettingsSchema,
     Nested_field ''efs_settings'' None False False (Some IGNORED) None EfsSettingsSchema,
     Nested_field ''fsx_lustre_settings'' None False False (Some IGNORED) None FsxLustreSettingsSchema,
     Nested_field ''fsx_open_zfs_settings'' None False False (Some UNSUPPORTED) None FsxOpenZfsSettingsSchema,
     Nested_field ''fsx_ontap_settings'' None False False (Some UNSUPPORTED) None FsxOntapSettingsSchema,
     Nested_field ''file_cache_settings'' None False False (Some UNSUPPORTED) None FileCacheSettingsSchema]"

definition HeadNodeProxySchema :: "decl list" where
  "HeadNodeProxySchema =
    [Simple_field ''http_proxy_address'' None FStr False [] (Some UNSUPPORTED)]"

definition QueueProxySchema :: "decl list" where
  "QueueProxySchema =
    [Simple_field ''http_proxy_address'' None FStr False [] (Some QUEUE_UPDATE_STRATEGY)]"

definition LoginNodeProxySchema :: "decl list" where
  "LoginNodeProxySchema =
    [Simple_field ''http_proxy_address'' None FStr False [] (Some SUPPORTED)]"

definition BaseNetworkingSchema :: "decl list" where
  "BaseNetworkingSchema =
    [Simple_field ''additional_security_groups'' None (FList FStr [get_field_validator ''security_group_id''])
       False [] (Some SUPPORTED),
     Simple_field ''security_groups'' None (FList FStr [get_field_validator ''security_group_id'']) False []
       (Some SUPPORTED)]"

definition HeadNodeNetworkingSchema :: "decl list" where
  "HeadNodeNetworkingSchema =
    inherit BaseNetworkingSchema
    [Simple_field ''subnet_id'' None FStr True [get_field_validator ''subnet_id''] (Some UNSUPPORTED),
     Simple_field ''elastic_ip'' None FRaw False [] (Some UNSUPPORTED),
     Nested_field ''proxy'' None False False (Some UNSUPPORTED) None HeadNodeProxySchema]"

definition PlacementGroupSchema :: "decl list" where
  "PlacementGroupSchema =
    [Simple_field ''enabled'' None FBool False [] (Some MANAGED_PLACEMENT_GROUP),
     Simple_field ''id'' None FStr False [] (Some MANAGED_PLACEMENT_GROUP),
     Simple_field ''name'' None FStr False [] (Some MANAGED_PLACEMENT_GROUP)]"

definition QueueNetworkingSchema :: "decl list" where
  "QueueNetworkingSchema =
    inherit BaseNetworkingSchema
    [Simple_field ''assign_public_ip'' None FBool False [] (Some UNSUPPORTED)]"

definition SlurmQueueNetworkingSchema :: "decl list" where
  "SlurmQueueNetworkingSchema =
    inherit QueueNetworkingSchema
    [Simple_field ''subnet_ids'' None (FList FStr [get_field_validator ''subnet_id'']) True
       [Length (Some 1) None None] (Some MANAGED_FSX),
     Nested_field ''placement_group'' None False False (Some MANAGED_PLACEMENT_GROUP) None PlacementGroupSchema,
     Nested_field ''proxy'' None False False (Some QUEUE_UPDATE_STRATEGY) None QueueProxySchema]"

definition BaseSshSchema :: "decl list" where
  "BaseSshSchema =
    [Simple_field ''key_name'' None FStr False [] (Some UNSUPPORTED)]"

definition HeadNodeSshSchema :: "decl list" where
  "HeadNodeSshSchema =
    inherit BaseSshSchema
    [Simple_field ''allowed_ips'' None FStr False [Check_function ''is_cidr_or_prefix_list''] (Some SUPPORTED)]"

definition SharedStorageEfsSettingsSchema :: "decl list" where
  "SharedStorageEfsSettingsSchema =
    [Simple_field ''encrypted'' None FBool False [] (Some UNSUPPORTED)]"

definition DcvSchema :: "decl list" where
  "DcvSchema =
    [Simple_field ''enabled'' None FBool False [] (Some UNSUPPORTED),
     Simple_field ''port'' None FInt False [] (Some UNSUPPORTED),
     Simple_field ''allowed_ips'' None FStr False [Check_function ''is_cidr_or_prefix_list''] (Some SUPPORTED)]"

definition EfaSchema :: "decl list" where
  "EfaSchema =
    [Simple_field ''enabled'' None FBool False [] (Some QUEUE_UPDATE_STRATEGY),
     Simple_field ''gdr_support'' None FBool False [] (Some QUEUE_UPDATE_STRATEGY)]"

definition LaunchTemplateOverridesSchema :: "decl list" where
  "LaunchTemplateOverridesSchema =
    [Simple_field ''launch_template_id'' None FStr True [] (Some QUEUE_UPDATE_STRATEGY),
     Simple_field ''version'' None FInt True [Range (Some 1) None] (Some QUEUE_UPDATE_STRATEGY)]"

definition CloudWatchLogsSchema :: "decl list" where
  "CloudWatchLogsSchema =
    [Simple_field ''enabled'' None FBool False [] (Some UNSUPPORTED),
     Simple_field ''retention_in_days'' None FInt False
       [OneOf (map VInt [0, 1, 3, 5, 7, 14, 30, 60, 90, 120, 150, 180, 365, 400, 545, 731, 1827, 3653])]
       (Some SUPPORTED),
     Simple_field ''deletion_policy'' None FStr False [OneOf (map VStr DELETION_POLICIES)] (Some SUPPORTED)]"

definition RotationSchema :: "decl list" where
  "RotationSchema =
    [Simple_field ''enabled'' None FBool False [] (Some UNSUPPORTED)]"

definition CloudWatchDashboardsSchema :: "decl list" where
  "CloudWatchDashboardsSchema =
    [Simple_field ''enabled'' None FBool False [] (Some SUPPORTED)]"

definition LogsSchema :: "decl list" where
  "LogsSchema =
    [Nested_field ''cloud_watch'' None False False (Some UNSUPPORTED) None CloudWatchLogsSchema,
     Nested_field ''rotation'' None False False (Some UNSUPPORTED) None RotationSchema]"

definition DashboardsSchema :: "decl list" where
  "DashboardsSchema =
    [Nested_field ''cloud_watch'' None False False (Some SUPPORTED) None CloudWatchDashboardsSchema]"

definition AlarmsSchema :: "decl list" where
  "AlarmsSchema =
    [Simple_field ''enabled'' None FBool False [] (Some SUPPORTED)]"

definition MonitoringSchema :: "decl list" where
  "MonitoringSchema =
    [Simple_field ''detailed_monitoring'' None FBool False [] (Some COMPUTE_FLEET_STOP),
     Nested_field ''logs'' None False False (Some UNSUPPORTED) None LogsSchema,
     Nested_field ''dashboards'' None False False (Some SUPPORTED) None DashboardsSchema,
     Nested_field ''alarms'' None False False (Some SUPPORTED) None AlarmsSchema]"

definition RolesSchema :: "decl list" where
  "RolesSchema =
    [Simple_field ''lambda_functions_role'' None FStr False [] (Some SUPPORTED)]"

definition S3AccessSchema :: "decl list" where
  "S3AccessSchema =
    [Simple_field ''bucket_name'' None FStr True
       [Regexp (''^['' @ [CHR 0x5C] @ ''*a-z0-9'' @ [CHR 0x5C] @ ''-'' @ [CHR 0x5C] @ ''.]+$'')]
       (Some SUPPORTED),
     Simple_field ''key_name'' None FStr False [] (Some SUPPORTED),
     Simple_field ''enable_write_access'' None FBool False [] (Some SUPPORTED)]"

definition ClusterIamSchema :: "decl list" where
  "ClusterIamSchema =
    [Nested_field ''roles'' None False False (Some SUPPORTED) None RolesSchema,
     Simple_field ''permissions_boundary'' None FStr False [Regexp IAM_POLICY_REGEX] (Some SUPPORTED),
     Simple_field ''resource_prefix'' None FStr False [] (Some UNSUPPORTED)]"

definition BaseIamSchema :: "decl list" where
  "BaseIamSchema =
    [Simple_field ''instance_role'' None FStr False [Regexp IAM_ROLE_REGEX] (Some SUPPORTED),
     Nested_field ''additional_iam_policies'' None True False (Some SUPPORTED) (Some ''Policy'')
       AdditionalIamPolicySchema]"

definition IamSchema :: "decl list" where
  "IamSchema =
    inherit BaseIamSchema
    [Nested_field ''s3_access'' None True False (Some SUPPORTED) (Some ''BucketName'') S3AccessSchema]"

definition HeadNodeIamSchema :: "decl list" where
  "HeadNodeIamSchema =
    inherit IamSchema
    [Simple_field ''instance_profile'' None FStr False [Regexp IAM_INSTANCE_PROFILE_REGEX] (Some UNSUPPORTED)]"

definition QueueIamSchema :: "decl list" where
  "QueueIamSchema =
    inherit IamSchema
    [Simple_field ''instance_profile'' None FStr False [Regexp IAM_INSTANCE_PROFILE_REGEX]
       (Some COMPUTE_FLEET_STOP)]"

definition LoginNodesIamSchema :: "decl list" where
  "LoginNodesIamSchema =
    inherit BaseIamSchema
    [Simple_field ''instance_role'' None FStr False [Regexp IAM_ROLE_REGEX] (Some LOGIN_NODES_POOL_STOP),
     Nested_field ''additional_iam_policies'' None True False (Some LOGIN_NODES_POOL_STOP) (Some ''Policy'')
       AdditionalIamPolicySchema,
     Simple_field ''instance_profile'' None FStr False [Regexp IAM_INSTANCE_PROFILE_REGEX]
       (Some LOGIN_NODES_POOL_STOP)]"

definition ImdsSchema :: "decl list" where
  "ImdsSchema =
    [Simple_field ''secured'' None FBool False [] (Some UNSUPPORTED)]"

definition IntelSoftwareSchema :: "decl list" where
  "IntelSoftwareSchema =
    [Simple_field ''intel_hpc_platform'' None FBool False [] (Some UNSUPPORTED)]"

definition AdditionalPackagesSchema :: "decl list" where
  "AdditionalPackagesSchema =
    [Nested_field ''intel_software'' None False False (Some UNSUPPORTED) None IntelSoftwareSchema]"

definition AmiSearchFiltersSchema :: "decl list" where
  "AmiSearchFiltersSchema =
    [Nested_field ''tags'' None True False (Some UNSUPPORTED) (Some ''Key'') TagSchema,
     Simple_field ''owner'' None FStr False [] (Some UNSUPPORTED),
     Simple_field ''name_prefix'' None FStr False [] (Some UNSUPPORTED)]"

definition TimeoutsSchema :: "decl list" where
  "TimeoutsSchema =
    [Simple_field ''head_node_bootstrap_timeout'' None FInt False [Range (Some 1) None] (Some UNSUPPORTED),
     Simple_field ''compute_node_bootstrap_timeout'' None FInt False [Range (Some 1) None] (Some SUPPORTED),
     Simple_field ''compute_instance_info_timeout'' None FInt False [Range (Some 1) None] (Some SUPPORTED)]"

definition CapacityReservationTargetSchema :: "decl list" where
  "CapacityReservationTargetSchema =
    [Simple_field ''capacity_reservation_id'' None FStr False [] (Some QUEUE_UPDATE_STRATEGY),
     Simple_field ''capacity_reservation_resource_group_arn'' None FStr False [] (Some QUEUE_UPDATE_STRATEGY)]"

definition ClusterDevSettingsSchema :: "decl list" where
  "ClusterDevSettingsSchema =
    inherit BaseDevSettingsSchema
    [Simple_field ''cluster_template'' None FStr False [] (Some SUPPORTED),
     Nested_field ''ami_search_filters'' None False False (Some UNSUPPORTED) None AmiSearchFiltersSchema,
     Simple_field ''instance_types_data'' None FStr False [] (Some SUPPORTED),
     Nested_field ''timeouts'' None False False (Some SUPPORTED) None TimeoutsSchema,
     Simple_field ''compute_startup_time_metric_enabled'' None FBool False [] (Some SUPPORTED),
     Simple_field ''efa_interface_type'' None FStr False [] (Some QUEUE_UPDATE_STRATEGY)]"

definition ClusterDeploymentSettingsSchema :: "decl list" where
  "ClusterDeploymentSettingsSchema =
    inherit BaseDeploymentSettingsSchema
    [Simple_field ''disable_sudo_access_default_user'' (Some ''DisableSudoAccessForDefaultUser'') FBool False
       [] (Some COMPUTE_AND_LOGIN_NODES_STOP),
     Simple_field ''default_user_home'' None FStr False [OneOf (map VStr DefaultUserHomeType)] (Some UNSUPPORTED)]"

definition GpuHealthCheckSchema :: "decl list" where
  "GpuHealthCheckSchema =
    [Simple_field ''enabled'' None FBool False [] (Some SUPPORTED)]"

definition HealthChecksSchema :: "decl list" where
  "HealthChecksSchema =
    [Nested_field ''gpu'' None False False (Some SUPPORTED) None GpuHealthCheckSchema]"

definition ImageSchema :: "decl list" where
  "ImageSchema =
    [Simple_field ''os'' None FStr True [OneOf (map VStr SUPPORTED_OSES)] (Some UNSUPPORTED),
     Simple_field ''custom_ami'' None FStr False [Regexp PCLUSTER_AMI_ID_REGEX] (Some UNSUPPORTED)]"

definition HeadNodeImageSchema :: "decl list" where
  "HeadNodeImageSchema =
    [Simple_field ''custom_ami'' None FStr False [Regexp PCLUSTER_AMI_ID_REGEX] (Some UNSUPPORTED)]"

definition QueueImageSchema :: "decl list" where
  "QueueImageSchema =
    [Simple_field ''custom_ami'' None FStr False [Regexp PCLUSTER_AMI_ID_REGEX] (Some QUEUE_UPDATE_STRATEGY)]"

definition QueueCustomActionsSchema :: "decl list" where
  "QueueCustomActionsSchema =
    [one_or_many_custom_action ''on_node_start'' QUEUE_UPDATE_STRATEGY,
     one_or_many_custom_action ''on_node_configured'' QUEUE_UPDATE_STRATEGY]"

definition HeadNodeCustomActionsSchema :: "decl list" where
  "HeadNodeCustomActionsSchema =
    [one_or_many_custom_action ''on_node_start'' UNSUPPORTED,
     one_or_many_custom_action ''on_node_configured'' UNSUPPORTED,
     one_or_many_custom_action ''on_node_updated'' SUPPORTED]"

definition LoginNodesCustomActionsSchema :: "decl list" where
  "LoginNodesCustomActionsSchema =
    [one_or_many_custom_action ''on_node_start'' UNSUPPORTED,
     one_or_many_custom_action ''on_node_configured'' UNSUPPORTED,
     one_or_many_custom_action ''on_node_updated'' SUPPORTED]"

definition InstanceTypeSchema :: "decl list" where
  "InstanceTypeSchema =
    [Simple_field ''instance_type'' None FStr True [] (Some COMPUTE_FLEET_STOP)]"

definition HeadNodeSchema :: "decl list" where
  "HeadNodeSchema =
    [Simple_field ''instance_type'' None FStr True [] (Some UNSUPPORTED),
     Simple_field ''disable_simultaneous_multithreading'' None FBool False [] (Some UNSUPPORTED),
     Nested_field ''networking'' None False True (Some UNSUPPORTED) None HeadNodeNetworkingSchema,
     Nested_field ''ssh'' None False False (Some SUPPORTED) None HeadNodeSshSchema,
     Nested_field ''local_storage'' None False False (Some UNSUPPORTED) None HeadNodeStorageSchema,
     Simple_field ''shared_storage_type'' None FStr False [OneOf (map VStr [''Ebs'', ''Efs''])] (Some UNSUPPORTED),
     Nested_field ''shared_storage_efs_settings'' None False False (Some UNSUPPORTED) None
       SharedStorageEfsSettingsSchema,
     Nested_field ''dcv'' None False False (Some UNSUPPORTED) None DcvSchema,
     Nested_field ''custom_actions'' None False False (Some IGNORED) None HeadNodeCustomActionsSchema,
     Nested_field ''iam'' None False False (Some SUPPORTED) None HeadNodeIamSchema,
     Nested_field ''imds'' None False False (Some UNSUPPORTED) None ImdsSchema,
     Nested_field ''image'' None False False (Some UNSUPPORTED) None HeadNodeImageSchema]"

definition LoginNodesImageSchema :: "decl list" where
  "LoginNodesImageSchema =
    [Simple_field ''custom_ami'' None FStr False [Regexp PCLUSTER_AMI_ID_REGEX] (Some LOGIN_NODES_POOL_STOP)]"

definition LoginNodesSshSchema :: "decl list" where
  "LoginNodesSshSchema =
    [Simple_field ''allowed_ips'' None FStr False [Check_function ''is_cidr_or_prefix_list'']
       (Some LOGIN_NODES_POOL_STOP)]"

definition LoginNodesNetworkingSchema :: "decl list" where
  "LoginNodesNetworkingSchema =
    inherit BaseNetworkingSchema
    [Simple_field ''subnet_ids'' None (FList FStr [get_field_validator ''subnet_id'']) True
       [Length None None (Some 1)] (Some LOGIN_NODES_POOL_STOP),
     Simple_field ''additional_security_groups'' None (FList FStr [get_field_validator ''security_group_id''])
       False [] (Some LOGIN_NODES_POOL_STOP),
     Simple_field ''security_groups'' None (FList FStr [get_field_validator ''security_group_id'']) False []
       (Some LOGIN_NODES_POOL_STOP),
     Nested_field ''proxy'' None False False (Some LOGIN_NODES_POOL_STOP) None LoginNodeProxySchema]"

definition LoginNodesPoolSchema :: "decl list" where
  "LoginNodesPoolSchema =
    [Simple_field ''name'' None FStr True [] (Some LOGIN_NODES_POOL_STOP),
     Simple_field ''instance_type'' None FStr True [] (Some LOGIN_NODES_POOL_STOP),
     Nested_field ''image'' None False False (Some LOGIN_NODES_POOL_STOP) None LoginNodesImageSchema,
     Nested_field ''networking'' None False True (Some LOGIN_NODES_POOL_STOP) None LoginNodesNetworkingSchema,
     Simple_field ''count'' None FInt True [Range (Some 0) None] (Some SUPPORTED),
     Nested_field ''dcv'' None False False (Some UNSUPPORTED) None DcvSchema,
     Nested_field ''ssh'' None False False (Some LOGIN_NODES_POOL_STOP) None LoginNodesSshSchema,
     Nested_field ''custom_actions'' None False False (Some IGNORED) None LoginNodesCustomActionsSchema,
     Nested_field ''iam'' None False False (Some LOGIN_NODES_POOL_STOP) None LoginNodesIamSchema,
     Simple_field ''gracetime_period'' None FInt False [Range (Some 3) (Some 120)] (Some SUPPORTED)]"

definition LoginNodesSchema :: "decl list" where
  "LoginNodesSchema =
    [Nested_field ''pools'' None True True (Some (derived_policy LOGIN_NODES_POOLS None None)) (Some ''Name'')
       LoginNodesPoolSchema]"

definition ComputeResourceSchema :: "decl list" where
  "ComputeResourceSchema =
    [Simple_field ''name'' None FStr True [] (Some UNSUPPORTED)]"

definition SlurmComputeResourceNetworkingSchema :: "decl list" where
  "SlurmComputeResourceNetworkingSchema =
    [Nested_field ''placement_group'' None False False (Some MANAGED_PLACEMENT_GROUP) None PlacementGroupSchema]"

definition QueueTagSchema :: "decl list" where
  "QueueTagSchema =
    [Simple_field ''key'' None FStr True [Length None (Some 128) None] (Some QUEUE_UPDATE_STRATEGY),
     Simple_field ''value'' None FStr True [Length None (Some 256) None] (Some QUEUE_UPDATE_STRATEGY)]"

definition SlurmComputeResourceSchema :: "decl list" where
  "SlurmComputeResourceSchema =
    inherit ComputeResourceSchema
    [Simple_field ''instance_type'' None FStr False [] (Some COMPUTE_FLEET_STOP),
     Nested_field ''instances'' None True False (Some COMPUTE_FLEET_STOP_ON_REMOVE) (Some ''InstanceType'')
       InstanceTypeSchema,
     Simple_field ''max_count'' None FInt False [Range (Some 1) None] (Some RESIZE_UPDATE_STRATEGY_ON_REMOVE),
     Simple_field ''min_count'' None FInt False [Range (Some 0) None] (Some RESIZE_UPDATE_STRATEGY_ON_REMOVE),
     Simple_field ''spot_price'' None FFloat False [Range (Some 0) None] (Some QUEUE_UPDATE_STRATEGY),
     Nested_field ''efa'' None False False (Some QUEUE_UPDATE_STRATEGY) None EfaSchema,
     Simple_field ''disable_simultaneous_multithreading'' None FBool False [] (Some COMPUTE_FLEET_STOP),
     Simple_field ''schedulable_memory'' None FInt False [] (Some QUEUE_UPDATE_STRATEGY),
     Nested_field ''capacity_reservation_target'' None False False (Some QUEUE_UPDATE_STRATEGY) None
       CapacityReservationTargetSchema,
     Nested_field ''networking'' None False False (Some MANAGED_PLACEMENT_GROUP) None
       SlurmComputeResourceNetworkingSchema,
     Nested_field ''health_checks'' None False False (Some SUPPORTED) None HealthChecksSchema,
     Simple_field ''custom_slurm_settings'' None FDict False [] (Some SUPPORTED),
     Nested_field ''tags'' None True False (Some QUEUE_UPDATE_STRATEGY) (Some ''Key'') QueueTagSchema,
     Simple_field ''static_node_priority'' None FInt False
       [Range (Some MIN_SLURM_NODE_PRIORITY) (Some MAX_SLURM_NODE_PRIORITY)] (Some SUPPORTED),
     Simple_field ''dynamic_node_priority'' None FInt False
       [Range (Some MIN_SLURM_NODE_PRIORITY) (Some MAX_SLURM_NODE_PRIORITY)] (Some SUPPORTED),
     Nested_field ''launch_template_overrides'' None False False (Some QUEUE_UPDATE_STRATEGY) None
       LaunchTemplateOverridesSchema]"

definition ComputeSettingsSchema :: "decl list" where
  "ComputeSettingsSchema =
    [Nested_field ''local_storage'' None False False (Some QUEUE_UPDATE_STRATEGY) None QueueStorageSchema]"

definition BaseQueueSchema :: "decl list" where
  "BaseQueueSchema =
    [Simple_field ''name'' None FStr True [] (Some UNSUPPORTED),
     Simple_field ''capacity_type'' None FStr False [OneOf (map VStr CapacityType)] (Some QUEUE_UPDATE_STRATEGY)]"

definition CommonQueueSchema :: "decl list" where
  "CommonQueueSchema =
    inherit BaseQueueSchema
    [Nested_field ''compute_settings'' None False False (Some QUEUE_UPDATE_STRATEGY) None ComputeSettingsSchema,
     Nested_field ''custom_actions'' None False False (Some QUEUE_UPDATE_STRATEGY) None QueueCustomActionsSchema,
     Nested_field ''iam'' None False False (Some SUPPORTED) None QueueIamSchema,
     Nested_field ''image'' None False False (Some QUEUE_UPDATE_STRATEGY) None QueueImageSchema,
     Nested_field ''capacity_reservation_target'' None False False (Some QUEUE_UPDATE_STRATEGY) None
       CapacityReservationTargetSchema]"

definition SlurmQueueSchema :: "decl list" where
  "SlurmQueueSchema =
    inherit CommonQueueSchema
    [Simple_field ''allocation_strategy'' None FStr False [OneOf (map VStr AllocationStrategy)]
       (Some QUEUE_UPDATE_STRATEGY),
     Nested_field ''compute_resources'' None True False (Some RESIZE_UPDATE_STRATEGY_ON_REMOVE)
       (Some ''Name'') SlurmComputeResourceSchema,
     Nested_field ''networking'' None False True (Some QUEUE_UPDATE_STRATEGY) None SlurmQueueNetworkingSchema,
     Nested_field ''health_checks'' None False False (Some SUPPORTED) None HealthChecksSchema,
     Simple_field ''custom_slurm_settings'' None FDict False [] (Some SUPPORTED),
     Nested_field ''tags'' None True False (Some QUEUE_UPDATE_STRATEGY) (Some ''Key'') QueueTagSchema,
     Simple_field ''job_exclusive_allocation'' None FBool False [] (Some SUPPORTED)]"

definition DnsSchema :: "decl list" where
  "DnsSchema =
    [Simple_field ''disable_managed_dns'' None FBool False [] (Some UNSUPPORTED),
     Simple_field ''hosted_zone_id'' None FStr False [] (Some UNSUPPORTED),
     Simple_field ''use_ec2_hostnames'' None FBool False [] (Some UNSUPPORTED)]"

definition DatabaseSchema :: "decl list" where
  "DatabaseSchema =
    [Simple_field ''uri'' None FStr True [] (Some COMPUTE_FLEET_STOP),
     Simple_field ''user_name'' None FStr True [] (Some COMPUTE_FLEET_STOP),
     Simple_field ''password_secret_arn'' None FStr True [Regexp ''^arn:.*:secret''] (Some COMPUTE_FLEET_STOP),
     Simple_field ''database_name'' None FStr False
       [All_of [Regexp ''^[0-9a-z_]+$'', Length (Some 1) (Some 64) None]] (Some SUPPORTED)]"

definition ExternalSlurmdbdSchema :: "decl list" where
  "ExternalSlurmdbdSchema =
    [Simple_field ''host'' None FStr True [] (Some SUPPORTED),
     Simple_field ''port'' None FInt False [] (Some SUPPORTED)]"

definition SlurmSettingsSchema :: "decl list" where
  "SlurmSettingsSchema =
    [Simple_field ''scaledown_idletime'' None FInt False [Range (Some (-1)) None] (Some COMPUTE_FLEET_STOP),
     Nested_field ''dns'' None False False (Some UNSUPPORTED) None DnsSchema,
     Simple_field ''queue_update_strategy'' None FStr False [OneOf (map VStr QueueUpdateStrategy)] (Some IGNORED),
     Simple_field ''enable_memory_based_scheduling'' None FBool False [] (Some COMPUTE_FLEET_STOP),
     Nested_field ''database'' None False False (Some COMPUTE_FLEET_STOP) None DatabaseSchema,
     Simple_field ''custom_slurm_settings'' None (FList FDict []) False [] (Some SUPPORTED),
     Simple_field ''custom_slurm_settings_include_file'' None FStr False [] (Some SUPPORTED),
     Simple_field ''munge_key_secret_arn'' None FStr False [] (Some COMPUTE_AND_LOGIN_NODES_STOP),
     Nested_field ''external_slurmdbd'' None False False (Some SUPPORTED) None ExternalSlurmdbdSchema]"

definition SchedulingSchema :: "decl list" where
  "SchedulingSchema =
    [Simple_field ''scheduler'' None FStr True [OneOf (map VStr [''slurm''])] (Some UNSUPPORTED),
     Simple_field ''scaling_strategy'' None FStr False
       [OneOf (map VStr [''all-or-nothing'', ''best-effort'', ''greedy-all-or-nothing''])] (Some SUPPORTED),
     Nested_field ''slurm_settings'' None False False (Some IGNORED) None SlurmSettingsSchema,
     Nested_field ''slurm_queues'' None True True (Some RESIZE_UPDATE_STRATEGY_ON_REMOVE) (Some ''Name'')
       SlurmQueueSchema]"

definition DirectoryServiceSchema :: "decl list" where
  "DirectoryServiceSchema =
    [Simple_field ''domain_name'' None FStr True [] (Some COMPUTE_AND_LOGIN_NODES_STOP),
     Simple_field ''domain_addr'' None FStr True [] (Some COMPUTE_AND_LOGIN_NODES_STOP),
     Simple_field ''password_secret_arn'' None FStr True
       [Regexp (''^arn:.*:(secretsmanager:.*:.*:secret:|ssm:.*:.*:parameter'' @ [CHR 0x5C] @ ''/).*$'')]
       (Some COMPUTE_AND_LOGIN_NODES_STOP),
     Simple_field ''domain_read_only_user'' None FStr True [] (Some COMPUTE_AND_LOGIN_NODES_STOP),
     Simple_field ''ldap_tls_ca_cert'' None FStr False [] (Some COMPUTE_AND_LOGIN_NODES_STOP),
     Simple_field ''ldap_tls_req_cert'' None FStr False
       [OneOf (map VStr [''never'', ''allow'', ''try'', ''demand'', ''hard''])]
       (Some COMPUTE_AND_LOGIN_NODES_STOP),
     Simple_field ''ldap_access_filter'' None FStr False [] (Some COMPUTE_AND_LOGIN_NODES_STOP),
     Simple_field ''generate_ssh_keys_for_users'' None FBool False [] (Some COMPUTE_AND_LOGIN_NODES_STOP),
     Simple_field ''additional_sssd_configs'' None FDict False [] (Some COMPUTE_AND_LOGIN_NODES_STOP)]"

definition ClusterSchema :: "decl list" where
  "ClusterSchema =
    [Nested_field ''login_nodes'' None False False (Some LOGIN_NODES_STOP) None LoginNodesSchema,
     Nested_field ''image'' None False True (Some UNSUPPORTED) None ImageSchema,
     Nested_field ''head_node'' None False True (Some SUPPORTED) None HeadNodeSchema,
     Nested_field ''scheduling'' None False True (Some UNSUPPORTED) None SchedulingSchema,
     Nested_field ''shared_storage'' None True False
       (Some (derived_policy SHARED_STORAGE_UPDATE_POLICY None None)) (Some ''Name'') SharedStorageSchema,
     Nested_field ''monitoring'' None False False (Some IGNORED) None MonitoringSchema,
     Nested_field ''additional_packages'' None False False (Some UNSUPPORTED) None AdditionalPackagesSchema,
     Nested_field ''tags'' None True False (Some SUPPORTED_UNLESS_ADC) (Some ''Key'') TagSchema,
     Nested_field ''iam'' None False False (Some IGNORED) None ClusterIamSchema,
     Nested_field ''directory_service'' None False False (Some COMPUTE_AND_LOGIN_NODES_STOP) None
       DirectoryServiceSchema,
     Simple_field ''config_region'' (Some ''Region'') FStr False [] (Some UNSUPPORTED),
     Nested_field ''imds'' None False False (Some UNSUPPORTED) None TopLevelImdsSchema,
     Simple_field ''custom_s3_bucket'' None FStr False [] (Some READ_ONLY_RESOURCE_BUCKET),
     Simple_field ''additional_resources'' None FStr False [] (Some SUPPORTED),
     Nested_field ''dev_settings'' None False False (Some SUPPORTED) None ClusterDevSettingsSchema,
     Nested_field ''deployment_settings'' None False False (Some UNSUPPORTED) None ClusterDeploymentSettingsSchema]"

lemmas [schema_defs] =
  TagSchema_def AdditionalIamPolicySchema_def CookbookSchema_def LambdaFunctionsVpcConfigSchema_def
  BaseDeploymentSettingsSchema_def BaseDevSettingsSchema_def TopLevelImdsSchema_def HeadNodeRootVolumeSchema_def
  QueueRootVolumeSchema_def RaidSchema_def EbsSettingsSchema_def HeadNodeEphemeralVolumeSchema_def
  QueueEphemeralVolumeSchema_def HeadNodeStorageSchema_def QueueStorageSchema_def EfsSettingsSchema_def
  DataRepositoryAssociationSchema_def FsxLustreSettingsSchema_def FsxOpenZfsSettingsSchema_def
  FsxOntapSettingsSchema_def FileCacheSettingsSchema_def SharedStorageSchema_def HeadNodeProxySchema_def
  QueueProxySchema_def LoginNodeProxySchema_def BaseNetworkingSchema_def HeadNodeNetworkingSchema_def
  PlacementGroupSchema_def QueueNetworkingSchema_def SlurmQueueNetworkingSchema_def BaseSshSchema_def
  HeadNodeSshSchema_def SharedStorageEfsSettingsSchema_def DcvSchema_def EfaSchema_def
  LaunchTemplateOverridesSchema_def CloudWatchLogsSchema_def RotationSchema_def CloudWatchDashboardsSchema_def
  LogsSchema_def DashboardsSchema_def AlarmsSchema_def MonitoringSchema_def RolesSchema_def S3AccessSchema_def
  ClusterIamSchema_def BaseIamSchema_def IamSchema_def HeadNodeIamSchema_def QueueIamSchema_def
  LoginNodesIamSchema_def ImdsSchema_def IntelSoftwareSchema_def AdditionalPackagesSchema_def
  AmiSearchFiltersSchema_def TimeoutsSchema_def CapacityReservationTargetSchema_def ClusterDevSettingsSchema_def
  ClusterDeploymentSettingsSchema_def GpuHealthCheckSchema_def HealthChecksSchema_def ImageSchema_def
  HeadNodeImageSchema_def QueueImageSchema_def QueueCustomActionsSchema_def HeadNodeCustomActionsSchema_def
  LoginNodesCustomActionsSchema_def InstanceTypeSchema_def HeadNodeSchema_def LoginNodesImageSchema_def
  LoginNodesSshSchema_def LoginNodesNetworkingSchema_def LoginNodesPoolSchema_def LoginNodesSchema_def
  ComputeResourceSchema_def SlurmComputeResourceNetworkingSchema_def QueueTagSchema_def
  SlurmComputeResourceSchema_def ComputeSettingsSchema_def BaseQueueSchema_def CommonQueueSchema_def
  SlurmQueueSchema_def DnsSchema_def DatabaseSchema_def ExternalSlurmdbdSchema_def SlurmSettingsSchema_def
  SchedulingSchema_def DirectoryServiceSchema_def ClusterSchema_def

end
