(* ===== verification/PolicyFacts.thy ===== *)
theory PolicyFacts
  imports UpdatePolicy
begin

text \<open>
  What the update policies guarantee: the outcome of \<open>UpdatePolicy.check\<close> on every branch, the
  effect of stopping the fleet, and the behaviour of the checkers the queue, storage and login-node
  policies use.
\<close>

section \<open>Automation\<close>

lemmas [checker_defs] =
  condition_checker_compute_fleet_stop_on_remove_def condition_checker_queue_update_strategy_def
  condition_checker_resize_update_strategy_on_remove_def condition_checker_queue_update_strategy_on_remove_def
  condition_checker_managed_placement_group_def condition_checker_managed_fsx_def
  condition_checker_shared_storage_update_policy_def condition_checker_login_nodes_pools_policy_def
  condition_checker_login_nodes_stop_policy_def condition_checker_login_nodes_pool_stop_policy_def

lemmas [policy_defs] =
  IGNORED_def SUPPORTED_def EXTRA_CHEF_ATTRIBUTES_def QUEUE_UPDATE_STRATEGY_def
  RESIZE_UPDATE_STRATEGY_ON_REMOVE_def MANAGED_PLACEMENT_GROUP_def SHARED_STORAGE_UPDATE_POLICY_def
  COMPUTE_FLEET_STOP_ON_REMOVE_def COMPUTE_FLEET_STOP_def HEAD_NODE_STOP_def
  READ_ONLY_RESOURCE_BUCKET_def UNKNOWN_POLICY_def UNSUPPORTED_def SUPPORTED_UNLESS_ADC_def
  MANAGED_FSX_def LOGIN_NODES_POOLS_def LOGIN_NODES_STOP_def LOGIN_NODES_POOL_STOP_def
  COMPUTE_AND_LOGIN_NODES_STOP_def init_update_policy_def truthy_text_def

definition all_policies :: "update_policy list" where
  "all_policies = [IGNORED, SUPPORTED, EXTRA_CHEF_ATTRIBUTES, QUEUE_UPDATE_STRATEGY,
     RESIZE_UPDATE_STRATEGY_ON_REMOVE, MANAGED_PLACEMENT_GROUP, SHARED_STORAGE_UPDATE_POLICY,
     COMPUTE_FLEET_STOP_ON_REMOVE, COMPUTE_FLEET_STOP, HEAD_NODE_STOP, READ_ONLY_RESOURCE_BUCKET,
     UNKNOWN_POLICY, UNSUPPORTED, SUPPORTED_UNLESS_ADC, MANAGED_FSX, LOGIN_NODES_POOLS,
     LOGIN_NODES_STOP, LOGIN_NODES_POOL_STOP, COMPUTE_AND_LOGIN_NODES_STOP]"

section \<open>UpdatePolicy.check\<close>

lemma opt_check_None [simp]: "opt_check f None = ret None"
  by (simp add: opt_check_def)

lemma check_succeeded:
  assumes "up_condition_checker p = Some chk" and "run_checker chk change patch c = Inr (True, c')"
  shows "check p change patch c = Inr (\<lparr>cr_result = SUCCEEDED, cr_fail_reason = Some ''-'',
           cr_action_needed = None, cr_print_change = up_print_succeeded p\<rparr>, c')"
  using assms by (simp add: check_def check_apply opt_check_def)

lemma check_outcome:
  assumes "check p change patch c = Inr (row, c')"
  shows "case up_condition_checker p of
           None \<Rightarrow> cr_result row = FAILED \<and> cr_print_change row
         | Some chk \<Rightarrow> (\<exists>ok c1. run_checker chk change patch c = Inr (ok, c1) \<and>
             (if ok then cr_result row = SUCCEEDED \<and> cr_print_change row = up_print_succeeded p
              else cr_result row = ACTION_NEEDED \<and> cr_print_change row))"
proof (cases "up_condition_checker p")
  case None
  with assms show ?thesis by (auto simp: check_def cbind_Inr_iff)
next
  case (Some chk)
  from assms Some obtain ok c1 where ok: "run_checker chk change patch c = Inr (ok, c1)"
    by (auto simp: check_def cbind_Inr_iff)
  have "if ok then cr_result row = SUCCEEDED \<and> cr_print_change row = up_print_succeeded p
        else cr_result row = ACTION_NEEDED \<and> cr_print_change row"
    using assms Some ok by (cases ok) (auto simp: check_def cbind_Inr_iff)
  with Some ok show ?thesis by auto
qed

text \<open>A change is reported as \<open>SUCCEEDED\<close> exactly when the policy has a condition checker and it answers true;
  a change that did not succeed is always printed.\<close>

lemma check_succeeded_iff:
  assumes "check p change patch c = Inr (row, c')"
  shows "(cr_result row = SUCCEEDED \<longleftrightarrow>
            (\<exists>chk c1. up_condition_checker p = Some chk \<and> run_checker chk change patch c = Inr (True, c1))) \<and>
         (cr_result row \<noteq> SUCCEEDED \<longrightarrow> cr_print_change row)"
proof (cases "up_condition_checker p")
  case None
  with check_outcome[OF assms] show ?thesis by simp
next
  case (Some chk)
  with check_outcome[OF assms] obtain ok c1 where
    ok: "run_checker chk change patch c = Inr (ok, c1)"
    "if ok then cr_result row = SUCCEEDED else cr_result row = ACTION_NEEDED \<and> cr_print_change row"
    by (auto split: if_splits)
  with Some show ?thesis by (cases ok) simp_all
qed

definition max_count_change :: "int \<Rightarrow> int \<Rightarrow> change" where
  "max_count_change old new = \<lparr>ch_path = [''Scheduling'', ''SlurmQueues[q1]'', ''ComputeResources[cr1]''],
     ch_key = ''MaxCount'', ch_old_value = VInt old, ch_new_value = VInt new,
     ch_update_policy = RESIZE_UPDATE_STRATEGY_ON_REMOVE, ch_is_list = False\<rparr>"

definition scheduling_patch :: "pyval \<Rightarrow> change list \<Rightarrow> patch" where
  "scheduling_patch settings chs = \<lparr>base_config = emptydict,
     target_config = VDict [(''Scheduling'', VDict [(''SlurmSettings'', settings)])],
     changes = chs, env_region = Some ''us-east-1'', json_loads = (\<lambda>_. None)\<rparr>"

section \<open>Stopping the compute fleet\<close>

definition stop_fleet :: "cluster \<Rightarrow> cluster" where
  "stop_fleet c = c\<lparr>cl_fleet_status := STOPPED, cl_has_running_capacity := None\<rparr>"

lemma running_stop_fleet [simp]: "\<not> running (stop_fleet c)"
  by (simp add: stop_fleet_def running_def)

definition cached_capacity :: "cluster \<Rightarrow> cluster" where
  "cached_capacity c = c\<lparr>cl_has_running_capacity := Some (running c)\<rparr>"

lemma has_running_capacity_value [simp]:
  "has_running_capacity False c = Inr (running c, cached_capacity c)"
  by (simp add: has_running_capacity_apply cached_capacity_def)

lemma running_cached_capacity [simp]: "running (cached_capacity c) = running c"
  by (simp add: cached_capacity_def)

lemma login_nodes_running:
  "has_running_login_nodes False p c = Inr (b, c') \<Longrightarrow> running c' = running c"
  by (auto dest: has_running_login_nodes_state)

lemma when_stopped:
  assumes "\<not> running c"
  shows "condition_checker_queue_update_strategy change patch c = Inr (True, cached_capacity c)"
    and "condition_checker_resize_update_strategy_on_remove change patch c = Inr (True, cached_capacity c)"
    and "condition_checker_compute_fleet_stop_on_remove change patch c = Inr (True, cached_capacity c)"
    and "condition_checker_queue_update_strategy_on_remove change patch c = Inr (True, cached_capacity c)"
  using assms by (simp_all add: checker_defs check_apply)

lemma c_not_Inr_True: "c_not m c = Inr (True, c') \<longleftrightarrow> m c = Inr (False, c')"
  by (auto simp: c_not_def cbind_Inr_iff)

lemma c_and_Inr_False:
  "c_and m n c = Inr (False, c') \<longleftrightarrow>
     m c = Inr (False, c') \<or> (\<exists>c1. m c = Inr (True, c1) \<and> n c1 = Inr (False, c'))"
  by (auto simp: c_and_def cbind_Inr_iff split: if_splits)

lemma lift_Inr_iff: "lift_result r c = Inr (x, c') \<longleftrightarrow> r = Inr x \<and> c' = c"
  by (cases r) auto

section \<open>Resizing the queues\<close>

lemma is_resize_terminate_value:
  "target_queue_update_strategy patch = Inr strategy \<Longrightarrow>
   is_resize_update_strategy_terminate patch = Inr (py_eq strategy (VStr ''TERMINATE''))"
  by (simp add: is_resize_update_strategy_terminate_def)

text \<open>With the fleet running, a \<open>MaxCount\<close> of a compute resource can be changed without
  \<open>QueueUpdateStrategy: TERMINATE\<close> only upwards.\<close>

lemma max_count_change_allowed_iff:
  assumes "running c" and "is_slurm_queues_change change" and "ch_key change = ''MaxCount''"
    and "\<not> ch_is_list change" and "ch_old_value change = VInt old" and "ch_new_value change = VInt new"
    and "target_queue_update_strategy patch = Inr strategy"
  shows "run_checker Check_resize_update_strategy_on_remove change patch c
         = Inr (py_eq strategy (VStr ''TERMINATE'') \<or> old \<le> new, cached_capacity c)"
  using assms is_resize_terminate_value[OF assms(7)]
  by (auto simp: condition_checker_resize_update_strategy_on_remove_def check_apply
      max_count_not_decreased_def convert_value_to_int_def)

lemma max_count_example_path: "is_slurm_queues_change (max_count_change old new)"
  by (simp add: max_count_change_def is_slurm_queues_change_def startswith_def)

lemma scheduling_patch_strategy:
  "target_queue_update_strategy (scheduling_patch (VDict d) chs) =
     Inr (case map_of d ''QueueUpdateStrategy'' of None \<Rightarrow> VStr QUEUE_UPDATE_STRATEGY_DEFAULT | Some v \<Rightarrow> v)"
  by (simp add: target_queue_update_strategy_def scheduling_patch_def)

text \<open>With the fleet running, a queue or compute resource can always be added, and removed only with
  \<open>QueueUpdateStrategy: TERMINATE\<close>.\<close>

lemma queue_item_change_allowed_iff:
  assumes "running c" and "ch_is_list change"
    and "is_slurm_queues_change change \<or> ch_key change = ''SlurmQueues''"
    and "ch_key change \<noteq> ''MaxCount''" and "ch_key change \<noteq> ''MinCount''"
    and "target_queue_update_strategy patch = Inr strategy"
  shows "run_checker Check_resize_update_strategy_on_remove change patch c
         = Inr (py_eq strategy (VStr ''TERMINATE'') \<or>
                ch_old_value change = VNone \<and> ch_new_value change \<noteq> VNone, cached_capacity c)"
  using assms is_resize_terminate_value[OF assms(6)]
  by (auto simp: condition_checker_resize_update_strategy_on_remove_def check_apply)

definition queue_change :: "pyval \<Rightarrow> pyval \<Rightarrow> change" where
  "queue_change old new = \<lparr>ch_path = [''Scheduling''], ch_key = ''SlurmQueues'', ch_old_value = old,
     ch_new_value = new, ch_update_policy = RESIZE_UPDATE_STRATEGY_ON_REMOVE, ch_is_list = True\<rparr>"

section \<open>Managed placement groups\<close>

text \<open>Deleting a managed placement group while the fleet is running is refused, whatever
  \<open>QueueUpdateStrategy\<close> says; the action asked for is to stop the fleet.\<close>

lemma managed_placement_group_deletion_refused:
  assumes "is_managed_placement_group_deletion change patch = Inr True" and "running c"
  shows "check MANAGED_PLACEMENT_GROUP change patch c = Inr (\<lparr>cr_result = ACTION_NEEDED,
     cr_fail_reason = Some ''All compute nodes must be stopped for a managed placement group deletion'',
     cr_action_needed = Some (action_pcluster_stop @ ''.''), cr_print_change = True\<rparr>, cached_capacity c)"
  using assms
  by (simp add: policy_defs check_def check_apply opt_check_def condition_checker_managed_placement_group_def
      fail_reason_managed_placement_group_def actions_needed_managed_placement_group_def)

section \<open>Shared storage\<close>

text \<open>Mounting or unmounting a file system that pcluster does not manage is allowed on a running
  cluster without stopping compute or login nodes, unless it is the home directory.\<close>

lemma external_storage_change_allowed:
  assumes "is_home_change change = Inr False"
    and "make_shared_storage_change_info change = Inr info"
    and "is_external info" and "list_ex (\<lambda>t. py_eq (storage_type info) (VStr t)) STORAGE_TYPES_SUPPORTING_LIVE_UPDATES"
    and "has_running_login_nodes False [] c = Inr (b, c1)"
  shows "\<exists>c'. run_checker Check_shared_storage_update_policy change patch c = Inr (True, c')"
  using assms
  by (auto simp: condition_checker_shared_storage_update_policy_def check_apply
      is_login_fleet_update_supported_for_shared_storage_def is_compute_fleet_update_supported_for_shared_storage_def
      is_live_update_supported_def)

definition storage_change :: "pyval \<Rightarrow> pyval \<Rightarrow> change" where
  "storage_change old new = \<lparr>ch_path = [], ch_key = ''SharedStorage'', ch_old_value = old, ch_new_value = new,
     ch_update_policy = SHARED_STORAGE_UPDATE_POLICY, ch_is_list = True\<rparr>"

definition external_efs :: pyval where
  "external_efs = VDict [(''MountDir'', VStr ''/efs''), (''StorageType'', VStr ''Efs''),
     (''EfsSettings'', VDict [(''FileSystemId'', VStr ''fs-12345678'')])]"

text \<open>Changing the mount directory of an existing shared storage makes the check raise
  \<open>AttributeError\<close> whenever login nodes are running: the checker reads \<open>StorageType\<close> from the changed
  value, which for this parameter is a string.\<close>

lemma mount_dir_change_raises:
  assumes "ch_key change = ''MountDir''" and "ch_new_value change = VStr new"
    and "has_running_login_nodes False [] c = Inr (True, c1)"
  shows "check SHARED_STORAGE_UPDATE_POLICY change patch c = Inl AttributeError"
  using assms
  by (simp add: policy_defs check_def check_apply condition_checker_shared_storage_update_policy_def
      is_home_change_def is_login_fleet_update_supported_for_shared_storage_def is_live_update_supported_def
      make_shared_storage_change_info_def Let_def)

definition mount_dir_change :: change where
  "mount_dir_change = \<lparr>ch_path = [''SharedStorage[efs]''], ch_key = ''MountDir'', ch_old_value = VStr ''/a'',
     ch_new_value = VStr ''/b'', ch_update_policy = SHARED_STORAGE_UPDATE_POLICY, ch_is_list = False\<rparr>"

section \<open>ExtraChefAttributes\<close>

lemma parse_json_string_wf:
  "(\<And>s v. loads s = Some v \<Longrightarrow> wf_val v) \<Longrightarrow> wf_val (parse_json_string loads x emptydict)"
  by (auto simp: parse_json_string_def split: pyval.splits option.splits)

text \<open>Two \<open>ExtraChefAttributes\<close> documents that load to equal dictionaries are never reported as a
  forbidden change, however differently they are written.\<close>

lemma extra_chef_attributes_equal_allowed:
  assumes "ch_old_value change = VStr s1" and "ch_new_value change = VStr s2" and "s1 \<noteq> []" and "s2 \<noteq> []"
    and "json_loads patch s1 = Some (VDict d1)" and "json_loads patch s2 = Some (VDict d2)"
    and "wf_val (VDict d1)" and "wf_val (VDict d2)" and "py_eq (VDict d1) (VDict d2)"
  shows "run_checker Check_extra_chef_attributes change patch c = Inr (True, c)"
proof -
  have e: "or_empty (VDict d) = Inr d" for d by (simp add: or_empty_def py_or_def)
  have "get_dictionary_diff (VDict d1) (VDict d2) = Inr {}"
    using dictionary_diff_empty_iff[OF assms(7,8) e e] assms(9) by blast
  with assms show ?thesis
    by (simp add: condition_checker_extra_chef_attributes_def get_non_updatable_changes_def parse_json_string_def
        Let_def)
qed

definition chef_change :: "string \<Rightarrow> string \<Rightarrow> change" where
  "chef_change old new = \<lparr>ch_path = [''DevSettings'', ''Cookbook''], ch_key = ''ExtraChefAttributes'',
     ch_old_value = VStr old, ch_new_value = VStr new, ch_update_policy = EXTRA_CHEF_ATTRIBUTES, ch_is_list = False\<rparr>"

definition chef_patch :: patch where
  "chef_patch = \<lparr>base_config = emptydict, target_config = emptydict, changes = [], env_region = None,
     json_loads = (\<lambda>s. if s = ''{a:1,b:2}'' then Some (VDict [(''a'', VInt 1), (''b'', VInt 2)])
       else if s = ''{b:2, a:1}'' then Some (VDict [(''b'', VInt 2), (''a'', VInt 1)]) else None)\<rparr>"

section \<open>The policy table\<close>

text \<open>No two of the policies are equal under \<open>__eq__\<close>, although it compares only the failure reason
  and the level, and several policies share one of the two.\<close>

lemma policies_distinct: "sorted_wrt (\<lambda>p q. \<not> policy_eq p q) all_policies"
  by (simp add: all_policies_def policy_defs policy_eq_def)

end
