(* ===== verification/PatchFacts.thy ===== *)
theory PatchFacts
  imports ConfigPatch PolicyFacts
begin

text \<open>
  What the comparison of two configurations guarantees: every step only appends changes, the changes
  carry the policies of the schema, no difference between the configurations goes undetected, and a
  configuration compared with itself gives no change.
\<close>

section \<open>The changes of one field\<close>

fun policies_of :: "field \<Rightarrow> update_policy list" where
  "policies_of (Param k p) = [policy_or_default p]"
| "policies_of (Section k p fds) = policy_or_default p # concat (map policies_of fds)"
| "policies_of (SectionList k p uk fds) = policy_or_default p # concat (map policies_of fds)"

abbreviation changes_in :: "update_policy list \<Rightarrow> pending \<Rightarrow> bool" where
  "changes_in ps pend \<equiv> (\<forall>bc \<in> set pend. ch_update_policy (snd bc) \<in> set ps)"

lemma ch_update_policy_resolve [simp]: "ch_update_policy (resolve_path path bc) = ch_update_policy (snd bc)"
  by (simp add: resolve_path_def)

lemma mk_change_simps [simp]:
  "ch_key (mk_change k old new p l) = k" "ch_old_value (mk_change k old new p l) = old"
  "ch_new_value (mk_change k old new p l) = new" "ch_update_policy (mk_change k old new p l) = p"
  "ch_is_list (mk_change k old new p l) = l"
  by (simp_all add: mk_change_def)

text \<open>Every step only appends to the changes recorded so far.\<close>

definition extends :: "update_policy list \<Rightarrow> pending \<Rightarrow> pending \<Rightarrow> bool" where
  "extends ps old new \<longleftrightarrow> (\<exists>d. new = old @ d \<and> changes_in ps d)"

lemma extends_refl [intro, simp]: "extends ps old old"
  by (simp add: extends_def)

lemma extends_trans: "extends ps a b \<Longrightarrow> extends ps b c \<Longrightarrow> extends ps a c"
  by (auto simp: extends_def)

lemma extends_antisym: "extends ps a b \<Longrightarrow> extends qs b a \<Longrightarrow> b = a"
  by (auto simp: extends_def)

lemma extends_append [intro]: "changes_in ps d \<Longrightarrow> extends ps old (old @ d)"
  by (auto simp: extends_def)

lemma extends_mono: "extends ps a b \<Longrightarrow> set ps \<subseteq> set qs \<Longrightarrow> extends qs a b"
  by (fastforce simp: extends_def)

lemma compare_param_extends:
  assumes "compare_param k p b t st = Inr st'"
  shows "extends [p] (snd st) (snd st')"
  using assms
  by (auto simp: compare_param_def rbind_Inr_iff extends_def split: if_splits)

lemma compare_item_extends:
  assumes "compare_item cmp k p uk b path ti st = Inr st'"
    and "\<And>b t path chs. cmp b t path = Inr chs \<Longrightarrow> \<forall>ch \<in> set chs. ch_update_policy ch \<in> set ps"
    and "p \<in> set ps"
  shows "extends ps (snd st) (snd st')"
  using assms
  by (fastforce simp: compare_item_def rbind_Inr_iff rmap_Inr_iff extends_def added_item_def
        split: option.splits prod.splits if_splits)

lemma removed_items_changes:
  "removed_items k p visited xs n = Inr rest \<Longrightarrow> changes_in [p] rest"
proof (induction xs arbitrary: n rest)
  case (Cons x xs)
  then obtain seen rest' where "removed_items k p visited xs (Suc n) = Inr rest'"
    "rest = (if seen then rest' else (True, mk_change k x VNone p True) # rest')"
    by (auto simp: rbind_Inr_iff rmap_Inr_iff)
  with Cons.IH show ?case by auto
qed simp

definition fields_policies :: "field list \<Rightarrow> update_policy list" where
  "fields_policies fds = concat (map policies_of fds)"

lemma compare_fields_extends:
  assumes "\<And>f b t st st'. f \<in> set fds \<Longrightarrow> compare_field f b t st = Inr st' \<Longrightarrow> extends (policies_of f) (snd st) (snd st')"
  shows "compare_fields fds b t st = Inr st' \<Longrightarrow> extends (fields_policies fds) (snd st) (snd st')"
  using assms
proof (induction fds arbitrary: st)
  case (Cons f fs)
  from Cons.prems(1) obtain u where u: "compare_field f b t st = Inr u" "compare_fields fs b t u = Inr st'"
    by (auto simp: rbind_Inr_iff)
  have "extends (policies_of f) (snd st) (snd u)" using Cons.prems(2) u(1) by simp
  moreover have "extends (fields_policies fs) (snd u) (snd st')" using Cons.IH[OF u(2)] Cons.prems(2) by auto
  ultimately show ?case
    by (auto intro: extends_trans[OF extends_mono extends_mono] simp: fields_policies_def)
qed simp

lemma compare_section_extends:
  assumes "\<And>f b t st st'. f \<in> set fds \<Longrightarrow> compare_field f b t st = Inr st' \<Longrightarrow> extends (policies_of f) (snd st) (snd st')"
    and "compare_section fds b t path = Inr chs"
  shows "\<forall>ch \<in> set chs. ch_update_policy ch \<in> set (fields_policies fds)"
proof -
  from assms(2) obtain st where st: "compare_fields fds b t (path, []) = Inr st"
    and chs: "chs = map (resolve_path (fst st)) (snd st)"
    by (auto simp: rmap_Inr_iff)
  from compare_fields_extends[OF assms(1) st] have "changes_in (fields_policies fds) (snd st)"
    by (auto simp: extends_def)
  with chs show ?thesis by auto
qed

lemma compare_Section_cases [consumes 1, case_names nested changed absent]:
  assumes "compare_field (Section k p fds) b t st = Inr st'"
  obtains tv bv chs where "get_or_none t k = Inr tv" "get_or_none b k = Inr bv" "truthy tv \<or> truthy bv"
      "truthy tv \<and> truthy bv \<or> policy_or_default p = IGNORED"
      "compare_section fds bv tv (fst st @ [k]) = Inr chs" "st' = (fst st, snd st @ map (Pair False) chs)"
  | tv bv where "get_or_none t k = Inr tv" "get_or_none b k = Inr bv" "truthy tv \<noteq> truthy bv"
      "st' = (fst st, snd st @ [(True, mk_change k (no_value bv) (no_value tv) (policy_or_default p) False)])"
  | tv bv where "get_or_none t k = Inr tv" "get_or_none b k = Inr bv" "\<not> truthy tv" "\<not> truthy bv" "st' = st"
proof -
  from assms obtain tv bv where v: "get_or_none t k = Inr tv" "get_or_none b k = Inr bv"
    by (auto simp: rbind_Inr_iff)
  show thesis
  proof (cases "truthy tv \<and> truthy bv \<or> (truthy tv \<or> truthy bv) \<and> policy_or_default p = IGNORED")
    case True
    with assms v obtain chs where "compare_section fds bv tv (fst st @ [k]) = Inr chs"
      "st' = (fst st, snd st @ map (Pair False) chs)"
      by (auto simp: rmap_Inr_iff simp del: compare_section.simps)
    with True v show thesis by (intro that(1)) auto
  next
    case False
    show thesis
    proof (cases "truthy tv \<or> truthy bv")
      case True
      have "st' = (fst st, snd st @ [(True, mk_change k (no_value bv) (no_value tv) (policy_or_default p) False)])"
        using assms v False True by (auto simp del: compare_section.simps split: if_splits)
      moreover have "truthy tv \<noteq> truthy bv" using False True by auto
      ultimately show thesis using v by (intro that(2))
    next
      case neither: False
      with assms v have "st' = st" by (simp del: compare_section.simps)
      with neither v show thesis by (intro that(3)) auto
    qed
  qed
qed

lemma compare_SectionList_cases [consumes 1, case_names listed]:
  assumes "compare_field (SectionList k p uk fds) b t st = Inr st'"
  obtains items vp rest where "section_items t k = Inr items"
    "rfold (compare_item (compare_section fds) k (policy_or_default p) uk b (fst st)) items ([], snd st) = Inr vp"
    "st' = (fst st, snd vp @ rest)"
    "if truthy b then \<exists>xs. section_items b k = Inr xs \<and> removed_items k (policy_or_default p) (fst vp) xs 0 = Inr rest
     else rest = []"
proof -
  from assms obtain items where items: "section_items t k = Inr items"
    by (auto simp: rbind_Inr_iff)
  with assms obtain vp where loop:
    "rfold (compare_item (compare_section fds) k (policy_or_default p) uk b (fst st)) items ([], snd st) = Inr vp"
    by (auto simp: rbind_Inr_iff simp del: compare_section.simps)
  show thesis
  proof (cases "truthy b")
    case True
    with assms items loop obtain xs rest where "section_items b k = Inr xs"
      "removed_items k (policy_or_default p) (fst vp) xs 0 = Inr rest" "st' = (fst st, snd vp @ rest)"
      by (auto simp: rbind_Inr_iff rmap_Inr_iff simp del: compare_section.simps)
    with items loop True show thesis by (intro that) auto
  next
    case False
    with assms items loop have "st' = (fst st, snd vp)"
      by (simp del: compare_section.simps)
    with items loop False show thesis by (intro that[where rest = "[]"]) auto
  qed
qed

lemma compare_field_extends:
  "compare_field f b t st = Inr st' \<Longrightarrow> extends (policies_of f) (snd st) (snd st')"
proof (induction f arbitrary: b t st st')
  case (Param k p)
  then show ?case by (auto dest: compare_param_extends)
next
  case (Section k p fds)
  have sec: "\<forall>ch \<in> set chs. ch_update_policy ch \<in> set (fields_policies fds)"
    if "compare_section fds b t path = Inr chs" for b t path chs
    using that Section.IH by (intro compare_section_extends) auto
  from Section.prems show ?case
  proof (cases rule: compare_Section_cases)
    case (nested tv bv chs)
    with sec[OF nested(5)] show ?thesis by (auto simp: extends_def fields_policies_def)
  qed (auto simp: extends_def)
next
  case (SectionList k p uk fds)
  let ?ps = "policies_of (SectionList k p uk fds)"
  have cmp: "\<forall>ch \<in> set chs. ch_update_policy ch \<in> set ?ps" if "compare_section fds b t path = Inr chs" for b t path chs
    using compare_section_extends[OF _ that] SectionList.IH by (auto simp: fields_policies_def)
  from SectionList.prems show ?case
  proof (cases rule: compare_SectionList_cases)
    case (listed items vp rest)
    have "extends ?ps (snd st) (snd vp)"
    proof (rule rfold_invariant[OF listed(2), where P = "\<lambda>u. extends ?ps (snd st) (snd u)"])
      fix x u v
      assume u: "extends ?ps (snd st) (snd u)"
        and v: "compare_item (compare_section fds) k (policy_or_default p) uk b (fst st) x u = Inr v"
      have "extends ?ps (snd u) (snd v)"
        by (rule compare_item_extends[OF v]) (use cmp in auto)
      with u show "extends ?ps (snd st) (snd v)" by (rule extends_trans)
    qed simp
    moreover have "changes_in [policy_or_default p] rest"
      using listed(4) by (cases "truthy b") (auto dest!: removed_items_changes)
    then have "extends ?ps (snd vp) (snd st')"
      using listed(3) by (auto simp: extends_def)
    ultimately show ?thesis by (rule extends_trans)
  qed
qed

definition example_schema :: "field list" where
  "example_schema = [Param ''Region'' None, Section ''Image'' (Some UNSUPPORTED) [Param ''Os'' (Some UNSUPPORTED)],
     SectionList ''SlurmQueues'' (Some COMPUTE_FLEET_STOP_ON_REMOVE) (Some ''Name'')
       [Param ''Name'' (Some UNSUPPORTED), Param ''CapacityType'' (Some QUEUE_UPDATE_STRATEGY)]]"

definition example_config :: "string \<Rightarrow> string \<Rightarrow> pyval" where
  "example_config queue capacity = VDict [(''Image'', VDict [(''Os'', VStr ''alinux2'')]), (''SlurmQueues'',
     VList [VDict [(''Name'', VStr queue), (''CapacityType'', VStr capacity)]])]"

lemma policy_or_default_simps [simp]: "policy_or_default None = UNSUPPORTED" "policy_or_default (Some p) = p"
  by (simp_all add: policy_or_default_def)

lemmas compare_defs = compare_param_def get_value_from_section_def get_or_none_def section_items_def
  compare_item_def added_item_def resolve_path_def mk_change_def

lemma example_same: "compare_section example_schema (example_config q cap) (example_config q cap) [] = Inr []"
  by (simp add: example_schema_def example_config_def compare_defs)

lemma example_capacity: "compare_section example_schema (example_config ''q1'' ''SPOT'') (example_config ''q1'' ''ONDEMAND'') []
  = Inr [\<lparr>ch_path = [''SlurmQueues[q1]''], ch_key = ''CapacityType'', ch_old_value = VStr ''SPOT'',
         ch_new_value = VStr ''ONDEMAND'', ch_update_policy = QUEUE_UPDATE_STRATEGY, ch_is_list = False\<rparr>]"
  by (simp add: example_schema_def example_config_def compare_defs)



section \<open>No change means equal configurations\<close>

text \<open>
  What it means for two sections to agree along a schema, without the algorithm: every parameter
  reached has equal values, a section is present in both or in none (an \<open>IGNORED\<close> one is compared
  with nothing), and the items of a list correspond by their update key.
\<close>

definition entry :: "pyval \<Rightarrow> string \<Rightarrow> pyval" where
  "entry v k = (case get_or_none v k of Inl _ \<Rightarrow> VNone | Inr w \<Rightarrow> w)"

definition entry_items :: "pyval \<Rightarrow> string \<Rightarrow> pyval list" where
  "entry_items v k = (case section_items v k of Inl _ \<Rightarrow> [] | Inr xs \<Rightarrow> xs)"

definition same_key :: "string option \<Rightarrow> pyval \<Rightarrow> pyval \<Rightarrow> bool" where
  "same_key uk x y = (case (update_key_value uk x, update_key_value uk y) of
     (Inr v, Inr w) \<Rightarrow> py_eq v w | _ \<Rightarrow> False)"

definition marked :: "pyval \<Rightarrow> bool" where
  "marked x = (case py_get x ''visited'' (VBool False) of Inl _ \<Rightarrow> False | Inr v \<Rightarrow> truthy v)"

definition param_agree :: "string \<Rightarrow> pyval \<Rightarrow> pyval \<Rightarrow> bool" where
  "param_agree k b t = (case (get_value_from_section k t, get_value_from_section k b) of
     (Inr (tv, tk), Inr (bv, bk)) \<Rightarrow> tk = bk \<and> py_eq tv bv | _ \<Rightarrow> False)"

fun agree :: "field \<Rightarrow> pyval \<Rightarrow> pyval \<Rightarrow> bool" where
  "agree (Param k p) b t = param_agree k b t"
| "agree (Section k p fds) b t =
     (truthy (entry t k) \<or> truthy (entry b k) \<longrightarrow>
       (truthy (entry t k) \<and> truthy (entry b k) \<or> policy_or_default p = IGNORED) \<and>
       (\<forall>f \<in> set fds. agree f (entry b k) (entry t k)))"
| "agree (SectionList k p uk fds) b t =
     ((\<forall>ti \<in> set (entry_items t k). \<exists>bi \<in> set (entry_items b k).
         truthy bi \<and> same_key uk bi ti \<and> (\<forall>f \<in> set fds. agree f bi ti)) \<and>
      (truthy b \<longrightarrow> (\<forall>bi \<in> set (entry_items b k). marked bi \<or> (\<exists>ti \<in> set (entry_items t k).
         same_key uk bi ti \<and> (\<forall>f \<in> set fds. agree f bi ti)))))"

lemma compare_param_none:
  assumes "compare_param k p b t st = Inr st'" and "snd st' = snd st"
  shows "param_agree k b t"
proof -
  from assms(1) obtain tv tk bv bk where
    v: "get_value_from_section k t = Inr (tv, tk)" "get_value_from_section k b = Inr (bv, bk)"
    by (auto simp: compare_param_def rbind_Inr_iff)
  have "tk = bk \<and> py_eq tv bv"
    using assms v by (auto simp: compare_param_def rbind_Inr_iff split: if_splits)
  with v show ?thesis by (simp add: param_agree_def)
qed

lemma compare_fields_none:
  assumes "compare_fields fds b t st = Inr st'" and "snd st' = snd st"
    and "\<And>f st st'. f \<in> set fds \<Longrightarrow> compare_field f b t st = Inr st' \<Longrightarrow> snd st' = snd st \<Longrightarrow> agree f b t"
  shows "\<forall>f \<in> set fds. agree f b t"
  using assms
proof (induction fds arbitrary: st)
  case (Cons f fs)
  from Cons.prems(1) obtain u where u: "compare_field f b t st = Inr u" "compare_fields fs b t u = Inr st'"
    by (auto simp: rbind_Inr_iff)
  have "extends (policies_of f) (snd st) (snd u)" using compare_field_extends[OF u(1)] .
  moreover have "extends (fields_policies fs) (snd u) (snd st')"
    using compare_fields_extends[OF compare_field_extends u(2)] .
  ultimately have eq: "snd u = snd st" "snd st' = snd u"
    using Cons.prems(2) extends_antisym by metis+
  have "agree f b t" using Cons.prems(3)[OF _ u(1) eq(1)] by simp
  moreover have "\<forall>f \<in> set fs. agree f b t"
    using Cons.IH[OF u(2) eq(2)] Cons.prems(3) by auto
  ultimately show ?case by simp
qed simp

lemma compare_section_none:
  assumes "compare_section fds b t path = Inr []"
    and "\<And>f st st'. f \<in> set fds \<Longrightarrow> compare_field f b t st = Inr st' \<Longrightarrow> snd st' = snd st \<Longrightarrow> agree f b t"
  shows "\<forall>f \<in> set fds. agree f b t"
proof -
  from assms(1) obtain st where "compare_fields fds b t (path, []) = Inr st" "snd st = snd (path, [])"
    by (auto simp: rmap_Inr_iff)
  then show ?thesis using assms(2) by (rule compare_fields_none)
qed

lemma find_base_item_Some:
  "find_base_item uk v xs m = Inr (Some (n, x)) \<Longrightarrow> update_key_value uk ti = Inr v
     \<Longrightarrow> m \<le> n \<and> n - m < length xs \<and> xs ! (n - m) = x \<and> same_key uk x ti"
proof (induction xs arbitrary: m)
  case (Cons y ys)
  from Cons.prems(1) obtain w where w: "update_key_value uk y = Inr w"
    "(if py_eq w v then Inr (Some (m, y)) else find_base_item uk v ys (Suc m)) = Inr (Some (n, x))"
    by (auto simp: rbind_Inr_iff)
  show ?case
  proof (cases "py_eq w v")
    case True
    with w Cons.prems(2) show ?thesis by (auto simp: same_key_def)
  next
    case False
    with w(2) have "find_base_item uk v ys (Suc m) = Inr (Some (n, x))" by simp
    from Cons.IH[OF this Cons.prems(2)] show ?thesis
      using Suc_diff_le[of "Suc m" n] by (auto simp: nth_Cons')
  qed
qed simp

lemma removed_items_none:
  "removed_items k p visited xs m = Inr [] \<Longrightarrow> n < length xs \<Longrightarrow> m + n \<in> set visited \<or> marked (xs ! n)"
proof (induction xs arbitrary: m n)
  case (Cons x xs)
  from Cons.prems obtain seen where seen:
    "(if m \<in> set visited then Inr True else rmap truthy (py_get x ''visited'' (VBool False))) = Inr seen" "seen"
    "removed_items k p visited xs (Suc m) = Inr []"
    by (fastforce simp: rbind_Inr_iff rmap_Inr_iff split: if_splits)
  show ?case
  proof (cases n)
    case 0
    with seen(1,2) show ?thesis by (auto simp: rmap_Inr_iff marked_def split: if_splits)
  next
    case (Suc n')
    with Cons.IH[OF seen(3), of n'] Cons.prems(2) show ?thesis by simp
  qed
qed simp

lemma compare_item_matched:
  assumes item: "compare_item cmp k p uk b path ti st = Inr st'"
    and same: "snd st' = snd st" and base: "section_items b k = Inr xs"
  shows "\<exists>n < length xs. fst st' = fst st @ [n] \<and> truthy (xs ! n) \<and> same_key uk (xs ! n) ti
    \<and> (\<exists>path'. cmp (xs ! n) ti path' = Inr [])"
proof -
  from item base obtain v found where v: "update_key_value uk ti = Inr v"
    and f: "find_base_item uk v xs 0 = Inr found"
    by (auto simp: compare_item_def rbind_Inr_iff)
  from item v base f same obtain n x where found: "found = Some (n, x)" and "truthy x"
    by (auto simp: compare_item_def split: option.splits if_splits)
  from item v base f found \<open>truthy x\<close> obtain chs where
    "cmp x ti (path @ [k @ ''['' @ py_str v @ '']'']) = Inr chs"
    "st' = (fst st @ [n], snd st @ map (Pair False) chs)"
    by (auto simp: compare_item_def rmap_Inr_iff)
  moreover from this same have "chs = []" by simp
  moreover from find_base_item_Some[OF f[unfolded found] v] have "n < length xs" "xs ! n = x" "same_key uk x ti"
    by auto
  ultimately show ?thesis using \<open>truthy x\<close> by auto
qed

lemma compare_items_matched:
  assumes "rfold (compare_item cmp k p uk b path) items st = Inr st'"
    and "snd st' = snd st" and "section_items b k = Inr xs"
    and "\<And>b t path chs. cmp b t path = Inr chs \<Longrightarrow> \<forall>ch \<in> set chs. ch_update_policy ch \<in> set ps" and "p \<in> set ps"
    and "\<And>bi ti path. cmp bi ti path = Inr [] \<Longrightarrow> R bi ti"
  shows "(\<forall>ti \<in> set items. \<exists>bi \<in> set xs. truthy bi \<and> same_key uk bi ti \<and> R bi ti) \<and>
    (\<forall>n \<in> set (fst st'). n \<in> set (fst st) \<or> (\<exists>ti \<in> set items. n < length xs \<and> same_key uk (xs ! n) ti \<and> R (xs ! n) ti))"
  using assms(1,2)
proof (induction items arbitrary: st)
  case (Cons ti items)
  let ?step = "compare_item cmp k p uk b path"
  from Cons.prems(1) obtain u where u: "?step ti st = Inr u" "rfold ?step items u = Inr st'"
    by (auto simp: rbind_Inr_iff)
  have "extends ps (snd st) (snd u)" by (rule compare_item_extends[OF u(1)]) (use assms(4,5) in auto)
  moreover have "extends ps (snd u) (snd st')"
  proof (rule rfold_invariant[OF u(2), where P = "\<lambda>w. extends ps (snd u) (snd w)"])
    fix x v w assume v: "extends ps (snd u) (snd v)" and w: "?step x v = Inr w"
    have "extends ps (snd v) (snd w)" by (rule compare_item_extends[OF w]) (use assms(4,5) in auto)
    with v show "extends ps (snd u) (snd w)" by (rule extends_trans)
  qed simp
  ultimately have eq: "snd u = snd st" "snd st' = snd u" using Cons.prems(2) extends_antisym by metis+
  from compare_item_matched[OF u(1) eq(1) assms(3)] obtain n where
    n: "n < length xs" "fst u = fst st @ [n]" "truthy (xs ! n)" "same_key uk (xs ! n) ti" "R (xs ! n) ti"
    using assms(6) by blast
  from Cons.IH[OF u(2) eq(2)] n show ?case by (auto 0 3)
qed simp

lemma compare_field_none:
  "compare_field f b t st = Inr st' \<Longrightarrow> snd st' = snd st \<Longrightarrow> agree f b t"
proof (induction f arbitrary: b t st st')
  case (Param k p)
  then show ?case by (auto intro: compare_param_none)
next
  case (Section k p fds)
  from Section.prems(1) show ?case
  proof (cases rule: compare_Section_cases)
    case (nested tv bv chs)
    with Section.prems(2) have "compare_section fds bv tv (fst st @ [k]) = Inr []" by simp
    then have "\<forall>f \<in> set fds. agree f bv tv" by (rule compare_section_none) (use Section.IH in blast)
    with nested show ?thesis by (auto simp: entry_def)
  next
    case (changed tv bv)
    with Section.prems(2) show ?thesis by simp
  next
    case (absent tv bv)
    then show ?thesis by (simp add: entry_def)
  qed
next
  case (SectionList k p uk fds)
  have nested: "\<forall>f \<in> set fds. agree f bi ti" if "compare_section fds bi ti path = Inr []" for bi ti path
    using that by (rule compare_section_none) (use SectionList.IH in blast)
  have cmp: "\<forall>ch \<in> set chs. ch_update_policy ch \<in> set (policy_or_default p # fields_policies fds)"
    if "compare_section fds b t path = Inr chs" for b t path chs
    using compare_section_extends[OF compare_field_extends that] by auto
  from SectionList.prems(1) show ?case
  proof (cases rule: compare_SectionList_cases)
    case (listed items vp rest)
    have "extends (policy_or_default p # fields_policies fds) (snd st) (snd vp)"
    proof (rule rfold_invariant[OF listed(2), where P = "\<lambda>u. extends (policy_or_default p # fields_policies fds) (snd st) (snd u)"])
      fix x u v
      assume "extends (policy_or_default p # fields_policies fds) (snd st) (snd u)"
        and v: "compare_item (compare_section fds) k (policy_or_default p) uk b (fst st) x u = Inr v"
      moreover have "extends (policy_or_default p # fields_policies fds) (snd u) (snd v)"
        by (rule compare_item_extends[OF v]) (use cmp in auto)
      ultimately show "extends (policy_or_default p # fields_policies fds) (snd st) (snd v)"
        by (auto intro: extends_trans)
    qed simp
    with SectionList.prems(2) listed(3) have same: "snd vp = snd st" "rest = []"
      by (auto simp: extends_def)
    show ?thesis
    proof (cases "items = [] \<and> \<not> truthy b")
      case True
      with listed(1) show ?thesis by (simp add: entry_items_def)
    next
      case False
      then obtain xs where xs: "section_items b k = Inr xs"
        using listed(2,4) by (cases items) (auto simp: rbind_Inr_iff compare_item_def split: if_splits)
      have matched: "(\<forall>ti \<in> set items. \<exists>bi \<in> set xs. truthy bi \<and> same_key uk bi ti \<and> (\<forall>f \<in> set fds. agree f bi ti)) \<and>
        (\<forall>n \<in> set (fst vp). n \<in> set (fst ([] :: nat list, snd st)) \<or>
           (\<exists>ti \<in> set items. n < length xs \<and> same_key uk (xs ! n) ti \<and> (\<forall>f \<in> set fds. agree f (xs ! n) ti)))"
        by (rule compare_items_matched[OF listed(2) _ xs, where ps = "policy_or_default p # fields_policies fds"])
          (use same cmp nested in auto)
      have "marked bi \<or> (\<exists>ti \<in> set items. same_key uk bi ti \<and> (\<forall>f \<in> set fds. agree f bi ti))"
        if "truthy b" "bi \<in> set xs" for bi
      proof -
        from that(2) obtain n where n: "n < length xs" "xs ! n = bi" by (auto simp: in_set_conv_nth)
        have "removed_items k (policy_or_default p) (fst vp) xs 0 = Inr []"
          using listed(4) that(1) xs same(2) by simp
        from removed_items_none[OF this n(1)] show ?thesis using matched n by auto
      qed
      with matched listed(1) xs show ?thesis by (simp add: entry_items_def)
    qed
  qed
qed



section \<open>A configuration compared with itself\<close>

text \<open>
  The shape the schema validation gives a loaded configuration: sections are dictionaries, lists hold
  non-empty dictionaries, and the update key tells the items of a list apart.
\<close>

fun shaped :: "field \<Rightarrow> pyval \<Rightarrow> bool" where
  "shaped (Param k p) v = True"
| "shaped (Section k p fds) v =
     (truthy (entry v k) \<longrightarrow> is_dict (entry v k) \<and> (\<forall>f \<in> set fds. shaped f (entry v k)))"
| "shaped (SectionList k p uk fds) v =
     (is_ok (section_items v k) \<and>
      (\<forall>x \<in> set (entry_items v k). is_dict x \<and> truthy x \<and> wf_val x \<and> (\<forall>f \<in> set fds. shaped f x)) \<and>
      sorted_wrt (\<lambda>x y. \<not> same_key uk x y) (entry_items v k))"

lemma is_dict_iff: "is_dict v \<longleftrightarrow> (\<exists>d. v = VDict d)"
  by (cases v) auto

lemma get_or_none_dict: "is_dict v \<Longrightarrow> get_or_none v k = Inr (entry v k)"
  by (auto simp: is_dict_iff entry_def get_or_none_def)

lemma get_value_dict: "is_dict v \<Longrightarrow> \<exists>w k'. get_value_from_section k v = Inr (w, k')"
  by (auto simp: is_dict_iff get_value_from_section_def)

lemma wf_map_of: "wf_val (VDict d) \<Longrightarrow> map_of d k = Some w \<Longrightarrow> wf_val w"
  by (fastforce dest: map_of_SomeD)

lemma wf_get: "wf_val v \<Longrightarrow> py_get v k VNone = Inr w \<Longrightarrow> wf_val w"
  by (cases v) (auto split: option.splits dest: wf_map_of simp del: wf_val.simps(2) simp: wf_map_of)

lemma wf_get_value: "wf_val v \<Longrightarrow> get_value_from_section k v = Inr (w, k') \<Longrightarrow> wf_val w"
  by (auto simp: get_value_from_section_def rbind_Inr_iff rmap_Inr_iff dest: wf_get split: if_splits)

lemma wf_entry: "wf_val v \<Longrightarrow> wf_val (entry v k)"
  by (auto simp: entry_def get_or_none_def dest: wf_get split: sum.splits if_splits)

lemma compare_param_self:
  assumes "is_dict v" and "wf_val v"
  shows "compare_param k p v v st = Inr st"
proof -
  from get_value_dict[OF assms(1)] obtain w k' where w: "get_value_from_section k v = Inr (w, k')" by blast
  then have "py_eq w w" using wf_get_value[OF assms(2)] py_eq_refl by blast
  with w show ?thesis by (cases st) (simp add: compare_param_def)
qed

lemma update_key_value_dict: "is_dict x \<Longrightarrow> \<exists>v. update_key_value uk x = Inr v"
  by (cases uk) (auto simp: is_dict_iff)

lemma wf_update_key_value: "wf_val x \<Longrightarrow> update_key_value uk x = Inr v \<Longrightarrow> wf_val v"
  by (cases uk) (auto dest: wf_get split: if_splits)

lemma find_base_item_self:
  assumes "\<forall>x \<in> set (ys @ [x]). is_dict x" and "wf_val x" and "\<forall>y \<in> set ys. \<not> same_key uk y x"
    and v: "update_key_value uk x = Inr v"
  shows "find_base_item uk v (ys @ x # zs) m = Inr (Some (m + length ys, x))"
  using assms(1,3)
proof (induction ys arbitrary: m)
  case Nil
  have "py_eq v v" using wf_update_key_value[OF assms(2) v] by (rule py_eq_refl)
  with v show ?case by simp
next
  case (Cons y ys)
  obtain w where "update_key_value uk y = Inr w" using update_key_value_dict[of y uk] Cons.prems(1) by auto
  moreover from this Cons.prems(2) v have "\<not> py_eq w v" by (simp add: same_key_def)
  ultimately show ?case using Cons by simp
qed

lemma compare_items_self:
  assumes "section_items b k = Inr (ys @ zs)"
    and "\<forall>x \<in> set (ys @ zs). is_dict x \<and> truthy x \<and> wf_val x \<and> (\<forall>path. cmp x x path = Inr [])"
    and "sorted_wrt (\<lambda>x y. \<not> same_key uk x y) (ys @ zs)"
  shows "rfold (compare_item cmp k p uk b path) zs ([0..<length ys], pend) = Inr ([0..<length (ys @ zs)], pend)"
  using assms
proof (induction zs arbitrary: ys)
  case (Cons z zs)
  have dist: "\<forall>y \<in> set ys. \<not> same_key uk y z" using Cons.prems(3) by (auto simp: sorted_wrt_append)
  obtain v where v: "update_key_value uk z = Inr v" using update_key_value_dict Cons.prems(2) by force
  have "find_base_item uk v (ys @ z # zs) 0 = Inr (Some (0 + length ys, z))"
    by (rule find_base_item_self) (use Cons.prems(2) v dist in auto)
  then have "compare_item cmp k p uk b path z ([0..<length ys], pend) = Inr ([0..<length (ys @ [z])], pend)"
    using v Cons.prems(1,2) by (simp add: compare_item_def)
  with Cons.IH[of "ys @ [z]"] Cons.prems show ?case by simp
qed simp

lemma removed_items_all:
  "\<forall>i < length xs. m + i \<in> set visited \<Longrightarrow> removed_items k p visited xs m = Inr []"
proof (induction xs arbitrary: m)
  case (Cons x xs)
  have "m \<in> set visited" using Cons.prems by (metis add.right_neutral length_greater_0_conv list.distinct(1))
  moreover have "removed_items k p visited xs (Suc m) = Inr []"
    using Cons.prems by (intro Cons.IH) (metis Suc_less_eq add_Suc_shift length_Cons)
  ultimately show ?case by simp
qed simp

lemma compare_fields_self:
  "(\<And>f st. f \<in> set fds \<Longrightarrow> compare_field f v v st = Inr st) \<Longrightarrow> compare_fields fds v v st = Inr st"
  by (induction fds) auto

lemma compare_section_self:
  "(\<And>f st. f \<in> set fds \<Longrightarrow> compare_field f v v st = Inr st) \<Longrightarrow> compare_section fds v v path = Inr []"
  by (simp add: compare_fields_self)

lemma compare_field_self:
  "shaped f v \<Longrightarrow> is_dict v \<Longrightarrow> wf_val v \<Longrightarrow> compare_field f v v st = Inr st"
proof (induction f arbitrary: v st)
  case (Param k p)
  then show ?case by (simp add: compare_param_self)
next
  case (Section k p fds)
  have sec: "compare_section fds (entry v k) (entry v k) path = Inr []" if "truthy (entry v k)" for path
    using Section.prems that by (intro compare_section_self Section.IH) (auto simp: wf_entry)
  show ?case
    using sec Section.prems(2) by (cases st) (simp add: get_or_none_dict del: compare_section.simps)
next
  case (SectionList k p uk fds)
  then obtain xs where xs: "section_items v k = Inr xs" by (auto simp: is_ok_iff)
  then have items: "entry_items v k = xs" by (simp add: entry_items_def)
  have "compare_section fds x x path = Inr []" if "x \<in> set xs" for x path
    using SectionList.prems that items by (intro compare_section_self SectionList.IH) auto
  then have "rfold (compare_item (\<lambda>b t p. compare_section fds b t p) k (policy_or_default p) uk v (fst st)) xs
      ([0..<length ([] :: pyval list)], snd st) = Inr ([0..<length ([] @ xs)], snd st)"
    using SectionList.prems items xs
    by (intro compare_items_self) (auto simp del: compare_section.simps)
  moreover have "removed_items k (policy_or_default p) [0..<length xs] xs 0 = Inr []"
    by (rule removed_items_all) simp
  ultimately show ?case using xs by (cases st) (simp del: compare_section.simps)
qed

text \<open>C3: a well-formed configuration compared with itself gives a patch without changes.\<close>

theorem same_configuration_no_changes:
  assumes "is_dict config" and "wf_val config" and "\<forall>f \<in> set fds. shaped f config"
  shows "config_patch fds config config region loads = Inr
    \<lparr>base_config = config, target_config = config, changes = [], env_region = region, json_loads = loads\<rparr>"
proof -
  have "compare_section fds config config [] = Inr []"
    using assms by (intro compare_section_self compare_field_self) auto
  then show ?thesis by (simp add: config_patch_def del: compare_section.simps)
qed

theorem same_configuration_no_changes_witness:
  "config_patch example_schema (example_config ''q1'' ''SPOT'') (example_config ''q1'' ''SPOT'') None (\<lambda>_. None) = Inr
    \<lparr>base_config = example_config ''q1'' ''SPOT'', target_config = example_config ''q1'' ''SPOT'', changes = [],
     env_region = None, json_loads = \<lambda>_. None\<rparr>"
  by (rule same_configuration_no_changes)
    (simp_all add: example_schema_def example_config_def entry_def entry_items_def get_or_none_def section_items_def)

end
