(* ===== verification/PatchCheck.thy ===== *)
theory PatchCheck
  imports PatchFacts
begin

text \<open>
  \<open>ConfigPatch.check\<close> and the change set: which changes decide, what the report holds, and what
  stopping the compute fleet does to the verdict on a whole patch.
\<close>

section \<open>The check of a patch\<close>

text \<open>The checks of a list of changes, each on the cluster state the previous one left.\<close>

fun checks :: "patch \<Rightarrow> change list \<Rightarrow> check_row list check" where
  "checks patch [] = ret []"
| "checks patch (ch # chs) = cbind (check (ch_update_policy ch) ch patch) (\<lambda>row.
     cbind (checks patch chs) (\<lambda>rows. ret (row # rows)))"

definition printed_rows :: "change list \<Rightarrow> check_row list \<Rightarrow> cell list list" where
  "printed_rows chs rs = map (\<lambda>(ch, r). report_row ch r) (filter (\<lambda>(ch, r). cr_print_change r) (zip chs rs))"

lemma printed_rows_simps [simp]:
  "printed_rows [] rs = []"
  "printed_rows (ch # chs) (r # rs) = (if cr_print_change r then [report_row ch r] else []) @ printed_rows chs rs"
  by (simp_all add: printed_rows_def)

lemma check_changes_checks:
  "check_changes patch chs (ok, rows) c = (case checks patch chs c of
     Inl e \<Rightarrow> Inl e
   | Inr (rs, c') \<Rightarrow> Inr ((ok \<and> (\<forall>r \<in> set rs. cr_result r = SUCCEEDED), rows @ printed_rows chs rs), c'))"
proof (induction chs arbitrary: ok rows c)
  case (Cons ch chs)
  show ?case
  proof (cases "check (ch_update_policy ch) ch patch c")
    case (Inr rc)
    then obtain row c1 where row: "check (ch_update_policy ch) ch patch c = Inr (row, c1)" by (cases rc) auto
    show ?thesis
      by (cases "checks patch chs c1") (auto simp: row cbind_apply Cons.IH)
  qed (simp add: cbind_apply)
qed simp

lemma checks_length: "checks patch chs c = Inr (rs, c') \<Longrightarrow> length rs = length chs"
  by (induction chs arbitrary: rs c) (auto simp: cbind_Inr_iff)

lemma printed_rows_Nil_iff:
  "length chs = length rs \<Longrightarrow> printed_rows chs rs = [] \<longleftrightarrow> (\<forall>r \<in> set rs. \<not> cr_print_change r)"
  by (induction chs rs rule: list_induct2) auto

definition growth_row :: check_row where
  "growth_row = \<lparr>cr_result = SUCCEEDED, cr_fail_reason = Some ''-'', cr_action_needed = None, cr_print_change = True\<rparr>"

lemma example_growth_checks:
  "checks (scheduling_patch emptydict [max_count_change 5 10]) [max_count_change 5 10] example_cluster
     = Inr ([growth_row], cached_capacity example_cluster)"
proof -
  let ?ch = "max_count_change 5 10" and ?patch = "scheduling_patch emptydict [max_count_change 5 10]"
  have "run_checker Check_resize_update_strategy_on_remove ?ch ?patch example_cluster
      = Inr (True, cached_capacity example_cluster)"
    by (simp add: condition_checker_resize_update_strategy_on_remove_def check_apply example_cluster_def running_def
        max_count_change_def is_slurm_queues_change_def startswith_def scheduling_patch_def
        is_resize_update_strategy_terminate_def target_queue_update_strategy_def QUEUE_UPDATE_STRATEGY_DEFAULT_def
        max_count_not_decreased_def convert_value_to_int_def)
  moreover have resize: "up_condition_checker RESIZE_UPDATE_STRATEGY_ON_REMOVE = Some Check_resize_update_strategy_on_remove"
    "up_print_succeeded RESIZE_UPDATE_STRATEGY_ON_REMOVE"
    by (simp_all add: policy_defs)
  ultimately have "check RESIZE_UPDATE_STRATEGY_ON_REMOVE ?ch ?patch example_cluster
      = Inr (growth_row, cached_capacity example_cluster)"
    using check_succeeded[of RESIZE_UPDATE_STRATEGY_ON_REMOVE] resize by (simp add: growth_row_def)
  then show ?thesis by (simp add: cbind_apply max_count_change_def)
qed

lemma example_growth_allowed:
  "check_patch (scheduling_patch emptydict [max_count_change 5 10]) example_cluster
     = Inr ((True, [header_row, report_row (max_count_change 5 10) growth_row]), cached_capacity example_cluster)"
proof -
  have "changes (scheduling_patch emptydict [max_count_change 5 10]) = [max_count_change 5 10]"
    by (simp add: scheduling_patch_def)
  with example_growth_checks show ?thesis
    by (simp add: check_patch_def check_changes_checks growth_row_def del: checks.simps check_changes.simps)
qed

text \<open>C5: the patch is allowed exactly when every change was checked with the result \<open>SUCCEEDED\<close>, and the
  report is the header and, in order, one row for every change whose check is to be printed.\<close>

theorem check_patch_result:
  assumes "check_patch patch c = Inr ((allowed, rows), c')"
  shows "\<exists>rs. checks patch (changes patch) c = Inr (rs, c') \<and>
    (allowed \<longleftrightarrow> (\<forall>r \<in> set rs. cr_result r = SUCCEEDED)) \<and> rows = header_row # printed_rows (changes patch) rs"
  using assms by (auto simp: check_patch_def check_changes_checks split: sum.splits prod.splits)


theorem check_patch_result_witness:
  "\<exists>rs. checks (scheduling_patch emptydict [max_count_change 5 10]) [max_count_change 5 10] example_cluster
     = Inr (rs, cached_capacity example_cluster) \<and> (\<forall>r \<in> set rs. cr_result r = SUCCEEDED) \<and>
     [header_row, report_row (max_count_change 5 10) growth_row] = header_row # printed_rows [max_count_change 5 10] rs"
  using check_patch_result[OF example_growth_allowed] by (simp add: scheduling_patch_def)

section \<open>Stopping the compute fleet\<close>

text \<open>
  Two clusters that differ in the fleet only, the second with its fleet stopped.  A check that
  accepts a change on the first accepts it on the second and leaves them related again.
\<close>

definition login_part :: "cluster \<Rightarrow> login_nodes_status \<times> bool option \<times> string option" where
  "login_part c = (cl_login_nodes_status c, cl_has_running_login_nodes c, cl_head_node_state c)"

definition stopped_twin :: "cluster \<Rightarrow> cluster \<Rightarrow> bool" where
  "stopped_twin c d \<longleftrightarrow> \<not> running d \<and> login_part d = login_part c"

definition accepted_by_twin :: "bool check \<Rightarrow> bool check \<Rightarrow> bool" where
  "accepted_by_twin m n \<longleftrightarrow> (\<forall>c d c'. stopped_twin c d \<longrightarrow> m c = Inr (True, c') \<longrightarrow>
     (\<exists>d'. n d = Inr (True, d') \<and> stopped_twin c' d'))"

lemma login_part_cached [simp]: "login_part (cached_capacity c) = login_part c"
  by (simp add: login_part_def cached_capacity_def)

lemma twin_cached [simp]: "stopped_twin c d \<Longrightarrow> stopped_twin c (cached_capacity d)"
  "stopped_twin (cached_capacity c) d = stopped_twin c d"
  by (simp_all add: stopped_twin_def)

lemma twin_not_running: "stopped_twin c d \<Longrightarrow> \<not> running d"
  by (simp add: stopped_twin_def)

lemma login_nodes_twin:
  assumes "stopped_twin c d" and "has_running_login_nodes False p c = Inr (b, c')"
  shows "\<exists>d'. has_running_login_nodes False p d = Inr (b, d') \<and> stopped_twin c' d'"
proof -
  have "has_running_login_nodes False p d = Inr (b, d\<lparr>cl_has_running_login_nodes := Some b\<rparr>)"
    using assms by (cases c; cases d) (auto simp: has_running_login_nodes_def rbind_Inr_iff Let_def
        stopped_twin_def login_part_def split: if_splits)
  moreover have "stopped_twin c' (d\<lparr>cl_has_running_login_nodes := Some b\<rparr>)"
    using assms has_running_login_nodes_state[OF assms(2)]
    by (auto simp: stopped_twin_def login_part_def)
  ultimately show ?thesis by blast
qed

text \<open>The checkers that consult only the capacity leave the login nodes' part as it is.\<close>

lemma capacity_frame:
  "condition_checker_queue_update_strategy change patch c = Inr (b, c') \<Longrightarrow> login_part c' = login_part c"
  "condition_checker_resize_update_strategy_on_remove change patch c = Inr (b, c') \<Longrightarrow> login_part c' = login_part c"
  "condition_checker_compute_fleet_stop_on_remove change patch c = Inr (b, c') \<Longrightarrow> login_part c' = login_part c"
  "condition_checker_queue_update_strategy_on_remove change patch c = Inr (b, c') \<Longrightarrow> login_part c' = login_part c"
  by (auto simp: checker_defs c_not_def c_or_def cbind_Inr_iff lift_Inr_iff split: if_splits)

lemma managed_frame:
  "condition_checker_managed_placement_group change patch c = Inr (b, c') \<Longrightarrow> login_part c' = login_part c"
  "condition_checker_managed_fsx change patch c = Inr (b, c') \<Longrightarrow> login_part c' = login_part c"
  by (auto simp: condition_checker_managed_placement_group_def condition_checker_managed_fsx_def c_and_def
      cbind_Inr_iff lift_Inr_iff split: if_splits dest: capacity_frame)

lemma accepted_by_frame:
  assumes "\<And>c b c'. m c = Inr (b, c') \<Longrightarrow> login_part c' = login_part c"
    and "\<And>c d c'. \<not> running d \<Longrightarrow> m c = Inr (True, c') \<Longrightarrow> n d = Inr (True, cached_capacity d)"
  shows "accepted_by_twin m n"
  using assms unfolding accepted_by_twin_def
  by (metis stopped_twin_def login_part_cached running_cached_capacity)

lemma stopped_managed_group_run:
  assumes "\<not> running d" and "condition_checker_managed_placement_group change patch c = Inr (True, c')"
  shows "\<exists>d'. condition_checker_managed_placement_group change patch d = Inr (True, d') \<and> login_part d' = login_part d
    \<and> \<not> running d'"
proof -
  from assms(2) obtain b where "is_managed_placement_group_deletion change patch = Inr b"
    by (auto simp: condition_checker_managed_placement_group_def c_and_def cbind_Inr_iff lift_Inr_iff)
  with assms(1) show ?thesis
    by (cases b) (simp_all add: condition_checker_managed_placement_group_def check_apply when_stopped)
qed

lemma stopped_managed_fsx_run:
  assumes "\<not> running d" and "condition_checker_managed_fsx change patch c = Inr (True, c')"
  shows "\<exists>d'. condition_checker_managed_fsx change patch d = Inr (True, d') \<and> login_part d' = login_part d
    \<and> \<not> running d'"
proof -
  from assms(2) have "unchanged_managed_fsx_lustre_names patch = Inr []"
    by (auto simp: condition_checker_managed_fsx_def cbind_Inr_iff lift_Inr_iff split: if_splits)
  with assms(1) show ?thesis
    by (simp add: condition_checker_managed_fsx_def check_apply when_stopped)
qed

lemma login_stop_twin:
  assumes "stopped_twin c d"
    and "c_and (has_running_login_nodes False []) (c_not (lift_result r)) c = Inr (False, c1)"
  shows "\<exists>d1. c_and (has_running_login_nodes False []) (c_not (lift_result r)) d = Inr (False, d1) \<and> stopped_twin c1 d1"
proof -
  from assms(2) obtain b where b: "has_running_login_nodes False [] c = Inr (b, c1)" "b \<Longrightarrow> r = Inr True"
    by (auto simp: c_and_Inr_False c_not_def cbind_Inr_iff lift_Inr_iff)
  from login_nodes_twin[OF assms(1) b(1)] obtain d1 where
    "has_running_login_nodes False [] d = Inr (b, d1)" "stopped_twin c1 d1" by blast
  with b(2) show ?thesis by (cases b) (simp_all add: c_and_apply c_not_apply)
qed

lemma shared_storage_twin:
  assumes twin: "stopped_twin c d"
    and "condition_checker_shared_storage_update_policy change patch c = Inr (True, c')"
  shows "\<exists>d'. condition_checker_shared_storage_update_policy change patch d = Inr (True, d') \<and> stopped_twin c' d'"
proof -
  let ?login = "c_and (has_running_login_nodes False [])
     (c_not (lift_result (is_login_fleet_update_supported_for_shared_storage change)))"
  let ?fleet = "c_and (has_running_capacity False)
     (c_and (c_not (lift_result (is_compute_fleet_update_supported_for_shared_storage change)))
            (c_not (lift_result (is_queue_update_strategy_set patch))))"
  from assms(2) obtain c1 where home: "is_home_change change = Inr False" and login: "?login c = Inr (False, c1)"
    and fleet_run: "?fleet c1 = Inr (False, c')"
    by (auto simp: condition_checker_shared_storage_update_policy_def cbind_Inr_iff lift_Inr_iff split: if_splits)
  from fleet_run have fleet: "login_part c' = login_part c1"
    by (auto simp: c_and_def c_not_def cbind_Inr_iff lift_Inr_iff split: if_splits)
  from login_stop_twin[OF twin login] obtain d1 where "?login d = Inr (False, d1)" and "stopped_twin c1 d1"
    by blast
  with home have "condition_checker_shared_storage_update_policy change patch d = Inr (True, cached_capacity d1)"
    by (simp add: condition_checker_shared_storage_update_policy_def cbind_apply c_and_apply twin_not_running)
  with \<open>stopped_twin c1 d1\<close> fleet show ?thesis by (auto simp: stopped_twin_def)
qed

lemma run_checker_twin:
  assumes twin: "stopped_twin c d" and run: "run_checker chk change patch c = Inr (True, c')"
  shows "\<exists>d'. run_checker chk change patch d = Inr (True, d') \<and> stopped_twin c' d'"
proof (cases chk)
  case Check_login_nodes_pools
  with run obtain b where b: "has_running_login_nodes False [] c = Inr (b, c')"
    by (auto simp: checker_defs c_not_def cbind_Inr_iff split: if_splits)
  from login_nodes_twin[OF twin b] obtain d' where "has_running_login_nodes False [] d = Inr (b, d')" "stopped_twin c' d'"
    by blast
  with b run Check_login_nodes_pools show ?thesis by (simp add: checker_defs c_not_apply cbind_apply)
next
  case Check_login_nodes_pool_stop
  with run login_nodes_twin[OF twin] show ?thesis
    by (fastforce simp: checker_defs c_not_def cbind_Inr_iff lift_Inr_iff)
next
  case Check_login_nodes_stop
  with run login_nodes_twin[OF twin] show ?thesis
    by (fastforce simp: checker_defs c_not_def cbind_Inr_iff)
next
  case Check_compute_and_login_nodes_stop
  have twin': "stopped_twin (cached_capacity c) (cached_capacity d)" using twin by simp
  from Check_compute_and_login_nodes_stop run have "has_running_login_nodes False [] (cached_capacity c) = Inr (False, c')"
    by (auto simp: checker_defs c_and_def c_not_def cbind_Inr_iff split: if_splits)
  with login_nodes_twin[OF twin'] obtain d' where "has_running_login_nodes False [] (cached_capacity d) = Inr (False, d')"
    "stopped_twin c' d'" by blast
  with Check_compute_and_login_nodes_stop twin_not_running[OF twin] show ?thesis
    by (simp add: checker_defs check_apply)
next
  case Check_head_node_stop
  with run twin show ?thesis
    by (auto simp: head_node_instance_state_def cbind_apply stopped_twin_def login_part_def split: option.splits)
next
  case Check_managed_placement_group
  with run twin stopped_managed_group_run[of d] managed_frame(1) show ?thesis
    by (fastforce simp: stopped_twin_def)
next
  case Check_managed_fsx
  with run twin stopped_managed_fsx_run[of d] managed_frame(2) show ?thesis
    by (fastforce simp: stopped_twin_def)
next
  case Check_shared_storage_update_policy
  with run shared_storage_twin[OF twin] show ?thesis by simp
next
  case Check_compute_fleet_stop
  with run twin show ?thesis by (auto simp: check_apply twin_not_running)
qed (use run twin in \<open>auto simp: when_stopped twin_not_running c_not_apply lift_Inr_iff stopped_twin_def
      dest!: capacity_frame split: sum.splits\<close>)

lemma check_twin:
  assumes twin: "stopped_twin c d" and chk: "check p ch patch c = Inr (r, c')" and ok: "cr_result r = SUCCEEDED"
  shows "\<exists>d'. check p ch patch d = Inr (r, d') \<and> stopped_twin c' d'"
proof -
  from check_outcome[OF chk] ok obtain k c1 where k: "up_condition_checker p = Some k"
    "run_checker k ch patch c = Inr (True, c1)"
    by (auto split: option.splits if_splits)
  with check_succeeded[OF this] chk have r: "r = \<lparr>cr_result = SUCCEEDED, cr_fail_reason = Some ''-'',
      cr_action_needed = None, cr_print_change = up_print_succeeded p\<rparr>" "c' = c1" by simp_all
  from run_checker_twin[OF twin k(2)] obtain d' where "run_checker k ch patch d = Inr (True, d')" "stopped_twin c1 d'"
    by blast
  with check_succeeded[OF k(1)] r show ?thesis by blast
qed

lemma checks_twin:
  "stopped_twin c d \<Longrightarrow> checks patch chs c = Inr (rs, c') \<Longrightarrow> \<forall>r \<in> set rs. cr_result r = SUCCEEDED
    \<Longrightarrow> \<exists>d'. checks patch chs d = Inr (rs, d') \<and> stopped_twin c' d'"
proof (induction chs arbitrary: c d rs)
  case (Cons ch chs)
  from Cons.prems(2) obtain r c1 rs' where r: "check (ch_update_policy ch) ch patch c = Inr (r, c1)"
    and rs': "checks patch chs c1 = Inr (rs', c')" "rs = r # rs'"
    by (auto simp: cbind_Inr_iff)
  from check_twin[OF Cons.prems(1) r] Cons.prems(3) rs' obtain d1 where
    "check (ch_update_policy ch) ch patch d = Inr (r, d1)" "stopped_twin c1 d1" by auto
  with Cons.IH[OF _ rs'(1)] Cons.prems(3) rs'(2) show ?case by (fastforce simp: cbind_Inr_iff)
qed auto

text \<open>C7: stopping the compute fleet never makes a patch inapplicable: a patch that is allowed on a
  cluster is allowed, with the same report, on the cluster with its compute fleet stopped.\<close>

theorem stopped_fleet_keeps_patch_allowed:
  assumes "check_patch patch c = Inr ((True, rows), c')"
  shows "\<exists>c''. check_patch patch (stop_fleet c) = Inr ((True, rows), c'')"
proof -
  from assms obtain rs where rs: "checks patch (changes patch) c = Inr (rs, c')" "\<forall>r \<in> set rs. cr_result r = SUCCEEDED"
    "rows = header_row # printed_rows (changes patch) rs"
    by (auto simp: check_patch_def check_changes_checks split: sum.splits prod.splits)
  have "stopped_twin c (stop_fleet c)"
    by (simp add: stopped_twin_def login_part_def) (simp add: stop_fleet_def)
  from checks_twin[OF this rs(1,2)] obtain d' where "checks patch (changes patch) (stop_fleet c) = Inr (rs, d')" by blast
  with rs(2,3) show ?thesis by (simp add: check_patch_def check_changes_checks)
qed

theorem stopped_fleet_keeps_patch_allowed_witness:
  "\<exists>rows c''. check_patch (scheduling_patch emptydict [max_count_change 5 10]) (stop_fleet example_cluster)
     = Inr ((True, rows), c'')"
  using stopped_fleet_keeps_patch_allowed[OF example_growth_allowed] by blast

section \<open>The change set of a report\<close>

definition change_set_entry :: "change \<Rightarrow> pyval" where
  "change_set_entry ch = VDict [(''parameter'', VStr (build_config_param_path (ch_path ch) (ch_key ch))),
     (''requestedValue'', ch_new_value ch), (''currentValue'', ch_old_value ch),
     (''updatePolicy'', opt_str (up_name (ch_update_policy ch)))]"

lemma header_attributes: "change_attributes header_row 0 =
   [(''update_policy'', 7), (''action_needed'', 6), (''reason'', 5), (''check'', 4), (''new value'', 3),
    (''old value'', 2), (''parameter'', 1), (''param_path'', 0)]"
  by (simp add: header_row_def)

lemma change_entry_report_row:
  "change_entry (change_attributes header_row 0) (report_row ch r) = Inr (change_set_entry ch)"
  by (simp add: header_attributes change_entry_def cell_of_def report_row_def change_set_entry_def)

lemma change_entries_printed_rows:
  "length rs = length chs \<Longrightarrow> rmap_list (change_entry (change_attributes header_row 0)) (printed_rows chs rs)
     = Inr (map (change_set_entry \<circ> fst) (filter (cr_print_change \<circ> snd) (zip chs rs)))"
  by (induction rs chs rule: list_induct2) (simp_all add: change_entry_report_row)

text \<open>The change set generated from a report never raises and lists, in order, every change the check
  printed, with its full path, both values and the name of its policy.\<close>

lemma change_set_lists_printed_changes:
  assumes "check_patch patch c = Inr ((allowed, rows), c')"
  shows "\<exists>rs. checks patch (changes patch) c = Inr (rs, c') \<and> generate_json_change_set rows =
    Inr (VDict [(''changeSet'', VList (map (change_set_entry \<circ> fst)
      (filter (cr_print_change \<circ> snd) (zip (changes patch) rs))))])"
proof -
  from assms obtain rs where rs: "checks patch (changes patch) c = Inr (rs, c')"
    "rows = header_row # printed_rows (changes patch) rs"
    by (auto simp: check_patch_def check_changes_checks split: sum.splits prod.splits)
  with change_entries_printed_rows[OF checks_length[OF rs(1)]] show ?thesis
    by (simp add: generate_json_change_set_def)
qed

end
