(* ===== verification/SchemaFacts.thy ===== *)
theory SchemaFacts
  imports ClusterSchema PatchCheck
begin

text \<open>
  What the cluster schema guarantees the update: every field declares a policy, every list declares
  the key that tells its items apart, the parameters that must not change do not change in an
  allowed patch, and where the comparison of the schema's sections raises.
\<close>

section \<open>Well-declared schemas\<close>

text \<open>
  Every field declares a named update policy; exactly the lists have an update key, it is the name
  of a required text field of their items; the names of the fields of a section are distinct.
\<close>

fun is_required_text :: "decl \<Rightarrow> bool" where
  "is_required_text (Simple_field name data_key kind required validators policy) = (kind = FStr \<and> required)"
| "is_required_text (Nested_field name data_key many required policy update_key schema) = False"

fun has_policy :: "update_policy option \<Rightarrow> bool" where
  "has_policy None = False"
| "has_policy (Some p) = (up_name p \<noteq> None \<and> up_name p \<noteq> Some ''UNKNOWN'')"

fun well_declared :: "decl \<Rightarrow> bool" where
  "well_declared (Simple_field name data_key kind required validators policy) = has_policy policy"
| "well_declared (Nested_field name data_key many required policy update_key schema) =
     (has_policy policy \<and>
      (case update_key of None \<Rightarrow> \<not> many
       | Some k \<Rightarrow> many \<and> list_ex (\<lambda>f. is_required_text f \<and> bound_key f = k) schema) \<and>
      distinct (map bound_key schema) \<and> list_all well_declared schema)"

lemma lower_letters:
  "is_lower (CHR ''a'') = True" "is_lower (CHR ''b'') = True" "is_lower (CHR ''c'') = True"
  "is_lower (CHR ''d'') = True" "is_lower (CHR ''e'') = True" "is_lower (CHR ''f'') = True"
  "is_lower (CHR ''g'') = True" "is_lower (CHR ''h'') = True" "is_lower (CHR ''i'') = True"
  "is_lower (CHR ''j'') = True" "is_lower (CHR ''k'') = True" "is_lower (CHR ''l'') = True"
  "is_lower (CHR ''m'') = True" "is_lower (CHR ''n'') = True" "is_lower (CHR ''o'') = True"
  "is_lower (CHR ''p'') = True" "is_lower (CHR ''q'') = True" "is_lower (CHR ''r'') = True"
  "is_lower (CHR ''s'') = True" "is_lower (CHR ''t'') = True" "is_lower (CHR ''u'') = True"
  "is_lower (CHR ''v'') = True" "is_lower (CHR ''w'') = True" "is_lower (CHR ''x'') = True"
  "is_lower (CHR ''y'') = True" "is_lower (CHR ''z'') = True"
  by code_simp+

lemma raised_letters:
  "to_upper (CHR ''a'') = CHR ''A''" "to_upper (CHR ''b'') = CHR ''B''" "to_upper (CHR ''c'') = CHR ''C''"
  "to_upper (CHR ''d'') = CHR ''D''" "to_upper (CHR ''e'') = CHR ''E''" "to_upper (CHR ''f'') = CHR ''F''"
  "to_upper (CHR ''g'') = CHR ''G''" "to_upper (CHR ''h'') = CHR ''H''" "to_upper (CHR ''i'') = CHR ''I''"
  "to_upper (CHR ''j'') = CHR ''J''" "to_upper (CHR ''k'') = CHR ''K''" "to_upper (CHR ''l'') = CHR ''L''"
  "to_upper (CHR ''m'') = CHR ''M''" "to_upper (CHR ''n'') = CHR ''N''" "to_upper (CHR ''o'') = CHR ''O''"
  "to_upper (CHR ''p'') = CHR ''P''" "to_upper (CHR ''q'') = CHR ''Q''" "to_upper (CHR ''r'') = CHR ''R''"
  "to_upper (CHR ''s'') = CHR ''S''" "to_upper (CHR ''t'') = CHR ''T''" "to_upper (CHR ''u'') = CHR ''U''"
  "to_upper (CHR ''v'') = CHR ''V''" "to_upper (CHR ''w'') = CHR ''W''" "to_upper (CHR ''x'') = CHR ''X''"
  "to_upper (CHR ''y'') = CHR ''Y''" "to_upper (CHR ''z'') = CHR ''Z''"
  by code_simp+

lemma kept_letters:
  "to_lower (CHR ''a'') = CHR ''a''" "to_lower (CHR ''b'') = CHR ''b''" "to_lower (CHR ''c'') = CHR ''c''"
  "to_lower (CHR ''d'') = CHR ''d''" "to_lower (CHR ''e'') = CHR ''e''" "to_lower (CHR ''f'') = CHR ''f''"
  "to_lower (CHR ''g'') = CHR ''g''" "to_lower (CHR ''h'') = CHR ''h''" "to_lower (CHR ''i'') = CHR ''i''"
  "to_lower (CHR ''j'') = CHR ''j''" "to_lower (CHR ''k'') = CHR ''k''" "to_lower (CHR ''l'') = CHR ''l''"
  "to_lower (CHR ''m'') = CHR ''m''" "to_lower (CHR ''n'') = CHR ''n''" "to_lower (CHR ''o'') = CHR ''o''"
  "to_lower (CHR ''p'') = CHR ''p''" "to_lower (CHR ''q'') = CHR ''q''" "to_lower (CHR ''r'') = CHR ''r''"
  "to_lower (CHR ''s'') = CHR ''s''" "to_lower (CHR ''t'') = CHR ''t''" "to_lower (CHR ''u'') = CHR ''u''"
  "to_lower (CHR ''v'') = CHR ''v''" "to_lower (CHR ''w'') = CHR ''w''" "to_lower (CHR ''x'') = CHR ''x''"
  "to_lower (CHR ''y'') = CHR ''y''" "to_lower (CHR ''z'') = CHR ''z''"
  by code_simp+

lemma digit_letters:
  "is_lower (CHR ''0'') = False" "is_lower (CHR ''1'') = False" "is_lower (CHR ''2'') = False"
  "is_lower (CHR ''3'') = False" "is_lower (CHR ''4'') = False" "is_lower (CHR ''5'') = False"
  "is_lower (CHR ''6'') = False" "is_lower (CHR ''7'') = False" "is_lower (CHR ''8'') = False"
  "is_lower (CHR ''9'') = False" "is_upper (CHR ''0'') = False" "is_upper (CHR ''1'') = False"
  "is_upper (CHR ''2'') = False" "is_upper (CHR ''3'') = False" "is_upper (CHR ''4'') = False"
  "is_upper (CHR ''5'') = False" "is_upper (CHR ''6'') = False" "is_upper (CHR ''7'') = False"
  "is_upper (CHR ''8'') = False" "is_upper (CHR ''9'') = False" "to_upper (CHR ''0'') = CHR ''0''"
  "to_upper (CHR ''1'') = CHR ''1''" "to_upper (CHR ''2'') = CHR ''2''" "to_upper (CHR ''3'') = CHR ''3''"
  "to_upper (CHR ''4'') = CHR ''4''" "to_upper (CHR ''5'') = CHR ''5''" "to_upper (CHR ''6'') = CHR ''6''"
  "to_upper (CHR ''7'') = CHR ''7''" "to_upper (CHR ''8'') = CHR ''8''" "to_upper (CHR ''9'') = CHR ''9''"
  "to_lower (CHR ''0'') = CHR ''0''" "to_lower (CHR ''1'') = CHR ''1''" "to_lower (CHR ''2'') = CHR ''2''"
  "to_lower (CHR ''3'') = CHR ''3''" "to_lower (CHR ''4'') = CHR ''4''" "to_lower (CHR ''5'') = CHR ''5''"
  "to_lower (CHR ''6'') = CHR ''6''" "to_lower (CHR ''7'') = CHR ''7''" "to_lower (CHR ''8'') = CHR ''8''"
  "to_lower (CHR ''9'') = CHR ''9''"
  by code_simp+

lemmas pascal_defs = on_bind_field_def to_pascal_case_def str_title_def lower_letters raised_letters kept_letters digit_letters

lemma policies_named [simp]:
  "has_policy (Some IGNORED)" "has_policy (Some SUPPORTED)" "has_policy (Some UNSUPPORTED)"
  "has_policy (Some EXTRA_CHEF_ATTRIBUTES)" "has_policy (Some QUEUE_UPDATE_STRATEGY)"
  "has_policy (Some MANAGED_PLACEMENT_GROUP)"
  "has_policy (Some SHARED_STORAGE_UPDATE_POLICY)" "has_policy (Some RESIZE_UPDATE_STRATEGY_ON_REMOVE)"
  "has_policy (Some COMPUTE_FLEET_STOP_ON_REMOVE)" "has_policy (Some COMPUTE_FLEET_STOP)"
  "has_policy (Some READ_ONLY_RESOURCE_BUCKET)" "has_policy (Some SUPPORTED_UNLESS_ADC)" "has_policy (Some MANAGED_FSX)"
  "has_policy (Some LOGIN_NODES_POOLS)" "has_policy (Some LOGIN_NODES_STOP)" "has_policy (Some LOGIN_NODES_POOL_STOP)"
  "has_policy (Some COMPUTE_AND_LOGIN_NODES_STOP)"
  by (simp_all add: policy_defs)

lemma has_policy_derived [simp]: "has_policy (Some (derived_policy p r a)) = has_policy (Some p)"
  by (simp add: derived_policy_def init_update_policy_def truthy_text_def Let_def)

declare has_policy.simps(2) [simp del]


section \<open>Parameters that an allowed patch leaves alone\<close>

text \<open>
  The sections that the comparison of two configurations compares with each other: a section
  present in both, and the items of a list with the same update key.
\<close>

inductive compared ::
  "field list \<Rightarrow> pyval \<Rightarrow> pyval \<Rightarrow> field list \<Rightarrow> pyval \<Rightarrow> pyval \<Rightarrow> bool" for fds base target where
  compared_root: "compared fds base target fds base target"
| compared_section: "compared fds base target fds' b t \<Longrightarrow> Section k p sub \<in> set fds' \<Longrightarrow> truthy (entry b k)
    \<Longrightarrow> truthy (entry t k) \<Longrightarrow> compared fds base target sub (entry b k) (entry t k)"
| compared_item: "compared fds base target fds' b t \<Longrightarrow> SectionList k p uk sub \<in> set fds' \<Longrightarrow>
    ti \<in> set (entry_items t k) \<Longrightarrow> update_key_value uk ti = Inr v \<Longrightarrow>
    find_base_item uk v (entry_items b k) 0 = Inr (Some (n, bi)) \<Longrightarrow> truthy bi \<Longrightarrow>
    compared fds base target sub bi ti"

inductive_cases compared_cases [elim]: "compared fds base target fds' b t"

lemma compare_fields_append:
  "compare_fields (xs @ ys) b t st = rbind (compare_fields xs b t st) (compare_fields ys b t)"
proof (induction xs arbitrary: st)
  case (Cons f xs)
  then show ?case by (cases "compare_field f b t st") auto
qed simp

text \<open>The policies of the changes one field contributes are among those of its section.\<close>

lemma compare_section_field:
  assumes "compare_section fds b t path = Inr chs" and "f \<in> set fds"
  shows "\<exists>st st' d. compare_field f b t st = Inr st' \<and> snd st' = snd st @ d \<and>
    (\<lambda>bc. ch_update_policy (snd bc)) ` set d \<subseteq> ch_update_policy ` set chs"
proof -
  from split_list[OF assms(2)] obtain xs ys where fds: "fds = xs @ f # ys" by blast
  from assms(1) obtain st2 where run: "compare_fields fds b t (path, []) = Inr st2"
    and chs: "chs = map (resolve_path (fst st2)) (snd st2)"
    by (auto simp: rmap_Inr_iff)
  from run fds obtain st st' where st: "compare_field f b t st = Inr st'" "compare_fields ys b t st' = Inr st2"
    by (auto simp: compare_fields_append rbind_Inr_iff)
  from compare_field_extends[OF st(1)] obtain d where d: "snd st' = snd st @ d" by (auto simp: extends_def)
  have "extends (fields_policies ys) (snd st') (snd st2)"
    using compare_fields_extends[OF compare_field_extends st(2)] .
  then obtain e where "snd st2 = snd st' @ e" by (auto simp: extends_def)
  with d chs have "chs = map (resolve_path (fst st2)) (snd st @ d @ e)" by simp
  then have "(\<lambda>bc. ch_update_policy (snd bc)) ` set d \<subseteq> ch_update_policy ` set chs"
    by (auto simp: image_Un image_image)
  with st(1) d show ?thesis by blast
qed

lemma compare_item_appends:
  assumes "compare_item cmp k p uk b path x u = Inr w"
  shows "\<exists>d. snd w = snd u @ d"
proof -
  from assms obtain v xs found where "update_key_value uk x = Inr v" "section_items b k = Inr xs"
    and found: "find_base_item uk v xs 0 = Inr found"
    by (auto simp: compare_item_def rbind_Inr_iff)
  with assms show ?thesis
    by (cases found; cases "truthy (snd (the found))") (auto simp: compare_item_def rmap_Inr_iff)
qed

lemma compare_items_keep:
  assumes "rfold (compare_item cmp k p uk b path) items st = Inr st'"
  shows "\<exists>d. snd st' = snd st @ d"
proof (rule rfold_invariant[OF assms, where P = "\<lambda>u. \<exists>d. snd u = snd st @ d"])
  fix x u w
  assume u: "\<exists>d. snd u = snd st @ d" and w: "compare_item cmp k p uk b path x u = Inr w"
  from compare_item_appends[OF w] obtain d where "snd w = snd u @ d" by blast
  with u show "\<exists>d. snd w = snd st @ d" by auto
qed simp

lemma compare_items_contain:
  assumes "rfold (compare_item cmp k p uk b path) items st = Inr st'" and "ti \<in> set items"
    and "update_key_value uk ti = Inr v" and "section_items b k = Inr xs"
    and "find_base_item uk v xs 0 = Inr (Some (n, bi))" and "truthy bi"
  shows "\<exists>path' chs d e. cmp bi ti path' = Inr chs \<and> snd st' = snd st @ d @ map (Pair False) chs @ e"
proof -
  from split_list[OF assms(2)] obtain as bs where items: "items = as @ ti # bs" by blast
  with assms(1) obtain u w where u: "rfold (compare_item cmp k p uk b path) as st = Inr u"
    and w: "compare_item cmp k p uk b path ti u = Inr w" "rfold (compare_item cmp k p uk b path) bs w = Inr st'"
    by (auto simp: rfold_append rbind_Inr_iff)
  from w(1) assms(3-6) obtain path' chs where "cmp bi ti path' = Inr chs" "snd w = snd u @ map (Pair False) chs"
    by (auto simp: compare_item_def rmap_Inr_iff)
  with compare_items_keep[OF u] compare_items_keep[OF w(2)] show ?thesis by fastforce
qed

lemma compared_changes:
  assumes "compared fds base target fds' b t" and "compare_section fds base target path = Inr chs"
  shows "\<exists>path' chs'. compare_section fds' b t path' = Inr chs' \<and> ch_update_policy ` set chs' \<subseteq> ch_update_policy ` set chs"
  using assms
proof (induction rule: compared.induct)
  case compared_root
  then show ?case by blast
next
  case (compared_section fds' b t k p sub)
  then obtain path' chs' where sec: "compare_section fds' b t path' = Inr chs'"
    and sub: "ch_update_policy ` set chs' \<subseteq> ch_update_policy ` set chs" by blast
  from compare_section_field[OF sec compared_section.hyps(2)] obtain st st' d where
    f: "compare_field (Section k p sub) b t st = Inr st'" and d: "snd st' = snd st @ d"
    "(\<lambda>bc. ch_update_policy (snd bc)) ` set d \<subseteq> ch_update_policy ` set chs'" by blast
  from f show ?case
  proof (cases rule: compare_Section_cases)
    case (nested tv bv chs2)
    then have "d = map (Pair False) chs2" using d(1) by simp
    then have "ch_update_policy ` set chs2 \<subseteq> ch_update_policy ` set chs" using d(2) sub by (force simp: image_iff)
    with nested show ?thesis by (auto simp: entry_def)
  qed (use compared_section.hyps in \<open>auto simp: entry_def\<close>)
next
  case (compared_item fds' b t k p uk sub ti v n bi)
  then obtain path' chs' where sec: "compare_section fds' b t path' = Inr chs'"
    and sub: "ch_update_policy ` set chs' \<subseteq> ch_update_policy ` set chs" by blast
  from compare_section_field[OF sec compared_item.hyps(2)] obtain st st' d where
    f: "compare_field (SectionList k p uk sub) b t st = Inr st'" and d: "snd st' = snd st @ d"
    "(\<lambda>bc. ch_update_policy (snd bc)) ` set d \<subseteq> ch_update_policy ` set chs'" by blast
  from f show ?case
  proof (cases rule: compare_SectionList_cases)
    case (listed items vp rest)
    have base: "section_items b k = Inr (entry_items b k)"
      using compared_item.hyps(5) by (cases "section_items b k") (auto simp: entry_items_def)
    have "items = entry_items t k" using listed(1) by (simp add: entry_items_def)
    with compare_items_contain[OF listed(2) _ compared_item.hyps(4) base compared_item.hyps(5,6)] compared_item.hyps(3)
    obtain path2 chs2 d2 e2 where c2: "compare_section sub bi ti path2 = Inr chs2"
      and "snd vp = snd st @ d2 @ map (Pair False) chs2 @ e2" by auto
    with listed(3) d(1) have "d = d2 @ map (Pair False) chs2 @ e2 @ rest" by simp
    then have "ch_update_policy ` set chs2 \<subseteq> ch_update_policy ` set chs" using d(2) sub by (force simp: image_iff)
    with c2 show ?thesis by blast
  qed
qed

lemma param_change_recorded:
  assumes "compare_section fds b t path = Inr chs" and "Param k p \<in> set fds" and "\<not> param_agree k b t"
  shows "policy_or_default p \<in> ch_update_policy ` set chs"
proof -
  from compare_section_field[OF assms(1,2)] obtain st st' d where
    f: "compare_param k (policy_or_default p) b t st = Inr st'" and d: "snd st' = snd st @ d"
    "(\<lambda>bc. ch_update_policy (snd bc)) ` set d \<subseteq> ch_update_policy ` set chs" by auto
  have "d \<noteq> []" using compare_param_none[OF f] assms(3) d(1) by auto
  moreover have "\<forall>bc \<in> set d. ch_update_policy (snd bc) = policy_or_default p"
    using compare_param_extends[OF f] d(1) by (auto simp: extends_def)
  ultimately show ?thesis using d(2) by (cases d) auto
qed

lemma allowed_changes_have_checker:
  assumes "check_patch patch c = Inr ((True, rows), c')" and "ch \<in> set (changes patch)"
  shows "up_condition_checker (ch_update_policy ch) \<noteq> None"
proof -
  from assms(1) obtain rs where rs: "checks patch (changes patch) c = Inr (rs, c')" "\<forall>r \<in> set rs. cr_result r = SUCCEEDED"
    by (auto simp: check_patch_def check_changes_checks split: sum.splits prod.splits)
  have "checks patch chs c = Inr (rs, c') \<Longrightarrow> ch \<in> set chs \<Longrightarrow> \<forall>r \<in> set rs. cr_result r = SUCCEEDED \<Longrightarrow> ?thesis"
    for chs rs c
  proof (induction chs arbitrary: rs c)
    case (Cons x chs)
    from Cons.prems(1) obtain r c1 rs' where r: "check (ch_update_policy x) x patch c = Inr (r, c1)"
      and rs': "checks patch chs c1 = Inr (rs', c')" "rs = r # rs'"
      by (auto simp: cbind_Inr_iff)
    show ?case
    proof (cases "ch = x")
      case True
      with check_outcome[OF r] Cons.prems(3) rs' show ?thesis by (auto split: option.splits)
    next
      case False
      with Cons.IH[OF rs'(1)] Cons.prems(2,3) rs'(2) show ?thesis by simp
    qed
  qed simp
  from this[OF rs(1) assms(2) rs(2)] show ?thesis .
qed

text \<open>C6: if a patch is allowed, no parameter whose policy has no condition checker (\<open>UNSUPPORTED\<close>, or none
  declared) differs, in any section or list item that the two configurations share.\<close>

theorem allowed_patch_keeps_unsupported:
  assumes "config_patch fds base target region loads = Inr patch"
    and "check_patch patch c = Inr ((True, rows), c')"
    and "compared fds base target fds' b t" and "Param k p \<in> set fds'"
    and "up_condition_checker (policy_or_default p) = None"
  shows "param_agree k b t"
proof (rule ccontr)
  assume differ: "\<not> param_agree k b t"
  from assms(1) have "compare_section fds base target [] = Inr (changes patch)"
    by (auto simp: config_patch_def rmap_Inr_iff simp del: compare_section.simps)
  from compared_changes[OF assms(3) this] obtain path' chs' where
    sec: "compare_section fds' b t path' = Inr chs'" "ch_update_policy ` set chs' \<subseteq> ch_update_policy ` set (changes patch)"
    by blast
  from param_change_recorded[OF sec(1) assms(4) differ] sec(2) obtain ch where
    "ch \<in> set (changes patch)" "ch_update_policy ch = policy_or_default p" by fastforce
  with allowed_changes_have_checker[OF assms(2), of ch] assms(5) show False by simp
qed

definition image_config :: "string \<Rightarrow> pyval" where
  "image_config os = VDict [(''Image'', VDict [(''Os'', VStr os)])]"

lemma image_fields: "map comparison_field ImageSchema = [Param ''Os'' (Some UNSUPPORTED), Param ''CustomAmi'' (Some UNSUPPORTED)]"
  by (simp add: ImageSchema_def pascal_defs)

lemma unsupported_no_checker: "up_condition_checker UNSUPPORTED = None"
  by (simp add: policy_defs)

theorem allowed_patch_keeps_unsupported_witness:
  "param_agree ''Os'' (VDict [(''Os'', VStr ''alinux2023'')]) (VDict [(''Os'', VStr ''alinux2023'')])"
proof (rule allowed_patch_keeps_unsupported)
  let ?v = "image_config ''alinux2023''"
  let ?fds = "[Section ''Image'' (Some UNSUPPORTED) (map comparison_field ImageSchema)]"
  let ?patch = "\<lparr>base_config = ?v, target_config = ?v, changes = [], env_region = None, json_loads = \<lambda>_. None\<rparr>"
  show "config_patch ?fds ?v ?v None (\<lambda>_. None) = Inr ?patch"
    by (simp add: image_fields config_patch_def image_config_def compare_defs)
  show "check_patch ?patch example_cluster = Inr ((True, [header_row]), example_cluster)"
    by (simp add: check_patch_def)
  have "compared ?fds ?v ?v (map comparison_field ImageSchema) (entry ?v ''Image'') (entry ?v ''Image'')"
    by (rule compared_section[OF compared_root]) (simp_all add: entry_def get_or_none_def image_config_def)
  then show "compared ?fds ?v ?v (map comparison_field ImageSchema) (VDict [(''Os'', VStr ''alinux2023'')])
      (VDict [(''Os'', VStr ''alinux2023'')])"
    by (simp add: entry_def get_or_none_def image_config_def)
  show "Param ''Os'' (Some UNSUPPORTED) \<in> set (map comparison_field ImageSchema)" by (simp add: image_fields)
  show "up_condition_checker (policy_or_default (Some UNSUPPORTED)) = None" by (simp add: unsupported_no_checker)
qed

section \<open>Removing the Lustre settings of a storage\<close>

fun plain_param :: "field \<Rightarrow> bool" where
  "plain_param (Param k p) = (k \<noteq> ''Script'')"
| "plain_param _ = False"

definition readable :: "pyval \<Rightarrow> bool" where
  "readable v \<longleftrightarrow> is_dict v \<or> \<not> truthy v"

lemma plain_param_value: "k \<noteq> ''Script'' \<Longrightarrow> readable v \<Longrightarrow> \<exists>w. get_value_from_section k v = Inr (w, k)"
  by (auto simp: readable_def is_dict_iff get_value_from_section_def)

lemma plain_params_compare:
  "list_all plain_param fds \<Longrightarrow> readable b \<Longrightarrow> readable t \<Longrightarrow> \<exists>st'. compare_fields fds b t st = Inr st'"
proof (induction fds arbitrary: st)
  case (Cons f fds)
  then obtain k p where f: "f = Param k p" "k \<noteq> ''Script''" by (cases f) auto
  from plain_param_value[OF f(2) Cons.prems(2)] obtain bv where bv: "get_value_from_section k b = Inr (bv, k)" ..
  from plain_param_value[OF f(2) Cons.prems(3)] obtain tv where tv: "get_value_from_section k t = Inr (tv, k)" ..
  from f bv tv have "\<exists>u. compare_field f b t st = Inr u" by (simp add: compare_param_def)
  with Cons show ?case by auto
qed simp

lemma shared_storage_fields:
  "\<exists>head tail ebs efs params dra. map comparison_field SharedStorageSchema = head @
     [Section ''EbsSettings'' (Some IGNORED) ebs, Section ''EfsSettings'' (Some IGNORED) efs,
      Section ''FsxLustreSettings'' (Some IGNORED)
        (params @ [SectionList ''DataRepositoryAssociations'' (Some SUPPORTED) (Some ''Name'') dra])] @ tail \<and>
     list_all plain_param head \<and> list_all plain_param params"
proof -
  have "map comparison_field SharedStorageSchema = map comparison_field (take 3 SharedStorageSchema) @
     [Section ''EbsSettings'' (Some IGNORED) (map comparison_field EbsSettingsSchema),
      Section ''EfsSettings'' (Some IGNORED) (map comparison_field EfsSettingsSchema),
      Section ''FsxLustreSettings'' (Some IGNORED) (map comparison_field FsxLustreSettingsSchema)] @
     map comparison_field (drop 6 SharedStorageSchema)"
    by (simp add: SharedStorageSchema_def pascal_defs)
  moreover have "map comparison_field FsxLustreSettingsSchema = map comparison_field (butlast FsxLustreSettingsSchema) @
      [SectionList ''DataRepositoryAssociations'' (Some SUPPORTED) (Some ''Name'')
         (map comparison_field DataRepositoryAssociationSchema)]"
    by (simp add: FsxLustreSettingsSchema_def pascal_defs)
  moreover have "list_all plain_param (map comparison_field (take 3 SharedStorageSchema))"
    by (simp add: SharedStorageSchema_def pascal_defs)
  moreover have "list_all plain_param (map comparison_field (butlast FsxLustreSettingsSchema))"
    by (simp add: FsxLustreSettingsSchema_def pascal_defs)
  ultimately show ?thesis by metis
qed

lemma absent_section_compare:
  "get_or_none b k = Inr VNone \<Longrightarrow> get_or_none t k = Inr VNone \<Longrightarrow> compare_field (Section k p sub) b t st = Inr st"
  by simp

text \<open>Removing the \<open>FsxLustreSettings\<close> of a shared storage (without switching to EBS or EFS settings) makes
  the comparison raise \<open>AttributeError\<close>: the section is \<open>IGNORED\<close>, so its fields are compared with nothing,
  and the comparison of the list of data repository associations calls \<open>get\<close> on \<open>None\<close>.\<close>

lemma removing_lustre_settings_raises:
  assumes "is_dict b" and "is_dict t" and "entry b ''FsxLustreSettings'' = VDict (x # xs)"
    and "entry t ''FsxLustreSettings'' = VNone"
    and "entry b ''EbsSettings'' = VNone" and "entry t ''EbsSettings'' = VNone"
    and "entry b ''EfsSettings'' = VNone" and "entry t ''EfsSettings'' = VNone"
  shows "compare_section (map comparison_field SharedStorageSchema) b t path = Inl AttributeError"
proof -
  obtain head tail ebs efs params dra where fds: "map comparison_field SharedStorageSchema = head @
     [Section ''EbsSettings'' (Some IGNORED) ebs, Section ''EfsSettings'' (Some IGNORED) efs,
      Section ''FsxLustreSettings'' (Some IGNORED)
        (params @ [SectionList ''DataRepositoryAssociations'' (Some SUPPORTED) (Some ''Name'') dra])] @ tail"
    and plain: "list_all plain_param head" "list_all plain_param params"
    using shared_storage_fields by blast
  have read: "readable b" "readable t" "readable (VDict (x # xs))" "readable VNone" using assms by (auto simp: readable_def)
  note get = get_or_none_dict[OF assms(1)] get_or_none_dict[OF assms(2)]
  from plain_params_compare[OF plain(1) read(1,2)] obtain st where head: "compare_fields head b t (path, []) = Inr st" by blast
  have "compare_section (params @ [SectionList ''DataRepositoryAssociations'' (Some SUPPORTED) (Some ''Name'') dra])
      (VDict (x # xs)) VNone p = Inl AttributeError" for p
    using plain_params_compare[OF plain(2) read(3,4), of "(p, [])"]
    by (auto simp: compare_fields_append section_items_def)
  with head show ?thesis
    unfolding fds
    by (simp add: compare_fields_append get assms(3-8) del: compare_section.simps(1) compare_field.simps(3)
        add: compare_section.simps(1)[of "head @ _"])
qed

end
