(* ===== verification/Validation.thy ===== *)
theory Validation
  imports Prelude "HOL-Library.Multiset"
begin

text \<open>
  The validation of a configuration: failures and their levels, validators and suppressors, the
  walk over the tree of resources with its deferred asynchronous validators
  (\<open>pcluster/validators/common.py\<close>, \<open>pcluster/config/common.py\<close>), parameters with implied values
  and the merge of tag lists.
\<close>

section \<open>Failures\<close>

datatype failure_level = INFO | WARNING | ERROR

fun level_value :: "failure_level \<Rightarrow> int" where
  "level_value INFO = 20"
| "level_value WARNING = 30"
| "level_value ERROR = 40"

text \<open>Levels are ordered by their value.\<close>

instantiation failure_level :: linorder
begin

definition less_eq_failure_level :: "failure_level \<Rightarrow> failure_level \<Rightarrow> bool" where
  "less_eq_failure_level a b \<longleftrightarrow> level_value a \<le> level_value b"

definition less_failure_level :: "failure_level \<Rightarrow> failure_level \<Rightarrow> bool" where
  "less_failure_level a b \<longleftrightarrow> level_value a < level_value b"

instance
proof
  fix a b c :: failure_level
  show "(a < b) = (a \<le> b \<and> \<not> b \<le> a)" by (auto simp: less_eq_failure_level_def less_failure_level_def)
  show "a \<le> a" by (simp add: less_eq_failure_level_def)
  show "a \<le> b \<Longrightarrow> b \<le> c \<Longrightarrow> a \<le> c" by (simp add: less_eq_failure_level_def)
  show "a \<le> b \<Longrightarrow> b \<le> a \<Longrightarrow> a = b" by (cases a; cases b) (simp_all add: less_eq_failure_level_def)
  show "a \<le> b \<or> b \<le> a" by (auto simp: less_eq_failure_level_def)
qed

end

record validation_result =
  vr_message :: string
  vr_level :: failure_level
  vr_type :: string

text \<open>
  What a run of \<open>_validate\<close> does: it adds failures, in order, or raises (what it had added is
  then lost with the validator object).
\<close>

type_synonym failures = "(string \<times> failure_level) list"

definition fail_if :: "bool \<Rightarrow> failure_level \<Rightarrow> string \<Rightarrow> failures" where
  "fail_if b level message = (if b then [(message, level)] else [])"

record validator =
  val_type :: string
  val_async :: bool
  val_body :: "failures result"

definition add_failures :: "string \<Rightarrow> failures \<Rightarrow> validation_result list" where
  "add_failures type fs = map (\<lambda>(m, l). \<lparr>vr_message = m, vr_level = l, vr_type = type\<rparr>) fs"

definition execute :: "validator \<Rightarrow> validation_result list result" where
  "execute v = rmap (add_failures (val_type v)) (val_body v)"

lemma fail_if_iff [simp]: "fail_if b l m = [] \<longleftrightarrow> \<not> b" "x \<in> set (fail_if b l m) \<longleftrightarrow> b \<and> x = (m, l)"
  by (auto simp: fail_if_def)

section \<open>Suppressors\<close>

datatype suppressor =
    AllValidatorsSuppressor
  | TypeMatchValidatorsSuppressor "string set"

fun suppress_validator :: "suppressor \<Rightarrow> validator \<Rightarrow> bool" where
  "suppress_validator AllValidatorsSuppressor v = True"
| "suppress_validator (TypeMatchValidatorsSuppressor S) v = (val_type v \<in> S)"

definition suppressed :: "suppressor list \<Rightarrow> validator \<Rightarrow> bool" where
  "suppressed sups v \<longleftrightarrow> list_ex (\<lambda>s. suppress_validator s v) sups"

section \<open>The walk over the resources\<close>

text \<open>
  A resource: the validators its \<open>_register_validators\<close> registers (or the exception it raises)
  and the nested resources in the order of its attributes.
\<close>

datatype resource = Resource "validator list result" "resource list"

text \<open>
  \<open>str(e)\<close> of an exception.  The texts of the interpreter's own exceptions are not modelled: they
  count as empty.
\<close>

fun exn_text :: "py_exn \<Rightarrow> string" where
  "exn_text (Exc cls msg) = msg"
| "exn_text _ = []"

definition validator_execute_sync :: "validator \<Rightarrow> validation_result list" where
  "validator_execute_sync v = (case execute v of
     Inl e \<Rightarrow> [\<lparr>vr_message = exn_text e, vr_level = ERROR, vr_type = val_type v\<rparr>]
   | Inr rs \<Rightarrow> rs)"

type_synonym progress = "validation_result list \<times> validator list"
  \<comment> \<open>the failures so far and the asynchronous validators still to be awaited\<close>

fun validate_self :: "suppressor list \<Rightarrow> validator list \<Rightarrow> progress \<Rightarrow> progress" where
  "validate_self sups [] st = st"
| "validate_self sups (v # vs) st = validate_self sups vs
     (if suppressed sups v then st
      else if val_async v then (fst st, snd st @ [v])
      else (fst st @ validator_execute_sync v, snd st))"

text \<open>
  \<open>validate(nested=True)\<close> gives the failures and the futures of a subtree; the futures of a
  subtree that raised are dropped.  The loop over the nested resources keeps what it had when one
  of them raises.
\<close>

fun validate_nested :: "suppressor list \<Rightarrow> resource \<Rightarrow> progress result"
  and validate_children :: "suppressor list \<Rightarrow> resource list \<Rightarrow> progress \<Rightarrow> progress \<times> py_exn option" where
  "validate_nested sups (Resource registered nested) =
     (case validate_children sups nested ([], []) of
        (st, Some e) \<Rightarrow> Inl e
      | (st, None) \<Rightarrow> rmap (\<lambda>vs. validate_self sups vs st) registered)"
| "validate_children sups [] st = (st, None)"
| "validate_children sups (r # rs) st =
     (case validate_nested sups r of
        Inl e \<Rightarrow> (st, Some e)
      | Inr (failures, futures) \<Rightarrow> validate_children sups rs (fst st @ failures, snd st @ futures))"

text \<open>
  \<open>asyncio.gather\<close> on the futures: the results in their order, or an exception (of the first that
  raises, in the order of registration).
\<close>

definition await_async_validators :: "validator list \<Rightarrow> validation_result list result" where
  "await_async_validators vs = rmap concat (rmap_list execute vs)"

text \<open>The top-level \<open>validate\<close>: the futures are awaited also when the walk raised.\<close>

definition validate :: "suppressor list \<Rightarrow> resource \<Rightarrow> validation_result list result" where
  "validate sups r = (case r of Resource registered nested \<Rightarrow>
     (case validate_children sups nested ([], []) of
        (st, Some e) \<Rightarrow> rbind (await_async_validators (snd st)) (\<lambda>_. Inl e)
      | (st, None) \<Rightarrow>
          (case registered of
             Inl e \<Rightarrow> rbind (await_async_validators (snd st)) (\<lambda>_. Inl e)
           | Inr vs \<Rightarrow> (let st' = validate_self sups vs st in
               rmap (\<lambda>awaited. fst st' @ awaited) (await_async_validators (snd st'))))))"

section \<open>What a validation reports\<close>

text \<open>The registered validators of a tree, the nested resources' first; \<open>None\<close> if a registration raises.\<close>

fun validators_of :: "resource \<Rightarrow> validator list option" where
  "validators_of (Resource registered nested) =
     (case those (map validators_of nested) of
        None \<Rightarrow> None
      | Some vss \<Rightarrow> (case registered of Inl e \<Rightarrow> None | Inr vs \<Rightarrow> Some (concat vss @ vs)))"

definition active :: "suppressor list \<Rightarrow> validator list \<Rightarrow> validator list" where
  "active sups vs = filter (\<lambda>v. \<not> suppressed sups v) vs"

definition sync_results :: "suppressor list \<Rightarrow> validator list \<Rightarrow> validation_result list" where
  "sync_results sups vs = concat (map validator_execute_sync (filter (\<lambda>v. \<not> val_async v) (active sups vs)))"

definition async_pending :: "suppressor list \<Rightarrow> validator list \<Rightarrow> validator list" where
  "async_pending sups vs = filter val_async (active sups vs)"

lemma results_append [simp]:
  "sync_results sups (vs @ ws) = sync_results sups vs @ sync_results sups ws"
  "async_pending sups (vs @ ws) = async_pending sups vs @ async_pending sups ws"
  by (simp_all add: sync_results_def async_pending_def active_def)

lemma results_Nil [simp]: "sync_results sups [] = []" "async_pending sups [] = []"
  by (simp_all add: sync_results_def async_pending_def active_def)

lemma validate_self_results:
  "validate_self sups vs st = (fst st @ sync_results sups vs, snd st @ async_pending sups vs)"
  by (induction sups vs st rule: validate_self.induct)
    (simp_all add: sync_results_def async_pending_def active_def)

lemma validate_nested_results:
  "validators_of r = Some vs \<Longrightarrow> validate_nested sups r = Inr (sync_results sups vs, async_pending sups vs)"
  and validate_children_results:
  "those (map validators_of rs) = Some vss \<Longrightarrow> validate_children sups rs st =
     ((fst st @ sync_results sups (concat vss), snd st @ async_pending sups (concat vss)), None)"
proof (induction sups r and sups rs st arbitrary: vs and vss rule: validate_nested_validate_children.induct)
  case (1 sups registered nested)
  then obtain vss ws where "those (map validators_of nested) = Some vss" "registered = Inr ws" "vs = concat vss @ ws"
    by (auto split: option.splits sum.splits)
  with 1 show ?case by (simp add: validate_self_results)
next
  case (2 sups st)
  then show ?case by simp
next
  case (3 sups r rs st)
  then obtain us uss where "validators_of r = Some us" "those (map validators_of rs) = Some uss" "vss = us # uss"
    by (auto split: option.splits)
  with 3 show ?case by simp
qed

lemma validate_results:
  assumes "validators_of r = Some vs"
  shows "validate sups r = rmap (\<lambda>awaited. sync_results sups vs @ awaited) (await_async_validators (async_pending sups vs))"
proof (cases r)
  case (Resource registered nested)
  with assms obtain vss ws where "those (map validators_of nested) = Some vss" "registered = Inr ws" "vs = concat vss @ ws"
    by (auto split: option.splits sum.splits)
  with Resource show ?thesis
    by (cases "await_async_validators (async_pending sups (concat vss) @ async_pending sups ws)")
      (simp_all add: validate_def validate_children_results validate_self_results Let_def)
qed

lemma await_Inr_iff:
  "await_async_validators vs = Inr rs \<longleftrightarrow>
     (\<forall>v \<in> set vs. is_ok (execute v)) \<and> rs = concat (map validator_execute_sync vs)"
proof (induction vs arbitrary: rs)
  case (Cons v vs)
  show ?case
  proof (cases "execute v")
    case (Inr xs)
    have "await_async_validators (v # vs) = rmap (append xs) (await_async_validators vs)"
      using Inr by (cases "rmap_list execute vs") (simp_all add: await_async_validators_def)
    with Cons.IH Inr show ?thesis
      by (cases "await_async_validators vs") (auto simp: validator_execute_sync_def)
  qed (auto simp: await_async_validators_def)
qed (auto simp: await_async_validators_def)

text \<open>C33: when every resource registers its validators and no asynchronous validator raises, the validation
  returns normally, whatever the synchronous validators do: it reports the results of all validators
  that are not suppressed, a synchronous one that raised as one \<open>ERROR\<close>, each exactly once.\<close>

theorem validate_reports_all:
  assumes "validators_of r = Some vs" and "\<forall>v \<in> set vs. val_async v \<longrightarrow> is_ok (val_body v)"
  shows "\<exists>results. validate sups r = Inr results \<and>
    mset results = \<Sum>\<^sub># (image_mset (mset \<circ> validator_execute_sync) (mset (filter (\<lambda>v. \<not> suppressed sups v) vs)))"
proof -
  have ok: "\<forall>v \<in> set (async_pending sups vs). is_ok (execute v)"
    using assms(2) by (auto simp: async_pending_def active_def execute_def is_ok_iff rmap_Inr_iff)
  then have "await_async_validators (async_pending sups vs) =
      Inr (concat (map validator_execute_sync (async_pending sups vs)))"
    by (simp add: await_Inr_iff)
  with validate_results[OF assms(1)] have run: "validate sups r =
      Inr (sync_results sups vs @ concat (map validator_execute_sync (async_pending sups vs)))" by simp
  have "mset (sync_results sups vs @ concat (map validator_execute_sync (async_pending sups vs))) =
      \<Sum>\<^sub># (image_mset (mset \<circ> validator_execute_sync) (mset (filter (\<lambda>v. \<not> suppressed sups v) vs)))"
    by (induction vs) (auto simp: sync_results_def async_pending_def active_def)
  with run show ?thesis by blast
qed

definition example_validator :: "string \<Rightarrow> bool \<Rightarrow> failures result \<Rightarrow> validator" where
  "example_validator type async body = \<lparr>val_type = type, val_async = async, val_body = body\<rparr>"

theorem validate_reports_all_witness:
  "\<exists>results. validate [] (Resource (Inr [example_validator ''A'' True (Inr [(''slow'', WARNING)])])
     [Resource (Inr [example_validator ''B'' False (Inl (Exc ''KeyError'' ''x''))]) []]) = Inr results \<and>
   mset results = {# \<lparr>vr_message = ''slow'', vr_level = WARNING, vr_type = ''A''\<rparr>,
     \<lparr>vr_message = ''x'', vr_level = ERROR, vr_type = ''B''\<rparr> #}"
  using validate_reports_all[of "Resource (Inr [example_validator ''A'' True (Inr [(''slow'', WARNING)])])
     [Resource (Inr [example_validator ''B'' False (Inl (Exc ''KeyError'' ''x''))]) []]"
     "[example_validator ''B'' False (Inl (Exc ''KeyError'' ''x'')), example_validator ''A'' True (Inr [(''slow'', WARNING)])]" "[]"]
  by (simp add: example_validator_def suppressed_def validator_execute_sync_def execute_def add_failures_def)

text \<open>Every result a validator gives carries the validator's type.\<close>

lemma validator_execute_sync_type: "x \<in> set (validator_execute_sync v) \<Longrightarrow> vr_type x = val_type v"
  by (cases "val_body v") (auto simp: validator_execute_sync_def execute_def add_failures_def)

lemma filter_by_type:
  "filter (\<lambda>x. vr_type x \<notin> S) (concat (map validator_execute_sync vs)) =
     concat (map validator_execute_sync (filter (\<lambda>v. val_type v \<notin> S) vs))"
proof (induction vs)
  case (Cons v vs)
  have "filter (\<lambda>x. vr_type x \<notin> S) (validator_execute_sync v) = (if val_type v \<notin> S then validator_execute_sync v else [])"
    using validator_execute_sync_type[of _ v] by (auto simp: filter_empty_conv intro: filter_True)
  with Cons show ?case by simp
qed simp

text \<open>Suppressing validators by type only removes their results: the report is that of the full
  validation, in the same order, without the results of the suppressed types.\<close>

lemma type_suppression_filters_report:
  assumes "validators_of r = Some vs" and "validate [] r = Inr results"
  shows "validate [TypeMatchValidatorsSuppressor S] r = Inr (filter (\<lambda>x. vr_type x \<notin> S) results)"
proof -
  let ?T = "TypeMatchValidatorsSuppressor S"
  from assms obtain awaited where aw: "await_async_validators (async_pending [] vs) = Inr awaited"
    and res: "results = sync_results [] vs @ awaited"
    by (auto simp: validate_results rmap_Inr_iff)
  from aw have ok: "\<forall>v \<in> set (async_pending [] vs). is_ok (execute v)"
    and awaited: "awaited = concat (map validator_execute_sync (async_pending [] vs))"
    by (simp_all add: await_Inr_iff)
  have pending: "async_pending [?T] vs = filter (\<lambda>v. val_type v \<notin> S) (async_pending [] vs)"
    by (simp add: async_pending_def active_def suppressed_def filter_filter conj_commute)
  have sync: "sync_results [?T] vs = filter (\<lambda>x. vr_type x \<notin> S) (sync_results [] vs)"
    by (simp add: sync_results_def active_def suppressed_def filter_by_type filter_filter conj_commute)
  have "await_async_validators (async_pending [?T] vs) = Inr (filter (\<lambda>x. vr_type x \<notin> S) awaited)"
    using ok by (simp add: await_Inr_iff pending awaited filter_by_type)
  with sync res show ?thesis by (simp add: validate_results[OF assms(1)])
qed

section \<open>Parameters\<close>

text \<open>
  \<open>Resource.Param\<close> and the attribute access of a resource that keeps the parameters in sync: an
  attribute that holds a parameter shows its value, and assigning a plain value to it makes the
  value explicit.
\<close>

record 'v param =
  pm_value :: "'v option"
  pm_implied :: bool
  pm_default :: "'v option"

definition init_param :: "'v option \<Rightarrow> 'v option \<Rightarrow> 'v param" where
  "init_param value dflt =
     (if value = None \<and> dflt \<noteq> None then \<lparr>pm_value = dflt, pm_implied = True, pm_default = dflt\<rparr>
      else \<lparr>pm_value = value, pm_implied = False, pm_default = dflt\<rparr>)"

record 'v attributes =
  at_values :: "string \<Rightarrow> 'v option option"
  at_params :: "string \<Rightarrow> 'v param option"

definition set_param :: "string \<Rightarrow> 'v param \<Rightarrow> 'v attributes \<Rightarrow> 'v attributes" where
  "set_param key p a = a\<lparr>at_params := (at_params a)(key \<mapsto> p), at_values := (at_values a)(key \<mapsto> pm_value p)\<rparr>"

definition set_plain :: "string \<Rightarrow> 'v option \<Rightarrow> 'v attributes \<Rightarrow> 'v attributes" where
  "set_plain key value a = (let a = (case at_params a key of
       None \<Rightarrow> a
     | Some p \<Rightarrow> a\<lparr>at_params := (at_params a)(key \<mapsto> p\<lparr>pm_value := value, pm_implied := False\<rparr>)\<rparr>)
     in a\<lparr>at_values := (at_values a)(key \<mapsto> value)\<rparr>)"

definition is_implied :: "string \<Rightarrow> 'v attributes \<Rightarrow> bool result" where
  "is_implied key a = (case at_params a key of None \<Rightarrow> Inl KeyError | Some p \<Rightarrow> Inr (pm_implied p))"

text \<open>The invariant of a resource: attributes and parameters agree, and an implied value is the default.\<close>

definition in_sync :: "'v attributes \<Rightarrow> bool" where
  "in_sync a \<longleftrightarrow> (\<forall>key p. at_params a key = Some p \<longrightarrow> at_values a key = Some (pm_value p) \<and>
     (pm_implied p \<longrightarrow> (\<exists>v. pm_value p = Some v \<and> pm_default p = Some v)))"

inductive assigned :: "'v attributes \<Rightarrow> bool" where
  assigned_new: "assigned \<lparr>at_values = (\<lambda>_. None), at_params = (\<lambda>_. None)\<rparr>"
| assigned_param: "assigned a \<Longrightarrow> assigned (set_param key (init_param value dflt) a)"
| assigned_plain: "assigned a \<Longrightarrow> assigned (set_plain key value a)"

text \<open>C39: after any sequence of attribute assignments the attributes of a resource agree with its parameter
  registry, and a parameter is implied only while it holds its default value.\<close>

theorem parameters_stay_in_sync:
  assumes "assigned a"
  shows "in_sync a"
  using assms
proof induction
  case assigned_new
  then show ?case by (simp add: in_sync_def)
next
  case (assigned_param a key v dflt)
  then show ?case by (auto simp: in_sync_def set_param_def init_param_def)
next
  case (assigned_plain a key v)
  then show ?case by (auto simp: in_sync_def set_plain_def Let_def split: option.splits)
qed

theorem parameters_stay_in_sync_witness:
  "in_sync (set_plain ''Size'' (Some (40 :: int)) (set_param ''Size'' (init_param None (Some 50))
     \<lparr>at_values = (\<lambda>_. None), at_params = (\<lambda>_. None)\<rparr>))"
  by (rule parameters_stay_in_sync) (rule assigned_plain assigned_param assigned_new)+

section \<open>Merging tags\<close>

record tag =
  tag_key :: string
  tag_value :: string

text \<open>A Python dictionary keeps the place of a key that is written again.\<close>

fun put_tag :: "tag \<Rightarrow> tag list \<Rightarrow> tag list" where
  "put_tag t [] = [t]"
| "put_tag t (u # us) = (if tag_key u = tag_key t then t # us else u # put_tag t us)"

definition merge_tags :: "tag list option list \<Rightarrow> tag list" where
  "merge_tags tag_lists = fold put_tag (concat (map (\<lambda>tags. case tags of None \<Rightarrow> [] | Some ts \<Rightarrow> ts) tag_lists)) []"

definition tag_map :: "tag list \<Rightarrow> string \<Rightarrow> string option" where
  "tag_map ts = map_of (map (\<lambda>t. (tag_key t, tag_value t)) ts)"

lemma tag_map_append: "tag_map (xs @ ys) = tag_map ys ++ tag_map xs"
  by (simp add: tag_map_def)

lemma tag_map_single: "tag_map [t] = [tag_key t \<mapsto> tag_value t]"
  by (simp add: tag_map_def)

lemma put_tag_map: "tag_map (put_tag t ts) = (tag_map ts)(tag_key t \<mapsto> tag_value t)"
  by (induction ts) (auto simp: tag_map_def)

lemma put_tag_keys: "set (map tag_key (put_tag t ts)) = insert (tag_key t) (set (map tag_key ts))"
  by (induction ts) auto

lemma put_tag_distinct: "distinct (map tag_key ts) \<Longrightarrow> distinct (map tag_key (put_tag t ts))"
proof (induction ts)
  case (Cons u us)
  then show ?case using put_tag_keys[of t us] by auto
qed simp

lemma fold_put_tag:
  "distinct (map tag_key acc) \<Longrightarrow> distinct (map tag_key (fold put_tag ts acc)) \<and>
     tag_map (fold put_tag ts acc) = tag_map acc ++ tag_map (rev ts) \<and>
     set (map tag_key (fold put_tag ts acc)) = set (map tag_key acc) \<union> set (map tag_key ts)"
proof (induction ts arbitrary: acc)
  case (Cons t ts)
  note ih = Cons.IH[OF put_tag_distinct[OF Cons.prems], of t, unfolded put_tag_map put_tag_keys]
  have "tag_map (rev (t # ts)) = [tag_key t \<mapsto> tag_value t] ++ tag_map (rev ts)"
    by (simp add: tag_map_append tag_map_single)
  moreover have "(tag_map acc)(tag_key t \<mapsto> tag_value t) ++ m = tag_map acc ++ ([tag_key t \<mapsto> tag_value t] ++ m)" for m
    by (rule ext) (simp add: map_add_def split: option.splits)
  ultimately have "tag_map (fold put_tag (t # ts) acc) = tag_map acc ++ tag_map (rev (t # ts))"
    using ih by (simp only: fold_simps)
  with ih show ?case by (simp only: fold_simps) simp
qed (simp add: tag_map_def)

lemma merge_tags_length:
  "length (merge_tags ls) = card (\<Union>l \<in> set ls. case l of None \<Rightarrow> {} | Some ts \<Rightarrow> tag_key ` set ts)"
proof -
  let ?flat = "concat (map (\<lambda>tags. case tags of None \<Rightarrow> [] | Some ts \<Rightarrow> ts) ls)"
  have "tag_key ` set ?flat = (\<Union>l \<in> set ls. case l of None \<Rightarrow> {} | Some ts \<Rightarrow> tag_key ` set ts)"
  proof (induction ls)
    case (Cons l ls)
    then show ?case by (cases l) (simp_all add: image_Un)
  qed simp
  moreover have "distinct (map tag_key (merge_tags ls))" "set (map tag_key (merge_tags ls)) = tag_key ` set ?flat"
    using fold_put_tag[of "[]" ?flat] by (simp_all add: merge_tags_def)
  ultimately show ?thesis using distinct_card[of "map tag_key (merge_tags ls)"] by simp
qed

text \<open>Merging tag lists gives each key once, with the value of the last list that has it (later lists take
  precedence), and loses no key.\<close>

lemma merge_tags_precedence:
  "distinct (map tag_key (merge_tags ls)) \<and>
   tag_key ` set (merge_tags ls) = (\<Union>l \<in> set ls. case l of None \<Rightarrow> {} | Some ts \<Rightarrow> tag_key ` set ts) \<and>
   tag_map (merge_tags (ls @ [Some ts])) = tag_map (merge_tags ls) ++ tag_map (rev ts)"
proof -
  let ?flat = "\<lambda>ls. concat (map (\<lambda>tags. case tags of None \<Rightarrow> [] | Some ts \<Rightarrow> ts) ls)"
  have "tag_key ` set (?flat ls) = (\<Union>l \<in> set ls. case l of None \<Rightarrow> {} | Some ts \<Rightarrow> tag_key ` set ts)"
  proof (induction ls)
    case (Cons l ls)
    then show ?case by (cases l) (simp_all add: image_Un)
  qed simp
  moreover have "distinct (map tag_key (merge_tags ls)) \<and> tag_map (merge_tags ls) = tag_map [] ++ tag_map (rev (?flat ls)) \<and>
      tag_key ` set (merge_tags ls) = tag_key ` set (?flat ls)" for ls
    using fold_put_tag[of "[]" "?flat ls"] by (simp add: merge_tags_def)
  ultimately show ?thesis by (simp add: tag_map_def)
qed

end
