(* ===== verification/StorageValidators.thy ===== *)
theory StorageValidators
  imports Validation PyValue
begin

text \<open>
  The validators of the shared storage: EBS volumes (\<open>pcluster/validators/ebs_validators.py\<close>), FSx for
  Lustre (\<open>fsx_validators.py\<close>), EFS (\<open>efs_validators.py\<close>) and the mount directories
  (\<open>cluster_validators.py\<close>), with the defaults the resources of \<open>config/cluster_config.py\<close> give
  them.  A parameter that may be \<open>None\<close> is an option; the quotient printed in some messages is a
  parameter, the text of a float division.
\<close>

definition given_int :: "int option \<Rightarrow> bool" where \<comment> \<open>truthiness of an optional number\<close>
  "given_int x \<longleftrightarrow> x \<noteq> None \<and> x \<noteq> Some 0"

definition given_text :: "string option \<Rightarrow> bool" where
  "given_text x \<longleftrightarrow> x \<noteq> None \<and> x \<noteq> Some []"

definition show_text :: "string option \<Rightarrow> string" where
  "show_text x = (case x of None \<Rightarrow> ''None'' | Some s \<Rightarrow> s)"

section \<open>EBS volumes\<close>

definition EBS_VOLUME_TYPE_TO_VOLUME_SIZE_BOUNDS :: "(string \<times> int \<times> int) list" where
  "EBS_VOLUME_TYPE_TO_VOLUME_SIZE_BOUNDS =
     [(''standard'', 1, 1024), (''io1'', 4, 16 * 1024), (''io2'', 4, 64 * 1024), (''gp2'', 1, 16 * 1024),
      (''gp3'', 1, 16 * 1024), (''st1'', 500, 16 * 1024), (''sc1'', 500, 16 * 1024)]"

definition EBS_VOLUME_IOPS_BOUNDS :: "(string \<times> int \<times> int) list" where
  "EBS_VOLUME_IOPS_BOUNDS = [(''io1'', 100, 64000), (''io2'', 100, 256000), (''gp3'', 3000, 16000)]"

definition EBS_VOLUME_TYPE_TO_IOPS_RATIO :: "(string \<times> int) list" where
  "EBS_VOLUME_TYPE_TO_IOPS_RATIO = [(''io1'', 50), (''io2'', 1000), (''gp3'', 500)]"

definition EbsVolumeTypeSizeValidator :: "string \<Rightarrow> int option \<Rightarrow> failures" where
  "EbsVolumeTypeSizeValidator volume_type volume_size =
     (case (volume_size, map_of EBS_VOLUME_TYPE_TO_VOLUME_SIZE_BOUNDS volume_type) of
        (Some gib, Some (lower_size, upper_size)) \<Rightarrow>
          if upper_size < gib
          then [(''The size of '' @ volume_type @ '' volumes can not exceed '' @ str_int upper_size @ '' GiB.'', ERROR)]
          else fail_if (gib < lower_size) ERROR
            (''The size of '' @ volume_type @ '' volumes must be at least '' @ str_int lower_size @ '' GiB.'')
      | _ \<Rightarrow> [])"

definition EbsVolumeThroughputValidator :: "string \<Rightarrow> int option \<Rightarrow> failures result" where
  "EbsVolumeThroughputValidator volume_type volume_throughput =
     (if volume_type = ''gp3''
      then (case volume_throughput of
          None \<Rightarrow> Inl TypeError
        | Some t \<Rightarrow> Inr (fail_if (t < 125 \<or> 1000 < t) ERROR
            (''Throughput must be between 125 MB/s and 1000 MB/s when provisioning '' @ volume_type @ '' volumes.'')))
      else Inr [])"

definition EbsVolumeThroughputIopsValidator ::
  "(int \<Rightarrow> int \<Rightarrow> string) \<Rightarrow> string \<Rightarrow> int option \<Rightarrow> int option \<Rightarrow> failures result" where
  "EbsVolumeThroughputIopsValidator float_ratio volume_type volume_iops volume_throughput =
     (if volume_type = ''gp3'' \<and> given_int volume_throughput
      then (case volume_iops of
          None \<Rightarrow> Inl TypeError
        | Some iops \<Rightarrow>
            if iops < 4 * the volume_throughput \<comment> \<open>\<open>throughput > iops * 0.25\<close>\<close>
            then if iops = 0 then Inl (Exc ''ZeroDivisionError'' ''float division by zero'')
              else Inr [(''Throughput to IOPS ratio of '' @ float_ratio (the volume_throughput) iops @
                '' is too high; maximum is 0.25.'', ERROR)]
            else Inr [])
      else Inr [])"

definition EbsVolumeIopsValidator ::
  "(int \<Rightarrow> int \<Rightarrow> string) \<Rightarrow> string \<Rightarrow> int option \<Rightarrow> int option \<Rightarrow> failures result" where
  "EbsVolumeIopsValidator float_ratio volume_type volume_size volume_iops =
     (case map_of EBS_VOLUME_IOPS_BOUNDS volume_type of
        Some (min_iops, max_iops) \<Rightarrow>
          if given_int volume_iops \<and> (the volume_iops < min_iops \<or> max_iops < the volume_iops)
          then Inr [(''IOPS rate must be between '' @ str_int min_iops @ '' and '' @ str_int max_iops @
            '' when provisioning '' @ volume_type @ '' volumes.'', ERROR)]
          else if given_int volume_iops
          then (case (volume_size, map_of EBS_VOLUME_TYPE_TO_IOPS_RATIO volume_type) of
              (Some gib, Some ratio) \<Rightarrow>
                if gib * ratio < the volume_iops
                then if gib = 0 then Inl (Exc ''ZeroDivisionError'' ''float division by zero'')
                  else Inr [(''IOPS to volume size ratio of '' @ float_ratio (the volume_iops) gib @
                    '' is too high; maximum is '' @ str_int ratio @ ''.'', ERROR)]
                else Inr []
            | (None, Some ratio) \<Rightarrow> Inl TypeError
            | (_, None) \<Rightarrow> Inl KeyError)
          else Inr []
      | None \<Rightarrow> Inr (fail_if (given_int volume_iops) ERROR
          (''The parameter IOPS is not supported for '' @ volume_type @ '' volumes.'')))"

text \<open>The answer of EC2 about a snapshot (its size, if known, and its state), or the error code and text.\<close>

definition EbsVolumeSizeSnapshotValidator ::
  "(string \<Rightarrow> (string \<times> string) + (int option \<times> string option)) \<Rightarrow> string \<Rightarrow> string option \<Rightarrow> int \<Rightarrow> failures" where
  "EbsVolumeSizeSnapshotValidator get_ebs_snapshot_info aws_partition snapshot_id volume_size =
     (case snapshot_id of None \<Rightarrow> [] | Some snapshot \<Rightarrow> if snapshot = [] then [] else
       (case get_ebs_snapshot_info snapshot of
          Inl (error_code, text) \<Rightarrow>
            if error_code \<in> {''InvalidSnapshot.NotFound'', ''InvalidSnapshot.Malformed''}
            then [(''The snapshot '' @ snapshot @ '' does not appear to exist: '' @ text @ ''.'', ERROR)]
            else [(''Issue getting info for snapshot '' @ snapshot @ '': '' @ text @ ''.'', ERROR)]
        | Inr (snapshot_volume_size, state) \<Rightarrow>
            (case snapshot_volume_size of
               None \<Rightarrow> [(''Unable to get volume size for snapshot '' @ snapshot @ ''.'', ERROR)]
             | Some gib \<Rightarrow>
                 if volume_size < gib
                 then [(''The EBS volume size must not be smaller than '' @ str_int gib @
                   '', which is the size of the provided snapshot '' @ snapshot @ ''.'', ERROR)]
                 else fail_if (gib < volume_size) WARNING
                   (''The specified volume size is larger than snapshot size. In order to use the full capacity '' @
                    ''of the volume, you'' @ [CHR 0x27] @ ''ll need to manually resize the partition according to this doc: '' @
                    ''https://'' @ (if aws_partition = ''aws-cn'' then ''docs.amazonaws.cn'' else ''docs.aws.amazon.com'') @
                    ''/AWSEC2/latest/UserGuide/recognize-expanded-volume-linux.html'')) @
            fail_if (state \<noteq> Some ''completed'') WARNING
              (''Snapshot '' @ snapshot @ '' is in state '' @ [CHR 0x27] @ show_text state @ [CHR 0x27] @
               '' not '' @ [CHR 0x27] @ ''completed'' @ [CHR 0x27] @ ''.'')))"

text \<open>The values a shared EBS volume gets from its settings.\<close>

definition EBS_VOLUME_TYPE_IOPS_DEFAULT :: "(string \<times> int) list" where
  "EBS_VOLUME_TYPE_IOPS_DEFAULT = [(''io1'', 100), (''io2'', 100), (''gp3'', 3000)]"

definition EBS_VOLUME_SIZE_DEFAULT :: int where "EBS_VOLUME_SIZE_DEFAULT = 40"
definition EBS_VOLUME_TYPE_DEFAULT :: string where "EBS_VOLUME_TYPE_DEFAULT = ''gp3''"

record ebs =
  ebs_volume_type :: "string param"
  ebs_iops :: "int param"
  ebs_throughput :: "int param"
  ebs_size :: "int param"

definition init_shared_ebs :: "string option \<Rightarrow> int option \<Rightarrow> int option \<Rightarrow> int option \<Rightarrow> ebs" where
  "init_shared_ebs volume_type iops throughput gib =
     (let vt = init_param volume_type (Some EBS_VOLUME_TYPE_DEFAULT); t = the (pm_value vt) in
      \<lparr>ebs_volume_type = vt,
       ebs_iops = init_param iops (map_of EBS_VOLUME_TYPE_IOPS_DEFAULT t),
       ebs_throughput = init_param throughput (if t = ''gp3'' then Some 125 else None),
       ebs_size = init_param gib (Some EBS_VOLUME_SIZE_DEFAULT)\<rparr>)"

definition shared_ebs_validators :: "(int \<Rightarrow> int \<Rightarrow> string) \<Rightarrow> ebs \<Rightarrow> validator list" where
  "shared_ebs_validators float_ratio v =
     (let t = the (pm_value (ebs_volume_type v)) in
      [\<lparr>val_type = ''EbsVolumeThroughputValidator'', val_async = False,
        val_body = EbsVolumeThroughputValidator t (pm_value (ebs_throughput v))\<rparr>,
       \<lparr>val_type = ''EbsVolumeThroughputIopsValidator'', val_async = False,
        val_body = EbsVolumeThroughputIopsValidator float_ratio t (pm_value (ebs_iops v)) (pm_value (ebs_throughput v))\<rparr>,
       \<lparr>val_type = ''EbsVolumeTypeSizeValidator'', val_async = False,
        val_body = Inr (EbsVolumeTypeSizeValidator t (pm_value (ebs_size v)))\<rparr>,
       \<lparr>val_type = ''EbsVolumeIopsValidator'', val_async = False,
        val_body = EbsVolumeIopsValidator float_ratio t (pm_value (ebs_size v)) (pm_value (ebs_iops v))\<rparr>])"

lemmas ebs_defs = EbsVolumeTypeSizeValidator_def EbsVolumeThroughputValidator_def EbsVolumeThroughputIopsValidator_def
  EbsVolumeIopsValidator_def EBS_VOLUME_TYPE_TO_VOLUME_SIZE_BOUNDS_def EBS_VOLUME_IOPS_BOUNDS_def
  EBS_VOLUME_TYPE_TO_IOPS_RATIO_def given_int_def fail_if_def

text \<open>The validators of a shared EBS volume accept a \<open>gp3\<close> volume with all values given exactly within the
  bounds of size, throughput and IOPS and their ratios, and none of them raises.\<close>

lemma gp3_volume_valid_iff:
  assumes "0 < iops" and "0 < throughput"
  shows "validate [] (Resource (Inr (shared_ebs_validators ratio
           (init_shared_ebs (Some ''gp3'') (Some iops) (Some throughput) (Some gib)))) []) = Inr [] \<longleftrightarrow>
         1 \<le> gib \<and> gib \<le> 16384 \<and> 3000 \<le> iops \<and> iops \<le> 16000 \<and> 125 \<le> throughput \<and> throughput \<le> 1000 \<and>
         iops \<le> 500 * gib \<and> 4 * throughput \<le> iops"
  using assms
  by (auto simp: validate_def shared_ebs_validators_def init_shared_ebs_def init_param_def suppressed_def Let_def
      validator_execute_sync_def execute_def add_failures_def await_async_validators_def ebs_defs)

text \<open>With only a volume type given, the default size, IOPS and throughput are valid for every known volume
  type but the two throughput-optimised ones, whose smallest volume is larger than the default size.\<close>

lemma ebs_defaults_valid_iff:
  assumes "t \<in> fst ` set EBS_VOLUME_TYPE_TO_VOLUME_SIZE_BOUNDS"
  shows "validate [] (Resource (Inr (shared_ebs_validators ratio (init_shared_ebs (Some t) None None None))) []) = Inr []
    \<longleftrightarrow> t \<notin> {''st1'', ''sc1''}"
  using assms
  by (auto simp: validate_def shared_ebs_validators_def init_shared_ebs_def init_param_def suppressed_def Let_def
      validator_execute_sync_def execute_def add_failures_def await_async_validators_def ebs_defs
      EBS_VOLUME_TYPE_IOPS_DEFAULT_def EBS_VOLUME_SIZE_DEFAULT_def)

section \<open>FSx for Lustre\<close>

definition text_list :: "string list \<Rightarrow> string" where \<comment> \<open>a list of strings in a message\<close>
  "text_list xs = py_repr (VList (map VStr xs))"

definition int_list :: "int list \<Rightarrow> string" where
  "int_list xs = py_repr (VList (map VInt xs))"

definition FsxS3Validator :: "string option \<Rightarrow> int option \<Rightarrow> string option \<Rightarrow> string option \<Rightarrow> failures" where
  "FsxS3Validator import_path imported_file_chunk_size export_path auto_import_policy =
     fail_if (given_int imported_file_chunk_size \<and> \<not> given_text import_path) ERROR
       ''When specifying imported file chunk size, the import path option must be specified.'' @
     fail_if (given_text export_path \<and> \<not> given_text import_path) ERROR
       ''When specifying export path, the import path option must be specified.'' @
     fail_if (given_text auto_import_policy \<and> \<not> given_text import_path) ERROR
       ''When specifying auto import policy, the import path option must be specified.''"

definition FsxDraValidator :: "nat \<Rightarrow> string option \<Rightarrow> string option \<Rightarrow> failures" where
  \<comment> \<open>the first argument is the number of data repository associations\<close>
  "FsxDraValidator associations import_path export_path =
     fail_if (associations \<noteq> 0 \<and> (given_text import_path \<or> given_text export_path)) ERROR
       (''When specifying data repository associations, import and export path '' @
        ''can not be used on the same file system.'') @
     fail_if (8 < associations) ERROR
       ''The number of data repository association used for one file system cannot be greater that 8.''"

definition persistent_deployment_types :: "string list" where
  "persistent_deployment_types = [''PERSISTENT_1'', ''PERSISTENT_2'']"

definition is_persistent :: "string option \<Rightarrow> bool" where
  "is_persistent deployment_type \<longleftrightarrow> deployment_type \<in> Some ` set persistent_deployment_types"

definition FsxPersistentOptionsValidator :: "string option \<Rightarrow> string option \<Rightarrow> int option \<Rightarrow> failures" where
  "FsxPersistentOptionsValidator deployment_type kms_key_id per_unit_storage_throughput =
     (if is_persistent deployment_type
      then fail_if (\<not> given_int per_unit_storage_throughput) ERROR
        (''Per unit storage throughput must be specified when deployment type is '' @ show_text deployment_type @ ''.'')
      else
        fail_if (given_text kms_key_id) ERROR
          (''KMS key id can only be used when deployment type is one of '' @ text_list persistent_deployment_types @ ''.'') @
        fail_if (given_int per_unit_storage_throughput) ERROR
          (''Per unit storage throughput can only be used when deployment type is one of '' @
           text_list persistent_deployment_types @ ''.''))"

definition FsxBackupOptionsValidator ::
  "int option \<Rightarrow> string option \<Rightarrow> bool option \<Rightarrow> string option \<Rightarrow> int option \<Rightarrow> string option \<Rightarrow> string option
    \<Rightarrow> string option \<Rightarrow> failures" where
  "FsxBackupOptionsValidator automatic_backup_retention_days daily_automatic_backup_start_time copy_tags_to_backups
     deployment_type imported_file_chunk_size import_path export_path auto_import_policy =
     fail_if (\<not> given_int automatic_backup_retention_days \<and> given_text daily_automatic_backup_start_time) ERROR
       (''When specifying daily automatic backup start time,'' @
        ''the automatic backup retention days option must be specified.'') @
     fail_if (\<not> given_int automatic_backup_retention_days \<and> copy_tags_to_backups \<noteq> None) ERROR
       ''When specifying copy tags to backups, the automatic backup retention days option must be specified.'' @
     fail_if (\<not> is_persistent deployment_type \<and> given_int automatic_backup_retention_days) ERROR
       (''FSx automatic backup features can be used only with '' @ text_list persistent_deployment_types @
        '' file systems.'') @
     fail_if ((given_int imported_file_chunk_size \<or> given_text import_path \<or> given_text export_path \<or>
               given_text auto_import_policy) \<and> given_int automatic_backup_retention_days) ERROR
       ''Backups cannot be created on S3-linked file systems.''"

definition FSX_SSD_THROUGHPUT :: "(string \<times> int list) list" where
  "FSX_SSD_THROUGHPUT = [(''PERSISTENT_1'', [50, 100, 200]), (''PERSISTENT_2'', [125, 250, 500, 1000])]"

definition FSX_HDD_THROUGHPUT :: "int list" where "FSX_HDD_THROUGHPUT = [12, 40]"

definition key_error :: "string option \<Rightarrow> py_exn" where \<comment> \<open>its text is the \<open>repr\<close> of the key\<close>
  "key_error k = Exc ''KeyError'' (case k of None \<Rightarrow> ''None'' | Some s \<Rightarrow> repr_str s)"

definition FsxStorageTypeOptionsValidator ::
  "string option \<Rightarrow> string option \<Rightarrow> int option \<Rightarrow> string option \<Rightarrow> failures result" where
  "FsxStorageTypeOptionsValidator fsx_storage_type deployment_type per_unit_storage_throughput drive_cache_type =
     (if fsx_storage_type = Some ''HDD''
      then Inr (
        fail_if (deployment_type \<noteq> Some ''PERSISTENT_1'') ERROR
          ''For HDD file systems, deployment type must be PERSISTENT_1.'' @
        fail_if (per_unit_storage_throughput \<notin> Some ` set FSX_HDD_THROUGHPUT) ERROR
          (''For HDD file systems, per unit storage throughput can only have '' @
           ''the following values: '' @ int_list FSX_HDD_THROUGHPUT @ ''.''))
      else rbind
        (if given_int per_unit_storage_throughput
         then (case map_of FSX_SSD_THROUGHPUT (show_text deployment_type) of
             None \<Rightarrow> Inl (key_error deployment_type)
           | Some allowed \<Rightarrow> Inr (fail_if (the per_unit_storage_throughput \<notin> set allowed) ERROR
               (''For '' @ show_text deployment_type @ '' SSD file systems, per unit storage throughput can only have '' @
                ''the following values: '' @ int_list allowed @ ''.'')))
         else Inr [])
        (\<lambda>throughput_failures. Inr (
           fail_if (given_text drive_cache_type) ERROR
             ''Drive cache type features can be used only with HDD file systems.'' @ throughput_failures)))"

definition FsxStorageCapacityValidator ::
  "int option \<Rightarrow> string option \<Rightarrow> string option \<Rightarrow> int option \<Rightarrow> string option \<Rightarrow> string option \<Rightarrow> failures" where
  "FsxStorageCapacityValidator storage_capacity deployment_type fsx_storage_type per_unit_storage_throughput
     file_system_id backup_id =
     (if given_text file_system_id \<or> given_text backup_id then []
      else if \<not> given_int storage_capacity
      then [(''When specifying FSx configuration, storage capacity must be specified.'', ERROR)]
      else (let capacity = the storage_capacity in
        if deployment_type = Some ''SCRATCH_1''
        then fail_if (\<not> (capacity = 1200 \<or> capacity = 2400 \<or> capacity mod 3600 = 0)) ERROR
          ''Capacity for FSx SCRATCH_1 file systems is 1,200 GB, 2,400 GB or increments of 3,600 GB.''
        else if deployment_type = Some ''PERSISTENT_1'' \<and> fsx_storage_type = Some ''HDD''
        then (if per_unit_storage_throughput = Some 12 \<and> capacity mod 6000 \<noteq> 0
              then [(''Capacity for FSx PERSISTENT HDD 12 MB/s/TiB file systems is increments of 6,000 GiB.'', ERROR)]
              else fail_if (per_unit_storage_throughput = Some 40 \<and> capacity mod 1800 \<noteq> 0) ERROR
                ''Capacity for FSx PERSISTENT HDD 40 MB/s/TiB file systems is increments of 1,800 GiB.'')
        else if deployment_type \<in> {Some ''SCRATCH_2'', Some ''PERSISTENT_1'', Some ''PERSISTENT_2''}
        then fail_if (\<not> (capacity = 1200 \<or> capacity mod 2400 = 0)) ERROR
          (''Capacity for FSx '' @ show_text deployment_type @
           '' file systems is 1,200 GB or increments of 2,400 GB.'')
        else []))"

text \<open>For an SSD file system with a throughput per unit of storage, the check of the storage type looks the
  deployment type up in a table that only has the persistent types: for every other deployment type
  (the default included) it raises \<open>KeyError\<close>, so the report of the validation holds the bare key as
  message instead of an explanation.\<close>

lemma ssd_throughput_key_error:
  assumes "fsx_storage_type \<noteq> Some ''HDD''" and "given_int throughput" and "\<not> is_persistent deployment_type"
  shows "validator_execute_sync \<lparr>val_type = ''FsxStorageTypeOptionsValidator'', val_async = False,
       val_body = FsxStorageTypeOptionsValidator fsx_storage_type deployment_type throughput drive_cache_type\<rparr> =
     [\<lparr>vr_message = (case deployment_type of None \<Rightarrow> ''None'' | Some s \<Rightarrow> repr_str s), vr_level = ERROR,
       vr_type = ''FsxStorageTypeOptionsValidator''\<rparr>]"
proof -
  have "map_of FSX_SSD_THROUGHPUT (show_text deployment_type) = None"
    using assms(3) by (cases deployment_type)
      (auto simp: FSX_SSD_THROUGHPUT_def show_text_def is_persistent_def persistent_deployment_types_def)
  with assms(1,2) show ?thesis
    by (simp add: validator_execute_sync_def execute_def FsxStorageTypeOptionsValidator_def key_error_def)
qed

text \<open>A new persistent Lustre file system that the three option checks accept has a throughput its storage and
  deployment type offer and a capacity in the increments of that combination.\<close>

lemma accepted_persistent_lustre:
  assumes "is_persistent deployment_type"
    and "FsxPersistentOptionsValidator deployment_type kms_key_id throughput = []"
    and "FsxStorageTypeOptionsValidator storage_type deployment_type throughput drive_cache_type = Inr []"
    and "FsxStorageCapacityValidator capacity deployment_type storage_type throughput None None = []"
  shows "\<exists>t c. throughput = Some t \<and> capacity = Some c \<and>
    (if storage_type = Some ''HDD''
     then deployment_type = Some ''PERSISTENT_1'' \<and> (t = 12 \<and> c mod 6000 = 0 \<or> t = 40 \<and> c mod 1800 = 0)
     else t \<in> (if deployment_type = Some ''PERSISTENT_1'' then {50, 100, 200} else {125, 250, 500, 1000}) \<and>
       (c = 1200 \<or> c mod 2400 = 0))"
proof -
  from assms(1) have dt: "deployment_type = Some ''PERSISTENT_1'' \<or> deployment_type = Some ''PERSISTENT_2''"
    by (auto simp: is_persistent_def persistent_deployment_types_def)
  from assms(1,2) obtain t where t: "throughput = Some t" "t \<noteq> 0"
    by (auto simp: FsxPersistentOptionsValidator_def given_int_def fail_if_def split: if_splits)
  from assms(4) obtain c where c: "capacity = Some c" "c \<noteq> 0"
    by (auto simp: FsxStorageCapacityValidator_def given_int_def given_text_def split: if_splits)
  have capacity: "FsxStorageCapacityValidator (Some c) deployment_type storage_type (Some t) None None = []"
    and option: "FsxStorageTypeOptionsValidator storage_type deployment_type (Some t) drive_cache_type = Inr []"
    using assms(3,4) t c by simp_all
  show ?thesis
  proof (cases "storage_type = Some ''HDD''")
    case True
    with option have "deployment_type = Some ''PERSISTENT_1''" "t = 12 \<or> t = 40"
      by (auto simp: FsxStorageTypeOptionsValidator_def fail_if_def FSX_HDD_THROUGHPUT_def split: if_splits)
    with True capacity t c show ?thesis
      by (auto simp: FsxStorageCapacityValidator_def fail_if_def given_int_def given_text_def split: if_splits)
  next
    case False
    from False option t have "case map_of FSX_SSD_THROUGHPUT (show_text deployment_type) of None \<Rightarrow> False
        | Some allowed \<Rightarrow> t \<in> set allowed"
      by (auto simp: FsxStorageTypeOptionsValidator_def fail_if_def given_int_def rbind_Inr_iff split: option.splits if_splits)
    with dt have "t \<in> (if deployment_type = Some ''PERSISTENT_1'' then {50, 100, 200} else {125, 250, 500, 1000})"
      by (auto simp: FSX_SSD_THROUGHPUT_def show_text_def)
    moreover from False dt capacity c have "c = 1200 \<or> c mod 2400 = 0"
      by (elim disjE) (simp_all add: FsxStorageCapacityValidator_def fail_if_def given_int_def given_text_def split: if_splits)
    ultimately show ?thesis using False t c by simp
  qed
qed

section \<open>EFS\<close>

definition EfsMountOptionsValidator :: "bool \<Rightarrow> bool \<Rightarrow> string \<Rightarrow> failures" where
  "EfsMountOptionsValidator encryption_in_transit iam_authorization name =
     fail_if (iam_authorization \<and> \<not> encryption_in_transit) ERROR
       (''EFS IAM authorization cannot be enabled when encryption in-transit is disabled. '' @
        ''Please either disable IAM authorization or enable encryption in-transit for file system '' @ name)"

definition EfsAccessPointOptionsValidator :: "string option \<Rightarrow> string option \<Rightarrow> bool \<Rightarrow> failures" where
  "EfsAccessPointOptionsValidator access_point_id file_system_id encryption_in_transit =
     fail_if (given_text access_point_id \<and> \<not> given_text file_system_id) ERROR
       (''An access point can only be specified when using an existing EFS file system. '' @
        ''Please either remove the access point id '' @ show_text access_point_id @ '' '' @
        ''or provide the file system id for the access point'') @
     fail_if (given_text access_point_id \<and> \<not> encryption_in_transit) ERROR
       (''An access point can only be specified when encryption in transit is enabled. '' @
        ''Please either remove the access point id '' @ show_text access_point_id @
        '' or enable encryption in transit.'')"

end
