(* ===== verification/ClusterValidators.thy ===== *)
theory ClusterValidators
  imports StorageValidators "HOL-Library.Sublist" "HOL-Library.AList"
begin

text \<open>
  Validators of \<open>pcluster/validators/cluster_validators.py\<close> on names, sizes and mount directories, and
  their registration for the shared storage of a cluster (\<open>config/cluster_config.py\<close>).
\<close>

section \<open>Names and sizes\<close>

text \<open>
  \<open>re.match("^<chars>$", s)\<close>: the dollar also matches before a newline that ends the text.
\<close>

definition match_line :: "(string \<Rightarrow> bool) \<Rightarrow> string \<Rightarrow> bool" where
  "match_line p s \<longleftrightarrow> p s \<or> (s \<noteq> [] \<and> last s = CHR 0x0A \<and> p (butlast s))"

definition is_alpha :: "char \<Rightarrow> bool" where
  "is_alpha c \<longleftrightarrow> is_upper c \<or> is_lower c"

definition PCLUSTER_NAME_MAX_LENGTH :: nat where "PCLUSTER_NAME_MAX_LENGTH = 60"
definition PCLUSTER_NAME_MAX_LENGTH_SLURM_ACCOUNTING :: nat where "PCLUSTER_NAME_MAX_LENGTH_SLURM_ACCOUNTING = 40"

definition cluster_name_pattern :: "nat \<Rightarrow> string \<Rightarrow> bool" where
  "cluster_name_pattern others s = (case s of
     [] \<Rightarrow> False
   | c # r \<Rightarrow> is_alpha c \<and> length r \<le> others \<and> list_all (\<lambda>c. is_alpha c \<or> is_digit c \<or> c = CHR ''-'') r)"

definition ClusterNameValidator :: "string \<Rightarrow> bool \<Rightarrow> bool \<Rightarrow> failures" where
  "ClusterNameValidator name database external_slurmdbd =
     (if database \<or> external_slurmdbd
      then fail_if (\<not> match_line (cluster_name_pattern (PCLUSTER_NAME_MAX_LENGTH_SLURM_ACCOUNTING - 1)) name) ERROR
        (''Error: The cluster name can contain only alphanumeric characters (case-sensitive) and hyphens. '' @
         ''It must start with an alphabetic character and when using Slurm accounting it can'' @ [CHR 0x27] @
         ''t be longer than '' @ str_nat PCLUSTER_NAME_MAX_LENGTH_SLURM_ACCOUNTING @ '' characters.'')
      else fail_if (\<not> match_line (cluster_name_pattern (PCLUSTER_NAME_MAX_LENGTH - 1)) name) ERROR
        (''Error: The cluster name can contain only alphanumeric characters (case-sensitive) and hyphens. '' @
         ''It must start with an alphabetic character and can'' @ [CHR 0x27] @ ''t be longer than '' @
         str_nat PCLUSTER_NAME_MAX_LENGTH @ '' characters.''))"

definition PRIVATE_OSES :: "string list" where "PRIVATE_OSES = [''rocky8'', ''rocky9'']"

definition OsCustomAmiValidator :: "string \<Rightarrow> string option \<Rightarrow> failures" where
  "OsCustomAmiValidator os custom_ami =
     fail_if (\<not> given_text custom_ami \<and> os \<in> set PRIVATE_OSES) ERROR
       (''ParallelCluster has no official AMI for '' @ os @ ''. '' @
        ''Please build your own AMI using pcluster build-image command, '' @
        ''as explained in the documentation: '' @
        ''https://docs.aws.amazon.com/parallelcluster/latest/ug/building-custom-ami-v3.html'')"

definition ComputeResourceSizeValidator :: "int \<Rightarrow> int \<Rightarrow> string \<Rightarrow> failures" where
  "ComputeResourceSizeValidator min_count max_count capacity_type =
     fail_if (max_count < min_count) ERROR ''Max count must be greater than or equal to min count.'' @
     (if capacity_type = ''CAPACITY_BLOCK''
      then fail_if (max_count \<noteq> min_count) ERROR
          ''Max count must be set to the same value of min count when using Capacity Block reservation.'' @
        fail_if (min_count = 0) ERROR
          ''Min count must be a value > 0 when using Capacity Block reservation.''
      else [])"

definition NAME_MAX_LENGTH :: nat where "NAME_MAX_LENGTH = 25"

definition name_pattern :: "string \<Rightarrow> bool" where
  "name_pattern s = (case s of
     [] \<Rightarrow> False | c # r \<Rightarrow> is_lower c \<and> list_all (\<lambda>c. is_lower c \<or> is_digit c \<or> c = CHR ''-'') r)"

definition NameValidator :: "string \<Rightarrow> failures" where
  "NameValidator name =
     fail_if (\<not> match_line name_pattern name) ERROR
       (''Invalid name '' @ [CHR 0x27] @ name @ [CHR 0x27] @ ''. '' @
        ''Name must begin with a letter and only contain lowercase letters, digits and hyphens.'') @
     fail_if (NAME_MAX_LENGTH < length name) ERROR
       (''Invalid name '' @ [CHR 0x27] @ name @ [CHR 0x27] @ ''. Name can be at most '' @ str_nat NAME_MAX_LENGTH @
        '' chars long.'') @
     fail_if (match_line (\<lambda>s. s = ''default'') name) ERROR
       (''It is forbidden to use '' @ [CHR 0x27] @ name @ [CHR 0x27] @ '' as a name.'')"

definition MaxCountValidator :: "int \<Rightarrow> int \<Rightarrow> string \<Rightarrow> failures" where
  "MaxCountValidator resources_length max_length resource_name =
     fail_if (max_length < resources_length) ERROR
       (''Invalid number of '' @ resource_name @ '' ('' @ str_int resources_length @ '') specified. Currently only supports '' @
        ''up to '' @ str_int max_length @ '' '' @ resource_name @ ''.'')"

text \<open>An accepted queue or compute resource name is a lower-case letter followed by at most 24 lower-case
  letters, digits and hyphens, is not \<open>default\<close>, and nothing else is accepted, except that one newline
  may end it.\<close>

lemma name_validator_accepts_iff:
  "NameValidator name = [] \<longleftrightarrow> length name \<le> 25 \<and>
     (\<exists>stem. (name = stem \<or> name = stem @ [CHR 0x0A]) \<and> stem \<noteq> ''default'' \<and> stem \<noteq> [] \<and> is_lower (hd stem) \<and>
       (\<forall>c \<in> set (tl stem). is_lower c \<or> is_digit c \<or> c = CHR ''-''))"
proof -
  have pattern: "name_pattern s \<longleftrightarrow> s \<noteq> [] \<and> is_lower (hd s) \<and> (\<forall>c \<in> set (tl s). is_lower c \<or> is_digit c \<or> c = CHR ''-'')" for s
    by (cases s) (simp_all add: name_pattern_def list_all_iff)
  have newline: "\<not> is_lower (CHR 0x0A)" "\<not> is_digit (CHR 0x0A)" by code_simp+
  have nl: "\<not> name_pattern (s @ [CHR 0x0A])" for s
    using newline by (cases s) (auto simp: name_pattern_def)
  have match: "match_line p name \<longleftrightarrow> (\<exists>stem. (name = stem \<or> name = stem @ [CHR 0x0A]) \<and> p stem)" for p
    unfolding match_line_def by (metis append_butlast_last_id butlast_snoc last_snoc snoc_eq_iff_butlast)
  have "NameValidator name = [] \<longleftrightarrow> length name \<le> 25 \<and> match_line name_pattern name \<and> \<not> match_line (\<lambda>s. s = ''default'') name"
    by (auto simp: NameValidator_def fail_if_def NAME_MAX_LENGTH_def)
  also have "\<dots> \<longleftrightarrow> length name \<le> 25 \<and>
     (\<exists>stem. (name = stem \<or> name = stem @ [CHR 0x0A]) \<and> stem \<noteq> ''default'' \<and> name_pattern stem)"
    unfolding match using nl nl[of "''default''", simplified] by auto
  finally show ?thesis by (simp add: pattern)
qed

section \<open>Duplicates\<close>

text \<open>The second and later occurrences, in order.\<close>

fun duplicates_after :: "string set \<Rightarrow> string list \<Rightarrow> string list" where
  "duplicates_after seen [] = []"
| "duplicates_after seen (x # xs) =
     (if x \<in> seen then x # duplicates_after seen xs else duplicates_after (insert x seen) xs)"

definition find_duplicate_params :: "string list \<Rightarrow> string list" where
  "find_duplicate_params param_list = duplicates_after {} param_list"

definition DuplicateNameValidator :: "string list \<Rightarrow> string \<Rightarrow> failures" where
  "DuplicateNameValidator name_list resource_name = (let duplicated_names = find_duplicate_params name_list in
     fail_if (duplicated_names \<noteq> []) ERROR
       (resource_name @ '' '' @ (if 1 < length duplicated_names then ''names'' else ''name'') @ '' '' @
        join '', '' duplicated_names @ '' must be unique.''))"

lemma duplicates_after_empty_iff: "duplicates_after seen xs = [] \<longleftrightarrow> distinct xs \<and> set xs \<inter> seen = {}"
  by (induction seen xs rule: duplicates_after.induct) auto

lemma duplicates_after_length: "length (duplicates_after seen xs) = length xs - card (set xs - seen)"
proof (induction seen xs rule: duplicates_after.induct)
  case (2 seen x xs)
  have le: "card (set xs - A) \<le> length xs" for A by (meson List.finite_set card_length card_mono Diff_subset le_trans)
  show ?case
  proof (cases "x \<in> seen")
    case True
    then have "set (x # xs) - seen = set xs - seen" by auto
    with True 2 le[of seen] show ?thesis by (simp add: Suc_diff_le)
  next
    case False
    then have "set (x # xs) - seen = insert x (set xs - insert x seen)" by auto
    with False 2 show ?thesis by simp
  qed
qed simp

text \<open>The duplicate check accepts exactly the lists without repetition, and finds one name for every
  occurrence that repeats an earlier one.\<close>

lemma duplicate_names_found:
  "(DuplicateNameValidator names resource = [] \<longleftrightarrow> distinct names) \<and>
   length (find_duplicate_params names) = length names - card (set names)"
  using duplicates_after_empty_iff[of "{}" names] duplicates_after_length[of "{}" names]
  by (simp add: DuplicateNameValidator_def find_duplicate_params_def Let_def fail_if_def)

section \<open>Mount directories\<close>

text \<open>\<open>itertools.combinations(xs, 2)\<close>.\<close>

fun combinations2 :: "'a list \<Rightarrow> ('a \<times> 'a) list" where
  "combinations2 [] = []"
| "combinations2 (x # xs) = map (Pair x) xs @ combinations2 xs"

definition is_overlapping :: "string \<Rightarrow> string \<Rightarrow> bool" where
  "is_overlapping path1 path2 \<longleftrightarrow> startswith path1 (path2 @ ''/'') \<or> startswith path2 (path1 @ ''/'')"

definition find_overlapping_paths :: "string list \<Rightarrow> string list \<Rightarrow> string list" where
  "find_overlapping_paths shared_paths_list local_paths_list =
     (if shared_paths_list = [] then []
      else concat (map (\<lambda>(path1, path2). if is_overlapping path1 path2 then [path1, path2] else [])
        (combinations2 shared_paths_list @ List.product shared_paths_list local_paths_list)))"

definition OverlappingMountDirValidator :: "string list \<Rightarrow> string list \<Rightarrow> failures" where
  "OverlappingMountDirValidator shared_mount_dir_list local_mount_dir_list =
     (let overlapping_mount_dirs = find_overlapping_paths shared_mount_dir_list local_mount_dir_list in
      fail_if (overlapping_mount_dirs \<noteq> []) ERROR
        (''Mount directories '' @ join '', '' overlapping_mount_dirs @ '' cannot overlap''))"

text \<open>The shared storages mounted on each directory, in the order of the dictionary.\<close>

definition mount_dir_to_names :: "(string \<times> string) list \<Rightarrow> (string \<times> string list) list" where
  "mount_dir_to_names tuple_list = fold (\<lambda>(name, mount_dir) d.
     AList.update mount_dir ((case map_of d mount_dir of None \<Rightarrow> [] | Some names \<Rightarrow> names) @ [name]) d) tuple_list []"

definition DuplicateMountDirValidator :: "(string \<times> string) list \<Rightarrow> (string \<times> string list) list \<Rightarrow> failures" where
  "DuplicateMountDirValidator shared_storage_name_mount_dir_tuple_list local_mount_dir_instance_types_dict =
     (let names_of = mount_dir_to_names shared_storage_name_mount_dir_tuple_list in
      concat (map (\<lambda>(mount_dir, names). fail_if (1 < length names) ERROR
        (''The mount directory `'' @ mount_dir @ ''` is used for multiple shared storage: '' @ text_list names @ ''. '' @
         ''Shared storage mount directories should be unique. '' @
         ''Please change the mount directory configuration of the shared storage.'')) names_of) @
      concat (map (\<lambda>(local_mount_dir, instance_types).
        (case map_of names_of local_mount_dir of
           None \<Rightarrow> []
         | Some shared_storage_names \<Rightarrow> fail_if (shared_storage_names \<noteq> []) WARNING
             (''The mount directory `'' @ local_mount_dir @ ''` used for shared storage '' @ text_list shared_storage_names @
              '' clashes with the one used for ephemeral volumes of the instances '' @ text_list instance_types @ ''. '' @
              ''Please change the mount directory configuration of either the shared storage or the ephemeral '' @
              ''volume of the impacted nodes.''))) local_mount_dir_instance_types_dict))"

definition reserved_directories :: "string list" where
  "reserved_directories = [''/bin'', ''/boot'', ''/dev'', ''/etc'', ''/lib'', ''/lib64'', ''/media'', ''/mnt'', ''/opt'',
     ''/opt/parallelcluster'', ''/opt/parallelcluster/shared'', ''/opt/parallelcluster/shared_login_nodes'',
     ''/opt/slurm'', ''/opt/intel'', ''/proc'', ''/root'', ''/run'', ''/sbin'', ''/srv'', ''/sys'', ''/tmp'', ''/usr'', ''/var'']"

definition SharedStorageMountDirValidator :: "string \<Rightarrow> failures" where
  "SharedStorageMountDirValidator mount_dir =
     (let mount_dir = (if \<not> startswith mount_dir ''/'' then ''/'' @ mount_dir else mount_dir) in
      fail_if (mount_dir \<in> set reserved_directories) ERROR
        (''Error: The shared storage mount directory '' @ mount_dir @ '' is reserved. Please use another directory''))"

text \<open>
  \<open>_validate_mount_dirs\<close>, on the name and the mount directory of every shared storage and on the
  directories of the ephemeral volumes.  The comprehension for the overlap check binds
  \<open>mount_dir\<close> to the first component of the pairs.
\<close>

definition shared_storage_name_mount_dir_tuple_list :: "(string \<times> string) list \<Rightarrow> (string \<times> string) list" where
  "shared_storage_name_mount_dir_tuple_list shared_storage = map (\<lambda>(name, mount_dir). (name, mount_dir)) shared_storage"

definition validate_mount_dirs :: "(string \<times> string) list \<Rightarrow> (string \<times> string list) list \<Rightarrow> validator list" where
  "validate_mount_dirs shared_storage local_mount_dir_instance_types_dict =
     [\<lparr>val_type = ''DuplicateMountDirValidator'', val_async = False,
       val_body = Inr (DuplicateMountDirValidator (shared_storage_name_mount_dir_tuple_list shared_storage)
         local_mount_dir_instance_types_dict)\<rparr>,
      \<lparr>val_type = ''OverlappingMountDirValidator'', val_async = False,
       val_body = Inr (OverlappingMountDirValidator
         (map (\<lambda>(mount_dir, _). mount_dir) (shared_storage_name_mount_dir_tuple_list shared_storage))
         (map fst local_mount_dir_instance_types_dict))\<rparr>]"

subsection \<open>Overlapping is containment of paths\<close>

lemma join_append: "xs \<noteq> [] \<Longrightarrow> ys \<noteq> [] \<Longrightarrow> join sep (xs @ ys) = join sep xs @ sep @ join sep ys"
proof (induction xs)
  case (Cons x xs)
  obtain y ys' where "ys = y # ys'" using Cons.prems(2) by (cases ys) auto
  with Cons show ?case by (cases xs) auto
qed simp

lemma startswith_path_iff:
  "startswith p (q @ ''/'') \<longleftrightarrow> strict_prefix (split_on (CHR ''/'') q) (split_on (CHR ''/'') p)"
proof
  assume "startswith p (q @ ''/'')"
  then obtain s where "p = q @ CHR ''/'' # s" by (auto simp: startswith_iff)
  then have "split_on (CHR ''/'') p = split_on (CHR ''/'') q @ split_on (CHR ''/'') s" by (simp add: split_on_append)
  then show "strict_prefix (split_on (CHR ''/'') q) (split_on (CHR ''/'') p)"
    using split_on_nonempty[of "CHR ''/''" s] by (auto simp: strict_prefix_def prefix_def)
next
  assume "strict_prefix (split_on (CHR ''/'') q) (split_on (CHR ''/'') p)"
  then obtain r where r: "split_on (CHR ''/'') p = split_on (CHR ''/'') q @ r" "r \<noteq> []"
    by (auto simp: strict_prefix_def prefix_def)
  have "p = join ''/'' (split_on (CHR ''/'') p)" by (simp add: join_split_on)
  also have "\<dots> = join ''/'' (split_on (CHR ''/'') q) @ ''/'' @ join ''/'' r"
    using r join_append[OF split_on_nonempty] by simp
  also have "\<dots> = (q @ ''/'') @ join ''/'' r" by (simp add: join_split_on)
  finally show "startswith p (q @ ''/'')" by (auto simp: startswith_iff)
qed

definition path_components :: "string \<Rightarrow> string list" where
  "path_components p = split_on (CHR ''/'') p"

lemma is_overlapping_iff: "is_overlapping p q \<longleftrightarrow>
   strict_prefix (path_components q) (path_components p) \<or> strict_prefix (path_components p) (path_components q)"
  by (simp add: is_overlapping_def startswith_path_iff path_components_def)

lemma combinations2_all: "(\<forall>(x, y) \<in> set (combinations2 xs). P x y) \<longleftrightarrow> sorted_wrt P xs"
  by (induction xs) auto

lemma find_overlapping_paths_empty_iff:
  "find_overlapping_paths shared local = [] \<longleftrightarrow>
     sorted_wrt (\<lambda>p q. \<not> is_overlapping p q) shared \<and> (\<forall>p \<in> set shared. \<forall>q \<in> set local. \<not> is_overlapping p q)"
  unfolding combinations2_all[symmetric]
  by (auto simp: find_overlapping_paths_def split: if_splits)

text \<open>The overlap check accepts two lists of directories exactly when no directory of the first list lies
  strictly inside another of that list, or inside or around one of the second, component by component.\<close>

lemma overlapping_paths_iff:
  "OverlappingMountDirValidator shared local = [] \<longleftrightarrow>
     (\<forall>i j. i < j \<and> j < length shared \<longrightarrow>
        \<not> strict_prefix (path_components (shared ! i)) (path_components (shared ! j)) \<and>
        \<not> strict_prefix (path_components (shared ! j)) (path_components (shared ! i))) \<and>
     (\<forall>p \<in> set shared. \<forall>q \<in> set local. \<not> strict_prefix (path_components p) (path_components q) \<and>
        \<not> strict_prefix (path_components q) (path_components p))"
proof -
  have "OverlappingMountDirValidator shared local = [] \<longleftrightarrow> find_overlapping_paths shared local = []"
    by (simp add: OverlappingMountDirValidator_def fail_if_def Let_def)
  then show ?thesis
    by (auto simp: find_overlapping_paths_empty_iff is_overlapping_iff sorted_wrt_iff_nth_less)
qed

text \<open>
  The overlap check that is registered for a cluster never sees the mount directories of the shared
  storages, it gets their names: with names that hold no slash and ephemeral volumes on absolute
  directories it accepts every choice of mount directories, also one inside another.
\<close>

lemma registered_overlap_check_accepts_all:
  assumes "\<forall>(name, dir) \<in> set shared_storage. name \<noteq> [] \<and> CHR ''/'' \<notin> set name"
    and "\<forall>(dir, types) \<in> set local_dirs. startswith dir ''/''"
  shows "validator_execute_sync (validate_mount_dirs shared_storage local_dirs ! 1) = []"
proof -
  have no_slash: "\<not> startswith name (q @ ''/'')" if "CHR ''/'' \<notin> set name" for name q
    using that by (auto simp: startswith_iff)
  have names: "\<not> is_overlapping p q" if "p \<in> fst ` set shared_storage" "q \<in> fst ` set shared_storage" for p q
    using that assms(1) no_slash by (fastforce simp: is_overlapping_def)
  have local: "\<not> is_overlapping p q" if "p \<in> fst ` set shared_storage" "q \<in> fst ` set local_dirs" for p q
  proof -
    from that assms have "p \<noteq> []" "CHR ''/'' \<notin> set p" "startswith q ''/''" by fastforce+
    then show ?thesis using no_slash[of p q] by (cases p) (auto simp: is_overlapping_def startswith_iff)
  qed
  have "find_overlapping_paths (map fst shared_storage) (map fst local_dirs) = []"
    unfolding find_overlapping_paths_empty_iff using names local
    by (auto simp: sorted_wrt_iff_nth_less)
  moreover have "map (\<lambda>(mount_dir, _). mount_dir) (shared_storage_name_mount_dir_tuple_list shared_storage)
      = map fst shared_storage"
    by (auto simp: shared_storage_name_mount_dir_tuple_list_def)
  ultimately show ?thesis
    by (simp add: validate_mount_dirs_def validator_execute_sync_def execute_def OverlappingMountDirValidator_def
        fail_if_def add_failures_def)
qed

section \<open>The number of storages\<close>

text \<open>The kinds of shared storage, as far as they are counted: a volume may be a RAID array, a file system may exist already.\<close>

datatype shared_storage =
    SharedEbs "bool"
  | SharedEfs "string option"
  | SharedFsxLustre "string option"
  | ExistingFsxOpenZfs
  | ExistingFsxOntap
  | ExistingFileCache

record storage_counts =
  ebs_count :: int
  new_efs :: int
  new_fsx :: int
  new_raid :: int
  existing_efs :: int
  existing_fsx :: int

fun count_storage :: "shared_storage \<Rightarrow> storage_counts \<Rightarrow> storage_counts" where
  "count_storage (SharedFsxLustre fs) n =
     (if given_text fs then n\<lparr>existing_fsx := existing_fsx n + 1\<rparr> else n\<lparr>new_fsx := new_fsx n + 1\<rparr>)"
| "count_storage ExistingFsxOpenZfs n = n\<lparr>existing_fsx := existing_fsx n + 1\<rparr>"
| "count_storage ExistingFsxOntap n = n\<lparr>existing_fsx := existing_fsx n + 1\<rparr>"
| "count_storage ExistingFileCache n = n\<lparr>existing_fsx := existing_fsx n + 1\<rparr>"
| "count_storage (SharedEbs raid) n =
     (if raid then n\<lparr>new_raid := new_raid n + 1\<rparr> else n\<lparr>ebs_count := ebs_count n + 1\<rparr>)"
| "count_storage (SharedEfs fs) n =
     (if given_text fs then n\<lparr>existing_efs := existing_efs n + 1\<rparr> else n\<lparr>new_efs := new_efs n + 1\<rparr>)"

definition count_storages :: "shared_storage list \<Rightarrow> storage_counts" where
  "count_storages storages = fold count_storage storages
     \<lparr>ebs_count = 0, new_efs = 0, new_fsx = 0, new_raid = 0, existing_efs = 0, existing_fsx = 0\<rparr>"

definition NumberOfStorageValidator :: "string \<Rightarrow> int \<Rightarrow> int \<Rightarrow> failures" where
  "NumberOfStorageValidator storage_type max_number storage_count =
     fail_if (max_number < storage_count) ERROR
       (''Too many '' @ storage_type @ '' shared storage specified in the configuration. '' @
        ''ParallelCluster supports '' @ str_int max_number @ '' '' @ storage_type @ ''.'')"

definition validate_max_storage_count :: "storage_counts \<Rightarrow> failures" where
  "validate_max_storage_count n =
     NumberOfStorageValidator ''new EFS'' 1 (new_efs n) @ NumberOfStorageValidator ''existing EFS'' 20 (existing_efs n) @
     NumberOfStorageValidator ''new FSx'' 1 (new_fsx n) @ NumberOfStorageValidator ''existing FSx'' 20 (existing_fsx n) @
     NumberOfStorageValidator ''new RAID'' 1 (new_raid n) @ NumberOfStorageValidator ''existing RAID'' 0 0 @
     NumberOfStorageValidator ''EBS'' 5 (ebs_count n)"

definition counted :: "(shared_storage \<Rightarrow> bool) \<Rightarrow> shared_storage list \<Rightarrow> int" where
  "counted p storages = int (length (filter p storages))"

fun is_managed_fsx_storage :: "shared_storage \<Rightarrow> bool" where
  "is_managed_fsx_storage (SharedFsxLustre fs) = (\<not> given_text fs)"
| "is_managed_fsx_storage _ = False"

fun is_existing_fsx_storage :: "shared_storage \<Rightarrow> bool" where
  "is_existing_fsx_storage (SharedFsxLustre fs) = given_text fs"
| "is_existing_fsx_storage (SharedEbs _) = False"
| "is_existing_fsx_storage (SharedEfs _) = False"
| "is_existing_fsx_storage _ = True"

fun is_efs_storage :: "bool \<Rightarrow> shared_storage \<Rightarrow> bool" where
  "is_efs_storage existing (SharedEfs fs) = (given_text fs = existing)"
| "is_efs_storage existing _ = False"

lemma fold_count_storage:
  "fold count_storage storages n =
     \<lparr>ebs_count = ebs_count n + counted (\<lambda>s. s = SharedEbs False) storages,
      new_efs = new_efs n + counted (is_efs_storage False) storages,
      new_fsx = new_fsx n + counted is_managed_fsx_storage storages,
      new_raid = new_raid n + counted (\<lambda>s. s = SharedEbs True) storages,
      existing_efs = existing_efs n + counted (is_efs_storage True) storages,
      existing_fsx = existing_fsx n + counted is_existing_fsx_storage storages\<rparr>"
proof (induction storages arbitrary: n)
  case (Cons s storages)
  show ?case by (cases s) (auto simp: Cons.IH counted_def)
qed (simp add: counted_def)

text \<open>The limits on shared storages: at most five EBS volumes, one RAID array, one new and twenty existing
  EFS file systems, one new Lustre file system and twenty existing file systems or caches of the FSx family.\<close>

lemma storage_limits_iff:
  "validate_max_storage_count (count_storages storages) = [] \<longleftrightarrow>
     counted (\<lambda>s. s = SharedEbs False) storages \<le> 5 \<and> counted (\<lambda>s. s = SharedEbs True) storages \<le> 1 \<and>
     counted (is_efs_storage False) storages \<le> 1 \<and> counted (is_efs_storage True) storages \<le> 20 \<and>
     counted is_managed_fsx_storage storages \<le> 1 \<and> counted is_existing_fsx_storage storages \<le> 20"
  by (auto simp: count_storages_def fold_count_storage validate_max_storage_count_def NumberOfStorageValidator_def fail_if_def)

end
