(* ===== verification/SlurmValidators.thy ===== *)
theory SlurmValidators
  imports StorageValidators SchemaFields "HOL-Library.AList"
begin

text \<open>
  The validators of the Slurm settings (\<open>pcluster/validators/slurm_settings_validator.py\<close>) and of the tags of
  compute resources (\<open>tags_validators.py\<close>).
\<close>

section \<open>Custom Slurm settings\<close>

datatype custom_slurm_setting_level = SLURM_CONF | QUEUE | COMPUTE_RESOURCE

fun setting_level_value :: "custom_slurm_setting_level \<Rightarrow> string" where
  "setting_level_value SLURM_CONF = ''SlurmConf''"
| "setting_level_value QUEUE = ''Queue''"
| "setting_level_value COMPUTE_RESOURCE = ''ComputeResource''"

definition SLURM_SETTINGS_DENY_LIST :: "((string \<times> string) \<times> string list) list" where
  "SLURM_SETTINGS_DENY_LIST = [
     ((''SlurmConf'', ''Global''),
      [''epilog'', ''grestypes'', ''launchparameters'', ''prolog'', ''reconfigflags'', ''resumefailprogram'',
       ''resumeprogram'', ''resumetimeout'', ''slurmctldhost'', ''slurmctldlogfile'', ''slurmctldparameters'',
       ''slurmdlogfile'', ''slurmuser'', ''suspendexcnodes'', ''suspendprogram'', ''suspendtime'', ''taskplugin'',
       ''treewidth'']),
     ((''SlurmConf'', ''Accounting''),
      [''accountingstoragetype'', ''accountingstoragehost'', ''accountingstorageport'', ''accountingstorageuser'',
       ''jobacctgathertype'']),
     ((''Queue'', ''Global''),
      [''nodes'', ''partitionname'', ''resumetimeout'', ''state'', ''suspendtime'', ''oversubscribe'']),
     ((''ComputeResource'', ''Global''),
      [''cpus'', ''gres'', ''nodeaddr'', ''nodehostname'', ''nodename'', ''state'', ''weight''])]"

definition str_lower :: "string \<Rightarrow> string" where
  "str_lower s = map to_lower s"

text \<open>A settings dictionary is an association list; \<open>sorted\<close> on a set of texts lists each once.\<close>

type_synonym settings = "(string \<times> pyval) list"

definition denied_in :: "string list \<Rightarrow> custom_slurm_setting_level \<Rightarrow> settings \<Rightarrow> string list" where
  "denied_in deny_list settings_level custom_settings_dict =
     (if settings_level = SLURM_CONF \<and> 1 < length custom_settings_dict then []
      else filter (\<lambda>custom_setting. str_lower custom_setting \<in> set deny_list) (map fst custom_settings_dict))"

definition denied_settings ::
  "settings list \<Rightarrow> string list \<Rightarrow> custom_slurm_setting_level \<Rightarrow> string list" where
  "denied_settings custom_settings deny_list settings_level =
     remdups (concat (map (denied_in deny_list settings_level) custom_settings))"

definition CustomSlurmSettingsValidator ::
  "settings list \<Rightarrow> string list \<Rightarrow> custom_slurm_setting_level \<Rightarrow> failures" where
  "CustomSlurmSettingsValidator custom_settings deny_list settings_level =
     (let denied = denied_settings custom_settings deny_list settings_level in
      fail_if (0 < length denied) ERROR
        (''Using the following custom Slurm settings at '' @ setting_level_value settings_level @
         '' level is not allowed: '' @ join '','' (sort denied)))"

text \<open>A node name that is no text makes \<open>in\<close> raise.\<close>

definition text_contains :: "string \<Rightarrow> pyval \<Rightarrow> bool result" where
  "text_contains p v = (case v of VStr s \<Rightarrow> Inr (str_contains p s) | _ \<Rightarrow> Inl TypeError)"

fun bad_nodenames :: "pyval list \<Rightarrow> pyval list result" where
  "bad_nodenames [] = Inr []"
| "bad_nodenames (nodename # nodenames) =
     rbind (text_contains ''-st-'' nodename) (\<lambda>st. rbind (if st then Inr True else text_contains ''-dy-'' nodename) (\<lambda>bad.
     rmap (\<lambda>rest. if bad then nodename # rest else rest) (bad_nodenames nodenames)))"

definition CustomSlurmNodeNamesValidator :: "settings list \<Rightarrow> failures result" where
  "CustomSlurmNodeNamesValidator custom_settings =
     rmap (\<lambda>bad_nodelists. fail_if (bad_nodelists \<noteq> []) ERROR
        (''Substrings '' @ [CHR 0x27] @ ''-st-'' @ [CHR 0x27] @ '' and '' @ [CHR 0x27] @ ''-dy-'' @ [CHR 0x27] @
         '' in node names are reserved for nodes managed by ParallelCluster. '' @
         ''Please rename the following custom Slurm nodes: '' @ join '', '' (sort (map py_str bad_nodelists))))
       (bad_nodenames (concat (map (\<lambda>d. map snd (filter (\<lambda>kv. str_lower (fst kv) = ''nodename'') d)) custom_settings)))"

definition CustomSlurmSettingsIncludeFileOnlyValidator :: "settings list \<Rightarrow> string option \<Rightarrow> failures" where
  "CustomSlurmSettingsIncludeFileOnlyValidator custom_settings include_file_url =
     fail_if (custom_settings \<noteq> [] \<and> given_text include_file_url) ERROR
       (''CustomSlurmsettings and CustomSlurmSettingsIncludeFile cannot be used together '' @
        ''under SlurmSettings.'')"

text \<open>Custom settings are refused exactly when a setting is, in any spelling of upper and lower case, on the
  deny list, in a dictionary that is not exempt: at the level of \<open>slurm.conf\<close> a dictionary with
  several settings defines a custom node or partition and is not checked.\<close>

lemma custom_settings_accepted_iff:
  "CustomSlurmSettingsValidator custom_settings deny_list lvl = [] \<longleftrightarrow>
     (\<forall>d \<in> set custom_settings. \<not> (lvl = SLURM_CONF \<and> 1 < length d) \<longrightarrow>
        (\<forall>(setting, v) \<in> set d. str_lower setting \<notin> set deny_list))"
proof -
  have "denied_in deny_list lvl d = [] \<longleftrightarrow>
      (\<not> (lvl = SLURM_CONF \<and> 1 < length d) \<longrightarrow> (\<forall>(setting, v) \<in> set d. str_lower setting \<notin> set deny_list))" for d
    by (auto simp: denied_in_def filter_empty_conv)
  then show ?thesis by (auto simp: CustomSlurmSettingsValidator_def denied_settings_def Let_def)
qed

section \<open>Node priorities\<close>

record compute_resource =
  cr_name :: string
  cr_min_count :: int
  cr_max_count :: int
  cr_static_node_priority :: int
  cr_dynamic_node_priority :: int

text \<open>A dictionary comprehension: a name that occurs again keeps its place and takes the later value.\<close>

definition dict_of :: "(string \<times> 'v) list \<Rightarrow> (string \<times> 'v) list" where
  "dict_of kvs = fold (\<lambda>kv d. AList.update (fst kv) (snd kv) d) kvs []"

definition static_priorities :: "compute_resource list \<Rightarrow> (string \<times> int) list" where
  "static_priorities crs = dict_of (map (\<lambda>cr. (cr_name cr, cr_static_node_priority cr))
     (filter (\<lambda>cr. 0 < cr_min_count cr) crs))"

definition dynamic_priorities :: "compute_resource list \<Rightarrow> (string \<times> int) list" where
  "dynamic_priorities crs = dict_of (map (\<lambda>cr. (cr_name cr, cr_dynamic_node_priority cr))
     (filter (\<lambda>cr. cr_min_count cr < cr_max_count cr) crs))"

definition max_static :: "(string \<times> int) list \<Rightarrow> int" where
  "max_static st = (if 0 < length st then Max (set (map snd st)) else MIN_SLURM_NODE_PRIORITY - 1)"

definition min_dynamic :: "(string \<times> int) list \<Rightarrow> int" where
  "min_dynamic dy = (if 0 < length dy then Min (set (map snd dy)) else MAX_SLURM_NODE_PRIORITY + 1)"

definition show_priorities :: "(string \<times> int) list \<Rightarrow> string" where
  "show_priorities d = py_repr (VDict (map (\<lambda>kv. (fst kv, VInt (snd kv))) d))"

definition SlurmNodePrioritiesWarningValidator :: "string \<Rightarrow> compute_resource list \<Rightarrow> failures" where
  "SlurmNodePrioritiesWarningValidator queue_name compute_resources =
     (let st_priorities = static_priorities compute_resources;
          dy_priorities = dynamic_priorities compute_resources;
          top = max_static st_priorities;
          low = min_dynamic dy_priorities;
          bad_static_priorities = filter (\<lambda>kv. low \<le> snd kv) st_priorities;
          bad_dynamic_priorities = filter (\<lambda>kv. snd kv \<le> top) dy_priorities
      in fail_if (bad_static_priorities \<noteq> [] \<or> bad_dynamic_priorities \<noteq> []) WARNING
        (''Some compute resources in queue '' @ queue_name @ '' have static nodes with higher or equal priority than '' @
         ''other dynamic nodes in the same queue. '' @
         ''The following static node priorities are higher than or equal to the minimum dynamic priority '' @
         ''('' @ str_int low @ ''): '' @ show_priorities bad_static_priorities @ ''. '' @
         ''The following dynamic node priorities are lower than or equal to the maximum static priority '' @
         ''('' @ str_int top @ ''): '' @ show_priorities bad_dynamic_priorities @ ''.''))"

lemma update_new: "k \<notin> fst ` set d \<Longrightarrow> AList.update k v d = d @ [(k, v)]"
  by (induction d) auto

lemma dict_of_distinct: "distinct (map fst kvs) \<Longrightarrow> dict_of kvs = kvs"
proof -
  have "distinct (map fst (d @ kvs)) \<Longrightarrow> fold (\<lambda>kv d. AList.update (fst kv) (snd kv) d) kvs d = d @ kvs" for d
  proof (induction kvs arbitrary: d)
    case (Cons kv kvs)
    from Cons.prems have "AList.update (fst kv) (snd kv) d = d @ [kv]"
      by (subst update_new) auto
    with Cons.IH[of "d @ [kv]"] Cons.prems show ?case by simp
  qed simp
  from this[of "[]"] show "distinct (map fst kvs) \<Longrightarrow> dict_of kvs = kvs" by (simp add: dict_of_def)
qed

lemma priorities_distinct:
  assumes "distinct (map cr_name crs)"
  shows "static_priorities crs = map (\<lambda>cr. (cr_name cr, cr_static_node_priority cr)) (filter (\<lambda>cr. 0 < cr_min_count cr) crs)"
    and "dynamic_priorities crs = map (\<lambda>cr. (cr_name cr, cr_dynamic_node_priority cr))
       (filter (\<lambda>cr. cr_min_count cr < cr_max_count cr) crs)"
proof -
  have "distinct (map cr_name (filter p crs))" for p using assms by (induction crs) auto
  then show "static_priorities crs = map (\<lambda>cr. (cr_name cr, cr_static_node_priority cr)) (filter (\<lambda>cr. 0 < cr_min_count cr) crs)"
    "dynamic_priorities crs = map (\<lambda>cr. (cr_name cr, cr_dynamic_node_priority cr))
       (filter (\<lambda>cr. cr_min_count cr < cr_max_count cr) crs)"
    by (simp_all add: static_priorities_def dynamic_priorities_def dict_of_distinct comp_def)
qed

text \<open>The thresholds compare every static with every dynamic priority.\<close>

lemma threshold_low:
  assumes "\<forall>p \<in> set (map snd st). p \<le> MAX_SLURM_NODE_PRIORITY"
  shows "filter (\<lambda>kv. min_dynamic dy \<le> snd kv) st \<noteq> [] \<longleftrightarrow> (\<exists>s \<in> set st. \<exists>d \<in> set dy. snd d \<le> snd s)"
proof (cases "dy = []")
  case True
  with assms show ?thesis by (auto simp: min_dynamic_def filter_empty_conv)
next
  case False
  then have "min_dynamic dy = Min (snd ` set dy)" by (simp add: min_dynamic_def)
  with False show ?thesis by (auto simp: filter_empty_conv Min_le_iff)
qed

lemma threshold_top:
  assumes "\<forall>p \<in> set (map snd dy). MIN_SLURM_NODE_PRIORITY \<le> p"
  shows "filter (\<lambda>kv. snd kv \<le> max_static st) dy \<noteq> [] \<longleftrightarrow> (\<exists>s \<in> set st. \<exists>d \<in> set dy. snd d \<le> snd s)"
proof (cases "st = []")
  case True
  with assms show ?thesis by (auto simp: max_static_def filter_empty_conv)
next
  case False
  then have "max_static st = Max (snd ` set st)" by (simp add: max_static_def)
  with False show ?thesis by (auto simp: filter_empty_conv Max_ge_iff)
qed

text \<open>With distinct names and priorities within the bounds of the schema, the warning about node priorities
  is given exactly when some compute resource with static nodes has a priority at least that of some
  compute resource with dynamic nodes.\<close>

lemma priorities_warning_iff:
  assumes "distinct (map cr_name crs)"
    and "\<forall>cr \<in> set crs. cr_static_node_priority cr \<le> MAX_SLURM_NODE_PRIORITY \<and>
           MIN_SLURM_NODE_PRIORITY \<le> cr_dynamic_node_priority cr"
  shows "SlurmNodePrioritiesWarningValidator queue crs \<noteq> [] \<longleftrightarrow>
    (\<exists>s \<in> set crs. \<exists>d \<in> set crs. 0 < cr_min_count s \<and> cr_min_count d < cr_max_count d \<and>
       cr_dynamic_node_priority d \<le> cr_static_node_priority s)"
proof -
  let ?st = "static_priorities crs" and ?dy = "dynamic_priorities crs"
  have "\<forall>p \<in> set (map snd ?st). p \<le> MAX_SLURM_NODE_PRIORITY" "\<forall>p \<in> set (map snd ?dy). MIN_SLURM_NODE_PRIORITY \<le> p"
    using assms(2) by (auto simp: priorities_distinct[OF assms(1)])
  note thresholds = threshold_low[OF this(1), of ?dy] threshold_top[OF this(2), of ?st]
  have "SlurmNodePrioritiesWarningValidator queue crs \<noteq> [] \<longleftrightarrow> (\<exists>s \<in> set ?st. \<exists>d \<in> set ?dy. snd d \<le> snd s)"
    unfolding SlurmNodePrioritiesWarningValidator_def Let_def fail_if_iff(1) thresholds by blast
  then show ?thesis by (auto simp: priorities_distinct[OF assms(1)])
qed

definition example_resource :: "string \<Rightarrow> int \<Rightarrow> int \<Rightarrow> compute_resource" where
  "example_resource name lo hi = \<lparr>cr_name = name, cr_min_count = lo, cr_max_count = hi, cr_static_node_priority = 1,
     cr_dynamic_node_priority = 1000\<rparr>"

section \<open>External accounting\<close>

definition ExternalSlurmdbdVsDatabaseIncompatibility :: "'d option \<Rightarrow> 'e option \<Rightarrow> failures" where
  "ExternalSlurmdbdVsDatabaseIncompatibility database external_slurmdbd =
     fail_if (database \<noteq> None \<and> external_slurmdbd \<noteq> None) ERROR
       ''Database and ExternalSlurmdbd cannot be defined at the same time within SlurmSettings.''"

definition ExternalSlurmdbdRequiresCustomMungeKey :: "'e option \<Rightarrow> string option \<Rightarrow> failures" where
  "ExternalSlurmdbdRequiresCustomMungeKey external_slurmdbd munge_key_secret_arn =
     fail_if (external_slurmdbd \<noteq> None \<and> munge_key_secret_arn = None) ERROR
       ''When ExternalSlurmdbd is defined, MungeKeySecretArn is required.''"

definition ExternalSlurmdbdTrafficNotEncrypted :: "'e option \<Rightarrow> failures" where
  "ExternalSlurmdbdTrafficNotEncrypted external_slurmdbd =
     fail_if (external_slurmdbd \<noteq> None) WARNING
       (''Traffic between ParallelCluster and the external Slurmdbd is not encrypted. '' @
        ''It is recommended to run the cluster and the external Slurmdbd in a trusted network.'')"

section \<open>Tags of compute resources\<close>

definition MAX_TAGS_COUNT :: nat where "MAX_TAGS_COUNT = 40"

definition keys_of :: "tag list option \<Rightarrow> string set" where
  "keys_of tags = (case tags of None \<Rightarrow> {} | Some ts \<Rightarrow> set (map tag_key ts))"

definition sorted_keys :: "string set \<Rightarrow> string list" where
  "sorted_keys S = sorted_list_of_set S"

text \<open>The key lists of the four warnings: overridden everywhere, by the queue, by the compute resource (two cases).\<close>

definition overlapping_keys ::
  "tag list option \<Rightarrow> tag list option \<Rightarrow> tag list option \<Rightarrow> string list \<times> string list \<times> string list \<times> string list" where
  "overlapping_keys cluster_tags queue_tags compute_resource_tags =
     (let cluster = keys_of cluster_tags; queue = keys_of queue_tags; resource = keys_of compute_resource_tags;
          everywhere = cluster \<inter> queue \<inter> resource
      in (sorted_keys everywhere, sorted_keys (cluster \<inter> (queue - everywhere)),
          sorted_keys (queue \<inter> (resource - everywhere)), sorted_keys (cluster \<inter> (resource - everywhere))))"

definition ComputeResourceTagsValidator ::
  "string \<Rightarrow> string \<Rightarrow> tag list option \<Rightarrow> tag list option \<Rightarrow> tag list option \<Rightarrow> failures" where
  "ComputeResourceTagsValidator queue_name compute_resource_name cluster_tags queue_tags compute_resource_tags =
     (let (everywhere, queue_cluster, resource_queue, cluster_resource) =
            overlapping_keys cluster_tags queue_tags compute_resource_tags;
          key_count = card (keys_of cluster_tags \<union> keys_of queue_tags \<union> keys_of compute_resource_tags);
          place = ''ComputeResource '' @ [CHR 0x27] @ compute_resource_name @ [CHR 0x27] @ '' in queue '' @ [CHR 0x27] @
            queue_name @ [CHR 0x27]
      in fail_if (everywhere \<noteq> []) WARNING
           (''The following Tag keys are defined under `Tags`, `SlurmQueue/Tags` and '' @
            ''`SlurmQueue/ComputeResources/Tags`: '' @ text_list everywhere @
            '' and will be overridden by the value set in `SlurmQueue/ComputeResources/Tags` for '' @ place @ ''.'') @
         fail_if (queue_cluster \<noteq> []) WARNING
           (''The following Tag keys are defined in both under `Tags` and `SlurmQueue/Tags`: '' @
            text_list queue_cluster @ '' and will be overridden by the value set in `SlurmQueue/Tags` for '' @ place @ ''.'') @
         fail_if (resource_queue \<noteq> []) WARNING
           (''The following Tag keys are defined in both under `SlurmQueue/Tags` and '' @
            ''`SlurmQueue/ComputeResources/Tags`: '' @ text_list resource_queue @
            '' and will be overridden by the value set in `SlurmQueue/ComputeResources/Tags` for '' @ place @ ''.'') @
         fail_if (cluster_resource \<noteq> []) WARNING
           (''The following Tag keys are defined in both under `Tags` and `SlurmQueue/ComputeResources/Tags`: '' @
            text_list cluster_resource @ '' and will be overridden by the value set in '' @
            ''`SlurmQueue/ComputeResources/Tags` for '' @ place @ ''.'') @
         fail_if (MAX_TAGS_COUNT < key_count) ERROR
           (''The number of tags ('' @ str_nat key_count @ '') associated with '' @ place @
            '' has exceeded the limit of '' @ str_nat MAX_TAGS_COUNT @ ''.''))"

lemma keys_of_finite [simp]: "finite (keys_of tags)"
  by (simp add: keys_of_def split: option.splits)

lemma keys_of_image: "keys_of tags = (case tags of None \<Rightarrow> {} | Some ts \<Rightarrow> tag_key ` set ts)"
  by (simp add: keys_of_def split: option.splits)

lemma three_levels: "(\<Union>l \<in> set [a, b, c]. case l of None \<Rightarrow> {} | Some ts \<Rightarrow> tag_key ` set ts) =
    keys_of a \<union> keys_of b \<union> keys_of c"
  by (simp add: keys_of_image Un_assoc)

text \<open>The limit on tags counts exactly the tags that merging the tags of the cluster, the queue and the compute
  resource gives to the instances.\<close>

lemma tags_limit_counts_merged_tags:
  "(\<exists>m. (m, ERROR) \<in> set (ComputeResourceTagsValidator queue resource cluster_tags queue_tags resource_tags)) \<longleftrightarrow>
     40 < length (merge_tags [cluster_tags, queue_tags, resource_tags])"
  unfolding merge_tags_length three_levels
  by (cases "overlapping_keys cluster_tags queue_tags resource_tags")
    (auto simp: ComputeResourceTagsValidator_def Let_def MAX_TAGS_COUNT_def)

text \<open>A tag key that is set at two or three of the levels is named in exactly one of the four warnings about
  overridden tags, and no other key is.\<close>

lemma overridden_keys_named_once:
  assumes "overlapping_keys cluster_tags queue_tags resource_tags = (everywhere, queue_cluster, resource_queue, cluster_resource)"
  shows "distinct (everywhere @ queue_cluster @ resource_queue @ cluster_resource) \<and>
    set (everywhere @ queue_cluster @ resource_queue @ cluster_resource) =
      {k. k \<in> keys_of cluster_tags \<and> k \<in> keys_of queue_tags \<or> k \<in> keys_of queue_tags \<and> k \<in> keys_of resource_tags \<or>
          k \<in> keys_of cluster_tags \<and> k \<in> keys_of resource_tags}"
  using assms by (auto simp: overlapping_keys_def sorted_keys_def Let_def)

end
