(* ===== verification/SchemaChecks.thy ===== *)
theory SchemaChecks
  imports ClusterSchema Validation PyValue
begin

text \<open>
  The checks the schemas add to the declarations of their fields (\<open>validates_schema\<close>, \<open>validates\<close>) and
  the conversion of a shared storage to its resource and back (\<open>schemas/common_schema.py\<close>,
  \<open>schemas/cluster_schema.py\<close>).  A check works on the loaded data, a dictionary from attribute names
  to values; it gives the messages of the \<open>ValidationError\<close> it raises, none if it accepts.
\<close>

type_synonym loaded = "(string \<times> pyval) list"

definition data_get :: "loaded \<Rightarrow> string \<Rightarrow> pyval" where
  "data_get data k = (case map_of data k of None \<Rightarrow> VNone | Some v \<Rightarrow> v)"

definition raise_if :: "bool \<Rightarrow> string \<Rightarrow> string list" where
  "raise_if b message = (if b then [message] else [])"

section \<open>Fields that exclude each other\<close>

definition fields_coexist :: "loaded \<Rightarrow> string list \<Rightarrow> bool \<Rightarrow> bool \<Rightarrow> bool" where
  "fields_coexist data field_list one_required partially =
     (if partially then False
      else (let num_of_fields = length (filter (\<lambda>field_name. truthy (data_get data field_name)) field_list)
            in if one_required then num_of_fields \<noteq> 1 else 1 < num_of_fields))"

definition no_coexist_storage_settings :: "loaded \<Rightarrow> bool \<Rightarrow> string list" where
  "no_coexist_storage_settings data partially = raise_if
     (fields_coexist data [''ebs_settings'', ''efs_settings'', ''fsx_lustre_settings'', ''fsx_open_zfs_settings'',
        ''fsx_ontap_settings'', ''file_cache_settings''] False partially)
     ''Multiple *Settings sections cannot be specified in the SharedStorage items.''"

definition no_coexist_security_groups :: "loaded \<Rightarrow> bool \<Rightarrow> string list" where
  "no_coexist_security_groups data partially = raise_if
     (fields_coexist data [''security_groups'', ''additional_security_groups''] False partially)
     ''SecurityGroups and AdditionalSecurityGroups can not be configured together.''"

definition no_coexist_role_policies :: "loaded \<Rightarrow> bool \<Rightarrow> string list" where
  "no_coexist_role_policies data partially = raise_if
     (fields_coexist data [''instance_role'', ''instance_profile'', ''additional_iam_policies''] False partially)
     ''InstanceProfile, InstanceRole or AdditionalIamPolicies can not be configured together.''"

definition no_coexist_s3_access :: "loaded \<Rightarrow> bool \<Rightarrow> string list" where
  "no_coexist_s3_access data partially =
     (if fields_coexist data [''instance_role'', ''s3_access''] False partially
      then [''S3Access can not be configured when InstanceRole is set.'']
      else raise_if (fields_coexist data [''instance_profile'', ''s3_access''] False partially)
        ''S3Access can not be configured when InstanceProfile is set.'')"

definition no_coexist_id_and_group_arn :: "loaded \<Rightarrow> bool \<Rightarrow> string list" where
  "no_coexist_id_and_group_arn data partially = raise_if
     (fields_coexist data [''capacity_reservation_id'', ''capacity_reservation_resource_group_arn''] True partially)
     (''A Capacity Reservation Target needs to specify either Capacity Reservation ID or '' @
      ''Capacity Reservation Resource Group ARN.'')"

definition no_coexist_instance_type_flexibility :: "loaded \<Rightarrow> bool \<Rightarrow> string list" where
  "no_coexist_instance_type_flexibility data partially = raise_if
     (fields_coexist data [''instance_type'', ''instances''] False partially)
     ''A Compute Resource needs to specify either InstanceType or Instances.''"

text \<open>The capacity reservation target is a loaded section here.\<close>

definition instance_type_declaration :: "loaded \<Rightarrow> string list" where
  "instance_type_declaration data = raise_if
     (\<not> truthy (data_get data ''instances'') \<and> \<not> truthy (data_get data ''instance_type'') \<and>
      \<not> (case data_get data ''capacity_reservation_target'' of
           VDict target \<Rightarrow> truthy (data_get target ''capacity_reservation_id'') | _ \<Rightarrow> False))
     ''A Compute Resource needs to specify Instances, InstanceType or CapacityReservationId.''"

definition no_duplicate_instance_types :: "string list \<Rightarrow> string list" where
  "no_duplicate_instance_types instance_types =
     (case find (\<lambda>i. instance_types ! i \<in> set (take i instance_types)) [0..<length instance_types] of
        None \<Rightarrow> []
      | Some i \<Rightarrow> [''Duplicate instance type ('' @ instance_types ! i @ '') detected. Instances should not have '' @
          ''duplicate instance types. ''])"

section \<open>File systems\<close>

definition efs_ignored_param :: "string \<Rightarrow> string" where
  "efs_ignored_param key = key @ '' cannot be specified when an existing EFS file system is used.''"

definition fsx_ignored_param :: "string \<Rightarrow> string" where
  "fsx_ignored_param key = key @ '' cannot be specified when an existing Lustre file system is used.''"

definition fsx_backup_param :: "string \<Rightarrow> string" where
  "fsx_backup_param key = ''When restoring an FSx Lustre file system from backup, '' @ [CHR 0x27] @ key @ [CHR 0x27] @
     '' cannot be specified.''"

definition efs_file_system_id_ignored_parameters :: "loaded \<Rightarrow> string list" where
  "efs_file_system_id_ignored_parameters data =
     (if data_get data ''file_system_id'' \<noteq> VNone
      then map efs_ignored_param (filter (\<lambda>key. key \<notin> {''encryption_in_transit'', ''iam_authorization'',
        ''file_system_id'', ''access_point_id''}) (map fst data))
      else [])"

definition existence_of_mode_throughput :: "loaded \<Rightarrow> bool \<Rightarrow> string list" where
  "existence_of_mode_throughput data partially =
     (if partially then []
      else if data_get data ''throughput_mode'' \<noteq> VStr ''provisioned'' \<and> truthy (data_get data ''provisioned_throughput'')
      then [''When specifying provisioned throughput, the throughput mode must be set to provisioned'']
      else raise_if (data_get data ''throughput_mode'' = VStr ''provisioned'' \<and>
          \<not> truthy (data_get data ''provisioned_throughput''))
        (''When specifying throughput mode to provisioned,'' @
         '' the provisioned throughput option must be specified''))"

definition fsx_file_system_id_ignored_parameters :: "loaded \<Rightarrow> string list" where
  "fsx_file_system_id_ignored_parameters data =
     (if data_get data ''file_system_id'' \<noteq> VNone
      then map fsx_ignored_param (filter (\<lambda>key. key \<noteq> ''file_system_id'') (map fst data))
      else [])"

definition fsx_backup_id_unsupported_parameters :: "loaded \<Rightarrow> string list" where
  "fsx_backup_id_unsupported_parameters data =
     (if data_get data ''backup_id'' \<noteq> VNone
      then map fsx_backup_param (filter (\<lambda>key. key \<in> {''deployment_type'', ''per_unit_storage_throughput'',
        ''storage_capacity'', ''import_path'', ''export_path'', ''imported_file_chunk_size'', ''kms_key_id''}) (map fst data))
      else [])"

section \<open>Shared storage\<close>

definition storage_settings_of :: "(string \<times> string) list" where
  "storage_settings_of = [(''Ebs'', ''ebs_settings''), (''Efs'', ''efs_settings''), (FSX_LUSTRE, ''fsx_lustre_settings''),
     (FSX_OPENZFS, ''fsx_open_zfs_settings''), (FSX_ONTAP, ''fsx_ontap_settings''), (FILE_CACHE, ''file_cache_settings'')]"

definition right_storage_settings :: "loaded \<Rightarrow> string list" where
  "right_storage_settings data = raise_if
     (list_ex (\<lambda>(stype, settings). truthy (data_get data settings) \<and> VStr stype \<noteq> data_get data ''storage_type'')
        storage_settings_of)
     (''SharedStorage > *Settings section is not appropriate to the '' @
      ''StorageType '' @ py_str (data_get data ''storage_type'') @ ''.'')"

definition shared_dir_validator :: "string \<Rightarrow> string list" where
  "shared_dir_validator value =
     raise_if (value \<in> {''NONE'', ''/NONE'', ''NONE'' @ [CHR 0x0A], ''/NONE'' @ [CHR 0x0A]})
       (value @ '' cannot be used as a shared directory'')"

text \<open>
  \<open>make_resource\<close>: the class of the resource by the storage type, as the pair of its
  \<open>shared_storage_type\<close> and its \<open>file_system_type\<close>; \<open>None\<close> for an unknown storage type.
\<close>

datatype resource_class = ResourceClass string "string option"

definition storage_resource_class :: "bool \<Rightarrow> string \<Rightarrow> resource_class option" where
  "storage_resource_class raid stype =
     (if stype = ''Efs'' then Some (ResourceClass ''efs'' None)
      else if stype = ''Ebs'' then Some (ResourceClass (if raid then ''raid'' else ''ebs'') None)
      else if stype = FSX_LUSTRE then Some (ResourceClass ''fsx'' (Some ''LUSTRE''))
      else if stype = FSX_OPENZFS then Some (ResourceClass ''fsx'' (Some ''OPENZFS''))
      else if stype = FSX_ONTAP then Some (ResourceClass ''fsx'' (Some ''ONTAP''))
      else if stype = FILE_CACHE then Some (ResourceClass ''fsx'' (Some ''FILECACHE''))
      else None)"

text \<open>\<open>str.capitalize\<close> and the text of an optional name in an f-string.\<close>

definition capitalize :: "string \<Rightarrow> string" where
  "capitalize s = (case s of [] \<Rightarrow> [] | c # r \<Rightarrow> to_upper c # map to_lower r)"

definition or_none_text :: "string option \<Rightarrow> string" where
  "or_none_text x = (case x of None \<Rightarrow> ''None'' | Some s \<Rightarrow> s)"

text \<open>
  \<open>restore_child\<close>, before a dump: the attribute that gets the settings of the resource, and the
  storage type.
\<close>

definition restore_child :: "resource_class \<Rightarrow> string \<times> string option" where
  "restore_child cls = (case cls of ResourceClass shared_storage_type file_system_type \<Rightarrow>
     (let lookup = (\<lambda>m. case file_system_type of None \<Rightarrow> None | Some t \<Rightarrow> map_of m t);
          stype = (if shared_storage_type = ''efs'' then Some ''efs''
            else if shared_storage_type = ''fsx''
            then lookup [(''LUSTRE'', ''fsx_lustre''), (''OPENZFS'', ''fsx_open_zfs''), (''ONTAP'', ''fsx_ontap''),
              (''FILECACHE'', ''file_cache_settings'')]
            else Some ''ebs'')
      in (or_none_text stype @ ''_settings'',
          if shared_storage_type = ''fsx''
          then lookup [(''LUSTRE'', FSX_LUSTRE), (''OPENZFS'', FSX_OPENZFS), (''ONTAP'', FSX_ONTAP), (''FILECACHE'', FILE_CACHE)]
          else map_option capitalize stype)))"

definition storage_types :: "string list" where
  "storage_types = map fst storage_settings_of"



section \<open>Tags\<close>

definition PCLUSTER_PREFIX :: string where "PCLUSTER_PREFIX = ''parallelcluster:''"

text \<open>The key of a tag: a tag resource, or a dictionary when one of the tags has a value that is no text.\<close>

datatype loaded_tag = Tag_resource tag | Tag_dict loaded

definition loaded_tag_key :: "loaded_tag \<Rightarrow> string" where
  "loaded_tag_key t = (case t of Tag_resource r \<Rightarrow> tag_key r
     | Tag_dict d \<Rightarrow> (case map_of d ''key'' of Some (VStr k) \<Rightarrow> k | _ \<Rightarrow> []))"

definition validate_no_reserved_tag :: "loaded_tag list \<Rightarrow> string list" where
  "validate_no_reserved_tag tags = raise_if
     (list_ex (\<lambda>t. startswith (loaded_tag_key t) PCLUSTER_PREFIX \<and>
        loaded_tag_key t \<noteq> ''parallelcluster:custom_resource'') tags)
     (''The tag key prefix '' @ [CHR 0x27] @ PCLUSTER_PREFIX @ [CHR 0x27] @ '' is reserved and cannot be used.'')"

fun first_duplicate :: "string set \<Rightarrow> string list \<Rightarrow> string option" where
  "first_duplicate seen [] = None"
| "first_duplicate seen (k # ks) = (if k \<in> seen then Some k else first_duplicate (insert k seen) ks)"

definition validate_no_duplicate_tag :: "loaded_tag list \<Rightarrow> string list" where
  "validate_no_duplicate_tag tags = (case first_duplicate {} (map loaded_tag_key tags) of
     None \<Rightarrow> []
   | Some k \<Rightarrow> [''Duplicate tag key ('' @ k @ '') detected. Tags keys should be unique within the Tags section.''])"

text \<open>\<open>validate_tags\<close> of the cluster, the queues and the compute resources.\<close>

definition validate_tags :: "loaded_tag list \<Rightarrow> string list" where
  "validate_tags tags = (case validate_no_reserved_tag tags of [] \<Rightarrow> validate_no_duplicate_tag tags | ms \<Rightarrow> ms)"

lemma first_duplicate_None_iff: "first_duplicate seen ks = None \<longleftrightarrow> distinct ks \<and> set ks \<inter> seen = {}"
  by (induction seen ks rule: first_duplicate.induct) auto

text \<open>What the tag check accepts: distinct keys outside the reserved prefix.\<close>

lemma validate_tags_accepts_iff:
  "validate_tags tags = [] \<longleftrightarrow> distinct (map loaded_tag_key tags) \<and>
     (\<forall>t \<in> set tags. startswith (loaded_tag_key t) PCLUSTER_PREFIX \<longrightarrow>
        loaded_tag_key t = ''parallelcluster:custom_resource'')"
proof -
  have "validate_tags tags = [] \<longleftrightarrow> validate_no_reserved_tag tags = [] \<and> validate_no_duplicate_tag tags = []"
    by (simp add: validate_tags_def split: list.splits)
  then show ?thesis
    using first_duplicate_None_iff[of "{}" "map loaded_tag_key tags"]
    by (auto simp: validate_no_reserved_tag_def validate_no_duplicate_tag_def raise_if_def list_ex_iff split: option.splits)
qed

end
