(* ===== verification/ClusterUpdate.thy ===== *)
theory ClusterUpdate
  imports PatchCheck Validation
begin

text \<open>
  The actions of \<open>pcluster/models/cluster.py\<close> on a running cluster: starting and stopping the
  compute fleet, the validation of an update request and the update, with the errors they raise.
  CloudFormation, the schema library and the template builder are parameters: the status of the
  stack or the exception of \<open>describe_stack\<close>, the loaded configuration, the deployment.
\<close>

section \<open>Exception classes\<close>

text \<open>The class of an exception and the classes of the program it is derived from.\<close>

fun exn_class :: "py_exn \<Rightarrow> string" where
  "exn_class AttributeError = ''AttributeError''"
| "exn_class TypeError = ''TypeError''"
| "exn_class KeyError = ''KeyError''"
| "exn_class IndexError = ''IndexError''"
| "exn_class ValueError = ''ValueError''"
| "exn_class (Exc cls msg) = cls"

definition bases :: "string \<Rightarrow> string list" where
  "bases cls = (case map_of
     [(''ConfigValidationError'', [''ClusterActionError'']),
      (''ClusterUpdateError'', [''ClusterActionError'', ''BadRequest'']),
      (''LimitExceededClusterActionError'', [''ClusterActionError'', ''LimitExceeded'']),
      (''BadRequestClusterActionError'', [''ClusterActionError'', ''BadRequest'']),
      (''ConflictClusterActionError'', [''ClusterActionError'', ''Conflict'']),
      (''NotFoundClusterActionError'', [''ClusterActionError'', ''NotFound'']),
      (''ImageNotFoundError'', [''AWSClientError'']),
      (''StackNotFoundError'', [''AWSClientError'']),
      (''LimitExceededError'', [''AWSClientError'']),
      (''BadRequestError'', [''AWSClientError''])] cls of
       None \<Rightarrow> [] | Some bs \<Rightarrow> bs)"

text \<open>No class of the program has a base class with bases of its own other than \<open>Exception\<close>.\<close>

definition is_instance :: "py_exn \<Rightarrow> string \<Rightarrow> bool" where
  "is_instance e cls \<longleftrightarrow> cls = ''Exception'' \<or> cls = exn_class e \<or> cls \<in> set (bases (exn_class e))"

definition cluster_error_mapper :: "py_exn \<Rightarrow> string option \<Rightarrow> py_exn" where
  "cluster_error_mapper error message =
     (let text = (case message of None \<Rightarrow> exn_text error | Some m \<Rightarrow> m) in
      if is_instance error ''LimitExceeded'' \<or> is_instance error ''LimitExceededError''
        then Exc ''LimitExceededClusterActionError'' text
      else if is_instance error ''NotFoundClusterActionError'' then Exc ''NotFoundClusterActionError'' text
      else if is_instance error ''BadRequest'' \<or> is_instance error ''BadRequestError''
        then Exc ''BadRequestClusterActionError'' text
      else if is_instance error ''Conflict'' then Exc ''ConflictClusterActionError'' text
      else if is_instance error ''NotFound'' then Exc ''NotFoundClusterActionError'' text
      else Exc ''ClusterActionError'' text)"

lemma bases_simps [simp]:
  "bases ''ClusterActionError'' = []"
  "bases ''LimitExceededClusterActionError'' = [''ClusterActionError'', ''LimitExceeded'']"
  "bases ''BadRequestClusterActionError'' = [''ClusterActionError'', ''BadRequest'']"
  "bases ''ConflictClusterActionError'' = [''ClusterActionError'', ''Conflict'']"
  "bases ''NotFoundClusterActionError'' = [''ClusterActionError'', ''NotFound'']"
  "bases ''ConditionalStatusUpdateFailed'' = []"
  by (simp_all add: bases_def)

lemma mapper_is_action_error: "is_instance (cluster_error_mapper e m) ''ClusterActionError''"
  by (simp add: cluster_error_mapper_def Let_def is_instance_def)

lemma mapper_text: "exn_text (cluster_error_mapper e (Some m)) = m"
  by (simp add: cluster_error_mapper_def Let_def)

section \<open>Starting and stopping the fleet\<close>

definition is_working_status :: "string \<Rightarrow> bool" where
  "is_working_status st \<longleftrightarrow> st \<in> set [''CREATE_COMPLETE'', ''UPDATE_COMPLETE'', ''UPDATE_ROLLBACK_COMPLETE'']"

text \<open>The two \<open>except\<close> clauses; the second also catches what the \<open>try\<close> block itself raised.\<close>

definition fleet_request_error :: "string \<Rightarrow> py_exn \<Rightarrow> py_exn" where
  "fleet_request_error verb e =
     (if is_instance e ''ConditionalStatusUpdateFailed''
      then Exc ''BadRequestClusterActionError''
        (''Failed when '' @ verb @ '' compute fleet due to a concurrent update of the status. '' @
         ''Please retry the operation.'')
      else cluster_error_mapper e (Some (''Failed when '' @ verb @ '' compute fleet with error: '' @ exn_text e)))"

definition catching :: "(py_exn \<Rightarrow> py_exn) \<Rightarrow> 'a result \<Rightarrow> 'a result" where
  "catching h r = (case r of Inl e \<Rightarrow> Inl (h e) | Inr x \<Rightarrow> Inr x)"

definition start :: "string result \<Rightarrow> 's manager \<Rightarrow> 's \<Rightarrow> 's result" where
  "start stack_status M s = catching (fleet_request_error ''starting'')
     (rbind stack_status (\<lambda>st.
        if \<not> is_working_status st
        then Inl (Exc ''BadRequestClusterActionError''
          (''Cannot start/enable compute fleet while stack is in '' @ st @ '' status.''))
        else start_compute_fleet M s))"

definition stop :: "string result \<Rightarrow> 's manager \<Rightarrow> 's \<Rightarrow> 's result" where
  "stop stack_status M s = catching (fleet_request_error ''stopping'')
     (rbind stack_status (\<lambda>st.
        if \<not> is_working_status st
        then Inl (Exc ''BadRequestClusterActionError''
          (''Cannot stop/disable compute fleet while stack is in '' @ st @ '' status.''))
        else stop_compute_fleet M s))"

definition compute_fleet_status_with_last_updated_time ::
  "string \<Rightarrow> 's manager \<Rightarrow> 's \<Rightarrow> compute_fleet_status \<times> pyval" where
  "compute_fleet_status_with_last_updated_time st M s =
     (if is_working_status st \<or> st = ''UPDATE_IN_PROGRESS''
      then get_status_with_last_updated_time M s UNKNOWN VNone else (UNKNOWN, VNone))"

lemma catching_simps [simp]: "catching h (Inl e) = Inl (h e)" "catching h (Inr x) = Inr x"
  by (simp_all add: catching_def)

section \<open>Validating an update request\<close>

text \<open>
  The errors that carry more than a message: the failures of the validation, the changes of a
  refused update.
\<close>

datatype action_error =
    ConfigValidationError string "validation_result list"
  | ClusterUpdateError string "cell list list"
  | Raised py_exn

text \<open>
  What loading the configuration raises: marshmallow's \<open>ValidationError\<close>, with the text its messages
  are turned into, or something else.
\<close>

datatype load_error = Schema_messages string | Load_raised py_exn

definition load_config :: "(load_error + 'c) \<Rightarrow> action_error + 'c" where
  "load_config loaded = (case loaded of
     Inr cfg \<Rightarrow> Inr cfg
   | Inl (Schema_messages data) \<Rightarrow> Inl (ConfigValidationError ''Invalid cluster configuration.''
       [\<lparr>vr_message = data, vr_level = ERROR, vr_type = ''ConfigSchemaValidator''\<rparr>])
   | Inl (Load_raised e) \<Rightarrow> Inl (Raised e))"

text \<open>\<open>validate_json_format\<close>; \<open>loads\<close> stands for \<open>json.loads\<close>.\<close>

definition validate_json_format :: "(pyval \<Rightarrow> pyval result) \<Rightarrow> pyval \<Rightarrow> bool result" where
  "validate_json_format loads data = (case loads data of
     Inr _ \<Rightarrow> Inr True | Inl ValueError \<Rightarrow> Inr False | Inl e \<Rightarrow> Inl e)"

text \<open>The value is what the additional data of the instance types are set to, if they are.\<close>

definition load_additional_instance_type_data ::
  "(pyval \<Rightarrow> pyval result) \<Rightarrow> pyval \<Rightarrow> pyval option result" where
  "load_additional_instance_type_data loads cluster_config_dict =
     rbind (py_get cluster_config_dict ''DevSettings'' VNone) (\<lambda>dev.
     rbind (py_get (py_or dev emptydict) ''InstanceTypesData'' VNone) (\<lambda>data.
       if truthy data
       then rbind (validate_json_format loads data) (\<lambda>ok.
         if \<not> ok then Inl (Exc ''ValidationError'' ''DevSettings/InstanceTypesData is not a valid JSON.'')
         else rmap Some (loads data))
       else Inr None))"

definition reaches_level :: "failure_level \<Rightarrow> validation_result list \<Rightarrow> bool" where
  "reaches_level level failures \<longleftrightarrow> list_ex (\<lambda>f. level_value level \<le> level_value (vr_level f)) failures"

definition config_error :: "py_exn \<Rightarrow> action_error" where
  "config_error e = ConfigValidationError (''Invalid cluster configuration: '' @ exn_text e) []"

text \<open>
  \<open>_validate_and_parse_config\<close>.  \<open>parsed\<close> is the parsed text, \<open>loader\<close> the schema library,
  \<open>resources\<close> the reading of the stack's resources during an update and \<open>tree\<close> the tree of
  resources of the loaded configuration.
\<close>

definition validate_and_parse_config ::
  "(pyval \<Rightarrow> pyval result) \<Rightarrow> (pyval \<Rightarrow> load_error + 'c) \<Rightarrow> ('c \<Rightarrow> 'c result) \<Rightarrow> ('c \<Rightarrow> resource)
    \<Rightarrow> suppressor list \<Rightarrow> failure_level \<Rightarrow> pyval result \<Rightarrow> action_error + 'c \<times> validation_result list" where
  "validate_and_parse_config loads loader resources tree validator_suppressors validation_failure_level parsed =
     (case parsed of
        Inl e \<Rightarrow> Inl (Raised e)
      | Inr cluster_config_dict \<Rightarrow>
         (case load_additional_instance_type_data loads cluster_config_dict of
            Inl e \<Rightarrow> Inl (config_error e)
          | Inr _ \<Rightarrow>
             (case load_config (loader cluster_config_dict) of
                Inl (Raised e) \<Rightarrow> Inl (config_error e)
              | Inl err \<Rightarrow> Inl err
              | Inr loaded \<Rightarrow>
                 (case rbind (resources loaded) (\<lambda>config.
                    rmap (Pair config) (validate validator_suppressors (tree config))) of
                    Inl e \<Rightarrow> Inl (config_error e)
                  | Inr (config, validation_failures) \<Rightarrow>
                      if reaches_level validation_failure_level validation_failures
                      then Inl (ConfigValidationError ''Invalid cluster configuration.'' validation_failures)
                      else Inr (config, validation_failures)))))"

definition validate_patch :: "bool \<Rightarrow> patch result \<Rightarrow> cluster \<Rightarrow> action_error + cell list list \<times> cluster" where
  "validate_patch force patch c = (case rbind patch (\<lambda>p. check_patch p c) of
     Inl e \<Rightarrow> Inl (Raised e)
   | Inr ((patch_allowed, update_changes), c') \<Rightarrow>
       if \<not> (patch_allowed \<or> force) then Inl (ClusterUpdateError ''Update failure'' update_changes)
       else if length update_changes \<le> 1 \<and> \<not> force
         then Inl (Raised (Exc ''BadRequestClusterActionError'' ''No changes found in your cluster configuration.''))
       else Inr (update_changes, c'))"

text \<open>\<open>stack_exists\<close> and \<open>stack_status\<close> are what CloudFormation answers.\<close>

definition validate_cluster_exists :: "string \<Rightarrow> bool result \<Rightarrow> unit result" where
  "validate_cluster_exists name stack_exists = rbind stack_exists (\<lambda>ex. if ex then Inr ()
     else Inl (Exc ''NotFoundClusterActionError'' (''Cluster '' @ name @ '' does not exist.'')))"

definition validate_stack_status_not_in_progress :: "string result \<Rightarrow> unit result" where
  "validate_stack_status_not_in_progress stack_status = rbind stack_status (\<lambda>st.
     if str_contains ''IN_PROGRESS'' st
     then Inl (Exc ''ConflictClusterActionError'' (''Cannot execute update while stack is in '' @ st @ '' status.''))
     else Inr ())"

definition lift_error :: "'a result \<Rightarrow> action_error + 'a" where
  "lift_error r = (case r of Inl e \<Rightarrow> Inl (Raised e) | Inr x \<Rightarrow> Inr x)"

definition abind :: "(action_error + 'a) \<Rightarrow> ('a \<Rightarrow> action_error + 'b) \<Rightarrow> action_error + 'b" where
  "abind r f = (case r of Inl e \<Rightarrow> Inl e | Inr x \<Rightarrow> f x)"

text \<open>
  \<open>validated\<close> is the call of \<open>_validate_and_parse_config\<close> (with the id of the head node that its
  context needs), \<open>mk_patch\<close> the construction of the patch for the loaded configuration.
\<close>

definition validate_update_request ::
  "string \<Rightarrow> bool result \<Rightarrow> string result \<Rightarrow> (action_error + 'c \<times> validation_result list) \<Rightarrow> ('c \<Rightarrow> patch result)
    \<Rightarrow> bool \<Rightarrow> cluster \<Rightarrow> action_error + ('c \<times> cell list list \<times> validation_result list) \<times> cluster" where
  "validate_update_request name stack_exists stack_status validated mk_patch force c =
     abind (lift_error (validate_cluster_exists name stack_exists)) (\<lambda>_.
     abind (lift_error (validate_stack_status_not_in_progress stack_status)) (\<lambda>_.
     abind validated (\<lambda>(target_config, ignored).
     abind (validate_patch force (mk_patch target_config) c) (\<lambda>(changes, c').
     Inr ((target_config, changes, ignored), c')))))"

text \<open>
  The update: \<open>deploy\<close> is everything from the upload of the configuration to the update of the
  stack.  The errors of the request are cluster action errors and are raised as they are.
\<close>

definition update_error :: "action_error \<Rightarrow> action_error" where
  "update_error err = (case err of
     Raised e \<Rightarrow> (if is_instance e ''ClusterActionError'' then Raised e
                  else Raised (cluster_error_mapper e (Some (''Cluster update failed.\<newline>'' @ exn_text e))))
   | _ \<Rightarrow> err)"

definition update ::
  "(action_error + ('c \<times> cell list list \<times> validation_result list) \<times> cluster) \<Rightarrow> ('c \<Rightarrow> cell list list \<Rightarrow> unit result)
    \<Rightarrow> action_error + (cell list list \<times> validation_result list) \<times> cluster" where
  "update request deploy = (case abind request (\<lambda>((target_config, changes, ignored), c).
       abind (lift_error (deploy target_config changes)) (\<lambda>_. Inr ((changes, ignored), c))) of
     Inl err \<Rightarrow> Inl (update_error err)
   | Inr r \<Rightarrow> Inr r)"

lemma abind_simps [simp]: "abind (Inl e) f = Inl e" "abind (Inr x) f = f x"
  by (simp_all add: abind_def)

lemma abind_Inr_iff: "abind r f = Inr y \<longleftrightarrow> (\<exists>x. r = Inr x \<and> f x = Inr y)"
  by (auto simp: abind_def split: sum.splits)

lemma lift_error_simps [simp]: "lift_error (Inl e) = Inl (Raised e)" "lift_error (Inr x) = Inr x"
  by (simp_all add: lift_error_def)

lemma lift_error_Inr_iff [simp]: "lift_error r = Inr x \<longleftrightarrow> r = Inr x"
  by (cases r) simp_all

section \<open>What the fleet requests do\<close>

lemma request_json_stored:
  assumes "dynamodb D item_of" and "json_stored item_of s = Some st" and "st \<noteq> UNKNOWN"
    and "UNKNOWN \<notin> {req, prog, fin}"
  shows "\<exists>s' st'. request_status_change (json_manager D now) s req prog fin = Inr s' \<and>
    json_stored item_of s' = Some st' \<and> st' \<in> {req, prog, fin} \<and> (st \<in> {req, prog, fin} \<longrightarrow> s' = s) \<and>
    fst (get_status_with_last_updated_time (json_manager D now) s' UNKNOWN VNone) = st'"
proof -
  note store = dynamodb.json_store[OF assms(1), of now]
  from status_store.request_succeeds[OF store assms(2,3)] obtain s' where
    s': "request_status_change (json_manager D now) s req prog fin = Inr s'" by blast
  with status_store.request_result[OF store s'] assms(2,4) status_store.get_stored[OF store, of s' UNKNOWN]
  show ?thesis by (auto simp: get_status_def)
qed

lemma stop_json_stored:
  assumes "dynamodb D item_of" and "json_stored item_of s = Some st" and "st \<noteq> UNKNOWN"
  shows "\<exists>s' st'. stop_compute_fleet (json_manager D now) s = Inr s' \<and> json_stored item_of s' = Some st' \<and>
    is_stop_status st' \<and> (is_stop_status st \<longrightarrow> s' = s) \<and>
    fst (get_status_with_last_updated_time (json_manager D now) s' UNKNOWN VNone) = st'"
  using request_json_stored[OF assms, of STOP_REQUESTED STOPPING STOPPED now]
  by (auto simp: stop_compute_fleet_def is_stop_status_def)

lemma start_json_stored:
  assumes "dynamodb D item_of" and "json_stored item_of s = Some st" and "st \<noteq> UNKNOWN"
  shows "\<exists>s' st'. start_compute_fleet (json_manager D now) s = Inr s' \<and> json_stored item_of s' = Some st' \<and>
    is_start_status st' \<and> (is_start_status st \<longrightarrow> s' = s) \<and>
    fst (get_status_with_last_updated_time (json_manager D now) s' UNKNOWN VNone) = st'"
  using request_json_stored[OF assms, of START_REQUESTED STARTING RUNNING now]
  by (auto simp: start_compute_fleet_def is_start_status_def)



section \<open>What an update request is refused for\<close>

text \<open>C4: without \<open>force\<close> an update request whose patch can be checked is accepted exactly when every change was
  checked with success and at least one change is to be printed; with \<open>force\<close> it always is; the changes it returns
  are the header and the printed rows.\<close>

theorem update_patch_accepted_iff:
  assumes "checks p (changes p) c = Inr (rs, c')"
  shows "validate_patch force (Inr p) c = Inr (rows, c'') \<longleftrightarrow>
    (force \<or> (\<forall>r \<in> set rs. cr_result r = SUCCEEDED) \<and> (\<exists>r \<in> set rs. cr_print_change r)) \<and>
    rows = header_row # printed_rows (changes p) rs \<and> c'' = c'"
  using assms printed_rows_Nil_iff[OF checks_length[OF assms, symmetric]]
  by (auto simp: validate_patch_def check_patch_def check_changes_checks)

theorem update_patch_accepted_iff_witness:
  "validate_patch False (Inr (scheduling_patch emptydict [max_count_change 5 10])) example_cluster =
     Inr ([header_row, report_row (max_count_change 5 10) growth_row], cached_capacity example_cluster)"
proof -
  let ?p = "scheduling_patch emptydict [max_count_change 5 10]"
  have ch: "changes ?p = [max_count_change 5 10]" by (simp add: scheduling_patch_def)
  with example_growth_checks have "checks ?p (changes ?p) example_cluster = Inr ([growth_row], cached_capacity example_cluster)"
    by simp
  from update_patch_accepted_iff[OF this, of False] ch show ?thesis by (simp add: growth_row_def)
qed

lemma checks_ignored:
  "\<forall>ch \<in> set chs. ch_update_policy ch = IGNORED \<Longrightarrow> \<exists>rs. checks p chs c = Inr (rs, c) \<and>
     (\<forall>r \<in> set rs. cr_result r = SUCCEEDED \<and> \<not> cr_print_change r)"
proof (induction chs)
  case (Cons ch chs)
  then obtain rs where "checks p chs c = Inr (rs, c)" "\<forall>r \<in> set rs. cr_result r = SUCCEEDED \<and> \<not> cr_print_change r"
    by auto
  moreover have "check IGNORED ch p c = Inr (\<lparr>cr_result = SUCCEEDED, cr_fail_reason = Some ''-'',
      cr_action_needed = None, cr_print_change = False\<rparr>, c)"
    using check_succeeded[of IGNORED Check_true ch p c c] by (simp add: IGNORED_def init_update_policy_def truthy_text_def)
  ultimately show ?case using Cons.prems by (simp add: cbind_apply)
qed simp

lemma refused_ignored_changes:
  assumes "\<forall>ch \<in> set (changes p). ch_update_policy ch = IGNORED"
  shows "validate_patch False (Inr p) c =
    Inl (Raised (Exc ''BadRequestClusterActionError'' ''No changes found in your cluster configuration.''))"
proof -
  from checks_ignored[OF assms] obtain rs where
    rs: "checks p (changes p) c = Inr (rs, c)" "\<forall>r \<in> set rs. cr_result r = SUCCEEDED \<and> \<not> cr_print_change r" by blast
  with printed_rows_Nil_iff[OF checks_length[OF rs(1), symmetric]] show ?thesis
    by (simp add: validate_patch_def check_patch_def check_changes_checks)
qed

text \<open>A request that changes nothing but parameters whose changes are ignored is refused with ``No changes
  found'', whatever the cluster's state, unless it is forced; forced, it is accepted with an empty report.\<close>

lemma ignored_changes_are_no_changes:
  assumes "\<forall>ch \<in> set (changes p). ch_update_policy ch = IGNORED"
  shows "validate_patch False (Inr p) c =
      Inl (Raised (Exc ''BadRequestClusterActionError'' ''No changes found in your cluster configuration.'')) \<and>
    validate_patch True (Inr p) c = Inr ([header_row], c)"
proof -
  from checks_ignored[OF assms] obtain rs where
    rs: "checks p (changes p) c = Inr (rs, c)" "\<forall>r \<in> set rs. cr_result r = SUCCEEDED \<and> \<not> cr_print_change r" by blast
  with printed_rows_Nil_iff[OF checks_length[OF rs(1), symmetric]] refused_ignored_changes[OF assms] show ?thesis
    by (simp add: validate_patch_def check_patch_def check_changes_checks)
qed

section \<open>The failure level of a request\<close>

lemma reaches_level_iff: "reaches_level level fs \<longleftrightarrow> (\<exists>f \<in> set fs. level \<le> vr_level f)"
  by (simp add: reaches_level_def list_ex_iff less_eq_failure_level_def)

lemma validate_and_parse_Inr_iff:
  "validate_and_parse_config loads loader resources tree sups level parsed = Inr (cfg, fs) \<longleftrightarrow>
    (\<exists>d data loaded. parsed = Inr d \<and> load_additional_instance_type_data loads d = Inr data \<and>
      loader d = Inr loaded \<and> resources loaded = Inr cfg \<and> validate sups (tree cfg) = Inr fs \<and>
      \<not> reaches_level level fs)"
  by (auto simp: validate_and_parse_config_def load_config_def rbind_Inr_iff rmap_Inr_iff
      split: sum.splits load_error.splits action_error.splits if_splits)

text \<open>A configuration that is accepted with a failure level has no failure of that level or above in the
  failures it returns, and is accepted with every higher level, with the same failures.\<close>

lemma accepted_below_level:
  assumes "validate_and_parse_config loads loader resources tree sups level parsed = Inr (cfg, fs)"
  shows "(\<forall>f \<in> set fs. vr_level f < level) \<and>
    (\<forall>level' \<ge> level. validate_and_parse_config loads loader resources tree sups level' parsed = Inr (cfg, fs))"
proof -
  from assms have below: "\<forall>f \<in> set fs. vr_level f < level"
    by (auto simp: validate_and_parse_Inr_iff reaches_level_iff not_le)
  moreover have "\<not> reaches_level level' fs" if "level \<le> level'" for level'
    using below that by (auto simp: reaches_level_iff dest: order.trans)
  ultimately show ?thesis using assms by (auto simp: validate_and_parse_Inr_iff)
qed

end
