(* ===== verification/ApiControllers.thy ===== *)
theory ApiControllers
  imports ClusterUpdate
begin

text \<open>
  The API controllers (\<open>pcluster/api/controllers\<close>) over the cluster's actions: the conversion of
  errors to API exceptions, the fleet operations, the update of a cluster with its dry run, and the
  conversions of \<open>pcluster/api/converters.py\<close>.  Versions are compared by the \<open>packaging\<close> library: a
  parameter with the sign of the comparison.
\<close>

section \<open>API exceptions\<close>

record api_change =
  ac_parameter :: string
  ac_requested_value :: string
  ac_current_value :: string

record update_validation_error =
  ue_parameter :: string
  ue_requested_value :: string
  ue_message :: string
  ue_current_value :: string

record validation_message =
  vm_level :: string
  vm_type :: string
  vm_message :: string

datatype api_exception =
    BadRequestException string
  | InternalServiceException string
  | LimitExceededException string
  | NotFoundException string
  | ConflictException string
  | UpdateClusterBadRequestException string "validation_message list" "api_change list" "update_validation_error list"
  | DryrunOperationException "api_change list" "validation_message list"

fun api_code :: "api_exception \<Rightarrow> nat" where
  "api_code (BadRequestException _) = 400"
| "api_code (InternalServiceException _) = 500"
| "api_code (LimitExceededException _) = 429"
| "api_code (NotFoundException _) = 404"
| "api_code (ConflictException _) = 409"
| "api_code (UpdateClusterBadRequestException _ _ _ _) = 400"
| "api_code (DryrunOperationException _ _) = 412"

text \<open>What a controller's body raises: an API exception or an error of an action.\<close>

datatype raised = Api api_exception | Action action_error

fun as_exn :: "action_error \<Rightarrow> py_exn" where
  "as_exn (ConfigValidationError message _) = Exc ''ConfigValidationError'' message"
| "as_exn (ClusterUpdateError message _) = Exc ''ClusterUpdateError'' message"
| "as_exn (Raised e) = e"

definition convert_exn :: "py_exn \<Rightarrow> api_exception" where
  "convert_exn e =
     (if is_instance e ''LimitExceeded'' \<or> is_instance e ''LimitExceededError''
        then LimitExceededException (exn_text e)
      else if is_instance e ''BadRequest'' \<or> is_instance e ''BadRequestError''
        then BadRequestException (''Bad Request: '' @ exn_text e)
      else if is_instance e ''Conflict'' then ConflictException (exn_text e)
      else if is_instance e ''NotFound'' then NotFoundException (exn_text e)
      else InternalServiceException (exn_text e))"

definition convert_errors :: "(raised + 'a) \<Rightarrow> api_exception + 'a" where
  "convert_errors r = (case r of
     Inr x \<Rightarrow> Inr x
   | Inl (Api a) \<Rightarrow> Inl a
   | Inl (Action err) \<Rightarrow> Inl (convert_exn (as_exn err)))"

definition bad_request :: "string \<Rightarrow> raised" where
  "bad_request content = Api (BadRequestException (''Bad Request: '' @ content))"

section \<open>Converters\<close>

definition mapping_get :: "(string \<times> string) list \<Rightarrow> string \<Rightarrow> string" where
  "mapping_get mapping st = (case map_of mapping st of None \<Rightarrow> st | Some v \<Rightarrow> v)"

definition cloud_formation_status_to_cluster_status :: "string \<Rightarrow> string" where
  "cloud_formation_status_to_cluster_status = mapping_get
     [(''ROLLBACK_IN_PROGRESS'', ''CREATE_FAILED''),
      (''ROLLBACK_FAILED'', ''CREATE_FAILED''),
      (''ROLLBACK_COMPLETE'', ''CREATE_FAILED''),
      (''UPDATE_COMPLETE_CLEANUP_IN_PROGRESS'', ''UPDATE_IN_PROGRESS''),
      (''UPDATE_ROLLBACK_IN_PROGRESS'', ''UPDATE_IN_PROGRESS''),
      (''UPDATE_ROLLBACK_FAILED'', ''UPDATE_FAILED''),
      (''UPDATE_ROLLBACK_COMPLETE_CLEANUP_IN_PROGRESS'', ''UPDATE_IN_PROGRESS''),
      (''UPDATE_ROLLBACK_COMPLETE'', ''UPDATE_FAILED'')]"

definition cloud_formation_status_to_image_status :: "string \<Rightarrow> string" where
  "cloud_formation_status_to_image_status = mapping_get
     [(''CREATE_IN_PROGRESS'', ''BUILD_IN_PROGRESS''),
      (''CREATE_FAILED'', ''BUILD_FAILED''),
      (''CREATE_COMPLETE'', ''BUILD_COMPLETE''),
      (''ROLLBACK_IN_PROGRESS'', ''BUILD_FAILED''),
      (''ROLLBACK_FAILED'', ''BUILD_FAILED''),
      (''ROLLBACK_COMPLETE'', ''BUILD_FAILED''),
      (''DELETE_IN_PROGRESS'', ''DELETE_IN_PROGRESS''),
      (''DELETE_FAILED'', ''DELETE_FAILED''),
      (''DELETE_COMPLETE'', ''DELETE_COMPLETE''),
      (''UPDATE_IN_PROGRESS'', ''BUILD_IN_PROGRESS''),
      (''UPDATE_COMPLETE_CLEANUP_IN_PROGRESS'', ''BUILD_IN_PROGRESS''),
      (''UPDATE_COMPLETE'', ''BUILD_COMPLETE''),
      (''UPDATE_ROLLBACK_IN_PROGRESS'', ''BUILD_IN_PROGRESS''),
      (''UPDATE_ROLLBACK_FAILED'', ''BUILD_FAILED''),
      (''UPDATE_ROLLBACK_COMPLETE_CLEANUP_IN_PROGRESS'', ''BUILD_IN_PROGRESS''),
      (''UPDATE_ROLLBACK_COMPLETE'', ''BUILD_FAILED'')]"

fun level_name :: "failure_level \<Rightarrow> string" where
  "level_name INFO = ''INFO''"
| "level_name WARNING = ''WARNING''"
| "level_name ERROR = ''ERROR''"

definition validation_results_to_config_validation_errors :: "validation_result list \<Rightarrow> validation_message list" where
  "validation_results_to_config_validation_errors fs =
     map (\<lambda>f. \<lparr>vm_level = level_name (vr_level f), vm_type = vr_type f, vm_message = vr_message f\<rparr>) fs"

section \<open>Suppressors of a request\<close>

text \<open>The set of suppressors as a list, \<open>AllValidatorsSuppressor\<close> at most once.\<close>

definition suppressed_types :: "string list \<Rightarrow> string set" where
  "suppressed_types exprs = set (map (drop 5) (filter (\<lambda>x. x \<noteq> ''ALL'' \<and> startswith x ''type:'') exprs))"

definition get_validator_suppressors :: "string list \<Rightarrow> suppressor list" where
  "get_validator_suppressors exprs =
     (if ''ALL'' \<in> set exprs then [AllValidatorsSuppressor] else []) @
     (if suppressed_types exprs \<noteq> {} then [TypeMatchValidatorsSuppressor (suppressed_types exprs)] else [])"

section \<open>Versions\<close>

record stack_info =
  st_version :: "string option"
  st_status :: string
  st_scheduler :: string

type_synonym packaging = "(string \<Rightarrow> string \<Rightarrow> int) \<times> (string \<Rightarrow> string)"
  \<comment> \<open>the sign of the comparison of two parsed versions, and the base version\<close>

definition check_cluster_version :: "packaging \<Rightarrow> string \<Rightarrow> stack_info \<Rightarrow> bool \<Rightarrow> bool" where
  "check_cluster_version pk installed stack exact_match = (case st_version stack of
     None \<Rightarrow> False
   | Some v \<Rightarrow> v \<noteq> [] \<and>
      (if exact_match then fst pk v installed = 0
       else 0 \<le> fst pk (snd pk installed) v \<and> 0 \<le> fst pk v ''3.0.0a0''))"

definition incompatible :: "string \<Rightarrow> string" where
  "incompatible name = ''Cluster '' @ quoted name @ '' belongs to an incompatible ParallelCluster major version.''"

definition no_such_cluster :: "string \<Rightarrow> string" where
  "no_such_cluster name = ''Cluster '' @ quoted name @
     '' does not exist or belongs to an incompatible ParallelCluster major version.''"

definition validate_cluster :: "packaging \<Rightarrow> string \<Rightarrow> string \<Rightarrow> stack_info result \<Rightarrow> raised + stack_info" where
  "validate_cluster pk installed name stack = (case stack of
     Inl e \<Rightarrow> Inl (if is_instance e ''StackNotFoundError'' then Api (NotFoundException (no_such_cluster name))
                else Action (Raised e))
   | Inr st \<Rightarrow> if \<not> check_cluster_version pk installed st False then Inl (bad_request (incompatible name)) else Inr st)"

section \<open>The compute fleet\<close>

definition raise_action :: "'a result \<Rightarrow> raised + 'a" where
  "raise_action r = (case r of Inl e \<Rightarrow> Inl (Action (Raised e)) | Inr x \<Rightarrow> Inr x)"

fun str_capitalize :: "string \<Rightarrow> string" where
  "str_capitalize [] = []"
| "str_capitalize (c # s) = to_upper c # map to_lower s"

definition hbind :: "(raised + 'a) \<Rightarrow> ('a \<Rightarrow> raised + 'b) \<Rightarrow> raised + 'b" where
  "hbind r f = (case r of Inl e \<Rightarrow> Inl e | Inr x \<Rightarrow> f x)"

text \<open>
  The request and the status read afterwards.  The manager depends on the version of the stack.
\<close>

definition update_compute_fleet ::
  "packaging \<Rightarrow> string \<Rightarrow> (string \<Rightarrow> 's manager) \<Rightarrow> string \<Rightarrow> stack_info result \<Rightarrow> string \<Rightarrow> 's
    \<Rightarrow> api_exception + (compute_fleet_status \<times> pyval) \<times> 's" where
  "update_compute_fleet pk installed mk_manager name stack status s = convert_errors
     (hbind (validate_cluster pk installed name stack) (\<lambda>st.
      let M = mk_manager (case st_version st of None \<Rightarrow> [] | Some v \<Rightarrow> v) in
      hbind (if status = ''START_REQUESTED'' then raise_action (start (Inr (st_status st)) M s)
             else if status = ''STOP_REQUESTED'' then raise_action (stop (Inr (st_status st)) M s)
             else Inl (bad_request (''the update compute fleet status can only be set to'' @
               '' `START_REQUESTED` or `STOP_REQUESTED` for '' @ str_capitalize (st_scheduler st) @
               '' scheduler clusters.''))) (\<lambda>s'.
      Inr (compute_fleet_status_with_last_updated_time (st_status st) M s', s'))))"

definition describe_compute_fleet ::
  "packaging \<Rightarrow> string \<Rightarrow> (string \<Rightarrow> 's manager) \<Rightarrow> string \<Rightarrow> stack_info result \<Rightarrow> 's
    \<Rightarrow> api_exception + compute_fleet_status \<times> pyval" where
  "describe_compute_fleet pk installed mk_manager name stack s = convert_errors
     (hbind (validate_cluster pk installed name stack) (\<lambda>st.
      let M = mk_manager (case st_version st of None \<Rightarrow> [] | Some v \<Rightarrow> v) in
      Inr (compute_fleet_status_with_last_updated_time (st_status st) M s)))"

section \<open>The update of a cluster\<close>

text \<open>The cells of a report row that the analysis reads, by the names of the header.\<close>

definition shown :: "cell \<Rightarrow> string" where
  "shown cl = (if as_value cl = VNone then ''-'' else py_str (as_value cl))"

fun as_text :: "pyval \<Rightarrow> string option" where
  "as_text (VStr s) = Some s"
| "as_text _ = None"

definition create_message :: "string option \<Rightarrow> string option \<Rightarrow> string" where
  "create_message failure_reason action_needed =
     (let message = (case failure_reason of Some r \<Rightarrow> r | None \<Rightarrow> []);
          act = (case action_needed of Some a \<Rightarrow> a | None \<Rightarrow> []);
          message = (if act \<noteq> [] then (if message \<noteq> [] then message @ ''. '' @ act else act) else message)
      in if message \<noteq> [] then message else ''Error during update'')"

definition analyze_row :: "(string \<times> nat) list \<Rightarrow> cell list \<Rightarrow> (api_change \<times> update_validation_error list) result" where
  "analyze_row key_indexes row =
     rbind (cell_of key_indexes row ''param_path'') (\<lambda>path. rbind (as_path path) (\<lambda>path.
     rbind (cell_of key_indexes row ''parameter'') (\<lambda>parameter. rbind (as_name parameter) (\<lambda>parameter.
     rbind (cell_of key_indexes row ''new value'') (\<lambda>new_value.
     rbind (cell_of key_indexes row ''old value'') (\<lambda>old_value.
     rbind (cell_of key_indexes row ''check'') (\<lambda>check_result.
     rbind (cell_of key_indexes row ''reason'') (\<lambda>reason.
     rbind (cell_of key_indexes row ''action_needed'') (\<lambda>action_needed.
       let parameter = build_config_param_path path parameter;
           message = create_message (as_text (as_value reason)) (as_text (as_value action_needed))
       in Inr (\<lparr>ac_parameter = parameter, ac_requested_value = shown new_value, ac_current_value = shown old_value\<rparr>,
          if as_value check_result \<noteq> VStr (check_result_value SUCCEEDED)
          then [\<lparr>ue_parameter = parameter, ue_requested_value = shown new_value, ue_message = message,
                 ue_current_value = shown old_value\<rparr>]
          else []))))))))))"

definition analyze_changes :: "cell list list \<Rightarrow> (api_change list \<times> update_validation_error list) result" where
  "analyze_changes rows = (case rows of
     [] \<Rightarrow> Inr ([], [])
   | header # rest \<Rightarrow> if rest = [] then Inr ([], [])
       else rmap (\<lambda>xs. (map fst xs, concat (map snd xs))) (rmap_list (analyze_row (change_attributes header 0)) rest))"

text \<open>The \<open>except\<close> clauses of the controller.\<close>

definition handle_update_error :: "string \<Rightarrow> raised \<Rightarrow> raised" where
  "handle_update_error name r = (case r of
     Action (ConfigValidationError message failures) \<Rightarrow>
       Api (UpdateClusterBadRequestException message (validation_results_to_config_validation_errors failures) [] [])
   | Action (ClusterUpdateError message update_changes) \<Rightarrow>
       (case analyze_changes update_changes of
          Inl e \<Rightarrow> Action (Raised e)
        | Inr (change_set, errors) \<Rightarrow> Api (UpdateClusterBadRequestException message [] change_set errors))
   | Action (Raised e) \<Rightarrow>
       if is_instance e ''NotFoundClusterActionError'' \<or> is_instance e ''StackNotFoundError''
       then Api (NotFoundException (no_such_cluster name)) else r
   | Api a \<Rightarrow> r)"

definition of_action :: "(action_error + 'a) \<Rightarrow> raised + 'a" where
  "of_action r = (case r of Inl e \<Rightarrow> Inl (Action e) | Inr x \<Rightarrow> Inr x)"

record update_response =
  ur_change_set :: "api_change list"
  ur_messages :: "validation_message list"

definition version_mismatch :: "string option \<Rightarrow> string" where
  "version_mismatch v = ''the update can be performed only with the same ParallelCluster version ('' @
     (case v of None \<Rightarrow> ''None'' | Some v \<Rightarrow> v) @ '') used to create the cluster.''"

text \<open>
  \<open>request\<close> is the call of \<open>validate_update_request\<close> with the suppressors, level and force of
  the API request, \<open>deploy\<close> the part of the update after it.
\<close>

definition update_cluster_body ::
  "packaging \<Rightarrow> string \<Rightarrow> stack_info result
    \<Rightarrow> (action_error + ('c \<times> cell list list \<times> validation_result list) \<times> cluster)
    \<Rightarrow> ('c \<Rightarrow> cell list list \<Rightarrow> unit result) \<Rightarrow> bool \<Rightarrow> raised + update_response" where
  "update_cluster_body pk installed stack request deploy dryrun =
     hbind (raise_action stack) (\<lambda>st.
     if \<not> check_cluster_version pk installed st True then Inl (bad_request (version_mismatch (st_version st)))
     else if dryrun then
       hbind (of_action request) (\<lambda>((target_config, changes, ignored), c).
       hbind (raise_action (analyze_changes changes)) (\<lambda>(change_set, _).
       Inl (Api (DryrunOperationException change_set (validation_results_to_config_validation_errors ignored)))))
     else
       hbind (of_action (update request deploy)) (\<lambda>((changes, ignored), c).
       hbind (raise_action (analyze_changes changes)) (\<lambda>(change_set, _).
       Inr \<lparr>ur_change_set = change_set, ur_messages = validation_results_to_config_validation_errors ignored\<rparr>)))"

definition update_cluster ::
  "packaging \<Rightarrow> string \<Rightarrow> string \<Rightarrow> string \<Rightarrow> stack_info result
    \<Rightarrow> (action_error + ('c \<times> cell list list \<times> validation_result list) \<times> cluster)
    \<Rightarrow> ('c \<Rightarrow> cell list list \<Rightarrow> unit result) \<Rightarrow> bool \<Rightarrow> api_exception + update_response" where
  "update_cluster pk installed name cluster_config stack request deploy dryrun = convert_errors
     (if cluster_config = [] then Inl (bad_request ''configuration is required and cannot be empty'')
      else case update_cluster_body pk installed stack request deploy dryrun of
        Inl r \<Rightarrow> Inl (handle_update_error name r)
      | Inr x \<Rightarrow> Inr x)"

section \<open>What the API answers\<close>

text \<open>C34: the suppressors of a request switch off exactly the validators that are named with \<open>type:\<close>, or all of
  them with \<open>ALL\<close>; any other expression has no effect.\<close>

theorem suppressors_of_request:
  "suppressed (get_validator_suppressors exprs) v \<longleftrightarrow>
     ''ALL'' \<in> set exprs \<or> ''type:'' @ val_type v \<in> set exprs"
proof -
  have "val_type v \<in> suppressed_types exprs \<longleftrightarrow> ''type:'' @ val_type v \<in> set exprs"
    by (force simp: suppressed_types_def startswith_iff image_iff)
  then show ?thesis by (auto simp: suppressed_def get_validator_suppressors_def)
qed

lemma bases_members:
  "x \<in> set (bases cls) \<Longrightarrow> x \<in> {''ClusterActionError'', ''BadRequest'', ''LimitExceeded'', ''Conflict'', ''NotFound'', ''AWSClientError''}"
  by (simp add: bases_def map_of_Cons_code split: if_splits) auto

lemma is_not_found_action_error:
  "is_instance e ''NotFoundClusterActionError'' \<longleftrightarrow> exn_class e = ''NotFoundClusterActionError''"
  by (auto simp: is_instance_def dest: bases_members)

lemma is_instance_Exc:
  "is_instance (Exc cls m) c \<longleftrightarrow> c = ''Exception'' \<or> c = cls \<or> c \<in> set (bases cls)"
  by (simp add: is_instance_def)

lemma convert_mapped [simp]:
  "api_code (convert_exn (Exc ''LimitExceededClusterActionError'' m)) = 429"
  "api_code (convert_exn (Exc ''NotFoundClusterActionError'' m)) = 404"
  "api_code (convert_exn (Exc ''BadRequestClusterActionError'' m)) = 400"
  "api_code (convert_exn (Exc ''ConflictClusterActionError'' m)) = 409"
  "api_code (convert_exn (Exc ''ClusterActionError'' m)) = 500"
  by (simp_all add: convert_exn_def is_instance_Exc)

lemma not_found_instance:
  assumes "is_instance e ''NotFoundClusterActionError''"
  shows "\<not> is_instance e ''LimitExceeded''" "\<not> is_instance e ''LimitExceededError''" "\<not> is_instance e ''BadRequest''"
    "\<not> is_instance e ''BadRequestError''" "\<not> is_instance e ''Conflict''" "is_instance e ''NotFound''"
  using assms by (simp_all add: is_not_found_action_error, simp_all add: is_instance_def)

lemma mapper_code: "api_code (convert_exn (cluster_error_mapper e m)) = api_code (convert_exn e)"
proof (cases "is_instance e ''NotFoundClusterActionError''")
  case True
  with not_found_instance[OF True] show ?thesis
    by (simp add: cluster_error_mapper_def Let_def convert_exn_def[of e])
next
  case False
  then show ?thesis
    by (simp add: cluster_error_mapper_def Let_def convert_exn_def[of e])
qed

definition answer :: "string \<Rightarrow> raised \<Rightarrow> api_exception" where
  "answer name r = (case handle_update_error name r of Api a \<Rightarrow> a | Action err \<Rightarrow> convert_exn (as_exn err))"

lemma answer_code:
  "\<not> is_instance e ''StackNotFoundError'' \<Longrightarrow> api_code (answer name (Action (Raised e))) = api_code (convert_exn e)"
  using not_found_instance[of e] by (auto simp: answer_def handle_update_error_def convert_exn_def[of e])

lemma mapper_not_stack_error: "\<not> is_instance (cluster_error_mapper e m) ''StackNotFoundError''"
  by (simp add: cluster_error_mapper_def Let_def is_instance_def)

lemma update_error_code:
  assumes "\<forall>e. err = Raised e \<longrightarrow> \<not> is_instance e ''StackNotFoundError''"
  shows "api_code (answer name (Action (update_error err))) = api_code (answer name (Action err))"
  using assms by (cases err) (simp_all add: update_error_def answer_code mapper_code mapper_not_stack_error)

lemma convert_handled: "convert_errors (Inl (handle_update_error name r)) = Inl (answer name r)"
  by (cases "handle_update_error name r") (simp_all add: convert_errors_def answer_def)

lemma convert_api: "convert_errors (Inl (Api a)) = Inl a"
  by (simp add: convert_errors_def)

lemma convert_ok: "convert_errors (Inr x) = Inr x"
  by (simp add: convert_errors_def)

lemma hbind_simps [simp]: "hbind (Inl e) f = Inl e" "hbind (Inr x) f = f x"
  by (simp_all add: hbind_def)

lemma raise_action_simps [simp]: "raise_action (Inl e) = Inl (Action (Raised e))" "raise_action (Inr x) = Inr x"
  by (simp_all add: raise_action_def)

lemma of_action_simps [simp]: "of_action (Inl e) = Inl (Action e)" "of_action (Inr x) = Inr x"
  by (simp_all add: of_action_def)

lemma update_refused: "update (Inl err) deploy = Inl (update_error err)"
  by (simp add: update_def)

lemma update_deployed: "deploy cfg chs = Inr () \<Longrightarrow> update (Inr ((cfg, chs, ignored), c)) deploy = Inr ((chs, ignored), c)"
  by (simp add: update_def)


definition example_packaging :: packaging where
  "example_packaging = ((\<lambda>a b. if a = b then 0 else 1), (\<lambda>v. v))"

definition example_stack :: stack_info where
  "example_stack = \<lparr>st_version = Some ''3.14.0'', st_status = ''CREATE_COMPLETE'', st_scheduler = ''slurm''\<rparr>"

definition example_request :: "action_error + (unit \<times> cell list list \<times> validation_result list) \<times> cluster" where
  "example_request = validate_update_request ''c1'' (Inr True) (Inr ''CREATE_COMPLETE'') (Inr ((), []))
     (\<lambda>_. Inr (scheduling_patch emptydict [(max_count_change 5 10)\<lparr>ch_update_policy := IGNORED\<rparr>])) False example_cluster"

lemma example_request_refused: "example_request =
    Inl (Raised (Exc ''BadRequestClusterActionError'' ''No changes found in your cluster configuration.''))"
proof -
  let ?p = "scheduling_patch emptydict [(max_count_change 5 10)\<lparr>ch_update_policy := IGNORED\<rparr>]"
  have pol: "\<forall>ch \<in> set (changes ?p). ch_update_policy ch = IGNORED" by (simp add: scheduling_patch_def)
  show ?thesis using refused_ignored_changes[OF pol, of example_cluster]
    by (simp add: example_request_def validate_update_request_def validate_cluster_exists_def
        validate_stack_status_not_in_progress_def startswith_def)
qed


section \<open>The changes of a refused update\<close>

definition change_parameter :: "change \<Rightarrow> string" where
  "change_parameter ch = build_config_param_path (ch_path ch) (ch_key ch)"

definition row_errors :: "change \<times> check_row \<Rightarrow> update_validation_error list" where
  "row_errors x = (case x of (ch, r) \<Rightarrow> if cr_result r = SUCCEEDED then []
     else [\<lparr>ue_parameter = change_parameter ch, ue_requested_value = shown (Val_cell (ch_new_value ch)),
            ue_message = create_message (cr_fail_reason r) (cr_action_needed r),
            ue_current_value = shown (Val_cell (ch_old_value ch))\<rparr>])"

definition row_change :: "change \<times> check_row \<Rightarrow> api_change" where
  "row_change x = (case x of (ch, r) \<Rightarrow> \<lparr>ac_parameter = change_parameter ch,
     ac_requested_value = shown (Val_cell (ch_new_value ch)), ac_current_value = shown (Val_cell (ch_old_value ch))\<rparr>)"

lemma as_text_opt_str [simp]: "as_text (opt_str x) = x"
  by (cases x) (simp_all add: opt_str_def)

lemma check_result_value_SUCCEEDED [simp]: "check_result_value r = ''SUCCEEDED'' \<longleftrightarrow> r = SUCCEEDED"
  by (cases r) simp_all

lemma analyze_report_row:
  "analyze_row (change_attributes header_row 0) (report_row ch r) = Inr (row_change (ch, r), row_errors (ch, r))"
  by (simp add: header_attributes analyze_row_def cell_of_def report_row_def row_change_def row_errors_def
      change_parameter_def Let_def)

lemma analyze_printed_rows:
  "rmap_list (analyze_row (change_attributes header_row 0)) (map (\<lambda>(ch, r). report_row ch r) xs)
     = Inr (map (\<lambda>x. (row_change x, row_errors x)) xs)"
  by (induction xs) (auto simp: analyze_report_row)

lemma analyze_report: "analyze_changes (header_row # printed_rows chs rs) =
    (let xs = filter (\<lambda>(ch, r). cr_print_change r) (zip chs rs) in Inr (map row_change xs, concat (map row_errors xs)))"
  by (auto simp: analyze_changes_def printed_rows_def analyze_printed_rows Let_def comp_def)

lemma failed_checks_printed: "checks p chs c = Inr (rs, c') \<Longrightarrow> r \<in> set rs \<Longrightarrow> cr_result r \<noteq> SUCCEEDED \<Longrightarrow> cr_print_change r"
proof (induction chs arbitrary: rs c)
  case (Cons ch chs)
  from Cons.prems(1) obtain row c1 rs' where row: "check (ch_update_policy ch) ch p c = Inr (row, c1)"
    "checks p chs c1 = Inr (rs', c')" "rs = row # rs'" by (auto simp: cbind_Inr_iff)
  show ?case
  proof (cases "r \<in> set rs'")
    case True
    with Cons.IH row Cons.prems(3) show ?thesis by blast
  next
    case False
    with row Cons.prems(2,3) check_outcome[OF row(1)] show ?thesis by (auto split: option.splits if_splits)
  qed
qed simp

lemma row_errors_parameters: "map ue_parameter (concat (map row_errors xs)) =
    map (change_parameter \<circ> fst) (filter (\<lambda>x. cr_result (snd x) \<noteq> SUCCEEDED) xs)"
  by (induction xs) (auto simp: row_errors_def)

text \<open>C9: an update that is refused because some changes did not pass is answered with the code 400 and one error
  for each of these changes, in order: every failed change is among the printed ones, so none is left out.\<close>

theorem refused_update_reports_failed_changes:
  assumes "checks p (changes p) c = Inr (rs, c')" and "\<exists>r \<in> set rs. cr_result r \<noteq> SUCCEEDED"
  shows "\<exists>rows chs errs. validate_patch False (Inr p) c = Inl (ClusterUpdateError ''Update failure'' rows) \<and>
    answer name (Action (ClusterUpdateError ''Update failure'' rows)) =
      UpdateClusterBadRequestException ''Update failure'' [] chs errs \<and>
    map ue_parameter errs = map (change_parameter \<circ> fst)
      (filter (\<lambda>x. cr_result (snd x) \<noteq> SUCCEEDED) (zip (changes p) rs)) \<and> errs \<noteq> []"
proof -
  let ?xs = "filter (\<lambda>(ch, r). cr_print_change r) (zip (changes p) rs)"
  have "filter (\<lambda>x. cr_result (snd x) \<noteq> SUCCEEDED) ?xs = filter (\<lambda>x. cr_result (snd x) \<noteq> SUCCEEDED) (zip (changes p) rs)"
    using failed_checks_printed[OF assms(1)] by (auto simp: filter_filter intro!: filter_cong dest: set_zip_rightD)
  with row_errors_parameters[of ?xs] have par: "map ue_parameter (concat (map row_errors ?xs)) = map (change_parameter \<circ> fst)
      (filter (\<lambda>x. cr_result (snd x) \<noteq> SUCCEEDED) (zip (changes p) rs))" by simp
  obtain i where i: "i < length rs" "cr_result (rs ! i) \<noteq> SUCCEEDED" using assms(2) by (auto simp: in_set_conv_nth)
  then have "(changes p ! i, rs ! i) \<in> set (zip (changes p) rs)"
    using checks_length[OF assms(1)] by (auto simp: in_set_zip)
  with i have "filter (\<lambda>x. cr_result (snd x) \<noteq> SUCCEEDED) (zip (changes p) rs) \<noteq> []"
    by (force simp: filter_empty_conv)
  with par have "concat (map row_errors ?xs) \<noteq> []" by (metis Nil_is_map_conv)
  moreover have "answer name (Action (ClusterUpdateError ''Update failure'' (header_row # printed_rows (changes p) rs))) =
      UpdateClusterBadRequestException ''Update failure'' [] (map row_change ?xs) (concat (map row_errors ?xs))"
    by (simp add: answer_def handle_update_error_def analyze_report Let_def)
  moreover have "validate_patch False (Inr p) c =
      Inl (ClusterUpdateError ''Update failure'' (header_row # printed_rows (changes p) rs))"
    using assms by (auto simp: validate_patch_def check_patch_def check_changes_checks)
  ultimately show ?thesis using par by blast
qed

definition refused_change :: change where
  "refused_change = (max_count_change 5 10)\<lparr>ch_update_policy := UNKNOWN_POLICY\<rparr>"

definition refused_row :: check_row where
  "refused_row = \<lparr>cr_result = FAILED, cr_fail_reason = Some ''Update currently not supported'',
     cr_action_needed = Some ''Restore the previous parameter value for the unsupported changes.'', cr_print_change = True\<rparr>"

lemma example_refused_checks:
  "checks (scheduling_patch emptydict [refused_change]) [refused_change] example_cluster = Inr ([refused_row], example_cluster)"
proof -
  have "check UNKNOWN_POLICY refused_change p example_cluster = Inr (refused_row, example_cluster)" for p
    by (simp add: check_def check_apply opt_check_def UNKNOWN_POLICY_def init_update_policy_def truthy_text_def refused_row_def)
  then show ?thesis by (simp add: cbind_apply refused_change_def)
qed

theorem refused_update_reports_failed_changes_witness:
  "\<exists>rows chs errs. validate_patch False (Inr (scheduling_patch emptydict [refused_change])) example_cluster =
      Inl (ClusterUpdateError ''Update failure'' rows) \<and>
    answer ''c1'' (Action (ClusterUpdateError ''Update failure'' rows)) =
      UpdateClusterBadRequestException ''Update failure'' [] chs errs \<and>
    map ue_parameter errs = [change_parameter refused_change]"
proof -
  let ?p = "scheduling_patch emptydict [refused_change]"
  have ch: "changes ?p = [refused_change]" by (simp add: scheduling_patch_def)
  with example_refused_checks have run: "checks ?p (changes ?p) example_cluster = Inr ([refused_row], example_cluster)" by simp
  have "\<exists>r \<in> set [refused_row]. cr_result r \<noteq> SUCCEEDED" by (simp add: refused_row_def)
  from refused_update_reports_failed_changes[OF run this, of "''c1''"] ch show ?thesis
    by (auto simp: refused_row_def)
qed

section \<open>Fleet requests\<close>

lemma api_request:
  assumes "check_cluster_version pk installed st False" and "st_version st = Some v"
    and "\<not> version_lt v ''3.2.0a0''" and "is_working_status (st_status st)"
  shows "update_compute_fleet pk installed (get_manager version_lt D now) name (Inr st) status s = convert_errors
    (let M = json_manager D now in
     hbind (if status = ''START_REQUESTED'' then raise_action (start (Inr (st_status st)) M s)
            else if status = ''STOP_REQUESTED'' then raise_action (stop (Inr (st_status st)) M s)
            else Inl (bad_request (''the update compute fleet status can only be set to'' @
              '' `START_REQUESTED` or `STOP_REQUESTED` for '' @ str_capitalize (st_scheduler st) @
              '' scheduler clusters.''))) (\<lambda>s'. Inr (get_status_with_last_updated_time M s' UNKNOWN VNone, s')))"
  using assms
  by (simp add: update_compute_fleet_def validate_cluster_def get_manager_def
      compute_fleet_status_with_last_updated_time_def Let_def)

text \<open>On a compatible cluster whose stack is in a working status and whose fleet status is readable, a start
  request is answered with a start status and a stop request with a stop status, which is the status stored when the
  request returns; any other requested status is a bad request.\<close>

lemma fleet_request_answer:
  assumes "dynamodb D item_of" and "json_stored item_of s = Some x" and "x \<noteq> UNKNOWN"
    and "check_cluster_version pk installed st False" and "st_version st = Some v"
    and "\<not> version_lt v ''3.2.0a0''" and "is_working_status (st_status st)"
  shows "case update_compute_fleet pk installed (get_manager version_lt D now) name (Inr st) status s of
      Inr ((fleet, _), s') \<Rightarrow> json_stored item_of s' = Some fleet \<and>
        (if status = ''START_REQUESTED'' then is_start_status fleet
         else status = ''STOP_REQUESTED'' \<and> is_stop_status fleet)
    | Inl e \<Rightarrow> status \<notin> {''START_REQUESTED'', ''STOP_REQUESTED''} \<and> api_code e = 400"
  using start_json_stored[OF assms(1-3), of now] stop_json_stored[OF assms(1-3), of now] assms(7)
  by (auto simp: api_request[where version_lt = version_lt, OF assms(4-7)] start_def stop_def convert_ok convert_api bad_request_def Let_def)

end
