(* ===== verification/Ipv4.thy ===== *)
theory Ipv4
  imports Prelude "HOL-Library.Product_Lexorder"
begin

text \<open>
  What the sources use of Python's \<open>ipaddress\<close> module for IPv4: networks in prefix notation, their
  text, \<open>supernet\<close>, \<open>summarize_address_range\<close>, \<open>collapse_addresses\<close> and \<open>supernet_of\<close>.  An address
  is its integer, as \<open>int(ip_address(...))\<close> gives it.  Networks written with a netmask and IPv6
  networks, which the callers never see from EC2, raise \<open>ValueError\<close> here.
\<close>

section \<open>Networks\<close>

record network =
  net_addr :: int
  net_prefix :: nat

definition block_size :: "nat \<Rightarrow> int" where
  "block_size p = 2 ^ (32 - p)"

definition valid_net :: "network \<Rightarrow> bool" where
  "valid_net n \<longleftrightarrow> net_prefix n \<le> 32 \<and> 0 \<le> net_addr n \<and> net_addr n < 2 ^ 32
     \<and> net_addr n mod block_size (net_prefix n) = 0"

definition net_last :: "network \<Rightarrow> int" where
  "net_last n = net_addr n + block_size (net_prefix n) - 1"

definition addresses :: "network \<Rightarrow> int set" where
  "addresses n = {net_addr n .. net_last n}"

lemma block_size_pos [simp]: "0 < block_size p"
  by (simp add: block_size_def)

lemma block_size_nonzero [simp]: "block_size p \<noteq> 0"
  by (simp add: block_size_def)

lemma addr_in_own [simp]: "net_addr n \<in> addresses n"
  using block_size_pos[of "net_prefix n"] by (simp add: addresses_def net_last_def)

lemma net_last_ge [simp]: "net_addr n \<le> net_last n"
  using block_size_pos[of "net_prefix n"] by (simp add: net_last_def)

lemma block_size_dvd: "p \<le> q \<Longrightarrow> block_size q dvd block_size p"
  by (simp add: block_size_def le_imp_power_dvd)

lemma block_size_mono: "p \<le> q \<Longrightarrow> block_size q \<le> block_size p"
  by (simp add: zdvd_imp_le block_size_dvd)

lemma valid_net_dvd: "valid_net n \<Longrightarrow> block_size (net_prefix n) dvd net_addr n"
  by (auto simp: valid_net_def)

text \<open>An aligned block either contains another one of at most its size, or has no address of it.\<close>

lemma aligned_quotient:
  fixes d :: int
  assumes "0 < d" and "d dvd a"
  shows "x \<in> {a .. a + d - 1} \<longleftrightarrow> x div d = a div d"
proof -
  from assms(2) obtain k where k: "a = d * k" by blast
  have "x div d = k" if "d * k \<le> x" "x \<le> d * k + d - 1"
    by (rule int_div_pos_eq[where r = "x - d * k"]) (use that in simp_all)
  moreover have "d * k \<le> x \<and> x \<le> d * k + d - 1" if "x div d = k"
  proof -
    have "x = d * k + x mod d" using that by auto
    moreover have "0 \<le> x mod d" "x mod d < d" using assms(1) by simp_all
    ultimately show ?thesis by linarith
  qed
  ultimately have "d * k \<le> x \<and> x \<le> d * k + d - 1 \<longleftrightarrow> x div d = k" by blast
  then show ?thesis using k assms(1) by simp
qed

lemma addresses_quotient:
  assumes "valid_net n"
  shows "x \<in> addresses n \<longleftrightarrow> x div block_size (net_prefix n) = net_addr n div block_size (net_prefix n)"
  using aligned_quotient[OF block_size_pos valid_net_dvd[OF assms]]
  by (simp add: addresses_def net_last_def)

lemma net_nested:
  assumes "valid_net a" and "valid_net b" and "net_prefix a \<le> net_prefix b"
    and "x \<in> addresses a" and "x \<in> addresses b"
  shows "addresses b \<subseteq> addresses a"
proof
  fix y assume y: "y \<in> addresses b"
  obtain e where e: "block_size (net_prefix a) = block_size (net_prefix b) * e"
    using block_size_dvd[OF assms(3)] by blast
  have "0 \<le> e"
    using e block_size_pos[of "net_prefix a"] block_size_pos[of "net_prefix b"]
    by (metis order_less_imp_le zero_less_mult_pos)
  then have "z div block_size (net_prefix a) = z div block_size (net_prefix b) div e" for z
    by (simp add: e zdiv_zmult2_eq)
  then show "y \<in> addresses a" using assms y by (simp add: addresses_quotient)
qed

lemma net_disjoint_or_nested:
  assumes "valid_net a" and "valid_net b" and "net_prefix a \<le> net_prefix b"
  shows "addresses b \<subseteq> addresses a \<or> addresses a \<inter> addresses b = {}"
  using net_nested[OF assms] by blast

lemma net_eqI:
  assumes "valid_net a" and "valid_net b" and "net_prefix a = net_prefix b"
    and "x \<in> addresses a" and "x \<in> addresses b"
  shows "a = b"
proof -
  have "addresses a = addresses b"
    using net_nested[of a b x] net_nested[of b a x] assms by auto
  then have "net_addr a \<in> addresses b" "net_addr b \<in> addresses a" by (metis addr_in_own)+
  then have "net_addr a = net_addr b" by (simp add: addresses_def)
  with assms(3) show ?thesis by simp
qed

lemma net_last_bound:
  assumes "valid_net n"
  shows "net_last n < 2 ^ 32"
proof -
  define d where "d = block_size (net_prefix n)"
  have "d dvd 2 ^ 32" 
    unfolding d_def block_size_def by (rule le_imp_power_dvd) simp
  then obtain m where m: "(2::int) ^ 32 = d * m" by blast
  obtain k where k: "net_addr n = d * k" using valid_net_dvd[OF assms] by (auto simp: d_def)
  have "0 < d" by (simp add: d_def)
  have "d * k < d * m" using assms m k by (simp add: valid_net_def)
  then have "k + 1 \<le> m" using \<open>0 < d\<close> by simp
  then have "d * (k + 1) \<le> d * m" using \<open>0 < d\<close> by simp
  then show ?thesis unfolding net_last_def m k d_def[symmetric] by (simp add: algebra_simps)
qed

section \<open>Text\<close>

definition str_ip :: "int \<Rightarrow> string" where \<comment> \<open>\<open>str(IPv4Address(i))\<close>\<close>
  "str_ip i = join ''.'' (map (\<lambda>k. str_nat (nat (i div 256 ^ k mod 256))) [3, 2, 1, 0])"

definition str_network :: "network \<Rightarrow> string" where
  "str_network n = str_ip (net_addr n) @ ''/'' @ str_nat (net_prefix n)"

definition all_digits :: "string \<Rightarrow> bool" where \<comment> \<open>\<open>s.isascii() and s.isdigit()\<close>\<close>
  "all_digits s \<longleftrightarrow> s \<noteq> [] \<and> list_all is_digit s"

definition digits_value :: "string \<Rightarrow> nat" where
  "digits_value s = foldl (\<lambda>v c. 10 * v + (of_char c - 48)) 0 s"

definition parse_octet :: "string \<Rightarrow> nat result" where
  "parse_octet s =
     (if \<not> all_digits s \<or> 3 < length s \<or> (s \<noteq> ''0'' \<and> take 1 s = ''0'') \<or> 255 < digits_value s
      then Inl ValueError else Inr (digits_value s))"

definition parse_ip :: "string \<Rightarrow> int result" where \<comment> \<open>\<open>int(ip_address(s))\<close>\<close>
  "parse_ip s =
     (case split_on CHR ''.'' s of
        [a, b, c, d] \<Rightarrow>
          rmap (foldl (\<lambda>v k. 256 * v + int k) 0) (rmap_list parse_octet [a, b, c, d])
      | _ \<Rightarrow> Inl ValueError)"

definition parse_prefix :: "string \<Rightarrow> nat result" where
  "parse_prefix s =
     (if \<not> all_digits s \<or> 32 < digits_value s then Inl ValueError else Inr (digits_value s))"

text \<open>\<open>IPv4Network\<close> is strict: an address with host bits set is refused.\<close>

definition make_network :: "int \<Rightarrow> nat \<Rightarrow> network result" where
  "make_network a p =
     (if a mod block_size p \<noteq> 0 then Inl ValueError else Inr \<lparr>net_addr = a, net_prefix = p\<rparr>)"

definition ip_network :: "string \<Rightarrow> network result" where
  "ip_network s =
     (case split_on CHR ''/'' s of
        [a] \<Rightarrow> rbind (parse_ip a) (\<lambda>i. make_network i 32)
      | [a, p] \<Rightarrow> rbind (parse_ip a) (\<lambda>i. rbind (parse_prefix p) (make_network i))
      | _ \<Rightarrow> Inl ValueError)"

text \<open>Printing then parsing gives the same network.\<close>

lemma of_digit: "d < 10 \<Longrightarrow> (of_char (digit_of d) :: nat) = 48 + d"
  by simp

lemma is_digit_of: "d < 10 \<Longrightarrow> is_digit (digit_of d)"
  by (simp add: is_digit_def)

lemma all_digits_str: "all_digits (str_nat n)"
proof (induction n rule: str_nat.induct)
  case (1 n)
  then show ?case
    by (subst str_nat.simps) (auto simp: all_digits_def is_digit_of simp del: digit_of.simps)
qed

lemma digits_value_str: "digits_value (str_nat n) = n"
proof (induction n rule: str_nat.induct)
  case (1 n)
  then show ?case
    by (subst str_nat.simps) (auto simp: digits_value_def of_digit simp del: digit_of.simps)
qed

lemma digit_zero: "d < 10 \<Longrightarrow> digit_of d = CHR ''0'' \<Longrightarrow> d = 0"
  using of_digit[of d] by (simp del: digit_of.simps)

lemma str_nat_nonempty: "str_nat n \<noteq> []"
  using all_digits_str[of n] by (simp add: all_digits_def)

lemma str_nat_leading: "take 1 (str_nat n) = ''0'' \<Longrightarrow> n = 0"
proof (induction n rule: str_nat.induct)
  case (1 n)
  show ?case
  proof (cases "n < 10")
    case True
    with 1(2) show ?thesis by (subst (asm) str_nat.simps) (auto dest: digit_zero simp del: digit_of.simps)
  next
    case False
    with 1(2) have "take 1 (str_nat (n div 10)) = ''0''"
      using str_nat_nonempty[of "n div 10"]
      by (subst (asm) str_nat.simps) (cases "str_nat (n div 10)", auto simp del: digit_of.simps)
    with 1(1)[OF False] False show ?thesis by simp
  qed
qed

lemma str_nat_length: "n < 1000 \<Longrightarrow> length (str_nat n) \<le> 3"
proof -
  assume n: "n < 1000"
  have one: "length (str_nat m) = 1" if "m < 10" for m
    using that by (subst str_nat.simps) simp
  have two: "length (str_nat m) \<le> 2" if "m < 100" for m
    using that one[of "m div 10"] by (subst str_nat.simps) simp
  show ?thesis using n two[of "n div 10"] by (subst str_nat.simps) simp
qed

lemma str_nat_zero: "str_nat 0 = ''0''"
  by code_simp

lemma parse_octet_str: "n < 256 \<Longrightarrow> parse_octet (str_nat n) = Inr n"
  using str_nat_leading[of n] str_nat_length[of n]
  by (auto simp: parse_octet_def all_digits_str digits_value_str str_nat_zero)

lemma parse_prefix_str: "n \<le> 32 \<Longrightarrow> parse_prefix (str_nat n) = Inr n"
  by (simp add: parse_prefix_def all_digits_str digits_value_str)

lemma digit_of_not: "d < 10 \<Longrightarrow> digit_of d \<noteq> CHR ''.'' \<and> digit_of d \<noteq> CHR ''/''"
proof -
  have "list_all (\<lambda>d. digit_of d \<noteq> CHR ''.'' \<and> digit_of d \<noteq> CHR ''/'') [0..<10]" by code_simp
  then show "d < 10 \<Longrightarrow> digit_of d \<noteq> CHR ''.'' \<and> digit_of d \<noteq> CHR ''/''"
    by (simp add: list_all_iff del: digit_of.simps)
qed

lemma str_nat_no_sep: "CHR ''.'' \<notin> set (str_nat n) \<and> CHR ''/'' \<notin> set (str_nat n)"
proof (induction n rule: str_nat.induct)
  case (1 n)
  then show ?case
    using digit_of_not[of n] digit_of_not[of "n mod 10"]
    by (subst (1 2) str_nat.simps) (auto simp del: digit_of.simps)
qed

lemma octets_sum:
  assumes "0 \<le> i" and "i < 2 ^ 32"
  shows "256 * (256 * (256 * (i div 256 ^ 3 mod 256) + i div 256 ^ 2 mod 256) + i div 256 mod 256) + i mod 256
    = (i::int)"
proof -
  have "i div 256 ^ 2 = i div 256 div 256" "i div 256 ^ 3 = i div 256 div 256 div 256"
    using zdiv_zmult2_eq[of 256 i 256] zdiv_zmult2_eq[of "256" i "256 * 256"]
      zdiv_zmult2_eq[of 256 "i div 256" 256] by (simp_all add: power2_eq_square power3_eq_cube)
  moreover have "i div 256 div 256 div 256 mod 256 = i div 256 div 256 div 256"
    using assms by (intro mod_pos_pos_trivial) simp_all
  ultimately show ?thesis by (metis mult_div_mod_eq)
qed

lemma parse_ip_str:
  assumes "0 \<le> i" and "i < 2 ^ 32"
  shows "parse_ip (str_ip i) = Inr i"
proof -
  have "parse_octet (str_nat (nat (j mod 256))) = Inr (nat (j mod 256))" for j :: int
    by (rule parse_octet_str) (simp add: nat_less_iff)
  then have "parse_ip (str_ip i) = Inr (256 * (256 * (256 * (i div 256 ^ 3 mod 256) + i div 256 ^ 2 mod 256)
      + i div 256 mod 256) + i mod 256)"
    by (simp only: parse_ip_def str_ip_def list.map join.simps append_Cons append_Nil append_assoc split_on_sep
        split_on_plain str_nat_no_sep not_False_eq_True list.case rmap_list.simps rbind_simps rmap_simps foldl_Nil foldl_Cons)
      simp
  then show ?thesis unfolding octets_sum[OF assms] .
qed

lemma str_ip_no_slash: "CHR ''/'' \<notin> set (str_ip i)"
  by (simp add: str_ip_def str_nat_no_sep)

lemma ip_network_str: "valid_net n \<Longrightarrow> ip_network (str_network n) = Inr n"
  by (simp add: ip_network_def str_network_def split_on_sep split_on_plain str_nat_no_sep str_ip_no_slash
      parse_ip_str parse_prefix_str make_network_def valid_net_def)

text \<open>What is parsed is a network.\<close>

lemma parse_octet_bound: "parse_octet s = Inr n \<Longrightarrow> n \<le> 255"
  by (auto simp: parse_octet_def split: if_splits)

lemma parse_ip_bounds:
  assumes "parse_ip s = Inr i"
  shows "0 \<le> i" "i < 2 ^ 32"
proof -
  obtain p q r t where pq: "p \<le> 255" "q \<le> 255" "r \<le> 255" "t \<le> 255"
    and i: "i = 256 * (256 * (256 * int p + int q) + int r) + int t"
    using assms by (auto simp: parse_ip_def rmap_Inr_iff rbind_Inr_iff dest!: parse_octet_bound split: list.splits)
  have "int p \<le> 255" "int q \<le> 255" "int r \<le> 255" "int t \<le> 255" using pq by simp_all
  then show "0 \<le> i" "i < 2 ^ 32" unfolding i by simp_all
qed

lemma make_network_valid:
  "make_network i p = Inr n \<Longrightarrow> 0 \<le> i \<Longrightarrow> i < 2 ^ 32 \<Longrightarrow> p \<le> 32 \<Longrightarrow> valid_net n"
  by (auto simp: make_network_def valid_net_def split: if_splits)

lemma ip_network_valid: "ip_network s = Inr n \<Longrightarrow> valid_net n"
  by (auto simp: ip_network_def rbind_Inr_iff parse_prefix_def
      intro: make_network_valid dest: parse_ip_bounds split: list.splits if_splits)

text \<open>For evaluation.\<close>

lemma digit_chars:
  "char_of (48 :: nat) = CHR ''0''" "char_of (49 :: nat) = CHR ''1''" "char_of (50 :: nat) = CHR ''2''"
  "char_of (51 :: nat) = CHR ''3''" "char_of (52 :: nat) = CHR ''4''" "char_of (53 :: nat) = CHR ''5''"
  "char_of (54 :: nat) = CHR ''6''" "char_of (55 :: nat) = CHR ''7''" "char_of (56 :: nat) = CHR ''8''"
  "char_of (57 :: nat) = CHR ''9''"
  by code_simp+

section \<open>Supernets and containment\<close>

text \<open>\<open>supernet(new_prefix=p)\<close>; the network of all addresses is its own supernet.\<close>

definition supernet_to :: "network \<Rightarrow> int \<Rightarrow> network result" where
  "supernet_to n p =
     (if net_prefix n = 0 then Inr n
      else if int (net_prefix n) < p \<or> p < 0 then Inl ValueError
      else Inr \<lparr>net_addr = net_addr n div block_size (nat p) * block_size (nat p), net_prefix = nat p\<rparr>)"

definition supernet :: "network \<Rightarrow> network" where \<comment> \<open>\<open>supernet()\<close>: one bit less\<close>
  "supernet n =
     (if net_prefix n = 0 then n
      else (let p = net_prefix n - 1 in
        \<lparr>net_addr = net_addr n div block_size p * block_size p, net_prefix = p\<rparr>))"

definition supernet_of :: "network \<Rightarrow> network \<Rightarrow> bool" where
  "supernet_of a b \<longleftrightarrow> net_addr a \<le> net_addr b \<and> net_last b \<le> net_last a"

lemma supernet_of_iff: "supernet_of a b \<longleftrightarrow> addresses b \<subseteq> addresses a"
  by (simp add: supernet_of_def addresses_def)

lemma round_down:
  fixes a d :: int
  assumes "0 < d" and "0 \<le> a" and "a < 2 ^ 32"
  shows "0 \<le> a div d * d" "a div d * d \<le> a" "a div d * d < 2 ^ 32" "a < a div d * d + d"
proof -
  have "a = a div d * d + a mod d" by simp
  moreover have "0 \<le> a mod d" "a mod d < d" using assms(1) by simp_all
  ultimately show le: "a div d * d \<le> a" and "a < a div d * d + d" by linarith+
  show "0 \<le> a div d * d" using assms by (simp add: pos_imp_zdiv_nonneg_iff)
  show "a div d * d < 2 ^ 32" using le assms(3) by simp
qed

lemma supernet_to_valid:
  assumes "valid_net n" and "supernet_to n p = Inr m"
  shows "valid_net m" "addresses n \<subseteq> addresses m"
proof -
  have *: "0 \<le> net_addr n" "net_addr n < 2 ^ 32" "net_prefix n \<le> 32" using assms(1) by (auto simp: valid_net_def)
  show v: "valid_net m"
    using assms round_down[OF block_size_pos *(1,2), of "nat p"] *(3)
    by (auto simp: supernet_to_def valid_net_def split: if_splits)
  have "net_addr n \<in> addresses m" "net_prefix m \<le> net_prefix n"
    using assms(2) round_down[OF block_size_pos *(1,2), of "nat p"]
    by (auto simp: supernet_to_def addresses_def net_last_def nat_le_iff split: if_splits)
  with net_nested[OF v assms(1)] show "addresses n \<subseteq> addresses m" by auto
qed

lemma supernet_supernet_to: "net_prefix n = Suc p \<Longrightarrow> supernet_to n (int p) = Inr (supernet n)"
  by (simp add: supernet_to_def supernet_def Let_def)

lemma supernet_valid:
  assumes "valid_net n"
  shows "valid_net (supernet n)" "addresses n \<subseteq> addresses (supernet n)"
proof -
  show "valid_net (supernet n)"
    using assms supernet_to_valid(1)[OF assms supernet_supernet_to] by (cases "net_prefix n") (auto simp: supernet_def)
  show "addresses n \<subseteq> addresses (supernet n)"
    using supernet_to_valid(2)[OF assms supernet_supernet_to] by (cases "net_prefix n") (auto simp: supernet_def)
qed

text \<open>The two halves of a network.\<close>

definition lower_half :: "network \<Rightarrow> network" where
  "lower_half n = \<lparr>net_addr = net_addr n, net_prefix = Suc (net_prefix n)\<rparr>"

definition upper_half :: "network \<Rightarrow> network" where
  "upper_half n = \<lparr>net_addr = net_addr n + block_size (Suc (net_prefix n)), net_prefix = Suc (net_prefix n)\<rparr>"

lemma block_size_half: "p < 32 \<Longrightarrow> block_size p = 2 * block_size (Suc p)"
  by (simp add: block_size_def Suc_diff_Suc flip: power_Suc)

lemma halves_addresses: "net_prefix n < 32 \<Longrightarrow> addresses (lower_half n) \<union> addresses (upper_half n) = addresses n"
  using block_size_half[of "net_prefix n"] block_size_pos[of "Suc (net_prefix n)"]
  by (auto simp: addresses_def net_last_def lower_half_def upper_half_def)

lemma halves_valid:
  assumes "valid_net n" and "net_prefix n < 32"
  shows "valid_net (lower_half n)" "valid_net (upper_half n)"
proof -
  define d where "d = block_size (Suc (net_prefix n))"
  have d: "block_size (net_prefix n) = 2 * d" "0 < d" using block_size_half[OF assms(2)] by (simp_all add: d_def)
  have "d dvd net_addr n" using valid_net_dvd[OF assms(1)] unfolding d by (rule dvd_mult_right)
  then show "valid_net (lower_half n)" "valid_net (upper_half n)"
    using assms net_last_bound[OF assms(1)] d
    by (simp_all add: valid_net_def lower_half_def upper_half_def net_last_def mod_eq_0_iff_dvd flip: d_def)
qed

lemma halves_supernet: 
  assumes "valid_net n" and "net_prefix n < 32"
  shows "supernet (lower_half n) = n" "supernet (upper_half n) = n"
proof -
  define d where "d = block_size (Suc (net_prefix n))"
  have d: "block_size (net_prefix n) = 2 * d" "0 < d" using block_size_half[OF assms(2)] by (simp_all add: d_def)
  obtain k where k: "net_addr n = 2 * d * k" using valid_net_dvd[OF assms(1)] unfolding d by blast
  have "2 * d * k div (2 * d) = k" "(2 * d * k + d) div (2 * d) = k" using d(2) by simp_all
  then show "supernet (lower_half n) = n" "supernet (upper_half n) = n"
    using k d by (simp_all add: supernet_def lower_half_def upper_half_def Let_def flip: d_def)
qed

lemma halves_cases:
  assumes "valid_net n" and "net_prefix n = Suc p"
  shows "n = lower_half (supernet n) \<or> n = upper_half (supernet n)"
proof -
  have pre: "net_prefix (supernet n) = p" using assms(2) by (simp add: supernet_def Let_def)
  have lt: "net_prefix (supernet n) < 32" using assms pre by (auto simp: valid_net_def)
  have "net_addr n \<in> addresses (supernet n)" using supernet_valid(2)[OF assms(1)] addr_in_own by blast
  then have "net_addr n \<in> addresses (lower_half (supernet n)) \<or> net_addr n \<in> addresses (upper_half (supernet n))"
    using halves_addresses[OF lt] by blast
  moreover have "net_prefix (lower_half (supernet n)) = net_prefix n" "net_prefix (upper_half (supernet n)) = net_prefix n"
    using assms(2) pre by (simp_all add: lower_half_def upper_half_def)
  ultimately show ?thesis
    using net_eqI[OF assms(1)] halves_valid[OF supernet_valid(1)[OF assms(1)] lt] addr_in_own by metis
qed

lemma whole_net: "valid_net n \<Longrightarrow> net_prefix n = 0 \<Longrightarrow> addresses n = {0 .. 2 ^ 32 - 1}"
  by (auto simp: valid_net_def addresses_def net_last_def block_size_def)

lemma valid_net_range: "valid_net n \<Longrightarrow> addresses n \<subseteq> {0 .. 2 ^ 32 - 1}"
  using net_last_bound[of n] by (auto simp: addresses_def valid_net_def)

lemma siblings_addresses:
  assumes "valid_net a" and "valid_net b" and "supernet a = supernet b" and "a \<noteq> b"
  shows "addresses a \<union> addresses b = addresses (supernet a)"
proof (cases "net_prefix a = 0 \<or> net_prefix b = 0")
  case True
  have "addresses a \<union> addresses b = {0 .. 2 ^ 32 - 1}"
    using True whole_net valid_net_range assms(1,2) by blast
  moreover have "addresses (supernet a) = {0 .. 2 ^ 32 - 1}"
    using True whole_net assms by (metis supernet_def)
  ultimately show ?thesis by simp
next
  case False
  then obtain p q where p: "net_prefix a = Suc p" "net_prefix b = Suc q" by (meson not0_implies_Suc)
  have "net_prefix (supernet a) = p" using p by (simp add: supernet_def Let_def)
  then have lt: "net_prefix (supernet a) < 32" using assms(1) p by (auto simp: valid_net_def)
  show ?thesis
    using halves_cases[OF assms(1) p(1)] halves_cases[OF assms(2) p(2)] assms(3,4) halves_addresses[OF lt]
    by (metis Un_commute)
qed

section \<open>Collapsing a list of networks\<close>

text \<open>
  \<open>collapse_addresses\<close>: a stack of networks is merged into a dictionary that maps a supernet to the
  one half seen so far; when the other half comes, the supernet goes back on the stack.  The
  dictionary's values are then sorted and those inside the one before are dropped.
\<close>

lemma filter_shorter: "map_of d k = Some v \<Longrightarrow> length (filter (\<lambda>kv. fst kv \<noteq> k) d) < length d"
  by (induction d) (auto split: if_splits intro: le_imp_less_Suc)

function collapse_merge :: "network list \<Rightarrow> (network \<times> network) list \<Rightarrow> (network \<times> network) list" where
  "collapse_merge [] subnets = subnets"
| "collapse_merge (net # to_merge) subnets =
     (let s = supernet net in
      case map_of subnets s of
        None \<Rightarrow> collapse_merge to_merge (subnets @ [(s, net)])
      | Some existing \<Rightarrow>
          if existing \<noteq> net
          then collapse_merge (s # to_merge) (filter (\<lambda>kv. fst kv \<noteq> s) subnets)
          else collapse_merge to_merge subnets)"
  by pat_completeness auto
termination
  by (relation "measures [\<lambda>(st, d). length st + length d, \<lambda>(st, d). length st]") (auto dest: filter_shorter)

fun skip_subsumed :: "network option \<Rightarrow> network list \<Rightarrow> network list" where
  "skip_subsumed last_net [] = []"
| "skip_subsumed last_net (net # nets) =
     (case last_net of
        None \<Rightarrow> net # skip_subsumed (Some net) nets
      | Some l \<Rightarrow>
          if net_last net \<le> net_last l then skip_subsumed last_net nets
          else net # skip_subsumed (Some net) nets)"

definition net_key :: "network \<Rightarrow> int \<times> nat" where
  "net_key n = (net_addr n, net_prefix n)"

definition collapse_addresses :: "network list \<Rightarrow> network list" where
  "collapse_addresses nets = skip_subsumed None (sort_key net_key (map snd (collapse_merge (rev nets) [])))"

definition covers :: "network set \<Rightarrow> int set" where
  "covers ns = \<Union> (addresses ` ns)"

definition merged :: "(network \<times> network) list \<Rightarrow> bool" where
  "merged d \<longleftrightarrow> (\<forall>kv \<in> set d. fst kv = supernet (snd kv) \<and> valid_net (snd kv)) \<and> distinct (map fst d)"

lemma collapse_merge_correct:
  assumes "merged d" and "\<forall>n \<in> set st. valid_net n"
  shows "merged (collapse_merge st d)
    \<and> covers (snd ` set (collapse_merge st d)) = covers (set st) \<union> covers (snd ` set d)"
  using assms
proof (induction st d rule: collapse_merge.induct)
  case (1 d)
  then show ?case by (simp add: covers_def)
next
  case (2 net st d)
  let ?s = "supernet net"
  show ?case
  proof (cases "map_of d ?s")
    case None
    then have "merged (d @ [(?s, net)])"
      using 2(4,5) by (auto simp: merged_def map_of_eq_None_iff)
    with None 2(1)[OF refl None] 2(5) show ?thesis by (auto simp: covers_def)
  next
    case (Some e)
    then have e: "(?s, e) \<in> set d" by (rule map_of_SomeD)
    show ?thesis
    proof (cases "e = net")
      case True
      with Some 2(3)[OF refl Some] 2(4,5) e show ?thesis by (force simp: covers_def)
    next
      case False
      let ?d = "filter (\<lambda>kv. fst kv \<noteq> ?s) d"
      have ve: "valid_net e" "supernet e = ?s" using e 2(4) by (auto simp: merged_def)
      have "merged ?d" using 2(4) by (auto simp: merged_def distinct_map_filter)
      moreover have "valid_net ?s" using supernet_valid(1) 2(5) by simp
      ultimately have IH: "merged (collapse_merge (?s # st) ?d)"
        "covers (snd ` set (collapse_merge (?s # st) ?d)) = covers (set (?s # st)) \<union> covers (snd ` set ?d)"
        using 2(2)[OF refl Some False] 2(5) by auto
      have "set d = insert (?s, e) (set ?d)"
        using e 2(4) by (auto simp: merged_def dest: eq_key_imp_eq_value)
      then have "snd ` set d = insert e (snd ` set ?d)" by (metis image_insert snd_conv)
      then have "covers (set (net # st)) \<union> covers (snd ` set d) = covers (set (?s # st)) \<union> covers (snd ` set ?d)"
        using siblings_addresses[of net e] 2(5) ve False by (auto simp: covers_def)
      with IH Some False show ?thesis by (simp add: Let_def)
    qed
  qed
qed

lemma skip_subsumed_subset: "set (skip_subsumed l nets) \<subseteq> set nets"
  by (induction l nets rule: skip_subsumed.induct) (auto split: option.splits)

lemma skip_subsumed_covers:
  assumes "sorted (map net_addr nets)" and "\<And>m. l = Some m \<Longrightarrow> \<forall>n \<in> set nets. net_addr m \<le> net_addr n"
    and "n \<in> set nets"
  shows "\<exists>k \<in> set_option l \<union> set (skip_subsumed l nets). addresses n \<subseteq> addresses k"
  using assms
proof (induction l nets rule: skip_subsumed.induct)
  case (2 l net nets)
  show ?case
  proof (cases "\<exists>k. l = Some k \<and> net_last net \<le> net_last k")
    case True
    then obtain k where k: "l = Some k" "net_last net \<le> net_last k" by blast
    show ?thesis
    proof (cases "n = net")
      case True
      then have "addresses n \<subseteq> addresses k" using "2.prems"(2)[OF k(1)] k by (auto simp: addresses_def)
      with k show ?thesis by auto
    next
      case False
      then show ?thesis using "2.IH"(2)[OF k(1) k(2)] "2.prems" k by auto
    qed
  next
    case False
    have s: "sorted (map net_addr nets)" "\<forall>n \<in> set nets. net_addr net \<le> net_addr n" using "2.prems"(1) by auto
    have eq: "skip_subsumed l (net # nets) = net # skip_subsumed (Some net) nets"
      using False by (auto split: option.splits)
    show ?thesis
    proof (cases "n = net")
      case True
      then show ?thesis using eq by auto
    next
      case False
      then have n: "n \<in> set nets" using "2.prems"(3) by simp
      have "\<exists>k \<in> set_option (Some net) \<union> set (skip_subsumed (Some net) nets). addresses n \<subseteq> addresses k"
      proof (cases l)
        case None
        show ?thesis by (rule "2.IH"(1)[OF None s(1) _ n]) (use s(2) in auto)
      next
        case (Some k)
        with \<open>\<not> (\<exists>k. l = Some k \<and> net_last net \<le> net_last k)\<close>
        have skip: "\<not> net_last net \<le> net_last k" by auto
        show ?thesis by (rule "2.IH"(3)[OF Some skip s(1) _ n]) (use s(2) in auto)
      qed
      then show ?thesis unfolding eq by auto
    qed
  qed
qed simp

text \<open>A network whose addresses are all covered lies in one network, when no two are halves of one.\<close>

lemma laminar_cover:
  assumes "\<forall>v \<in> V. valid_net v" and "\<And>a b. a \<in> V \<Longrightarrow> b \<in> V \<Longrightarrow> supernet a = supernet b \<Longrightarrow> a = b"
    and "valid_net n" and "addresses n \<subseteq> covers V"
  shows "\<exists>v \<in> V. addresses n \<subseteq> addresses v"
  using assms(3,4)
proof (induction "32 - net_prefix n" arbitrary: n)
  case 0
  then have "addresses n = {net_addr n}" 
    by (auto simp: addresses_def net_last_def block_size_def)
  with 0 show ?case by (auto simp: covers_def)
next
  case (Suc k)
  then have lt: "net_prefix n < 32" by simp
  note hv = halves_valid[OF Suc.prems(1) lt] and ha = halves_addresses[OF lt]
  have "\<exists>v \<in> V. addresses (lower_half n) \<subseteq> addresses v"
    by (rule Suc.hyps(1)) (use Suc.hyps(2) hv ha Suc.prems(2) in \<open>auto simp: lower_half_def\<close>)
  then obtain a where a: "a \<in> V" "addresses (lower_half n) \<subseteq> addresses a" by blast
  have "\<exists>v \<in> V. addresses (upper_half n) \<subseteq> addresses v"
    by (rule Suc.hyps(1)) (use Suc.hyps(2) hv ha Suc.prems(2) in \<open>auto simp: upper_half_def\<close>)
  then obtain b where b: "b \<in> V" "addresses (upper_half n) \<subseteq> addresses b" by blast
  have half: "v = h \<or> addresses n \<subseteq> addresses v"
    if "v \<in> V" "addresses h \<subseteq> addresses v" "valid_net h" "net_prefix h = Suc (net_prefix n)" "addresses h \<subseteq> addresses n"
    for v h
  proof (cases "net_prefix v \<le> net_prefix n")
    case True
    then show ?thesis
      using net_nested[of v n "net_addr h"] that assms(1) Suc.prems(1) addr_in_own[of h] by blast
  next
    case False
    have *: "net_addr h \<in> addresses v" "net_addr v \<in> addresses v" using that by auto
    have "net_prefix v = net_prefix h"
    proof (rule ccontr)
      assume "net_prefix v \<noteq> net_prefix h"
      with False that(4) have "net_prefix h < net_prefix v" by simp
      then have "net_prefix v = Suc (net_prefix v - 1)" "net_prefix h \<le> net_prefix v - 1" "net_prefix v \<le> 32"
        using assms(1) that(1) by (auto simp: valid_net_def)
      then have "block_size (net_prefix h) \<ge> 2 * block_size (net_prefix v)"
        using block_size_half[of "net_prefix v - 1"] block_size_mono[of "net_prefix h" "net_prefix v - 1"] by simp
      moreover have "net_last h \<le> net_last v" "net_addr v \<le> net_addr h"
        using that(2) net_last_ge[of h] by (auto simp: addresses_def)
      ultimately show False using block_size_pos[of "net_prefix v"] by (simp add: net_last_def)
    qed
    with net_eqI[OF _ that(3) _ *(1)] assms(1) that(1) show ?thesis by simp
  qed
  have "a = lower_half n \<or> addresses n \<subseteq> addresses a"
    by (rule half[OF a hv(1)]) (use ha in \<open>auto simp: lower_half_def\<close>)
  moreover have "b = upper_half n \<or> addresses n \<subseteq> addresses b"
    by (rule half[OF b hv(2)]) (use ha in \<open>auto simp: upper_half_def\<close>)
  moreover have "\<not> (a = lower_half n \<and> b = upper_half n)"
    using assms(2)[OF a(1) b(1)] halves_supernet[OF Suc.prems(1) lt] block_size_pos[of "Suc (net_prefix n)"]
    by (auto simp: lower_half_def upper_half_def)
  ultimately show ?case using a(1) b(1) by blast
qed

lemma sorted_net_addr: "sorted (map net_key ns) \<Longrightarrow> sorted (map net_addr ns)"
  by (induction ns) (auto simp: net_key_def less_eq_prod_def)

lemma collapse_addresses_covering:
  assumes "\<forall>n \<in> set nets. valid_net n" and "valid_net n"
  shows "(\<exists>c \<in> set (collapse_addresses nets). supernet_of c n) \<longleftrightarrow> addresses n \<subseteq> covers (set nets)"
proof -
  define d where "d = collapse_merge (rev nets) []"
  define vs where "vs = sort_key net_key (map snd d)"
  have "merged []" by (simp add: merged_def)
  from collapse_merge_correct[OF this, of "rev nets"] assms(1)
  have d: "merged d" "covers (snd ` set d) = covers (set nets)" by (auto simp: d_def covers_def)
  have vs: "set vs = snd ` set d" "sorted (map net_addr vs)" by (simp_all add: vs_def sorted_net_addr)
  have c: "collapse_addresses nets = skip_subsumed None vs" by (simp add: collapse_addresses_def vs_def d_def)
  have skip: "\<exists>k \<in> set (skip_subsumed None vs). addresses v \<subseteq> addresses k" if "v \<in> set vs" for v
    using skip_subsumed_covers[of vs None, OF vs(2) _ that] by auto
  have "addresses n \<subseteq> covers (set nets)" if "c \<in> set (collapse_addresses nets)" "addresses n \<subseteq> addresses c" for c
  proof -
    have "c \<in> snd ` set d" using that(1) c skip_subsumed_subset[of None vs] vs(1) by auto
    then have "addresses c \<subseteq> covers (snd ` set d)" by (force simp: covers_def)
    with that(2) d(2) show ?thesis by simp
  qed
  moreover have "\<exists>c \<in> set (collapse_addresses nets). addresses n \<subseteq> addresses c" if "addresses n \<subseteq> covers (set nets)"
  proof -
    have "\<exists>v \<in> set vs. addresses n \<subseteq> addresses v"
    proof (rule laminar_cover[OF _ _ assms(2)])
      show "\<forall>v \<in> set vs. valid_net v" using d(1) vs(1) by (auto simp: merged_def)
      show "a = b" if "a \<in> set vs" "b \<in> set vs" "supernet a = supernet b" for a b
      proof -
        from that vs(1) obtain s t where "(s, a) \<in> set d" "(t, b) \<in> set d" by auto
        moreover from this d(1) have "s = supernet a" "t = supernet b" by (force simp: merged_def)+
        moreover note that(3)
        ultimately show "a = b" using d(1) by (auto simp: merged_def dest: eq_key_imp_eq_value)
      qed
      show "addresses n \<subseteq> covers (set vs)" using that vs(1) d(2) by simp
    qed
    with skip show ?thesis unfolding c by blast
  qed
  ultimately show ?thesis by (auto simp: supernet_of_iff)
qed

section \<open>Bit lengths and ranges\<close>

fun bit_length :: "nat \<Rightarrow> nat" where
  "bit_length n = (if n = 0 then 0 else Suc (bit_length (n div 2)))"

declare bit_length.simps [simp del]

lemma bit_length_0 [simp]: "bit_length 0 = 0"
  by (simp add: bit_length.simps)

lemma bit_length_upper: "n < 2 ^ bit_length n"
proof (induction n rule: bit_length.induct)
  case (1 n)
  then show ?case by (cases "n = 0") (auto simp: bit_length.simps[of n])
qed

lemma bit_length_lower: "0 < n \<Longrightarrow> 2 ^ (bit_length n - 1) \<le> n"
proof (induction n rule: bit_length.induct)
  case (1 n)
  show ?case
  proof (cases "n div 2 = 0")
    case True
    with 1(2) show ?thesis by (simp add: bit_length.simps[of n])
  next
    case False
    then have "bit_length (n div 2) \<noteq> 0" by (simp add: bit_length.simps[of "n div 2"])
    with 1 False show ?thesis
      by (cases "bit_length (n div 2)") (auto simp: bit_length.simps[of n])
  qed
qed

lemma bit_length_unique:
  assumes "2 ^ k \<le> n" and "n < 2 ^ Suc k"
  shows "bit_length n = Suc k"
proof -
  have "0 < n" using assms(1) by (meson less_le_trans zero_less_numeral zero_less_power)
  have "2 ^ k < (2::nat) ^ bit_length n" using assms(1) bit_length_upper[of n] by (rule le_less_trans)
  then have "k < bit_length n" by simp
  moreover have "2 ^ (bit_length n - 1) < (2::nat) ^ Suc k"
    using bit_length_lower[OF \<open>0 < n\<close>] assms(2) by (rule le_less_trans)
  then have "bit_length n - 1 < Suc k" by (simp only: power_strict_increasing_iff one_less_numeral_iff semiring_norm)
  ultimately show ?thesis by simp
qed

text \<open>\<open>_count_righthand_zero_bits(number, bits)\<close>.\<close>

fun right_zeros :: "int \<Rightarrow> nat \<Rightarrow> nat" where
  "right_zeros n 0 = 0"
| "right_zeros n (Suc bits) = (if n mod 2 = 0 then Suc (right_zeros (n div 2) bits) else 0)"

lemma right_zeros_ge: "2 ^ k dvd n \<Longrightarrow> k \<le> bits \<Longrightarrow> k \<le> right_zeros n bits"
proof (induction n bits arbitrary: k rule: right_zeros.induct)
  case (2 n bits)
  show ?case
  proof (cases k)
    case (Suc j)
    with 2(2) have "2 ^ j * 2 dvd n" by (simp add: mult.commute)
    then obtain m where m: "n = 2 * (2 ^ j * m)" by (auto simp: dvd_def algebra_simps)
    then have "n mod 2 = 0" "2 ^ j dvd n div 2" by auto
    with 2(1)[of j] 2(3) Suc show ?thesis by simp
  qed simp
qed simp

text \<open>
  \<open>next(summarize_address_range(ip_address(b), ip_address(e)))\<close>: the largest block that starts at
  \<open>b\<close> and does not pass \<open>e\<close>.  An integer of \<open>2 ^ 32\<close> and more makes an IPv6 address, and addresses
  of different versions are a \<open>TypeError\<close>.
\<close>

definition summarize_first :: "int \<Rightarrow> int \<Rightarrow> network result" where
  "summarize_first b e =
     (if b < 0 \<or> e < 0 then Inl ValueError
      else if 2 ^ 32 \<le> b \<or> 2 ^ 32 \<le> e then Inl TypeError
      else if e < b then Inl ValueError
      else Inr \<lparr>net_addr = b, net_prefix = 32 - min (right_zeros b 32) (bit_length (nat (e - b + 1)) - 1)\<rparr>)"

lemma summarize_aligned:
  assumes "0 \<le> b" and "2 ^ k dvd b" and "k \<le> 32" and "b < 2 ^ 32" and "e < 2 ^ 32"
    and "2 ^ k \<le> e - b + 1" and "e - b + 1 < 2 * 2 ^ k"
  shows "summarize_first b e = Inr \<lparr>net_addr = b, net_prefix = 32 - k\<rparr>"
proof -
  have "2 ^ k \<le> nat (e - b + 1)" "nat (e - b + 1) < 2 ^ Suc k"
    using assms(6,7) by (simp_all add: le_nat_iff nat_less_iff)
  then have "bit_length (nat (e - b + 1)) = Suc k" by (rule bit_length_unique)
  moreover have "k \<le> right_zeros b 32" by (rule right_zeros_ge[OF assms(2,3)])
  moreover have "b \<le> e" using assms(6) zero_less_power[of "2::int" k] by linarith
  ultimately show ?thesis using assms(1,4,5) by (simp add: summarize_first_def min_def)
qed

section \<open>The contract of collapsing\<close>

text \<open>
  What the callers rely on: a network lies in one of the collapsed networks exactly when every
  address of it lies in some network of the list.
\<close>

locale address_collapse =
  fixes collapse :: "network list \<Rightarrow> network list"
  assumes covering: "list_all valid_net nets \<Longrightarrow> valid_net n \<Longrightarrow>
    list_ex (\<lambda>c. supernet_of c n) (collapse nets) \<longleftrightarrow> addresses n \<subseteq> covers (set nets)"
begin

lemma all_in_collapsed:
  assumes "list_all valid_net nets" and "list_all valid_net ns"
  shows "list_all (\<lambda>n. list_ex (\<lambda>c. supernet_of c n) (collapse nets)) ns \<longleftrightarrow> covers (set ns) \<subseteq> covers (set nets)"
proof -
  have "list_all (\<lambda>n. list_ex (\<lambda>c. supernet_of c n) (collapse nets)) ns \<longleftrightarrow> list_all (\<lambda>n. addresses n \<subseteq> covers (set nets)) ns"
    using assms(2) by (induction ns) (simp_all add: covering[OF assms(1)])
  then show ?thesis by (auto simp: list_all_iff covers_def)
qed

end

interpretation ipaddress: address_collapse collapse_addresses
  by unfold_locales (use collapse_addresses_covering in \<open>auto simp: list_all_iff list_ex_iff\<close>)

end
