(* ===== verification/Subnets.thy ===== *)
theory Subnets
  imports Ipv4
begin

text \<open>
  The choice of the subnets that \<open>pcluster configure\<close> creates
  (\<open>cli/commands/configure/subnet_computation.py\<close> and the two network configurations of
  \<open>networking.py\<close>).  CIDR blocks are strings, as EC2 gives them; the iteration order of the Python
  set of aligned blocks is that of \<open>remdups\<close> (the blocks are sorted by their end afterwards).
\<close>

section \<open>Sizes\<close>

definition next_power_of_2 :: "int \<Rightarrow> int" where
  "next_power_of_2 number = (if number = 0 then 1 else 2 ^ bit_length (nat \<bar>number - 1\<bar>))"

definition evaluate_subnet_size :: "int \<Rightarrow> int \<times> int" where
  "evaluate_subnet_size target_size =
     (let aws_reserved_ip = 6;
          min_bitmask = 28;
          subnet_bitmask = min (32 - int (bit_length (nat \<bar>next_power_of_2 (target_size + aws_reserved_ip) - 1\<bar>))) min_bitmask;
          subnet_size = 2 ^ nat (32 - subnet_bitmask)
      in (subnet_size, subnet_bitmask))"

section \<open>CIDR blocks\<close>

definition ip_to_decimal :: "string \<Rightarrow> int result" where
  "ip_to_decimal ip_addr = parse_ip ip_addr"

definition get_cidr_limits_as_decimal :: "string \<Rightarrow> (int \<times> int) result" where
  "get_cidr_limits_as_decimal cidr =
     rbind (ip_network cidr) (\<lambda>address.
     rbind (ip_to_decimal (str_ip (net_addr address))) (\<lambda>b.
     rmap (Pair b) (ip_to_decimal (str_ip (net_last address)))))"

definition decimal_ip_limits_to_cidr :: "int \<Rightarrow> int \<Rightarrow> string result" where
  "decimal_ip_limits_to_cidr b e = rmap str_network (summarize_first b e)"

definition get_bitmask :: "string \<Rightarrow> int result" where
  "get_bitmask cidr =
     (case split_on CHR ''/'' cidr of
        _ # p # _ \<Rightarrow> if all_digits p then Inr (int (digits_value p)) else Inl ValueError
      | _ \<Rightarrow> Inl IndexError)"

definition expand_cidr :: "string \<Rightarrow> int \<Rightarrow> string result" where
  "expand_cidr cidr new_size =
     rbind (ip_network cidr) (\<lambda>ip_addr. rmap str_network (supernet_to ip_addr new_size))"

definition align_subnet_cidrs :: "string list \<Rightarrow> int \<Rightarrow> string list result" where
  "align_subnet_cidrs occupied_cidr target_bitmask =
     rmap remdups (rmap_list (\<lambda>subnet_cidr.
       rbind (get_bitmask subnet_cidr) (\<lambda>bitmask.
         if target_bitmask < bitmask then expand_cidr subnet_cidr target_bitmask else Inr subnet_cidr)) occupied_cidr)"

section \<open>The search\<close>

text \<open>The end of the block before the first gap of more than \<open>subnet_size\<close>.\<close>

fun first_gap :: "int \<Rightarrow> int \<Rightarrow> (int \<times> int) list \<Rightarrow> int option" where
  "first_gap subnet_size previous_upper_limit [] = None"
| "first_gap subnet_size previous_upper_limit ((lower, upper) # subnets_limits) =
     (if subnet_size < lower - previous_upper_limit then Some previous_upper_limit
      else first_gap subnet_size upper subnets_limits)"

definition evaluate_cidr :: "string \<Rightarrow> string list \<Rightarrow> int \<Rightarrow> string option result" where
  "evaluate_cidr vpc_cidr occupied_cidrs target_size =
     (let (subnet_size, subnet_bitmask) = evaluate_subnet_size target_size in
      rbind (get_cidr_limits_as_decimal vpc_cidr) (\<lambda>(vpc_begin, vpc_end).
        if vpc_end - vpc_begin + 1 < subnet_size then Inr None
        else if occupied_cidrs = []
        then rmap Some (decimal_ip_limits_to_cidr vpc_begin (vpc_begin + subnet_size))
        else
          rbind (align_subnet_cidrs occupied_cidrs subnet_bitmask) (\<lambda>aligned.
          rbind (rmap_list get_cidr_limits_as_decimal aligned) (\<lambda>limits.
            case first_gap subnet_size (vpc_begin - 1) (sort_key snd limits @ [(vpc_end, vpc_end)]) of
              None \<Rightarrow> Inr None
            | Some upper \<Rightarrow> rmap Some (decimal_ip_limits_to_cidr (upper + 1) (upper + subnet_size))))))"

text \<open>The loop that halves the target; \<open>None\<close> is a loop that does not end.\<close>

partial_function (option) halve_target :: "string \<Rightarrow> string list \<Rightarrow> int \<Rightarrow> int \<Rightarrow> string option result option" where
  "halve_target vpc_cidr occupied_cidr min_subnet_size target_size =
     (case evaluate_cidr vpc_cidr occupied_cidr target_size of
        Inl e \<Rightarrow> Some (Inl e)
      | Inr (Some cidr) \<Rightarrow> Some (Inr (Some cidr))
      | Inr None \<Rightarrow>
          if target_size < min_subnet_size then Some (Inr None)
          else halve_target vpc_cidr occupied_cidr min_subnet_size (target_size div 2))"

definition get_subnet_cidr :: "string \<Rightarrow> string list \<Rightarrow> int \<Rightarrow> string option result option" where
  "get_subnet_cidr vpc_cidr occupied_cidr min_subnet_size =
     halve_target vpc_cidr occupied_cidr min_subnet_size (max 4000 (2 * min_subnet_size))"

section \<open>Lemmas on sizes and texts\<close>

definition subnet_bits :: "int \<Rightarrow> nat" where
  "subnet_bits t = max 4 (bit_length (nat (t + 5)))"

lemma bit_length_ones: "bit_length (2 ^ m - 1) = m"
proof (cases m)
  case (Suc k)
  then show ?thesis using bit_length_unique[of k "2 ^ m - 1"] by simp
qed simp

lemma subnet_size_bits:
  assumes "0 \<le> t"
  shows "evaluate_subnet_size t = (2 ^ subnet_bits t, 32 - int (subnet_bits t))"
proof -
  define m where "m = bit_length (nat (t + 5))"
  have "next_power_of_2 (t + 6) = 2 ^ m" using assms by (simp add: next_power_of_2_def m_def add.commute)
  moreover have "nat \<bar>(2::int) ^ m - 1\<bar> = 2 ^ m - 1" by (simp add: nat_diff_distrib nat_power_eq)
  ultimately have "bit_length (nat \<bar>next_power_of_2 (t + 6) - 1\<bar>) = m" using bit_length_ones[of m] by simp
  then show ?thesis by (simp add: evaluate_subnet_size_def subnet_bits_def Let_def min_def max_def flip: m_def)
qed

lemma subnet_bits_room:
  assumes "0 \<le> t"
  shows "t + 6 \<le> 2 ^ subnet_bits t" and "2 ^ subnet_bits t < 16 + 2 * (t + 6)" and "4 \<le> subnet_bits t"
proof -
  let ?n = "nat (t + 5)"
  have "int ?n < 2 ^ bit_length ?n" using bit_length_upper[of ?n] by (metis of_nat_less_iff of_nat_numeral of_nat_power)
  moreover have "(2::int) ^ bit_length ?n \<le> 2 ^ subnet_bits t" by (rule power_increasing) (simp_all add: subnet_bits_def)
  moreover have "int ?n = t + 5" using assms by simp
  ultimately show "t + 6 \<le> 2 ^ subnet_bits t" by linarith
  have "0 < ?n" using assms by simp
  have "2 ^ (bit_length ?n - 1) \<le> int ?n"
    using bit_length_lower[OF \<open>0 < ?n\<close>] by (metis of_nat_le_iff of_nat_numeral of_nat_power)
  moreover have "bit_length ?n \<noteq> 0" using \<open>0 < ?n\<close> by (simp add: bit_length.simps[of ?n])
  then have "(2::int) ^ bit_length ?n = 2 * 2 ^ (bit_length ?n - 1)" by (cases "bit_length ?n") auto
  ultimately have "(2::int) ^ bit_length ?n \<le> 2 * (t + 5)" using assms by simp
  then show "2 ^ subnet_bits t < 16 + 2 * (t + 6)" using assms by (auto simp: subnet_bits_def max_def)
  show "4 \<le> subnet_bits t" by (simp add: subnet_bits_def)
qed

lemma limits_str:
  assumes "valid_net n"
  shows "get_cidr_limits_as_decimal (str_network n) = Inr (net_addr n, net_last n)"
proof -
  have "0 \<le> net_addr n" "net_addr n < 2 ^ 32" using assms by (auto simp: valid_net_def)
  moreover have "0 \<le> net_last n" using net_last_ge[of n] \<open>0 \<le> net_addr n\<close> by linarith
  ultimately show ?thesis
    using net_last_bound[OF assms]
    by (simp add: get_cidr_limits_as_decimal_def ip_network_str[OF assms] ip_to_decimal_def parse_ip_str)
qed

lemma bitmask_str: "get_bitmask (str_network n) = Inr (int (net_prefix n))"
  by (simp add: get_bitmask_def str_network_def split_on_sep split_on_plain str_ip_no_slash str_nat_no_sep
      all_digits_str digits_value_str)

section \<open>Alignment\<close>

text \<open>The block a subnet is widened to, so that blocks of \<open>2 ^ k\<close> addresses fit between.\<close>

definition widened :: "nat \<Rightarrow> network \<Rightarrow> network" where
  "widened k n =
     (if 32 - int k < int (net_prefix n)
      then \<lparr>net_addr = net_addr n div block_size (32 - k) * block_size (32 - k), net_prefix = 32 - k\<rparr>
      else n)"

lemma widened_supernet:
  assumes "k \<le> 32" and "32 - int k < int (net_prefix n)"
  shows "supernet_to n (32 - int k) = Inr (widened k n)"
  using assms by (auto simp: supernet_to_def widened_def nat_diff_distrib)

lemma widened_valid:
  assumes "k \<le> 32" and "valid_net n"
  shows "valid_net (widened k n)" "addresses n \<subseteq> addresses (widened k n)" "net_prefix (widened k n) \<le> 32 - k"
proof -
  show "valid_net (widened k n)" "addresses n \<subseteq> addresses (widened k n)"
    using supernet_to_valid[OF assms(2) widened_supernet[OF assms(1)]] assms(2)
    by (cases "32 - int k < int (net_prefix n)"; simp add: widened_def)+
  show "net_prefix (widened k n) \<le> 32 - k" using assms(1) by (auto simp: widened_def)
qed

lemma align_str:
  assumes "k \<le> 32" and "\<forall>n \<in> set ns. valid_net n"
  shows "align_subnet_cidrs (map str_network ns) (32 - int k) = Inr (remdups (map (\<lambda>n. str_network (widened k n)) ns))"
proof -
  have one: "rbind (get_bitmask (str_network n)) (\<lambda>bitmask.
      if 32 - int k < bitmask then expand_cidr (str_network n) (32 - int k) else Inr (str_network n))
    = Inr (str_network (widened k n))" if "valid_net n" for n
    using that assms(1)
    by (simp add: bitmask_str expand_cidr_def ip_network_str widened_supernet) (simp add: widened_def)
  have "rmap_list (\<lambda>subnet_cidr. rbind (get_bitmask subnet_cidr) (\<lambda>bitmask.
      if 32 - int k < bitmask then expand_cidr subnet_cidr (32 - int k) else Inr subnet_cidr)) (map str_network ns)
    = Inr (map (\<lambda>n. str_network (widened k n)) ns)"
    using assms(2) by (induction ns) (simp_all add: one)
  then show ?thesis by (simp add: align_subnet_cidrs_def)
qed

text \<open>A list of texts of valid networks is the texts of a list.\<close>

lemma texts_of_networks:
  assumes "\<forall>c \<in> set cs. \<exists>n \<in> N. c = str_network n" and "\<forall>n \<in> N. valid_net n"
    and "\<forall>n \<in> N. str_network n \<in> set cs"
  shows "\<exists>ns. cs = map str_network ns \<and> set ns = N"
proof -
  let ?g = "\<lambda>c. projr (ip_network c)"
  have inv: "?g (str_network n) = n" if "n \<in> N" for n using that assms(2) by (simp add: ip_network_str)
  have "cs = map str_network (map ?g cs)" using assms(1) inv by (auto intro!: map_idI[symmetric])
  moreover have "set (map ?g cs) = N"
  proof
    show "set (map ?g cs) \<subseteq> N" using assms(1) inv by fastforce
    show "N \<subseteq> set (map ?g cs)" using assms(3) inv by force
  qed
  ultimately show ?thesis by blast
qed

lemma limits_list:
  "\<forall>n \<in> set ns. valid_net n \<Longrightarrow>
   rmap_list get_cidr_limits_as_decimal (map str_network ns) = Inr (map (\<lambda>n. (net_addr n, net_last n)) ns)"
  by (induction ns) (simp_all add: limits_str)

lemma aligned_limits:
  assumes "k \<le> 32" and "\<forall>n \<in> set ns. valid_net n"
  shows "\<exists>bs. set bs = widened k ` set ns \<and>
    rbind (align_subnet_cidrs (map str_network ns) (32 - int k)) (rmap_list get_cidr_limits_as_decimal)
      = Inr (map (\<lambda>n. (net_addr n, net_last n)) bs)"
proof -
  have v: "\<forall>n \<in> widened k ` set ns. valid_net n" using widened_valid(1)[OF assms(1)] assms(2) by auto
  obtain bs where bs: "remdups (map (\<lambda>n. str_network (widened k n)) ns) = map str_network bs" "set bs = widened k ` set ns"
    using texts_of_networks[OF _ v, of "remdups (map (\<lambda>n. str_network (widened k n)) ns)"] by auto
  have "rmap_list get_cidr_limits_as_decimal (map str_network bs) = Inr (map (\<lambda>n. (net_addr n, net_last n)) bs)"
    using v bs(2) by (simp add: limits_list)
  then show ?thesis using bs by (auto simp: align_str[OF assms])
qed

section \<open>The gap\<close>

definition apart :: "int \<times> int \<Rightarrow> int \<times> int \<Rightarrow> bool" where
  "apart p q \<longleftrightarrow> p = q \<or> snd p < fst q \<or> snd q < fst p"

lemma first_gap_sound:
  assumes "first_gap sz prev (L @ [(vend, vend)]) = Some p" and "sorted (map snd L)"
    and "\<forall>q \<in> set L. prev \<le> snd q \<and> fst q \<le> snd q \<and> snd q \<le> vend" and "\<forall>q \<in> set L. \<forall>r \<in> set L. apart q r"
  shows "prev \<le> p \<and> (p = prev \<or> p \<in> snd ` set L) \<and> p + sz < vend
    \<and> (\<forall>q \<in> set L. snd q \<le> p \<or> p + sz < fst q)"
  using assms
proof (induction L arbitrary: prev)
  case Nil
  then show ?case by (auto split: if_splits)
next
  case (Cons q L)
  obtain lo hi where q: "q = (lo, hi)" by (cases q)
  have qb: "prev \<le> hi" "lo \<le> hi" "hi \<le> vend" using Cons.prems(3) q by auto
  show ?case
  proof (cases "sz < lo - prev")
    case True
    then have p: "p = prev" using Cons.prems(1) q by simp
    have "p + sz < fst r" if "r \<in> set (q # L)" for r
    proof -
      have "apart q r" "hi \<le> snd r" "fst r \<le> snd r" using that Cons.prems(2,3,4) q by auto
      then show ?thesis using True p qb q by (auto simp: apart_def)
    qed
    with p True qb show ?thesis by auto
  next
    case False
    then have g: "first_gap sz hi (L @ [(vend, vend)]) = Some p" using Cons.prems(1) q by simp
    have "hi \<le> p \<and> (p = hi \<or> p \<in> snd ` set L) \<and> p + sz < vend \<and> (\<forall>q \<in> set L. snd q \<le> p \<or> p + sz < fst q)"
      by (rule Cons.IH[OF g]) (use Cons.prems(2,3,4) q in auto)
    with qb(1) q show ?thesis by auto
  qed
qed

lemma first_gap_complete:
  assumes "prev < b" and "\<forall>q \<in> set L. snd q < b \<or> b + sz - 1 < fst q" and "b + sz - 1 < vend"
  shows "first_gap sz prev (L @ [(vend, vend)]) \<noteq> None"
  using assms
proof (induction L arbitrary: prev)
  case (Cons q L)
  then show ?case by (cases q) auto
qed simp

section \<open>What the search finds\<close>

text \<open>The subnets of a VPC, as EC2 keeps them: inside the VPC and without a common address.\<close>

definition disjoint_nets :: "network \<Rightarrow> network \<Rightarrow> bool" where
  "disjoint_nets a b \<longleftrightarrow> net_last a < net_addr b \<or> net_last b < net_addr a"

definition vpc_layout :: "network \<Rightarrow> network list \<Rightarrow> bool" where
  "vpc_layout vpc ns \<longleftrightarrow>
     valid_net vpc \<and> net_last vpc < 2 ^ 32 - 1
     \<and> list_all (\<lambda>n. valid_net n \<and> supernet_of vpc n) ns
     \<and> list_all (\<lambda>a. list_all (\<lambda>b. a = b \<or> disjoint_nets a b) ns) ns"

definition free_block :: "network \<Rightarrow> network list \<Rightarrow> network \<Rightarrow> bool" where
  "free_block vpc ns b \<longleftrightarrow> valid_net b \<and> supernet_of vpc b \<and> list_all (disjoint_nets b) ns"

lemma disjoint_nets_iff: "disjoint_nets a b \<longleftrightarrow> addresses a \<inter> addresses b = {}"
proof
  show "disjoint_nets a b \<Longrightarrow> addresses a \<inter> addresses b = {}"
    by (auto simp: disjoint_nets_def addresses_def)
  assume "addresses a \<inter> addresses b = {}"
  then have "net_addr a \<notin> addresses b" "net_addr b \<notin> addresses a"
    using addr_in_own by blast+
  then show "disjoint_nets a b" using net_last_ge[of a] net_last_ge[of b]
    by (auto simp: disjoint_nets_def addresses_def)
qed

lemma free_block_iff:
  "free_block vpc ns b \<longleftrightarrow>
     valid_net b \<and> addresses b \<subseteq> addresses vpc \<and> addresses b \<inter> covers (set ns) = {}"
  by (auto simp: free_block_def supernet_of_iff covers_def list_all_iff disjoint_nets_iff)

lemma layout_valid: "vpc_layout vpc ns \<Longrightarrow> n \<in> set ns \<Longrightarrow> valid_net n \<and> supernet_of vpc n"
  by (simp add: vpc_layout_def list_all_iff)

lemma layout_prefix:
  assumes "valid_net vpc" and "valid_net n" and "supernet_of vpc n"
  shows "net_prefix vpc \<le> net_prefix n"
proof (rule ccontr)
  assume "\<not> net_prefix vpc \<le> net_prefix n"
  then have lt: "net_prefix n < net_prefix vpc" by simp
  have "block_size (net_prefix n) \<le> block_size (net_prefix vpc)"
    using assms(3) by (simp add: supernet_of_def net_last_def)
  moreover have "block_size (net_prefix vpc) < block_size (net_prefix n)"
    using lt assms(1) by (auto simp: block_size_def valid_net_def intro!: power_strict_increasing)
  ultimately show False by simp
qed

lemma widened_apart:
  assumes "k \<le> 32" and "vpc_layout vpc ns" and "a \<in> set ns" and "b \<in> set ns"
  shows "widened k a = widened k b \<or> disjoint_nets (widened k a) (widened k b)"
proof (rule ccontr)
  assume no: "\<not> ?thesis"
  note va = layout_valid[OF assms(2,3)] and vb = layout_valid[OF assms(2,4)]
  note wa = widened_valid[OF assms(1) conjunct1[OF va]] and wb = widened_valid[OF assms(1) conjunct1[OF vb]]
  from no obtain x where x: "x \<in> addresses (widened k a)" "x \<in> addresses (widened k b)"
    by (auto simp: disjoint_nets_iff)
  have "a \<noteq> b" using no by auto
  then have dis: "addresses a \<inter> addresses b = {}"
    using assms(2-4) by (auto simp: vpc_layout_def list_all_iff disjoint_nets_iff)
  have ne: "net_prefix (widened k a) \<noteq> net_prefix (widened k b)"
    using net_eqI[OF wa(1) wb(1) _ x] no by auto
  have main: False
    if "valid_net c" "valid_net d" "addresses c \<inter> addresses d = {}" "x \<in> addresses (widened k c)"
      "x \<in> addresses (widened k d)" "net_prefix (widened k c) < net_prefix (widened k d)" for c d
  proof -
    note wc = widened_valid[OF assms(1) that(1)] and wd = widened_valid[OF assms(1) that(2)]
    have "net_prefix (widened k c) < 32 - k" using that(6) wd(3) by simp
    then have "widened k c = c" by (auto simp: widened_def split: if_splits)
    with net_nested[OF wc(1) wd(1) _ that(4,5)] that(6) wd(2) have "addresses d \<subseteq> addresses c" by auto
    with that(3) show False using addr_in_own[of d] by blast
  qed
  from main[of a b] main[of b a] ne x va vb dis show False by (cases "net_prefix (widened k a) < net_prefix (widened k b)") auto
qed

definition net_limits :: "network \<Rightarrow> int \<times> int" where
  "net_limits n = (net_addr n, net_last n)"

text \<open>The search on networks: what \<open>evaluate_cidr\<close> does once the texts are read.\<close>

lemma evaluate_cidr_occupied:
  assumes "vpc_layout vpc ns" and "ns \<noteq> []" and "0 \<le> t" and "2 ^ subnet_bits t \<le> block_size (net_prefix vpc)"
  shows "\<exists>bs. set bs = widened (subnet_bits t) ` set ns \<and>
    evaluate_cidr (str_network vpc) (map str_network ns) t =
      (case first_gap (2 ^ subnet_bits t) (net_addr vpc - 1)
              (sort_key snd (map net_limits bs) @ [(net_last vpc, net_last vpc)]) of
         None \<Rightarrow> Inr None
       | Some p \<Rightarrow> rmap Some (decimal_ip_limits_to_cidr (p + 1) (p + 2 ^ subnet_bits t)))"
proof -
  let ?k = "subnet_bits t"
  have v: "valid_net vpc" "\<forall>n \<in> set ns. valid_net n" using assms(1) by (auto simp: vpc_layout_def list_all_iff)
  have k: "?k \<le> 32" using assms(4) by (simp add: block_size_def)
  obtain bs where bs: "set bs = widened ?k ` set ns"
    "rbind (align_subnet_cidrs (map str_network ns) (32 - int ?k)) (rmap_list get_cidr_limits_as_decimal)
      = Inr (map net_limits bs)"
    using aligned_limits[OF k v(2)] unfolding net_limits_def by blast
  obtain cs where cs: "align_subnet_cidrs (map str_network ns) (32 - int ?k) = Inr cs"
    "rmap_list get_cidr_limits_as_decimal cs = Inr (map net_limits bs)"
    using bs(2) by (auto simp: rbind_Inr_iff)
  have "\<not> net_last vpc - net_addr vpc + 1 < 2 ^ ?k" using assms(4) by (simp add: net_last_def)
  then show ?thesis
    using bs(1) assms(2) cs by (auto simp: evaluate_cidr_def subnet_size_bits[OF assms(3)] limits_str[OF v(1)])
qed

lemma bits_prefix:
  assumes "valid_net vpc" and "2 ^ k \<le> block_size (net_prefix vpc)"
  shows "k \<le> 32 - net_prefix vpc" "k \<le> 32" "block_size (32 - k) = 2 ^ k"
proof -
  show k: "k \<le> 32 - net_prefix vpc" using assms(2) by (simp add: block_size_def)
  then show "k \<le> 32" by simp
  then show "block_size (32 - k) = 2 ^ k" by (simp add: block_size_def)
qed

lemma dvd_addr_last:
  assumes "valid_net n" and "k \<le> 32 - net_prefix n"
  shows "2 ^ k dvd net_addr n" "2 ^ k dvd net_last n + 1"
proof -
  have b: "2 ^ k dvd block_size (net_prefix n)"
    unfolding block_size_def using assms(2) by (rule le_imp_power_dvd)
  then show "2 ^ k dvd net_addr n" using valid_net_dvd[OF assms(1)] by (rule dvd_trans)
  with b show "2 ^ k dvd net_last n + 1" by (simp add: net_last_def)
qed

lemma evaluate_cidr_gap:
  assumes lay: "vpc_layout vpc ns" and "4 \<le> k" and fit: "2 ^ k \<le> block_size (net_prefix vpc)"
    and bs: "set bs = widened k ` set ns"
    and gap: "first_gap (2 ^ k) (net_addr vpc - 1)
              (sort_key snd (map net_limits bs) @ [(net_last vpc, net_last vpc)]) = Some p"
  shows "\<exists>b. decimal_ip_limits_to_cidr (p + 1) (p + 2 ^ k) = Inr (str_network b)
    \<and> net_prefix b = 32 - k \<and> free_block vpc ns b \<and> net_last b < net_last vpc"
proof -
  have vpc: "valid_net vpc" "net_last vpc < 2 ^ 32 - 1" using lay by (auto simp: vpc_layout_def)
  note k = bits_prefix[OF vpc(1) fit]
  have pv: "net_prefix vpc \<le> 32 - k" using k(1) vpc(1) by (auto simp: valid_net_def)
  have in_vpc: "net_addr vpc \<le> net_addr b \<and> net_last b \<le> net_last vpc \<and> valid_net b \<and> net_prefix b \<le> 32 - k"
    if "b \<in> set bs" for b
  proof -
    from that bs obtain n where n: "n \<in> set ns" "b = widened k n" by auto
    note wn = widened_valid[OF k(2)] and vn = layout_valid[OF lay n(1)]
    have vb: "valid_net b" "net_prefix b \<le> 32 - k" using wn(1,3) vn n(2) by auto
    have x: "net_addr n \<in> addresses vpc" "net_addr n \<in> addresses b"
      using vn wn(2)[of n] n(2) addr_in_own[of n] by (auto simp: supernet_of_iff)
    have "net_prefix vpc \<le> net_prefix b"
      using layout_prefix[OF vpc(1), of n] vn pv n(2) by (auto simp: widened_def split: if_splits)
    with net_nested[OF vpc(1) vb(1) _ x] have "supernet_of vpc b" by (simp add: supernet_of_iff)
    with vb show ?thesis by (simp add: supernet_of_def)
  qed
  have pairwise: "apart (net_limits a) (net_limits b)" if ab: "a \<in> set bs" "b \<in> set bs" for a b
  proof -
    from ab bs obtain m n where "m \<in> set ns" "n \<in> set ns" "a = widened k m" "b = widened k n" by auto
    with widened_apart[OF k(2) lay, of m n] show ?thesis by (auto simp: apart_def net_limits_def disjoint_nets_def)
  qed
  have res: "net_addr vpc - 1 \<le> p \<and> (p = net_addr vpc - 1 \<or> p \<in> net_last ` set bs) \<and> p + 2 ^ k < net_last vpc
      \<and> (\<forall>b \<in> set bs. net_last b \<le> p \<or> p + 2 ^ k < net_addr b)"
  proof -
    have "net_addr vpc - 1 \<le> net_last b \<and> net_addr b \<le> net_last b \<and> net_last b \<le> net_last vpc" if "b \<in> set bs" for b
      using in_vpc[OF that] net_last_ge[of b] by linarith
    with first_gap_sound[OF gap] pairwise show ?thesis by (force simp: net_limits_def)
  qed
  have dvd: "2 ^ k dvd p + 1"
    using res dvd_addr_last(1)[OF vpc(1) k(1)] in_vpc dvd_addr_last(2)[of _ k] k(2) by fastforce
  have rng: "0 \<le> p + 1" "p + 1 < 2 ^ 32" "p + 2 ^ k < 2 ^ 32"
  proof -
    have "net_addr vpc - 1 \<le> p" "p + 2 ^ k < net_last vpc" "(0::int) < 2 ^ k" "0 \<le> net_addr vpc"
      using res vpc(1) by (auto simp: valid_net_def)
    with vpc(2) show "0 \<le> p + 1" "p + 1 < 2 ^ 32" "p + 2 ^ k < 2 ^ 32" by linarith+
  qed
  define b where "b = \<lparr>net_addr = p + 1, net_prefix = 32 - k\<rparr>"
  have last: "net_last b = p + 2 ^ k" by (simp add: b_def net_last_def k(3))
  have "summarize_first (p + 1) (p + 2 ^ k) = Inr b"
    unfolding b_def by (rule summarize_aligned[OF rng(1) dvd k(2) rng(2,3)]) simp_all
  moreover have "valid_net b" using rng dvd k(2,3) by (simp add: valid_net_def b_def mod_eq_0_iff_dvd)
  moreover have "supernet_of vpc b" using res last by (simp add: supernet_of_def) (simp add: b_def)
  moreover have "disjoint_nets b n" if n: "n \<in> set ns" for n
  proof -
    have "widened k n \<in> set bs" using n bs by simp
    then have "disjoint_nets b (widened k n)" using res last by (auto simp: disjoint_nets_def b_def)
    with widened_valid(2)[OF k(2), of n] layout_valid[OF lay n] show ?thesis by (auto simp: disjoint_nets_iff)
  qed
  ultimately show ?thesis
    using res last by (intro exI[of _ b]) (auto simp: decimal_ip_limits_to_cidr_def free_block_def list_all_iff b_def)
qed

lemma evaluate_cidr_none:
  assumes lay: "vpc_layout vpc ns" and "4 \<le> k" and fit: "2 ^ k \<le> block_size (net_prefix vpc)"
    and bs: "set bs = widened k ` set ns"
    and free: "free_block vpc ns b" "net_prefix b = 32 - k" "net_last b < net_last vpc"
  shows "first_gap (2 ^ k) (net_addr vpc - 1)
              (sort_key snd (map net_limits bs) @ [(net_last vpc, net_last vpc)]) \<noteq> None"
proof (rule first_gap_complete)
  have "valid_net vpc" using lay by (simp add: vpc_layout_def)
  note k = bits_prefix[OF this fit]
  have b: "valid_net b" "net_last b = net_addr b + 2 ^ k - 1"
    using free(1,2) k(3) by (auto simp: free_block_def net_last_def)
  show "net_addr vpc - 1 < net_addr b" using free(1) by (simp add: free_block_def supernet_of_def)
  show "net_addr b + 2 ^ k - 1 < net_last vpc" using free(3) b(2) by simp
  have "net_last c < net_addr b \<or> net_last b < net_addr c" if "c \<in> set bs" for c
  proof -
    from that bs obtain n where n: "n \<in> set ns" "c = widened k n" by auto
    note vn = layout_valid[OF lay n(1)]
    note wn = widened_valid[OF k(2) conjunct1[OF vn]]
    have "addresses b \<inter> addresses n = {}"
      using free(1) n(1) by (auto simp: free_block_def list_all_iff disjoint_nets_iff)
    moreover have "addresses n \<subseteq> addresses b" if "x \<in> addresses c" "x \<in> addresses b" for x
    proof (cases "c = n")
      case True
      with net_nested[of c b x] b(1) wn n(2) free(2) that calculation show ?thesis by auto
    next
      case False
      then have "net_prefix c = net_prefix b" using n(2) free(2) by (auto simp: widened_def split: if_splits)
      with net_eqI[of c b x] that b(1) wn n(2) show ?thesis by auto
    qed
    ultimately have "addresses b \<inter> addresses c = {}" using addr_in_own[of n] by blast
    then show ?thesis using disjoint_nets_iff[of b c] by (auto simp: disjoint_nets_def)
  qed
  then show "\<forall>q \<in> set (sort_key snd (map net_limits bs)). snd q < net_addr b \<or> net_addr b + 2 ^ k - 1 < fst q"
    using b(2) by (auto simp: net_limits_def)
qed

lemma evaluate_cidr_unoccupied:
  assumes "vpc_layout vpc []" and "0 \<le> t" and "2 ^ subnet_bits t \<le> block_size (net_prefix vpc)"
  shows "\<exists>b. evaluate_cidr (str_network vpc) [] t = Inr (Some (str_network b))
    \<and> net_prefix b = 32 - subnet_bits t \<and> free_block vpc [] b"
proof -
  let ?k = "subnet_bits t"
  have vpc: "valid_net vpc" "net_last vpc < 2 ^ 32 - 1" using assms(1) by (auto simp: vpc_layout_def)
  note k = bits_prefix[OF vpc(1) assms(3)]
  define b where "b = \<lparr>net_addr = net_addr vpc, net_prefix = 32 - ?k\<rparr>"
  have rng: "0 \<le> net_addr vpc" "net_addr vpc < 2 ^ 32" using vpc(1) by (auto simp: valid_net_def)
  have fit: "net_addr vpc + 2 ^ ?k \<le> net_last vpc + 1" using assms(3) by (simp add: net_last_def)
  have "(2::int) \<le> 2 ^ ?k" using power_increasing[of 1 ?k "2::int"] subnet_bits_room(3)[OF assms(2)] by simp
  then have "summarize_first (net_addr vpc) (net_addr vpc + 2 ^ ?k) = Inr b"
    unfolding b_def by (intro summarize_aligned[OF rng(1) dvd_addr_last(1)[OF vpc(1) k(1)] k(2) rng(2)])
      (use fit vpc(2) in linarith)+
  moreover have "\<not> net_last vpc - net_addr vpc + 1 < 2 ^ ?k" using fit by simp
  moreover have "free_block vpc [] b"
    using rng fit dvd_addr_last(1)[OF vpc(1) k(1)] k(3)
    by (simp add: free_block_def valid_net_def supernet_of_def net_last_def b_def mod_eq_0_iff_dvd)
  ultimately show ?thesis
    by (intro exI[of _ b]) (simp add: evaluate_cidr_def subnet_size_bits[OF assms(2)] limits_str[OF vpc(1)]
      decimal_ip_limits_to_cidr_def b_def)
qed

text \<open>Whether there is room for a block of \<open>2 ^ k\<close> addresses, as \<open>evaluate_cidr\<close> understands it.\<close>

definition has_room :: "network \<Rightarrow> network list \<Rightarrow> nat \<Rightarrow> bool" where
  "has_room vpc ns k \<longleftrightarrow>
     (\<exists>b. free_block vpc ns b \<and> net_prefix b = 32 - k \<and> (ns = [] \<or> net_last b < net_last vpc)) \<and> k \<le> 32"

lemma evaluate_cidr_cases:
  assumes lay: "vpc_layout vpc ns" and t: "0 \<le> t"
  shows "(\<exists>b. evaluate_cidr (str_network vpc) (map str_network ns) t = Inr (Some (str_network b))
            \<and> net_prefix b = 32 - subnet_bits t \<and> free_block vpc ns b \<and> has_room vpc ns (subnet_bits t))
       \<or> evaluate_cidr (str_network vpc) (map str_network ns) t = Inr None \<and> \<not> has_room vpc ns (subnet_bits t)"
proof -
  let ?k = "subnet_bits t"
  have vpc: "valid_net vpc" using lay by (simp add: vpc_layout_def)
  show ?thesis
  proof (cases "2 ^ ?k \<le> block_size (net_prefix vpc)")
    case False
    have "\<not> has_room vpc ns ?k"
    proof
      assume "has_room vpc ns ?k"
      then obtain b where b: "free_block vpc ns b" "net_prefix b = 32 - ?k" and k: "?k \<le> 32" by (auto simp: has_room_def)
      have "2 ^ ?k = block_size (net_prefix b)" using b(2) k by (simp add: block_size_def)
      then show False using b(1) False by (simp add: free_block_def supernet_of_def net_last_def)
    qed
    with False show ?thesis
      by (simp add: evaluate_cidr_def subnet_size_bits[OF t] limits_str[OF vpc] net_last_def)
  next
    case fit: True
    note k = bits_prefix[OF vpc fit]
    show ?thesis
    proof (cases "ns = []")
      case True
      with evaluate_cidr_unoccupied[OF _ t fit] lay k(2) show ?thesis by (auto simp: has_room_def)
    next
      case False
      from evaluate_cidr_occupied[OF lay False t fit] obtain bs where bs: "set bs = widened ?k ` set ns"
        and ev: "evaluate_cidr (str_network vpc) (map str_network ns) t =
          (case first_gap (2 ^ ?k) (net_addr vpc - 1)
              (sort_key snd (map net_limits bs) @ [(net_last vpc, net_last vpc)]) of
             None \<Rightarrow> Inr None | Some p \<Rightarrow> rmap Some (decimal_ip_limits_to_cidr (p + 1) (p + 2 ^ ?k)))" by blast
      show ?thesis
      proof (cases "first_gap (2 ^ ?k) (net_addr vpc - 1)
              (sort_key snd (map net_limits bs) @ [(net_last vpc, net_last vpc)])")
        case None
        with evaluate_cidr_none[OF lay subnet_bits_room(3)[OF t] fit bs] False have "\<not> has_room vpc ns ?k"
          by (auto simp: has_room_def)
        with None ev show ?thesis by simp
      next
        case (Some p)
        with evaluate_cidr_gap[OF lay subnet_bits_room(3)[OF t] fit bs Some]
        obtain b where "decimal_ip_limits_to_cidr (p + 1) (p + 2 ^ ?k) = Inr (str_network b)"
          and b: "net_prefix b = 32 - ?k" "free_block vpc ns b" "net_last b < net_last vpc" by blast
        moreover have "has_room vpc ns ?k" using b k(2) unfolding has_room_def by blast
        ultimately show ?thesis using Some ev by auto
      qed
    qed
  qed
qed

lemma subnet_bits_least:
  assumes "0 \<le> t" and "t + 5 < 2 ^ k" and "4 \<le> k"
  shows "subnet_bits t \<le> k"
proof -
  let ?n = "nat (t + 5)"
  have "0 < ?n" using assms(1) by simp
  have "?n < 2 ^ k" using assms(1,2) by (simp add: nat_less_iff)
  with bit_length_lower[OF \<open>0 < ?n\<close>] have "(2::nat) ^ (bit_length ?n - 1) < 2 ^ k" by (rule le_less_trans)
  then have "bit_length ?n - 1 < k" by (simp only: power_strict_increasing_iff one_less_numeral_iff semiring_norm)
  with assms(3) show ?thesis by (simp add: subnet_bits_def)
qed

text \<open>Room for a block is room for a smaller one: its first part.\<close>

lemma has_room_smaller:
  assumes "has_room vpc ns k" and "j \<le> k"
  shows "has_room vpc ns j"
proof -
  from assms(1) obtain b where b: "free_block vpc ns b" "net_prefix b = 32 - k" "ns = [] \<or> net_last b < net_last vpc"
    and k: "k \<le> 32" by (auto simp: has_room_def)
  define c where "c = \<lparr>net_addr = net_addr b, net_prefix = 32 - j\<rparr>"
  have vb: "valid_net b" using b(1) by (simp add: free_block_def)
  have "block_size (32 - j) dvd block_size (net_prefix b)" using b(2) assms(2) by (simp add: block_size_dvd)
  with valid_net_dvd[OF vb] have "block_size (32 - j) dvd net_addr b" by (rule dvd_trans[rotated])
  then have vc: "valid_net c" using vb by (simp add: valid_net_def c_def mod_eq_0_iff_dvd)
  have "net_last c \<le> net_last b"
    using block_size_mono[OF diff_le_mono2[OF assms(2)], of 32] b(2) by (simp add: net_last_def c_def)
  then have sub: "addresses c \<subseteq> addresses b" "net_last c \<le> net_last b" by (simp_all add: addresses_def c_def)
  have "free_block vpc ns c"
    using b(1) sub(1) vc by (auto simp: free_block_def supernet_of_iff disjoint_nets_iff list_all_iff)
  moreover have "ns = [] \<or> net_last c < net_last vpc" using b(3) sub(2) by auto
  ultimately show ?thesis using k assms(2) by (auto simp: has_room_def c_def intro!: exI[of _ c])
qed

lemma halve_target_returns:
  assumes "0 < m"
  shows "\<exists>r. halve_target v occ m t = Some r"
proof (induction "nat t" arbitrary: t rule: less_induct)
  case less
  show ?case
  proof (cases "evaluate_cidr v occ t = Inr None \<and> \<not> t < m")
    case True
    then have "nat (t div 2) < nat t" using assms by auto
    from less[OF this] True show ?thesis by (subst halve_target.simps) simp
  next
    case False
    then show ?thesis by (subst halve_target.simps) (auto split: sum.splits option.splits)
  qed
qed

text \<open>The loop, for a target that is at least half the wanted size.\<close>

lemma halve_target_result:
  assumes lay: "vpc_layout vpc ns" and m: "0 < m" and t: "m div 2 \<le> t"
  shows "(\<exists>b. halve_target (str_network vpc) (map str_network ns) m t = Some (Inr (Some (str_network b)))
            \<and> free_block vpc ns b \<and> m div 2 + 6 \<le> block_size (net_prefix b))
       \<or> halve_target (str_network vpc) (map str_network ns) m t = Some (Inr None)
         \<and> (\<forall>k. 4 \<le> k \<longrightarrow> m + 5 \<le> 2 ^ k \<longrightarrow> \<not> has_room vpc ns k)"
  using t
proof (induction "nat t" arbitrary: t rule: less_induct)
  case less
  have t0: "0 \<le> t" using less.prems m by linarith
  from evaluate_cidr_cases[OF lay t0] show ?case
  proof (elim disjE exE conjE)
    fix b
    assume ev: "evaluate_cidr (str_network vpc) (map str_network ns) t = Inr (Some (str_network b))"
      and b: "net_prefix b = 32 - subnet_bits t" "free_block vpc ns b" "has_room vpc ns (subnet_bits t)"
    have "block_size (net_prefix b) = 2 ^ subnet_bits t" using b(1,3) by (simp add: block_size_def has_room_def)
    then have "m div 2 + 6 \<le> block_size (net_prefix b)" using subnet_bits_room(1)[OF t0] less.prems by simp
    with ev b(2) show ?thesis by (subst (1 2) halve_target.simps) auto
  next
    assume ev: "evaluate_cidr (str_network vpc) (map str_network ns) t = Inr None"
      and room: "\<not> has_room vpc ns (subnet_bits t)"
    show ?thesis
    proof (cases "t < m")
      case True
      have "\<not> has_room vpc ns k" if "4 \<le> k" "m + 5 \<le> 2 ^ k" for k
        using has_room_smaller[of vpc ns k "subnet_bits t"] subnet_bits_least[OF t0 _ that(1)] that(2) True room by auto
      with ev True show ?thesis by (subst (1 2) halve_target.simps) simp
    next
      case False
      then have "nat (t div 2) < nat t" "m div 2 \<le> t div 2" using m by auto
      from less.hyps[OF this] ev False show ?thesis by (subst (1 2) halve_target.simps) simp
    qed
  qed
qed

lemma get_subnet_cidr_result:
  assumes "vpc_layout vpc ns" and "0 < m"
  shows "(\<exists>b. get_subnet_cidr (str_network vpc) (map str_network ns) m = Some (Inr (Some (str_network b)))
            \<and> free_block vpc ns b \<and> m div 2 + 6 \<le> block_size (net_prefix b))
       \<or> get_subnet_cidr (str_network vpc) (map str_network ns) m = Some (Inr None)
         \<and> (\<forall>k. 4 \<le> k \<longrightarrow> m + 5 \<le> 2 ^ k \<longrightarrow> \<not> has_room vpc ns k)"
  unfolding get_subnet_cidr_def by (rule halve_target_result[OF assms]) (use assms(2) in auto)

lemma str_network_inject:
  "valid_net a \<Longrightarrow> valid_net b \<Longrightarrow> str_network a = str_network b \<longleftrightarrow> a = b"
  by (metis ip_network_str sum.inject(2))

section \<open>Properties\<close>

named_theorems net_eval "evaluation of the search on given blocks"

lemma str_nat_numeral [net_eval]:
  "str_nat (numeral k) = (if (numeral k :: nat) < 10 then [digit_of (numeral k)]
     else str_nat (numeral k div 10) @ [digit_of (numeral k mod 10)])"
  by (rule str_nat.simps)

lemma str_nat_0: "str_nat 0 = ''0''" and str_nat_1: "str_nat (Suc 0) = ''1''"
  by code_simp+

lemma bit_length_numeral [net_eval]:
  "bit_length (numeral k) = Suc (bit_length (numeral k div 2))" "bit_length (Suc 0) = Suc 0"
  by (simp_all add: bit_length.simps)

lemmas [net_eval] = ip_network_def parse_ip_def parse_octet_def parse_prefix_def make_network_def block_size_def
  all_digits_def is_digit_def digits_value_def Let_def str_ip_def str_network_def digit_chars
  get_cidr_limits_as_decimal_def ip_to_decimal_def net_last_def decimal_ip_limits_to_cidr_def get_bitmask_def
  expand_cidr_def align_subnet_cidrs_def evaluate_cidr_def evaluate_subnet_size_def next_power_of_2_def
  str_nat_0 str_nat_1 bit_length_0 supernet_to_def summarize_first_def get_subnet_cidr_def

lemma right_zeros_numeral [net_eval]:
  "right_zeros n (numeral k) = (if n mod 2 = 0 then Suc (right_zeros (n div 2) (pred_numeral k)) else 0)"
  by (simp add: numeral_eq_Suc)

text \<open>The search for a subnet ends whenever the wanted size is positive, whatever the blocks are.\<close>

lemma subnet_search_ends:
  assumes "0 < min_subnet_size"
  shows "\<exists>r. get_subnet_cidr vpc_cidr occupied_cidr min_subnet_size = Some r"
  unfolding get_subnet_cidr_def by (rule halve_target_returns[OF assms])

text \<open>C32: In a VPC whose subnets share no address, the search never raises: it answers with a block inside
  the VPC that shares no address with the occupied ones and has at least half the wanted size, or it answers
  that there is none, and then no free block has the wanted number of addresses beside the five reserved ones
  (a free block at the very end of an occupied VPC does not count).\<close>

theorem chosen_subnet_is_free:
  assumes "vpc_layout vpc ns" and "0 < m"
  shows "(\<exists>b. get_subnet_cidr (str_network vpc) (map str_network ns) m = Some (Inr (Some (str_network b)))
            \<and> valid_net b \<and> addresses b \<subseteq> addresses vpc \<and> addresses b \<inter> covers (set ns) = {}
            \<and> m div 2 + 6 \<le> block_size (net_prefix b))
       \<or> get_subnet_cidr (str_network vpc) (map str_network ns) m = Some (Inr None)
         \<and> (\<forall>k. 4 \<le> k \<longrightarrow> m + 5 \<le> 2 ^ k \<longrightarrow> \<not> has_room vpc ns k)"
  using get_subnet_cidr_result[OF assms] unfolding free_block_iff by blast

abbreviation example_vpc :: network where
  "example_vpc \<equiv> \<lparr>net_addr = 167772160, net_prefix = 16\<rparr>"

abbreviation example_subnet :: network where
  "example_subnet \<equiv> \<lparr>net_addr = 167772160, net_prefix = 24\<rparr>"

lemma example_texts: "str_network example_vpc = ''10.0.0.0/16''" "str_network example_subnet = ''10.0.0.0/24''"
  by (simp_all add: net_eval)

lemma example_layout: "vpc_layout example_vpc [example_subnet]"
  by (simp add: vpc_layout_def valid_net_def supernet_of_def net_last_def block_size_def)

theorem chosen_subnet_is_free_witness:
  "\<exists>b. get_subnet_cidr ''10.0.0.0/16'' [''10.0.0.0/24''] 256 = Some (Inr (Some (str_network b)))
     \<and> addresses b \<subseteq> addresses example_vpc \<and> addresses b \<inter> addresses example_subnet = {}"
proof -
  have "get_subnet_cidr ''10.0.0.0/16'' [''10.0.0.0/24''] 256 = Some (Inr (Some ''10.0.16.0/20''))"
    unfolding get_subnet_cidr_def by (subst halve_target.simps) (simp add: net_eval)
  with chosen_subnet_is_free[OF example_layout, of 256] show ?thesis
    by (auto simp: example_texts covers_def)
qed

text \<open>One evaluation answers with a block exactly when a free block of the size of the target exists, and
  in a VPC with subnets one that does not end where the VPC ends.\<close>

lemma evaluate_cidr_finds_block_iff:
  assumes "vpc_layout vpc ns" and "0 \<le> t"
  shows "(\<exists>c. evaluate_cidr (str_network vpc) (map str_network ns) t = Inr (Some c)) \<longleftrightarrow>
    has_room vpc ns (subnet_bits t)"
  using evaluate_cidr_cases[OF assms] by auto

text \<open>The last block of a VPC is never found, and the subnet may be smaller than the wanted minimum.\<close>

lemma last_block_not_found: "evaluate_cidr ''10.0.0.0/24'' [''10.0.0.0/25''] 100 = Inr None"
  by (simp add: net_eval)

lemma smaller_than_minimum: "get_subnet_cidr ''10.0.0.0/23'' [] 1000 = Some (Inr (Some ''10.0.0.0/23''))"
proof -
  have step: "halve_target ''10.0.0.0/23'' [] 1000 t = halve_target ''10.0.0.0/23'' [] 1000 (t div 2)"
    if "evaluate_cidr ''10.0.0.0/23'' [] t = Inr None" "1000 \<le> t" for t
    using that by (subst halve_target.simps) simp
  have "evaluate_cidr ''10.0.0.0/23'' [] t = Inr None" if "t \<in> {4000, 2000, 1000}" for t
    using that by (elim insertE emptyE) (simp_all add: net_eval)
  then have "halve_target ''10.0.0.0/23'' [] 1000 4000 = halve_target ''10.0.0.0/23'' [] 1000 500"
    using step[of 4000] step[of 2000] step[of 1000] by simp
  also have "\<dots> = Some (Inr (Some ''10.0.0.0/23''))"
    by (subst halve_target.simps) (simp add: net_eval)
  finally show ?thesis by (simp add: get_subnet_cidr_def)
qed

end
