(* ===== verification/NetworkAccess.thy ===== *)
theory NetworkAccess
  imports Ipv4 ClusterUpdate StorageValidators
begin

text \<open>
  Whether the security groups of a file system let the nodes of the cluster in
  (\<open>_is_access_allowed\<close> and the validators that use it, \<open>pcluster/validators/cluster_validators.py\<close>).
  What EC2, EFS and FSx answer is a parameter; the rules keep the fields that the code reads.
\<close>

section \<open>Security group rules\<close>

record sg_rule =
  IpProtocol :: "string option"
  FromPort :: "int option"
  ToPort :: "int option"
  PrefixListIds :: "string list"
  IpRanges :: "string list"  \<comment> \<open>the \<open>CidrIp\<close> of each\<close>
  Ipv4Ranges :: "string list"
  UserIdGroupPairs :: "string option list"  \<comment> \<open>the \<open>GroupId\<close> of each\<close>

record security_group =
  IpPermissions :: "sg_rule list"
  IpPermissionsEgress :: "sg_rule list"

definition expected_protocol :: "string \<Rightarrow> string list" where
  "expected_protocol protocol =
     (if protocol = ''tcp'' then [protocol, ''6'']
      else if protocol = ''udp'' then [protocol, ''17'']
      else [protocol])"

definition port_le :: "int option \<Rightarrow> int option \<Rightarrow> bool result" where \<comment> \<open>a comparison with \<open>None\<close> raises\<close>
  "port_le a b = (case (a, b) of (Some x, Some y) \<Rightarrow> Inr (x \<le> y) | _ \<Rightarrow> Inl TypeError)"

definition is_port_allowed_by_sg_rule :: "sg_rule \<Rightarrow> int \<Rightarrow> string \<Rightarrow> bool result" where
  "is_port_allowed_by_sg_rule rule port_to_check protocol =
     (if IpProtocol rule = Some ''-1'' then Inr True
      else if IpProtocol rule \<notin> Some ` set (expected_protocol protocol) then Inr False
      else rbind (port_le (FromPort rule) (Some port_to_check)) (\<lambda>above.
        if above then port_le (Some port_to_check) (ToPort rule) else Inr False))"

text \<open>What the rules of one direction have allowed so far.\<close>

record access =
  granted :: bool
  allowed_ranges :: "string list"
  allowed_groups :: "string option set"

definition no_access :: access where
  "no_access = \<lparr>granted = False, allowed_ranges = [], allowed_groups = {}\<rparr>"

definition populate_allowed_src_or_dst :: "sg_rule \<Rightarrow> access \<Rightarrow> access" where
  "populate_allowed_src_or_dst rule a =
     (if PrefixListIds rule \<noteq> [] then a\<lparr>granted := True\<rparr>
      else a\<lparr>granted := False,
             allowed_ranges := allowed_ranges a @ IpRanges rule @ Ipv4Ranges rule,
             allowed_groups := allowed_groups a \<union> set (UserIdGroupPairs rule)\<rparr>)"

fun check_rules :: "int \<Rightarrow> string \<Rightarrow> sg_rule list \<Rightarrow> access \<Rightarrow> access result" where
  "check_rules port protocol [] a = Inr a"
| "check_rules port protocol (rule # rules) a =
     (if granted a then Inr a
      else rbind (is_port_allowed_by_sg_rule rule port protocol) (\<lambda>allowed.
        check_rules port protocol rules (if allowed then populate_allowed_src_or_dst rule a else a)))"

text \<open>The loop over the security groups; it stops when both directions are granted.\<close>

fun check_groups :: "int \<Rightarrow> string \<Rightarrow> security_group list \<Rightarrow> access \<Rightarrow> access \<Rightarrow> (access \<times> access) result" where
  "check_groups port protocol [] src dst = Inr (src, dst)"
| "check_groups port protocol (sec_group # groups) src dst =
     rbind (check_rules port protocol (IpPermissions sec_group) src) (\<lambda>src.
     rbind (check_rules port protocol (IpPermissionsEgress sec_group) dst) (\<lambda>dst.
       if granted src \<and> granted dst then Inr (src, dst)
       else check_groups port protocol groups src dst))"

section \<open>Address ranges\<close>

fun all_covered :: "(string \<Rightarrow> string result) \<Rightarrow> network list \<Rightarrow> string list \<Rightarrow> bool result" where
  "all_covered subnet_cidr ranges [] = Inr True"
| "all_covered subnet_cidr ranges (subnet # subnets) =
     rbind (subnet_cidr subnet) (\<lambda>cidr.
     rbind (ip_network cidr) (\<lambda>net.
       if list_ex (\<lambda>r. supernet_of r net) ranges then all_covered subnet_cidr ranges subnets else Inr False))"

definition are_subnets_covered_by_cidrs :: "(string \<Rightarrow> string result) \<Rightarrow> string list \<Rightarrow> string list \<Rightarrow> bool result" where
  "are_subnets_covered_by_cidrs subnet_cidr ip_ranges subnets =
     rbind (rmap_list ip_network ip_ranges) (\<lambda>nets. all_covered subnet_cidr (collapse_addresses nets) subnets)"

type_synonym node_groups = "string list list" \<comment> \<open>the groups attached to each kind of node\<close>

definition are_ip_ranges_and_sg_accessible ::
    "(string \<Rightarrow> string result) \<Rightarrow> node_groups \<Rightarrow> access \<Rightarrow> string list \<Rightarrow> bool result" where
  "are_ip_ranges_and_sg_accessible subnet_cidr security_groups_by_nodes a subnets =
     (if list_all (\<lambda>node. list_ex (\<lambda>g. Some g \<in> allowed_groups a) node) security_groups_by_nodes then Inr True
      else are_subnets_covered_by_cidrs subnet_cidr (allowed_ranges a) subnets)"

definition or_accessible :: "(string \<Rightarrow> string result) \<Rightarrow> node_groups \<Rightarrow> access \<Rightarrow> string list \<Rightarrow> bool result" where
  "or_accessible subnet_cidr nodes a subnets =
     (if granted a then Inr True else are_ip_ranges_and_sg_accessible subnet_cidr nodes a subnets)"

definition is_access_allowed ::
    "(string list \<Rightarrow> security_group list result) \<Rightarrow> (string \<Rightarrow> string result) \<Rightarrow> string list \<Rightarrow> string list
      \<Rightarrow> int \<Rightarrow> node_groups \<Rightarrow> string \<Rightarrow> bool \<Rightarrow> bool result" where
  "is_access_allowed describe_security_groups subnet_cidr security_groups_ids subnets port nodes protocol check_outbound =
     rbind (describe_security_groups security_groups_ids) (\<lambda>groups.
     rbind (check_groups port protocol groups no_access no_access) (\<lambda>(src, dst).
       if granted src \<and> granted dst then Inr True
       else
         rbind (or_accessible subnet_cidr nodes src subnets) (\<lambda>in_access.
         rbind (or_accessible subnet_cidr nodes dst subnets) (\<lambda>out_access.
           Inr (if check_outbound then in_access \<and> out_access else in_access)))))"

section \<open>What is allowed\<close>

definition open_rules :: "int \<Rightarrow> string \<Rightarrow> sg_rule list \<Rightarrow> sg_rule list" where
  "open_rules port protocol rules = filter (\<lambda>r. is_port_allowed_by_sg_rule r port protocol = Inr True) rules"

text \<open>
  One direction is open when a rule for the port names a prefix list, or every node has a group that
  the rules name, or the address ranges of the rules together hold all addresses of the subnets.
\<close>

definition direction_open :: "network list \<Rightarrow> node_groups \<Rightarrow> sg_rule list \<Rightarrow> bool" where
  "direction_open subnets nodes rules \<longleftrightarrow>
     (\<exists>r \<in> set rules. PrefixListIds r \<noteq> [])
     \<or> (\<forall>node \<in> set nodes. \<exists>g \<in> set node. \<exists>r \<in> set rules. Some g \<in> set (UserIdGroupPairs r))
     \<or> covers (set subnets) \<subseteq> covers {n. \<exists>r \<in> set rules. \<exists>c \<in> set (IpRanges r @ Ipv4Ranges r). ip_network c = Inr n}"

definition checkable :: "int \<Rightarrow> string \<Rightarrow> sg_rule list \<Rightarrow> bool" where \<comment> \<open>no rule raises\<close>
  "checkable port protocol rules \<longleftrightarrow>
     list_all (\<lambda>r. is_ok (is_port_allowed_by_sg_rule r port protocol)
       \<and> list_all (\<lambda>c. is_ok (ip_network c)) (IpRanges r @ Ipv4Ranges r)) rules"

definition collected :: "sg_rule list \<Rightarrow> access \<Rightarrow> access \<Rightarrow> bool" where
  "collected rules a b \<longleftrightarrow>
     (granted b \<longleftrightarrow> granted a \<or> (\<exists>r \<in> set rules. PrefixListIds r \<noteq> []))
     \<and> (\<not> granted b \<longrightarrow>
          set (allowed_ranges b) = set (allowed_ranges a) \<union> (\<Union>r \<in> set rules. set (IpRanges r @ Ipv4Ranges r))
          \<and> allowed_groups b = allowed_groups a \<union> (\<Union>r \<in> set rules. set (UserIdGroupPairs r)))"

lemma collected_trans: "collected rs a b \<Longrightarrow> collected qs b c \<Longrightarrow> collected (rs @ qs) a c"
  by (auto simp: collected_def)

lemma check_rules_collected:
  assumes "checkable port protocol rules"
  shows "\<exists>b. check_rules port protocol rules a = Inr b \<and> collected (open_rules port protocol rules) a b"
  using assms
proof (induction rules arbitrary: a)
  case Nil
  then show ?case by (simp add: collected_def open_rules_def)
next
  case (Cons rule rules)
  show ?case
  proof (cases "granted a")
    case True
    then show ?thesis by (auto simp: collected_def)
  next
    case False
    from Cons.prems obtain ok where ok: "is_port_allowed_by_sg_rule rule port protocol = Inr ok"
      by (auto simp: checkable_def is_ok_iff)
    let ?a = "if ok then populate_allowed_src_or_dst rule a else a"
    from Cons.IH[of ?a] Cons.prems obtain b where b: "check_rules port protocol rules ?a = Inr b"
      "collected (open_rules port protocol rules) ?a b" by (auto simp: checkable_def)
    have "collected (if ok then [rule] else []) a ?a"
      using False by (auto simp: collected_def populate_allowed_src_or_dst_def)
    from collected_trans[OF this b(2)] have "collected (open_rules port protocol (rule # rules)) a b"
      using ok by (auto simp: open_rules_def)
    with False ok b(1) show ?thesis by simp
  qed
qed

lemma open_rules_append: "open_rules port protocol (rs @ qs) = open_rules port protocol rs @ open_rules port protocol qs"
  by (simp add: open_rules_def)

lemma collected_more: "collected rs a b \<Longrightarrow> granted b \<Longrightarrow> collected (rs @ qs) a b"
  by (auto simp: collected_def)

lemma check_groups_collected:
  assumes "checkable port protocol (concat (map IpPermissions groups))"
    and "checkable port protocol (concat (map IpPermissionsEgress groups))"
  shows "\<exists>s d. check_groups port protocol groups src dst = Inr (s, d)
    \<and> collected (open_rules port protocol (concat (map IpPermissions groups))) src s
    \<and> collected (open_rules port protocol (concat (map IpPermissionsEgress groups))) dst d"
  using assms
proof (induction groups arbitrary: src dst)
  case Nil
  then show ?case by (simp add: collected_def open_rules_def)
next
  case (Cons g groups)
  have c: "checkable port protocol (IpPermissions g)" "checkable port protocol (IpPermissionsEgress g)"
    "checkable port protocol (concat (map IpPermissions groups))"
    "checkable port protocol (concat (map IpPermissionsEgress groups))"
    using Cons.prems by (auto simp: checkable_def)
  from check_rules_collected[OF c(1), of src] obtain s where s: "check_rules port protocol (IpPermissions g) src = Inr s"
    "collected (open_rules port protocol (IpPermissions g)) src s" by blast
  from check_rules_collected[OF c(2), of dst] obtain d where d: "check_rules port protocol (IpPermissionsEgress g) dst = Inr d"
    "collected (open_rules port protocol (IpPermissionsEgress g)) dst d" by blast
  show ?case
  proof (cases "granted s \<and> granted d")
    case True
    with s d show ?thesis by (auto simp: open_rules_append collected_more)
  next
    case False
    from Cons.IH[OF c(3,4), of s d] obtain s' d' where
      *: "check_groups port protocol groups s d = Inr (s', d')"
      "collected (open_rules port protocol (concat (map IpPermissions groups))) s s'"
      "collected (open_rules port protocol (concat (map IpPermissionsEgress groups))) d d'" by blast
    with collected_trans[OF s(2) *(2)] collected_trans[OF d(2) *(3)] s(1) d(1) False show ?thesis
      by (auto simp: open_rules_append)
  qed
qed

lemma all_covered_nets:
  "rmap_list (\<lambda>s. rbind (subnet_cidr s) ip_network) subnets = Inr nets \<Longrightarrow>
   all_covered subnet_cidr ranges subnets = Inr (list_all (\<lambda>n. list_ex (\<lambda>r. supernet_of r n) ranges) nets)"
  by (induction subnets arbitrary: nets) (auto simp: rbind_Inr_iff rmap_Inr_iff)

lemma parsed_list:
  "list_all (\<lambda>c. is_ok (ip_network c)) cs \<Longrightarrow>
   \<exists>ns. rmap_list ip_network cs = Inr ns \<and> set ns = {n. \<exists>c \<in> set cs. ip_network c = Inr n}"
  by (induction cs) (auto simp: is_ok_iff)

lemma parsed_nets_valid:
  "rmap_list (\<lambda>s. rbind (subnet_cidr s) ip_network) subnets = Inr nets \<Longrightarrow> list_all valid_net nets"
  by (induction subnets arbitrary: nets) (auto simp: rbind_Inr_iff rmap_Inr_iff ip_network_valid)

lemma covered_by_cidrs:
  assumes "list_all (\<lambda>c. is_ok (ip_network c)) ranges"
    and "rmap_list (\<lambda>s. rbind (subnet_cidr s) ip_network) subnets = Inr nets"
  shows "are_subnets_covered_by_cidrs subnet_cidr ranges subnets
    = Inr (covers (set nets) \<subseteq> covers {n. \<exists>c \<in> set ranges. ip_network c = Inr n})"
proof -
  obtain ns where ns: "rmap_list ip_network ranges = Inr ns" "set ns = {n. \<exists>c \<in> set ranges. ip_network c = Inr n}"
    using parsed_list[OF assms(1)] by blast
  then have "list_all valid_net ns" by (auto simp: list_all_iff ip_network_valid)
  from ipaddress.all_in_collapsed[OF this parsed_nets_valid[OF assms(2)]] ns show ?thesis
    by (simp add: are_subnets_covered_by_cidrs_def all_covered_nets[OF assms(2)])
qed

lemma direction_decided:
  assumes "collected rules no_access a" and "list_all (\<lambda>r. list_all (\<lambda>c. is_ok (ip_network c)) (IpRanges r @ Ipv4Ranges r)) rules"
    and "rmap_list (\<lambda>s. rbind (subnet_cidr s) ip_network) subnets = Inr nets"
  shows "or_accessible subnet_cidr nodes a subnets = Inr (direction_open nets nodes rules)"
proof (cases "granted a")
  case True
  with assms(1) show ?thesis by (simp add: or_accessible_def direction_open_def collected_def no_access_def)
next
  case False
  then have sets: "set (allowed_ranges a) = (\<Union>r \<in> set rules. set (IpRanges r @ Ipv4Ranges r))"
      "allowed_groups a = (\<Union>r \<in> set rules. set (UserIdGroupPairs r))"
    and no_prefix: "\<not> (\<exists>r \<in> set rules. PrefixListIds r \<noteq> [])"
    using assms(1) by (auto simp: collected_def no_access_def)
  have groups: "list_all (\<lambda>node. list_ex (\<lambda>g. Some g \<in> allowed_groups a) node) nodes
      \<longleftrightarrow> (\<forall>node \<in> set nodes. \<exists>g \<in> set node. \<exists>r \<in> set rules. Some g \<in> set (UserIdGroupPairs r))"
    by (simp add: sets(2) list_all_iff list_ex_iff)
  have "list_all (\<lambda>c. is_ok (ip_network c)) (allowed_ranges a)"
    using assms(2) by (force simp: list_all_iff sets(1))
  from covered_by_cidrs[OF this assms(3)]
  have ranges: "are_subnets_covered_by_cidrs subnet_cidr (allowed_ranges a) subnets
      = Inr (covers (set nets) \<subseteq> covers {n. \<exists>r \<in> set rules. \<exists>c \<in> set (IpRanges r @ Ipv4Ranges r). ip_network c = Inr n})"
    by (simp add: sets(1) bex_UN del: set_append)
  show ?thesis
    using False no_prefix groups ranges
    by (auto simp: or_accessible_def are_ip_ranges_and_sg_accessible_def direction_open_def)
qed

lemma open_rules_ranges:
  "checkable port protocol rules \<Longrightarrow>
   list_all (\<lambda>r. list_all (\<lambda>c. is_ok (ip_network c)) (IpRanges r @ Ipv4Ranges r)) (open_rules port protocol rules)"
  by (auto simp: checkable_def open_rules_def list_all_iff)

text \<open>C24: A port of a file system is reachable exactly when the inbound rules of its security groups are open for
  the cluster and, where both directions are asked for, the outbound rules are as well: the rules of all
  groups count together, and address ranges that cover a subnet only together are enough.\<close>

theorem access_allowed_iff:
  assumes "describe ids = Inr groups"
    and "checkable port protocol (concat (map IpPermissions groups))"
    and "checkable port protocol (concat (map IpPermissionsEgress groups))"
    and "rmap_list (\<lambda>s. rbind (subnet_cidr s) ip_network) subnets = Inr nets"
  shows "is_access_allowed describe subnet_cidr ids subnets port nodes protocol check_outbound = Inr
    (direction_open nets nodes (open_rules port protocol (concat (map IpPermissions groups)))
     \<and> (check_outbound \<longrightarrow> direction_open nets nodes (open_rules port protocol (concat (map IpPermissionsEgress groups)))))"
proof -
  obtain s d where g: "check_groups port protocol groups no_access no_access = Inr (s, d)"
    and s: "collected (open_rules port protocol (concat (map IpPermissions groups))) no_access s"
    and d: "collected (open_rules port protocol (concat (map IpPermissionsEgress groups))) no_access d"
    using check_groups_collected[OF assms(2,3)] by blast
  note ds = direction_decided[OF s open_rules_ranges[OF assms(2)] assms(4), of nodes]
  note dd = direction_decided[OF d open_rules_ranges[OF assms(3)] assms(4), of nodes]
  show ?thesis
  proof (cases "granted s \<and> granted d")
    case True
    with ds dd have "direction_open nets nodes (open_rules port protocol (concat (map IpPermissions groups)))"
      "direction_open nets nodes (open_rules port protocol (concat (map IpPermissionsEgress groups)))"
      by (simp_all add: or_accessible_def)
    with True g show ?thesis by (simp add: is_access_allowed_def assms(1))
  next
    case False
    with g ds dd show ?thesis by (auto simp: is_access_allowed_def assms(1))
  qed
qed

definition example_rule :: sg_rule where
  "example_rule = \<lparr>IpProtocol = Some ''tcp'', FromPort = Some 2049, ToPort = Some 2049, PrefixListIds = [],
     IpRanges = [''10.0.0.0/25'', ''10.0.0.128/25''], Ipv4Ranges = [], UserIdGroupPairs = []\<rparr>"

definition example_group :: security_group where
  "example_group = \<lparr>IpPermissions = [example_rule], IpPermissionsEgress = [example_rule\<lparr>IpProtocol := Some ''-1''\<rparr>]\<rparr>"

lemma example_nets:
  "ip_network ''10.0.0.0/24'' = Inr \<lparr>net_addr = 167772160, net_prefix = 24\<rparr>"
  "ip_network ''10.0.0.0/25'' = Inr \<lparr>net_addr = 167772160, net_prefix = 25\<rparr>"
  "ip_network ''10.0.0.128/25'' = Inr \<lparr>net_addr = 167772288, net_prefix = 25\<rparr>"
  by (simp_all add: ip_network_def parse_ip_def parse_octet_def parse_prefix_def make_network_def block_size_def
      all_digits_def is_digit_def digits_value_def Let_def)

theorem access_allowed_iff_witness:
  "is_access_allowed (\<lambda>_. Inr [example_group]) (\<lambda>_. Inr ''10.0.0.0/24'') [''sg-1''] [''subnet-1''] 2049 [[]] ''tcp'' True
     = Inr True"
proof -
  have open_rules: "is_port_allowed_by_sg_rule example_rule 2049 ''tcp'' = Inr True"
    "is_port_allowed_by_sg_rule (example_rule\<lparr>IpProtocol := Some ''-1''\<rparr>) 2049 ''tcp'' = Inr True"
    by (simp_all add: is_port_allowed_by_sg_rule_def example_rule_def expected_protocol_def port_le_def)
  have ok: "checkable 2049 ''tcp'' [r]" "direction_open [\<lparr>net_addr = 167772160, net_prefix = 24\<rparr>] [[]] (open_rules 2049 ''tcp'' [r])"
    if "r = example_rule \<or> r = example_rule\<lparr>IpProtocol := Some ''-1''\<rparr>" for r
  proof -
    have r: "is_port_allowed_by_sg_rule r 2049 ''tcp'' = Inr True" "PrefixListIds r = []"
      "IpRanges r = [''10.0.0.0/25'', ''10.0.0.128/25'']" "Ipv4Ranges r = []"
      using that open_rules by (auto simp: example_rule_def)
    then show "checkable 2049 ''tcp'' [r]" by (simp add: checkable_def example_nets)
    have "covers {\<lparr>net_addr = 167772160, net_prefix = 24\<rparr>}
        \<subseteq> covers {\<lparr>net_addr = 167772160, net_prefix = 25\<rparr>, \<lparr>net_addr = 167772288, net_prefix = 25\<rparr>}"
      by (auto simp: covers_def addresses_def net_last_def block_size_def)
    moreover have "{n. \<exists>c \<in> {''10.0.0.0/25'', ''10.0.0.128/25''}. ip_network c = Inr n}
        = {\<lparr>net_addr = 167772160, net_prefix = 25\<rparr>, \<lparr>net_addr = 167772288, net_prefix = 25\<rparr>}"
      by (auto simp: example_nets)
    ultimately show "direction_open [\<lparr>net_addr = 167772160, net_prefix = 24\<rparr>] [[]] (open_rules 2049 ''tcp'' [r])"
      using r by (simp add: direction_open_def open_rules_def)
  qed
  have "rmap_list (\<lambda>s. rbind (Inr ''10.0.0.0/24'') ip_network) [''subnet-1'']
      = Inr [\<lparr>net_addr = 167772160, net_prefix = 24\<rparr>]" by (simp add: example_nets)
  from access_allowed_iff[of "\<lambda>_. Inr [example_group]" "[''sg-1'']" "[example_group]" 2049 "''tcp''",
      OF refl _ _ this, of "[[]]" True] ok
  show ?thesis by (simp add: example_group_def)
qed

section \<open>Failures and exceptions together\<close>

text \<open>
  A validator that catches exceptions keeps the failures it had added: its steps give the failures
  and then a value or an exception.
\<close>

type_synonym 'a emitting = "failures \<times> 'a result"

definition ebind :: "'a emitting \<Rightarrow> ('a \<Rightarrow> 'b emitting) \<Rightarrow> 'b emitting" where
  "ebind m f = (case m of (fs, Inl e) \<Rightarrow> (fs, Inl e) | (fs, Inr x) \<Rightarrow> (let (gs, r) = f x in (fs @ gs, r)))"

definition emit :: "bool \<Rightarrow> failure_level \<Rightarrow> string \<Rightarrow> unit emitting" where
  "emit b l message = (fail_if b l message, Inr ())"

definition calling :: "'a result \<Rightarrow> 'a emitting" where
  "calling r = ([], r)"

fun each :: "('a \<Rightarrow> unit emitting) \<Rightarrow> 'a list \<Rightarrow> unit emitting" where
  "each f [] = ([], Inr ())"
| "each f (x # xs) = ebind (f x) (\<lambda>_. each f xs)"

text \<open>\<open>except AWSClientError as e: self._add_failure(str(e), level)\<close>.\<close>

definition catch_client_error :: "failure_level \<Rightarrow> unit emitting \<Rightarrow> failures result" where
  "catch_client_error level m = (case m of
     (fs, Inr _) \<Rightarrow> Inr fs
   | (fs, Inl e) \<Rightarrow> if is_instance e ''AWSClientError'' then Inr (fs @ [(exn_text e, level)]) else Inl e)"

lemma ebind_simps [simp]:
  "ebind (fs, Inl e) f = (fs, Inl e)" "ebind (fs, Inr x) f = (fs @ fst (f x), snd (f x))"
  by (simp_all add: ebind_def case_prod_beta)

lemma each_silent:
  "each f xs = (fs, Inr u) \<Longrightarrow> fs = [] \<longleftrightarrow> (\<forall>x \<in> set xs. fst (f x) = [])"
proof (induction xs arbitrary: fs)
  case (Cons x xs)
  obtain gs r where fx: "f x = (gs, r)" by (cases "f x")
  with Cons.prems obtain v where r: "r = Inr v" by (cases r) auto
  obtain hs q where rest: "each f xs = (hs, q)" by (cases "each f xs")
  with Cons.prems fx r have "q = Inr u" "fs = gs @ hs" by auto
  with Cons.IH[of hs] rest fx show ?case by auto
qed simp

section \<open>EFA security groups\<close>

definition all_traffic_allowed :: "string \<Rightarrow> sg_rule list \<Rightarrow> bool" where
  "all_traffic_allowed security_group_id rules =
     list_ex (\<lambda>rule. IpProtocol rule = Some ''-1'' \<and> Some security_group_id \<in> set (UserIdGroupPairs rule)) rules"

fun check_in_out_rules :: "(string \<Rightarrow> security_group result) \<Rightarrow> string list \<Rightarrow> bool emitting" where
  "check_in_out_rules describe [] = ([], Inr False)"
| "check_in_out_rules describe (g # groups) =
     (case describe g of
        Inr sec_group \<Rightarrow>
          if all_traffic_allowed g (IpPermissions sec_group) \<and> all_traffic_allowed g (IpPermissionsEgress sec_group)
          then ([], Inr True) else check_in_out_rules describe groups
      | Inl e \<Rightarrow>
          if is_instance e ''AWSClientError''
          then ebind ([(exn_text e, WARNING)], Inr ()) (\<lambda>_. check_in_out_rules describe groups)
          else ([], Inl e))"

definition EfaSecurityGroupValidator ::
    "(string \<Rightarrow> security_group result) \<Rightarrow> bool \<Rightarrow> string list \<Rightarrow> string list \<Rightarrow> unit emitting" where
  "EfaSecurityGroupValidator describe efa_enabled security_groups additional_security_groups =
     (if efa_enabled \<and> security_groups \<noteq> []
      then
        ebind (check_in_out_rules describe security_groups) (\<lambda>found.
        ebind (if additional_security_groups \<noteq> [] \<and> \<not> found
               then check_in_out_rules describe additional_security_groups else ([], Inr found)) (\<lambda>found.
          emit (\<not> found) ERROR
            (''An EFA requires a security group that allows all inbound and outbound traffic '' @
             ''to and from the security group itself. See '' @
             ''https://docs.aws.amazon.com/AWSEC2/latest/UserGuide/efa-start.html#efa-start-security'')))
      else ([], Inr ()))"

definition self_open :: "(string \<Rightarrow> security_group result) \<Rightarrow> string \<Rightarrow> bool" where
  "self_open describe g \<longleftrightarrow> (\<exists>s. describe g = Inr s
     \<and> all_traffic_allowed g (IpPermissions s) \<and> all_traffic_allowed g (IpPermissionsEgress s))"

lemma check_in_out_found:
  assumes "\<forall>g e. describe g = Inl e \<longrightarrow> is_instance e ''AWSClientError''"
  shows "\<exists>ws. check_in_out_rules describe groups = (ws, Inr (\<exists>g \<in> set groups. self_open describe g))
    \<and> (\<forall>w \<in> set ws. snd w = WARNING)"
proof (induction groups)
  case (Cons g groups)
  then obtain ws where ws: "check_in_out_rules describe groups = (ws, Inr (\<exists>g \<in> set groups. self_open describe g))"
    "\<forall>w \<in> set ws. snd w = WARNING" by blast
  show ?case
  proof (cases "describe g")
    case (Inl e)
    with assms ws show ?thesis by (auto simp: self_open_def)
  next
    case (Inr s)
    with ws show ?thesis by (auto simp: self_open_def)
  qed
qed simp

text \<open>With EFA, an error is reported exactly when none of the groups of the queue and none of the additional
  ones lets all traffic in from itself and out to itself; a group that EC2 cannot describe only adds a
  warning and counts as one that does not.\<close>

lemma efa_group_error_iff:
  assumes "\<forall>g e. describe g = Inl e \<longrightarrow> is_instance e ''AWSClientError''"
  shows "\<exists>fs. EfaSecurityGroupValidator describe efa_enabled security_groups additional = (fs, Inr ())
    \<and> ((\<exists>m. (m, ERROR) \<in> set fs) \<longleftrightarrow>
        efa_enabled \<and> security_groups \<noteq> [] \<and> \<not> (\<exists>g \<in> set (security_groups @ additional). self_open describe g))"
proof -
  obtain ws where ws: "check_in_out_rules describe security_groups
      = (ws, Inr (\<exists>g \<in> set security_groups. self_open describe g))" "\<forall>w \<in> set ws. snd w = WARNING"
    using check_in_out_found[OF assms, of security_groups] by blast
  obtain vs where vs: "check_in_out_rules describe additional
      = (vs, Inr (\<exists>g \<in> set additional. self_open describe g))" "\<forall>w \<in> set vs. snd w = WARNING"
    using check_in_out_found[OF assms, of additional] by blast
  show ?thesis
    using ws vs by (auto simp: EfaSecurityGroupValidator_def emit_def fail_if_def)
qed

section \<open>Existing FSx file storages\<close>

record fsx_storage =
  sto_file_system_id :: "string option"
  sto_file_cache_id :: "string option"
  sto_vpc_id :: "string option"
  sto_interface_ids :: "string list"
  sto_type :: string

record network_interface =
  NetworkInterfaceId :: string
  VpcId :: "string option"
  Groups :: "string list"  \<comment> \<open>the \<open>GroupId\<close> of each\<close>

record network_api =
  describe_security_groups :: "string list \<Rightarrow> security_group list result"
  describe_network_interfaces_of :: "string list \<Rightarrow> network_interface list result"
  subnet_cidr_of :: "string \<Rightarrow> string result"
  subnet_vpc_of :: "string \<Rightarrow> string option result"
  describe_file_caches :: "string list \<Rightarrow> fsx_storage list result"
  get_file_systems_info :: "string list \<Rightarrow> fsx_storage list result"

definition FSX_PORTS :: "(string \<times> (string \<times> int list) list) list" where
  "FSX_PORTS =
     [(''LUSTRE'', [(''tcp'', [988])]),
      (''OPENZFS'', [(''tcp'', [111, 2049, 20001, 20002, 20003]), (''udp'', [111, 2049, 20001, 20002, 20003])]),
      (''ONTAP'', [(''tcp'', [111, 635, 2049, 4046]), (''udp'', [111, 635, 2049, 4046])])]"

definition describe_network_interfaces :: "network_api \<Rightarrow> fsx_storage list \<Rightarrow> network_interface list result" where
  "describe_network_interfaces api file_systems =
     (let ids = concat (map sto_interface_ids file_systems) in
      if ids \<noteq> [] then describe_network_interfaces_of api ids else Inr [])"

text \<open>The dictionary by id: a later answer replaces an earlier one.\<close>

definition interface_of :: "network_interface list \<Rightarrow> string \<Rightarrow> network_interface result" where
  "interface_of response i =
     (case find (\<lambda>ni. NetworkInterfaceId ni = i) (rev response) of Some ni \<Rightarrow> Inr ni | None \<Rightarrow> Inl KeyError)"

fun any_result :: "('a \<Rightarrow> bool result) \<Rightarrow> 'a list \<Rightarrow> bool result" where \<comment> \<open>a loop left at the first \<open>True\<close>\<close>
  "any_result f [] = Inr False"
| "any_result f (x # xs) = rbind (f x) (\<lambda>b. if b then Inr True else any_result f xs)"

definition get_missing_ports ::
    "network_api \<Rightarrow> node_groups \<Rightarrow> string list \<Rightarrow> network_interface list \<Rightarrow> int list \<Rightarrow> string \<Rightarrow> string
      \<Rightarrow> int list result" where
  "get_missing_ports api nodes subnet_ids network_interfaces ports protocol fs_type =
     rmap concat (rmap_list (\<lambda>port.
       rmap (\<lambda>fs_access. if fs_access then [] else [port])
         (any_result (\<lambda>network_interface.
            is_access_allowed (describe_security_groups api) (subnet_cidr_of api) (Groups network_interface)
              subnet_ids port nodes protocol (fs_type \<noteq> ''OPENZFS''))
          network_interfaces)) ports)"

definition storage_id :: "fsx_storage \<Rightarrow> string" where
  "storage_id s = show_text (if given_text (sto_file_system_id s) then sto_file_system_id s else sto_file_cache_id s)"

definition missing_ports_message :: "fsx_storage \<Rightarrow> string \<Rightarrow> int list \<Rightarrow> int list \<Rightarrow> string" where
  "missing_ports_message s protocol ports missing_ports =
     ''The current security group settings on file storage '' @ quoted (storage_id s) @ '' does not'' @
     '' satisfy mounting requirement. The file storage must be associated to a security group'' @
     '' that allows '' @ (if sto_type s = ''OPENZFS'' then ''inbound'' else ''inbound and outbound'') @ '' '' @
     map to_upper protocol @ '' traffic through ports '' @ int_list ports @ ''. '' @
     ''Missing ports: '' @ int_list missing_ports"

definition check_ports ::
    "network_api \<Rightarrow> node_groups \<Rightarrow> string list \<Rightarrow> fsx_storage \<Rightarrow> network_interface list \<Rightarrow> string \<times> int list
      \<Rightarrow> unit emitting" where
  "check_ports api nodes subnet_ids s network_interfaces item = (case item of (protocol, ports) \<Rightarrow>
     ebind (calling (get_missing_ports api nodes subnet_ids network_interfaces ports protocol (sto_type s)))
       (\<lambda>missing_ports. emit (missing_ports \<noteq> []) ERROR (missing_ports_message s protocol ports missing_ports)))"

definition check_one_storage ::
    "network_api \<Rightarrow> node_groups \<Rightarrow> string list \<Rightarrow> string option \<Rightarrow> network_interface list \<Rightarrow> fsx_storage
      \<Rightarrow> unit emitting" where
  "check_one_storage api nodes subnet_ids vpc_id data s =
     ebind (emit (sto_vpc_id s \<noteq> vpc_id) ERROR
       (''Currently only support using FSx file storage that is in the same VPC as the cluster. '' @
        ''The file system '' @ storage_id s @ '' is in '' @ show_text (sto_vpc_id s) @ ''.'')) (\<lambda>_.
     if sto_interface_ids s = []
     then emit True ERROR
       (''Unable to validate FSx security groups. The given FSx file storage '' @ quoted (storage_id s) @
        '' doesn'' @ [CHR 0x27] @ ''t have Elastic Network Interfaces attached to it.'')
     else
       ebind (calling (rmap_list (interface_of data) (sto_interface_ids s))) (\<lambda>responses.
       let network_interfaces = filter (\<lambda>ni. VpcId ni = vpc_id) responses in
       ebind (calling (case map_of FSX_PORTS (sto_type s) of None \<Rightarrow> Inl KeyError | Some ps \<Rightarrow> Inr ps)) (\<lambda>items.
         each (check_ports api nodes subnet_ids s network_interfaces) items)))"

definition check_file_storage ::
    "network_api \<Rightarrow> node_groups \<Rightarrow> fsx_storage list \<Rightarrow> string list \<Rightarrow> unit emitting" where
  "check_file_storage api nodes file_storages subnet_ids =
     ebind (calling (case subnet_ids of [] \<Rightarrow> Inl IndexError | s # _ \<Rightarrow> subnet_vpc_of api s)) (\<lambda>vpc_id.
     ebind (calling (describe_network_interfaces api file_storages)) (\<lambda>data.
       each (check_one_storage api nodes subnet_ids vpc_id data) file_storages))"

definition ExistingFsxNetworkingValidator ::
    "network_api \<Rightarrow> string list \<Rightarrow> string list \<Rightarrow> node_groups \<Rightarrow> failures result" where
  "ExistingFsxNetworkingValidator api file_storage_ids subnet_ids nodes =
     (let file_cache_ids = filter (\<lambda>id. startswith id ''fc-'') file_storage_ids in
      catch_client_error ERROR
        (ebind (if file_cache_ids \<noteq> []
                then ebind (calling (describe_file_caches api file_cache_ids)) (\<lambda>file_caches.
                       check_file_storage api nodes file_caches subnet_ids)
                else ([], Inr ())) (\<lambda>_.
         ebind (calling (get_file_systems_info api
                  (if file_cache_ids \<noteq> [] then filter (\<lambda>id. id \<notin> set file_cache_ids) file_storage_ids
                   else file_storage_ids))) (\<lambda>file_systems.
           check_file_storage api nodes file_systems subnet_ids))))"

section \<open>EFS and the availability zones\<close>

record efs_api =
  is_efs_standard :: "string \<Rightarrow> bool result"
  get_efs_mount_target_id :: "string \<Rightarrow> string \<Rightarrow> string option result"
  get_efs_mount_target_security_groups :: "string \<Rightarrow> string list result"

definition EFS_PORT :: int where "EFS_PORT = 2049"

text \<open>One zone: the failures, and the zone when a standard file system has no mount target there.\<close>

definition check_efs_zone ::
    "network_api \<Rightarrow> efs_api \<Rightarrow> string \<Rightarrow> node_groups \<Rightarrow> string \<times> string list \<Rightarrow> (failures \<times> string list) result" where
  "check_efs_zone api efs efs_id nodes zone = (case zone of (avail_zone, subnets) \<Rightarrow>
     rbind (get_efs_mount_target_id efs efs_id avail_zone) (\<lambda>target.
       if given_text target
       then
         rbind (get_efs_mount_target_security_groups efs (the target)) (\<lambda>sg_ids.
         rbind (is_access_allowed (describe_security_groups api) (subnet_cidr_of api) sg_ids subnets EFS_PORT nodes
                  ''tcp'' True) (\<lambda>allowed.
           Inr (fail_if (\<not> allowed) ERROR
             (''There is an existing Mount Target '' @ the target @ '' in the Availability Zone '' @ avail_zone @
              '' for EFS '' @ efs_id @ '', '' @
              ''but it does not have a security group that allows inbound and outbound rules to support NFS. '' @
              ''Please modify the Mount Target'' @ [CHR 0x27] @ ''s security group, to allow traffic on port 2049.''), [])))
       else rbind (is_efs_standard efs efs_id) (\<lambda>standard. Inr ([], if standard then [avail_zone] else []))))"

definition EfsIdValidator ::
    "network_api \<Rightarrow> efs_api \<Rightarrow> string \<Rightarrow> (string \<times> string list) list \<Rightarrow> node_groups \<Rightarrow> failures result" where
  "EfsIdValidator api efs efs_id avail_zones_mapping nodes =
     rbind (if 1 < length avail_zones_mapping then is_efs_standard efs efs_id else Inr True) (\<lambda>spread.
     rbind (rmap_list (check_efs_zone api efs efs_id nodes) avail_zones_mapping) (\<lambda>zones.
       let missing = concat (map snd zones) in
       Inr (fail_if (\<not> spread) ERROR
              (''Cluster has subnets located in different availability zones but EFS ('' @ efs_id @ '') uses OneZone EFS '' @
               ''storage class which works within a single Availability Zone. Please use subnets located in one '' @
               ''Availability Zone or use a standard storage class EFS.'') @
            concat (map fst zones) @
            fail_if (missing \<noteq> []) ERROR
              (''There is no existing Mount Target for EFS '' @ quoted efs_id @ '' in these Availability Zones: '' @
               quoted (text_list missing) @ ''. '' @
               ''Please create an EFS Mount Target for those availability zones.''))))"

lemma each_returns: "\<forall>x \<in> set xs. snd (f x) = Inr () \<Longrightarrow> snd (each f xs) = Inr ()"
proof (induction xs)
  case (Cons x xs)
  then obtain fs where "f x = (fs, Inr ())" by (cases "f x") auto
  with Cons show ?case by simp
qed simp

lemma each_failures:
  assumes "\<forall>x \<in> set xs. snd (f x) = Inr ()"
  shows "fst (each f xs) = concat (map (\<lambda>x. fst (f x)) xs)"
  using assms
proof (induction xs)
  case (Cons x xs)
  then obtain fs where "f x = (fs, Inr ())" by (cases "f x") auto
  with Cons show ?case by simp
qed simp

lemma any_result_all: "(\<And>x. x \<in> set xs \<Longrightarrow> f x = Inr (g x)) \<Longrightarrow> any_result f xs = Inr (\<exists>x \<in> set xs. g x)"
  by (induction xs) auto

text \<open>The storage can be mounted: in the VPC, and each of its ports is open on one of its interfaces there.\<close>

definition mountable ::
    "string option \<Rightarrow> network_interface list \<Rightarrow> (string list \<Rightarrow> int \<Rightarrow> string \<Rightarrow> bool \<Rightarrow> bool) \<Rightarrow> fsx_storage \<Rightarrow> bool" where
  "mountable vpc_id data reachable s \<longleftrightarrow>
     sto_vpc_id s = vpc_id \<and> sto_interface_ids s \<noteq> []
     \<and> (\<forall>(protocol, ports) \<in> set (the (map_of FSX_PORTS (sto_type s))). \<forall>port \<in> set ports.
          \<exists>i \<in> set (sto_interface_ids s). \<exists>ni. interface_of data i = Inr ni \<and> VpcId ni = vpc_id
            \<and> reachable (Groups ni) port protocol (sto_type s \<noteq> ''OPENZFS''))"

lemma missing_ports_known:
  assumes "\<And>g port protocol out. is_access_allowed (describe_security_groups api) (subnet_cidr_of api) g subnet_ids port
      nodes protocol out = Inr (reachable g port protocol out)"
  shows "\<exists>ms. get_missing_ports api nodes subnet_ids nis ports protocol fstype = Inr ms
    \<and> (ms = [] \<longleftrightarrow> (\<forall>port \<in> set ports. \<exists>ni \<in> set nis. reachable (Groups ni) port protocol (fstype \<noteq> ''OPENZFS'')))"
proof -
  let ?m = "\<lambda>port. if \<exists>ni \<in> set nis. reachable (Groups ni) port protocol (fstype \<noteq> ''OPENZFS'') then [] else [port]"
  have "get_missing_ports api nodes subnet_ids nis ports protocol fstype = Inr (concat (map ?m ports))"
    by (simp add: get_missing_ports_def assms any_result_all rmap_list_all)
  moreover have "concat (map ?m ports) = [] \<longleftrightarrow>
      (\<forall>port \<in> set ports. \<exists>ni \<in> set nis. reachable (Groups ni) port protocol (fstype \<noteq> ''OPENZFS''))"
    by (induction ports) auto
  ultimately show ?thesis by blast
qed

lemma interfaces_known:
  assumes "\<forall>i \<in> set is. is_ok (interface_of data i)"
  shows "\<exists>nis. rmap_list (interface_of data) is = Inr nis \<and> set nis = {ni. \<exists>i \<in> set is. interface_of data i = Inr ni}"
  using assms by (induction "is") (auto simp: is_ok_iff)

text \<open>When EC2 answers, the check of existing FSx storages ends without an exception and reports nothing exactly
  when every storage can be mounted: it is in the VPC of the head node, has network interfaces, and each
  port of its type is open, for each protocol, on one of its interfaces in that VPC (inbound only for OpenZFS).\<close>

lemma fsx_networking_accepts_iff:
  assumes "subnet_vpc_of api subnet = Inr vpc_id" and "describe_network_interfaces api storages = Inr data"
    and "\<forall>s \<in> set storages. (\<forall>i \<in> set (sto_interface_ids s). is_ok (interface_of data i))
           \<and> map_of FSX_PORTS (sto_type s) \<noteq> None"
    and "\<And>g port protocol out. is_access_allowed (describe_security_groups api) (subnet_cidr_of api) g
           (subnet # subnets) port nodes protocol out = Inr (reachable g port protocol out)"
  shows "\<exists>fs. check_file_storage api nodes storages (subnet # subnets) = (fs, Inr ())
    \<and> (fs = [] \<longleftrightarrow> (\<forall>s \<in> set storages. mountable vpc_id data reachable s))"
proof -
  let ?subnets = "subnet # subnets" and ?body = "check_one_storage api nodes (subnet # subnets) vpc_id data"
  have ports: "snd (check_ports api nodes ?subnets s nis p) = Inr () \<and> (fst (check_ports api nodes ?subnets s nis p) = [] \<longleftrightarrow>
      (\<forall>port \<in> set (snd p). \<exists>ni \<in> set nis. reachable (Groups ni) port (fst p) (sto_type s \<noteq> ''OPENZFS'')))" for s nis p
    using missing_ports_known[OF assms(4), of nis "snd p" "fst p" "sto_type s"]
    by (auto simp: check_ports_def calling_def emit_def case_prod_beta)
  have step: "snd (?body s) = Inr () \<and> (fst (?body s) = [] \<longleftrightarrow> mountable vpc_id data reachable s)"
    if s: "s \<in> set storages" for s
  proof -
    obtain nis where nis: "rmap_list (interface_of data) (sto_interface_ids s) = Inr nis"
      "set nis = {ni. \<exists>i \<in> set (sto_interface_ids s). interface_of data i = Inr ni}"
      using interfaces_known[of "sto_interface_ids s" data] assms(3) s by blast
    obtain items where items: "map_of FSX_PORTS (sto_type s) = Some items" using assms(3) s by auto
    let ?nis = "filter (\<lambda>ni. VpcId ni = vpc_id) nis"
    let ?each = "each (check_ports api nodes ?subnets s ?nis) items"
    have ex: "(\<exists>ni \<in> set ?nis. Q ni) \<longleftrightarrow> (\<exists>i \<in> set (sto_interface_ids s). \<exists>ni. interface_of data i = Inr ni
        \<and> VpcId ni = vpc_id \<and> Q ni)" for Q
      unfolding set_filter nis(2) by blast
    have all: "snd ?each = Inr ()" using ports by (intro each_returns) blast
    have "fst ?each = concat (map (\<lambda>p. fst (check_ports api nodes ?subnets s ?nis p)) items)"
      using ports by (intro each_failures) blast
    then have "fst ?each = [] \<longleftrightarrow> (\<forall>p \<in> set items. fst (check_ports api nodes ?subnets s ?nis p) = [])" by auto
    also have "\<dots> \<longleftrightarrow> (\<forall>p \<in> set items. \<forall>port \<in> set (snd p). \<exists>i \<in> set (sto_interface_ids s). \<exists>ni.
        interface_of data i = Inr ni \<and> VpcId ni = vpc_id \<and> reachable (Groups ni) port (fst p) (sto_type s \<noteq> ''OPENZFS''))"
      using ports[of s ?nis] unfolding ex by (intro ball_cong refl) blast
    finally have "mountable vpc_id data reachable s \<longleftrightarrow>
        sto_vpc_id s = vpc_id \<and> sto_interface_ids s \<noteq> [] \<and> fst ?each = []"
      using items by (simp add: mountable_def case_prod_beta)
    then show ?thesis
      using all nis(1) items by (simp add: check_one_storage_def emit_def calling_def Let_def fail_if_def)
  qed
  have "check_file_storage api nodes storages ?subnets = each ?body storages"
    by (simp add: check_file_storage_def assms(1,2) calling_def)
  moreover have "snd (each ?body storages) = Inr ()" using step by (intro each_returns) blast
  moreover have "fst (each ?body storages) = concat (map (\<lambda>s. fst (?body s)) storages)"
    using step by (intro each_failures) blast
  ultimately show ?thesis using step by (intro exI[of _ "fst (each ?body storages)"]) (auto simp: prod_eq_iff)
qed

definition open_rule :: sg_rule where
  "open_rule = \<lparr>IpProtocol = Some ''-1'', FromPort = None, ToPort = None, PrefixListIds = [''pl-1''], IpRanges = [],
     Ipv4Ranges = [], UserIdGroupPairs = []\<rparr>"

definition example_api :: network_api where
  "example_api = \<lparr>describe_security_groups = \<lambda>_. Inr [\<lparr>IpPermissions = [open_rule], IpPermissionsEgress = [open_rule]\<rparr>],
     describe_network_interfaces_of =
       \<lambda>_. Inr [\<lparr>NetworkInterfaceId = ''eni-1'', VpcId = Some ''vpc-1'', Groups = [''sg-1'']\<rparr>],
     subnet_cidr_of = \<lambda>_. Inr ''10.0.0.0/24'', subnet_vpc_of = \<lambda>_. Inr (Some ''vpc-1''),
     describe_file_caches = \<lambda>_. Inr [], get_file_systems_info = \<lambda>_. Inr []\<rparr>"

definition example_storage :: fsx_storage where
  "example_storage = \<lparr>sto_file_system_id = Some ''fs-1'', sto_file_cache_id = None, sto_vpc_id = Some ''vpc-1'',
     sto_interface_ids = [''eni-1''], sto_type = ''LUSTRE''\<rparr>"

lemma open_rule_allowed: "is_access_allowed (describe_security_groups example_api) cidr g subnets port nodes protocol out = Inr True"
  by (simp add: example_api_def is_access_allowed_def is_port_allowed_by_sg_rule_def open_rule_def
      populate_allowed_src_or_dst_def no_access_def)

text \<open>An EFS that lives in one availability zone is accepted for a cluster in a single other zone, although no
  mount target is there: the missing mount target is reported for the standard storage class only.\<close>

lemma one_zone_efs_without_target_accepted:
  assumes "is_efs_standard efs efs_id = Inr False" and "get_efs_mount_target_id efs efs_id zone = Inr None"
  shows "EfsIdValidator api efs efs_id [(zone, subnets)] nodes = Inr []"
  using assms by (simp add: EfsIdValidator_def check_efs_zone_def given_text_def)

text \<open>A standard EFS is accepted exactly when every availability zone of the cluster has a mount target whose
  security groups let NFS in and out.\<close>

lemma standard_efs_accepted_iff:
  assumes "is_efs_standard efs efs_id = Inr True"
    and "\<And>zone. get_efs_mount_target_id efs efs_id zone = Inr (target zone)"
    and "\<And>t. get_efs_mount_target_security_groups efs t = Inr (groups t)"
    and "\<And>g subnets. is_access_allowed (describe_security_groups api) (subnet_cidr_of api) g subnets 2049 nodes ''tcp'' True
           = Inr (reachable g subnets)"
  shows "EfsIdValidator api efs efs_id zones nodes = Inr [] \<longleftrightarrow>
    (\<forall>(zone, subnets) \<in> set zones. \<exists>t. target zone = Some t \<and> t \<noteq> [] \<and> reachable (groups t) subnets)"
proof -
  define ok where "ok z = (\<exists>t. target (fst z) = Some t \<and> t \<noteq> [] \<and> reachable (groups t) (snd z))" for z
  have zone: "\<exists>fs ms. check_efs_zone api efs efs_id nodes z = Inr (fs, ms) \<and> (fs = [] \<and> ms = [] \<longleftrightarrow> ok z)" for z
    using assms(1) by (auto simp: check_efs_zone_def assms(2-4) EFS_PORT_def given_text_def ok_def split: prod.splits option.splits)
  have "\<exists>rs. rmap_list (check_efs_zone api efs efs_id nodes) zones = Inr rs
      \<and> (concat (map fst rs) = [] \<and> concat (map snd rs) = [] \<longleftrightarrow> (\<forall>z \<in> set zones. ok z))"
  proof (induction zones)
    case (Cons z zs)
    obtain fs ms where z: "check_efs_zone api efs efs_id nodes z = Inr (fs, ms)" "fs = [] \<and> ms = [] \<longleftrightarrow> ok z"
      using zone by blast
    obtain rs where "rmap_list (check_efs_zone api efs efs_id nodes) zs = Inr rs"
      and rs: "concat (map fst rs) = [] \<and> concat (map snd rs) = [] \<longleftrightarrow> (\<forall>z \<in> set zs. ok z)" using Cons.IH by blast
    with z(1) have "rmap_list (check_efs_zone api efs efs_id nodes) (z # zs) = Inr ((fs, ms) # rs)" by simp
    moreover have "concat (map fst ((fs, ms) # rs)) = [] \<and> concat (map snd ((fs, ms) # rs)) = []
        \<longleftrightarrow> (\<forall>z \<in> set (z # zs). ok z)"
      unfolding list.simps ball_simps using z(2) rs by (simp only: list.map concat.simps append_is_Nil_conv fst_conv snd_conv) blast
    ultimately show ?case by blast
  qed simp
  then obtain rs where rs: "rmap_list (check_efs_zone api efs efs_id nodes) zones = Inr rs"
    "concat (map fst rs) = [] \<and> concat (map snd rs) = [] \<longleftrightarrow> (\<forall>z \<in> set zones. ok z)" by blast
  have "EfsIdValidator api efs efs_id zones nodes = Inr [] \<longleftrightarrow> concat (map fst rs) = [] \<and> concat (map snd rs) = []"
    using rs(1) assms(1) by (auto simp: EfsIdValidator_def Let_def fail_if_def)
  also have "\<dots> \<longleftrightarrow> (\<forall>z \<in> set zones. ok z)" by (rule rs(2))
  finally show ?thesis by (simp add: ok_def case_prod_beta)
qed

end
