(* ===== verification/Utils.thy ===== *)
theory Utils
  imports PyValue
begin

text \<open>
  The helper functions of \<open>pcluster/utils.py\<close>: partitions and domains, names in camel, kebab and snake
  case, chunks and batches, polling and retrying, caching with a time limit, and the mapping
  constructor of the YAML loader that refuses duplicate keys.
\<close>

section \<open>Partitions and domains\<close>

definition DEFAULT_PARTITION :: string where "DEFAULT_PARTITION = ''aws''"

definition PARTITION_MAP :: "(string \<times> string) list" where
  "PARTITION_MAP =
     [(''cn-'', ''aws-cn''), (''us-gov-'', ''aws-us-gov''), (''us-iso-'', ''aws-iso''), (''us-isob-'', ''aws-iso-b'')]"

definition DEFAULT_DOMAIN :: string where "DEFAULT_DOMAIN = ''amazonaws.com''"

definition DOMAIN_MAP :: "(string \<times> string) list" where
  "DOMAIN_MAP =
     [(''aws-cn'', ''amazonaws.com.cn''), (''aws-iso'', ''c2s.ic.gov''), (''aws-iso-b'', ''sc2s.sgov.gov'')]"

definition DEFAULT_DOCS_URL :: string where "DEFAULT_DOCS_URL = ''docs.aws.amazon.com''"

definition DOCS_URL_MAP :: "(string \<times> string) list" where
  "DOCS_URL_MAP =
     [(''aws-cn'', ''docs.amazonaws.cn''), (''aws-iso'', ''docs.c2shome.ic.gov''),
      (''aws-iso-b'', ''docs.sc2shome.sgov.gov'')]"

definition dict_get :: "(string \<times> 'v) list \<Rightarrow> string \<Rightarrow> 'v \<Rightarrow> 'v" where
  "dict_get d k dflt = (case map_of d k of None \<Rightarrow> dflt | Some v \<Rightarrow> v)"

text \<open>The first argument is the region of the environment, as \<open>get_region()\<close> gives it.\<close>

definition get_partition :: "string \<Rightarrow> string option \<Rightarrow> string" where
  "get_partition env region =
     (let r = (case region of None \<Rightarrow> env | Some r \<Rightarrow> r) in
      case find (\<lambda>(prefix, part). startswith r prefix) PARTITION_MAP of
        None \<Rightarrow> DEFAULT_PARTITION | Some (prefix, part) \<Rightarrow> part)"

definition get_url_domain_suffix :: "string \<Rightarrow> string option \<Rightarrow> string" where
  "get_url_domain_suffix env part =
     (let p = (case part of None \<Rightarrow> get_partition env None | Some p \<Rightarrow> p) in dict_get DOMAIN_MAP p DEFAULT_DOMAIN)"

definition get_docs_base_url :: "string \<Rightarrow> string option \<Rightarrow> string" where
  "get_docs_base_url env part =
     (let p = (case part of None \<Rightarrow> get_partition env None | Some p \<Rightarrow> p) in dict_get DOCS_URL_MAP p DEFAULT_DOCS_URL)"

definition get_service_endpoint :: "string \<Rightarrow> string \<Rightarrow> string \<Rightarrow> string" where
  "get_service_endpoint env service region =
     (let part = get_partition env (Some region);
          domain = get_url_domain_suffix env (Some part)
      in ''https://'' @ service @ ''.'' @ region @ ''.'' @ domain)"

definition get_service_principal :: "string \<Rightarrow> string \<Rightarrow> string \<Rightarrow> string option \<Rightarrow> bool \<Rightarrow> string result" where
  "get_service_principal env service_name part region regional =
     (let domain_suffix = get_url_domain_suffix env (Some part) in
      if regional
      then (case region of
              Some r \<Rightarrow> if r = [] then Inl ValueError else Inr (service_name @ ''.'' @ r @ ''.'' @ domain_suffix)
            | None \<Rightarrow> Inl ValueError)
      else Inr (service_name @ ''.'' @ domain_suffix))"

definition format_arn :: "string \<Rightarrow> string \<Rightarrow> string \<Rightarrow> string \<Rightarrow> string \<Rightarrow> string" where
  "format_arn part service region account resource =
     ''arn:'' @ part @ '':'' @ service @ '':'' @ region @ '':'' @ account @ '':'' @ resource"

definition policy_name_to_arn :: "string \<Rightarrow> string \<Rightarrow> string" where
  "policy_name_to_arn env policy_name = ''arn:'' @ get_partition env None @ '':iam::aws:policy/'' @ policy_name"

definition get_templates_bucket_path :: "string \<Rightarrow> string \<Rightarrow> string" where
  "get_templates_bucket_path region version =
     ''https://'' @ region @ ''-aws-parallelcluster.s3.'' @ region @ ''.'' @ get_url_domain_suffix region None @ ''/'' @
     ''parallelcluster/'' @ version @ ''/templates/''"

text \<open>\<open>s.replace(old, new)\<close> for a non-empty \<open>old\<close>.\<close>

function str_replace :: "string \<Rightarrow> string \<Rightarrow> string \<Rightarrow> string" where
  "str_replace old new s =
     (if old = [] \<or> s = [] then s
      else if startswith s old then new @ str_replace old new (drop (length old) s)
      else hd s # str_replace old new (tl s))"
  by pat_completeness auto
termination
  by (relation "measure (\<lambda>(old, new, s). length s)") auto

declare str_replace.simps [simp del]

definition replace_url_parameters :: "string \<Rightarrow> string \<Rightarrow> string" where
  "replace_url_parameters region url =
     str_replace ''${URLSuffix}'' (get_url_domain_suffix region None) (str_replace ''${Region}'' region url)"

text \<open>The address \<open>retrieve_supported_regions\<close> reads; the session may have no region.\<close>

definition supported_regions_url :: "string \<Rightarrow> string option \<Rightarrow> string" where
  "supported_regions_url env session_region =
     (let region = (case session_region of None \<Rightarrow> ''us-east-1'' | Some r \<Rightarrow> if r = [] then ''us-east-1'' else r) in
      ''https://'' @ region @ ''-aws-parallelcluster.s3.'' @ region @ ''.'' @ get_url_domain_suffix env (Some region) @
      ''/supported-regions'')"

datatype feature =
  BATCH | DCV | FSX_LUSTRE | FILE_CACHE | FSX_ONTAP | FSX_OPENZFS | SLURM_DATABASE
  | CLUSTER_HEALTH_METRICS | CAPACITY_BLOCK | NLB_SECURITY_GROUP

fun UNSUPPORTED_FEATURES_MAP :: "feature \<Rightarrow> string list" where
  "UNSUPPORTED_FEATURES_MAP BATCH = [''ap-northeast-3'', ''ap-southeast-5'', ''ap-southeast-7'', ''us-iso'']"
| "UNSUPPORTED_FEATURES_MAP FSX_LUSTRE = []"
| "UNSUPPORTED_FEATURES_MAP FILE_CACHE = [''us-iso'']"
| "UNSUPPORTED_FEATURES_MAP FSX_ONTAP = [''us-iso-w'']"
| "UNSUPPORTED_FEATURES_MAP FSX_OPENZFS = [''us-iso'']"
| "UNSUPPORTED_FEATURES_MAP SLURM_DATABASE = []"
| "UNSUPPORTED_FEATURES_MAP CLUSTER_HEALTH_METRICS = [''us-iso'']"
| "UNSUPPORTED_FEATURES_MAP CAPACITY_BLOCK = [''us-iso'']"
| "UNSUPPORTED_FEATURES_MAP NLB_SECURITY_GROUP = [''us-iso'']"
| "UNSUPPORTED_FEATURES_MAP DCV = []"

definition is_feature_supported :: "string \<Rightarrow> feature \<Rightarrow> string option \<Rightarrow> bool" where
  "is_feature_supported env feature region =
     (let r = (case region of None \<Rightarrow> env | Some r \<Rightarrow> r) in
      list_all (\<lambda>region_prefix. \<not> startswith r region_prefix) (UNSUPPORTED_FEATURES_MAP feature))"

text \<open>The address of the list of supported regions has the domain of the commercial partition in every region,
  China and the isolated ones included: the region is passed where a partition is expected.\<close>

lemma supported_regions_url_ignores_partition:
  assumes "startswith region ''cn-'' \<or> startswith region ''us-gov-'' \<or> startswith region ''us-iso-''
    \<or> startswith region ''us-isob-''"
  shows "supported_regions_url env (Some region) =
    ''https://'' @ region @ ''-aws-parallelcluster.s3.'' @ region @ ''.amazonaws.com/supported-regions''"
proof -
  have "region \<noteq> []" "region \<notin> {''aws-cn'', ''aws-iso'', ''aws-iso-b''}"
    using assms by (auto simp: startswith_def)
  then show ?thesis
    by (simp add: supported_regions_url_def get_url_domain_suffix_def dict_get_def DOMAIN_MAP_def DEFAULT_DOMAIN_def)
qed

text \<open>The endpoint of a service ends with the domain of the region's partition.\<close>

lemma service_endpoint_domain:
  "get_service_endpoint env service region = ''https://'' @ service @ ''.'' @ region @ ''.'' @
     (if startswith region ''cn-'' then ''amazonaws.com.cn''
      else if startswith region ''us-iso-'' then ''c2s.ic.gov''
      else if startswith region ''us-isob-'' then ''sc2s.sgov.gov''
      else ''amazonaws.com'')"
  by (auto simp: get_service_endpoint_def get_partition_def PARTITION_MAP_def get_url_domain_suffix_def
      dict_get_def DOMAIN_MAP_def DEFAULT_PARTITION_def DEFAULT_DOMAIN_def startswith_iff)

section \<open>Names\<close>

definition capped_prefix :: "int \<Rightarrow> string \<Rightarrow> string" where \<comment> \<open>\<open>s[:n]\<close>; a negative \<open>n\<close> counts from the end\<close>
  "capped_prefix n s = take (nat (if n < 0 then n + int (length s) else n)) s"

definition generate_random_name_with_prefix :: "string \<Rightarrow> string \<Rightarrow> string" where
  "generate_random_name_with_prefix name_prefix random_string =
     join ''-'' [capped_prefix (63 - int (length random_string) - 1) (map to_lower name_prefix), random_string]"

definition ellipsize :: "string \<Rightarrow> int \<Rightarrow> string" where
  "ellipsize text_in max_length =
     (if max_length < int (length text_in) then capped_prefix (max_length - 3) text_in @ ''...'' else text_in)"

definition to_pascal_case :: "string \<Rightarrow> string" where
  "to_pascal_case snake_case_word = concat (map str_title (split_on CHR ''_'' snake_case_word))"

definition to_camel_case :: "string \<Rightarrow> string result" where
  "to_camel_case snake_case_word =
     (case to_pascal_case snake_case_word of [] \<Rightarrow> Inl IndexError | c # r \<Rightarrow> Inr (to_lower c # r))"

text \<open>
  \<open>re.sub("(.)([A-Z][a-z]+)", ...)\<close>: a capitalized word is set off from the character before it;
  the match takes the whole word, so that the next match cannot use its last character.
\<close>

function set_off_words :: "char \<Rightarrow> string \<Rightarrow> string" where
  "set_off_words sep s =
     (case s of
        c # u # l # r \<Rightarrow>
          if c \<noteq> CHR 0x0A \<and> is_upper u \<and> is_lower l
          then c # sep # u # l # takeWhile is_lower r @ set_off_words sep (dropWhile is_lower r)
          else c # set_off_words sep (u # l # r)
      | _ \<Rightarrow> s)"
  by pat_completeness auto
termination
  by (relation "measure (\<lambda>(sep, s). length s)") (auto simp: less_Suc_eq_le le_imp_less_Suc length_dropWhile_le le_SucI)

declare set_off_words.simps [simp del]

text \<open>\<open>re.sub("([a-z0-9])([A-Z])", ...)\<close>.\<close>

fun set_off_capitals :: "char \<Rightarrow> string \<Rightarrow> string" where
  "set_off_capitals sep (a # b # s) =
     (if (is_lower a \<or> is_digit a) \<and> is_upper b then a # sep # b # set_off_capitals sep s
      else a # set_off_capitals sep (b # s))"
| "set_off_capitals sep s = s"

definition swap_char :: "char \<Rightarrow> char \<Rightarrow> string \<Rightarrow> string" where \<comment> \<open>\<open>s.replace(a, b)\<close> for single characters\<close>
  "swap_char a b s = map (\<lambda>c. if c = a then b else c) s"

definition to_kebab_case :: "string \<Rightarrow> string" where
  "to_kebab_case s =
     map to_lower (set_off_capitals CHR ''-'' (swap_char CHR ''_'' CHR ''-'' (set_off_words CHR ''-'' s)))"

definition to_snake_case :: "string \<Rightarrow> string" where
  "to_snake_case s =
     map to_lower (set_off_capitals CHR ''_'' (swap_char CHR ''-'' CHR ''_'' (set_off_words CHR ''_'' s)))"

definition get_resource_name_from_resource_arn :: "string option \<Rightarrow> string" where
  "get_resource_name_from_resource_arn resource_arn =
     (case resource_arn of None \<Rightarrow> [] | Some arn \<Rightarrow> if arn = [] then [] else last (split_on CHR ''/'' arn))"

text \<open>\<open>rfind\<close> of a character, plus one: 0 when it does not occur.\<close>

definition after_last :: "char \<Rightarrow> string \<Rightarrow> nat" where
  "after_last c s = length (dropWhile (\<lambda>x. x \<noteq> c) (rev s))"

definition split_resource_prefix :: "string option \<Rightarrow> string option \<times> string option" where
  "split_resource_prefix resource_prefix =
     (case resource_prefix of
        None \<Rightarrow> (None, None)
      | Some p \<Rightarrow>
          if p = [] then (None, None)
          else (let split_index = after_last CHR ''/'' p in
            (if split_index = 0 then None
             else if split_index = length p then Some p else Some (take split_index p),
             if split_index = length p then None
             else if split_index = 0 then Some p else Some (drop split_index p))))"

lemma after_last_split: "c \<notin> set (drop (after_last c p) p)
    \<and> (after_last c p \<noteq> 0 \<longrightarrow> last (take (after_last c p) p) = c)"
proof -
  let ?r = "rev p" let ?d = "dropWhile (\<lambda>x. x \<noteq> c) ?r" and ?t = "takeWhile (\<lambda>x. x \<noteq> c) ?r"
  have "rev (?t @ ?d) = rev ?r" by (simp only: takeWhile_dropWhile_id)
  then have parts: "p = rev ?d @ rev ?t" unfolding rev_append rev_rev_ident by (rule sym)
  have cut: "q = xs @ ys \<Longrightarrow> n = length xs \<Longrightarrow> take n q = xs \<and> drop n q = ys" for q xs ys :: string and n
    by simp
  have split: "take (after_last c p) p = rev ?d" "drop (after_last c p) p = rev ?t"
    using cut[OF parts, of "after_last c p"] by (simp_all add: after_last_def)
  have "c \<notin> set (rev ?t)" using set_takeWhileD by fastforce
  moreover have "last (rev ?d) = c" if "after_last c p \<noteq> 0"
    using that hd_dropWhile[of "\<lambda>x. x \<noteq> c" ?r] by (auto simp: after_last_def last_rev)
  ultimately show ?thesis unfolding split using parts by simp
qed

definition text_or_empty :: "string option \<Rightarrow> string" where
  "text_or_empty x = (case x of None \<Rightarrow> [] | Some s \<Rightarrow> s)"

text \<open>A resource prefix is split into an IAM path and a name prefix that together are the prefix: the path, when
  there is one, ends with a slash, and the name prefix has none.\<close>

lemma resource_prefix_round_trip:
  "case split_resource_prefix (Some p) of (path, name) \<Rightarrow>
     text_or_empty path @ text_or_empty name = p
     \<and> (path = None \<or> last (text_or_empty path) = CHR ''/'') \<and> CHR ''/'' \<notin> set (text_or_empty name)"
  using after_last_split[where p = p and c = "CHR ''/''"]
  by (cases "p = []") (auto simp: split_resource_prefix_def text_or_empty_def Let_def)

text \<open>A generated service directory has at most 63 characters and ends with the sixteen random ones.\<close>

lemma random_name_bounds:
  assumes "length random_string = 16"
  shows "length (generate_random_name_with_prefix name_prefix random_string) \<le> 63
    \<and> endswith (generate_random_name_with_prefix name_prefix random_string) (''-'' @ random_string)"
proof -
  have "length (capped_prefix 46 (map to_lower name_prefix)) \<le> 46" by (simp add: capped_prefix_def)
  then show ?thesis
    using assms by (simp add: generate_random_name_with_prefix_def endswith_def)
qed

text \<open>A shortened text has at most the given length, when that leaves room for the three dots.\<close>

lemma ellipsize_bounds:
  assumes "3 \<le> n"
  shows "int (length (ellipsize s n)) \<le> n \<and> (int (length s) \<le> n \<longrightarrow> ellipsize s n = s)"
  using assms by (simp add: ellipsize_def capped_prefix_def)

section \<open>Chunks and batches\<close>

text \<open>The chunks that the generator yields until the iterator is empty.\<close>

function grouper :: "'a list \<Rightarrow> nat \<Rightarrow> 'a list list" where
  "grouper itr n = (if take n itr = [] then [] else take n itr # grouper (drop n itr) n)"
  by pat_completeness auto
termination
  by (relation "measure (\<lambda>(itr, n). length itr)") auto

declare grouper.simps [simp del]

definition get_chunks :: "'a list \<Rightarrow> int \<Rightarrow> 'a list list result" where
  "get_chunks input_lst desired_size =
     (if desired_size = 0 then Inl ValueError
      else if desired_size < 0 then Inr []
      else Inr (map (\<lambda>k. take (nat desired_size) (drop (k * nat desired_size) input_lst))
             [0..<(length input_lst + nat desired_size - 1) div nat desired_size]))"

text \<open>The loop of the batches: what it yields, and the exception that ends it early.\<close>

fun batch_loop :: "('a \<Rightarrow> int) \<Rightarrow> int \<Rightarrow> int \<Rightarrow> 'a list \<Rightarrow> 'a list \<Rightarrow> 'a list list \<times> py_exn option" where
  "batch_loop property batch_size total_value current [] = ([], None)"
| "batch_loop property batch_size total_value current (item # items) =
     (if batch_size < property item then ([], Some ValueError)
      else
        let (yielded, total_value, current) =
              (if batch_size < total_value + property item then ([current], property item, [item])
               else ([], total_value + property item, current @ [item]));
            (rest, e) = batch_loop property batch_size total_value current items
        in (yielded @ (if items = [] then [current] else []) @ rest, e))"

definition batch_by_property_callback :: "'a list \<Rightarrow> ('a \<Rightarrow> int) \<Rightarrow> int \<Rightarrow> 'a list list \<times> py_exn option" where
  "batch_by_property_callback items property_callback batch_size =
     (if sum_list (map property_callback items) < batch_size then ([items], None)
      else batch_loop property_callback batch_size 0 [] items)"

lemma get_chunks_pos:
  assumes "0 < n"
  shows "get_chunks xs (int n) = Inr (map (\<lambda>k. take n (drop (k * n) xs)) [0..<(length xs + n - 1) div n])"
  using assms by (simp add: get_chunks_def)

lemma grouper_chunks:
  assumes "0 < n"
  shows "grouper xs n = map (\<lambda>k. take n (drop (k * n) xs)) [0..<(length xs + n - 1) div n]"
  using assms
proof (induction xs n rule: grouper.induct)
  case (1 xs n)
  show ?case
  proof (cases "xs = []")
    case True
    with 1(2) show ?thesis by (simp add: grouper.simps)
  next
    case False
    have m: "(length xs + n - 1) div n = Suc ((length (drop n xs) + n - 1) div n)"
    proof (cases "n \<le> length xs")
      case True
      then have eq: "length xs + n - 1 = (length (drop n xs) + n - 1) + n" using 1(2) by simp
      show ?thesis unfolding eq using 1(2) by (subst div_add_self2) simp_all
    next
      case lt: False
      then have "(length xs + n - 1) div n = 1" using False 1(2)
        by (intro div_nat_eqI) (auto simp: Suc_le_eq length_greater_0_conv[symmetric] simp del: length_greater_0_conv)
      with lt 1(2) show ?thesis by simp
    qed
    have take: "take n xs \<noteq> []" using False 1(2) by simp
    then have "grouper xs n = take n xs # grouper (drop n xs) n" by (simp only: grouper.simps[of xs n] if_False)
    also have "grouper (drop n xs) n =
        map (\<lambda>k. take n (drop (k * n) (drop n xs))) [0..<(length (drop n xs) + n - 1) div n]"
      by (rule 1(1)[OF take 1(2)])
    also have "take n xs # map (\<lambda>k. take n (drop (k * n) (drop n xs))) [0..<(length (drop n xs) + n - 1) div n]
        = take n xs # map (\<lambda>k. take n (drop (Suc k * n) xs)) [0..<(length (drop n xs) + n - 1) div n]"
      by (simp add: add.commute)
    also have "\<dots> = map (\<lambda>k. take n (drop (k * n) xs)) [0..<Suc ((length (drop n xs) + n - 1) div n)]"
      by (simp add: upt_conv_Cons flip: map_Suc_upt del: upt_Suc)
    finally show ?thesis by (simp only: m)
  qed
qed

lemma grouper_concat: "0 < n \<Longrightarrow> concat (grouper xs n) = xs"
proof (induction xs n rule: grouper.induct)
  case (1 xs n)
  then show ?case by (subst grouper.simps) auto
qed

lemma grouper_sizes: "0 < n \<Longrightarrow> \<forall>c \<in> set (butlast (grouper xs n)). length c = n"
proof (induction xs n rule: grouper.induct)
  case (1 xs n)
  show ?case
  proof (cases "xs = []")
    case True
    then show ?thesis by (simp add: grouper.simps)
  next
    case False
    show ?thesis
    proof (cases "drop n xs = []")
      case True
      then show ?thesis using False 1(2) by (subst grouper.simps) (simp add: grouper.simps[of "[]"])
    next
      case rest: False
      then have "grouper (drop n xs) n \<noteq> []" using 1(2) by (subst grouper.simps) simp
      moreover have take: "take n xs \<noteq> []" "length (take n xs) = n" using False rest 1(2) by auto
      moreover have "grouper xs n = take n xs # grouper (drop n xs) n"
        using take(1) by (simp only: grouper.simps[of xs n] if_False)
      moreover have "\<forall>c \<in> set (butlast (grouper (drop n xs) n)). length c = n" by (rule 1(1)[OF take(1) 1(2)])
      ultimately show ?thesis by simp
    qed
  qed
qed

text \<open>Slicing an iterable with \<open>grouper\<close> and with \<open>get_chunks\<close> gives the same chunks, which together are the
  list, each but the last of the wanted size.\<close>

lemma chunks_and_groups_agree:
  assumes "0 < n"
  shows "get_chunks xs (int n) = Inr (grouper xs n) \<and> concat (grouper xs n) = xs
    \<and> list_all (\<lambda>c. length c = n) (butlast (grouper xs n))"
  unfolding list_all_iff
  by (intro conjI grouper_concat grouper_sizes assms) (simp only: grouper_chunks[OF assms] get_chunks_pos[OF assms])

lemma batch_loop_result:
  assumes "\<forall>x \<in> set items. 0 \<le> f x \<and> f x \<le> batch_size" and "total_value = sum_list (map f current)"
    and "total_value \<le> batch_size" and "items \<noteq> []"
  shows "\<exists>bs. batch_loop f batch_size total_value current items = (bs, None) \<and> concat bs = current @ items
    \<and> (\<forall>b \<in> set bs. sum_list (map f b) \<le> batch_size)"
  using assms
proof (induction items arbitrary: total_value current)
  case (Cons x xs)
  define full where "full \<longleftrightarrow> batch_size < total_value + f x"
  define next_total where "next_total = (if full then f x else total_value + f x)"
  define next_batch where "next_batch = (if full then [x] else current @ [x])"
  have step: "batch_loop f batch_size total_value current (x # xs) =
    ((if full then [current] else []) @ (if xs = [] then [next_batch] else []) @ fst (batch_loop f batch_size next_total next_batch xs),
      snd (batch_loop f batch_size next_total next_batch xs))"
    using Cons.prems(1) by (auto simp: full_def next_total_def next_batch_def case_prod_beta)
  have inv: "next_total = sum_list (map f next_batch)" "next_total \<le> batch_size"
    using Cons.prems(1-3) by (auto simp: next_total_def next_batch_def full_def)
  show ?case
  proof (cases "xs = []")
    case True
    with step inv Cons.prems(2,3) show ?thesis by (auto simp: next_batch_def)
  next
    case False
    obtain bs where "batch_loop f batch_size next_total next_batch xs = (bs, None)" "concat bs = next_batch @ xs"
      "\<forall>b \<in> set bs. sum_list (map f b) \<le> batch_size"
      using Cons.IH[OF _ inv False] Cons.prems(1) by auto
    with step False Cons.prems(2,3) show ?thesis by (auto simp: next_batch_def)
  qed
qed simp

text \<open>When no item is larger than the batch size, the batches hold all items in their order, and none exceeds the
  batch size; no exception ends them.\<close>

lemma batches_keep_items:
  assumes "\<forall>x \<in> set items. 0 \<le> f x \<and> f x \<le> batch_size"
  shows "\<exists>bs. batch_by_property_callback items f batch_size = (bs, None) \<and> concat bs = items
    \<and> (\<forall>b \<in> set bs. sum_list (map f b) \<le> batch_size)"
proof (cases "sum_list (map f items) < batch_size \<or> items = []")
  case True
  then show ?thesis by (auto simp: batch_by_property_callback_def)
next
  case False
  then obtain x where "x \<in> set items" by (cases items) auto
  with assms have "0 \<le> batch_size" by force
  with batch_loop_result[OF assms, of 0 "[]"] False show ?thesis by (auto simp: batch_by_property_callback_def)
qed

text \<open>An item that is too large ends the batches with an exception, after the full batches before it.\<close>

lemma too_large_item:
  "batch_size < f x \<Longrightarrow> 0 \<le> f x \<Longrightarrow> batch_by_property_callback [x] f batch_size = ([], Some ValueError)"
  by (simp add: batch_by_property_callback_def)

section \<open>Waiting, retrying and caching\<close>

text \<open>
  The statuses and events that CloudFormation answers, poll after poll; \<open>None\<close> is a wait that does
  not end.
\<close>

partial_function (option) wait_for_stack ::
    "(nat \<Rightarrow> string result) \<Rightarrow> (nat \<Rightarrow> unit result) \<Rightarrow> string list \<Rightarrow> nat \<Rightarrow> string \<Rightarrow> string result option" where
  "wait_for_stack describe_stack get_stack_events waiting_states k status =
     (if status \<notin> set waiting_states then Some (Inr status)
      else (case describe_stack (Suc k) of
              Inl e \<Rightarrow> Some (Inl e)
            | Inr status' \<Rightarrow>
                (case get_stack_events k of
                   Inl e \<Rightarrow> Some (Inl e)
                 | Inr _ \<Rightarrow> wait_for_stack describe_stack get_stack_events waiting_states (Suc k) status')))"

definition verify_stack_status ::
    "(nat \<Rightarrow> string result) \<Rightarrow> (nat \<Rightarrow> unit result) \<Rightarrow> string list \<Rightarrow> string list \<Rightarrow> bool result option" where
  "verify_stack_status describe_stack get_stack_events waiting_states successful_states =
     (case describe_stack 0 of
        Inl e \<Rightarrow> Some (Inl e)
      | Inr status \<Rightarrow>
          map_option (rmap (\<lambda>s. s \<in> set successful_states))
            (wait_for_stack describe_stack get_stack_events waiting_states 0 status))"

lemma wait_for_stack_ends:
  assumes "k \<le> n" and "\<And>i. k \<le> i \<Longrightarrow> i < n \<Longrightarrow> status i \<in> set waiting" and "status n \<notin> set waiting"
    and "\<And>i. describe i = Inr (status i)" and "\<And>i. events i = Inr ()"
  shows "wait_for_stack describe events waiting k (status k) = Some (Inr (status n))"
  using assms(1,2)
proof (induction "n - k" arbitrary: k)
  case 0
  then show ?case using assms(3) by (subst wait_for_stack.simps) simp
next
  case (Suc d)
  then have "wait_for_stack describe events waiting (Suc k) (status (Suc k)) = Some (Inr (status n))" by simp
  moreover have "status k \<in> set waiting" using Suc.hyps(2) Suc.prems(2)[of k] by simp
  ultimately show ?case using assms(4,5) by (subst wait_for_stack.simps) simp
qed

text \<open>Waiting for a stack ends at the first status that is not waited for, and answers whether that status counts
  as a success.\<close>

lemma stack_wait_ends:
  assumes "\<And>i. i < n \<Longrightarrow> status i \<in> set waiting" and "status n \<notin> set waiting"
    and "\<And>i. describe i = Inr (status i)" and "\<And>i. events i = Inr ()"
  shows "verify_stack_status describe events waiting successful = Some (Inr (status n \<in> set successful))"
  using wait_for_stack_ends[of 0 n status waiting describe events] assms by (simp add: verify_stack_status_def)

text \<open>
  \<open>async_retry\<close>: \<open>func n\<close> is what the call number \<open>n\<close> does, \<open>retry_on\<close> the exceptions that are caught.
\<close>

function retry_loop :: "(int \<Rightarrow> 'a result) \<Rightarrow> (py_exn \<Rightarrow> bool) \<Rightarrow> int \<Rightarrow> int \<Rightarrow> 'a option result" where
  "retry_loop func retry_on stop_max_attempt_number attempt =
     (if attempt \<le> stop_max_attempt_number
      then (case func attempt of
              Inr result \<Rightarrow> Inr (Some result)
            | Inl err \<Rightarrow>
                if \<not> retry_on err then Inl err
                else if attempt < stop_max_attempt_number
                then retry_loop func retry_on stop_max_attempt_number (attempt + 1)
                else Inl err)
      else Inr None)"
  by pat_completeness auto
termination
  by (relation "measure (\<lambda>(func, retry_on, stop, attempt). nat (stop - attempt))") auto

declare retry_loop.simps [simp del]

definition async_retry :: "(int \<Rightarrow> 'a result) \<Rightarrow> (py_exn \<Rightarrow> bool) \<Rightarrow> int \<Rightarrow> 'a option result" where
  "async_retry func retry_on stop_max_attempt_number = retry_loop func retry_on stop_max_attempt_number 0"

definition fails_and_retries :: "(int \<Rightarrow> 'a result) \<Rightarrow> (py_exn \<Rightarrow> bool) \<Rightarrow> int \<Rightarrow> bool" where
  "fails_and_retries func retry_on i = (case func i of Inl e \<Rightarrow> retry_on e | Inr _ \<Rightarrow> False)"

lemma retry_loop_result:
  assumes "attempt \<le> stop"
  shows "\<exists>k. attempt \<le> k \<and> k \<le> stop \<and> (\<forall>i. attempt \<le> i \<longrightarrow> i < k \<longrightarrow> fails_and_retries func retry_on i)
    \<and> (k = stop \<or> \<not> fails_and_retries func retry_on k)
    \<and> retry_loop func retry_on stop attempt = rmap Some (func k)"
  using assms
proof (induction "nat (stop - attempt)" arbitrary: attempt)
  case 0
  then have "attempt = stop" by simp
  then show ?case
    by (intro exI[of _ stop]) (subst retry_loop.simps, auto split: sum.splits)
next
  case (Suc d)
  show ?case
  proof (cases "fails_and_retries func retry_on attempt")
    case False
    then show ?thesis using Suc.prems
      by (intro exI[of _ attempt]) (subst retry_loop.simps, auto simp: fails_and_retries_def split: sum.splits)
  next
    case True
    have lt: "attempt < stop" using Suc.hyps(2) by simp
    have d: "d = nat (stop - (attempt + 1))" using Suc.hyps(2) by linarith
    from lt obtain k where k: "attempt + 1 \<le> k" "k \<le> stop" "\<forall>i. attempt + 1 \<le> i \<longrightarrow> i < k \<longrightarrow> fails_and_retries func retry_on i"
      "k = stop \<or> \<not> fails_and_retries func retry_on k" "retry_loop func retry_on stop (attempt + 1) = rmap Some (func k)"
      using Suc.hyps(1)[OF d] by (metis zless_imp_add1_zle)
    have "retry_loop func retry_on stop attempt = retry_loop func retry_on stop (attempt + 1)"
      using True lt by (subst retry_loop.simps) (auto simp: fails_and_retries_def split: sum.splits)
    with k True show ?thesis by (intro exI[of _ k]) (metis int_one_le_iff_zero_less le_less linorder_not_le zle_add1_eq_le zless_add1_eq)
  qed
qed

text \<open>A retried call gives the outcome of the first call that succeeds or fails with an exception that is not
  retried, or else of the last call; it is called at most once more than the number of retries.\<close>

lemma retry_outcome:
  assumes "0 \<le> stop"
  shows "\<exists>k. 0 \<le> k \<and> k \<le> stop \<and> (\<forall>i. 0 \<le> i \<longrightarrow> i < k \<longrightarrow> fails_and_retries func retry_on i)
    \<and> (k = stop \<or> \<not> fails_and_retries func retry_on k) \<and> async_retry func retry_on stop = rmap Some (func k)"
  unfolding async_retry_def by (rule retry_loop_result[OF assms])

text \<open>
  \<open>async_timeout_cache\<close>: an entry is the future of a call, here its outcome, with the time it expires.
  The key is made of the arguments after \<open>self\<close>.
\<close>

type_synonym ('k, 'v) timed_cache = "'k \<Rightarrow> ('v \<times> int) option"

definition cached_call :: "int \<Rightarrow> ('k, 'v) timed_cache \<Rightarrow> 'k \<Rightarrow> int \<Rightarrow> 'v \<Rightarrow> 'v \<times> ('k, 'v) timed_cache" where
  "cached_call timeout cache cache_key current_time outcome =
     (case cache cache_key of
        Some (v, expires) \<Rightarrow>
          if expires < current_time
          then (outcome, cache(cache_key \<mapsto> (outcome, current_time + timeout)))
          else (v, cache)
      | None \<Rightarrow> (outcome, cache(cache_key \<mapsto> (outcome, current_time + timeout))))"

text \<open>A sequence of calls: the key, the time and what the function would give.\<close>

fun cached_calls :: "int \<Rightarrow> ('k, 'v) timed_cache \<Rightarrow> ('k \<times> int \<times> 'v) list \<Rightarrow> 'v list" where
  "cached_calls timeout cache [] = []"
| "cached_calls timeout cache ((k, t, v) # calls) =
     (let (answer, cache') = cached_call timeout cache k t v in answer # cached_calls timeout cache' calls)"

definition cache_from :: "int \<Rightarrow> ('k \<times> int \<times> 'v) list \<Rightarrow> ('k, 'v) timed_cache \<Rightarrow> bool" where
  "cache_from timeout past cache \<longleftrightarrow>
     (\<forall>k v e. cache k = Some (v, e) \<longrightarrow> (\<exists>t. (k, t, v) \<in> set past \<and> e = t + timeout))"

lemma cached_call_from:
  assumes "cache_from timeout past cache" and "0 \<le> timeout" and "cached_call timeout cache k t v = (answer, cache')"
  shows "cache_from timeout (past @ [(k, t, v)]) cache'
    \<and> (\<exists>t'. (k, t', answer) \<in> set (past @ [(k, t, v)]) \<and> t \<le> t' + timeout)"
  using assms by (fastforce simp: cached_call_def cache_from_def split: option.splits if_splits)

lemma cached_calls_fresh:
  assumes "cache_from timeout past cache" and "0 \<le> timeout"
    and "i < length calls" and "calls ! i = (k, t, v)"
  shows "\<exists>t'. (k, t', cached_calls timeout cache calls ! i) \<in> set (past @ take (Suc i) calls) \<and> t \<le> t' + timeout"
  using assms
proof (induction calls arbitrary: past cache i)
  case (Cons c calls)
  obtain k0 t0 v0 where c: "c = (k0, t0, v0)" by (cases c)
  obtain answer cache' where call: "cached_call timeout cache k0 t0 v0 = (answer, cache')" by fastforce
  note from_call = cached_call_from[OF Cons.prems(1,2) call]
  show ?case
  proof (cases i)
    case 0
    with from_call Cons.prems(4) c call show ?thesis by auto
  next
    case (Suc j)
    with Cons.prems Cons.IH[OF conjunct1[OF from_call] Cons.prems(2), of j] c call show ?thesis by auto
  qed
qed simp

text \<open>Every answer of the cached function was given by a call of the function with the same arguments, at that
  moment or before, and not earlier than the time limit.\<close>

lemma cached_answers_are_fresh:
  assumes "0 \<le> timeout" and "i < length calls" and "calls ! i = (k, t, v)"
  shows "\<exists>j t'. j \<le> i \<and> calls ! j = (k, t', cached_calls timeout (\<lambda>_. None) calls ! i) \<and> t \<le> t' + timeout"
proof -
  have "cache_from timeout [] (\<lambda>_. None :: ('b \<times> int) option)" by (simp add: cache_from_def)
  from cached_calls_fresh[OF this assms] obtain t' where
    t': "(k, t', cached_calls timeout (\<lambda>_. None) calls ! i) \<in> set (take (Suc i) calls)" "t \<le> t' + timeout" by auto
  then obtain j where "j < length (take (Suc i) calls)" "take (Suc i) calls ! j = (k, t', cached_calls timeout (\<lambda>_. None) calls ! i)"
    by (metis in_set_conv_nth)
  with t'(2) show ?thesis by (intro exI[of _ j] exI[of _ t']) simp
qed

section \<open>Case conversions\<close>

lemma set_off_words_match:
  "c \<noteq> CHR 0x0A \<Longrightarrow> is_upper u \<Longrightarrow> is_lower l \<Longrightarrow>
   set_off_words sep (c # u # l # r) = c # sep # u # l # takeWhile is_lower r @ set_off_words sep (dropWhile is_lower r)"
  by (subst set_off_words.simps) simp

lemma set_off_words_skip:
  "\<not> (c \<noteq> CHR 0x0A \<and> is_upper u \<and> is_lower l) \<Longrightarrow> set_off_words sep (c # u # l # r) = c # set_off_words sep (u # l # r)"
  by (subst set_off_words.simps) (simp only: list.case if_False)

lemma set_off_words_short [simp]:
  "set_off_words sep [] = []" "set_off_words sep [a] = [a]" "set_off_words sep [a, b] = [a, b]"
  by (subst set_off_words.simps; simp)+

text \<open>The induction that follows the matches.\<close>

lemma set_off_words_cases [case_names short match skip]:
  assumes "\<And>s. length s < 3 \<Longrightarrow> P s"
    and "\<And>c u l r. c \<noteq> CHR 0x0A \<Longrightarrow> is_upper u \<Longrightarrow> is_lower l \<Longrightarrow> P (dropWhile is_lower r) \<Longrightarrow> P (c # u # l # r)"
    and "\<And>c u l r. \<not> (c \<noteq> CHR 0x0A \<and> is_upper u \<and> is_lower l) \<Longrightarrow> P (u # l # r) \<Longrightarrow> P (c # u # l # r)"
  shows "P s"
proof (induction s rule: length_induct)
  case (1 s)
  show ?case
  proof (cases "length s < 3")
    case True
    then show ?thesis by (rule assms(1))
  next
    case False
    then obtain c u l r where s: "s = c # u # l # r" by (metis One_nat_def length_Cons list.exhaust list.size(3) numeral_3_eq_3
      zero_less_Suc Suc_less_eq)
    have "length (dropWhile is_lower r) \<le> length r" by (rule length_dropWhile_le)
    then show ?thesis using 1 s assms(2,3) by (metis le_imp_less_Suc length_Cons less_SucI lessI)
  qed
qed

lemma short_cases: "length s < 3 \<Longrightarrow> (s = [] \<Longrightarrow> P) \<Longrightarrow> (\<And>a. s = [a] \<Longrightarrow> P) \<Longrightarrow> (\<And>a b. s = [a, b] \<Longrightarrow> P) \<Longrightarrow> P"
  by (cases s rule: remdups_adj.cases) auto

definition squeeze :: "string \<Rightarrow> string" where \<comment> \<open>the text without separators, in lower case\<close>
  "squeeze s = map to_lower (filter (\<lambda>c. c \<noteq> CHR ''-'' \<and> c \<noteq> CHR ''_'') s)"

lemma squeeze_append [simp]: "squeeze (s @ t) = squeeze s @ squeeze t"
  by (simp add: squeeze_def)

lemma squeeze_Cons: "squeeze (c # s) = (if c = CHR ''-'' \<or> c = CHR ''_'' then squeeze s else to_lower c # squeeze s)"
  by (simp add: squeeze_def)

lemma squeeze_words:
  assumes "sep = CHR ''-'' \<or> sep = CHR ''_''"
  shows "squeeze (set_off_words sep s) = squeeze s"
proof (induction s rule: set_off_words_cases)
  case (short s)
  then show ?case by (elim short_cases) simp_all
next
  case (match c u l r)
  have "squeeze (takeWhile is_lower r) @ squeeze (dropWhile is_lower r) = squeeze r"
    by (metis squeeze_append takeWhile_dropWhile_id)
  with match assms show ?case by (auto simp: set_off_words_match squeeze_Cons)
next
  case (skip c u l r)
  then show ?case by (simp add: set_off_words_skip squeeze_Cons[of c])
qed

lemma squeeze_capitals: "sep = CHR ''-'' \<or> sep = CHR ''_'' \<Longrightarrow> squeeze (set_off_capitals sep s) = squeeze s"
proof (induction sep s rule: set_off_capitals.induct)
  case (1 sep a b s)
  show ?case
  proof (cases "(is_lower a \<or> is_digit a) \<and> is_upper b")
    case True
    then show ?thesis using 1(1)[OF True 1(3)] 1(3)
      by (simp add: squeeze_Cons[of a] squeeze_Cons[of b] squeeze_Cons[of sep])
  next
    case False
    then have "set_off_capitals sep (a # b # s) = a # set_off_capitals sep (b # s)" by (simp only: set_off_capitals.simps if_False)
    with 1(2)[OF False 1(3)] show ?thesis by (simp add: squeeze_Cons[of a])
  qed
qed simp_all

lemma squeeze_swap: "squeeze (swap_char CHR ''_'' CHR ''-'' s) = squeeze s"
  by (induction s) (auto simp: swap_char_def squeeze_Cons)

lemma upper_to_lower: "is_upper c \<Longrightarrow> is_lower (to_lower c) \<and> to_upper (to_lower c) = c"
  by (auto simp: is_upper_def is_lower_def to_lower_def to_upper_def Let_def)

lemma lower_to_upper: "is_lower c \<Longrightarrow> is_upper (to_upper c) \<and> to_lower (to_upper c) = c"
  by (auto simp: is_upper_def is_lower_def to_lower_def to_upper_def Let_def)

lemma lower_not_upper: "is_lower c \<Longrightarrow> \<not> is_upper c"
  by (simp add: is_upper_def is_lower_def Let_def)

lemma lower_plain: "is_lower c \<Longrightarrow> to_lower c = c"
  by (simp add: to_lower_def lower_not_upper)

lemma to_lower_not_upper: "\<not> is_upper (to_lower c)"
  using upper_to_lower[of c] lower_not_upper by (auto simp: to_lower_def)

lemma to_lower_idem: "to_lower (to_lower c) = to_lower c"
  using to_lower_not_upper[of c] by (simp add: to_lower_def)

lemma separators: "\<not> is_lower CHR ''-''" "\<not> is_lower CHR ''_''" "\<not> is_upper CHR ''-''" "\<not> is_upper CHR ''_''"
  "\<not> is_digit CHR ''-''" "\<not> is_digit CHR ''_''" "to_lower CHR ''-'' = CHR ''-''" "to_lower CHR ''_'' = CHR ''_''"
  by code_simp+

lemma to_lower_separator: "to_lower c = CHR ''-'' \<longleftrightarrow> c = CHR ''-''" "to_lower c = CHR ''_'' \<longleftrightarrow> c = CHR ''_''"
  using upper_to_lower[of c] separators by (auto simp: to_lower_def)

lemma squeeze_lower: "squeeze (map to_lower s) = squeeze s"
  by (induction s) (auto simp: squeeze_Cons to_lower_separator to_lower_idem)

lemma set_off_words_members: "c \<in> set (set_off_words sep s) \<Longrightarrow> c = sep \<or> c \<in> set s"
proof (induction s rule: set_off_words_cases)
  case (match d u l r)
  then show ?case by (auto simp: set_off_words_match dest: set_takeWhileD set_dropWhileD)
next
  case (skip d u l r)
  then show ?case by (auto simp: set_off_words_skip)
qed (elim short_cases, simp_all)

lemma set_off_capitals_members: "c \<in> set (set_off_capitals sep s) \<Longrightarrow> c = sep \<or> c \<in> set s"
  by (induction sep s rule: set_off_capitals.induct) (auto split: if_splits)

text \<open>A name in kebab case has no capital and no underscore, and is the name itself up to capitals and
  separators.\<close>

lemma kebab_case_keeps_name:
  "squeeze (to_kebab_case s) = squeeze s \<and> list_all (\<lambda>c. \<not> is_upper c \<and> c \<noteq> CHR ''_'') (to_kebab_case s)"
proof
  show "squeeze (to_kebab_case s) = squeeze s"
    by (simp add: to_kebab_case_def squeeze_lower squeeze_capitals squeeze_swap squeeze_words)
  show "list_all (\<lambda>c. \<not> is_upper c \<and> c \<noteq> CHR ''_'') (to_kebab_case s)"
    by (auto simp: to_kebab_case_def list_all_iff to_lower_not_upper to_lower_separator swap_char_def
        dest!: set_off_capitals_members split: if_splits)
qed

text \<open>A text without capitals is left alone.\<close>

lemma no_capitals_plain:
  assumes "list_all (\<lambda>c. \<not> is_upper c) s"
  shows "set_off_words sep s = s" "set_off_capitals sep s = s" "map to_lower s = s"
proof -
  show "set_off_words sep s = s"
    using assms by (induction s rule: set_off_words_cases) (auto elim: short_cases simp: set_off_words_skip)
  show "set_off_capitals sep s = s"
    using assms by (induction sep s rule: set_off_capitals.induct) auto
  show "map to_lower s = s"
    using assms by (auto simp: list_all_iff to_lower_def intro: map_idI)
qed

text \<open>Kebab and snake case differ in the separator only.\<close>

lemma swap_words: "swap_char CHR ''-'' CHR ''_'' (set_off_words CHR ''-'' s) = swap_char CHR ''-'' CHR ''_'' (set_off_words CHR ''_'' s)"
proof (induction s rule: set_off_words_cases)
  case (match c u l r)
  then show ?case by (simp add: set_off_words_match swap_char_def)
next
  case (skip c u l r)
  then show ?case by (simp add: set_off_words_skip swap_char_def)
qed (elim short_cases, simp_all)

lemma swap_capitals:
  "swap_char CHR ''-'' CHR ''_'' (set_off_capitals CHR ''-'' s) = set_off_capitals CHR ''_'' (swap_char CHR ''-'' CHR ''_'' s)"
proof (induction "CHR ''-''" s rule: set_off_capitals.induct)
  case (1 a b s)
  then show ?case by (auto simp: swap_char_def separators)
qed (simp_all add: swap_char_def)

lemma swap_swap: "swap_char CHR ''-'' CHR ''_'' (swap_char CHR ''_'' CHR ''-'' s) = swap_char CHR ''-'' CHR ''_'' s"
  by (induction s) (auto simp: swap_char_def)

lemma swap_lower: "swap_char CHR ''-'' CHR ''_'' (map to_lower s) = map to_lower (swap_char CHR ''-'' CHR ''_'' s)"
  by (induction s) (auto simp: swap_char_def to_lower_separator separators)

lemma snake_of_kebab: "to_snake_case s = swap_char CHR ''-'' CHR ''_'' (to_kebab_case s)"
  by (simp add: to_kebab_case_def to_snake_case_def swap_lower swap_capitals swap_swap swap_words)

text \<open>
  A name in camel case as its words: a first word and then words of two letters or more, each with
  a capital.
\<close>

definition cap :: "string \<Rightarrow> string" where
  "cap w = (case w of [] \<Rightarrow> [] | c # r \<Rightarrow> to_upper c # r)"

definition lower_word :: "string \<Rightarrow> bool" where
  "lower_word w \<longleftrightarrow> w \<noteq> [] \<and> list_all is_lower w"

definition camel_name :: "string \<Rightarrow> string list \<Rightarrow> string" where
  "camel_name w ws = w @ concat (map cap ws)"

definition camel_words :: "string \<Rightarrow> string list \<Rightarrow> bool" where
  "camel_words w ws \<longleftrightarrow> lower_word w \<and> list_all (\<lambda>x. lower_word x \<and> 2 \<le> length x) ws"

text \<open>What the first substitution does: it sets off the first word, the third, and so on.\<close>

fun every_other :: "bool \<Rightarrow> char \<Rightarrow> string list \<Rightarrow> string" where
  "every_other off sep [] = []"
| "every_other off sep (x # ws) = (if off then sep # cap x else cap x) @ every_other (\<not> off) sep ws"

lemma cap_word:
  assumes "lower_word x" and "2 \<le> length x"
  obtains u l r where "x = to_lower u # l # r" "cap x = u # l # r" "is_upper u" "is_lower l" "list_all is_lower r"
proof -
  from assms obtain c l r where x: "x = c # l # r" by (cases x rule: remdups_adj.cases) auto
  with assms(1) have c: "is_lower c" "is_lower l" "list_all is_lower r" by (auto simp: lower_word_def)
  show ?thesis
    using that[of "to_upper c" l r] lower_to_upper[OF c(1)] c x by (simp add: cap_def)
qed

lemma take_drop_lower:
  assumes "list_all is_lower r" and "s = [] \<or> \<not> is_lower (hd s)"
  shows "takeWhile is_lower (r @ s) = r" "dropWhile is_lower (r @ s) = s"
  using assms by (auto simp: list_all_iff takeWhile_append dropWhile_append takeWhile_eq_Nil_iff
    dropWhile_eq_self_iff)

lemma caps_start:
  assumes "list_all (\<lambda>x. lower_word x \<and> 2 \<le> length x) ws"
  shows "concat (map cap ws) = [] \<or> \<not> is_lower (hd (concat (map cap ws)))"
proof (cases ws)
  case (Cons x xs)
  with assms obtain u l r where "cap x = u # l # r" "is_upper u" by (auto elim: cap_word)
  with Cons show ?thesis using lower_not_upper by auto
qed simp

lemma set_off_words_emit: "t = [] \<or> \<not> is_upper (hd t) \<Longrightarrow> set_off_words sep (c # t) = c # set_off_words sep t"
  by (cases t rule: remdups_adj.cases) (auto simp: set_off_words_skip)

lemma lower_word_induct [consumes 1, case_names last step]:
  assumes "lower_word w" and "\<And>c. is_lower c \<Longrightarrow> P [c]"
    and "\<And>c w. is_lower c \<Longrightarrow> lower_word w \<Longrightarrow> P w \<Longrightarrow> P (c # w)"
  shows "P w"
  using assms(1)
proof (induction w)
  case (Cons c w)
  then show ?case using assms(2,3) by (cases "w = []") (auto simp: lower_word_def)
qed (simp add: lower_word_def)

lemma lower_word_hd: "lower_word w \<Longrightarrow> \<not> is_upper (hd (w @ t))"
  by (cases w) (auto simp: lower_word_def lower_not_upper)

lemma set_off_words_camel:
  assumes "list_all (\<lambda>x. lower_word x \<and> 2 \<le> length x) ws"
  shows "(\<forall>w. lower_word w \<longrightarrow> set_off_words sep (w @ concat (map cap ws)) = w @ every_other True sep ws)
    \<and> set_off_words sep (concat (map cap ws)) = every_other False sep ws"
  using assms
proof (induction ws)
  case Nil
  have "set_off_words sep w = w" if "lower_word w" for w
    using that by (induction rule: lower_word_induct) (simp_all add: set_off_words_emit lower_word_hd[of _ "[]", simplified])
  then show ?case by simp
next
  case (Cons x xs)
  then obtain u l r where x: "cap x = u # l # r" "is_upper u" "is_lower l" "list_all is_lower r"
    by (auto elim: cap_word)
  have IH: "lower_word w \<Longrightarrow> set_off_words sep (w @ concat (map cap xs)) = w @ every_other True sep xs"
    "set_off_words sep (concat (map cap xs)) = every_other False sep xs" for w
    using Cons by auto
  have word: "lower_word (l # r)" using x by (simp add: lower_word_def)
  have "set_off_words sep (concat (map cap (x # xs))) = u # set_off_words sep ((l # r) @ concat (map cap xs))"
    using x by (simp add: set_off_words_emit lower_not_upper)
  then have B: "set_off_words sep (concat (map cap (x # xs))) = every_other False sep (x # xs)"
    using IH(1)[OF word] x(1) by simp
  have A: "set_off_words sep (w @ concat (map cap (x # xs))) = w @ every_other True sep (x # xs)" if "lower_word w" for w
    using that
  proof (induction rule: lower_word_induct)
    case (last c)
    have "c \<noteq> CHR 0x0A" using last by (auto simp: is_lower_def)
    moreover have "takeWhile is_lower (r @ concat (map cap xs)) = r" "dropWhile is_lower (r @ concat (map cap xs)) = concat (map cap xs)"
      using take_drop_lower[OF x(4) caps_start] Cons.prems by auto
    ultimately show ?case using x IH(2) by (simp add: set_off_words_match)
  next
    case (step c w)
    then show ?case by (simp add: set_off_words_emit lower_word_hd del: concat.simps list.map)
  qed
  show ?case using A B by blast
qed

lemma set_off_capitals_emit:
  "t = [] \<or> \<not> ((is_lower a \<or> is_digit a) \<and> is_upper (hd t)) \<Longrightarrow> set_off_capitals sep (a # t) = a # set_off_capitals sep t"
  by (cases t) auto

lemma upper_only: "is_upper u \<Longrightarrow> \<not> is_lower u \<and> \<not> is_digit u"
  by (simp add: is_upper_def is_lower_def is_digit_def Let_def)

definition set_off_all :: "char \<Rightarrow> string list \<Rightarrow> string" where
  "set_off_all sep ws = concat (map (\<lambda>x. sep # cap x) ws)"

lemma set_off_capitals_camel:
  assumes "list_all (\<lambda>x. lower_word x \<and> 2 \<le> length x) ws" and "lower_word w"
    and "\<not> is_upper sep" "\<not> is_lower sep" "\<not> is_digit sep"
  shows "set_off_capitals sep (w @ every_other off sep ws) = w @ set_off_all sep ws"
  using assms(1,2)
proof (induction ws arbitrary: w off)
  case Nil
  from Nil.prems(2) show ?case
    by (induction rule: lower_word_induct)
      (simp_all add: set_off_all_def set_off_capitals_emit lower_word_hd[of _ "[]", simplified])
next
  case (Cons x xs)
  then obtain u l r where x: "cap x = u # l # r" "is_upper u" "is_lower l" "list_all is_lower r"
    by (auto elim: cap_word)
  have word: "lower_word (l # r)" using x by (simp add: lower_word_def)
  have rest: "set_off_capitals sep ((l # r) @ every_other b sep xs) = (l # r) @ set_off_all sep xs" for b
    using Cons.IH[OF _ word] Cons.prems(1) by simp
  from Cons.prems(2) show ?case
  proof (induction rule: lower_word_induct)
    case (last c)
    have "set_off_capitals sep (u # (l # r) @ every_other b sep xs) = u # (l # r) @ set_off_all sep xs" for b
      using rest[of b] x upper_only by (simp add: set_off_capitals_emit)
    then show ?case
      using last x rest assms(3-5) lower_not_upper
      by (cases off) (simp_all add: set_off_capitals_emit set_off_all_def)
  next
    case (step c w)
    then show ?case by (simp add: set_off_capitals_emit lower_word_hd del: every_other.simps)
  qed
qed

lemma swap_absent: "a \<notin> set s \<Longrightarrow> swap_char a b s = s"
  by (auto simp: swap_char_def intro: map_idI)

lemma lower_word_map: "lower_word w \<Longrightarrow> map to_lower w = w"
  by (auto simp: lower_word_def list_all_iff lower_plain intro: map_idI)

lemma cap_lower: "lower_word x \<and> 2 \<le> length x \<Longrightarrow> map to_lower (cap x) = x"
  by (erule conjE, erule (1) cap_word)
    (auto simp: list_all_iff lower_plain intro: map_idI)

lemma snake_of_camel:
  assumes "camel_words w ws"
  shows "to_snake_case (camel_name w ws) = w @ concat (map (\<lambda>x. CHR ''_'' # x) ws)"
proof -
  have w: "lower_word w" and ws: "list_all (\<lambda>x. lower_word x \<and> 2 \<le> length x) ws"
    using assms by (auto simp: camel_words_def)
  have "CHR ''-'' \<notin> set (w @ concat (map cap ws))"
  proof
    assume "CHR ''-'' \<in> set (w @ concat (map cap ws))"
    then consider "CHR ''-'' \<in> set w" | x where "x \<in> set ws" "CHR ''-'' \<in> set (cap x)" by auto
    then show False
    proof cases
      case 1
      then show False using w separators by (auto simp: lower_word_def list_all_iff)
    next
      case 2
      then have "to_lower CHR ''-'' \<in> set (map to_lower (cap x))" by (simp del: list.map_comp)
      with 2(1) ws cap_lower[of x] separators show False by (auto simp: lower_word_def list_all_iff)
    qed
  qed
  then have "CHR ''-'' \<notin> set (set_off_words CHR ''_'' (camel_name w ws))"
    by (auto simp: camel_name_def dest: set_off_words_members)
  then have "to_snake_case (camel_name w ws) = map to_lower (set_off_capitals CHR ''_'' (w @ every_other True CHR ''_'' ws))"
    using set_off_words_camel[OF ws] w by (simp add: to_snake_case_def swap_absent camel_name_def)
  also have "\<dots> = map to_lower (w @ set_off_all CHR ''_'' ws)"
    using set_off_capitals_camel[OF ws w] separators by simp
  also have "\<dots> = w @ concat (map (\<lambda>x. CHR ''_'' # x) ws)"
    using ws w by (auto simp: lower_word_map set_off_all_def map_concat list_all_iff separators comp_def cap_lower
        intro!: arg_cong[of _ _ concat] map_cong)
  finally show ?thesis .
qed

lemma lower_word_plain: "lower_word w \<Longrightarrow> CHR ''_'' \<notin> set w"
  using separators by (auto simp: lower_word_def list_all_iff)

lemma split_snake:
  "lower_word w \<Longrightarrow> list_all lower_word ws \<Longrightarrow>
   split_on CHR ''_'' (w @ concat (map (\<lambda>x. CHR ''_'' # x) ws)) = w # ws"
proof (induction ws arbitrary: w)
  case Nil
  then show ?case by (simp add: split_on_plain lower_word_plain)
next
  case (Cons x xs)
  then show ?case by (simp add: split_on_sep lower_word_plain)
qed

lemma title_from_lower: "list_all is_lower r \<Longrightarrow> title_from True r = r"
  by (induction r) (auto simp: lower_plain)

lemma title_lower: "lower_word w \<Longrightarrow> str_title w = cap w"
  by (cases w) (auto simp: lower_word_def str_title_def cap_def title_from_lower)

text \<open>An option of the command line leads back to the parameter of the API it was made from: a camel case name
  turned into kebab case, into snake case and into camel case is the name itself, when its words after the
  first have at least two letters.\<close>

lemma parameter_name_round_trip:
  assumes "camel_words w ws"
  shows "to_camel_case (to_snake_case (to_kebab_case (camel_name w ws))) = Inr (camel_name w ws)"
proof -
  have w: "lower_word w" and ws: "list_all lower_word ws"
    using assms by (auto simp: camel_words_def list_all_iff)
  define k where "k = to_kebab_case (camel_name w ws)"
  have "list_all (\<lambda>c. \<not> is_upper c) k"
    unfolding k_def to_kebab_case_def by (simp add: list_all_iff to_lower_not_upper)
  moreover from this have "list_all (\<lambda>c. \<not> is_upper c) (swap_char CHR ''-'' CHR ''_'' k)"
    using separators by (auto simp: swap_char_def list_all_iff)
  ultimately have "to_snake_case k = swap_char CHR ''-'' CHR ''_'' k"
    by (simp add: to_snake_case_def no_capitals_plain)
  then have "to_snake_case k = to_snake_case (camel_name w ws)" by (simp add: k_def snake_of_kebab)
  then have "to_snake_case k = w @ concat (map (\<lambda>x. CHR ''_'' # x) ws)" by (simp add: snake_of_camel[OF assms])
  then have "to_pascal_case (to_snake_case k) = cap w @ concat (map cap ws)"
    using ws by (simp add: to_pascal_case_def split_snake w title_lower list_all_iff cong: map_cong)
  moreover obtain c r where c: "w = c # r" "is_lower c" using w by (cases w) (auto simp: lower_word_def)
  ultimately show ?thesis
    using lower_to_upper[OF c(2)] c unfolding k_def[symmetric]
    by (simp add: to_camel_case_def cap_def) (simp add: camel_name_def)
qed

section \<open>Dictionaries and lists\<close>

definition get_http_tokens_setting :: "string \<Rightarrow> string" where
  "get_http_tokens_setting imds_support = (if imds_support = ''v2.0'' then ''required'' else ''optional'')"

definition remove_none_values :: "(string \<times> pyval) list \<Rightarrow> (string \<times> pyval) list" where
  "remove_none_values original_dictionary = filter (\<lambda>(key, v). v \<noteq> VNone) original_dictionary"

text \<open>An output of a stack is the dictionary of its texts.\<close>

definition get_stack_output_value :: "(string \<times> string) list list \<Rightarrow> string \<Rightarrow> string option" where
  "get_stack_output_value stack_outputs output_key =
     (case find (\<lambda>out. map_of out ''OutputKey'' = Some output_key) stack_outputs of
        None \<Rightarrow> None | Some out \<Rightarrow> map_of out ''OutputValue'')"

text \<open>The status of a capacity block: the fields that the code reads, \<open>None\<close> where one is missing.\<close>

record block_status =
  CapacityBlockId :: "string option"
  CapacityReservationStatuses :: "string option list" \<comment> \<open>the \<open>CapacityReservationId\<close> of each\<close>
  InterconnectStatus :: "string option"
  TotalCapacity :: "int option"

definition get_needed_ultraserver_capacity_block_statuses :: "block_status list \<Rightarrow> string list \<Rightarrow> block_status list" where
  "get_needed_ultraserver_capacity_block_statuses statuses capacity_reservation_ids =
     filter (\<lambda>status. CapacityReservationStatuses status \<noteq> []
       \<and> hd (CapacityReservationStatuses status) \<in> Some ` set capacity_reservation_ids) statuses"

definition capitalize :: "string \<Rightarrow> string" where
  "capitalize s = (case s of [] \<Rightarrow> [] | c # r \<Rightarrow> to_upper c # map to_lower r)"

text \<open>The hashes are parameters: \<open>sha\<close> is the hexadecimal digest of a text.\<close>

definition generate_string_hash :: "(string \<Rightarrow> string) \<Rightarrow> string \<Rightarrow> nat \<Rightarrow> string" where
  "generate_string_hash sha256 input_string hash_length = take hash_length (sha256 input_string)"

definition create_hash_suffix :: "(string \<Rightarrow> string) \<Rightarrow> string \<Rightarrow> string" where
  "create_hash_suffix sha1 string_to_hash =
     (if string_to_hash = ''HeadNode'' then string_to_hash else capitalize (take 16 (sha1 string_to_hash)))"

text \<open>
  The mapping constructor of the YAML loader, on the keys and values already constructed: a list or a
  dictionary is not hashable.
\<close>

definition hashable_key :: "pyval \<Rightarrow> bool" where
  "hashable_key k \<longleftrightarrow> \<not> is_list k \<and> \<not> is_dict k"

fun construct_no_duplicates :: "(pyval \<times> pyval) list \<Rightarrow> (pyval \<times> pyval) list \<Rightarrow> (pyval \<times> pyval) list result" where
  "construct_no_duplicates mapping [] = Inr mapping"
| "construct_no_duplicates mapping ((key, v) # nodes) =
     (if \<not> hashable_key key then Inl TypeError
      else if list_ex (\<lambda>kv. py_eq (fst kv) key) mapping
      then Inl (Exc ''ConstructorError'' (''Duplicate key found: '' @ py_str key))
      else construct_no_duplicates (mapping @ [(key, v)]) nodes)"

definition yaml_no_duplicates_constructor :: "(pyval \<times> pyval) list \<Rightarrow> (pyval \<times> pyval) list result" where
  "yaml_no_duplicates_constructor node = construct_no_duplicates [] node"

fun keys_apart :: "pyval list \<Rightarrow> bool" where
  "keys_apart [] = True"
| "keys_apart (k # ks) \<longleftrightarrow> list_all (\<lambda>l. \<not> py_eq k l) ks \<and> keys_apart ks"

lemma construct_no_duplicates_iff:
  "is_ok (construct_no_duplicates mapping nodes) \<longleftrightarrow>
     list_all (\<lambda>kv. hashable_key (fst kv)) nodes \<and> keys_apart (map fst nodes)
     \<and> list_all (\<lambda>kv. list_all (\<lambda>n. \<not> py_eq (fst kv) (fst n)) nodes) mapping"
  by (induction mapping nodes rule: construct_no_duplicates.induct) (auto simp: list_all_iff list_ex_iff)

lemma construct_no_duplicates_value:
  "construct_no_duplicates mapping nodes = Inr m \<Longrightarrow> m = mapping @ nodes"
  by (induction mapping nodes rule: construct_no_duplicates.induct) (auto split: if_splits)

text \<open>A mapping of a configuration file is loaded, with all its entries in their order, exactly when its keys can
  be keys and no two of them are equal for Python (as 1 and True are).\<close>

lemma yaml_mapping_loaded_iff:
  "yaml_no_duplicates_constructor node = Inr m \<longleftrightarrow>
     m = node \<and> list_all (\<lambda>kv. hashable_key (fst kv)) node \<and> keys_apart (map fst node)"
  using construct_no_duplicates_iff[of "[]" node] construct_no_duplicates_value[of "[]" node]
  by (auto simp: yaml_no_duplicates_constructor_def is_ok_iff)

end
