(* ===== verification/Artifacts.thy ===== *)
theory Artifacts
  imports Utils ClusterUpdate
begin

text \<open>
  The artifacts of a cluster in S3 (\<open>models/s3_bucket.py\<close>): the bucket with its policy and its
  bootstrap marker, the keys and addresses of the objects, uploads and the cleanup.  S3 is a
  parameter: the record of the operations the code calls, over an arbitrary state.  A computation
  gives a value or raises, and the state it leaves in either case.
\<close>

section \<open>Computations on a service\<close>

type_synonym ('s, 'a) act = "'s \<Rightarrow> 'a result \<times> 's"

definition unit_act :: "'a \<Rightarrow> ('s, 'a) act" where
  "unit_act x s = (Inr x, s)"

definition raise_act :: "py_exn \<Rightarrow> ('s, 'a) act" where
  "raise_act e s = (Inl e, s)"

definition bind_act :: "('s, 'a) act \<Rightarrow> ('a \<Rightarrow> ('s, 'b) act) \<Rightarrow> ('s, 'b) act" where
  "bind_act m f s = (case m s of (Inl e, t) \<Rightarrow> (Inl e, t) | (Inr x, t) \<Rightarrow> f x t)"

definition reading :: "('s \<Rightarrow> 'a result) \<Rightarrow> ('s, 'a) act" where \<comment> \<open>a call that changes nothing\<close>
  "reading r s = (r s, s)"

definition handling :: "('s, 'a) act \<Rightarrow> (py_exn \<Rightarrow> ('s, 'a) act) \<Rightarrow> ('s, 'a) act" where \<comment> \<open>\<open>try\<close> and \<open>except\<close>\<close>
  "handling m h s = (case m s of (Inl e, t) \<Rightarrow> h e t | (Inr x, t) \<Rightarrow> (Inr x, t))"

definition asking :: "('s \<Rightarrow> ('s, 'a) act) \<Rightarrow> ('s, 'a) act" where \<comment> \<open>a computation that depends on the state\<close>
  "asking m s = m s s"

definition modify :: "('s \<Rightarrow> 's) \<Rightarrow> ('s, unit) act" where
  "modify f s = (Inr (), f s)"

lemmas act_defs = asking_def modify_def unit_act_def raise_act_def bind_act_def reading_def handling_def

lemma bind_act_Inr_iff: "bind_act m f s = (Inr y, u) \<longleftrightarrow> (\<exists>x t. m s = (Inr x, t) \<and> f x t = (Inr y, u))"
  by (auto simp: bind_act_def split: prod.splits sum.splits)

text \<open>A relation between the state a computation finds and the one it leaves, whether it returns or raises.\<close>

definition moves :: "('s \<Rightarrow> 's \<Rightarrow> bool) \<Rightarrow> ('s, 'a) act \<Rightarrow> bool" where
  "moves R m \<longleftrightarrow> (\<forall>s. R s (snd (m s)))"

lemma moves_unit: "reflp R \<Longrightarrow> moves R (unit_act x)" and moves_raise: "reflp R \<Longrightarrow> moves R (raise_act e)"
  and moves_reading: "reflp R \<Longrightarrow> moves R (reading r)"
  by (simp_all add: moves_def act_defs reflpD)

lemma moves_bind: "transp R \<Longrightarrow> moves R m \<Longrightarrow> (\<And>x. moves R (f x)) \<Longrightarrow> moves R (bind_act m f)"
  unfolding moves_def bind_act_def by (auto split: prod.splits sum.splits; metis snd_conv transpD)

lemma moves_handling: "transp R \<Longrightarrow> moves R m \<Longrightarrow> (\<And>e. moves R (h e)) \<Longrightarrow> moves R (handling m h)"
  unfolding moves_def handling_def by (auto split: prod.splits sum.splits; metis snd_conv transpD)

lemma moves_asking: "(\<And>s. moves R (m s)) \<Longrightarrow> moves R (asking m)"
  by (simp add: moves_def asking_def)

lemma moves_weaken: "moves R m \<Longrightarrow> (\<And>s t. R s t \<Longrightarrow> Q s t) \<Longrightarrow> moves Q m"
  by (auto simp: moves_def)

lemma movesD: "moves R m \<Longrightarrow> m s = (r, t) \<Longrightarrow> R s t"
  by (metis moves_def snd_conv)

text \<open>
  From a state with \<open>P\<close> a computation that returns \<open>x\<close> ends with \<open>Q x\<close>, one that raises with \<open>E\<close>.
\<close>

definition leads :: "('s \<Rightarrow> bool) \<Rightarrow> ('s, 'a) act \<Rightarrow> ('a \<Rightarrow> 's \<Rightarrow> bool) \<Rightarrow> ('s \<Rightarrow> bool) \<Rightarrow> bool" where
  "leads P m Q E \<longleftrightarrow> (\<forall>s. P s \<longrightarrow> (case m s of (Inl e, t) \<Rightarrow> E t | (Inr x, t) \<Rightarrow> Q x t))"

lemma leads_bind: "leads P m R E \<Longrightarrow> (\<And>x. leads (R x) (f x) Q E) \<Longrightarrow> leads P (bind_act m f) Q E"
  unfolding leads_def bind_act_def by (fastforce split: prod.splits sum.splits)

lemma leads_handling: "leads P m Q R \<Longrightarrow> (\<And>e. leads R (h e) Q E) \<Longrightarrow> leads P (handling m h) Q E"
  unfolding leads_def handling_def by (fastforce split: prod.splits sum.splits)

lemma leads_weaken:
  "leads P m Q E \<Longrightarrow> (\<And>s. P' s \<Longrightarrow> P s) \<Longrightarrow> (\<And>x t. Q x t \<Longrightarrow> Q' x t) \<Longrightarrow> (\<And>t. E t \<Longrightarrow> E' t) \<Longrightarrow> leads P' m Q' E'"
  unfolding leads_def by (fastforce split: prod.splits sum.splits)

lemma leads_unit: "(\<And>s. P s \<Longrightarrow> Q x s) \<Longrightarrow> leads P (unit_act x) Q E"
  and leads_raise: "(\<And>s. P s \<Longrightarrow> E s) \<Longrightarrow> leads P (raise_act e) Q E"
  by (simp_all add: leads_def act_defs)

lemma leads_moves: "moves (\<lambda>s t. P s \<longrightarrow> P t) m \<Longrightarrow> leads P m (\<lambda>_. P) P"
  unfolding moves_def leads_def by (fastforce split: prod.splits sum.splits)

lemma leadsD: "leads P m Q E \<Longrightarrow> P s \<Longrightarrow> m s = (Inr x, t) \<Longrightarrow> Q x t"
  and leadsE: "leads P m Q E \<Longrightarrow> P s \<Longrightarrow> m s = (Inl e, t) \<Longrightarrow> E t"
  by (force simp: leads_def)+

lemmas moves_rules = moves_asking moves_unit moves_raise moves_reading moves_bind moves_handling

section \<open>The bucket\<close>

record 's s3_api =
  head_bucket :: "string \<Rightarrow> string option \<Rightarrow> 's \<Rightarrow> unit result"  \<comment> \<open>with the expected owner, if any\<close>
  head_object :: "string \<Rightarrow> string \<Rightarrow> 's \<Rightarrow> unit result"
  get_object :: "string \<Rightarrow> string \<Rightarrow> 's \<Rightarrow> string result"
  make_bucket :: "string \<Rightarrow> string \<Rightarrow> ('s, unit) act"
  put_bucket_versioning :: "string \<Rightarrow> ('s, unit) act"
  put_bucket_encryption :: "string \<Rightarrow> ('s, unit) act"
  put_bucket_policy :: "string \<Rightarrow> pyval \<Rightarrow> ('s, unit) act"
  put_object :: "string \<Rightarrow> string \<Rightarrow> string \<Rightarrow> ('s, string option) act"  \<comment> \<open>the version of the object, in a bucket with versions\<close>
  remove_object :: "string \<Rightarrow> string \<Rightarrow> ('s, unit) act"
  remove_object_versions :: "string \<Rightarrow> string \<Rightarrow> ('s, unit) act"
  error_code :: "py_exn \<Rightarrow> string option"
  json_loads :: "string \<Rightarrow> pyval result"

record s3_bucket =
  bucket_name :: string
  artifact_directory :: string
  cleanup_on_deletion :: bool
  is_custom_bucket :: bool
  bucket_region :: string
  bucket_account :: string

definition PCLUSTER_S3_BUCKET_VERSION :: string where "PCLUSTER_S3_BUCKET_VERSION = ''v1''"

definition PCLUSTER_BUCKET_REQUIRED_BOOTSTRAP_FEATURES :: "string list" where
  "PCLUSTER_BUCKET_REQUIRED_BOOTSTRAP_FEATURES = [''basic'', ''export-logs'']"

definition generate_s3_bucket_hash_suffix :: "(string \<Rightarrow> string) \<Rightarrow> string \<Rightarrow> string \<Rightarrow> string" where
  "generate_s3_bucket_hash_suffix sha256 account_id region = take 16 (sha256 (account_id @ region))"

definition get_bucket_name :: "(string \<Rightarrow> string) \<Rightarrow> string \<Rightarrow> string \<Rightarrow> string" where
  "get_bucket_name sha256 account_id region =
     join ''-'' [''parallelcluster'', generate_s3_bucket_hash_suffix sha256 account_id region,
       PCLUSTER_S3_BUCKET_VERSION, ''do'', ''not'', ''delete'']"

definition check_bucket_exists :: "'s s3_api \<Rightarrow> s3_bucket \<Rightarrow> bool \<Rightarrow> ('s, unit) act" where
  "check_bucket_exists api b default_bucket =
     reading (head_bucket api (bucket_name b) (if default_bucket then Some (bucket_account b) else None))"

section \<open>The policy\<close>

abbreviation text_value :: "string \<Rightarrow> pyval" where "text_value \<equiv> VStr"

definition get_bucket_policy_for_cloudwatch_logs :: "s3_bucket \<Rightarrow> pyval list result" where
  "get_bucket_policy_for_cloudwatch_logs b =
     (let part = get_partition (bucket_region b) None;
          region = bucket_region b;
          account_id = bucket_account b;
          bucket_arn = format_arn part ''s3'' '''' '''' (bucket_name b);
          bucket_arn_with_wildcard = bucket_arn @ ''/*'';
          log_group_arns =
            [format_arn part ''logs'' region account_id ''log-group:/aws/parallelcluster/*'',
             format_arn part ''logs'' region account_id ''log-group:/aws/imagebuilder/*''];
          arn_like = VDict [(''aws:SourceArn'', VList (map VStr log_group_arns))]
      in
      rmap (\<lambda>logs_service_principal.
        let principal = VDict [(''Service'', VStr logs_service_principal)] in
        [VDict [(''Sid'', VStr ''AllowReadBucketAclForExportLogs''), (''Action'', VStr ''s3:GetBucketAcl''),
           (''Effect'', VStr ''Allow''), (''Resource'', VStr bucket_arn), (''Principal'', principal),
           (''Condition'', VDict [(''StringEquals'', VDict [(''aws:SourceAccount'', VStr account_id)]), (''ArnLike'', arn_like)])],
         VDict [(''Sid'', VStr ''AllowPutObjectForExportLogs''), (''Action'', VStr ''s3:PutObject''),
           (''Effect'', VStr ''Allow''), (''Resource'', VStr bucket_arn_with_wildcard), (''Principal'', principal),
           (''Condition'', VDict
              [(''StringEquals'', VDict [(''s3:x-amz-acl'', VStr ''bucket-owner-full-control''),
                  (''aws:SourceAccount'', VStr account_id)]),
               (''ArnLike'', arn_like)])],
         VDict [(''Sid'', VStr ''DenyPutObjectOnReservedPath''), (''Action'', VStr ''s3:PutObject''),
           (''Effect'', VStr ''Deny''), (''Resource'', VStr (bucket_arn @ ''/parallelcluster/*'')), (''Principal'', principal)]])
        (get_service_principal region ''logs'' part (Some region) True))"

definition generate_bucket_policy :: "s3_bucket \<Rightarrow> pyval result" where
  "generate_bucket_policy b =
     (let part = get_partition (bucket_region b) None;
          bucket_arn = format_arn part ''s3'' '''' '''' (bucket_name b);
          deny_http_statement = VDict
            [(''Sid'', VStr ''AllowSSLRequestsOnly''), (''Effect'', VStr ''Deny''), (''Principal'', VStr ''*''),
             (''Action'', VStr ''s3:*''), (''Resource'', VList [VStr bucket_arn, VStr (bucket_arn @ ''/*'')]),
             (''Condition'', VDict [(''Bool'', VDict [(''aws:SecureTransport'', VStr ''false'')])])]
      in rmap (\<lambda>logs_policy_statements.
           VDict [(''Version'', VStr ''2012-10-17''), (''Statement'', VList (deny_http_statement # logs_policy_statements))])
         (get_bucket_policy_for_cloudwatch_logs b))"

definition configure_s3_bucket :: "'s s3_api \<Rightarrow> s3_bucket \<Rightarrow> ('s, unit) act" where
  "configure_s3_bucket api b =
     bind_act (put_bucket_versioning api (bucket_name b)) (\<lambda>_.
     bind_act (put_bucket_encryption api (bucket_name b)) (\<lambda>_.
     bind_act (reading (\<lambda>_. generate_bucket_policy b)) (\<lambda>bucket_policy.
       put_bucket_policy api (bucket_name b) bucket_policy)))"

section \<open>The bootstrap marker\<close>

definition bootstrap_key :: string where
  "bootstrap_key = ''parallelcluster/.bootstrapped''"

definition bootstrapped_content :: string where
  "bootstrapped_content =
     ''{'' @ [CHR 0x22] @ ''bootstrapped_features'' @ [CHR 0x22] @ '': ['' @
     join '', '' (map (\<lambda>f. [CHR 0x22] @ f @ [CHR 0x22]) PCLUSTER_BUCKET_REQUIRED_BOOTSTRAP_FEATURES) @ '']}''"

definition upload_bootstrapped_file :: "'s s3_api \<Rightarrow> s3_bucket \<Rightarrow> ('s, unit) act" where
  "upload_bootstrapped_file api b =
     bind_act (put_object api (bucket_name b) bootstrap_key bootstrapped_content) (\<lambda>_. unit_act ())"

definition py_in :: "string \<Rightarrow> pyval \<Rightarrow> bool result" where \<comment> \<open>\<open>feature in features\<close>\<close>
  "py_in f v = (case v of
     VList xs \<Rightarrow> Inr (list_ex (py_eq (VStr f)) xs)
   | VStr s \<Rightarrow> Inr (str_contains f s)
   | VDict d \<Rightarrow> Inr (f \<in> fst ` set d)
   | _ \<Rightarrow> Inl TypeError)"

fun all_features_in :: "pyval \<Rightarrow> string list \<Rightarrow> bool result" where
  "all_features_in features [] = Inr True"
| "all_features_in features (f # fs) =
     rbind (py_in f features) (\<lambda>present. if present then all_features_in features fs else Inr False)"

definition bootstrapped_features :: "'s s3_api \<Rightarrow> string \<Rightarrow> pyval result" where
  "bootstrapped_features api file_content = (case json_loads api file_content of
     Inr info \<Rightarrow> py_get info ''bootstrapped_features'' (VList [])
   | Inl ValueError \<Rightarrow> Inr (VList [VStr (hd PCLUSTER_BUCKET_REQUIRED_BOOTSTRAP_FEATURES)])
   | Inl e \<Rightarrow> Inl e)"

definition check_bucket_is_bootstrapped :: "'s s3_api \<Rightarrow> s3_bucket \<Rightarrow> ('s, bool) act" where
  "check_bucket_is_bootstrapped api b =
     handling
       (bind_act (reading (head_object api (bucket_name b) bootstrap_key)) (\<lambda>_.
        bind_act (reading (get_object api (bucket_name b) bootstrap_key)) (\<lambda>file_content.
          reading (\<lambda>_. rbind (bootstrapped_features api file_content) (\<lambda>features.
            all_features_in features PCLUSTER_BUCKET_REQUIRED_BOOTSTRAP_FEATURES)))))
       (\<lambda>e. if is_instance e ''AWSClientError'' \<and> error_code api e = Some ''404'' then unit_act False else raise_act e)"

section \<open>Getting the bucket\<close>

definition create_missing_bucket :: "'s s3_api \<Rightarrow> s3_bucket \<Rightarrow> py_exn \<Rightarrow> ('s, unit) act" where
  "create_missing_bucket api b e =
     (if error_code api e = Some ''404''
      then handling (make_bucket api (bucket_name b) (bucket_region b))
             (\<lambda>err. if is_instance err ''AWSClientError'' \<and> error_code api err = Some ''BucketAlreadyOwnedByYou''
                    then unit_act () else raise_act err)
      else raise_act e)"

definition configure_bucket :: "'s s3_api \<Rightarrow> s3_bucket \<Rightarrow> ('s, unit) act" where
  "configure_bucket api b = bind_act (configure_s3_bucket api b) (\<lambda>_. upload_bootstrapped_file api b)"

definition check_default_bucket :: "'s s3_api \<Rightarrow> s3_bucket \<Rightarrow> ('s, s3_bucket) act" where
  "check_default_bucket api b =
     bind_act (handling (check_bucket_exists api b True)
       (\<lambda>e. if is_instance e ''AWSClientError'' then create_missing_bucket api b e else raise_act e)) (\<lambda>_.
     bind_act (check_bucket_is_bootstrapped api b) (\<lambda>is_bootstrapped.
     bind_act (if \<not> is_bootstrapped then configure_bucket api b else unit_act ()) (\<lambda>_. unit_act b)))"

definition check_custom_bucket :: "'s s3_api \<Rightarrow> s3_bucket \<Rightarrow> ('s, s3_bucket) act" where
  "check_custom_bucket api b =
     bind_act (handling (check_bucket_exists api b False)
       (\<lambda>e. if is_instance e ''AWSClientError''
             then raise_act (Exc ''AWSClientError'' (''Unable to access config-specified S3 bucket '' @ bucket_name b @
               ''. Due to '' @ exn_text e))
             else raise_act e)) (\<lambda>_. unit_act b)"

definition init_s3_bucket ::
    "'s s3_api \<Rightarrow> (string \<Rightarrow> string) \<Rightarrow> string \<Rightarrow> string \<Rightarrow> string \<Rightarrow> string option \<Rightarrow> ('s, s3_bucket) act" where
  "init_s3_bucket api sha256 account_id region artifact_dir custom_s3_bucket =
     (let bucket = \<lparr>bucket_name = get_bucket_name sha256 account_id region, artifact_directory = artifact_dir,
            cleanup_on_deletion = True, is_custom_bucket = False, bucket_region = region, bucket_account = account_id\<rparr> in
      case custom_s3_bucket of
        None \<Rightarrow> check_default_bucket api bucket
      | Some name \<Rightarrow>
          if name = [] then check_default_bucket api bucket
          else check_custom_bucket api (bucket\<lparr>bucket_name := name, is_custom_bucket := True\<rparr>))"

section \<open>Objects\<close>

datatype s3_file_type = ASSETS | CONFIGS | TEMPLATES | CUSTOM_RESOURCES

fun file_type_value :: "s3_file_type \<Rightarrow> string" where
  "file_type_value ASSETS = ''assets''"
| "file_type_value CONFIGS = ''configs''"
| "file_type_value TEMPLATES = ''templates''"
| "file_type_value CUSTOM_RESOURCES = ''custom_resources''"

definition get_object_key :: "s3_bucket \<Rightarrow> s3_file_type \<Rightarrow> string \<Rightarrow> string" where
  "get_object_key b object_type object_name = join ''/'' [artifact_directory b, file_type_value object_type, object_name]"

text \<open>The content is already in the format of the file.\<close>

definition upload_file :: "'s s3_api \<Rightarrow> s3_bucket \<Rightarrow> string \<Rightarrow> string \<Rightarrow> s3_file_type \<Rightarrow> ('s, string option) act" where
  "upload_file api b content file_name file_type =
     put_object api (bucket_name b) (get_object_key b file_type file_name) content"

definition upload_config :: "'s s3_api \<Rightarrow> s3_bucket \<Rightarrow> string \<Rightarrow> string \<Rightarrow> ('s, string option) act" where
  "upload_config api b config config_name = upload_file api b config config_name CONFIGS"

definition upload_cfn_template :: "'s s3_api \<Rightarrow> s3_bucket \<Rightarrow> string \<Rightarrow> string \<Rightarrow> ('s, string option) act" where
  "upload_cfn_template api b template_body template_name = upload_file api b template_body template_name TEMPLATES"

definition upload_cfn_asset :: "'s s3_api \<Rightarrow> s3_bucket \<Rightarrow> string \<Rightarrow> string \<Rightarrow> ('s, string option) act" where
  "upload_cfn_asset api b asset_file_content asset_name = upload_file api b asset_file_content asset_name ASSETS"

text \<open>A resource directory as its entries: a directory is uploaded zipped, a file as it is.\<close>

datatype entry = Directory string string | File string string \<comment> \<open>name and content\<close>

fun upload_resources :: "'s s3_api \<Rightarrow> s3_bucket \<Rightarrow> entry list \<Rightarrow> string \<Rightarrow> ('s, unit) act" where
  "upload_resources api b [] custom_artifacts_name = unit_act ()"
| "upload_resources api b (res # entries) custom_artifacts_name =
     bind_act (case res of
         Directory name zipped \<Rightarrow>
           put_object api (bucket_name b) (get_object_key b CUSTOM_RESOURCES custom_artifacts_name) zipped
       | File name content \<Rightarrow>
           put_object api (bucket_name b) (get_object_key b CUSTOM_RESOURCES name) content)
       (\<lambda>_. upload_resources api b entries custom_artifacts_name)"

definition get_file :: "'s s3_api \<Rightarrow> s3_bucket \<Rightarrow> string \<Rightarrow> s3_file_type \<Rightarrow> ('s, string) act" where
  "get_file api b file_name file_type = reading (get_object api (bucket_name b) (get_object_key b file_type file_name))"

definition get_file_url :: "s3_bucket \<Rightarrow> string \<Rightarrow> s3_file_type \<Rightarrow> string" where
  "get_file_url b file_name file_type =
     ''https://'' @ bucket_name b @ ''.s3.'' @ bucket_region b @ ''.'' @
     get_url_domain_suffix (bucket_region b) (Some (get_partition (bucket_region b) None)) @ ''/'' @
     get_object_key b file_type file_name"

definition get_file_s3_url :: "s3_bucket \<Rightarrow> string \<Rightarrow> s3_file_type \<Rightarrow> string" where
  "get_file_s3_url b file_name file_type =
     ''s3://'' @ bucket_name b @ ''/'' @ get_object_key b file_type file_name"

definition delete_s3_artifacts :: "'s s3_api \<Rightarrow> s3_bucket \<Rightarrow> ('s, unit) act" where
  "delete_s3_artifacts api b =
     (if artifact_directory b \<noteq> [] \<and> cleanup_on_deletion b
      then handling
        (bind_act (remove_object api (bucket_name b) (artifact_directory b @ ''/'')) (\<lambda>_.
           remove_object_versions api (bucket_name b) (artifact_directory b @ ''/'')))
        (\<lambda>e. if is_instance e ''AWSClientError'' then unit_act () else raise_act e)
      else unit_act ())"

text \<open>
  \<open>re.match("s3://(.*?)/(.*)", url)\<close>: the bucket ends at the first slash, and neither part reaches
  over a newline.  The value is the bucket, the key and the last part of the key.
\<close>

definition parse_bucket_url :: "string \<Rightarrow> (string \<times> string \<times> string) result" where
  "parse_bucket_url url =
     (let rest = drop 5 url;
          bucket = takeWhile (\<lambda>c. c \<noteq> CHR ''/'') rest;
          key = takeWhile (\<lambda>c. c \<noteq> CHR 0x0A) (drop (length bucket + 1) rest)
      in if startswith url ''s3://'' \<and> length bucket < length rest \<and> CHR 0x0A \<notin> set bucket
         then Inr (bucket, key, last (split_on CHR ''/'' key))
         else Inl (Exc ''Exception'' (''Invalid S3 url: '' @ url)))"

text \<open>The S3 address of a file of the cluster is read back as its bucket, its key and its name.\<close>

lemma s3_url_round_trip:
  assumes "CHR ''/'' \<notin> set (bucket_name b)" and "CHR 0x0A \<notin> set (bucket_name b)"
    and "CHR 0x0A \<notin> set (artifact_directory b)" and "CHR 0x0A \<notin> set name" and "CHR ''/'' \<notin> set name"
  shows "parse_bucket_url (get_file_s3_url b name file_type) = Inr (bucket_name b, get_object_key b file_type name, name)"
proof -
  let ?key = "get_object_key b file_type name"
  have "CHR 0x0A \<notin> set ?key" using assms by (cases file_type) (auto simp: get_object_key_def)
  then have key: "takeWhile (\<lambda>c. c \<noteq> CHR 0x0A) ?key = ?key" by (auto simp: takeWhile_eq_all_conv)
  have bucket: "takeWhile (\<lambda>c. c \<noteq> CHR ''/'') (bucket_name b @ CHR ''/'' # ?key) = bucket_name b"
    using assms(1) by (auto simp: takeWhile_append)
  have "last (split_on CHR ''/'' ?key) = name"
    using assms(5) by (simp add: get_object_key_def split_on_append split_on_plain split_on_nonempty)
  with bucket assms(2) show ?thesis
    by (simp add: key parse_bucket_url_def get_file_s3_url_def startswith_def Let_def)
qed


section \<open>What the service promises\<close>

text \<open>
  What can be seen of the service's state, and the documented effect of each operation on it: a
  call that returns has taken effect, one that raises may have, and neither touches anything else.
\<close>

record 's s3_view =
  versioned :: "string \<Rightarrow> 's \<Rightarrow> bool"
  encrypted :: "string \<Rightarrow> 's \<Rightarrow> bool"
  bucket_policy :: "string \<Rightarrow> 's \<Rightarrow> pyval option"
  object_at :: "string \<Rightarrow> string \<Rightarrow> 's \<Rightarrow> string option"

definition settings_kept :: "'s s3_view \<Rightarrow> 's \<Rightarrow> 's \<Rightarrow> bool" where
  "settings_kept v s t \<longleftrightarrow> (\<forall>b. versioned v b s = versioned v b t \<and> encrypted v b s = encrypted v b t \<and>
     bucket_policy v b s = bucket_policy v b t)"

definition objects_kept :: "'s s3_view \<Rightarrow> 's \<Rightarrow> 's \<Rightarrow> bool" where
  "objects_kept v s t \<longleftrightarrow> (\<forall>b k. object_at v b k s = object_at v b k t)"

definition settings_laws :: "'s s3_api \<Rightarrow> 's s3_view \<Rightarrow> bool" where
  "settings_laws api v \<longleftrightarrow>
     (\<forall>b region s r t. make_bucket api b region s = (r, t) \<longrightarrow> settings_kept v s t \<and> objects_kept v s t) \<and>
     (\<forall>b s r t. put_bucket_versioning api b s = (r, t) \<longrightarrow> objects_kept v s t \<and>
        (\<forall>b'. (versioned v b' s \<longrightarrow> versioned v b' t) \<and> encrypted v b' s = encrypted v b' t \<and>
           bucket_policy v b' s = bucket_policy v b' t) \<and> (is_ok r \<longrightarrow> versioned v b t)) \<and>
     (\<forall>b s r t. put_bucket_encryption api b s = (r, t) \<longrightarrow> objects_kept v s t \<and>
        (\<forall>b'. (encrypted v b' s \<longrightarrow> encrypted v b' t) \<and> versioned v b' s = versioned v b' t \<and>
           bucket_policy v b' s = bucket_policy v b' t) \<and> (is_ok r \<longrightarrow> encrypted v b t)) \<and>
     (\<forall>b p s r t. put_bucket_policy api b p s = (r, t) \<longrightarrow> objects_kept v s t \<and>
        (\<forall>b'. versioned v b' s = versioned v b' t \<and> encrypted v b' s = encrypted v b' t \<and>
           (bucket_policy v b' t = bucket_policy v b' s \<or> b' = b \<and> bucket_policy v b' t = Some p)) \<and>
        (is_ok r \<longrightarrow> bucket_policy v b t = Some p))"

definition objects_laws :: "'s s3_api \<Rightarrow> 's s3_view \<Rightarrow> bool" where
  "objects_laws api v \<longleftrightarrow>
     (\<forall>b k c s. get_object api b k s = Inr c \<longrightarrow> object_at v b k s = Some c) \<and>
     (\<forall>b k c s r t. put_object api b k c s = (r, t) \<longrightarrow> settings_kept v s t \<and>
        (\<forall>b' k'. object_at v b' k' t = object_at v b' k' s \<or> b' = b \<and> k' = k \<and> object_at v b' k' t = Some c) \<and>
        (is_ok r \<longrightarrow> object_at v b k t = Some c)) \<and>
     (\<forall>b p s r t. remove_object api b p s = (r, t) \<or> remove_object_versions api b p s = (r, t) \<longrightarrow> settings_kept v s t \<and>
        (\<forall>b' k'. object_at v b' k' t = object_at v b' k' s \<or>
           b' = b \<and> startswith k' p \<and> object_at v b' k' t = None)) \<and>
     (\<forall>b p s r t. remove_object api b p s = (r, t) \<longrightarrow> is_ok r \<longrightarrow> (\<forall>k. startswith k p \<longrightarrow> object_at v b k t = None))"

definition s3_laws :: "'s s3_api \<Rightarrow> 's s3_view \<Rightarrow> bool" where
  "s3_laws api v \<longleftrightarrow> settings_laws api v \<and> objects_laws api v"


lemma get_object_at: "objects_laws api v \<Longrightarrow> get_object api b k s = Inr c \<Longrightarrow> object_at v b k s = Some c"
  by (simp add: objects_laws_def)

lemma put_object_at:
  "objects_laws api v \<Longrightarrow> put_object api b k c s = (r, t) \<Longrightarrow> settings_kept v s t \<and>
     (\<forall>b' k'. object_at v b' k' t = object_at v b' k' s \<or> b' = b \<and> k' = k \<and> object_at v b' k' t = Some c) \<and>
     (is_ok r \<longrightarrow> object_at v b k t = Some c)"
  unfolding objects_laws_def by blast

lemma remove_object_at:
  "objects_laws api v \<Longrightarrow> remove_object api b p s = (r, t) \<or> remove_object_versions api b p s = (r, t) \<Longrightarrow>
     settings_kept v s t \<and> (\<forall>b' k'. object_at v b' k' t = object_at v b' k' s \<or>
       b' = b \<and> startswith k' p \<and> object_at v b' k' t = None)"
  unfolding objects_laws_def by blast

lemma settings_kept_refl: "reflp (settings_kept v)" and settings_kept_trans: "transp (settings_kept v)"
  and objects_kept_refl: "reflp (objects_kept v)" and objects_kept_trans: "transp (objects_kept v)"
  by (auto simp: reflp_def transp_def settings_kept_def objects_kept_def)

section \<open>A marked bucket is configured\<close>

definition configured :: "'s s3_view \<Rightarrow> s3_bucket \<Rightarrow> 's \<Rightarrow> bool" where
  "configured v b s \<longleftrightarrow> versioned v (bucket_name b) s \<and> encrypted v (bucket_name b) s \<and>
     (\<exists>p. generate_bucket_policy b = Inr p \<and> bucket_policy v (bucket_name b) s = Some p)"

text \<open>The marker is there and names every required feature.\<close>

definition marked :: "'s s3_api \<Rightarrow> 's s3_view \<Rightarrow> s3_bucket \<Rightarrow> 's \<Rightarrow> bool" where
  "marked api v b s \<longleftrightarrow> (\<exists>c. object_at v (bucket_name b) bootstrap_key s = Some c \<and>
     rbind (bootstrapped_features api c) (\<lambda>fs. all_features_in fs PCLUSTER_BUCKET_REQUIRED_BOOTSTRAP_FEATURES) = Inr True)"

definition marked_is_configured :: "'s s3_api \<Rightarrow> 's s3_view \<Rightarrow> s3_bucket \<Rightarrow> 's \<Rightarrow> bool" where
  "marked_is_configured api v b s \<longleftrightarrow> (marked api v b s \<longrightarrow> configured v b s)"

text \<open>What the steps of the configuration do: objects stay, and a configured bucket stays configured.\<close>

definition stays :: "'s s3_view \<Rightarrow> s3_bucket \<Rightarrow> 's \<Rightarrow> 's \<Rightarrow> bool" where
  "stays v b s t \<longleftrightarrow> objects_kept v s t \<and> (configured v b s \<longrightarrow> configured v b t)"

lemma stays_refl: "reflp (stays v b)" and stays_trans: "transp (stays v b)"
  by (auto simp: reflp_def transp_def stays_def objects_kept_def)

lemma settings_kept_configured: "settings_kept v s t \<Longrightarrow> configured v b s \<longleftrightarrow> configured v b t"
  by (auto simp: settings_kept_def configured_def)

lemma stays_marked: "stays v b s t \<Longrightarrow> marked_is_configured api v b s \<Longrightarrow> marked_is_configured api v b t"
  by (auto simp: stays_def objects_kept_def marked_is_configured_def marked_def)

lemma make_bucket_stays: "settings_laws api v \<Longrightarrow> moves (stays v b) (make_bucket api n r)"
  by (auto simp: moves_def stays_def settings_laws_def dest: settings_kept_configured; metis prod.collapse settings_kept_configured)


lemma put_bucket_versioning_stays: "settings_laws api v \<Longrightarrow> moves (stays v b) (put_bucket_versioning api n)"
  unfolding moves_def stays_def settings_laws_def configured_def by (metis prod.collapse)

lemma put_bucket_encryption_stays: "settings_laws api v \<Longrightarrow> moves (stays v b) (put_bucket_encryption api n)"
  unfolding moves_def stays_def settings_laws_def configured_def by (metis prod.collapse)

lemma put_bucket_policy_stays:
  assumes "settings_laws api v" and "generate_bucket_policy b = Inr p"
  shows "moves (stays v b) (put_bucket_policy api (bucket_name b) p)"
  unfolding moves_def
proof
  fix s
  obtain r t where "put_bucket_policy api (bucket_name b) p s = (r, t)" by (cases "put_bucket_policy api (bucket_name b) p s")
  moreover from this assms(1) have "objects_kept v s t \<and>
      (\<forall>b'. versioned v b' s = versioned v b' t \<and> encrypted v b' s = encrypted v b' t \<and>
        (bucket_policy v b' t = bucket_policy v b' s \<or> b' = bucket_name b \<and> bucket_policy v b' t = Some p))"
    unfolding settings_laws_def by blast
  ultimately show "stays v b s (snd (put_bucket_policy api (bucket_name b) p s))"
    using assms(2) by (auto simp: stays_def configured_def) metis
qed

lemma bind_policy:
  "bind_act (reading (\<lambda>_. generate_bucket_policy b)) f =
     (case generate_bucket_policy b of Inl e \<Rightarrow> raise_act e | Inr p \<Rightarrow> f p)"
  by (auto simp: act_defs fun_eq_iff split: sum.splits)

lemma configure_s3_bucket_stays: "settings_laws api v \<Longrightarrow> moves (stays v b) (configure_s3_bucket api b)"
  unfolding configure_s3_bucket_def bind_policy
  by (intro moves_bind put_bucket_versioning_stays put_bucket_encryption_stays stays_trans)
    (auto split: sum.splits intro: moves_raise stays_refl put_bucket_policy_stays)

lemma configure_s3_bucket_configures:
  assumes "settings_laws api v" and "configure_s3_bucket api b s = (Inr x, t)"
  shows "configured v b t"
proof -
  from assms(2) obtain p s1 s2 where p: "generate_bucket_policy b = Inr p"
    and v: "put_bucket_versioning api (bucket_name b) s = (Inr (), s1)"
    and e: "put_bucket_encryption api (bucket_name b) s1 = (Inr (), s2)"
    and q: "put_bucket_policy api (bucket_name b) p s2 = (Inr (), t)"
    by (auto simp: configure_s3_bucket_def bind_act_Inr_iff reading_def)
  have "versioned v (bucket_name b) s1" using assms(1) v unfolding settings_laws_def by (metis is_ok.simps(2))
  moreover have "versioned v (bucket_name b) s2 = versioned v (bucket_name b) s1" "encrypted v (bucket_name b) s2"
    using assms(1) e unfolding settings_laws_def by (metis is_ok.simps(2))+
  moreover have "versioned v (bucket_name b) t = versioned v (bucket_name b) s2"
    "encrypted v (bucket_name b) t = encrypted v (bucket_name b) s2" "bucket_policy v (bucket_name b) t = Some p"
    using assms(1) q unfolding settings_laws_def by (metis is_ok.simps(2))+
  ultimately show ?thesis using p by (simp add: configured_def)
qed

text \<open>The marker is written last, over a configured bucket.\<close>

lemma configure_bucket_step:
  assumes "s3_laws api v" and "marked_is_configured api v b s" and "configure_bucket api b s = (r, t)"
  shows "marked_is_configured api v b t \<and> (is_ok r \<longrightarrow> configured v b t \<and>
    object_at v (bucket_name b) bootstrap_key t = Some bootstrapped_content)"
proof -
  from assms(1) have laws: "settings_laws api v" "objects_laws api v" by (simp_all add: s3_laws_def)
  obtain r1 u where u: "configure_s3_bucket api b s = (r1, u)" by (cases "configure_s3_bucket api b s")
  have "stays v b s u" using movesD[OF configure_s3_bucket_stays[OF laws(1)] u] .
  with assms(2) have marked_u: "marked_is_configured api v b u" by (rule stays_marked[rotated])
  show ?thesis
  proof (cases r1)
    case (Inl e)
    with assms(3) u marked_u show ?thesis by (auto simp: configure_bucket_def bind_act_def)
  next
    case (Inr x)
    then have conf: "configured v b u" using configure_s3_bucket_configures[OF laws(1)] u by blast
    obtain r2 where r2: "put_object api (bucket_name b) bootstrap_key bootstrapped_content u = (r2, t)"
      and r: "is_ok r = is_ok r2"
      using assms(3) u Inr
      by (auto simp: configure_bucket_def upload_bootstrapped_file_def bind_act_def unit_act_def split: prod.splits sum.splits)
    then have "settings_kept v u t" "is_ok r2 \<longrightarrow> object_at v (bucket_name b) bootstrap_key t = Some bootstrapped_content"
      using put_object_at[OF laws(2)] by blast+
    with conf r show ?thesis by (simp add: settings_kept_configured marked_is_configured_def)
  qed
qed

lemma create_missing_bucket_stays: "settings_laws api v \<Longrightarrow> moves (stays v b) (create_missing_bucket api b e)"
  unfolding create_missing_bucket_def
  by (auto intro!: moves_rules make_bucket_stays stays_trans stays_refl)

lemma check_bucket_exists_stays: "moves (stays v b) (check_bucket_exists api b d)"
  by (simp add: check_bucket_exists_def moves_reading stays_refl)

lemma check_bucket_is_bootstrapped_reads: "check_bucket_is_bootstrapped api b s = (r, t) \<Longrightarrow> t = s"
  by (auto simp: check_bucket_is_bootstrapped_def act_defs split: prod.splits sum.splits if_splits)

lemma bootstrapped_is_marked:
  assumes "objects_laws api v" and "check_bucket_is_bootstrapped api b s = (Inr True, t)"
  shows "marked api v b s"
  using assms
  by (auto simp: check_bucket_is_bootstrapped_def objects_laws_def marked_def act_defs
      split: prod.splits sum.splits if_splits)

definition default_bucket :: "(string \<Rightarrow> string) \<Rightarrow> string \<Rightarrow> string \<Rightarrow> string \<Rightarrow> s3_bucket" where
  "default_bucket sha256 account_id region artifact_dir =
     \<lparr>bucket_name = get_bucket_name sha256 account_id region, artifact_directory = artifact_dir,
      cleanup_on_deletion = True, is_custom_bucket = False, bucket_region = region, bucket_account = account_id\<rparr>"

lemma init_default: "init_s3_bucket api sha256 account_id region artifact_dir None =
    check_default_bucket api (default_bucket sha256 account_id region artifact_dir)"
  by (simp add: init_s3_bucket_def default_bucket_def)


lemma check_default_bucket_step:
  assumes "s3_laws api v" and "marked_is_configured api v b s" and "check_default_bucket api b s = (r, t)"
  shows "marked_is_configured api v b t \<and> (is_ok r \<longrightarrow> configured v b t \<and>
    (marked api v b t \<or> object_at v (bucket_name b) bootstrap_key t = Some bootstrapped_content))"
proof -
  from assms(1) have laws: "settings_laws api v" "objects_laws api v" by (simp_all add: s3_laws_def)
  let ?m = "handling (check_bucket_exists api b True)
    (\<lambda>e. if is_instance e ''AWSClientError'' then create_missing_bucket api b e else raise_act e)"
  obtain r1 u where u: "?m s = (r1, u)" by (cases "?m s")
  have "moves (stays v b) ?m"
    by (auto intro!: moves_handling check_bucket_exists_stays create_missing_bucket_stays laws moves_raise stays_trans stays_refl)
  from movesD[OF this u] assms(2) have mu: "marked_is_configured api v b u" by (rule stays_marked)
  obtain r2 w where w: "check_bucket_is_bootstrapped api b u = (r2, w)" by (cases "check_bucket_is_bootstrapped api b u")
  have [simp]: "w = u" using check_bucket_is_bootstrapped_reads[OF w] .
  consider (stop) "\<not> is_ok r" "t = u" | (fine) "r2 = Inr True" "r = Inr b" "t = u"
    | (config) r3 where "configure_bucket api b u = (r3, t)" "is_ok r = is_ok r3"
  proof (cases r1)
    case (Inl e)
    with assms(3) u have "r = Inl e" "t = u" by (simp_all add: check_default_bucket_def bind_act_def)
    with stop show ?thesis by simp
  next
    case (Inr x)
    with assms(3) u w have run: "(case r2 of Inl e \<Rightarrow> (Inl e, u) | Inr ok \<Rightarrow>
        bind_act (if \<not> ok then configure_bucket api b else unit_act ()) (\<lambda>_. unit_act b) u) = (r, t)"
      by (simp add: check_default_bucket_def bind_act_def)
    obtain r3 w' where w': "configure_bucket api b u = (r3, w')" by (cases "configure_bucket api b u")
    consider e where "r2 = Inl e" | "r2 = Inr True" | "r2 = Inr False" by (cases r2) auto
    then show ?thesis
    proof cases
      case 3
      with run w' have "w' = t" "is_ok r = is_ok r3" by (auto simp: bind_act_def unit_act_def split: sum.splits)
      with config w' show ?thesis by blast
    qed (use run stop fine in \<open>auto simp: bind_act_def unit_act_def\<close>)
  qed
  then show ?thesis
  proof cases
    case fine
    then have "marked api v b t" using bootstrapped_is_marked[OF laws(2)] w by blast
    with fine mu show ?thesis by (auto simp: marked_is_configured_def)
  next
    case config
    with configure_bucket_step[OF assms(1) mu] show ?thesis by auto
  qed (simp add: mu)
qed

text \<open>C12: Whatever the service answers, the default bucket is marked as bootstrapped only once it is configured: the
  marker is written last, so an interrupted configuration is repeated.  When getting the bucket returns, it has
  versioning, encryption and the policy of the program.\<close>

theorem marked_bucket_is_configured:
  assumes "s3_laws api v" and "marked_is_configured api v (default_bucket sha256 account_id region dir) s"
    and "init_s3_bucket api sha256 account_id region dir None s = (r, t)"
  shows "marked_is_configured api v (default_bucket sha256 account_id region dir) t \<and>
    (is_ok r \<longrightarrow> configured v (default_bucket sha256 account_id region dir) t)"
  using check_default_bucket_step[OF assms(1,2)] assms(3) by (auto simp: init_default)

text \<open>Once the bucket was obtained, getting it again changes nothing as long as it can be read.\<close>

lemma second_init_changes_nothing:
  assumes "s3_laws api v" and "marked_is_configured api v (default_bucket sha256 account_id region dir) s"
    and "bootstrapped_features api bootstrapped_content =
      Inr (VList (map VStr PCLUSTER_BUCKET_REQUIRED_BOOTSTRAP_FEATURES))"
    and "init_s3_bucket api sha256 account_id region dir None s = (Inr b, t)"
    and "is_ok (head_bucket api (get_bucket_name sha256 account_id region) (Some account_id) t)"
    and "is_ok (head_object api (get_bucket_name sha256 account_id region) bootstrap_key t)"
    and "is_ok (get_object api (get_bucket_name sha256 account_id region) bootstrap_key t)"
  shows "init_s3_bucket api sha256 account_id region dir None t = (Inr b, t) \<and>
    b = default_bucket sha256 account_id region dir"
proof -
  let ?b = "default_bucket sha256 account_id region dir"
  have b: "b = ?b"
    using assms(4) by (auto simp: init_default check_default_bucket_def bind_act_Inr_iff unit_act_def)
  have "all_features_in (VList (map VStr PCLUSTER_BUCKET_REQUIRED_BOOTSTRAP_FEATURES))
      PCLUSTER_BUCKET_REQUIRED_BOOTSTRAP_FEATURES = Inr True"
    by (simp add: PCLUSTER_BUCKET_REQUIRED_BOOTSTRAP_FEATURES_def py_in_def)
  then have "marked api v ?b t"
    using check_default_bucket_step[OF assms(1,2)] assms(3,4) by (auto simp: init_default marked_def)
  moreover obtain c where c: "get_object api (bucket_name ?b) bootstrap_key t = Inr c"
    using assms(7) by (auto simp: is_ok_iff default_bucket_def)
  moreover from c assms(1) have "object_at v (bucket_name ?b) bootstrap_key t = Some c"
    by (intro get_object_at) (simp_all add: s3_laws_def)
  ultimately have "check_bucket_is_bootstrapped api ?b t = (Inr True, t)"
    using assms(6) by (auto simp: check_bucket_is_bootstrapped_def marked_def is_ok_iff act_defs default_bucket_def)
  moreover have "check_bucket_exists api ?b True t = (Inr (), t)"
    using assms(5) by (auto simp: check_bucket_exists_def reading_def is_ok_iff default_bucket_def)
  ultimately show ?thesis
    by (simp add: b init_default check_default_bucket_def bind_act_def handling_def unit_act_def)
qed


section \<open>A service in memory\<close>

text \<open>The promises hold of a service that keeps its buckets in memory.\<close>

record mem_s3 =
  mem_buckets :: "string list"
  mem_versioned :: "string list"
  mem_encrypted :: "string list"
  mem_policy :: "string \<Rightarrow> pyval option"
  mem_objects :: "string \<times> string \<Rightarrow> string option"

abbreviation client_error :: "string \<Rightarrow> py_exn" where "client_error code \<equiv> Exc ''AWSClientError'' code"

definition mem_api :: "mem_s3 s3_api" where
  "mem_api = \<lparr>head_bucket = (\<lambda>n owner s. if n \<in> set (mem_buckets s) then Inr () else Inl (client_error ''404'')),
     head_object = (\<lambda>n k s. case mem_objects s (n, k) of None \<Rightarrow> Inl (client_error ''404'') | Some c \<Rightarrow> Inr ()),
     get_object = (\<lambda>n k s. case mem_objects s (n, k) of None \<Rightarrow> Inl (client_error ''NoSuchKey'') | Some c \<Rightarrow> Inr c),
     make_bucket = (\<lambda>n r s. (Inr (), s\<lparr>mem_buckets := n # mem_buckets s\<rparr>)),
     put_bucket_versioning = (\<lambda>n s. (Inr (), s\<lparr>mem_versioned := n # mem_versioned s\<rparr>)),
     put_bucket_encryption = (\<lambda>n s. (Inr (), s\<lparr>mem_encrypted := n # mem_encrypted s\<rparr>)),
     put_bucket_policy = (\<lambda>n p s. (Inr (), s\<lparr>mem_policy := (mem_policy s)(n \<mapsto> p)\<rparr>)),
     put_object = (\<lambda>n k c s. (Inr (Some ''1''), s\<lparr>mem_objects := (mem_objects s)((n, k) \<mapsto> c)\<rparr>)),
     remove_object = (\<lambda>n p s. (Inr (),
       s\<lparr>mem_objects := (\<lambda>(b, k). if b = n \<and> startswith k p then None else mem_objects s (b, k))\<rparr>)),
     remove_object_versions = (\<lambda>n p s. (Inr (), s)),
     error_code = (\<lambda>e. case e of Exc _ code \<Rightarrow> Some code | _ \<Rightarrow> None),
     json_loads = (\<lambda>c. if c = bootstrapped_content
       then Inr (VDict [(''bootstrapped_features'', VList (map VStr PCLUSTER_BUCKET_REQUIRED_BOOTSTRAP_FEATURES))])
       else Inl ValueError)\<rparr>"

definition mem_view :: "mem_s3 s3_view" where
  "mem_view = \<lparr>versioned = (\<lambda>b s. b \<in> set (mem_versioned s)), encrypted = (\<lambda>b s. b \<in> set (mem_encrypted s)),
     bucket_policy = (\<lambda>b s. mem_policy s b), object_at = (\<lambda>b k s. mem_objects s (b, k))\<rparr>"

lemma mem_s3_laws: "s3_laws mem_api mem_view"
  unfolding s3_laws_def settings_laws_def objects_laws_def settings_kept_def objects_kept_def
  by (simp add: mem_api_def mem_view_def split: option.splits)

definition empty_s3 :: mem_s3 where
  "empty_s3 = \<lparr>mem_buckets = [], mem_versioned = [], mem_encrypted = [], mem_policy = (\<lambda>_. None), mem_objects = (\<lambda>_. None)\<rparr>"


text \<open>Getting the default bucket of an empty account.\<close>

definition bootstrapped_s3 :: "string \<Rightarrow> pyval \<Rightarrow> mem_s3" where
  "bootstrapped_s3 n p = \<lparr>mem_buckets = [n], mem_versioned = [n], mem_encrypted = [n], mem_policy = [n \<mapsto> p],
     mem_objects = [(n, bootstrap_key) \<mapsto> bootstrapped_content]\<rparr>"

lemma empty_s3_marked: "marked_is_configured mem_api mem_view b empty_s3"
  by (simp add: marked_is_configured_def marked_def mem_view_def empty_s3_def)

lemma default_bucket_policy: "region \<noteq> [] \<Longrightarrow> \<exists>p. generate_bucket_policy (default_bucket sha acc region dir) = Inr p"
  by (simp add: generate_bucket_policy_def get_bucket_policy_for_cloudwatch_logs_def get_service_principal_def
      default_bucket_def Let_def)

lemma mem_init:
  assumes "generate_bucket_policy (default_bucket sha acc region dir) = Inr p"
  shows "init_s3_bucket mem_api sha acc region dir None empty_s3 =
    (Inr (default_bucket sha acc region dir), bootstrapped_s3 (get_bucket_name sha acc region) p)"
proof -
  let ?b = "default_bucket sha acc region dir"
  have n: "bucket_name ?b = get_bucket_name sha acc region" by (simp add: default_bucket_def)
  have "create_missing_bucket mem_api ?b (client_error ''404'') empty_s3 =
      (Inr (), empty_s3\<lparr>mem_buckets := [get_bucket_name sha acc region]\<rparr>)"
    by (simp add: create_missing_bucket_def mem_api_def act_defs n empty_s3_def)
  moreover have "check_bucket_exists mem_api ?b True empty_s3 = (Inl (client_error ''404''), empty_s3)"
    by (simp add: check_bucket_exists_def mem_api_def act_defs empty_s3_def)
  moreover have "check_bucket_is_bootstrapped mem_api ?b (empty_s3\<lparr>mem_buckets := ns\<rparr>) =
      (Inr False, empty_s3\<lparr>mem_buckets := ns\<rparr>)" for ns
    by (simp add: check_bucket_is_bootstrapped_def mem_api_def act_defs empty_s3_def is_instance_def)
  moreover have "configure_bucket mem_api ?b (empty_s3\<lparr>mem_buckets := [get_bucket_name sha acc region]\<rparr>) =
      (Inr (), bootstrapped_s3 (get_bucket_name sha acc region) p)"
    by (simp add: configure_bucket_def configure_s3_bucket_def upload_bootstrapped_file_def mem_api_def act_defs
        empty_s3_def n assms bootstrapped_s3_def)
  ultimately show ?thesis
    by (simp add: init_default check_default_bucket_def handling_def bind_act_def unit_act_def is_instance_def)
qed

theorem marked_bucket_is_configured_witness:
  "\<exists>t. init_s3_bucket mem_api (\<lambda>_. ''b9033160b61390ef'') ''1'' ''us-east-1'' ''d'' None empty_s3 =
       (Inr (default_bucket (\<lambda>_. ''b9033160b61390ef'') ''1'' ''us-east-1'' ''d''), t) \<and>
     configured mem_view (default_bucket (\<lambda>_. ''b9033160b61390ef'') ''1'' ''us-east-1'' ''d'') t"
proof -
  obtain p where p: "generate_bucket_policy (default_bucket (\<lambda>_. ''b9033160b61390ef'') ''1'' ''us-east-1'' ''d'') = Inr p"
    using default_bucket_policy[of "''us-east-1''"] by fastforce
  from marked_bucket_is_configured[OF mem_s3_laws empty_s3_marked mem_init[OF p]] mem_init[OF p] show ?thesis by auto
qed

end
