(* ===== verification/ClusterLifecycle.thy ===== *)
theory ClusterLifecycle
  imports Artifacts
begin

text \<open>
  Creating and deleting a cluster (\<open>models/cluster.py\<close>), with the stack it reads
  (\<open>models/cluster_resources.py\<close>) and the assets of its template
  (\<open>templates/cdk_artifacts_manager.py\<close>).  The services are a parameter over one state; a cluster
  object keeps that state together with what it has cached.  The synthesis of the template by CDK is
  a parameter too.
\<close>

section \<open>The services and the cluster object\<close>

record creation_config =
  custom_s3_bucket :: "string option"
  config_tags :: "(string \<times> string) list option"
  config_version :: "string option"
  original_config_version :: "string option"
  instance_types_data_version :: "string option"
  own_cluster_template :: bool  \<comment> \<open>\<open>DevSettings/ClusterTemplate\<close> is given\<close>
  scheduler_resources :: "entry list option"  \<comment> \<open>the directory of the scheduler, if it has one\<close>

record cluster_asset_file =
  asset_id :: string
  artifact_hash_parameter :: string
  s3_bucket_parameter :: string
  s3_key_parameter :: string
  asset_content :: string

record asset_metadata =
  hash_parameter :: "string \<times> string"
  s3_bucket_parameter_value :: "string \<times> string"
  s3_object_key_parameter :: "string \<times> string"
  content :: string

record 's cluster_services =
  s3 :: "'s s3_api"
  sha256 :: "string \<Rightarrow> string"
  account :: string
  aws_region :: string
  installed_version :: string
  random_text :: string
  custom_resources :: "entry list"  \<comment> \<open>the files of the package\<close>
  stack_param :: "string \<Rightarrow> string \<Rightarrow> 's \<Rightarrow> string option result"  \<comment> \<open>of the described stack\<close>
  dump_config :: "creation_config \<Rightarrow> string result"
  instance_types_data :: "creation_config \<Rightarrow> string result"
  synth :: "creation_config \<Rightarrow> s3_bucket \<Rightarrow> string \<Rightarrow> string option \<Rightarrow> 's \<Rightarrow> (cluster_asset_file list \<times> string) result"
  create_stack :: "string \<Rightarrow> string \<Rightarrow> bool \<Rightarrow> (string \<times> string) list \<Rightarrow> (string \<times> string) list \<Rightarrow> ('s, string) act"

record 's cluster_object =
  service :: 's
  source_config_text :: "string option"
  cached_config :: creation_config
  cached_bucket :: "s3_bucket option"
  cached_artifact_dir :: "string option"
  template_body :: "string option"

type_synonym ('s, 'a) cluster_act = "('s cluster_object, 'a) act"

definition on_service :: "('s, 'a) act \<Rightarrow> ('s, 'a) cluster_act" where
  "on_service m c = (case m (service c) of (r, t) \<Rightarrow> (r, c\<lparr>service := t\<rparr>))"

section \<open>The artifact directory and the bucket\<close>

definition get_artifact_dir :: "'s cluster_services \<Rightarrow> string \<Rightarrow> ('s, string) cluster_act" where
  "get_artifact_dir S name =
     handling
       (bind_act (reading (\<lambda>c. stack_param S name ''ArtifactS3RootDirectory'' (service c))) (\<lambda>dir.
          case dir of
            None \<Rightarrow> raise_act (Exc ''AWSClientError'' ''No artifact dir found in cluster stack output.'')
          | Some d \<Rightarrow> bind_act (modify (\<lambda>c. c\<lparr>cached_artifact_dir := Some d\<rparr>)) (\<lambda>_. unit_act d)))
       (\<lambda>e. if is_instance e ''AWSClientError''
             then raise_act (cluster_error_mapper e (Some (''Unable to find artifact dir in cluster stack '' @ name @
                    '' output. '' @ exn_text e)))
             else raise_act e)"

definition s3_artifacts_dir :: "'s cluster_services \<Rightarrow> string \<Rightarrow> ('s, string) cluster_act" where
  "s3_artifacts_dir S name c = (case cached_artifact_dir c of
     None \<Rightarrow> get_artifact_dir S name c
   | Some d \<Rightarrow> (Inr d, c))"

definition new_artifact_dir :: "'s cluster_services \<Rightarrow> string \<Rightarrow> string" where
  "new_artifact_dir S name = join ''/'' [''parallelcluster'', installed_version S, ''clusters'',
     generate_random_name_with_prefix name (random_text S)]"

definition generate_artifact_dir :: "'s cluster_services \<Rightarrow> string \<Rightarrow> ('s, unit) cluster_act" where
  "generate_artifact_dir S name = modify (\<lambda>c. c\<lparr>cached_artifact_dir := Some (new_artifact_dir S name)\<rparr>)"

text \<open>The name of the custom bucket: of the configuration when there is one, otherwise of the stack.\<close>

definition custom_bucket_name :: "'s cluster_services \<Rightarrow> string \<Rightarrow> ('s, string option) cluster_act" where
  "custom_bucket_name S name c =
     (if source_config_text c \<noteq> None \<and> source_config_text c \<noteq> Some [] then (Inr (custom_s3_bucket (cached_config c)), c)
      else (rmap (\<lambda>n. if n = Some (get_bucket_name (sha256 S) (account S) (aws_region S)) then None else n)
              (stack_param S name ''ResourcesS3Bucket'' (service c)), c))"

definition bucket :: "'s cluster_services \<Rightarrow> string \<Rightarrow> ('s, s3_bucket) cluster_act" where
  "bucket S name c = (case cached_bucket c of
     Some b \<Rightarrow> (Inr b, c)
   | None \<Rightarrow>
       bind_act (custom_bucket_name S name) (\<lambda>custom.
       bind_act
         (handling
            (bind_act (s3_artifacts_dir S name) (\<lambda>dir.
               on_service (init_s3_bucket (s3 S) (sha256 S) (account S) (aws_region S) dir custom)))
            (\<lambda>e. if is_instance e ''AWSClientError''
                  then raise_act (cluster_error_mapper e (Some (''Unable to initialize s3 bucket. '' @ exn_text e)))
                  else raise_act e)) (\<lambda>b.
       bind_act (modify (\<lambda>c. c\<lparr>cached_bucket := Some b\<rparr>)) (\<lambda>_. unit_act b))) c)"

definition check_bucket_existence :: "'s cluster_services \<Rightarrow> string \<Rightarrow> ('s, s3_bucket) cluster_act" where
  "check_bucket_existence S name = handling (bucket S name) (\<lambda>e.
     raise_act (cluster_error_mapper e (Some (''Unable to access bucket associated to the cluster.\<newline>'' @ exn_text e))))"

section \<open>Uploads\<close>

text \<open>The message of a failed upload names the bucket.\<close>

definition upload_failed :: "'s cluster_services \<Rightarrow> string \<Rightarrow> string \<Rightarrow> py_exn \<Rightarrow> ('s, 'a) cluster_act" where
  "upload_failed S name what e = bind_act (bucket S name) (\<lambda>b.
     raise_act (cluster_error_mapper e (Some (''Unable to upload '' @ what @ '' to the S3 bucket '' @ bucket_name b @
       '' due to exception: '' @ exn_text e))))"

definition source_text :: "'s cluster_object \<Rightarrow> string" where
  "source_text c = (case source_config_text c of None \<Rightarrow> [] | Some t \<Rightarrow> t)"

definition upload_cluster_config :: "'s cluster_services \<Rightarrow> string \<Rightarrow> ('s, unit) cluster_act" where
  "upload_cluster_config S name =
     bind_act (check_bucket_existence S name) (\<lambda>_.
     handling
       (bind_act (bucket S name) (\<lambda>b.
        bind_act (reading (\<lambda>c. dump_config S (cached_config c))) (\<lambda>text.
        bind_act (on_service (upload_config (s3 S) b text ''cluster-config-with-implied-values.yaml'')) (\<lambda>v.
        bind_act (modify (\<lambda>c. c\<lparr>cached_config := (cached_config c)\<lparr>config_version := v\<rparr>\<rparr>)) (\<lambda>_.
        bind_act (asking (\<lambda>c. on_service (upload_config (s3 S) b (source_text c) ''cluster-config.yaml''))) (\<lambda>v.
        modify (\<lambda>c. c\<lparr>cached_config := (cached_config c)\<lparr>original_config_version := v\<rparr>\<rparr>)))))))
       (upload_failed S name ''cluster config''))"

definition upload_instance_types_data :: "'s cluster_services \<Rightarrow> string \<Rightarrow> ('s, unit) cluster_act" where
  "upload_instance_types_data S name =
     bind_act (check_bucket_existence S name) (\<lambda>_.
     handling
       (bind_act (bucket S name) (\<lambda>b.
        bind_act (reading (\<lambda>c. instance_types_data S (cached_config c))) (\<lambda>text.
        bind_act (on_service (upload_config (s3 S) b text ''instance-types-data.json'')) (\<lambda>v.
        modify (\<lambda>c. c\<lparr>cached_config := (cached_config c)\<lparr>instance_types_data_version := v\<rparr>\<rparr>)))))
       (upload_failed S name ''instance types data''))"

definition upload_change_set :: "'s cluster_services \<Rightarrow> string \<Rightarrow> string option \<Rightarrow> ('s, unit) cluster_act" where
  "upload_change_set S name change_set = (case change_set of
     None \<Rightarrow> unit_act ()
   | Some text \<Rightarrow>
       bind_act (check_bucket_existence S name) (\<lambda>_.
       handling
         (bind_act (bucket S name) (\<lambda>b.
          bind_act (on_service (upload_config (s3 S) b text ''change-set.json'')) (\<lambda>_. unit_act ())))
         (upload_failed S name ''cluster change set'')))"

definition upload_template :: "'s cluster_services \<Rightarrow> s3_bucket \<Rightarrow> ('s, unit) cluster_act" where
  "upload_template S b = asking (\<lambda>c. case template_body c of
     None \<Rightarrow> unit_act ()
   | Some body \<Rightarrow>
       if body = [] then unit_act ()
       else bind_act (on_service (upload_cfn_template (s3 S) b body ''aws-parallelcluster.cfn.yaml'')) (\<lambda>_. unit_act ()))"

definition upload_artifacts :: "'s cluster_services \<Rightarrow> string \<Rightarrow> ('s, unit) cluster_act" where
  "upload_artifacts S name =
     bind_act (check_bucket_existence S name) (\<lambda>_.
     handling
       (bind_act (bucket S name) (\<lambda>b.
        bind_act (on_service (upload_resources (s3 S) b (custom_resources S) ''artifacts.zip'')) (\<lambda>_.
        bind_act (asking (\<lambda>c. case scheduler_resources (cached_config c) of
              None \<Rightarrow> unit_act ()
            | Some dir \<Rightarrow> on_service (upload_resources (s3 S) b dir ''scheduler_resources.zip''))) (\<lambda>_.
        upload_template S b))))
       (\<lambda>e. if is_instance e ''BadRequestClusterActionError'' then raise_act e
             else upload_failed S name ''cluster resources'' e))"

section \<open>The template and its assets\<close>

fun upload_assets :: "'s s3_api \<Rightarrow> s3_bucket \<Rightarrow> bool \<Rightarrow> cluster_asset_file list \<Rightarrow> ('s, asset_metadata list) act" where
  "upload_assets api b upload [] = unit_act []"
| "upload_assets api b upload (cdk_asset # cdk_assets) =
     (let metadata = \<lparr>hash_parameter = (artifact_hash_parameter cdk_asset, ''''),
            s3_bucket_parameter_value = (s3_bucket_parameter cdk_asset, bucket_name b),
            s3_object_key_parameter = (s3_key_parameter cdk_asset, get_object_key b ASSETS (asset_id cdk_asset)),
            content = asset_content cdk_asset\<rparr> in
      bind_act (if upload then bind_act (upload_cfn_asset api b (asset_content cdk_asset) (asset_id cdk_asset)) (\<lambda>_. unit_act ())
                else unit_act ()) (\<lambda>_.
      bind_act (upload_assets api b upload cdk_assets) (\<lambda>rest. unit_act (metadata # rest))))"

definition build_cluster_template ::
    "'s cluster_services \<Rightarrow> creation_config \<Rightarrow> s3_bucket \<Rightarrow> string \<Rightarrow> string option \<Rightarrow> bool
      \<Rightarrow> ('s, string \<times> asset_metadata list) act" where
  "build_cluster_template S cluster_config b stack_name log_group_name upload =
     bind_act (reading (synth S cluster_config b stack_name log_group_name)) (\<lambda>(assets, body).
     bind_act (upload_assets (s3 S) b upload assets) (\<lambda>assets_metadata. unit_act (body, assets_metadata)))"

definition generate_asset_parameters :: "asset_metadata list option \<Rightarrow> (string \<times> string) list list" where
  "generate_asset_parameters assets_metadata = (case assets_metadata of
     None \<Rightarrow> []
   | Some ms \<Rightarrow> map (\<lambda>m. [hash_parameter m, s3_bucket_parameter_value m,
       (fst (s3_object_key_parameter m), snd (s3_object_key_parameter m) @ ''||'')]) ms)"

section \<open>Creating a cluster\<close>

definition add_tags :: "'s cluster_services \<Rightarrow> string \<Rightarrow> creation_config \<Rightarrow> creation_config" where
  "add_tags S name config =
     (let tags = [(''parallelcluster:cluster-name'', name), (''parallelcluster:version'', installed_version S)];
          old = (case config_tags config of None \<Rightarrow> [] | Some ts \<Rightarrow> ts)
      in config\<lparr>config_tags := Some (filter (\<lambda>(k, _). k \<notin> fst ` set tags) old @ tags)\<rparr>)"

definition get_cfn_tags :: "creation_config \<Rightarrow> (string \<times> string) list" where
  "get_cfn_tags config = (case config_tags config of None \<Rightarrow> [] | Some ts \<Rightarrow> ts)"

text \<open>Everything after the artifact directory is chosen.\<close>

definition make_template :: "'s cluster_services \<Rightarrow> string \<Rightarrow> ('s, asset_metadata list option) cluster_act" where
  "make_template S name = asking (\<lambda>c.
     if own_cluster_template (cached_config c) then unit_act None
     else bind_act (bucket S name) (\<lambda>b.
          bind_act (on_service (build_cluster_template S (cached_config c) b name None True)) (\<lambda>(body, assets).
          bind_act (modify (\<lambda>c. c\<lparr>template_body := Some body\<rparr>)) (\<lambda>_. unit_act (Some assets)))))"

definition deploy_new :: "'s cluster_services \<Rightarrow> string \<Rightarrow> bool \<Rightarrow> ('s, string) cluster_act" where
  "deploy_new S name disable_rollback =
     bind_act (upload_cluster_config S name) (\<lambda>_.
     bind_act (upload_instance_types_data S name) (\<lambda>_.
     bind_act (make_template S name) (\<lambda>assets_metadata.
     bind_act (upload_artifacts S name) (\<lambda>_.
     bind_act (bucket S name) (\<lambda>b. asking (\<lambda>c.
       on_service (create_stack S name (get_file_url b ''aws-parallelcluster.cfn.yaml'' TEMPLATES) disable_rollback
         (get_cfn_tags (cached_config c)) (concat (generate_asset_parameters assets_metadata)))))))))"

text \<open>
  \<open>stack_exists\<close> is what CloudFormation answers, \<open>validated\<close> the validation of the request.  Nothing
  can fail once the stack is created, so every exception of \<open>deploy_new\<close> finds no creation result.
\<close>

definition validate_no_existing_stack :: "string \<Rightarrow> bool result \<Rightarrow> unit result" where
  "validate_no_existing_stack name stack_exists = rbind stack_exists (\<lambda>ex.
     if ex then Inl (Exc ''BadRequestClusterActionError'' (''Cluster '' @ name @ '' already exists.'')) else Inr ())"

definition validate_create_request ::
    "string \<Rightarrow> bool result \<Rightarrow> (action_error + creation_config \<times> validation_result list)
      \<Rightarrow> action_error + creation_config \<times> validation_result list" where
  "validate_create_request name stack_exists validated =
     abind (lift_error (validate_no_existing_stack name stack_exists)) (\<lambda>_. validated)"

definition create_error :: "action_error \<Rightarrow> action_error" where
  "create_error err = (case err of
     ConfigValidationError m fs \<Rightarrow> err
   | ClusterUpdateError m update_changes \<Rightarrow> Raised (cluster_error_mapper (Exc ''ClusterUpdateError'' m) (Some m))
   | Raised e \<Rightarrow> Raised (cluster_error_mapper e (Some (exn_text e))))"

definition cleanup_artifacts :: "'s cluster_services \<Rightarrow> string \<Rightarrow> ('s, unit) cluster_act" where
  "cleanup_artifacts S name = bind_act (bucket S name) (\<lambda>b. on_service (delete_s3_artifacts (s3 S) b))"

definition deploy_or_clean :: "'s cluster_services \<Rightarrow> string \<Rightarrow> bool \<Rightarrow> ('s, string) cluster_act" where
  "deploy_or_clean S name disable_rollback = handling (deploy_new S name disable_rollback) (\<lambda>e.
     bind_act (cleanup_artifacts S name) (\<lambda>_. raise_act (cluster_error_mapper e (Some (exn_text e)))))"

definition create ::
    "'s cluster_services \<Rightarrow> string \<Rightarrow> bool result \<Rightarrow> (action_error + creation_config \<times> validation_result list) \<Rightarrow> bool
      \<Rightarrow> 's cluster_object \<Rightarrow> (action_error + string \<times> validation_result list) \<times> 's cluster_object" where
  "create S name stack_exists validated disable_rollback c =
     (case validate_create_request name stack_exists validated of
        Inl err \<Rightarrow> (Inl (create_error err), c)
      | Inr (config, ignored) \<Rightarrow>
          (case bind_act (generate_artifact_dir S name) (\<lambda>_. deploy_or_clean S name disable_rollback)
                  (c\<lparr>cached_config := add_tags S name config\<rparr>) of
             (Inl e, c') \<Rightarrow> (Inl (Raised e), c')
           | (Inr stack_id, c') \<Rightarrow> (Inr (stack_id, ignored), c')))"


section \<open>What a creation does to the bucket\<close>

text \<open>The bucket of the cluster, as the request decides it.\<close>

definition cluster_bucket :: "'s cluster_services \<Rightarrow> string \<Rightarrow> string option \<Rightarrow> s3_bucket" where
  "cluster_bucket S name custom =
     (let b = default_bucket (sha256 S) (account S) (aws_region S) (new_artifact_dir S name) in
      case custom of None \<Rightarrow> b | Some n \<Rightarrow> if n = [] then b else b\<lparr>bucket_name := n, is_custom_bucket := True\<rparr>)"

definition artifact_prefix :: "'s cluster_services \<Rightarrow> string \<Rightarrow> string" where
  "artifact_prefix S name = new_artifact_dir S name @ ''/''"

lemma cluster_bucket_simps [simp]:
  "artifact_directory (cluster_bucket S name custom) = new_artifact_dir S name"
  "cleanup_on_deletion (cluster_bucket S name custom)"
  by (auto simp: cluster_bucket_def default_bucket_def Let_def split: option.splits)

lemma new_artifact_dir_nonempty: "new_artifact_dir S name \<noteq> []"
  by (simp add: new_artifact_dir_def)

lemma object_key_below: "startswith (get_object_key (cluster_bucket S name custom) t k) (artifact_prefix S name)"
  by (simp add: get_object_key_def artifact_prefix_def startswith_def)

text \<open>The marker of the bucket is not an artifact of any cluster.\<close>

lemma marker_not_below: "\<not> startswith bootstrap_key (artifact_prefix S name)"
proof
  assume "startswith bootstrap_key (artifact_prefix S name)"
  then obtain r where "bootstrap_key = ''parallelcluster/'' @ installed_version S @ ''/clusters/'' @
      generate_random_name_with_prefix name (random_text S) @ ''/'' @ r"
    by (auto simp: startswith_iff artifact_prefix_def new_artifact_dir_def)
  then have "''.bootstrapped'' = installed_version S @ ''/clusters/'' @
      generate_random_name_with_prefix name (random_text S) @ ''/'' @ r"
    by (simp add: bootstrap_key_def)
  then have "CHR ''/'' \<in> set ''.bootstrapped''" by (metis Un_iff list.set_intros(1) set_append append_Cons)
  then show False by simp
qed

text \<open>Which objects may differ from what they were at the start.\<close>

definition differ_only :: "'s s3_view \<Rightarrow> (string \<Rightarrow> string \<Rightarrow> bool) \<Rightarrow> 's \<Rightarrow> 's \<Rightarrow> bool" where
  "differ_only v Q s t \<longleftrightarrow> (\<forall>n k. \<not> Q n k \<longrightarrow> object_at v n k t = object_at v n k s)"

definition is_marker :: "s3_bucket \<Rightarrow> string \<Rightarrow> string \<Rightarrow> bool" where
  "is_marker b n k \<longleftrightarrow> n = bucket_name b \<and> k = bootstrap_key"

definition is_own :: "'s cluster_services \<Rightarrow> string \<Rightarrow> s3_bucket \<Rightarrow> string \<Rightarrow> string \<Rightarrow> bool" where
  "is_own S name b n k \<longleftrightarrow> n = bucket_name b \<and> (k = bootstrap_key \<or> startswith k (artifact_prefix S name))"

lemma differ_only_refl: "reflp (differ_only v Q)" and differ_only_trans: "transp (differ_only v Q)"
  by (auto simp: reflp_def transp_def differ_only_def)

lemma objects_kept_differ: "objects_kept v s t \<Longrightarrow> differ_only v Q s t"
  by (simp add: objects_kept_def differ_only_def)

lemma put_object_differs:
  "objects_laws api v \<Longrightarrow> Q n k \<Longrightarrow> moves (differ_only v Q) (put_object api n k c)"
  unfolding moves_def differ_only_def using put_object_at by (metis prod.collapse)

lemma upload_bootstrapped_file_differs:
  "objects_laws api v \<Longrightarrow> moves (differ_only v (is_marker b)) (upload_bootstrapped_file api b)"
  unfolding upload_bootstrapped_file_def
  by (intro moves_bind put_object_differs moves_unit differ_only_trans differ_only_refl) (simp_all add: is_marker_def)

lemma check_default_bucket_differs:
  assumes "s3_laws api v"
  shows "moves (differ_only v (is_marker b)) (check_default_bucket api b)"
proof -
  note laws = assms[unfolded s3_laws_def]
  have stays: "moves (stays v b) m \<Longrightarrow> moves (differ_only v (is_marker b)) m" for m :: "('a, 'c) act"
    by (erule moves_weaken) (simp add: stays_def objects_kept_differ)
  have "moves (differ_only v (is_marker b)) (handling (check_bucket_exists api b True)
      (\<lambda>e. if is_instance e ''AWSClientError'' then create_missing_bucket api b e else raise_act e))"
    using laws by (auto intro!: moves_rules stays check_bucket_exists_stays create_missing_bucket_stays stays_trans stays_refl
        differ_only_trans differ_only_refl)
  moreover have "moves (differ_only v (is_marker b)) (check_bucket_is_bootstrapped api b)"
    using check_bucket_is_bootstrapped_reads[OF surjective_pairing, of api b] by (simp add: moves_def differ_only_def)
  moreover have "moves (differ_only v (is_marker b)) (configure_s3_bucket api b)"
    using laws by (intro stays configure_s3_bucket_stays) simp
  moreover have "moves (differ_only v (is_marker b)) (upload_bootstrapped_file api b)"
    using laws by (intro upload_bootstrapped_file_differs) simp
  ultimately show ?thesis
    unfolding check_default_bucket_def configure_bucket_def
    by (auto intro!: moves_bind moves_unit differ_only_trans differ_only_refl)
qed

lemma init_s3_bucket_differs:
  assumes "s3_laws api v"
  shows "moves (differ_only v (is_marker (cluster_bucket S name custom)))
    (init_s3_bucket api (sha256 S) (account S) (aws_region S) (new_artifact_dir S name) custom)"
proof -
  have "moves (differ_only v Q) (check_custom_bucket api b)" for Q b
    unfolding check_custom_bucket_def check_bucket_exists_def
    by (auto intro!: moves_rules differ_only_trans differ_only_refl)
  with check_default_bucket_differs[OF assms] show ?thesis
    by (auto simp: init_s3_bucket_def cluster_bucket_def default_bucket_def Let_def split: option.splits)
qed

lemma init_s3_bucket_value:
  "init_s3_bucket api (sha256 S) (account S) (aws_region S) (new_artifact_dir S name) custom s = (Inr b, t) \<Longrightarrow>
    b = cluster_bucket S name custom"
  by (auto simp: init_s3_bucket_def cluster_bucket_def default_bucket_def Let_def check_custom_bucket_def
      check_default_bucket_def bind_act_Inr_iff unit_act_def split: option.splits if_splits)


section \<open>A creation writes only its own artifacts\<close>

text \<open>What holds from the choice of the directory on, before and after the bucket is obtained.\<close>

definition creating :: "'s cluster_services \<Rightarrow> 's s3_view \<Rightarrow> string \<Rightarrow> string option \<Rightarrow> 's \<Rightarrow> 's cluster_object \<Rightarrow> bool" where
  "creating S v name custom s c \<longleftrightarrow> source_text c \<noteq> [] \<and> custom_s3_bucket (cached_config c) = custom \<and>
     cached_artifact_dir c = Some (new_artifact_dir S name) \<and>
     (case cached_bucket c of
        None \<Rightarrow> differ_only v (is_marker (cluster_bucket S name custom)) s (service c)
      | Some b \<Rightarrow> b = cluster_bucket S name custom \<and> differ_only v (is_own S name b) s (service c))"

definition uploading :: "'s cluster_services \<Rightarrow> 's s3_view \<Rightarrow> string \<Rightarrow> string option \<Rightarrow> 's \<Rightarrow> 's cluster_object \<Rightarrow> bool" where
  "uploading S v name custom s c \<longleftrightarrow> creating S v name custom s c \<and> cached_bucket c = Some (cluster_bucket S name custom)"

lemma marker_is_own: "differ_only v (is_marker b) s t \<Longrightarrow> differ_only v (is_own S name b) s t"
  by (auto simp: differ_only_def is_marker_def is_own_def)

lemma bucket_cached: "cached_bucket c = Some b \<Longrightarrow> bucket S name c = (Inr b, c)"
  by (simp add: bucket_def)

lemma leads_bucket:
  assumes "s3_laws (s3 S) v"
  shows "leads (creating S v name custom s) (bucket S name)
    (\<lambda>b c. b = cluster_bucket S name custom \<and> uploading S v name custom s c)
    (\<lambda>c. creating S v name custom s c \<and> cached_bucket c = None)"
  unfolding leads_def
proof (intro allI impI)
  fix c assume c: "creating S v name custom s c"
  let ?B = "cluster_bucket S name custom"
  show "case bucket S name c of (Inl e, t) \<Rightarrow> creating S v name custom s t \<and> cached_bucket t = None
    | (Inr b, t) \<Rightarrow> b = ?B \<and> uploading S v name custom s t"
  proof (cases "cached_bucket c")
    case (Some b)
    with c have "b = ?B" by (simp add: creating_def)
    with c Some show ?thesis by (simp add: bucket_cached uploading_def)
  next
    case None
    let ?i = "init_s3_bucket (s3 S) (sha256 S) (account S) (aws_region S) (new_artifact_dir S name) custom"
    obtain r t where i: "?i (service c) = (r, t)" by (cases "?i (service c)")
    have diff: "differ_only v (is_marker ?B) s t"
      using movesD[OF init_s3_bucket_differs[OF assms] i] c None differ_only_trans[of v "is_marker ?B"]
      by (auto simp: creating_def elim: transpE)
    have src: "source_config_text c \<noteq> None \<and> source_config_text c \<noteq> Some []"
      using c by (auto simp: creating_def source_text_def split: option.splits)
    have "bucket S name c = (case r of Inr b \<Rightarrow> (Inr b, c\<lparr>service := t, cached_bucket := Some b\<rparr>)
      | Inl e \<Rightarrow> (Inl (if is_instance e ''AWSClientError''
          then cluster_error_mapper e (Some (''Unable to initialize s3 bucket. '' @ exn_text e)) else e), c\<lparr>service := t\<rparr>))"
      using c None src i
      by (auto simp: bucket_def custom_bucket_name_def s3_artifacts_dir_def on_service_def creating_def modify_def act_defs
          split: sum.splits)
    moreover have "r = Inr b \<Longrightarrow> b = ?B" for b using i by (auto dest: init_s3_bucket_value)
    ultimately show ?thesis using c None diff
      by (auto simp: creating_def uploading_def source_text_def marker_is_own split: sum.splits)
  qed
qed


text \<open>What the uploads keep once the bucket is obtained.\<close>

definition writes :: "'s cluster_services \<Rightarrow> string \<Rightarrow> string option \<Rightarrow> (string \<Rightarrow> bool) \<Rightarrow> string \<Rightarrow> string \<Rightarrow> bool" where
  "writes S name custom Q n k \<longleftrightarrow> n = bucket_name (cluster_bucket S name custom) \<and> startswith k (artifact_prefix S name) \<and> Q k"

lemma writes_own: "differ_only v (writes S name custom Q) s t \<Longrightarrow> differ_only v (is_own S name (cluster_bucket S name custom)) s t"
  by (auto simp: differ_only_def writes_def is_own_def)

definition stays_uploading :: "'s cluster_services \<Rightarrow> 's s3_view \<Rightarrow> string \<Rightarrow> string option \<Rightarrow> 's \<Rightarrow> (string \<Rightarrow> bool)
    \<Rightarrow> 's cluster_object \<Rightarrow> 's cluster_object \<Rightarrow> bool" where
  "stays_uploading S v name custom s Q c d \<longleftrightarrow> (uploading S v name custom s c \<longrightarrow>
     uploading S v name custom s d \<and> differ_only v (writes S name custom Q) (service c) (service d))"

lemma stays_uploading_refl: "reflp (stays_uploading S v name custom s Q)"
  and stays_uploading_trans: "transp (stays_uploading S v name custom s Q)"
  using differ_only_refl[of v "writes S name custom Q"] differ_only_trans[of v "writes S name custom Q"]
  by (auto simp: stays_uploading_def intro!: reflpI transpI dest: reflpD transpD)

lemma leads_uploading: "moves (stays_uploading S v name custom s Q) m \<Longrightarrow>
    leads (uploading S v name custom s) m (\<lambda>_. uploading S v name custom s) (uploading S v name custom s)"
  by (rule leads_moves, erule moves_weaken) (simp add: stays_uploading_def)

lemma uploading_bucket: "uploading S v name custom s c \<Longrightarrow> bucket S name c = (Inr (cluster_bucket S name custom), c)"
  by (simp add: uploading_def bucket_cached)

lemma uploading_check: "uploading S v name custom s c \<Longrightarrow> check_bucket_existence S name c = (Inr (cluster_bucket S name custom), c)"
  by (simp add: check_bucket_existence_def handling_def uploading_bucket)

lemma moves_with_bucket:
  "moves (stays_uploading S v name custom s Q) (f (cluster_bucket S name custom)) \<Longrightarrow>
    moves (stays_uploading S v name custom s Q) (bind_act (bucket S name) f)"
  "moves (stays_uploading S v name custom s Q) (f (cluster_bucket S name custom)) \<Longrightarrow>
    moves (stays_uploading S v name custom s Q) (bind_act (check_bucket_existence S name) f)"
  by (auto simp: moves_def stays_uploading_def bind_act_def uploading_bucket uploading_check)

lemma moves_service:
  "moves (differ_only v (writes S name custom Q)) m \<Longrightarrow> moves (stays_uploading S v name custom s Q) (on_service m)"
  unfolding moves_def on_service_def uploading_def creating_def stays_uploading_def
  by (auto simp: source_text_def split: prod.splits; metis differ_only_trans snd_conv transpE writes_own)

lemma moves_config:
  "(\<And>g. custom_s3_bucket (h g) = custom_s3_bucket g) \<Longrightarrow>
    moves (stays_uploading S v name custom s Q) (modify (\<lambda>c. c\<lparr>cached_config := h (cached_config c)\<rparr>))"
  by (auto simp: moves_def stays_uploading_def modify_def uploading_def creating_def source_text_def differ_only_def)

lemma moves_template: "moves (stays_uploading S v name custom s Q) (modify (\<lambda>c. c\<lparr>template_body := t\<rparr>))"
  by (auto simp: moves_def stays_uploading_def modify_def uploading_def creating_def source_text_def differ_only_def)

lemma moves_upload_failed: "moves (stays_uploading S v name custom s Q) (upload_failed S name what e)"
  unfolding upload_failed_def by (intro moves_with_bucket moves_raise stays_uploading_refl)

lemmas upload_rules = moves_with_bucket moves_service moves_config moves_template moves_upload_failed
  moves_asking moves_unit[OF stays_uploading_refl] moves_raise[OF stays_uploading_refl]
  moves_reading[OF stays_uploading_refl] moves_bind[OF stays_uploading_trans] moves_handling[OF stays_uploading_trans]

lemma upload_file_differs:
  "objects_laws (s3 S) v \<Longrightarrow> Q (get_object_key (cluster_bucket S name custom) ftype fname) \<Longrightarrow>
    moves (differ_only v (writes S name custom Q)) (upload_file (s3 S) (cluster_bucket S name custom) body fname ftype)"
  unfolding upload_file_def by (rule put_object_differs) (simp_all add: writes_def object_key_below)

lemma upload_resources_differs:
  "objects_laws (s3 S) v \<Longrightarrow> (\<And>n. Q (get_object_key (cluster_bucket S name custom) CUSTOM_RESOURCES n)) \<Longrightarrow>
    moves (differ_only v (writes S name custom Q)) (upload_resources (s3 S) (cluster_bucket S name custom) entries zipname)"
  by (induction entries)
    (auto split: entry.splits intro!: moves_unit moves_bind put_object_differs differ_only_refl differ_only_trans
      simp: writes_def object_key_below)

lemma upload_assets_differs:
  "objects_laws (s3 S) v \<Longrightarrow> (\<And>n. Q (get_object_key (cluster_bucket S name custom) ASSETS n)) \<Longrightarrow>
    moves (differ_only v (writes S name custom Q)) (upload_assets (s3 S) (cluster_bucket S name custom) up assets)"
  by (induction assets)
    (auto simp: upload_cfn_asset_def Let_def intro!: moves_unit moves_bind upload_file_differs differ_only_refl differ_only_trans)

lemma build_cluster_template_differs:
  "objects_laws (s3 S) v \<Longrightarrow> (\<And>n. Q (get_object_key (cluster_bucket S name custom) ASSETS n)) \<Longrightarrow>
    moves (differ_only v (writes S name custom Q)) (build_cluster_template S cfg (cluster_bucket S name custom) n log up)"
  unfolding build_cluster_template_def
  by (auto intro!: moves_rules upload_assets_differs differ_only_refl differ_only_trans)

lemmas upload_steps = upload_file_differs upload_resources_differs build_cluster_template_differs

text \<open>Each step may be followed with any set of keys that holds those it writes.\<close>

lemma upload_cluster_config_stays:
  assumes "objects_laws (s3 S) v"
    and "\<And>n. Q (get_object_key (cluster_bucket S name custom) CONFIGS n)"
  shows "moves (stays_uploading S v name custom s Q) (upload_cluster_config S name)"
  unfolding upload_cluster_config_def upload_config_def by (auto intro!: upload_rules upload_steps assms)

lemma upload_instance_types_data_stays:
  assumes "objects_laws (s3 S) v"
    and "Q (get_object_key (cluster_bucket S name custom) CONFIGS ''instance-types-data.json'')"
  shows "moves (stays_uploading S v name custom s Q) (upload_instance_types_data S name)"
  unfolding upload_instance_types_data_def upload_config_def by (auto intro!: upload_rules upload_steps assms)

lemma make_template_stays:
  assumes "objects_laws (s3 S) v" and "\<And>n. Q (get_object_key (cluster_bucket S name custom) ASSETS n)"
  shows "moves (stays_uploading S v name custom s Q) (make_template S name)"
  unfolding make_template_def by (auto intro!: upload_rules upload_steps assms)

lemma upload_artifacts_stays:
  assumes "objects_laws (s3 S) v" and "\<And>n. Q (get_object_key (cluster_bucket S name custom) CUSTOM_RESOURCES n)"
    and "Q (get_object_key (cluster_bucket S name custom) TEMPLATES ''aws-parallelcluster.cfn.yaml'')"
  shows "moves (stays_uploading S v name custom s Q) (upload_artifacts S name)"
  unfolding upload_artifacts_def upload_template_def upload_cfn_template_def
  by (auto intro!: upload_rules upload_steps assms split: option.splits)

definition create_stack_keeps :: "'s cluster_services \<Rightarrow> 's s3_view \<Rightarrow> bool" where \<comment> \<open>CloudFormation only reads the bucket\<close>
  "create_stack_keeps S v \<longleftrightarrow> (\<forall>n url rollback tags params. moves (objects_kept v) (create_stack S n url rollback tags params))"

lemma create_stack_stays:
  assumes "create_stack_keeps S v"
  shows "moves (stays_uploading S v name custom s Q)
    (bind_act (bucket S name) (\<lambda>b. asking (\<lambda>c. on_service (create_stack S name (get_file_url b f t) rb (tags c) ps))))"
proof -
  have "moves (differ_only v (writes S name custom Q)) (create_stack S n url rb' tg ps')" for n url rb' tg ps'
    using assms unfolding create_stack_keeps_def by (intro moves_weaken[OF _ objects_kept_differ]) blast+
  then show ?thesis by (intro upload_rules)
qed

lemma leads_deploy_new:
  assumes "s3_laws (s3 S) v" and "create_stack_keeps S v"
  shows "leads (creating S v name custom s) (deploy_new S name rb) (\<lambda>_. uploading S v name custom s) (creating S v name custom s)"
proof -
  have laws: "objects_laws (s3 S) v" using assms(1) by (simp add: s3_laws_def)
  let ?U = "uploading S v name custom s"
  have all: "moves (stays_uploading S v name custom s (\<lambda>_. True)) m \<Longrightarrow> leads ?U m (\<lambda>_. ?U) (creating S v name custom s)"
    for m :: "('a, 'c) cluster_act"
    by (rule leads_weaken[OF leads_uploading]) (auto simp: uploading_def)
  have first: "leads (creating S v name custom s) (upload_cluster_config S name) (\<lambda>_. ?U) (creating S v name custom s)"
  proof -
    have check: "leads (creating S v name custom s) (check_bucket_existence S name)
        (\<lambda>b c. b = cluster_bucket S name custom \<and> ?U c) (creating S v name custom s)"
      unfolding check_bucket_existence_def
      by (rule leads_handling[OF leads_bucket[OF assms(1)]]) (auto intro: leads_raise)
    have "leads ?U (upload_cluster_config S name) (\<lambda>_. ?U) (creating S v name custom s)"
      by (rule all, rule upload_cluster_config_stays[OF laws]) simp
    then have "leads (\<lambda>c. b = cluster_bucket S name custom \<and> ?U c) (f b) (\<lambda>_. ?U) (creating S v name custom s)"
      if "upload_cluster_config S name = bind_act (check_bucket_existence S name) f" for b f
      unfolding that leads_def by (auto simp: bind_act_def uploading_check)
    with check show ?thesis unfolding upload_cluster_config_def by (intro leads_bind) auto
  qed
  show ?thesis
    unfolding deploy_new_def
    by (intro leads_bind[OF first] leads_bind[OF all] all upload_instance_types_data_stays make_template_stays
        upload_artifacts_stays create_stack_stays laws assms(2)) simp_all
qed


section \<open>A failed creation leaves no artifacts\<close>

definition removal_works :: "'s cluster_services \<Rightarrow> bool" where
  "removal_works S \<longleftrightarrow> (\<forall>n p s. is_ok (fst (remove_object (s3 S) n p s)))"

definition nothing_below :: "'s cluster_services \<Rightarrow> 's s3_view \<Rightarrow> string \<Rightarrow> 's \<Rightarrow> bool" where
  "nothing_below S v name s \<longleftrightarrow> (\<forall>n k. startswith k (artifact_prefix S name) \<longrightarrow> object_at v n k s = None)"

lemma delete_s3_artifacts_result:
  assumes "objects_laws (s3 S) v" and "delete_s3_artifacts (s3 S) (cluster_bucket S name custom) s = (r, t)"
  shows "differ_only v (writes S name custom (\<lambda>_. True)) s t \<and>
    (removal_works S \<longrightarrow> (\<forall>k. startswith k (artifact_prefix S name) \<longrightarrow>
       object_at v (bucket_name (cluster_bucket S name custom)) k t = None))"
proof -
  let ?n = "bucket_name (cluster_bucket S name custom)"
  have step: "differ_only v (writes S name custom (\<lambda>_. True)) s1 s2 \<and>
      (\<forall>k. object_at v ?n k s1 = None \<longrightarrow> startswith k (artifact_prefix S name) \<longrightarrow> object_at v ?n k s2 = None)"
    if "remove_object (s3 S) ?n (artifact_prefix S name) s1 = (r', s2) \<or>
      remove_object_versions (s3 S) ?n (artifact_prefix S name) s1 = (r', s2)" for s1 s2 r'
    using remove_object_at[OF assms(1) that] unfolding differ_only_def writes_def by metis
  obtain r1 s1 where s1: "remove_object (s3 S) ?n (artifact_prefix S name) s = (r1, s1)"
    by (cases "remove_object (s3 S) ?n (artifact_prefix S name) s")
  have gone: "removal_works S \<longrightarrow> is_ok r1 \<and> (\<forall>k. startswith k (artifact_prefix S name) \<longrightarrow> object_at v ?n k s1 = None)"
    using s1 assms(1) unfolding removal_works_def objects_laws_def by (metis fst_conv)
  obtain r2 s2 where s2: "remove_object_versions (s3 S) ?n (artifact_prefix S name) s1 = (r2, s2)"
    by (cases "remove_object_versions (s3 S) ?n (artifact_prefix S name) s1")
  have t: "t = (if is_ok r1 then s2 else s1)"
    using assms(2) s1 s2 new_artifact_dir_nonempty[of S name]
    by (auto simp: delete_s3_artifacts_def artifact_prefix_def act_defs split: sum.splits if_splits)
  have "differ_only v (writes S name custom (\<lambda>_. True)) s1 s2" "differ_only v (writes S name custom (\<lambda>_. True)) s s1"
    using step s1 s2 by blast+
  then have "differ_only v (writes S name custom (\<lambda>_. True)) s t"
    using differ_only_trans[of v "writes S name custom (\<lambda>_. True)"] t by (auto dest: transpD)
  moreover have "removal_works S \<longrightarrow> (\<forall>k. startswith k (artifact_prefix S name) \<longrightarrow> object_at v ?n k t = None)"
    using gone t step[OF disjI2[OF s2]] by simp
  ultimately show ?thesis by blast
qed

text \<open>Where a creation stands after its cleanup.\<close>

definition cleaned :: "'s cluster_services \<Rightarrow> 's s3_view \<Rightarrow> string \<Rightarrow> string option \<Rightarrow> 's \<Rightarrow> 's cluster_object \<Rightarrow> bool" where
  "cleaned S v name custom s c \<longleftrightarrow> differ_only v (is_own S name (cluster_bucket S name custom)) s (service c) \<and>
     (nothing_below S v name s \<and> removal_works S \<longrightarrow> nothing_below S v name (service c))"

lemma leads_cleanup:
  assumes "s3_laws (s3 S) v"
  shows "leads (creating S v name custom s) (cleanup_artifacts S name) (\<lambda>_. cleaned S v name custom s) (cleaned S v name custom s)"
  unfolding cleanup_artifacts_def
proof (rule leads_bind)
  let ?B = "cluster_bucket S name custom"
  show "leads (creating S v name custom s) (bucket S name) (\<lambda>b c. b = ?B \<and> uploading S v name custom s c) (cleaned S v name custom s)"
  proof (rule leads_weaken[OF leads_bucket[OF assms]])
    fix c assume "creating S v name custom s c \<and> cached_bucket c = None"
    then have "differ_only v (is_marker ?B) s (service c)" by (auto simp: creating_def)
    then show "cleaned S v name custom s c"
      using marker_not_below[of S name]
      by (simp add: cleaned_def nothing_below_def marker_is_own) (metis differ_only_def is_marker_def)
  qed simp_all
  fix b
  show "leads (\<lambda>c. b = ?B \<and> uploading S v name custom s c) (on_service (delete_s3_artifacts (s3 S) b))
      (\<lambda>_. cleaned S v name custom s) (cleaned S v name custom s)"
    unfolding leads_def
  proof (intro allI impI)
    fix c assume c: "b = ?B \<and> uploading S v name custom s c"
    obtain r t where t: "delete_s3_artifacts (s3 S) ?B (service c) = (r, t)" by (cases "delete_s3_artifacts (s3 S) ?B (service c)")
    note del = delete_s3_artifacts_result[OF _ t]
    have laws: "objects_laws (s3 S) v" using assms by (simp add: s3_laws_def)
    have own: "differ_only v (is_own S name ?B) s (service c)" using c by (auto simp: uploading_def creating_def)
    then have own': "differ_only v (is_own S name ?B) s t"
      using writes_own del[OF laws] differ_only_trans by (metis transpE)
    moreover have "nothing_below S v name t" if "nothing_below S v name s" "removal_works S"
      unfolding nothing_below_def
    proof (intro allI impI)
      fix n k assume k: "startswith k (artifact_prefix S name)"
      show "object_at v n k t = None"
      proof (cases "n = bucket_name ?B")
        case True
        with del[OF laws] that k show ?thesis by simp
      next
        case False
        with own' that k show ?thesis by (simp add: differ_only_def is_own_def nothing_below_def)
      qed
    qed
    ultimately show "case on_service (delete_s3_artifacts (s3 S) b) c of
        (Inl e, t) \<Rightarrow> cleaned S v name custom s t | (Inr x, t) \<Rightarrow> cleaned S v name custom s t"
      using c t by (auto simp: on_service_def cleaned_def split: sum.splits)
  qed
qed


definition new_request :: "'s cluster_object \<Rightarrow> bool" where
  "new_request c \<longleftrightarrow> source_text c \<noteq> [] \<and> cached_bucket c = None"

lemma create_outcome:
  assumes "s3_laws (s3 S) v" and "create_stack_keeps S v" and "new_request c"
    and "validate_create_request name stack_exists validated = Inr (config, ignored)"
    and "create S name stack_exists validated rb c = (r, c')"
  shows "case r of
      Inr x \<Rightarrow> uploading S v name (custom_s3_bucket config) (service c) c'
    | Inl err \<Rightarrow> cleaned S v name (custom_s3_bucket config) (service c) c'"
proof -
  let ?P = "creating S v name (custom_s3_bucket config) (service c)"
  let ?c = "c\<lparr>cached_config := add_tags S name config, cached_artifact_dir := Some (new_artifact_dir S name)\<rparr>"
  have start: "?P ?c"
    using assms(3) differ_only_refl[of v]
    by (auto simp: creating_def new_request_def source_text_def add_tags_def Let_def dest: reflpD)
  have lead: "leads ?P (deploy_or_clean S name rb) (\<lambda>_. uploading S v name (custom_s3_bucket config) (service c))
      (cleaned S v name (custom_s3_bucket config) (service c))"
    unfolding deploy_or_clean_def
    by (intro leads_handling[OF leads_deploy_new[OF assms(1,2)]] leads_bind[OF leads_cleanup[OF assms(1)]] leads_raise)
  obtain r' c'' where run: "deploy_or_clean S name rb ?c = (r', c'')" by (cases "deploy_or_clean S name rb ?c")
  with assms(4,5) have "c' = c''" and r: "r = (case r' of Inl e \<Rightarrow> Inl (Raised e) | Inr x \<Rightarrow> Inr (x, ignored))"
    by (auto simp: create_def generate_artifact_dir_def bind_act_def modify_def split: sum.splits)
  with run leadsD[OF lead start] leadsE[OF lead start] show ?thesis by (cases r') auto
qed

lemma create_refused:
  "validate_create_request name stack_exists validated = Inl err \<Longrightarrow> create S name stack_exists validated rb c = (Inl (create_error err), c)"
  by (simp add: create_def)

text \<open>Whatever the services answer, a creation writes only under the new artifact directory and the marker of the
  bucket; the objects of other clusters stay.\<close>

lemma creation_writes_only_its_artifacts:
  assumes "s3_laws (s3 S) v" and "create_stack_keeps S v" and "new_request c"
    and "create S name stack_exists validated rb c = (r, c')"
    and "k \<noteq> bootstrap_key" and "\<not> startswith k (new_artifact_dir S name @ ''/'')"
  shows "object_at v n k (service c') = object_at v n k (service c)"
proof (cases "validate_create_request name stack_exists validated")
  case (Inl err)
  with assms(4) create_refused[OF Inl, of S rb c] show ?thesis by simp
next
  case (Inr x)
  obtain config ignored where x: "x = (config, ignored)" by (cases x)
  from create_outcome[OF assms(1-3) Inr[unfolded x] assms(4)]
  have "differ_only v (is_own S name (cluster_bucket S name (custom_s3_bucket config))) (service c) (service c')"
    by (auto simp: uploading_def creating_def cleaned_def split: sum.splits)
  with assms(5,6) show ?thesis by (simp add: differ_only_def is_own_def artifact_prefix_def)
qed

text \<open>C10: A creation that fails, at whatever step, leaves no object under its artifact directory, as long as the service
  removes what it is asked to remove and the directory was new.\<close>

theorem failed_creation_leaves_no_artifacts:
  assumes "s3_laws (s3 S) v" and "create_stack_keeps S v" and "removal_works S" and "new_request c"
    and "\<And>n k. startswith k (new_artifact_dir S name @ ''/'') \<Longrightarrow> object_at v n k (service c) = None"
    and "create S name stack_exists validated rb c = (Inl err, c')"
  shows "object_at v n (new_artifact_dir S name @ ''/'' @ k) (service c') = None"
proof (cases "validate_create_request name stack_exists validated")
  case (Inl err)
  with assms(5)[of "new_artifact_dir S name @ ''/'' @ k" n] assms(6) create_refused[OF Inl, of S rb c] show ?thesis
    by (simp add: startswith_def)
next
  case (Inr x)
  obtain config ignored where x: "x = (config, ignored)" by (cases x)
  from create_outcome[OF assms(1,2,4) Inr[unfolded x] assms(6)]
  have "nothing_below S v name (service c) \<and> removal_works S \<longrightarrow> nothing_below S v name (service c')"
    by (simp add: cleaned_def)
  with assms(3,5) show ?thesis by (simp add: nothing_below_def artifact_prefix_def startswith_def)
qed


section \<open>A created stack has its artifacts\<close>

lemma object_key_eq_iff: "get_object_key b t n = get_object_key b t' n' \<longleftrightarrow> t = t' \<and> n = n'"
  by (cases t; cases t') (auto simp: get_object_key_def)

lemma upload_failed_raises: "upload_failed S name what e c \<noteq> (Inr x, d)"
  by (auto simp: upload_failed_def bind_act_def raise_act_def split: prod.splits sum.splits)

lemma handling_upload_Inr:
  "handling m (upload_failed S name what) c = (Inr x, d) \<longleftrightarrow> m c = (Inr x, d)"
  by (auto simp: handling_def upload_failed_raises split: prod.splits sum.splits)

lemma check_bucket_existence_keeps:
  assumes "cached_artifact_dir c = Some dir" and "check_bucket_existence S name c = (Inr b, d)"
  shows "cached_config d = cached_config c \<and> source_config_text d = source_config_text c"
  using assms
  by (auto simp: check_bucket_existence_def bucket_def custom_bucket_name_def s3_artifacts_dir_def on_service_def act_defs
      split: prod.splits sum.splits option.splits if_splits)

lemma on_service_put:
  assumes "objects_laws (s3 S) v" and "on_service (upload_file (s3 S) b body fname ftype) c = (Inr x, d)"
  shows "object_at v (bucket_name b) (get_object_key b ftype fname) (service d) = Some body \<and>
    cached_config d = cached_config c \<and> source_config_text d = source_config_text c \<and> cached_bucket d = cached_bucket c"
  using assms put_object_at[OF assms(1)] unfolding on_service_def upload_file_def
  by (fastforce split: prod.splits)


definition stored :: "'s s3_view \<Rightarrow> s3_bucket \<Rightarrow> s3_file_type \<Rightarrow> string \<Rightarrow> 's cluster_object \<Rightarrow> string option" where
  "stored v b t n c = object_at v (bucket_name b) (get_object_key b t n) (service c)"

lemma upload_cluster_config_stores:
  assumes "s3_laws (s3 S) v" and "creating S v name custom s c" and "upload_cluster_config S name c = (Inr x, d)"
  defines "b \<equiv> cluster_bucket S name custom"
  shows "uploading S v name custom s d \<and> source_config_text d = source_config_text c \<and>
    stored v b CONFIGS ''cluster-config.yaml'' d = Some (source_text c) \<and>
    (\<exists>body. dump_config S (cached_config c) = Inr body \<and>
      stored v b CONFIGS ''cluster-config-with-implied-values.yaml'' d = Some body)"
proof -
  have laws: "objects_laws (s3 S) v" using assms(1) by (simp add: s3_laws_def)
  from assms(3) obtain b' c1 where c1: "check_bucket_existence S name c = (Inr b', c1)"
    by (auto simp: upload_cluster_config_def bind_act_Inr_iff)
  have "leads (creating S v name custom s) (check_bucket_existence S name)
        (\<lambda>b c. b = cluster_bucket S name custom \<and> uploading S v name custom s c) (creating S v name custom s)"
    unfolding check_bucket_existence_def
    by (rule leads_handling[OF leads_bucket[OF assms(1)]]) (auto intro: leads_raise)
  from leadsD[OF this assms(2) c1] have up: "uploading S v name custom s c1" by simp
  have kept: "cached_config c1 = cached_config c \<and> source_config_text c1 = source_config_text c"
    using check_bucket_existence_keeps[OF _ c1] assms(2) by (simp add: creating_def)
  have up': "uploading S v name custom s d"
  proof -
    have "upload_cluster_config S name c1 = (Inr x, d)"
      using assms(3) c1 up by (simp add: upload_cluster_config_def bind_act_def uploading_check)
    with leadsD[OF leads_uploading[OF upload_cluster_config_stays[OF laws, where Q = "\<lambda>_. True"]] up] show ?thesis by blast
  qed
  have names: "cluster_bucket S name custom = b" by (simp add: b_def)
  obtain body v1 c2 v2 c3 where body: "dump_config S (cached_config c) = Inr body"
    and c2: "on_service (upload_file (s3 S) b body ''cluster-config-with-implied-values.yaml'' CONFIGS) c1 = (Inr v1, c2)"
    and c3: "on_service (upload_file (s3 S) b (source_text (c2\<lparr>cached_config := (cached_config c2)\<lparr>config_version := v1\<rparr>\<rparr>))
        ''cluster-config.yaml'' CONFIGS)
      (c2\<lparr>cached_config := (cached_config c2)\<lparr>config_version := v1\<rparr>\<rparr>) = (Inr v2, c3)"
    and d: "d = c3\<lparr>cached_config := (cached_config c3)\<lparr>original_config_version := v2\<rparr>\<rparr>"
    using assms(3) c1 kept uploading_bucket[OF up]
    by (auto simp: upload_cluster_config_def bind_act_Inr_iff handling_upload_Inr upload_config_def names
        reading_def modify_def asking_def)
  note put = on_service_put[OF laws c2] on_service_put[OF laws c3]
  have source: "source_text (c2\<lparr>cached_config := (cached_config c2)\<lparr>config_version := v1\<rparr>\<rparr>) = source_text c"
    using put kept by (simp add: source_text_def)
  have "differ_only v (writes S name custom (\<lambda>k. k = get_object_key b CONFIGS ''cluster-config.yaml'')) (service c2) (service d)"
  proof -
    have "moves (differ_only v (writes S name custom (\<lambda>k. k = get_object_key b CONFIGS ''cluster-config.yaml'')))
        (upload_file (s3 S) b t ''cluster-config.yaml'' CONFIGS)" for t
      unfolding b_def by (rule upload_file_differs[OF laws]) simp
    from movesD[OF this] c3 d show ?thesis by (auto simp: on_service_def split: prod.splits)
  qed
  then have "stored v b CONFIGS ''cluster-config-with-implied-values.yaml'' d = Some body"
    using put by (simp add: stored_def differ_only_def writes_def object_key_eq_iff)
  moreover have "stored v b CONFIGS ''cluster-config.yaml'' d = Some (source_text c)"
    using put source d by (simp add: stored_def)
  ultimately show ?thesis using up' body put kept d by auto
qed


lemma upload_artifacts_stores:
  assumes "s3_laws (s3 S) v" and "uploading S v name custom s c" and "upload_artifacts S name c = (Inr x, d)"
    and "template_body d = Some body" and "body \<noteq> []"
  shows "stored v (cluster_bucket S name custom) TEMPLATES ''aws-parallelcluster.cfn.yaml'' d = Some body"
proof -
  have laws: "objects_laws (s3 S) v" using assms(1) by (simp add: s3_laws_def)
  let ?b = "cluster_bucket S name custom"
  have handler: "(if is_instance e cls then raise_act e else upload_failed S name w e) c0 \<noteq> (Inr y, d0)"
    for e cls w c0 d0 and y :: unit
    by (auto simp: raise_act_def upload_failed_raises)
  have drop: "handling m (\<lambda>e. if is_instance e cls then raise_act e else upload_failed S name w e) c0 = (Inr y, d0)
      \<longleftrightarrow> m c0 = (Inr y, d0)" for m cls w c0 d0 and y :: unit
    using handler by (auto simp: handling_def split: prod.splits sum.splits)
  from assms(3) obtain c2 where c2: "upload_template S ?b c2 = (Inr x, d)"
    by (auto simp: upload_artifacts_def bind_act_Inr_iff drop uploading_check[OF assms(2)] uploading_bucket[OF assms(2)])
  from c2 assms(4,5) have body: "template_body c2 = Some body"
    by (auto simp: upload_template_def asking_def bind_act_Inr_iff unit_act_def on_service_def split: option.splits if_splits prod.splits)
  with c2 assms(5) obtain y where "on_service (upload_file (s3 S) ?b body ''aws-parallelcluster.cfn.yaml'' TEMPLATES) c2 = (Inr y, d)"
    by (auto simp: upload_template_def upload_cfn_template_def asking_def bind_act_Inr_iff unit_act_def)
  from on_service_put[OF laws this] show ?thesis by (simp add: stored_def)
qed

lemma stored_stays:
  assumes "moves (stays_uploading S v name custom s Q) m" and "uploading S v name custom s c" and "m c = (r, d)"
    and "\<not> Q (get_object_key (cluster_bucket S name custom) t n)"
  shows "stored v (cluster_bucket S name custom) t n d = stored v (cluster_bucket S name custom) t n c \<and> uploading S v name custom s d"
  using movesD[OF assms(1,3)] assms(2,4) by (simp add: stays_uploading_def differ_only_def writes_def stored_def)

lemma deploy_new_stores:
  assumes "s3_laws (s3 S) v" and "create_stack_keeps S v" and "creating S v name custom s c"
    and "deploy_new S name rb c = (Inr stack_id, d)"
  defines "b \<equiv> cluster_bucket S name custom"
  shows "stored v b CONFIGS ''cluster-config.yaml'' d = Some (source_text c) \<and>
    (\<exists>body. dump_config S (cached_config c) = Inr body \<and>
      stored v b CONFIGS ''cluster-config-with-implied-values.yaml'' d = Some body) \<and>
    (\<forall>body. template_body d = Some body \<longrightarrow> body \<noteq> [] \<longrightarrow>
      stored v b TEMPLATES ''aws-parallelcluster.cfn.yaml'' d = Some body)"
proof -
  have laws: "objects_laws (s3 S) v" using assms(1) by (simp add: s3_laws_def)
  from assms(4) obtain c1 c2 am c3 c4 x1 x2 x3 where c1: "upload_cluster_config S name c = (Inr x1, c1)"
    and c2: "upload_instance_types_data S name c1 = (Inr x2, c2)" and c3: "make_template S name c2 = (Inr am, c3)"
    and c4: "upload_artifacts S name c3 = (Inr x3, c4)"
    and c5: "bind_act (bucket S name) (\<lambda>b. asking (\<lambda>c. on_service
      (create_stack S name (get_file_url b ''aws-parallelcluster.cfn.yaml'' TEMPLATES) rb
         (get_cfn_tags (cached_config c)) (concat (generate_asset_parameters am))))) c4 = (Inr stack_id, d)"
    by (auto simp: deploy_new_def bind_act_Inr_iff)
  note first = upload_cluster_config_stores[OF assms(1,3) c1]
  let ?Q = "\<lambda>k. \<forall>n \<in> {''cluster-config.yaml'', ''cluster-config-with-implied-values.yaml''}. k \<noteq> get_object_key b CONFIGS n"
  let ?cfg = "\<lambda>e. stored v b CONFIGS n e"
  have keys: "?Q (get_object_key b CONFIGS ''instance-types-data.json'')" "\<And>n. ?Q (get_object_key b ASSETS n)"
    "\<And>n. ?Q (get_object_key b CUSTOM_RESOURCES n)" "\<And>n. ?Q (get_object_key b TEMPLATES n)"
    by (simp_all add: object_key_eq_iff)
  have kept: "stored v b CONFIGS n d = stored v b CONFIGS n c1 \<and> uploading S v name custom s c3"
    if n: "n \<in> {''cluster-config.yaml'', ''cluster-config-with-implied-values.yaml''}" for n
  proof -
    have no: "\<not> ?Q (get_object_key b CONFIGS n)" using n by blast
    have u1: "uploading S v name custom s c1" using first by simp
    from stored_stays[OF upload_instance_types_data_stays[OF laws, where Q = ?Q] u1 c2] no keys
    have s2: "stored v b CONFIGS n c2 = stored v b CONFIGS n c1" and u2: "uploading S v name custom s c2" by (simp_all add: b_def)
    from stored_stays[OF make_template_stays[OF laws, where Q = ?Q] u2 c3] no keys
    have s3: "stored v b CONFIGS n c3 = stored v b CONFIGS n c2" and u3: "uploading S v name custom s c3" by (simp_all add: b_def)
    from stored_stays[OF upload_artifacts_stays[OF laws, where Q = ?Q] u3 c4] no keys
    have s4: "stored v b CONFIGS n c4 = stored v b CONFIGS n c3" and u4: "uploading S v name custom s c4" by (simp_all add: b_def)
    from stored_stays[OF create_stack_stays[OF assms(2), where Q = ?Q] u4 c5] no
    have "stored v b CONFIGS n d = stored v b CONFIGS n c4" by (simp add: b_def)
    with s2 s3 s4 u3 show ?thesis by simp
  qed
  then have u3: "uploading S v name custom s c3" by blast
  from stored_stays[OF upload_artifacts_stays[OF laws, where Q = "\<lambda>_. True"] u3 c4]
  have u4: "uploading S v name custom s c4"
    using leadsD[OF leads_uploading[OF upload_artifacts_stays[OF laws, where Q = "\<lambda>_. True"]] u3 c4] by simp
  from c5 have "template_body d = template_body c4"
    by (auto simp: bind_act_def uploading_bucket[OF u4] asking_def on_service_def split: prod.splits)
  moreover have "stored v b TEMPLATES n d = stored v b TEMPLATES n c4" for n
    using stored_stays[OF create_stack_stays[OF assms(2), where Q = "\<lambda>_. False"] u4 c5] by (simp add: b_def)
  ultimately show ?thesis
    using first kept upload_artifacts_stores[OF assms(1) u3 c4] by (simp add: b_def)
qed



section \<open>A creation in memory\<close>

definition mem_services :: "bool \<Rightarrow> mem_s3 cluster_services" where
  "mem_services stack_fails = \<lparr>s3 = mem_api, sha256 = (\<lambda>_. ''b9033160b61390ef''), account = ''1'', aws_region = ''us-east-1'',
     installed_version = ''3.15.0'', random_text = ''jfr4odbeonwb1w5k'', custom_resources = [File ''r.py'' ''pass''],
     stack_param = (\<lambda>n p s. Inr None), dump_config = (\<lambda>_. Inr ''implied''), instance_types_data = (\<lambda>_. Inr ''{}''),
     synth = (\<lambda>cfg b n l s. Inr ([], ''body'')),
     create_stack = (\<lambda>n u d t p. if stack_fails then raise_act (client_error ''LimitExceeded'') else unit_act ''id'')\<rparr>"

definition mem_config :: creation_config where
  "mem_config = \<lparr>custom_s3_bucket = Some ''mine'', config_tags = None, config_version = None, original_config_version = None,
     instance_types_data_version = None, own_cluster_template = False, scheduler_resources = None\<rparr>"

definition mem_cluster :: "mem_s3 cluster_object" where
  "mem_cluster = \<lparr>service = \<lparr>mem_buckets = [''mine''], mem_versioned = [], mem_encrypted = [], mem_policy = (\<lambda>_. None),
       mem_objects = [(''mine'', ''other/key'') \<mapsto> ''x'']\<rparr>,
     source_config_text = Some ''Region: us-east-1'', cached_config = mem_config, cached_bucket = None,
     cached_artifact_dir = None, template_body = None\<rparr>"

lemma mem_services_simps [simp]:
  "s3 (mem_services b) = mem_api" "installed_version (mem_services b) = ''3.15.0''" "stack_param (mem_services b) n p s = Inr None"
  "custom_resources (mem_services b) = [File ''r.py'' ''pass'']" "dump_config (mem_services b) cfg = Inr ''implied''"
  "instance_types_data (mem_services b) cfg = Inr ''{}''" "synth (mem_services b) cfg bk n l st = Inr ([], ''body'')"
  "create_stack (mem_services b) n u d t ps = (if b then raise_act (client_error ''LimitExceeded'') else unit_act ''id'')"
  by (simp_all add: mem_services_def)

lemma mem_api_simps [simp]:
  "head_bucket mem_api n w st = (if n \<in> set (mem_buckets st) then Inr () else Inl (client_error ''404''))"
  "put_object mem_api n k x st = (Inr (Some ''1''), st\<lparr>mem_objects := (mem_objects st)((n, k) \<mapsto> x)\<rparr>)"
  "remove_object mem_api n p st = (Inr (),
     st\<lparr>mem_objects := (\<lambda>(b, k). if b = n \<and> startswith k p then None else mem_objects st (b, k))\<rparr>)"
  "remove_object_versions mem_api n p st = (Inr (), st)"
  by (simp_all add: mem_api_def)

lemma mem_services_laws: "s3_laws (s3 (mem_services b)) mem_view" "create_stack_keeps (mem_services b) mem_view"
    "removal_works (mem_services b)" "new_request mem_cluster"
  using mem_s3_laws
  by (simp_all add: create_stack_keeps_def moves_def objects_kept_def act_defs removal_works_def
      new_request_def mem_cluster_def source_text_def)

lemmas upload_defs = upload_cluster_config_def upload_instance_types_data_def make_template_def upload_artifacts_def
  upload_template_def check_bucket_existence_def upload_config_def upload_cfn_template_def upload_file_def
  build_cluster_template_def on_service_def act_defs

lemma mem_bucket:
  "cached_bucket c = None \<Longrightarrow> cached_artifact_dir c = Some dir \<Longrightarrow> source_config_text c = Some ''Region: us-east-1'' \<Longrightarrow>
    custom_s3_bucket (cached_config c) = Some ''mine'' \<Longrightarrow> ''mine'' \<in> set (mem_buckets (service c)) \<Longrightarrow>
    \<exists>b. bucket (mem_services f) n c = (Inr b, c\<lparr>cached_bucket := Some b\<rparr>)"
  by (simp add: bucket_def custom_bucket_name_def s3_artifacts_dir_def init_s3_bucket_def check_custom_bucket_def
      check_bucket_exists_def Let_def on_service_def act_defs)

definition mem_ready :: "s3_bucket \<Rightarrow> mem_s3 cluster_object \<Rightarrow> bool" where
  "mem_ready b c \<longleftrightarrow> cached_bucket c = Some b \<and> scheduler_resources (cached_config c) = None \<and>
     \<not> own_cluster_template (cached_config c)"

lemma mem_uploads:
  assumes "mem_ready b c"
  shows "\<exists>d. upload_cluster_config (mem_services f) n c = (Inr (), d) \<and> mem_ready b d"
    and "\<exists>d. upload_instance_types_data (mem_services f) n c = (Inr (), d) \<and> mem_ready b d"
    and "\<exists>d x. make_template (mem_services f) n c = (Inr x, d) \<and> mem_ready b d \<and> template_body d = Some ''body''"
    and "template_body c = Some ''body'' \<Longrightarrow> \<exists>d. upload_artifacts (mem_services f) n c = (Inr (), d) \<and> mem_ready b d"
  using assms unfolding mem_ready_def by (simp_all add: upload_defs bucket_cached)

lemma mem_deploy:
  assumes "bucket (mem_services f) n c = (Inr b, d)" and "mem_ready b d"
  shows "\<exists>e. deploy_new (mem_services f) n rb c = (if f then Inl (client_error ''LimitExceeded'') else Inr ''id'', e) \<and>
    mem_ready b e"
proof -
  let ?S = "mem_services f"
  have first: "upload_cluster_config ?S n c = upload_cluster_config ?S n d"
    using assms by (simp add: upload_cluster_config_def check_bucket_existence_def bind_act_def handling_def mem_ready_def bucket_cached)
  obtain c1 where "upload_cluster_config ?S n d = (Inr (), c1)" "mem_ready b c1" using mem_uploads(1)[OF assms(2)] by blast
  moreover from mem_uploads(2)[OF this(2)] obtain c2 where "upload_instance_types_data ?S n c1 = (Inr (), c2)" "mem_ready b c2" by blast
  moreover from mem_uploads(3)[OF this(2)] obtain x c3 where "make_template ?S n c2 = (Inr x, c3)" "mem_ready b c3"
    "template_body c3 = Some ''body''" by blast
  moreover from mem_uploads(4)[OF this(2,3)] obtain c4 where "upload_artifacts ?S n c3 = (Inr (), c4)" "mem_ready b c4" by blast
  ultimately show ?thesis
    by (simp add: deploy_new_def first bind_act_def bucket_cached mem_ready_def on_service_def asking_def unit_act_def raise_act_def)
qed

lemma mem_create:
  "fst (create (mem_services f) ''c'' (Inr False) (Inr (mem_config, [])) False mem_cluster) =
    (if f then Inl (Raised (Exc ''ClusterActionError'' ''LimitExceeded'')) else Inr (''id'', []))"
proof -
  let ?c = "mem_cluster\<lparr>cached_config := add_tags (mem_services f) ''c'' mem_config,
    cached_artifact_dir := Some (new_artifact_dir (mem_services f) ''c'')\<rparr>"
  have c: "cached_bucket ?c = None" "source_config_text ?c = Some ''Region: us-east-1''"
    "custom_s3_bucket (cached_config ?c) = Some ''mine''" "''mine'' \<in> set (mem_buckets (service ?c))"
    "scheduler_resources (cached_config ?c) = None" "\<not> own_cluster_template (cached_config ?c)"
    by (simp_all add: mem_cluster_def mem_config_def add_tags_def Let_def)
  from mem_bucket[OF c(1) _ c(2-4), of "new_artifact_dir (mem_services f) ''c''" f "''c''"]
  obtain b where b: "bucket (mem_services f) ''c'' ?c = (Inr b, ?c\<lparr>cached_bucket := Some b\<rparr>)" by auto
  from mem_deploy[OF b] c obtain e where
    e: "deploy_new (mem_services f) ''c'' False ?c = (if f then Inl (client_error ''LimitExceeded'') else Inr ''id'', e)"
      "mem_ready b e" by (auto simp: mem_ready_def)
  have "cluster_error_mapper (client_error ''LimitExceeded'') (Some ''LimitExceeded'') = Exc ''ClusterActionError'' ''LimitExceeded''"
    by (simp add: cluster_error_mapper_def is_instance_def bases_def)
  with e show ?thesis
    by (simp add: create_def validate_create_request_def validate_no_existing_stack_def generate_artifact_dir_def
        deploy_or_clean_def handling_def bind_act_def modify_def cleanup_artifacts_def bucket_cached mem_ready_def
        delete_s3_artifacts_def on_service_def raise_act_def unit_act_def)
qed

theorem failed_creation_leaves_no_artifacts_witness:
  "fst (create (mem_services True) ''c'' (Inr False) (Inr (mem_config, [])) False mem_cluster) =
     Inl (Raised (Exc ''ClusterActionError'' ''LimitExceeded'')) \<and>
   object_at mem_view ''mine'' (new_artifact_dir (mem_services True) ''c'' @ ''/'' @ ''configs/cluster-config.yaml'')
     (service (snd (create (mem_services True) ''c'' (Inr False) (Inr (mem_config, [])) False mem_cluster))) = None"
proof -
  obtain r c' where run: "create (mem_services True) ''c'' (Inr False) (Inr (mem_config, [])) False mem_cluster = (r, c')" by fastforce
  have r: "r = Inl (Raised (Exc ''ClusterActionError'' ''LimitExceeded''))" using mem_create[of True] run by simp
  have "object_at mem_view n k (service mem_cluster) = None"
    if "startswith k (new_artifact_dir (mem_services True) ''c'' @ ''/'')" for n k
    using that by (auto simp: mem_view_def mem_cluster_def startswith_iff new_artifact_dir_def)
  from failed_creation_leaves_no_artifacts[OF mem_services_laws(1-4) this run[unfolded r], of "''mine''" "''configs/cluster-config.yaml''"]
  show ?thesis using run r by simp
qed


text \<open>
  A template of the user (\<open>DevSettings/ClusterTemplate\<close>) is never uploaded: the stack is created from an address
  at which there is nothing.
\<close>

lemma own_template_not_uploaded:
  "let run = create (mem_services False) ''c'' (Inr False) (Inr (mem_config\<lparr>own_cluster_template := True\<rparr>, [])) False mem_cluster
   in fst run = Inr (''id'', []) \<and>
     stored mem_view (cluster_bucket (mem_services False) ''c'' (Some ''mine'')) TEMPLATES ''aws-parallelcluster.cfn.yaml'' (snd run) = None"
proof -
  let ?S = "mem_services False" let ?cfg = "mem_config\<lparr>own_cluster_template := True\<rparr>"
  let ?B = "cluster_bucket ?S ''c'' (Some ''mine'')"
  let ?c = "mem_cluster\<lparr>cached_config := add_tags ?S ''c'' ?cfg, cached_artifact_dir := Some (new_artifact_dir ?S ''c'')\<rparr>"
  have c: "cached_bucket ?c = None" "source_config_text ?c = Some ''Region: us-east-1''"
    "custom_s3_bucket (cached_config ?c) = Some ''mine''" "''mine'' \<in> set (mem_buckets (service ?c))"
    by (simp_all add: mem_cluster_def mem_config_def add_tags_def Let_def)
  from mem_bucket[OF c(1) _ c(2-4), of "new_artifact_dir ?S ''c''" False "''c''"]
  obtain b where b: "bucket ?S ''c'' ?c = (Inr b, ?c\<lparr>cached_bucket := Some b\<rparr>)" by auto
  moreover have "creating ?S mem_view ''c'' (Some ''mine'') (service ?c) ?c"
    using c differ_only_refl[of mem_view] by (auto simp: creating_def source_text_def dest: reflpD)
  ultimately have "b = ?B" using leadsD[OF leads_bucket[OF mem_services_laws(1)] _ b] by blast
  with b have B: "bucket ?S ''c'' ?c = (Inr ?B, ?c\<lparr>cached_bucket := Some ?B\<rparr>)" by simp
  have "startswith (get_object_key ?B TEMPLATES ''aws-parallelcluster.cfn.yaml'') (artifact_prefix ?S ''c'')" by (rule object_key_below)
  then have other: "get_object_key ?B TEMPLATES ''aws-parallelcluster.cfn.yaml'' \<noteq> ''other/key''"
    by (auto simp: startswith_iff artifact_prefix_def new_artifact_dir_def)
  have "\<exists>d. deploy_new ?S ''c'' False ?c = (Inr ''id'', d) \<and>
      mem_objects (service d) (bucket_name ?B, get_object_key ?B TEMPLATES ''aws-parallelcluster.cfn.yaml'') = None"
    using B other
    by (simp add: deploy_new_def upload_defs bucket_cached object_key_eq_iff mem_cluster_def mem_config_def add_tags_def Let_def)
  then obtain d where "deploy_new ?S ''c'' False ?c = (Inr ''id'', d)"
    "stored mem_view ?B TEMPLATES ''aws-parallelcluster.cfn.yaml'' d = None"
    by (auto simp: stored_def mem_view_def)
  then show ?thesis
    by (simp add: create_def validate_create_request_def validate_no_existing_stack_def generate_artifact_dir_def
        deploy_or_clean_def handling_def bind_act_def modify_def)
qed

end
