(* ===== verification/ClusterDeletion.thy ===== *)
theory ClusterDeletion
  imports ClusterLifecycle "HOL-Library.AList"
begin

text \<open>
  Deleting a cluster (\<open>models/cluster.py\<close>): the log groups of the stack are kept, the stack is
  deleted, and the compute nodes are terminated when that fails; and what a failed creation is
  reported as (\<open>models/cluster_resources.py\<close>).
\<close>

section \<open>Log groups that outlive the stack\<close>

text \<open>A template: its resources, if it has that section, and the other sections.\<close>

type_synonym template_resource = "(string \<times> pyval) list"

record cfn_template =
  resources :: "(string \<times> template_resource) list option"
  other_sections :: "(string \<times> pyval) list"

definition template_resources :: "cfn_template \<Rightarrow> (string \<times> template_resource) list" where
  "template_resources t = (case resources t of None \<Rightarrow> [] | Some rs \<Rightarrow> rs)"

definition is_unretained_log_group :: "template_resource \<Rightarrow> bool" where
  "is_unretained_log_group r \<longleftrightarrow> map_of r ''Type'' = Some (VStr ''AWS::Logs::LogGroup'') \<and>
     map_of r ''DeletionPolicy'' \<noteq> Some (VStr ''Retain'')"

definition get_unretained_cw_log_group_resource_keys :: "cfn_template \<Rightarrow> string list" where
  "get_unretained_cw_log_group_resource_keys t = map fst (filter (\<lambda>(key, r). is_unretained_log_group r) (template_resources t))"

definition retain :: "template_resource \<Rightarrow> template_resource" where
  "retain r = AList.update ''DeletionPolicy'' (VStr ''Retain'') r"

fun retain_resources :: "string list \<Rightarrow> (string \<times> template_resource) list \<Rightarrow> (string \<times> template_resource) list result" where
  "retain_resources [] rs = Inr rs"
| "retain_resources (key # keys) rs = (case map_of rs key of
     None \<Rightarrow> Inl KeyError
   | Some r \<Rightarrow> retain_resources keys (AList.update key (retain r) rs))"

definition retain_in_template :: "string list \<Rightarrow> cfn_template \<Rightarrow> cfn_template result" where
  "retain_in_template keys t = (case resources t of
     None \<Rightarrow> if keys = [] then Inr t else Inl KeyError
   | Some rs \<Rightarrow> rmap (\<lambda>rs'. t\<lparr>resources := Some rs'\<rparr>) (retain_resources keys rs))"

section \<open>Deleting the cluster\<close>

record 's deletion_services =
  stack_template :: "'s \<Rightarrow> cfn_template result"
  format_template :: "cfn_template \<Rightarrow> string"
  update_stack_from_url :: "string \<Rightarrow> string \<Rightarrow> ('s, unit) act"
  poll_status :: "string \<Rightarrow> ('s, string) act"  \<comment> \<open>\<open>describe_stack\<close>, some time after the last poll\<close>
  delete_stack :: "string \<Rightarrow> ('s, unit) act"
  list_instance_ids :: "string \<Rightarrow> 's \<Rightarrow> string list result"  \<comment> \<open>the compute nodes of the cluster\<close>
  terminate_instances :: "string list \<Rightarrow> ('s, unit) act"

definition get_stack_template :: "'s deletion_services \<Rightarrow> string \<Rightarrow> ('s, cfn_template) cluster_act" where
  "get_stack_template D name = handling (reading (\<lambda>c. stack_template D (service c)))
     (\<lambda>e. if is_instance e ''AWSClientError''
           then raise_act (cluster_error_mapper e (Some (''Unable to retrieve template for stack '' @ name @ ''. '' @ exn_text e)))
           else raise_act e)"

definition get_updated_stack_status :: "'s deletion_services \<Rightarrow> string \<Rightarrow> ('s, string) act" where
  "get_updated_stack_status D name = handling (poll_status D name)
     (\<lambda>e. if is_instance e ''AWSClientError''
           then raise_act (cluster_error_mapper e (Some (''Unable to retrieve status of stack '' @ name @ ''. '' @ exn_text e)))
           else raise_act e)"

text \<open>A wait that does not end is \<open>None\<close>.\<close>

partial_function (option) wait_while :: "('s, string) act \<Rightarrow> string \<Rightarrow> 's \<Rightarrow> (unit result \<times> 's) option" where
  "wait_while poll waiting s = (case poll s of
     (Inl e, t) \<Rightarrow> Some (Inl e, t)
   | (Inr st, t) \<Rightarrow> if st = waiting then wait_while poll waiting t else Some (Inr (), t))"

definition wait_for_stack_update :: "'s deletion_services \<Rightarrow> string \<Rightarrow> 's \<Rightarrow> (unit result \<times> 's) option" where
  "wait_for_stack_update D name s =
     Option.bind (wait_while (get_updated_stack_status D name) ''UPDATE_IN_PROGRESS'' s) (\<lambda>(r, t). case r of
       Inl e \<Rightarrow> Some (Inl e, t)
     | Inr _ \<Rightarrow> wait_while (get_updated_stack_status D name) ''UPDATE_COMPLETE_CLEANUP_IN_PROGRESS'' t)"

text \<open>The update of the stack counts as done when there is nothing to update.\<close>

definition update_stack_template :: "'s deletion_services \<Rightarrow> string \<Rightarrow> string \<Rightarrow> 's \<Rightarrow> (unit result \<times> 's) option" where
  "update_stack_template D name url s =
     map_option (\<lambda>(r, t). case r of
         Inl e \<Rightarrow> if is_instance e ''AWSClientError'' \<and> str_contains ''no updates are to be performed'' (map to_lower (exn_text e))
                  then (Inr (), t) else (Inl e, t)
       | Inr x \<Rightarrow> (Inr x, t))
     (case update_stack_from_url D name url s of
        (Inl e, t) \<Rightarrow> Some (Inl e, t)
      | (Inr _, t) \<Rightarrow> wait_for_stack_update D name t)"

definition persist_stack_resources ::
    "'s cluster_services \<Rightarrow> 's deletion_services \<Rightarrow> string \<Rightarrow> string list \<Rightarrow> 's cluster_object \<Rightarrow> (unit result \<times> 's cluster_object) option" where
  "persist_stack_resources S D name keys c =
     (case bind_act (get_stack_template D name) (\<lambda>t. reading (\<lambda>_. retain_in_template keys t)) c of
        (Inl e, d) \<Rightarrow> Some (Inl e, d)
      | (Inr t, d) \<Rightarrow>
         map_option (\<lambda>(r, u). case r of
             Inl e \<Rightarrow> (Inl (if is_instance e ''AWSClientError''
               then cluster_error_mapper e (Some (''Unable to persist logs on cluster deletion, failed with error: '' @ exn_text e @ ''.''))
               else e), u)
           | Inr x \<Rightarrow> (Inr x, u))
         (case bind_act (bucket S name) (\<lambda>b.
                 bind_act (on_service (upload_cfn_template (s3 S) b (format_template D t) ''aws-parallelcluster.cfn.yaml'')) (\<lambda>_.
                 unit_act (get_file_url b ''aws-parallelcluster.cfn.yaml'' TEMPLATES))) d of
            (Inl e, u) \<Rightarrow> Some (Inl e, u)
          | (Inr url, u) \<Rightarrow> map_option (\<lambda>(r, w). (r, u\<lparr>service := w\<rparr>)) (update_stack_template D name url (service u))))"

definition persist_cloudwatch_log_groups ::
    "'s cluster_services \<Rightarrow> 's deletion_services \<Rightarrow> string \<Rightarrow> 's cluster_object \<Rightarrow> (unit result \<times> 's cluster_object) option" where
  "persist_cloudwatch_log_groups S D name c = (case get_stack_template D name c of
     (Inl e, d) \<Rightarrow> Some (Inl e, d)
   | (Inr t, d) \<Rightarrow>
       let log_group_keys = get_unretained_cw_log_group_resource_keys t in
       if log_group_keys \<noteq> [] then persist_stack_resources S D name log_group_keys d else Some (Inr (), d))"

fun each_group :: "('a list \<Rightarrow> ('s, unit) act) \<Rightarrow> 'a list list \<Rightarrow> ('s, unit) act" where
  "each_group f [] = unit_act ()"
| "each_group f (g # gs) = bind_act (if g \<noteq> [] then f g else unit_act ()) (\<lambda>_. each_group f gs)"

definition terminate_nodes :: "'s deletion_services \<Rightarrow> string \<Rightarrow> ('s, unit) act" where
  "terminate_nodes D name = handling
     (bind_act (reading (list_instance_ids D name)) (\<lambda>instances. each_group (terminate_instances D) (grouper instances 100)))
     (\<lambda>e. raise_act (cluster_error_mapper e (Some (''Unable to delete running EC2 instances with error: '' @ exn_text e))))"

definition delete_failed :: "'s deletion_services \<Rightarrow> string \<Rightarrow> py_exn \<Rightarrow> ('s, unit) cluster_act" where
  "delete_failed D name e =
     (if is_instance e ''StackNotFoundError'' then raise_act e
      else bind_act (on_service (terminate_nodes D name)) (\<lambda>_.
        raise_act (cluster_error_mapper e (Some (''Cluster '' @ name @ '' did not delete successfully. '' @ exn_text e)))))"

definition delete_cluster ::
    "'s cluster_services \<Rightarrow> 's deletion_services \<Rightarrow> string \<Rightarrow> bool \<Rightarrow> 's cluster_object \<Rightarrow> (unit result \<times> 's cluster_object) option" where
  "delete_cluster S D name keep_logs c =
     map_option (\<lambda>(r, d). case r of
         Inl e \<Rightarrow> delete_failed D name e d
       | Inr _ \<Rightarrow> handling (on_service (bind_act (delete_stack D name) (\<lambda>_. bind_act (poll_status D name) (\<lambda>_. unit_act ()))))
                    (delete_failed D name) d)
     (if keep_logs then persist_cloudwatch_log_groups S D name c else Some (Inr (), c))"


section \<open>What is retained\<close>

lemma retain_resources_result:
  "set keys \<subseteq> fst ` set rs \<Longrightarrow> \<exists>rs'. retain_resources keys rs = Inr rs' \<and> map fst rs' = map fst rs \<and>
     (\<forall>k. map_of rs' k = (if k \<in> set keys then map_option retain (map_of rs k) else map_of rs k))" if "distinct keys"
  using that
proof (induction keys arbitrary: rs)
  case (Cons key keys)
  then obtain r where r: "map_of rs key = Some r" by (metis insert_subset list.set(2) map_of_eq_None_iff not_Some_eq)
  let ?rs = "AList.update key (retain r) rs"
  have names: "map fst ?rs = map fst rs"
    using r by (auto simp: AList.update_keys dest: map_of_SomeD intro: rev_image_eqI)
  then have "set keys \<subseteq> fst ` set ?rs" using Cons.prems(1) by (metis list.set_map set_subset_Cons subset_trans)
  with Cons.IH[of ?rs] Cons.prems(2) obtain rs' where rs': "retain_resources keys ?rs = Inr rs'" "map fst rs' = map fst ?rs"
    "\<forall>k. map_of rs' k = (if k \<in> set keys then map_option retain (map_of ?rs k) else map_of ?rs k)" by auto
  moreover have "map_of ?rs = (map_of rs)(key \<mapsto> retain r)" by (simp add: update_conv')
  ultimately show ?case using r names Cons.prems(2) by auto
qed simp

lemma retained_is_retained: "\<not> is_unretained_log_group (retain r)"
  by (simp add: is_unretained_log_group_def retain_def update_conv')

lemma unretained_keys:
  "distinct (map fst (template_resources t)) \<Longrightarrow> k \<in> set (get_unretained_cw_log_group_resource_keys t) \<longleftrightarrow>
    (\<exists>r. map_of (template_resources t) k = Some r \<and> is_unretained_log_group r)"
  by (force simp: get_unretained_cw_log_group_resource_keys_def)

text \<open>Retaining the log groups of a stack's template succeeds, leaves no log group that goes with the stack, and
  changes no other resource and no other section.\<close>

lemma log_groups_are_retained:
  assumes "distinct (map fst (template_resources t))"
  shows "\<exists>t'. retain_in_template (get_unretained_cw_log_group_resource_keys t) t = Inr t' \<and>
    get_unretained_cw_log_group_resource_keys t' = [] \<and> other_sections t' = other_sections t \<and>
    (\<forall>k. map_of (template_resources t') k =
      map_option (\<lambda>r. if is_unretained_log_group r then retain r else r) (map_of (template_resources t) k))"
proof (cases "resources t")
  case None
  then show ?thesis
    by (intro exI[of _ t]) (simp add: retain_in_template_def get_unretained_cw_log_group_resource_keys_def template_resources_def)
next
  case (Some rs)
  let ?keys = "get_unretained_cw_log_group_resource_keys t"
  have rs: "template_resources t = rs" using Some by (simp add: template_resources_def)
  have keys: "set ?keys \<subseteq> fst ` set rs" by (auto simp: get_unretained_cw_log_group_resource_keys_def rs)
  have "distinct ?keys"
    using assms by (simp add: get_unretained_cw_log_group_resource_keys_def rs distinct_map_filter)
  from retain_resources_result[OF this keys] obtain rs' where rs': "retain_resources ?keys rs = Inr rs'" "map fst rs' = map fst rs"
    "\<forall>k. map_of rs' k = (if k \<in> set ?keys then map_option retain (map_of rs k) else map_of rs k)" by blast
  let ?t = "t\<lparr>resources := Some rs'\<rparr>"
  have r: "template_resources ?t = rs'" by (simp add: template_resources_def)
  have eq: "map_of rs' k = map_option (\<lambda>r. if is_unretained_log_group r then retain r else r) (map_of rs k)" for k
    using rs'(3) unretained_keys[OF assms, of k] by (cases "map_of rs k") (auto simp: rs)
  have "k \<notin> set (get_unretained_cw_log_group_resource_keys ?t)" for k
    using unretained_keys[of ?t k] assms rs'(2) retained_is_retained by (auto simp: r rs eq split: if_splits)
  then have "get_unretained_cw_log_group_resource_keys ?t = []" by (metis list.set_intros(1) neq_Nil_conv)
  with rs' eq show ?thesis by (intro exI[of _ ?t]) (simp add: retain_in_template_def Some r rs)
qed

section \<open>A failed deletion leaves no compute node\<close>

definition terminated :: "'s deletion_services \<Rightarrow> string list \<Rightarrow> 's \<Rightarrow> 's" where
  "terminated D ids s = fold (\<lambda>g s. snd (terminate_instances D g s)) (grouper ids 100) s"

lemma each_group_ok:
  assumes "\<And>g s. is_ok (fst (f g s))" and "[] \<notin> set gs"
  shows "each_group f gs s = (Inr (), fold (\<lambda>g s. snd (f g s)) gs s)"
  using assms(2)
proof (induction gs arbitrary: s)
  case (Cons g gs)
  obtain t where "f g s = (Inr (), t)" using assms(1)[of g s] by (cases "f g s"; cases "fst (f g s)") auto
  with Cons show ?case by (auto simp: bind_act_def)
qed (simp add: unit_act_def)

lemma grouper_lengths: "0 < n \<Longrightarrow> g \<in> set (grouper xs n) \<Longrightarrow> 0 < length g \<and> length g \<le> n"
proof (induction xs n rule: grouper.induct)
  case (1 xs n)
  then show ?case using grouper.simps[of xs n] by (auto split: if_splits)
qed

text \<open>Terminating the nodes of a cluster asks for every listed instance once, in groups of at most 100.\<close>

lemma nodes_terminated_in_groups:
  assumes "list_instance_ids D name s = Inr ids" and "\<And>g t. is_ok (fst (terminate_instances D g t))"
  shows "terminate_nodes D name s = (Inr (), fold (\<lambda>g t. snd (terminate_instances D g t)) (grouper ids 100) s) \<and>
    concat (grouper ids 100) = ids \<and> list_all (\<lambda>g. 0 < length g \<and> length g \<le> 100) (grouper ids 100)"
proof -
  have "[] \<notin> set (grouper ids 100)" using grouper_lengths[of 100 "[]" ids] by auto
  from each_group_ok[of "terminate_instances D", OF assms(2) this] assms(1) show ?thesis
    by (auto simp: terminate_nodes_def handling_def bind_act_def reading_def list_all_iff grouper_concat
        dest: grouper_lengths[rotated])
qed


text \<open>Instances in memory: the calls are recorded.\<close>

definition mem_deletion :: "string list \<Rightarrow> py_exn \<Rightarrow> (mem_s3 \<times> string list list) deletion_services" where
  "mem_deletion ids e = \<lparr>stack_template = (\<lambda>_. Inr \<lparr>resources = None, other_sections = []\<rparr>), format_template = (\<lambda>_. []),
     update_stack_from_url = (\<lambda>n u. unit_act ()), poll_status = (\<lambda>n. unit_act ''DELETE_IN_PROGRESS''),
     delete_stack = (\<lambda>n. raise_act e), list_instance_ids = (\<lambda>n s. Inr ids),
     terminate_instances = (\<lambda>g (s, calls). (Inr (), (s, calls @ [g])))\<rparr>"

lemma delete_failed_terminates:
  assumes "delete_failed D name e d = (Inl err, c')" and "\<not> is_instance err ''StackNotFoundError''"
    and "\<And>g t. is_ok (fst (terminate_instances D g t))" and "\<And>t. is_ok (list_instance_ids D name t)"
  shows "\<exists>s ids. list_instance_ids D name s = Inr ids \<and> service c' = fold (\<lambda>g t. snd (terminate_instances D g t)) (grouper ids 100) s"
proof -
  from assms(4)[of "service d"] obtain ids where ids: "list_instance_ids D name (service d) = Inr ids" by (auto simp: is_ok_iff)
  have "[] \<notin> set (grouper ids 100)" using grouper_lengths[of 100 "[]" ids] by auto
  from each_group_ok[of "terminate_instances D", OF assms(3) this] ids
  have "terminate_nodes D name (service d) = (Inr (), fold (\<lambda>g t. snd (terminate_instances D g t)) (grouper ids 100) (service d))"
    by (simp add: terminate_nodes_def handling_def bind_act_def reading_def)
  with assms(1,2) have "service c' = fold (\<lambda>g t. snd (terminate_instances D g t)) (grouper ids 100) (service d)"
    by (auto simp: delete_failed_def bind_act_def on_service_def raise_act_def split: if_splits)
  with ids show ?thesis by blast
qed



section \<open>Waiting for the update of the stack\<close>

definition next_poll :: "'s deletion_services \<Rightarrow> string \<Rightarrow> 's \<Rightarrow> 's" where
  "next_poll D name s = snd (get_updated_stack_status D name s)"

lemma wait_while_ends:
  assumes "fst (poll (((\<lambda>s. snd (poll s)) ^^ n) s)) \<noteq> Inr waiting"
  shows "\<exists>r k. wait_while poll waiting s = Some (r, ((\<lambda>s. snd (poll s)) ^^ k) s)"
  using assms
proof (induction n arbitrary: s)
  case 0
  obtain r t where "poll s = (r, t)" by (cases "poll s")
  with 0 show ?case by (intro exI[of _ "case r of Inl e \<Rightarrow> Inl e | Inr _ \<Rightarrow> Inr ()"] exI[of _ 1])
    (auto simp: wait_while.simps split: sum.splits)
next
  case (Suc n)
  obtain r t where p: "poll s = (r, t)" by (cases "poll s")
  show ?case
  proof (cases "r = Inr waiting")
    case True
    have "((\<lambda>s. snd (poll s)) ^^ Suc n) s = ((\<lambda>s. snd (poll s)) ^^ n) t"
      using p by (simp add: funpow_Suc_right del: funpow.simps)
    with Suc.IH[of t] Suc.prems obtain r' k where "wait_while poll waiting t = Some (r', ((\<lambda>s. snd (poll s)) ^^ k) t)"
      by metis
    with True p show ?thesis by (intro exI[of _ r'] exI[of _ "Suc k"]) (simp add: wait_while.simps funpow_Suc_right del: funpow.simps)
  next
    case False
    with p show ?thesis by (intro exI[of _ "case r of Inl e \<Rightarrow> Inl e | Inr _ \<Rightarrow> Inr ()"] exI[of _ 1])
      (auto simp: wait_while.simps split: sum.splits)
  qed
qed

text \<open>C23: As long as the stack does not stay for ever in one of the two statuses that are waited for, the wait for its
  update returns.\<close>

theorem wait_for_update_ends:
  assumes "\<And>k st. st \<in> {''UPDATE_IN_PROGRESS'', ''UPDATE_COMPLETE_CLEANUP_IN_PROGRESS''} \<Longrightarrow>
    \<exists>n \<ge> k. fst (get_updated_stack_status D name ((next_poll D name ^^ n) s)) \<noteq> Inr st"
  shows "wait_for_stack_update D name s \<noteq> None"
proof -
  let ?p = "get_updated_stack_status D name"
  have step: "next_poll D name = (\<lambda>s. snd (?p s))" by (simp add: next_poll_def fun_eq_iff)
  obtain n where "fst (?p (((\<lambda>s. snd (?p s)) ^^ n) s)) \<noteq> Inr ''UPDATE_IN_PROGRESS''" using assms[of "''UPDATE_IN_PROGRESS''" 0] step by auto
  from wait_while_ends[of ?p n s, OF this] obtain r k where
    first: "wait_while ?p ''UPDATE_IN_PROGRESS'' s = Some (r, ((\<lambda>s. snd (?p s)) ^^ k) s)" by blast
  obtain m where m: "m \<ge> k" "fst (?p (((\<lambda>s. snd (?p s)) ^^ m) s)) \<noteq> Inr ''UPDATE_COMPLETE_CLEANUP_IN_PROGRESS''"
    using assms[of "''UPDATE_COMPLETE_CLEANUP_IN_PROGRESS''" k] step by auto
  have "((\<lambda>s. snd (?p s)) ^^ m) s = ((\<lambda>s. snd (?p s)) ^^ (m - k)) (((\<lambda>s. snd (?p s)) ^^ k) s)"
    using m(1) by (metis add_diff_inverse_nat add.commute comp_apply funpow_add not_less)
  with m(2) have "fst (?p (((\<lambda>s. snd (?p s)) ^^ (m - k)) (((\<lambda>s. snd (?p s)) ^^ k) s))) \<noteq>
      Inr ''UPDATE_COMPLETE_CLEANUP_IN_PROGRESS''" by metis
  from wait_while_ends[of ?p "m - k" "((\<lambda>s. snd (?p s)) ^^ k) s", OF this]
  have "wait_while ?p ''UPDATE_COMPLETE_CLEANUP_IN_PROGRESS'' (((\<lambda>s. snd (?p s)) ^^ k) s) \<noteq> None" by blast
  with first show ?thesis by (auto simp: wait_for_stack_update_def split: sum.splits)
qed

text \<open>A rollback of the update ends the wait as if the update were done.\<close>

lemma rollback_ends_wait:
  assumes "\<And>t. poll_status D name t = (Inr ''UPDATE_ROLLBACK_IN_PROGRESS'', t)"
  shows "wait_for_stack_update D name s = Some (Inr (), s)"
  using assms by (simp add: wait_for_stack_update_def wait_while.simps get_updated_stack_status_def handling_def)

definition clock_deletion :: "nat deletion_services" where \<comment> \<open>the state is the number of polls\<close>
  "clock_deletion = \<lparr>stack_template = (\<lambda>_. Inl KeyError), format_template = (\<lambda>_. []), update_stack_from_url = (\<lambda>n u. unit_act ()),
     poll_status = (\<lambda>n k. (Inr (if k = 0 then ''UPDATE_IN_PROGRESS'' else ''UPDATE_COMPLETE''), Suc k)),
     delete_stack = (\<lambda>n. unit_act ()), list_instance_ids = (\<lambda>n s. Inr []), terminate_instances = (\<lambda>g. unit_act ())\<rparr>"

theorem wait_for_update_ends_witness:
  "wait_for_stack_update clock_deletion ''c'' 0 \<noteq> None"
proof (rule wait_for_update_ends)
  fix k :: nat and st assume st: "st \<in> {''UPDATE_IN_PROGRESS'', ''UPDATE_COMPLETE_CLEANUP_IN_PROGRESS''}"
  have run: "get_updated_stack_status clock_deletion ''c'' n = (Inr (if n = 0 then ''UPDATE_IN_PROGRESS'' else ''UPDATE_COMPLETE''), Suc n)" for n
    by (simp add: get_updated_stack_status_def handling_def clock_deletion_def)
  have at: "(next_poll clock_deletion ''c'' ^^ n) 0 = n" for n
    by (induction n) (simp_all add: next_poll_def run)
  show "\<exists>n\<ge>k. fst (get_updated_stack_status clock_deletion ''c'' ((next_poll clock_deletion ''c'' ^^ n) 0)) \<noteq> Inr st"
    using st by (intro exI[of _ "Suc k"]) (auto simp: at run simp del: funpow.simps)
qed

section \<open>What a failed creation is reported as\<close>

record stack_event =
  resource_type :: string
  resource_status :: string
  resource_status_reason :: "string option"

definition is_failed_wait :: "stack_event \<Rightarrow> bool" where
  "is_failed_wait event \<longleftrightarrow> resource_type event = ''AWS::CloudFormation::WaitCondition'' \<and> resource_status event = ''CREATE_FAILED''"

definition get_failure_reason :: "stack_event list list \<Rightarrow> string option" where \<comment> \<open>of the pages of events\<close>
  "get_failure_reason pages = (case find is_failed_wait (concat pages) of
     None \<Rightarrow> None | Some event \<Rightarrow> resource_status_reason event)"

record cluster_creation_failure =
  failure_code :: string
  api_failure_reason :: string
  cfn_failure_reason :: string

definition failure :: "string \<Rightarrow> string \<Rightarrow> string \<Rightarrow> cluster_creation_failure" where
  "failure code api cfn = \<lparr>failure_code = code, api_failure_reason = api, cfn_failure_reason = cfn\<rparr>"

definition cluster_creation_failures :: "cluster_creation_failure list" where
  "cluster_creation_failures =
     [failure ''AmiVersionMismatch''
        (''ParallelCluster version of the custom AMI is different than the cookbook. Please make them '' @ ''consistent.'')
        ''This AMI was created with'',
      failure ''InvalidAmi''
        (''The custom AMI is invalid. It needs to be created using build-image command by providing your AMI as '' @ ''parent image.'')
        ''This AMI was not baked by ParallelCluster'',
      failure ''OnNodeConfiguredExecutionFailure'' ''Failed to execute OnNodeConfigured script.''
        ''Failed to execute OnNodeConfigured script'',
      failure ''OnNodeConfiguredDownloadFailure'' ''Failed to download OnNodeConfigured script.''
        ''Failed to download OnNodeConfigured script'',
      failure ''OnNodeConfiguredFailure'' ''Failed to run OnNodeConfigured script.'' ''Failed to run OnNodeConfigured script'',
      failure ''OnNodeStartExecutionFailure'' ''Failed to execute OnNodeStart script.'' ''Failed to execute OnNodeStart script'',
      failure ''OnNodeStartDownloadFailure'' ''Failed to download OnNodeStart script.'' ''Failed to download OnNodeStart script'',
      failure ''OnNodeStartFailure'' ''Failed to run OnNodeStart script.'' ''Failed to run OnNodeStart script'',
      failure ''EbsMountFailure'' ''Failed to mount EBS volume.'' ''Failed to mount EBS volume'',
      failure ''EfsMountFailure'' ''Failed to mount EFS.'' ''Failed to mount EFS'',
      failure ''FsxMountFailure'' ''Failed to mount FSX.'' ''Failed to mount FSX'',
      failure ''RaidMountFailure'' ''Failed to mount RAID array.'' ''Failed to mount RAID array'',
      failure ''HeadNodeBootstrapFailure'' ''Failed to set up the head node.'' ''Failed to run chef recipe'',
      failure ''HeadNodeBootstrapFailure'' ''Failed to bootstrap the head node.'' ''Failed to bootstrap the head node'',
      failure ''ResourceCreationFailure'' ''Failed to create resources for head node bootstrap.'' ''Resource creation cancelled'',
      failure ''HeadNodeBootstrapFailure'' ''Cluster creation timed out.'' ''WaitCondition timed out'',
      failure ''StaticNodeBootstrapFailure''
        ''Cluster has been set to PROTECTED mode due to failures detected in static node provisioning.''
        ''Cluster has been set to PROTECTED mode due to failures detected in static node provisioning'']"

definition general_failure :: cluster_creation_failure where
  "general_failure = failure ''ClusterCreationFailure'' ''Failed to create the cluster.'' []"

definition get_cluster_creation_failure :: "stack_event list list \<Rightarrow> string \<times> string" where
  "get_cluster_creation_failure pages =
     (let f = (case get_failure_reason pages of
         None \<Rightarrow> general_failure
       | Some reason \<Rightarrow>
           if reason = [] then general_failure
           else (case find (\<lambda>f. str_contains (cfn_failure_reason f) reason) cluster_creation_failures of
                   None \<Rightarrow> general_failure | Some f \<Rightarrow> f))
      in (failure_code f, api_failure_reason f))"

text \<open>A creation that failed with the text of one of the listed failures is reported as that failure, whatever
  other events the stack has.\<close>

lemma listed_failures_are_recognised:
  assumes "f \<in> set cluster_creation_failures" and "find is_failed_wait (concat pages) = Some event"
    and "resource_status_reason event = Some (cfn_failure_reason f)"
  shows "get_cluster_creation_failure pages = (failure_code f, api_failure_reason f)"
proof -
  have reason: "get_failure_reason pages = Some (cfn_failure_reason f)" using assms(2,3) by (simp add: get_failure_reason_def)
  have all: "list_all (\<lambda>f. cfn_failure_reason f \<noteq> [] \<and>
      find (\<lambda>g. str_contains (cfn_failure_reason g) (cfn_failure_reason f)) cluster_creation_failures = Some f) cluster_creation_failures"
    unfolding cluster_creation_failures_def by code_simp
  with assms(1) show ?thesis by (auto simp: get_cluster_creation_failure_def reason list_all_iff)
qed

end
