(* ===== verification/InstanceTypes.thy ===== *)
theory InstanceTypes
  imports Utils SchemaFields FleetStatus "HOL-Library.Multiset"
begin

text \<open>
  What the code reads from the answers of EC2 about instance types, images, file systems and capacity
  reservations (\<open>pcluster/aws/aws_resources.py\<close>).  An answer is the dictionary the call returns, so that a
  missing section is what \<open>dict.get\<close> makes of it.  The order in which Python iterates over a set is not
  specified: \<open>pick\<close> is the element that comes first, one of the set.
\<close>

section \<open>Reading dictionaries\<close>

abbreviation get_key :: "pyval \<Rightarrow> string \<Rightarrow> pyval result" where
  "get_key d k \<equiv> py_get d k VNone"

text \<open>\<open>d.get(k, {}).get(j)\<close>\<close>

definition get_in :: "pyval \<Rightarrow> string \<Rightarrow> string \<Rightarrow> pyval \<Rightarrow> pyval result" where
  "get_in d k j dflt = rbind (py_get d k emptydict) (\<lambda>s. py_get s j dflt)"

fun as_count :: "pyval \<Rightarrow> int result" where \<comment> \<open>a summand: EC2 gives integers\<close>
  "as_count (VInt i) = Inr i"
| "as_count (VBool b) = Inr (if b then 1 else 0)"
| "as_count _ = Inl TypeError"

fun py_upper :: "pyval \<Rightarrow> string result" where
  "py_upper (VStr s) = Inr (map to_upper s)"
| "py_upper _ = Inl AttributeError"

fun py_len :: "pyval \<Rightarrow> nat result" where
  "py_len (VList xs) = Inr (length xs)"
| "py_len (VDict d) = Inr (length d)"
| "py_len (VStr s) = Inr (length s)"
| "py_len _ = Inl TypeError"

definition py_contains :: "pyval \<Rightarrow> string \<Rightarrow> bool result" where \<comment> \<open>\<open>s in xs\<close>\<close>
  "py_contains xs s = (case xs of
      VList l \<Rightarrow> Inr (VStr s \<in> set l) | VDict d \<Rightarrow> Inr (s \<in> fst ` set d) | VStr t \<Rightarrow> Inr (str_contains s t)
    | _ \<Rightarrow> Inl TypeError)"

text \<open>\<open>next(iter([tag["Value"] for tag in tags if tag["Key"] == tag_key]), None)\<close>: every tag is read.\<close>

fun tag_values :: "string \<Rightarrow> pyval list \<Rightarrow> pyval list result" where
  "tag_values tag_key [] = Inr []"
| "tag_values tag_key (tag # tags) =
     rbind (py_index tag ''Key'') (\<lambda>k.
       if k = VStr tag_key
       then rbind (py_index tag ''Value'') (\<lambda>v. rmap (Cons v) (tag_values tag_key tags))
       else tag_values tag_key tags)"

definition get_tag :: "pyval \<Rightarrow> string \<Rightarrow> pyval result" where
  "get_tag tags tag_key = rbind (py_iter tags) (\<lambda>l.
     rmap (\<lambda>vs. case vs of [] \<Rightarrow> VNone | v # _ \<Rightarrow> v) (tag_values tag_key l))"

section \<open>Instance types\<close>

fun count_devices :: "string \<Rightarrow> pyval list \<Rightarrow> int \<Rightarrow> int result" where
  "count_devices maker [] n = Inr n"
| "count_devices maker (device # devices) n =
     rbind (py_get device ''Manufacturer'' (VStr [])) (\<lambda>manufacturer.
     rbind (py_upper manufacturer) (\<lambda>m.
       if m = maker
       then rbind (py_get device ''Count'' (VInt 0)) (\<lambda>c.
            rbind (as_count c) (\<lambda>k. count_devices maker devices (n + k)))
       else count_devices maker devices n))"

definition gpu_count :: "pyval \<Rightarrow> int result" where
  "gpu_count instance_type_data =
     rbind (get_key instance_type_data ''GpuInfo'') (\<lambda>gpu_info.
       if truthy gpu_info
       then rbind (py_get gpu_info ''Gpus'' (VList [])) (\<lambda>gpus.
            rbind (py_iter gpus) (\<lambda>l. count_devices ''NVIDIA'' l 0))
       else Inr 0)"

definition inference_accelerator_count :: "pyval \<Rightarrow> int result" where
  "inference_accelerator_count instance_type_data =
     rbind (get_in instance_type_data ''InferenceAcceleratorInfo'' ''Accelerators'' (VList [])) (\<lambda>accelerators.
     rbind (py_iter accelerators) (\<lambda>l. count_devices ''AWS'' l 0))"

text \<open>\<open>list({device.get("Manufacturer", "") for device in devices})[0]\<close>, or the empty text.\<close>

definition manufacturer_of :: "(pyval list \<Rightarrow> pyval) \<Rightarrow> pyval \<Rightarrow> pyval result" where
  "manufacturer_of pick devices =
     rbind (py_iter devices) (\<lambda>l.
     rbind (rmap_list (\<lambda>device. py_get device ''Manufacturer'' (VStr [])) l) (\<lambda>manufacturers.
       if \<not> list_all hashable_key manufacturers then Inl TypeError
       else Inr (if manufacturers = [] then VStr [] else pick manufacturers)))"

definition gpu_manufacturer :: "(pyval list \<Rightarrow> pyval) \<Rightarrow> pyval \<Rightarrow> pyval result" where
  "gpu_manufacturer pick instance_type_data =
     rbind (get_in instance_type_data ''GpuInfo'' ''Gpus'' (VList [])) (manufacturer_of pick)"

definition inference_accelerator_manufacturer :: "(pyval list \<Rightarrow> pyval) \<Rightarrow> pyval \<Rightarrow> pyval result" where
  "inference_accelerator_manufacturer pick instance_type_data =
     rbind (get_in instance_type_data ''InferenceAcceleratorInfo'' ''Accelerators'' (VList [])) (manufacturer_of pick)"

text \<open>Only a \<open>KeyError\<close> is caught, which \<open>get\<close> never raises.\<close>

definition or_minus_one :: "pyval result \<Rightarrow> pyval result" where
  "or_minus_one r = (if r = Inl KeyError then Inr (VInt (-1)) else r)"

definition cores_count :: "pyval \<Rightarrow> pyval result" where
  "cores_count instance_type_data =
     or_minus_one (rbind (get_key instance_type_data ''VCpuInfo'') (\<lambda>vcpus_info. get_key vcpus_info ''DefaultCores''))"

definition vcpus_count :: "pyval \<Rightarrow> pyval result" where
  "vcpus_count instance_type_data =
     or_minus_one (rbind (get_key instance_type_data ''VCpuInfo'') (\<lambda>vcpus_info. get_key vcpus_info ''DefaultVCpus''))"

definition default_threads_per_core :: "pyval \<Rightarrow> pyval result" where
  "default_threads_per_core instance_type_data = get_in instance_type_data ''VCpuInfo'' ''DefaultThreadsPerCore'' VNone"

definition network_cards :: "pyval \<Rightarrow> pyval result" where
  "network_cards instance_type_data =
     (let cards = rbind (py_index instance_type_data ''NetworkInfo'') (\<lambda>info. py_index info ''NetworkCards'') in
      if cards = Inl KeyError
      then rbind (py_get instance_type_data ''InstanceType'' (VStr ''unknown'')) (\<lambda>instance_type.
           Inl (Exc ''RuntimeError''
             (''Could not determine network cards for instance type '' @ py_str instance_type @ ''.'')))
      else cards)"

definition max_network_cards :: "pyval \<Rightarrow> nat result" where
  "max_network_cards instance_type_data = rbind (network_cards instance_type_data) py_len"

definition int_or_none :: "pyval \<Rightarrow> int option result" where
  "int_or_none result = (if result = VNone then Inr None else rmap Some (py_int result))"

definition network_card_index :: "pyval \<Rightarrow> int option result" where
  "network_card_index network_card_data = rbind (get_key network_card_data ''NetworkCardIndex'') int_or_none"

definition maximum_network_interfaces :: "pyval \<Rightarrow> int option result" where
  "maximum_network_interfaces network_card_data =
     rbind (get_key network_card_data ''MaximumNetworkInterfaces'') int_or_none"

text \<open>The cards with an index, and the sort by it; the sort keeps the order of equal indices.\<close>

fun indexed_cards :: "pyval list \<Rightarrow> pyval list result" where
  "indexed_cards [] = Inr []"
| "indexed_cards (nic # nics) =
     rbind (get_key nic ''NetworkCardIndex'') (\<lambda>index.
     rmap (\<lambda>cards. if index = VNone then cards else nic # cards) (indexed_cards nics))"

definition network_cards_list :: "pyval \<Rightarrow> pyval list result" where
  "network_cards_list instance_type_data =
     rbind (network_cards instance_type_data) (\<lambda>nics.
     rbind (py_iter nics) (\<lambda>l.
     rbind (indexed_cards l) (\<lambda>cards.
     rbind (rmap_list (\<lambda>c. rmap (\<lambda>i. (the i, c)) (network_card_index c)) cards) (\<lambda>keyed.
       Inr (map snd (sort_key fst keyed))))))"

definition instance_storage_supported :: "pyval \<Rightarrow> pyval result" where
  "instance_storage_supported instance_type_data = get_key instance_type_data ''InstanceStorageSupported''"

text \<open>The intersection of two sets; the order of the list is not specified and not used.\<close>

definition supported_architecture :: "pyval \<Rightarrow> string set result" where
  "supported_architecture instance_type_data =
     rbind (get_key instance_type_data ''ProcessorInfo'') (\<lambda>info.
     rbind (get_key info ''SupportedArchitectures'') (\<lambda>architectures.
     rbind (py_iter architectures) (\<lambda>l.
       if \<not> list_all hashable_key l then Inl TypeError
       else Inr {a \<in> set SUPPORTED_ARCHITECTURES. VStr a \<in> set l})))"

definition is_efa_supported :: "pyval \<Rightarrow> bool result" where \<comment> \<open>its truth value is what is used\<close>
  "is_efa_supported instance_type_data = rmap truthy (get_in instance_type_data ''NetworkInfo'' ''EfaSupported'' (VBool False))"

definition instance_type_name :: "pyval \<Rightarrow> pyval result" where
  "instance_type_name instance_type_data = get_key instance_type_data ''InstanceType''"

definition is_ebs_optimized :: "pyval \<Rightarrow> bool result" where
  "is_ebs_optimized instance_type_data =
     rmap (\<lambda>support_level. support_level \<noteq> VStr ''unsupported'')
       (get_in instance_type_data ''EbsInfo'' ''EbsOptimizedSupport'' (VStr ''unsupported''))"

text \<open>
  \<open>supported_usage_classes\<close> edits the list it found in the data, which is kept in a cache: the list of the
  first call is the data of the second.
\<close>

definition rename_on_demand :: "pyval list \<Rightarrow> pyval list" where
  "rename_on_demand supported_classes =
     (if VStr ''on-demand'' \<in> set supported_classes
      then remove1 (VStr ''on-demand'') supported_classes @ [VStr ''ondemand'']
      else supported_classes)"

definition supported_usage_classes :: "pyval \<Rightarrow> pyval list result" where
  "supported_usage_classes instance_type_data =
     rbind (py_get instance_type_data ''SupportedUsageClasses'' (VList [])) (\<lambda>supported_classes.
       case supported_classes of VList cs \<Rightarrow> Inr (rename_on_demand cs) | _ \<Rightarrow> Inl TypeError)"

definition ec2memory_size_in_mib :: "pyval \<Rightarrow> pyval result" where
  "ec2memory_size_in_mib instance_type_data = get_in instance_type_data ''MemoryInfo'' ''SizeInMiB'' VNone"

definition max_efa_interfaces :: "pyval \<Rightarrow> pyval result" where
  "max_efa_interfaces instance_type_data =
     rbind (get_in instance_type_data ''NetworkInfo'' ''EfaInfo'' emptydict) (\<lambda>efa_info.
     rbind (get_key efa_info ''MaximumEfaInterfaces'') (\<lambda>max_efa.
       if max_efa \<noteq> VNone then Inr max_efa
       else rmap (\<lambda>supported. VInt (if supported then 1 else 0)) (is_efa_supported instance_type_data)))"
section \<open>Stacks and instances\<close>

text \<open>\<open>next((o["OutputValue"] for o in outputs if o["OutputKey"] == key), None)\<close>: the search ends at the first match.\<close>

fun first_match :: "string \<Rightarrow> string \<Rightarrow> string \<Rightarrow> pyval list \<Rightarrow> pyval result" where
  "first_match key_field value_field key [] = Inr VNone"
| "first_match key_field value_field key (x # xs) =
     rbind (py_index x key_field) (\<lambda>k.
       if k = VStr key then py_index x value_field else first_match key_field value_field key xs)"

definition stack_get_output :: "pyval \<Rightarrow> string \<Rightarrow> pyval result" where
  "stack_get_output stack_data output_key =
     rbind (py_get stack_data ''Outputs'' (VList [])) (\<lambda>outputs.
     rbind (py_iter outputs) (first_match ''OutputKey'' ''OutputValue'' output_key))"

definition is_space :: "char \<Rightarrow> bool" where
  "is_space c \<longleftrightarrow> (of_char c :: nat) \<in> {9, 10, 11, 12, 13, 28, 29, 30, 31, 32}"

definition str_strip :: "string \<Rightarrow> string" where
  "str_strip s = rev (dropWhile is_space (rev (dropWhile is_space s)))"

definition stack_get_param :: "pyval \<Rightarrow> string \<Rightarrow> pyval result" where
  "stack_get_param stack_data key_name =
     rbind (py_get stack_data ''Parameters'' (VList [])) (\<lambda>params.
     rbind (py_iter params) (\<lambda>l.
     rbind (first_match ''ParameterKey'' ''ParameterValue'' key_name l) (\<lambda>v.
       case v of VNone \<Rightarrow> Inr VNone | VStr s \<Rightarrow> Inr (VStr (str_strip s)) | _ \<Rightarrow> Inl AttributeError)))"

definition stack_get_tag :: "pyval \<Rightarrow> string \<Rightarrow> pyval result" where
  "stack_get_tag stack_data tag_key = rbind (py_get stack_data ''Tags'' (VList [])) (\<lambda>tags. get_tag tags tag_key)"

text \<open>The truth of \<open>StackInfo.is_working_status\<close>; the times are texts, \<open>str(None)\<close> where one is missing.\<close>

definition stack_is_working :: "pyval \<Rightarrow> bool result" where
  "stack_is_working stack_data = rmap (\<lambda>status.
     status \<in> {VStr ''CREATE_COMPLETE'', VStr ''UPDATE_COMPLETE'', VStr ''UPDATE_ROLLBACK_COMPLETE''})
       (get_key stack_data ''StackStatus'')"

definition stack_creation_time :: "pyval \<Rightarrow> string result" where
  "stack_creation_time stack_data = rmap py_str (get_key stack_data ''CreationTime'')"

definition stack_last_updated_time :: "pyval \<Rightarrow> string result" where
  "stack_last_updated_time stack_data =
     rbind (stack_creation_time stack_data) (\<lambda>creation_time.
     rmap py_str (py_get stack_data ''LastUpdatedTime'' (VStr creation_time)))"

definition get_resource_physical_id :: "pyval \<Rightarrow> string \<Rightarrow> pyval result" where
  "get_resource_physical_id resources resource_logical_id =
     rbind (get_key resources resource_logical_id) (\<lambda>resource.
       if truthy resource then py_index resource ''PhysicalResourceId'' else Inr VNone)"

definition instance_state :: "pyval \<Rightarrow> pyval result" where
  "instance_state instance_data = rbind (get_key instance_data ''State'') (\<lambda>state. get_key state ''Name'')"

definition private_dns_name_short :: "pyval \<Rightarrow> string result" where
  "private_dns_name_short instance_data = rbind (get_key instance_data ''PrivateDnsName'') (\<lambda>name.
     case name of VStr s \<Rightarrow> Inr (hd (split_on CHR ''.'' s)) | _ \<Rightarrow> Inl AttributeError)"

definition instance_tag :: "pyval \<Rightarrow> string \<Rightarrow> pyval result" where
  "instance_tag instance_data tag_key =
     rbind (py_get instance_data ''Tags'' (VList [])) (\<lambda>tags. get_tag tags tag_key)"

section \<open>File systems, images and capacity reservations\<close>

definition file_storage_type :: "pyval \<Rightarrow> pyval result" where
  "file_storage_type file_storage_info =
     rbind (get_key file_storage_info ''FileSystemType'') (\<lambda>t.
       if truthy t then Inr t else get_key file_storage_info ''FileCacheType'')"

definition mount_name :: "pyval \<Rightarrow> pyval result" where
  "mount_name file_storage_info =
     rbind (file_storage_type file_storage_info) (\<lambda>t.
       if t = VStr ''LUSTRE''
       then rbind (get_key file_storage_info ''LustreConfiguration'') (\<lambda>c. get_key c ''MountName'')
       else Inr (VStr []))"

definition dns_name :: "pyval \<Rightarrow> pyval result" where
  "dns_name file_storage_info =
     rbind (file_storage_type file_storage_info) (\<lambda>t.
       if t \<in> {VStr ''LUSTRE'', VStr ''OPENZFS''} then get_key file_storage_info ''DNSName'' else Inr (VStr []))"

fun snapshots_of :: "pyval list \<Rightarrow> pyval list result" where
  "snapshots_of [] = Inr []"
| "snapshots_of (mapping # mappings) =
     rbind (get_key mapping ''Ebs'') (\<lambda>ebs.
       if truthy ebs
       then rbind (get_key ebs ''SnapshotId'') (\<lambda>snapshot. rmap (Cons snapshot) (snapshots_of mappings))
       else snapshots_of mappings)"

definition snapshot_ids :: "pyval \<Rightarrow> pyval list result" where
  "snapshot_ids image_data =
     rbind (get_key image_data ''BlockDeviceMappings'') (\<lambda>mappings. rbind (py_iter mappings) snapshots_of)"

definition first_of :: "pyval \<Rightarrow> pyval result" where \<comment> \<open>\<open>xs[0]\<close>\<close>
  "first_of xs = (case xs of VList (x # _) \<Rightarrow> Inr x | VList [] \<Rightarrow> Inl IndexError | VDict _ \<Rightarrow> Inl KeyError
     | VStr (c # _) \<Rightarrow> Inr (VStr [c]) | VStr [] \<Rightarrow> Inl IndexError | _ \<Rightarrow> Inl TypeError)"

definition volume_size :: "pyval \<Rightarrow> pyval result" where
  "volume_size image_data =
     rbind (get_key image_data ''BlockDeviceMappings'') (\<lambda>mappings.
     rbind (first_of mappings) (\<lambda>mapping.
     rbind (get_key mapping ''Ebs'') (\<lambda>ebs. get_key ebs ''VolumeSize'')))"

definition device_name :: "pyval \<Rightarrow> pyval result" where
  "device_name image_data =
     rbind (get_key image_data ''BlockDeviceMappings'') (\<lambda>mappings.
     rbind (first_of mappings) (\<lambda>mapping. get_key mapping ''DeviceName''))"

definition image_tag :: "pyval \<Rightarrow> string \<Rightarrow> pyval result" where
  "image_tag image_data tag_key = rbind (py_get image_data ''Tags'' (VList [])) (\<lambda>tags. get_tag tags tag_key)"

definition image_os :: "pyval \<Rightarrow> pyval result" where
  "image_os image_data = image_tag image_data ''parallelcluster:os''"

definition CAPACITY_BLOCK_REQUESTED_QUANTITY_TAG_KEY :: string where
  "CAPACITY_BLOCK_REQUESTED_QUANTITY_TAG_KEY = ''aws:ec2capacityreservation:incrementalRequestedQuantity''"

definition CAPACITY_BLOCK_RESERVATION_TYPE_TAG_KEY :: string where
  "CAPACITY_BLOCK_RESERVATION_TYPE_TAG_KEY = ''aws:ec2capacityreservation:capacityReservationType''"

definition reservation_tag :: "pyval \<Rightarrow> string \<Rightarrow> pyval result" where
  "reservation_tag capacity_reservation_data tag_key =
     rbind (py_get capacity_reservation_data ''Tags'' (VList [])) (\<lambda>tags. get_tag tags tag_key)"

definition reservation_type :: "pyval \<Rightarrow> pyval result" where
  "reservation_type capacity_reservation_data =
     rbind (reservation_tag capacity_reservation_data CAPACITY_BLOCK_RESERVATION_TYPE_TAG_KEY) (\<lambda>by_tag.
     py_get capacity_reservation_data ''ReservationType'' by_tag)"

definition total_instance_count :: "pyval \<Rightarrow> pyval result" where
  "total_instance_count capacity_reservation_data = py_get capacity_reservation_data ''TotalInstanceCount'' (VInt 0)"

definition available_instance_count :: "pyval \<Rightarrow> pyval result" where
  "available_instance_count capacity_reservation_data = py_get capacity_reservation_data ''AvailableInstanceCount'' (VInt 0)"

definition incremental_requested_quantity :: "pyval \<Rightarrow> int result" where
  "incremental_requested_quantity capacity_reservation_data =
     rbind (reservation_tag capacity_reservation_data CAPACITY_BLOCK_REQUESTED_QUANTITY_TAG_KEY) (\<lambda>requested_quantity.
       case requested_quantity of VStr (c # s) \<Rightarrow> py_int (VStr (c # s)) | _ \<Rightarrow> Inr 0)"

section \<open>What the values are\<close>

text \<open>The core and CPU counts are read, or the call raises; \<open>-1\<close> is never put in their place.\<close>

lemma cpu_counts_are_read:
  "cores_count (VDict d) = (case map_of d ''VCpuInfo'' of
      Some (VDict info) \<Rightarrow> Inr (case map_of info ''DefaultCores'' of None \<Rightarrow> VNone | Some n \<Rightarrow> n) | _ \<Rightarrow> Inl AttributeError)"
  "vcpus_count (VDict d) = (case map_of d ''VCpuInfo'' of
      Some (VDict info) \<Rightarrow> Inr (case map_of info ''DefaultVCpus'' of None \<Rightarrow> VNone | Some n \<Rightarrow> n) | _ \<Rightarrow> Inl AttributeError)"
  by (simp_all add: cores_count_def vcpus_count_def or_minus_one_def split: option.split pyval.split)

lemma renamed_once: "distinct cs \<Longrightarrow> rename_on_demand (rename_on_demand cs) = rename_on_demand cs"
  by (auto simp: rename_on_demand_def)

text \<open>The devices that a maker is credited with, when each is described by a maker and a number.\<close>

definition device :: "string \<Rightarrow> int \<Rightarrow> pyval" where
  "device maker n = VDict [(''Manufacturer'', VStr maker), (''Count'', VInt n)]"

lemma count_devices_total:
  "count_devices maker (map (\<lambda>(m, n). device m n) ds) k
     = Inr (k + (\<Sum>(m, n) \<leftarrow> ds. if map to_upper m = maker then n else 0))"
  by (induction ds arbitrary: k) (auto simp: device_def)

lemma py_eq_None_right [simp]: "py_eq v VNone \<longleftrightarrow> v = VNone"
  by (cases v) auto

lemma indexed_cards_filter:
  "indexed_cards nics = Inr cards \<Longrightarrow> cards = filter (\<lambda>nic. get_key nic ''NetworkCardIndex'' \<noteq> Inr VNone) nics
     \<and> (\<forall>c \<in> set cards. \<exists>v. get_key c ''NetworkCardIndex'' = Inr v \<and> v \<noteq> VNone)"
  by (induction nics arbitrary: cards) (auto simp: rbind_Inr_iff rmap_Inr_iff)

lemma rmap_list_keyed:
  "rmap_list (\<lambda>c. rmap (\<lambda>i. (the i, c)) (f c)) cs = Inr ks \<Longrightarrow>
     map snd ks = cs \<and> list_all (\<lambda>(i, c). \<exists>j. f c = Inr j \<and> i = the j) ks"
  by (induction cs arbitrary: ks) (auto simp: rbind_Inr_iff rmap_Inr_iff)

text \<open>The network cards come out in the order of their indices, each with an index and none lost.\<close>

lemma network_cards_in_order:
  assumes "network_cards_list d = Inr cards"
  obtains nics where "rbind (network_cards d) py_iter = Inr nics"
    and "mset cards = mset (filter (\<lambda>nic. get_key nic ''NetworkCardIndex'' \<noteq> Inr VNone) nics)"
    and "sorted (map (\<lambda>c. the (projr (network_card_index c))) cards)"
proof -
  from assms obtain v nics ics keyed where v: "network_cards d = Inr v" "py_iter v = Inr nics"
      "indexed_cards nics = Inr ics"
    and keyed: "rmap_list (\<lambda>c. rmap (\<lambda>i. (the i, c)) (network_card_index c)) ics = Inr keyed"
    and cards: "cards = map snd (sort_key fst keyed)"
    by (auto simp: network_cards_list_def rbind_Inr_iff)
  from rmap_list_keyed[OF keyed] have ks: "map snd keyed = ics"
    "list_all (\<lambda>(i, c). \<exists>j. network_card_index c = Inr j \<and> i = the j) keyed" by auto
  have "mset cards = mset ics" unfolding cards ks(1)[symmetric] by (metis mset_map mset_sort)
  moreover have "map (\<lambda>c. the (projr (network_card_index c))) cards = map fst (sort_key fst keyed)"
    using ks(2) by (auto simp: cards list_all_iff)
  then have "sorted (map (\<lambda>c. the (projr (network_card_index c))) cards)" by simp
  ultimately show ?thesis using v indexed_cards_filter[OF v(3)] that[of nics] by simp
qed

end
