(* ===== verification/InstanceValidators.thy ===== *)
theory InstanceValidators
  imports InstanceTypes NetworkAccess
begin

text \<open>
  The validators of instance types: those of a compute resource with several of them
  (\<open>pcluster/validators/instances_validators.py\<close>) and those of one type, its image, its capacity reservation
  and its placement group (\<open>pcluster/validators/ec2_validators.py\<close>).  What EC2 and the resource groups answer
  is a parameter.
\<close>

section \<open>Several instance types\<close>

type_synonym instance_types_info = "(string \<times> pyval) list" \<comment> \<open>the description of each instance type\<close>

text \<open>\<open>{instance_type: value, other_type: other_value}\<close>; a key given twice keeps the second value.\<close>

definition mismatching_values :: "pyval \<Rightarrow> pyval \<Rightarrow> pyval \<Rightarrow> pyval \<Rightarrow> string" where
  "mismatching_values instance_type v other_type w =
     (if py_eq instance_type other_type
      then ''{'' @ py_repr instance_type @ '': '' @ py_repr w @ ''}''
      else ''{'' @ py_repr instance_type @ '': '' @ py_repr v @ '', '' @ py_repr other_type @ '': '' @ py_repr w @ ''}'')"

fun homogeneity_loop ::
    "(pyval \<Rightarrow> pyval result) \<Rightarrow> (string \<Rightarrow> string) \<Rightarrow> pyval \<Rightarrow> pyval \<Rightarrow> pyval list \<Rightarrow> failures result" where
  "homogeneity_loop property_callback failure_message_callback instance_property instance_type [] = Inr []"
| "homogeneity_loop property_callback failure_message_callback instance_property instance_type (info # infos) =
     rbind (property_callback info) (\<lambda>current_property.
     rbind (instance_type_name info) (\<lambda>current_type.
       if instance_property \<noteq> VNone \<and> \<not> py_eq instance_property current_property
       then Inr [(failure_message_callback
                   (mismatching_values instance_type instance_property current_type current_property), ERROR)]
       else homogeneity_loop property_callback failure_message_callback current_property current_type infos))"

definition validate_property_homogeneity ::
    "(pyval \<Rightarrow> pyval result) \<Rightarrow> (string \<Rightarrow> string) \<Rightarrow> instance_types_info \<Rightarrow> failures result" where
  "validate_property_homogeneity property_callback failure_message_callback infos =
     homogeneity_loop property_callback failure_message_callback VNone VNone (map snd infos)"

definition InstancesCPUValidator :: "string \<Rightarrow> instance_types_info \<Rightarrow> bool \<Rightarrow> failures result" where
  "InstancesCPUValidator compute_resource_name infos disable_simultaneous_multithreading =
     (if disable_simultaneous_multithreading
      then validate_property_homogeneity cores_count (\<lambda>values.
        ''Instance types listed under Compute Resource '' @ compute_resource_name @
        '' must have the same number of CPU cores when Simultaneous Multithreading is disabled ('' @ values @ '').'') infos
      else validate_property_homogeneity vcpus_count (\<lambda>values.
        ''Instance types listed under Compute Resource '' @ compute_resource_name @
        '' must have the same number of vCPUs ('' @ values @ '').'') infos)"

definition accelerators_message :: "string \<Rightarrow> string \<Rightarrow> string \<Rightarrow> string" where
  "accelerators_message compute_resource_name what values =
     ''Instance types listed under Compute Resource '' @ compute_resource_name @ '' must have the same '' @ what @
     '' ('' @ values @ '').''"

definition InstancesAcceleratorsValidator ::
    "(pyval list \<Rightarrow> pyval) \<Rightarrow> string \<Rightarrow> instance_types_info \<Rightarrow> failures result" where
  "InstancesAcceleratorsValidator pick compute_resource_name infos =
     rbind (validate_property_homogeneity (rmap VInt \<circ> gpu_count)
       (accelerators_message compute_resource_name ''number of GPUs'') infos) (\<lambda>gpus.
     rbind (validate_property_homogeneity (rmap VInt \<circ> inference_accelerator_count)
       (accelerators_message compute_resource_name ''number of Inference Accelerators'') infos) (\<lambda>accelerators.
     rbind (validate_property_homogeneity (gpu_manufacturer pick)
       (accelerators_message compute_resource_name ''GPU manufacturer'') infos) (\<lambda>gpu_makers.
     rbind (validate_property_homogeneity (inference_accelerator_manufacturer pick)
       (accelerators_message compute_resource_name ''inference accelerator manufacturer'') infos) (\<lambda>accelerator_makers.
       Inr (gpus @ accelerators @ gpu_makers @ accelerator_makers)))))"

text \<open>The names of the types for which a test holds; a set of names, sorted for the message.\<close>

fun types_with :: "(pyval \<Rightarrow> bool result) \<Rightarrow> instance_types_info \<Rightarrow> string list result" where
  "types_with test [] = Inr []"
| "types_with test ((name, info) # infos) =
     rbind (test info) (\<lambda>b. rmap (\<lambda>names. if b then name # names else names) (types_with test infos))"

definition sorted_names :: "string list \<Rightarrow> string" where
  "sorted_names names = join '','' (sort (remdups names))"

definition InstancesEFAValidator :: "string \<Rightarrow> instance_types_info \<Rightarrow> bool \<Rightarrow> bool \<Rightarrow> failures result" where
  "InstancesEFAValidator compute_resource_name infos efa_enabled multiaz_queue =
     (if efa_enabled
      then rmap (\<lambda>names. fail_if (names \<noteq> []) ERROR
        (''Instance type(s) ('' @ sorted_names names @
         '') do not support EFA and cannot be launched when EFA is enabled in Compute Resource: '' @
         compute_resource_name @ ''.'')) (types_with (rmap Not \<circ> is_efa_supported) infos)
      else rmap (\<lambda>names. fail_if (names \<noteq> [] \<and> \<not> multiaz_queue) WARNING
        (''The EC2 instance type(s) selected ('' @ sorted_names names @ '') for the Compute Resource '' @
         compute_resource_name @ '' support enhanced '' @
         ''networking capabilities using Elastic Fabric Adapter (EFA). EFA enables you to run '' @
         ''applications requiring high levels of inter-node communications at scale on AWS at no '' @
         ''additional charge. You can update the cluster's configuration to enable EFA ('' @
         ''https://docs.aws.amazon.com/parallelcluster/latest/ug/efa-v3.html).''))
        (types_with is_efa_supported infos))"

definition varies :: "'a list \<Rightarrow> bool" where \<comment> \<open>\<open>len(set(xs)) > 1\<close>\<close>
  "varies xs \<longleftrightarrow> 1 < length (remdups xs)"

definition InstancesNetworkingValidator :: "string \<Rightarrow> string \<Rightarrow> instance_types_info \<Rightarrow> bool \<Rightarrow> failures result" where
  "InstancesNetworkingValidator queue_name compute_resource_name infos placement_group_enabled =
     rbind (rmap_list (rmap int \<circ> max_network_cards \<circ> snd) infos) (\<lambda>cards.
     rbind (rmap_list (\<lambda>i. rbind (max_efa_interfaces (snd i)) as_count) infos) (\<lambda>efas.
       let nci0 = map (\<lambda>((name, _), c, e). (name, e = c)) (zip infos (zip cards efas)) in
       Inr (fail_if (varies cards) WARNING
              (''Compute Resource '' @ compute_resource_name @ '' has instance types with varying numbers of network cards (Min: ''
               @ str_int (Min (set cards)) @ '', Max: '' @ str_int (Max (set cards)) @
               ''). Compute Resource will be created with '' @ str_int (Min (set cards)) @ '' network cards.'')
         @ fail_if (varies efas) WARNING
              (''Compute Resource '' @ compute_resource_name @ '' has instance types with varying numbers of maximum EFA '' @
               ''interfaces (Min: '' @ str_int (Min (set efas)) @ '', Max: '' @ str_int (Max (set efas)) @
               ''). EFA network configuration will be based on the instance type with the fewest EFA interfaces ('' @
               str_int (Min (set efas)) @ '').'')
         @ fail_if (varies (map snd nci0)) WARNING
              (''Compute Resource '' @ compute_resource_name @ '' mixes instance types where NCI-0 supports EFA ('' @
               join '', '' (map fst (filter snd nci0)) @ '') with instance types where it does not ('' @
               join '', '' (map fst (filter (Not \<circ> snd) nci0)) @
               ''). This may result in a suboptimal EFA network configuration for some instance types.'')
         @ fail_if (placement_group_enabled \<and> length infos > 1) WARNING
              (''Enabling placement groups for queue: '' @ queue_name @ '' may result in Insufficient Capacity Errors due to '' @
               ''the use of multiple instance types for Compute Resource: '' @ compute_resource_name @ '' ('' @
               ''https://docs.aws.amazon.com/AWSEC2/latest/UserGuide/placement-groups.html#placement-groups-cluster).''))))"

datatype capacity_type = CAPACITY_BLOCK | ONDEMAND | SPOT

datatype allocation_strategy =
  LOWEST_PRICE | CAPACITY_OPTIMIZED | PRICE_CAPACITY_OPTIMIZED | PRIORITIZED | CAPACITY_OPTIMIZED_PRIORITIZED

fun strategy_value :: "allocation_strategy \<Rightarrow> string" where
  "strategy_value LOWEST_PRICE = ''lowest-price''"
| "strategy_value CAPACITY_OPTIMIZED = ''capacity-optimized''"
| "strategy_value PRICE_CAPACITY_OPTIMIZED = ''price-capacity-optimized''"
| "strategy_value PRIORITIZED = ''prioritized''"
| "strategy_value CAPACITY_OPTIMIZED_PRIORITIZED = ''capacity-optimized-prioritized''"

fun InstancesAllocationStrategyValidator :: "string \<Rightarrow> capacity_type \<Rightarrow> allocation_strategy option \<Rightarrow> failures" where
  "InstancesAllocationStrategyValidator compute_resource_name capacity_type None = []"
| "InstancesAllocationStrategyValidator compute_resource_name capacity_type (Some strategy) =
     fail_if (capacity_type = ONDEMAND \<and> strategy \<notin> {LOWEST_PRICE, PRIORITIZED}) ERROR
       (''Compute Resource '' @ compute_resource_name @ '' is using an OnDemand CapacityType but '' @
        ''the Allocation Strategy specified is '' @ strategy_value strategy @ ''. OnDemand CapacityType can only use ''
        @ quoted (strategy_value LOWEST_PRICE) @ '' or '' @ quoted (strategy_value PRIORITIZED) @ '' allocation strategy.'')
     @ fail_if (capacity_type = CAPACITY_BLOCK) ERROR
       (''Compute Resource '' @ compute_resource_name @ '' is using a CAPACITY_BLOCK CapacityType but the '' @
        ''Allocation Strategy specified is '' @ strategy_value strategy @ ''. '' @
        ''When using CAPACITY_BLOCK CapacityType, allocation strategy should not be set.'')
     @ fail_if (capacity_type = SPOT \<and> strategy = PRIORITIZED) ERROR
       (''Compute Resource '' @ compute_resource_name @ '' is using a SPOT CapacityType but the '' @
        ''Allocation Strategy specified is '' @ strategy_value strategy @ ''. SPOT CapacityType can only use '' @
        quoted (strategy_value LOWEST_PRICE) @ '', '' @ quoted (strategy_value CAPACITY_OPTIMIZED) @ '', '' @
        quoted (strategy_value PRICE_CAPACITY_OPTIMIZED) @ '' or '' @
        quoted (strategy_value CAPACITY_OPTIMIZED_PRIORITIZED) @ '' allocation strategy.'')"

text \<open>
  The two thresholds of the memory warning.  The quotient of the source is a float; for sizes that a float
  holds exactly it exceeds 0.2 just when the exact quotient does.
\<close>

definition MIN_MEMORY_ABSOLUTE_DIFFERENCE :: int where "MIN_MEMORY_ABSOLUTE_DIFFERENCE = 4096"

definition exceeds_fifth :: "int \<Rightarrow> int \<Rightarrow> bool" where \<comment> \<open>\<open>d / m > 0.20\<close>\<close>
  "exceeds_fifth d m = (if m > 0 then m < 5 * d else m > 5 * d)"

definition min_max_memory :: "instance_types_info \<Rightarrow> (int \<times> int) result" where
  "min_max_memory infos =
     rbind (rmap_list (ec2memory_size_in_mib \<circ> snd) infos) (\<lambda>sizes.
     rbind (rmap_list as_count (filter (\<lambda>v. v \<noteq> VNone) sizes)) (\<lambda>available_memory.
       if available_memory = [] then Inl ValueError
       else Inr (Min (set available_memory), Max (set available_memory))))"

definition memory_difference_exceeds_thresholds :: "instance_types_info \<Rightarrow> bool result" where
  "memory_difference_exceeds_thresholds infos =
     rbind (min_max_memory infos) (\<lambda>(min_memory, max_memory).
       let absolute_diff = max_memory - min_memory in
       if min_memory = 0 then Inl (Exc ''ZeroDivisionError'' ''division by zero'')
       else Inr (absolute_diff > MIN_MEMORY_ABSOLUTE_DIFFERENCE \<and> exceeds_fifth absolute_diff min_memory))"

definition InstancesMemorySchedulingWarningValidator :: "string \<Rightarrow> instance_types_info \<Rightarrow> bool \<Rightarrow> failures result" where
  "InstancesMemorySchedulingWarningValidator compute_resource_name infos memory_scheduling_enabled =
     (if memory_scheduling_enabled \<and> length infos > 1
      then rmap (\<lambda>exceeds. fail_if exceeds WARNING
        (''Enabling Memory-based scheduling when a Compute Resource ('' @ [CHR 0x22] @ compute_resource_name @ [CHR 0x22] @ '') has more than'' @
         '' one instance type specified may lead to unused resources since only the minimum available memory'' @
         '' across all instance-types can be specified in the Slurm node definition.''))
        (memory_difference_exceeds_thresholds infos)
      else Inr [])"

text \<open>Every exception of the call is caught; \<open>str(e)\<close> is \<open>exn_text e\<close>.\<close>

definition LaunchTemplateValidator ::
    "(string \<Rightarrow> string \<Rightarrow> pyval result) \<Rightarrow> string \<Rightarrow> string \<Rightarrow> pyval \<Rightarrow> failures result" where
  "LaunchTemplateValidator describe compute_resource_name launch_template_id launch_template_version =
     (if launch_template_id = [] then Inr []
      else case describe launch_template_id (py_str launch_template_version) of
        Inl e \<Rightarrow> Inr [(''Launch template '' @ quoted launch_template_id @ '' version '' @
                       quoted (py_str launch_template_version) @ '' specified in Compute Resource '' @
                       quoted compute_resource_name @ '' could not be found or accessed: '' @ exn_text e, ERROR)]
      | Inr lt_data \<Rightarrow> (case lt_data of
          VDict d \<Rightarrow>
            (let disallowed_properties = filter (\<lambda>k. k \<noteq> ''NetworkInterfaces'') (map fst d) in
             Inr (fail_if (disallowed_properties \<noteq> []) ERROR
               (''Launch template '' @ quoted launch_template_id @ '' in Compute Resource '' @ quoted compute_resource_name @
                '' contains properties that are not allowed: '' @ join '', '' (sort (remdups disallowed_properties)) @
                ''. Allowed properties are: NetworkInterfaces.'')))
        | _ \<Rightarrow> Inl AttributeError))"
section \<open>What the validators of several types accept\<close>

definition scalar :: "pyval \<Rightarrow> bool" where
  "scalar v \<longleftrightarrow> (\<exists>i. v = VInt i) \<or> (\<exists>s. v = VStr s)"

lemma scalar_eq: "scalar v \<Longrightarrow> scalar w \<Longrightarrow> py_eq v w \<longleftrightarrow> v = w"
  by (auto simp: scalar_def)

lemma homogeneity_loop_iff:
  assumes "list_all2 (\<lambda>i v. f i = Inr v \<and> scalar v \<and> is_dict i) infos vs" and "scalar p"
  shows "homogeneity_loop f message p t infos = Inr [] \<longleftrightarrow> (\<forall>v \<in> set vs. v = p)"
  using assms
proof (induction infos arbitrary: vs p t)
  case (Cons i infos)
  then obtain v ws where vs: "vs = v # ws" and v: "f i = Inr v" "scalar v" "is_dict i"
    and ws: "list_all2 (\<lambda>i v. f i = Inr v \<and> scalar v \<and> is_dict i) infos ws"
    by (auto simp: list_all2_Cons1)
  from v(3) obtain n where n: "instance_type_name i = Inr n"
    by (cases i) (auto simp: instance_type_name_def)
  have "p \<noteq> VNone" using Cons.prems(2) by (auto simp: scalar_def)
  with v n show ?case
    by (auto simp: vs Cons.IH[OF ws v(2)] scalar_eq[OF Cons.prems(2) v(2)])
qed simp

lemma homogeneous_iff:
  assumes "list_all2 (\<lambda>i v. f (snd i) = Inr v \<and> scalar v \<and> is_dict (snd i)) infos vs"
  shows "validate_property_homogeneity f message infos = Inr [] \<longleftrightarrow> (\<forall>v \<in> set vs. \<forall>w \<in> set vs. v = w)"
proof (cases infos)
  case Nil
  with assms show ?thesis by (simp add: validate_property_homogeneity_def)
next
  case (Cons i rest)
  with assms obtain v ws where vs: "vs = v # ws" and v: "f (snd i) = Inr v" "scalar v" "is_dict (snd i)"
    and ws: "list_all2 (\<lambda>i v. f i = Inr v \<and> scalar v \<and> is_dict i) (map snd rest) ws"
    by (auto simp: list_all2_Cons1 list.rel_map)
  from v(3) obtain n where n: "instance_type_name (snd i) = Inr n"
    by (cases "snd i") (auto simp: instance_type_name_def)
  from Cons v n have "validate_property_homogeneity f message infos = Inr [] \<longleftrightarrow> (\<forall>w \<in> set ws. w = v)"
    by (simp add: validate_property_homogeneity_def homogeneity_loop_iff[OF ws v(2)])
  also have "\<dots> \<longleftrightarrow> (\<forall>v \<in> set vs. \<forall>w \<in> set vs. v = w)" by (simp add: vs) metis
  finally show ?thesis .
qed

lemma counted_types:
  assumes "list_all2 (\<lambda>i n. (if b then cores_count else vcpus_count) (snd i) = Inr (VInt n)) infos counts"
  shows "list_all2 (\<lambda>i v. (if b then cores_count else vcpus_count) (snd i) = Inr v \<and> scalar v \<and> is_dict (snd i))
    infos (map VInt counts)"
proof -
  have "is_dict d" if "(if b then cores_count else vcpus_count) d = Inr (VInt n)" for d n
    using that by (cases d) (auto simp: cores_count_def vcpus_count_def or_minus_one_def split: if_splits)
  then show ?thesis using assms by (auto simp: list.rel_map scalar_def elim!: list_all2_mono)
qed

text \<open>
  The CPU validator of a compute resource with several instance types accepts exactly those of one
  size: the same number of cores where multithreading is off, else the same number of CPUs.
\<close>

lemma equal_cpu_counts_accepted:
  assumes "list_all2 (\<lambda>i n. (if no_multithreading then cores_count else vcpus_count) (snd i) = Inr (VInt n)) infos counts"
  shows "InstancesCPUValidator compute_resource infos no_multithreading = Inr []
    \<longleftrightarrow> (\<forall>m \<in> set counts. \<forall>n \<in> set counts. m = n)"
  using homogeneous_iff[OF counted_types[OF assms]] by (cases no_multithreading) (auto simp: InstancesCPUValidator_def)

text \<open>Only neighbours are compared, and nothing with a missing count before it.\<close>

lemma missing_count_not_compared:
  "homogeneity_loop f message VNone t (i # infos) =
     rbind (f i) (\<lambda>v. rbind (instance_type_name i) (\<lambda>n. homogeneity_loop f message v n infos))"
  by simp

lemma accelerators_accepted_iff:
  assumes "list_all2 (\<lambda>i n. gpu_count (snd i) = Inr n) infos gpus"
    and "list_all2 (\<lambda>i n. inference_accelerator_count (snd i) = Inr n) infos accelerators"
    and "list_all2 (\<lambda>i m. gpu_manufacturer pick (snd i) = Inr (VStr m)) infos gpu_makers"
    and "list_all2 (\<lambda>i m. inference_accelerator_manufacturer pick (snd i) = Inr (VStr m)) infos accelerator_makers"
  shows "InstancesAcceleratorsValidator pick compute_resource infos = Inr []
    \<longleftrightarrow> (\<forall>m \<in> set gpus. \<forall>n \<in> set gpus. m = n) \<and> (\<forall>m \<in> set accelerators. \<forall>n \<in> set accelerators. m = n)
      \<and> (\<forall>m \<in> set gpu_makers. \<forall>n \<in> set gpu_makers. m = n)
      \<and> (\<forall>m \<in> set accelerator_makers. \<forall>n \<in> set accelerator_makers. m = n)"
proof -
  have dict: "is_dict d" if "gpu_count d = Inr n" for d n
    using that by (cases d) (auto simp: gpu_count_def)
  have all: "list_all2 (\<lambda>i v. f (snd i) = Inr v \<and> scalar v \<and> is_dict (snd i)) infos (map c vs)"
    if "list_all2 (\<lambda>i v. f (snd i) = Inr (c v)) infos vs" and "\<And>v. scalar (c v)"
    for f and c :: "'v \<Rightarrow> pyval" and vs
  proof -
    have "list_all2 (\<lambda>i n. is_dict (snd i)) infos vs"
      using assms(1) that(1) by (auto simp: list_all2_conv_all_nth dest: dict)
    then show ?thesis using that by (auto simp: list_all2_conv_all_nth)
  qed
  have "list_all2 (\<lambda>i n. (rmap VInt \<circ> gpu_count) (snd i) = Inr (VInt n)) infos gpus"
    "list_all2 (\<lambda>i n. (rmap VInt \<circ> inference_accelerator_count) (snd i) = Inr (VInt n)) infos accelerators"
    using assms(1,2) by (auto elim!: list_all2_mono)
  from all[OF this(1)] all[OF this(2)] all[OF assms(3)] all[OF assms(4)] have checks:
    "list_all2 (\<lambda>i v. (rmap VInt \<circ> gpu_count) (snd i) = Inr v \<and> scalar v \<and> is_dict (snd i)) infos (map VInt gpus)"
    "list_all2 (\<lambda>i v. (rmap VInt \<circ> inference_accelerator_count) (snd i) = Inr v \<and> scalar v \<and> is_dict (snd i)) infos
      (map VInt accelerators)"
    "list_all2 (\<lambda>i v. gpu_manufacturer pick (snd i) = Inr v \<and> scalar v \<and> is_dict (snd i)) infos (map VStr gpu_makers)"
    "list_all2 (\<lambda>i v. inference_accelerator_manufacturer pick (snd i) = Inr v \<and> scalar v \<and> is_dict (snd i)) infos
      (map VStr accelerator_makers)"
    by (simp_all add: scalar_def)
  have "InstancesAcceleratorsValidator pick compute_resource infos = Inr [] \<longleftrightarrow>
      validate_property_homogeneity (rmap VInt \<circ> gpu_count) (accelerators_message compute_resource ''number of GPUs'') infos = Inr []
      \<and> validate_property_homogeneity (rmap VInt \<circ> inference_accelerator_count)
          (accelerators_message compute_resource ''number of Inference Accelerators'') infos = Inr []
      \<and> validate_property_homogeneity (gpu_manufacturer pick) (accelerators_message compute_resource ''GPU manufacturer'') infos = Inr []
      \<and> validate_property_homogeneity (inference_accelerator_manufacturer pick)
          (accelerators_message compute_resource ''inference accelerator manufacturer'') infos = Inr []"
    by (simp add: InstancesAcceleratorsValidator_def rbind_Inr_iff)
  then show ?thesis by (simp add: homogeneous_iff[OF checks(1)] homogeneous_iff[OF checks(2)]
      homogeneous_iff[OF checks(3)] homogeneous_iff[OF checks(4)])
qed

lemma types_with_filter:
  "types_with test infos = Inr names \<Longrightarrow> names = map fst (filter (\<lambda>i. test (snd i) = Inr True) infos)"
  by (induction infos arbitrary: names) (auto simp: rbind_Inr_iff rmap_Inr_iff)

text \<open>Enabled EFA: an error just when some type lacks the support.\<close>

lemma efa_needs_support:
  assumes "\<forall>(name, i) \<in> set infos. is_ok (is_efa_supported i)"
  shows "InstancesEFAValidator compute_resource infos True multiaz = Inr []
    \<longleftrightarrow> (\<forall>(name, i) \<in> set infos. is_efa_supported i = Inr True)"
proof -
  have "\<exists>names. types_with (rmap Not \<circ> is_efa_supported) infos = Inr names"
    using assms by (induction infos) (auto simp: is_ok_iff)
  then obtain names where names: "types_with (rmap Not \<circ> is_efa_supported) infos = Inr names" by blast
  have "names = [] \<longleftrightarrow> (\<forall>(name, i) \<in> set infos. is_efa_supported i = Inr True)"
    using assms unfolding types_with_filter[OF names] by (force simp: filter_empty_conv is_ok_iff rmap_Inr_iff)
  then show ?thesis by (simp add: InstancesEFAValidator_def names fail_if_def)
qed

lemma varies_iff: "varies xs \<longleftrightarrow> (\<exists>x \<in> set xs. \<exists>y \<in> set xs. x \<noteq> y)"
proof -
  have "varies xs \<longleftrightarrow> 1 < card (set xs)" by (simp add: varies_def length_remdups_card_conv)
  also have "\<dots> \<longleftrightarrow> (\<exists>x \<in> set xs. \<exists>y \<in> set xs. x \<noteq> y)"
    using card_le_Suc0_iff_eq[of "set xs"] by (auto simp: not_le[symmetric])
  finally show ?thesis .
qed

text \<open>The warning about network card 0 never comes without one of the two about the numbers.\<close>

lemma not_varies: "\<not> varies xs \<Longrightarrow> x \<in> set xs \<Longrightarrow> y \<in> set xs \<Longrightarrow> x = y"
  by (auto simp: varies_iff)

lemma uniform_numbers_uniform_card_zero:
  assumes "\<not> varies cards" and "\<not> varies efas"
  shows "\<not> varies (map snd (map (\<lambda>((name, _), c, e). (name, e = c)) (zip infos (zip cards efas))))"
proof -
  have in_sets: "c \<in> set cards \<and> e \<in> set efas" if "(i, c, e) \<in> set (zip infos (zip cards efas))" for i c e
    using set_zip_rightD[OF that] by (auto dest: set_zip_leftD set_zip_rightD)
  have "c = c' \<and> e = e'" if "(i, c, e) \<in> set (zip infos (zip cards efas))"
      "(i', c', e') \<in> set (zip infos (zip cards efas))" for i c e i' c' e'
    using in_sets[OF that(1)] in_sets[OF that(2)] assms by (blast dest: not_varies)
  then show ?thesis by (fastforce simp: varies_iff)
qed
text \<open>A size that EC2 may not give.\<close>

fun size_value :: "int option \<Rightarrow> pyval" where
  "size_value None = VNone"
| "size_value (Some n) = VInt n"

lemma known_sizes:
  "rmap_list as_count (filter (\<lambda>v. v \<noteq> VNone) (map size_value sizes)) = Inr (concat (map (\<lambda>m. case m of None \<Rightarrow> [] | Some n \<Rightarrow> [n]) sizes))"
proof (induction sizes)
  case (Cons m sizes)
  then show ?case by (cases m) auto
qed simp

lemma min_max_known:
  assumes "list_all2 (\<lambda>i m. ec2memory_size_in_mib (snd i) = Inr (size_value m)) infos sizes"
  shows "min_max_memory infos = (let known = {n. Some n \<in> set sizes} in
    if known = {} then Inl ValueError else Inr (Min known, Max known))"
proof -
  have read: "rmap_list (ec2memory_size_in_mib \<circ> snd) infos = Inr (map size_value sizes)"
    using assms by (induction rule: list_all2_induct) auto
  have known: "set (concat (map (\<lambda>m. case m of None \<Rightarrow> [] | Some n \<Rightarrow> [n]) sizes)) = {n. Some n \<in> set sizes}"
    by (auto split: option.splits)
  have "concat (map (\<lambda>m. case m of None \<Rightarrow> [] | Some n \<Rightarrow> [n]) sizes) = [] \<longleftrightarrow> {n. Some n \<in> set sizes} = {}"
    unfolding known[symmetric] by (rule set_empty[symmetric])
  with read show ?thesis
    unfolding min_max_memory_def by (simp only: known_sizes known rbind_simps Let_def)
qed

text \<open>
  Memory-based scheduling is warned about just when two of the known sizes are more than 4096 MiB and
  more than a fifth of the smaller apart.
\<close>

lemma memory_warning_iff:
  assumes "list_all2 (\<lambda>i m. ec2memory_size_in_mib (snd i) = Inr (size_value m)) infos sizes"
    and "length infos > 1" and "\<exists>n. Some n \<in> set sizes" and "\<forall>n. Some n \<in> set sizes \<longrightarrow> n > 0"
  shows "rmap (\<lambda>fs. fs \<noteq> []) (InstancesMemorySchedulingWarningValidator compute_resource infos True)
    = Inr (\<exists>m n. Some m \<in> set sizes \<and> Some n \<in> set sizes \<and> n - m > 4096 \<and> 5 * (n - m) > m)"
proof -
  define known where "known = {n. Some n \<in> set sizes}"
  have "known = the ` (set sizes - {None})" by (force simp: known_def)
  then have fin: "finite known" by simp
  have ne: "known \<noteq> {}" using assms(3) by (auto simp: known_def)
  have bounds: "Min known \<in> known" "Max known \<in> known" "\<And>n. n \<in> known \<Longrightarrow> Min known \<le> n \<and> n \<le> Max known"
    using fin ne by auto
  have "Min known > 0" using bounds(1) assms(4) by (auto simp: known_def)
  then have "memory_difference_exceeds_thresholds infos
      = Inr (Max known - Min known > 4096 \<and> Min known < 5 * (Max known - Min known))"
    using ne by (simp add: memory_difference_exceeds_thresholds_def min_max_known[OF assms(1)] known_def[symmetric]
      exceeds_fifth_def MIN_MEMORY_ABSOLUTE_DIFFERENCE_def)
  moreover have "Max known - Min known > 4096 \<and> Min known < 5 * (Max known - Min known)
      \<longleftrightarrow> (\<exists>m n. m \<in> known \<and> n \<in> known \<and> n - m > 4096 \<and> 5 * (n - m) > m)"
  proof
    assume "\<exists>m n. m \<in> known \<and> n \<in> known \<and> n - m > 4096 \<and> 5 * (n - m) > m"
    then obtain m n where "m \<in> known" "n \<in> known" "n - m > 4096" "5 * (n - m) > m" by blast
    with bounds(3)[OF \<open>m \<in> known\<close>] bounds(3)[OF \<open>n \<in> known\<close>] show "Max known - Min known > 4096 \<and> Min known < 5 * (Max known - Min known)"
      by simp
  qed (use bounds in blast)
  ultimately show ?thesis
    using assms(2) by (auto simp: InstancesMemorySchedulingWarningValidator_def known_def)
qed

lemma no_known_size_raises:
  assumes "list_all2 (\<lambda>i m. ec2memory_size_in_mib (snd i) = Inr (size_value m)) infos sizes"
    and "length infos > 1" and "\<forall>m \<in> set sizes. m = None"
  shows "InstancesMemorySchedulingWarningValidator compute_resource infos True = Inl ValueError"
proof -
  have "{n. Some n \<in> set sizes} = {}" using assms(3) by auto
  then show ?thesis using assms(2)
    by (simp add: InstancesMemorySchedulingWarningValidator_def memory_difference_exceeds_thresholds_def
        min_max_known[OF assms(1)] Let_def)
qed

section \<open>One instance type and its image\<close>

record ec2_api =
  list_instance_types :: "string list result"
  describe_image :: "string \<Rightarrow> pyval result"
  imagebuilder_image_id :: "string \<Rightarrow> string result"
  get_supported_architectures :: "string \<Rightarrow> string list result"
  get_instance_type_info :: "string \<Rightarrow> pyval result"
  describe_key_pair :: "string \<Rightarrow> pyval result"
  describe_placement_group :: "string \<Rightarrow> unit result"
  describe_capacity_reservations :: "string list \<Rightarrow> pyval list result"
  get_subnet_avail_zone :: "string \<Rightarrow> pyval result"
  describe_capacity_block_status :: "block_status list result"
  group_reservation_ids :: "string \<Rightarrow> string list result"
  group_configuration :: "string \<Rightarrow> pyval result"

definition InstanceTypePlacementGroupValidator :: "string \<Rightarrow> pyval \<Rightarrow> bool \<Rightarrow> failures result" where
  "InstanceTypePlacementGroupValidator instance_type instance_type_data placement_group_enabled =
     (if placement_group_enabled
      then rbind (get_in instance_type_data ''PlacementGroupInfo'' ''SupportedStrategies'' (VList [])) (\<lambda>strategies.
           rmap (\<lambda>supported. fail_if (\<not> supported) ERROR
             (''The instance type '' @ quoted instance_type @ '' doesn't support being launched in a cluster placement group. '' @
              ''Please either disable the placement group or remove the instance type from the compute resource.''))
             (py_contains strategies ''cluster''))
      else Inr [])"

definition unsupported_maker :: "(pyval list \<Rightarrow> pyval) \<Rightarrow> string \<Rightarrow> string \<Rightarrow> string \<Rightarrow> pyval \<Rightarrow> failures result" where
  "unsupported_maker pick supported instance_type devices_field devices_info =
     (if truthy devices_info
      then rbind (py_get devices_info devices_field (VList [])) (\<lambda>devices.
           rbind (manufacturer_of pick devices) (\<lambda>manufacturer.
           rmap (\<lambda>m. fail_if (m \<noteq> supported) WARNING
             (''The accelerator manufacturer '' @ quoted (py_str manufacturer) @ '' for instance type '' @ quoted instance_type @
              '' is not supported. Please make sure to use a custom AMI with the appropriate drivers in order to '' @
              ''leverage the accelerator functionalities'')) (py_upper manufacturer)))
      else Inr [])"

definition InstanceTypeAcceleratorManufacturerValidator :: "(pyval list \<Rightarrow> pyval) \<Rightarrow> string \<Rightarrow> pyval \<Rightarrow> failures result" where
  "InstanceTypeAcceleratorManufacturerValidator pick instance_type instance_type_data =
     rbind (py_get instance_type_data ''GpuInfo'' emptydict) (\<lambda>gpu_info.
     rbind (unsupported_maker pick ''NVIDIA'' instance_type ''Gpus'' gpu_info) (\<lambda>gpus.
     rbind (py_get instance_type_data ''InferenceAcceleratorInfo'' emptydict) (\<lambda>inference_accelerator_info.
     rmap (\<lambda>accelerators. gpus @ accelerators)
       (unsupported_maker pick ''AWS'' instance_type ''Accelerators'' inference_accelerator_info))))"

definition unsupported_type :: "string \<Rightarrow> string" where
  "unsupported_type instance_type = ''The instance type '' @ quoted instance_type @ '' is not supported.''"

definition InstanceTypeValidator :: "ec2_api \<Rightarrow> string \<Rightarrow> failures result" where
  "InstanceTypeValidator E instance_type =
     rmap (\<lambda>instance_types. fail_if (instance_type \<notin> set instance_types) ERROR (unsupported_type instance_type))
       (list_instance_types E)"

definition InstanceTypeMemoryInfoValidator :: "string \<Rightarrow> pyval \<Rightarrow> failures result" where
  "InstanceTypeMemoryInfoValidator instance_type instance_type_data =
     rmap (\<lambda>size_in_mib. fail_if (size_in_mib = VNone) ERROR
       (''EC2 does not provide memory information for instance type '' @ quoted instance_type @ ''.''))
       (ec2memory_size_in_mib instance_type_data)"

definition get_ami_id :: "ec2_api \<Rightarrow> string \<Rightarrow> string result" where
  "get_ami_id E parent_image =
     (if startswith parent_image ''arn'' then imagebuilder_image_id E parent_image else Inr parent_image)"

definition validate_base_ami :: "ec2_api \<Rightarrow> string \<Rightarrow> pyval option emitting" where
  "validate_base_ami E ami =
     (case rbind (get_ami_id E ami) (describe_image E) of
        Inr image_info \<Rightarrow> ([], Inr (Some image_info))
      | Inl e \<Rightarrow> if is_instance e ''AWSClientError''
          then ([(''Invalid image '' @ quoted ami @ ''.'', ERROR)], Inr None) else ([], Inl e))"

definition validate_instance_type :: "ec2_api \<Rightarrow> string \<Rightarrow> string list emitting" where
  "validate_instance_type E instance_type =
     ebind (calling (list_instance_types E)) (\<lambda>instance_types.
       if instance_type \<notin> set instance_types
       then ebind (emit True ERROR (unsupported_type instance_type)) (\<lambda>_. calling (Inr []))
       else calling (get_supported_architectures E instance_type))"

definition NVIDIA_OPENRM_UNSUPPORTED_INSTANCE_TYPES :: "string list" where
  "NVIDIA_OPENRM_UNSUPPORTED_INSTANCE_TYPES = [''p3'', ''p3dn'', ''p2'', ''g3'', ''g3s'', ''g2'']"

definition openrm_unsupported :: "pyval \<Rightarrow> string \<Rightarrow> bool result" where
  "openrm_unsupported image_info instance_type =
     rbind (get_key image_info ''Description'') (\<lambda>description.
       if \<not> truthy description then Inr False
       else rmap (\<lambda>ours. ours \<and> hd (split_on CHR ''.'' instance_type) \<in> set NVIDIA_OPENRM_UNSUPPORTED_INSTANCE_TYPES)
              (py_contains description ''AWS ParallelCluster AMI''))"

text \<open>What \<open>_validate\<close> leaves when it ends: its failures, or the exception.\<close>

definition run_failures :: "unit emitting \<Rightarrow> failures result" where
  "run_failures m = (case m of (fs, Inr _) \<Rightarrow> Inr fs | (fs, Inl e) \<Rightarrow> Inl e)"

definition show_texts :: "string list \<Rightarrow> string" where
  "show_texts xs = py_repr (VList (map VStr xs))"

definition InstanceTypeBaseAMICompatibleValidator :: "ec2_api \<Rightarrow> string \<Rightarrow> string \<Rightarrow> failures result" where
  "InstanceTypeBaseAMICompatibleValidator E instance_type ami = run_failures
     (ebind (validate_base_ami E ami) (\<lambda>image_info.
      ebind (validate_instance_type E instance_type) (\<lambda>instance_architectures.
        case image_info of None \<Rightarrow> calling (Inr ())
        | Some info \<Rightarrow>
            ebind (if instance_architectures = [] then calling (Inr ())
                   else ebind (calling (get_key info ''Architecture'')) (\<lambda>ami_architecture.
                        ebind (calling (get_key info ''ImageId'')) (\<lambda>ami_id.
                          emit (ami_architecture \<notin> VStr ` set instance_architectures) ERROR
                            (''AMI '' @ py_str ami_id @ [CHR 0x27] @ ''s architecture ('' @ py_str ami_architecture @
                             '') is incompatible with the architecture supported by the '' @ ''instance type '' @ instance_type @
                             '' chosen ('' @ show_texts instance_architectures @
                             ''). Use either a different AMI or a different instance type.'')))) (\<lambda>_.
            ebind (calling (openrm_unsupported info instance_type)) (\<lambda>unsupported.
              emit unsupported ERROR
                (''The instance type '' @ quoted instance_type @ '' is not supported by NVIDIA OpenRM drivers. '' @
                 ''OpenRM can only be used on any Turing or later GPU architectures. '' @
                 ''Please consider building a custom AMI with closed source NVIDIA drivers '' @
                 ''and then suppress this validator or using a different instance type.''))))))"

text \<open>The systems left over are the difference of two sets, in the order \<open>listing\<close> of its elements.\<close>

definition UNSUPPORTED_OSES_FOR_MICRO_NANO :: "string list" where
  "UNSUPPORTED_OSES_FOR_MICRO_NANO = [''ubuntu2204'', ''ubuntu2404'', ''rhel8'', ''rocky8'', ''rhel9'', ''rocky9'']"

definition UNSUPPORTED_OSES_FOR_P6E_GB200 :: "string list" where
  "UNSUPPORTED_OSES_FOR_P6E_GB200 = [''rhel8'', ''rocky8'', ''rhel9'']"

definition UNSUPPORTED_OSES_FOR_P6_B300 :: "string list" where "UNSUPPORTED_OSES_FOR_P6_B300 = []"

definition supported_but :: "(string set \<Rightarrow> string list) \<Rightarrow> string list \<Rightarrow> string" where
  "supported_but listing unsupported = show_texts (listing (set SUPPORTED_OSES - set unsupported))"

definition InstanceTypeOSCompatibleValidator :: "(string set \<Rightarrow> string list) \<Rightarrow> string \<Rightarrow> string \<Rightarrow> failures" where
  "InstanceTypeOSCompatibleValidator listing instance_type os =
     fail_if (os \<in> set UNSUPPORTED_OSES_FOR_MICRO_NANO
        \<and> (str_contains ''micro'' instance_type \<or> str_contains ''nano'' instance_type)) WARNING
       (''It is not recommended to use instance type '' @ instance_type @ '' with '' @ os @ ''. If you want to use '' @ os @
        '' it is recommended to use an instance type with at least 1.7 GB of memory.'')
     @ fail_if (os \<in> set UNSUPPORTED_OSES_FOR_P6E_GB200 \<and> startswith instance_type ''p6e-gb200'') ERROR
       (''The instance type '' @ instance_type @ '' is not officially supported with OS '' @ os @ ''.'' @
        '' Please use one of the following OS: '' @ supported_but listing UNSUPPORTED_OSES_FOR_P6E_GB200)
     @ fail_if (startswith instance_type ''p6-b300'' \<and> os \<in> set UNSUPPORTED_OSES_FOR_P6_B300) ERROR
       (''The instance type '' @ instance_type @ '' is not supported with OS '' @ os @ ''.'' @
        '' Please use one of the following OS: '' @ supported_but listing UNSUPPORTED_OSES_FOR_P6_B300)"

definition key_type :: "ec2_api \<Rightarrow> string \<Rightarrow> pyval result" where \<comment> \<open>\<open>KeyPairInfo\<close>\<close>
  "key_type E key_name =
     rbind (describe_key_pair E key_name) (\<lambda>key_data.
     rbind (py_index key_data ''KeyPairs'') (\<lambda>pairs.
     rbind (first_of pairs) (\<lambda>pair. py_index pair ''KeyType'')))"

definition KeyPairValidator :: "ec2_api \<Rightarrow> string option \<Rightarrow> string \<Rightarrow> failures result" where
  "KeyPairValidator E key_name os =
     (case key_name of
        Some (c # name) \<Rightarrow> catch_client_error ERROR
          (ebind (calling (key_type E (c # name))) (\<lambda>t.
             emit (os \<in> {''ubuntu2204'', ''ubuntu2404''} \<and> t = VStr ''rsa'') ERROR
               (os @ '' does not support RSA keys. Please generate and use an ed25519 key'')))
      | _ \<Rightarrow> Inr [(''If you do not specify a key pair, you can't connect to the instance unless you choose an AMI '' @
                  ''that is configured to allow users another way to log in'', WARNING)])"

text \<open>\<open>a or b\<close> for optional texts.\<close>

definition given :: "string option \<Rightarrow> bool" where
  "given s \<longleftrightarrow> s \<noteq> None \<and> s \<noteq> Some []"

record placement_group =
  pg_id :: "string option"
  pg_name :: "string option"
  pg_enabled :: "bool option"

definition PlacementGroupNamingValidator :: "ec2_api \<Rightarrow> placement_group \<Rightarrow> failures result" where
  "PlacementGroupNamingValidator E pg =
     (let both = fail_if (given (pg_id pg) \<and> given (pg_name pg)) ERROR
            (''PlacementGroup Id cannot be set when setting PlacementGroup Name.  Please '' @
             ''set either Id or Name but not both.'');
          identifier = (if given (pg_name pg) then pg_name pg else pg_id pg) in
      if \<not> given identifier then Inr both
      else if pg_enabled pg = Some False then Inr (both @
            [(''The PlacementGroup feature must be enabled (Enabled: true) in order '' @
              ''to assign a Name or Id parameter.  Please either remove the Name/Id parameter to disable the '' @
              ''feature, set Enabled: true to enable it, or remove the Enabled parameter to imply it is enabled '' @
              ''with the Name/Id given'', ERROR)])
      else rmap (\<lambda>fs. both @ fs)
             (catch_client_error ERROR (calling (describe_placement_group E (the identifier)))))"

section \<open>Capacity types and reservations\<close>

fun capacity_type_value :: "capacity_type \<Rightarrow> string" where
  "capacity_type_value CAPACITY_BLOCK = ''CAPACITY_BLOCK''"
| "capacity_type_value ONDEMAND = ''ONDEMAND''"
| "capacity_type_value SPOT = ''SPOT''"

definition usage_class_of :: "capacity_type \<Rightarrow> string" where \<comment> \<open>also the reservation type\<close>
  "usage_class_of c = dict_get [(''CAPACITY_BLOCK'', ''capacity-block'')] (capacity_type_value c)
     (map to_lower (capacity_type_value c))"

definition CapacityTypeValidator :: "ec2_api \<Rightarrow> capacity_type \<Rightarrow> string \<Rightarrow> string option \<Rightarrow> failures result" where
  "CapacityTypeValidator E c instance_type capacity_reservation_id =
     rbind (get_instance_type_info E instance_type) (\<lambda>info.
     rbind (supported_usage_classes info) (\<lambda>classes.
       Inr (fail_if (c = CAPACITY_BLOCK \<and> \<not> given capacity_reservation_id) ERROR
              ''Capacity Reservation id is required when using CAPACITY_BLOCK as capacity type.''
         @ (if classes = []
            then [(''Could not check support for usage class '' @ quoted (usage_class_of c) @ '' with instance type '' @
                   quoted instance_type, WARNING)]
            else fail_if (VStr (usage_class_of c) \<notin> set classes) ERROR
              (''Usage type '' @ quoted (usage_class_of c) @ '' not supported with instance type '' @ quoted instance_type)))))"

definition AmiOsCompatibleValidator :: "ec2_api \<Rightarrow> string \<Rightarrow> string \<Rightarrow> failures result" where
  "AmiOsCompatibleValidator E os image_id =
     rbind (describe_image E image_id) (\<lambda>image_info.
     rmap (\<lambda>os_tag.
       if truthy os_tag
       then fail_if (os_tag \<noteq> VStr os) ERROR
         (''The OS of node AMI '' @ image_id @ '' is '' @ py_str os_tag @ '', it is not compatible with cluster OS '' @ os @ ''.'')
       else [(''Could not check node AMI '' @ image_id @ '' OS and cluster OS '' @ os @ '' compatibility, please make sure '' @
              ''they are compatible before cluster creation and update operations.'', WARNING)]) (image_os image_info))"

definition CAPACITY_RESERVATION_OS_MAP :: "(string \<times> string) list" where
  "CAPACITY_RESERVATION_OS_MAP =
     [(''alinux2023'', ''Linux/UNIX''), (''ubuntu2204'', ''Linux/UNIX''), (''ubuntu2404'', ''Linux/UNIX''),
      (''rhel8'', ''Red Hat Enterprise Linux''), (''rocky8'', ''Linux/UNIX''),
      (''rhel9'', ''Red Hat Enterprise Linux''), (''rocky9'', ''Linux/UNIX'')]"

definition reservation_platform :: "string \<Rightarrow> pyval" where
  "reservation_platform os = (case map_of CAPACITY_RESERVATION_OS_MAP os of None \<Rightarrow> VNone | Some p \<Rightarrow> VStr p)"

definition first_reservation :: "ec2_api \<Rightarrow> string \<Rightarrow> pyval result" where
  "first_reservation E capacity_reservation_id =
     rbind (describe_capacity_reservations E [capacity_reservation_id]) (\<lambda>rs.
       case rs of [] \<Rightarrow> Inl IndexError | r # _ \<Rightarrow> Inr r)"

definition CapacityReservationValidator ::
    "ec2_api \<Rightarrow> string option \<Rightarrow> string list \<Rightarrow> bool \<Rightarrow> string \<Rightarrow> capacity_type \<Rightarrow> string \<Rightarrow> failures result" where
  "CapacityReservationValidator E capacity_reservation_id instance_types is_flexible subnet c os =
     (if \<not> given capacity_reservation_id then Inr []
      else let cr_id = the capacity_reservation_id in
        rbind (first_reservation E cr_id) (\<lambda>reservation.
        rbind (get_key reservation ''InstancePlatform'') (\<lambda>cr_platform.
        rbind (get_key reservation ''InstanceType'') (\<lambda>reserved_type.
        rbind (get_key reservation ''AvailabilityZone'') (\<lambda>zone.
        rbind (get_subnet_avail_zone E subnet) (\<lambda>subnet_zone.
        rbind (reservation_type reservation) (\<lambda>kind.
          Inr (fail_if (reservation_platform os \<noteq> cr_platform) ERROR
                (''Capacity reservation '' @ cr_id @ '' has platform '' @ py_str cr_platform @ '','' @
                 '' which is not compatible with the cluster OS '' @ os @ ''. '' @
                 ''Please use a reservation with platform '' @ py_str (reservation_platform os) @ ''.'')
            @ (if instance_types = []
               then [(''Unexpected failure. InstanceType parameter cannot be empty when using CapacityReservationId.'', ERROR)]
               else if is_flexible
               then [(''CapacityReservationId parameter cannot be used with Instances parameter.'' @
                      ''CapacityReservationId can only be used with the InstanceType parameter '' @
                      ''(https://docs.aws.amazon.com/parallelcluster/latest/ug/Scheduling-v3.html#yaml-'' @
                      ''Scheduling-SlurmQueues-ComputeResources-InstanceType).'', ERROR)]
               else fail_if (reserved_type \<noteq> VStr (hd instance_types)) ERROR
                 (''Capacity reservation '' @ cr_id @ '' must have the same instance type as '' @ hd instance_types @ ''.''))
            @ fail_if (zone \<noteq> subnet_zone) ERROR
                (''Capacity reservation '' @ cr_id @ '' must use the same availability zone as subnet '' @ subnet @ ''.'')
            @ fail_if (c = CAPACITY_BLOCK \<and> kind \<noteq> VStr (usage_class_of c)) ERROR
                (''Capacity reservation '' @ cr_id @ '' is not a Capacity Block reservation. '' @
                 ''It cannot be used when specifying CapacityType: '' @ capacity_type_value c @ ''.'')))))))))"

definition CapacityReservationSizeValidator :: "ec2_api \<Rightarrow> string option \<Rightarrow> int \<Rightarrow> failures result" where
  "CapacityReservationSizeValidator E capacity_reservation_id num_of_instances =
     (if \<not> given capacity_reservation_id then Inr []
      else let cr_id = the capacity_reservation_id in
        rbind (first_reservation E cr_id) (\<lambda>reservation.
        rbind (rbind (total_instance_count reservation) as_count) (\<lambda>standard.
        rbind (incremental_requested_quantity reservation) (\<lambda>in_block.
          Inr (fail_if (num_of_instances > max standard in_block) ERROR
            (''Number of instances configured for Capacity Reservation '' @ cr_id @ '': '' @ str_int num_of_instances @
             '' is exceeding the total instances count available for the Capacity Reservation: '' @
             str_int (max standard in_block)))))))"

section \<open>Groups of reservations\<close>

definition get_capacity_reservations :: "ec2_api \<Rightarrow> string \<Rightarrow> pyval list result" where
  "get_capacity_reservations E arn = rbind (group_reservation_ids E arn) (describe_capacity_reservations E)"

fun names_a_pool :: "bool \<Rightarrow> pyval list \<Rightarrow> bool result" where
  "names_a_pool is_cr_pool [] = Inr is_cr_pool"
| "names_a_pool is_cr_pool (config # configs) =
     rbind (py_index config ''Type'') (\<lambda>t.
     rbind (py_contains t ''CapacityReservationPool'') (\<lambda>b. names_a_pool (is_cr_pool \<or> b) configs))"

definition is_service_linked_group :: "ec2_api \<Rightarrow> string \<Rightarrow> bool result" where
  "is_service_linked_group E arn =
     (case rbind (group_configuration E arn) (\<lambda>group_config.
           rbind (py_index group_config ''GroupConfiguration'') (\<lambda>c.
           rbind (py_index c ''Configuration'') (\<lambda>l.
           rbind (py_iter l) (names_a_pool False)))) of
        Inr b \<Rightarrow> Inr b
      | Inl e \<Rightarrow> if is_instance e ''AWSClientError'' then Inr False else Inl e)"

text \<open>The instance type and the zone of a reservation.\<close>

definition reservation_site :: "pyval \<Rightarrow> (pyval \<times> pyval) result" where
  "reservation_site r =
     rbind (get_key r ''InstanceType'') (\<lambda>t. rmap (\<lambda>z. (t, z)) (get_key r ''AvailabilityZone''))"

definition reserved_in :: "(pyval \<times> pyval) list \<Rightarrow> string \<Rightarrow> string \<Rightarrow> bool" where
  "reserved_in sites availability_zone instance_type \<longleftrightarrow> (VStr instance_type, VStr availability_zone) \<in> set sites"

definition unreserved_instance_types :: "(pyval \<times> pyval) list \<Rightarrow> string list \<Rightarrow> string \<Rightarrow> string list" where
  "unreserved_instance_types sites instance_types availability_zone =
     filter (\<lambda>t. \<not> reserved_in sites availability_zone t) instance_types"

definition validate_unreserved_instance_types_for_azs ::
    "(pyval \<times> pyval) list \<Rightarrow> string \<Rightarrow> string list \<Rightarrow> string list \<Rightarrow> failures" where
  "validate_unreserved_instance_types_for_azs sites arn availability_zones instance_types =
     (let lacking = filter (\<lambda>az. unreserved_instance_types sites instance_types az \<noteq> [])
                      (sort (remdups availability_zones)) in
      concat (map (\<lambda>t. fail_if (\<not> list_ex (\<lambda>az. reserved_in sites az t) availability_zones) ERROR
        (''Capacity reservation resource group '' @ arn @ '' must have at least one capacity reservation for '' @ t @ ''.''))
        instance_types)
      @ fail_if (lacking \<noteq> []) WARNING
          (''The Capacity Reservation Resource Group '' @ quoted arn @ '' has reservations for these InstanceTypes and '' @
           ''Availability Zones: '' @
           quoted (join '', '' (map (\<lambda>(t, z). ''('' @ py_str t @ '': '' @ py_str z @ '')'') sites)) @
           ''. Please consider that the cluster can launch instances in these'' @
           '' Availability Zones that have no capacity reservations in the Resource Group for the given '' @
           ''instance types: '' @
           quoted (join '', '' (map (\<lambda>az. ''{'' @ az @ '': '' @
             show_texts (unreserved_instance_types sites instance_types az) @ ''}'') lacking)) @ ''.''))"

fun texts_of :: "pyval list \<Rightarrow> string list result" where \<comment> \<open>\<open>join\<close> of anything else raises\<close>
  "texts_of [] = Inr []"
| "texts_of (v # vs) = (case v of VStr s \<Rightarrow> rmap (Cons s) (texts_of vs) | _ \<Rightarrow> Inl TypeError)"

definition validate_with_subnets ::
    "string \<Rightarrow> string \<Rightarrow> (pyval \<times> pyval) list \<Rightarrow> (string \<times> string) list \<Rightarrow> failures result" where
  "validate_with_subnets queue_name arn sites subnet_zones =
     (let unreserved = filter (\<lambda>(subnet, az). VStr az \<notin> snd ` set sites) subnet_zones in
      if subnet_zones \<noteq> [] \<and> unreserved = [] then Inr []
      else rmap (\<lambda>cr_azs.
        [if length unreserved = length subnet_zones
         then (''Queue '' @ quoted queue_name @ '' has a subnet configuration mapping to the following availability zones: '' @
               quoted (join '', '' (map (\<lambda>(subnet, az). ''('' @ subnet @ '': '' @ az @ '')'') unreserved)) @
               '' but the Capacity Reservation Resource Group '' @ quoted arn @
               '' has reservations in these availability zones: '' @ quoted (join '', '' cr_azs) @
               ''. You can either add a capacity reservation '' @
               ''in the availability zones that the subnets are in or remove the Capacity Reservation from the '' @
               ''Cluster Configuration.'', ERROR)
         else (''Queue '' @ quoted queue_name @ '' has a subnet configuration mapping to the following availability zones: '' @
               quoted (join '', '' (map snd unreserved)) @
               '' but the Capacity Reservation Group '' @ quoted arn @
               '' reserves capacity in these availability zones: '' @ quoted (join '', '' cr_azs) @
               ''. Consider adding capacity reservations in all the availability zones covered by the queue.'', WARNING)])
        (texts_of (map snd sites)))"

text \<open>\<open>subnet_id_az_mapping[subnet_id]\<close> for each subnet.\<close>

fun zones_of :: "(string \<times> string) list \<Rightarrow> string list \<Rightarrow> (string \<times> string) list result" where
  "zones_of mapping [] = Inr []"
| "zones_of mapping (subnet # subnets) = (case map_of mapping subnet of
     None \<Rightarrow> Inl KeyError | Some az \<Rightarrow> rmap (Cons (subnet, az)) (zones_of mapping subnets))"

definition CapacityReservationResourceGroupValidator ::
    "ec2_api \<Rightarrow> string option \<Rightarrow> string list \<Rightarrow> string list \<Rightarrow> string \<Rightarrow> (string \<times> string) list \<Rightarrow> failures result" where
  "CapacityReservationResourceGroupValidator E resource_group_arn instance_types subnet_ids queue_name subnet_id_az_mapping =
     (if \<not> given resource_group_arn then Inr []
      else let arn = the resource_group_arn in
        rbind (is_service_linked_group E arn) (\<lambda>linked.
          if \<not> linked then Inr
            [(''Capacity reservation resource group ('' @ arn @ '') must be a '' @
              ''Service Linked Group created from the AWS CLI.  See '' @
              ''https://docs.aws.amazon.com/AWSEC2/latest/UserGuide/create-cr-group.html for more details.'', ERROR)]
          else
            rbind (get_capacity_reservations E arn) (\<lambda>reservations.
            rbind (zones_of subnet_id_az_mapping subnet_ids) (\<lambda>subnet_zones.
            rbind (rmap_list reservation_site reservations) (\<lambda>sites.
              rmap (\<lambda>by_subnet.
                validate_unreserved_instance_types_for_azs sites arn (map snd subnet_zones) instance_types @ by_subnet)
                (validate_with_subnets queue_name arn sites subnet_zones))))))"

section \<open>Health and size of capacity blocks\<close>

definition get_missed_capacity_block_ids :: "block_status list \<Rightarrow> string list \<Rightarrow> string list" where
  "get_missed_capacity_block_ids capacity_block_statuses capacity_reservation_ids =
     filter (\<lambda>cr_id. \<not> (cr_id \<noteq> [] \<and>
       list_ex (\<lambda>status. Some cr_id \<in> set (CapacityReservationStatuses status)) capacity_block_statuses))
       capacity_reservation_ids"

fun collect :: "('a \<Rightarrow> 'b list emitting) \<Rightarrow> 'a list \<Rightarrow> 'b list emitting" where
  "collect f [] = ([], Inr [])"
| "collect f (x # xs) = ebind (f x) (\<lambda>ys. ebind (collect f xs) (\<lambda>zs. calling (Inr (ys @ zs))))"

definition show_option :: "string option \<Rightarrow> string" where \<comment> \<open>\<open>str\<close>\<close>
  "show_option s = (case s of None \<Rightarrow> ''None'' | Some t \<Rightarrow> t)"

text \<open>The details of one block that reports its status; the counts come from its first reservation.\<close>

definition lacking_capacity :: "string \<Rightarrow> pyval list \<Rightarrow> string list result" where
  "lacking_capacity cr_id reservations = (case reservations of
      [] \<Rightarrow> Inr []
    | reservation # _ \<Rightarrow>
        rbind (total_instance_count reservation) (\<lambda>total_count.
        rmap (\<lambda>available_count.
          if py_eq total_count available_count then []
          else [cr_id @ ''[TotalInstanceCount='' @ py_str total_count @ '', AvailableInstanceCount='' @
                py_str available_count @ '']'']) (available_instance_count reservation)))"

definition status_details :: "ec2_api \<Rightarrow> block_status \<Rightarrow> string list emitting" where
  "status_details E status =
     (let cr_id = show_option (hd (CapacityReservationStatuses status));
          good_interconnect = (case InterconnectStatus status of None \<Rightarrow> False | Some i \<Rightarrow> map to_lower i = ''ok'');
          interconnect = (if good_interconnect then []
            else [cr_id @ ''[InterconnectStatus='' @ show_option (InterconnectStatus status) @ '']'']) in
      case rbind (describe_capacity_reservations E [cr_id]) (lacking_capacity cr_id) of
        Inr details \<Rightarrow> ([], Inr (interconnect @ details))
      | Inl e \<Rightarrow> if is_instance e ''AWSClientError''
          then ([(''Unable to retrieve capacity reservation information for '' @ cr_id @ ''.'', ERROR)], Inr interconnect)
          else ([], Inl e))"

definition CAPACITY_BLOCK_INACTIVE_STATES :: "string list" where
  "CAPACITY_BLOCK_INACTIVE_STATES = [''scheduled'', ''payment-pending'', ''assessing'', ''delayed'']"

definition is_inactive :: "pyval list \<Rightarrow> bool result" where
  "is_inactive reservations = (case reservations of
      [] \<Rightarrow> Inr False
    | reservation # _ \<Rightarrow> rbind (get_key reservation ''State'') (\<lambda>state. case state of
        VStr s \<Rightarrow> Inr (map to_lower s \<in> set CAPACITY_BLOCK_INACTIVE_STATES) | _ \<Rightarrow> Inl AttributeError))"

definition missed_block :: "ec2_api \<Rightarrow> string \<Rightarrow> string list emitting" where
  "missed_block E cr_id =
     (case rbind (describe_capacity_reservations E [cr_id]) is_inactive of
        Inr inactive \<Rightarrow>
          if inactive then ([], Inr [cr_id])
          else ([(''Unable to retrieve status for Capacity Block '' @ cr_id @ ''. '' @
                  ''Please verify the Capacity Block ID is valid and accessible.'', ERROR)], Inr [])
      | Inl e \<Rightarrow> if is_instance e ''AWSClientError''
          then ([(''Unable to retrieve information for Capacity Block '' @ cr_id @ '': '' @ exn_text e, ERROR)], Inr [])
          else ([], Inl e))"

definition CapacityBlockHealthStatusValidator :: "ec2_api \<Rightarrow> string list \<Rightarrow> failures result" where
  "CapacityBlockHealthStatusValidator E capacity_reservation_ids =
     (case describe_capacity_block_status E of
        Inl e \<Rightarrow> if is_instance e ''AWSClientError''
          then Inr [(''Unable to retrieve capacity block statuses: '' @ exn_text e, ERROR)] else Inl e
      | Inr statuses \<Rightarrow> run_failures
          (ebind (collect (status_details E)
             (get_needed_ultraserver_capacity_block_statuses statuses capacity_reservation_ids)) (\<lambda>unhealthy_details.
           ebind (collect (missed_block E)
             (get_missed_capacity_block_ids statuses capacity_reservation_ids)) (\<lambda>inactive_blocks.
           ebind (emit (inactive_blocks \<noteq> []) WARNING
             (''Cannot verify health status for inactive capacity blocks: '' @ join '', '' inactive_blocks @ ''.'')) (\<lambda>_.
           emit (unhealthy_details \<noteq> []) ERROR
             (''One or more capacity blocks are not healthy or have insufficient capacity: '' @
              join ''; '' unhealthy_details @
              ''. Please ensure each capacity block is healthy and all reserved capacities are available.''))))))"

definition ULTRASERVER_CAPACITY_BLOCK_ALLOWED_SIZE_DICT :: "(string \<times> int list) list" where
  "ULTRASERVER_CAPACITY_BLOCK_ALLOWED_SIZE_DICT = [(''p6e-gb200'', [9, 18])]"

definition wrong_sizes :: "int list \<Rightarrow> block_status list \<Rightarrow> string list" where
  "wrong_sizes allowed_sizes statuses =
     concat (map (\<lambda>status. case TotalCapacity status of None \<Rightarrow> []
       | Some n \<Rightarrow> if n \<in> set allowed_sizes then []
           else [show_option (CapacityBlockId status) @ '' (size: '' @ str_int n @ '', allowed: '' @
                 py_repr (VList (map VInt allowed_sizes)) @ '')'']) statuses)"

fun wrong_blocks :: "ec2_api \<Rightarrow> (string \<times> string list) list \<Rightarrow> (string \<times> int list) list \<Rightarrow> string list result" where
  "wrong_blocks E blocks [] = Inr []"
| "wrong_blocks E blocks ((prefix, allowed_sizes) # rest) =
     (let ids = dict_get blocks prefix [] in
      if ids = [] then wrong_blocks E blocks rest
      else rbind (describe_capacity_block_status E) (\<lambda>statuses.
        rmap (\<lambda>ws. wrong_sizes allowed_sizes (get_needed_ultraserver_capacity_block_statuses statuses ids) @ ws)
          (wrong_blocks E blocks rest)))"

definition UltraserverCapacityBlockSizeValidator :: "ec2_api \<Rightarrow> (string \<times> string list) list \<Rightarrow> failures result" where
  "UltraserverCapacityBlockSizeValidator E cluster_ultraserver_capacity_block_dict =
     rmap (\<lambda>invalid_capacity_blocks. fail_if (invalid_capacity_blocks \<noteq> []) ERROR
       (''The following capacity blocks have invalid block sizes: '' @ join ''; '' invalid_capacity_blocks @ ''.''))
       (wrong_blocks E cluster_ultraserver_capacity_block_dict ULTRASERVER_CAPACITY_BLOCK_ALLOWED_SIZE_DICT)"

section \<open>Placement groups of reservations\<close>

definition PlacementGroupCapacityTypeValidator :: "capacity_type \<Rightarrow> bool \<Rightarrow> failures" where
  "PlacementGroupCapacityTypeValidator c placement_group_enabled =
     fail_if (c = CAPACITY_BLOCK \<and> placement_group_enabled) WARNING
       (''When using a capacity block reservation, a placement group constraint should not be set '' @
        ''as insufficient capacity errors may occur due to placement constraints outside of the '' @
        ''reservation even if the capacity reservation has remaining capacity. '' @
        ''Please remove the placement group for the compute resource.'')"

definition capacity_reservation_matches :: "ec2_api \<Rightarrow> pyval \<Rightarrow> string \<Rightarrow> string \<Rightarrow> bool result" where
  "capacity_reservation_matches E reservation instance_type subnet =
     rbind (get_key reservation ''InstanceType'') (\<lambda>t.
       if t \<noteq> VStr instance_type then Inr False
       else rbind (get_key reservation ''AvailabilityZone'') (\<lambda>z.
              rmap (\<lambda>az. z = az) (get_subnet_avail_zone E subnet)))"

definition reservation_placement_group :: "pyval \<Rightarrow> string result" where
  "reservation_placement_group reservation =
     rbind (get_key reservation ''PlacementGroupArn'') (\<lambda>arn. case arn of
       VNone \<Rightarrow> Inr (get_resource_name_from_resource_arn None)
     | VStr s \<Rightarrow> Inr (get_resource_name_from_resource_arn (Some s))
     | _ \<Rightarrow> Inl AttributeError)"

text \<open>The reservations seen so far: \<open>pg_match\<close> and \<open>open_or_targeted\<close>.\<close>

fun scan_reservations :: "ec2_api \<Rightarrow> string \<Rightarrow> string \<Rightarrow> string \<Rightarrow> pyval list \<Rightarrow> bool \<times> bool \<Rightarrow> (bool \<times> bool) result" where
  "scan_reservations E subnet chosen_pg instance_type [] seen = Inr seen"
| "scan_reservations E subnet chosen_pg instance_type (reservation # reservations) seen =
     rbind (capacity_reservation_matches E reservation instance_type subnet) (\<lambda>matches.
       if \<not> matches then scan_reservations E subnet chosen_pg instance_type reservations seen
       else rbind (reservation_placement_group reservation) (\<lambda>odcr_pg.
         scan_reservations E subnet chosen_pg instance_type reservations
           (if odcr_pg = [] then (fst seen, True) else (fst seen \<or> odcr_pg = chosen_pg, snd seen))))"

definition no_odcr_message :: "string \<Rightarrow> string \<Rightarrow> string" where
  "no_odcr_message chosen_pg instance_type =
     ''The placement group provided '' @ quoted chosen_pg @ '' targets the '' @ quoted instance_type @
     '' instance type but there '' @ ''are no ODCRs included in the resource group that target that instance type.''"

definition unrelated_group_message :: string where
  "unrelated_group_message =
     ''When using an open or targeted capacity reservation with an unrelated placement group, '' @
     ''insufficient capacity errors may occur due to placement constraints outside of the '' @
     ''reservation even if the capacity reservation has remaining capacity. Please consider either '' @
     ''not using a placement group for the compute resource or creating a new capacity reservation '' @
     ''in a related placement group.''"

fun validate_chosen_pg :: "ec2_api \<Rightarrow> string \<Rightarrow> string list \<Rightarrow> pyval list \<Rightarrow> string \<Rightarrow> bool \<times> bool \<Rightarrow> failures result" where
  "validate_chosen_pg E subnet [] reservations chosen_pg seen = Inr []"
| "validate_chosen_pg E subnet (instance_type # instance_types) reservations chosen_pg seen =
     rbind (scan_reservations E subnet chosen_pg instance_type reservations seen) (\<lambda>seen.
     rmap (\<lambda>fs. (if \<not> fst seen \<and> \<not> snd seen then [(no_odcr_message chosen_pg instance_type, ERROR)]
                 else fail_if (snd seen) WARNING unrelated_group_message) @ fs)
       (validate_chosen_pg E subnet instance_types reservations chosen_pg seen))"

record capacity_target =
  capacity_reservation_id :: "string option"
  capacity_reservation_resource_group_arn :: "string option"

definition PlacementGroupCapacityReservationValidator ::
    "ec2_api \<Rightarrow> string option \<Rightarrow> capacity_target option \<Rightarrow> string \<Rightarrow> string list \<Rightarrow> bool \<Rightarrow> failures result" where
  "PlacementGroupCapacityReservationValidator E placement_group odcr subnet instance_types multi_az_enabled =
     (if multi_az_enabled then Inr []
      else let odcr_id = (case odcr of None \<Rightarrow> None | Some t \<Rightarrow> capacity_reservation_id t);
               odcr_arn = (case odcr of None \<Rightarrow> None | Some t \<Rightarrow> capacity_reservation_resource_group_arn t) in
        rbind (if given odcr_id then describe_capacity_reservations E [the odcr_id]
               else if given odcr_arn then get_capacity_reservations E (the odcr_arn) else Inr []) (\<lambda>reservations.
          if reservations \<noteq> [] \<and> given placement_group
          then validate_chosen_pg E subnet instance_types reservations (the placement_group) (False, False)
          else Inr []))"

section \<open>What these validators report\<close>

definition errors :: "failures \<Rightarrow> failures" where
  "errors fs = filter (\<lambda>f. snd f = ERROR) fs"

lemma errors_simps [simp]:
  "errors [] = []" "errors (fs @ gs) = errors fs @ errors gs" "errors (fail_if b WARNING m) = []"
  "errors (fail_if b ERROR m) = fail_if b ERROR m" "errors ((m, ERROR) # fs) = (m, ERROR) # errors fs"
  "errors ((m, WARNING) # fs) = errors fs"
  by (simp_all add: errors_def fail_if_def)

text \<open>
  A reservation serves an instance type in the placement group when it is of that type and in the zone
  of the subnet, and has that group or none.
\<close>

lemma scan_reservations_seen:
  assumes "\<And>r. r \<in> set reservations \<Longrightarrow> capacity_reservation_matches E r t subnet = Inr (m r t)"
    and "\<And>r. r \<in> set reservations \<Longrightarrow> reservation_placement_group r = Inr (g r)"
  shows "scan_reservations E subnet chosen_pg t reservations seen =
    Inr (fst seen \<or> (\<exists>r \<in> set reservations. m r t \<and> g r \<noteq> [] \<and> g r = chosen_pg),
         snd seen \<or> (\<exists>r \<in> set reservations. m r t \<and> g r = []))"
  using assms
proof (induction reservations arbitrary: seen)
  case (Cons r reservations)
  have "scan_reservations E subnet chosen_pg t (r # reservations) seen = scan_reservations E subnet chosen_pg t reservations
      (if \<not> m r t then seen else if g r = [] then (fst seen, True) else (fst seen \<or> g r = chosen_pg, snd seen))"
    using Cons.prems[of r] by simp
  also have "\<dots> = Inr (fst seen \<or> (\<exists>r \<in> set (r # reservations). m r t \<and> g r \<noteq> [] \<and> g r = chosen_pg),
         snd seen \<or> (\<exists>r \<in> set (r # reservations). m r t \<and> g r = []))"
    by (subst Cons.IH) (use Cons.prems in auto)
  finally show ?case .
qed simp

text \<open>
  In a placement group, the instance types reported as having no reservation are those before the first
  that has one; types after it are not reported, whether they have a reservation or not.
\<close>

lemma unreserved_types_reported_until_first_match:
  assumes "\<And>r t. r \<in> set reservations \<Longrightarrow> t \<in> set instance_types \<Longrightarrow>
      capacity_reservation_matches E r t subnet = Inr (m r t)"
    and "\<And>r. r \<in> set reservations \<Longrightarrow> reservation_placement_group r = Inr (g r)"
    and "chosen_pg \<noteq> []"
  shows "rmap errors (validate_chosen_pg E subnet instance_types reservations chosen_pg (False, False)) =
    Inr (map (\<lambda>t. (no_odcr_message chosen_pg t, ERROR))
      (takeWhile (\<lambda>t. \<not> (\<exists>r \<in> set reservations. m r t \<and> g r \<in> {chosen_pg, []})) instance_types))"
proof -
  define hit where "hit t \<longleftrightarrow> (\<exists>r \<in> set reservations. m r t \<and> g r \<in> {chosen_pg, []})" for t
  have "rmap errors (validate_chosen_pg E subnet ts reservations chosen_pg seen) =
      Inr (if fst seen \<or> snd seen then [] else map (\<lambda>t. (no_odcr_message chosen_pg t, ERROR)) (takeWhile (\<lambda>t. \<not> hit t) ts))"
    if "set ts \<subseteq> set instance_types" for ts seen
    using that
  proof (induction ts arbitrary: seen)
    case (Cons t ts)
    obtain a b where scan: "scan_reservations E subnet chosen_pg t reservations seen = Inr (a, b)"
      and ab: "a \<or> b \<longleftrightarrow> fst seen \<or> snd seen \<or> hit t"
      using scan_reservations_seen[where m = m and g = g, of reservations E t subnet chosen_pg seen] assms Cons.prems
      by (auto simp: hit_def)
    obtain fs where "validate_chosen_pg E subnet ts reservations chosen_pg (a, b) = Inr fs"
      and "errors fs = (if a \<or> b then [] else map (\<lambda>t. (no_odcr_message chosen_pg t, ERROR)) (takeWhile (\<lambda>t. \<not> hit t) ts))"
      using Cons.IH[of "(a, b)"] Cons.prems by (auto simp: rmap_Inr_iff)
    with scan ab show ?case by auto
  qed simp
  from this[of instance_types "(False, False)"] show ?thesis by (simp add: hit_def)
qed

lemma collect_silent:
  assumes "\<And>x. x \<in> set xs \<Longrightarrow> f x = ([], Inr (d x))"
  shows "collect f xs = ([], Inr (concat (map d xs)))"
  using assms by (induction xs) (auto simp: calling_def)

lemma collect_one_of:
  assumes "\<And>x. x \<in> set xs \<Longrightarrow> \<exists>ys. f x = ([], Inr ys) \<and> ys \<noteq> [] \<or> (\<exists>fs. fs \<noteq> [] \<and> f x = (fs, Inr []))"
  shows "\<exists>fs ys. collect f xs = (fs, Inr ys) \<and> (fs = [] \<and> ys = [] \<longleftrightarrow> xs = [])"
  using assms
proof (induction xs)
  case (Cons x xs)
  from Cons.IH Cons.prems obtain fs ys where "collect f xs = (fs, Inr ys)" by fastforce
  with Cons.prems[of x] show ?case by (auto simp: calling_def)
qed simp


lemma filter_keeps_all: "length (filter P xs) = length xs \<longleftrightarrow> (\<forall>x \<in> set xs. P x)"
proof (induction xs)
  case (Cons x xs)
  have "length (filter P xs) \<noteq> Suc (length xs)" using length_filter_le[of P xs] by linarith
  with Cons show ?case by auto
qed simp

lemma with_subnets_errors:
  assumes "texts_of (map snd sites) = Inr zs"
  shows "\<exists>fs. validate_with_subnets queue arn sites subnet_zones = Inr fs
    \<and> (errors fs \<noteq> [] \<longleftrightarrow> (\<forall>az \<in> snd ` set subnet_zones. VStr az \<notin> snd ` set sites))"
proof -
  let ?unreserved = "filter (\<lambda>(subnet, az). VStr az \<notin> snd ` set sites) subnet_zones"
  have all: "length ?unreserved = length subnet_zones \<longleftrightarrow> (\<forall>az \<in> snd ` set subnet_zones. VStr az \<notin> snd ` set sites)"
    unfolding filter_keeps_all by (auto simp: case_prod_beta)
  show ?thesis
  proof (cases "subnet_zones \<noteq> [] \<and> ?unreserved = []")
    case True
    then have "length ?unreserved \<noteq> length subnet_zones" by simp
    then have "\<not> (\<forall>az \<in> snd ` set subnet_zones. VStr az \<notin> snd ` set sites)" unfolding all .
    moreover have "validate_with_subnets queue arn sites subnet_zones = Inr []"
      using True by (simp add: validate_with_subnets_def)
    ultimately show ?thesis by (simp add: errors_def)
  next
    case False
    then show ?thesis using assms unfolding all[symmetric]
      by (cases "length ?unreserved = length subnet_zones") (simp_all add: validate_with_subnets_def Let_def)
  qed
qed


section \<open>Examples\<close>

definition example_reservation :: "string \<Rightarrow> pyval" where
  "example_reservation instance_type =
     VDict [(''InstanceType'', VStr instance_type), (''AvailabilityZone'', VStr ''az1''), (''State'', VStr ''active''),
            (''PlacementGroupArn'', VStr ''arn:aws:ec2:::placement-group/pg''),
            (''TotalInstanceCount'', VInt 2), (''AvailableInstanceCount'', VInt 2)]"

definition example_block :: "string list \<Rightarrow> block_status" where
  "example_block ids = \<lparr>CapacityBlockId = Some ''cb-1'', CapacityReservationStatuses = map Some ids,
     InterconnectStatus = Some ''ok'', TotalCapacity = Some 9\<rparr>"

definition example_ec2 :: "string list \<Rightarrow> ec2_api" where
  "example_ec2 ids =
     \<lparr>list_instance_types = Inr [''t1''], describe_image = (\<lambda>_. Inr emptydict), imagebuilder_image_id = (\<lambda>s. Inr s),
      get_supported_architectures = (\<lambda>_. Inr [''x86_64'']), get_instance_type_info = (\<lambda>_. Inr emptydict),
      describe_key_pair = (\<lambda>_. Inl KeyError), describe_placement_group = (\<lambda>_. Inr ()),
      describe_capacity_reservations = (\<lambda>rs. Inr (map (\<lambda>_. example_reservation ''t2'') rs)),
      get_subnet_avail_zone = (\<lambda>_. Inr (VStr ''az1'')),
      describe_capacity_block_status = Inr [example_block ids], group_reservation_ids = (\<lambda>_. Inr [''cr-1'']),
      group_configuration = (\<lambda>_. Inr (VDict [(''GroupConfiguration'', VDict [(''Configuration'',
        VList [VDict [(''Type'', VStr ''AWS::EC2::CapacityReservationPool'')]])])]))\<rparr>"


text \<open>A reservation that comes second in its status is neither checked nor reported as missing.\<close>

lemma second_reservation_unchecked:
  "CapacityBlockHealthStatusValidator
    ((example_ec2 [])\<lparr>describe_capacity_block_status :=
       Inr [(example_block [''cr-1'', ''cr-2''])\<lparr>InterconnectStatus := Some ''impaired''\<rparr>]\<rparr>) [''cr-2''] = Inr []"
  by code_simp


definition example_type :: "string \<Rightarrow> int \<Rightarrow> string \<times> pyval" where
  "example_type name n = (name, VDict [(''InstanceType'', VStr name), (''VCpuInfo'', VDict [(''DefaultVCpus'', VInt n)])])"

end
