(* ===== verification/CallCache.thy ===== *)
theory CallCache
  imports Main
begin

text \<open>
  The cache of calls that the AWS clients share (\<open>Cache.cached\<close>, \<open>pcluster/aws/common.py\<close>).  The validators run
  in threads, so that several calls are under way at once: a state is the program point of each thread, the
  mutexes made so far and who holds each, and the cached values; a step is one thread moving, or the cache being
  cleared.  Three counters of the history are kept for the statements: the calls of the cached function that
  began and that failed, and the clearings.  A key stands for the arguments (\<open>_make_key\<close> is a hash of them), and
  \<open>returns k v\<close> holds for the values that the function may return for it.
\<close>

section \<open>States\<close>

datatype ('k, 'v) point =
    Outside
  | Entered 'k \<comment> \<open>the mutex of the key exists\<close>
  | Holding 'k \<comment> \<open>inside \<open>with mutexes[cache_key]\<close>\<close>
  | Running 'k \<comment> \<open>inside the cached function\<close>
  | Having 'k 'v \<comment> \<open>\<open>return_value\<close> is set, the mutex still held\<close>
  | Returned 'k 'v
  | Raised 'k

record ('k, 'v) calls =
  points :: "nat \<Rightarrow> ('k, 'v) point"
  mutexes :: "'k set"
  holder :: "'k \<Rightarrow> nat option"
  cache :: "'k \<Rightarrow> 'v option"
  begun :: "'k \<Rightarrow> nat"
  failed :: "'k \<Rightarrow> nat"
  clearings :: nat

definition no_calls :: "('k, 'v) calls" where
  "no_calls = \<lparr>points = (\<lambda>_. Outside), mutexes = {}, holder = (\<lambda>_. None), cache = (\<lambda>_. None),
     begun = (\<lambda>_. 0), failed = (\<lambda>_. 0), clearings = 0\<rparr>"

fun at_rest :: "('k, 'v) point \<Rightarrow> bool" where
  "at_rest Outside = True"
| "at_rest (Returned k v) = True"
| "at_rest (Raised k) = True"
| "at_rest _ = False"

text \<open>The key whose mutex a thread at this point holds.\<close>

fun inside :: "('k, 'v) point \<Rightarrow> 'k option" where
  "inside (Holding k) = Some k"
| "inside (Running k) = Some k"
| "inside (Having k v) = Some k"
| "inside _ = None"

section \<open>Steps\<close>

inductive step :: "bool \<Rightarrow> ('k \<Rightarrow> 'v \<Rightarrow> bool) \<Rightarrow> ('k, 'v) calls \<Rightarrow> ('k, 'v) calls \<Rightarrow> bool"
  for enabled :: bool and returns :: "'k \<Rightarrow> 'v \<Rightarrow> bool" where
  enter: "at_rest (points s t) \<Longrightarrow>
    step enabled returns s (s\<lparr>points := (points s)(t := Entered k), mutexes := insert k (mutexes s)\<rparr>)"
| acquire: "points s t = Entered k \<Longrightarrow> k \<in> mutexes s \<Longrightarrow> holder s k = None \<Longrightarrow>
    step enabled returns s (s\<lparr>points := (points s)(t := Holding k), holder := (holder s)(k := Some t)\<rparr>)"
| hit: "points s t = Holding k \<Longrightarrow> enabled \<Longrightarrow> cache s k = Some v \<Longrightarrow>
    step enabled returns s (s\<lparr>points := (points s)(t := Having k v)\<rparr>)"
| miss: "points s t = Holding k \<Longrightarrow> \<not> (enabled \<and> cache s k \<noteq> None) \<Longrightarrow>
    step enabled returns s (s\<lparr>points := (points s)(t := Running k), begun := (begun s)(k := Suc (begun s k))\<rparr>)"
| return: "points s t = Running k \<Longrightarrow> returns k v \<Longrightarrow>
    step enabled returns s (s\<lparr>points := (points s)(t := Having k v)\<rparr>)"
| raise: "points s t = Running k \<Longrightarrow>
    step enabled returns s (s\<lparr>points := (points s)(t := Raised k), holder := (holder s)(k := None),
      failed := (failed s)(k := Suc (failed s k))\<rparr>)"
| store: "points s t = Having k v \<Longrightarrow>
    step enabled returns s (s\<lparr>points := (points s)(t := Returned k v), holder := (holder s)(k := None),
      cache := (if enabled then (cache s)(k := Some v) else cache s)\<rparr>)"
| clear_all: "step enabled returns s (s\<lparr>cache := (\<lambda>_. None), clearings := Suc (clearings s)\<rparr>)"

inductive reachable :: "bool \<Rightarrow> ('k \<Rightarrow> 'v \<Rightarrow> bool) \<Rightarrow> ('k, 'v) calls \<Rightarrow> bool"
  for enabled :: bool and returns :: "'k \<Rightarrow> 'v \<Rightarrow> bool" where
  init: "reachable enabled returns no_calls"
| move: "reachable enabled returns s \<Longrightarrow> step enabled returns s s' \<Longrightarrow> reachable enabled returns s'"

section \<open>The mutex of a key\<close>

definition well_locked :: "('k, 'v) calls \<Rightarrow> bool" where
  "well_locked s \<longleftrightarrow> (\<forall>t k. holder s k = Some t \<longleftrightarrow> inside (points s t) = Some k)
     \<and> (\<forall>t k. points s t = Entered k \<longrightarrow> k \<in> mutexes s)"

lemma holders_equal:
  "well_locked s \<Longrightarrow> inside (points s t) = Some k \<Longrightarrow> inside (points s u) = Some k \<Longrightarrow> t = u"
  unfolding well_locked_def by (metis option.inject)

lemma step_well_locked: "step enabled returns s s' \<Longrightarrow> well_locked s \<Longrightarrow> well_locked s'"
proof (induction rule: step.induct)
  case (enter s t k)
  then have "inside (points s t) = None" by (cases "points s t") auto
  with enter show ?case by (fastforce simp: well_locked_def)
next
  case (acquire s t k)
  then show ?case by (auto simp: well_locked_def split: if_splits) (metis inside.simps(5) option.distinct(1))+
next
  case (raise s t k)
  then have "inside (points s u) \<noteq> Some k" if "u \<noteq> t" for u
    using holders_equal[of s t k u] that by auto
  with raise show ?case by (auto simp: well_locked_def split: if_splits)
next
  case (store s t k v)
  then have "inside (points s u) \<noteq> Some k" if "u \<noteq> t" for u
    using holders_equal[of s t k u] that by auto
  with store show ?case by (auto simp: well_locked_def split: if_splits)
qed (auto simp: well_locked_def split: if_splits)

lemma reachable_well_locked: "reachable enabled returns s \<Longrightarrow> well_locked s"
proof (induction rule: reachable.induct)
  case init
  show ?case by (simp add: well_locked_def no_calls_def)
qed (rule step_well_locked)

text \<open>The cached function never runs twice at the same time for the same key.\<close>

lemma one_call_at_a_time:
  assumes "reachable enabled returns s" and "points s t = Running k" and "points s u = Running k"
  shows "t = u"
  by (rule holders_equal[OF reachable_well_locked[OF assms(1)], of t k u]) (simp_all add: assms)

section \<open>How often the function is called\<close>

fun due_at :: "('k, 'v) point \<Rightarrow> 'k \<Rightarrow> bool" where \<comment> \<open>the value of the key is being made, or is made\<close>
  "due_at (Running k) k' = (k = k')"
| "due_at (Having k v) k' = (k = k')"
| "due_at _ k' = False"

definition value_due :: "('k, 'v) calls \<Rightarrow> 'k \<Rightarrow> bool" where
  "value_due s k \<longleftrightarrow> cache s k \<noteq> None \<or> (\<exists>t. due_at (points s t) k)"

definition few_calls :: "('k, 'v) calls \<Rightarrow> bool" where
  "few_calls s \<longleftrightarrow> (\<forall>k. begun s k \<le> failed s k + clearings s + (if value_due s k then 1 else 0))"

lemma due_inside: "due_at p k \<Longrightarrow> inside p = Some k"
  by (cases p) auto

text \<open>A thread that moves changes at most what is due by itself.\<close>

lemma due_after_move:
  assumes "\<And>k. due_at q k \<longleftrightarrow> due_at (points s t) k" and "cache s' = cache s" and "points s' = (points s)(t := q)"
  shows "value_due s' = value_due s"
proof
  fix k
  have "(\<exists>u. due_at (points s' u) k) \<longleftrightarrow> (\<exists>u. due_at (points s u) k)"
    using assms(1)[of k] unfolding assms(3) by (metis fun_upd_apply)
  then show "value_due s' k \<longleftrightarrow> value_due s k" by (simp add: value_due_def assms(2))
qed

lemma few_calls_frame:
  "value_due s' = value_due s \<Longrightarrow> begun s' = begun s \<Longrightarrow> failed s' = failed s \<Longrightarrow> clearings s' = clearings s \<Longrightarrow>
   few_calls s' \<longleftrightarrow> few_calls s"
  by (simp add: few_calls_def)

lemma step_few_calls:
  assumes "step True returns s s'" and "well_locked s" and "few_calls s"
  shows "few_calls s'"
  using assms
proof (cases rule: step.cases)
  case (enter t k)
  then have "\<not> due_at (points s t) j" for j by (cases "points s t") auto
  then have "value_due s' = value_due s"
    using enter(1) by (intro due_after_move[where s = s and t = t and q = "Entered k"]) auto
  then show ?thesis using enter(1) assms(3) few_calls_frame[of s' s] by simp
next
  case (acquire t k)
  then have "value_due s' = value_due s"
    by (intro due_after_move[where s = s and t = t and q = "Holding k"]) auto
  then show ?thesis using acquire(1) assms(3) few_calls_frame[of s' s] by simp
next
  case (hit t k v)
  have "value_due s' j = value_due s j" for j
  proof (cases "j = k")
    case False
    then have "(\<exists>u. due_at (points s' u) j) \<longleftrightarrow> (\<exists>u. due_at (points s u) j)"
      using hit by (auto split: if_splits) (metis due_at.simps)+
    then show ?thesis using hit by (simp add: value_due_def)
  qed (use hit in \<open>auto simp: value_due_def\<close>)
  then show ?thesis using hit assms(3) by (subst few_calls_frame[of _ s]) auto
next
  case (miss t k)
  have "\<not> due_at (points s u) k" for u
    using holders_equal[OF assms(2), of t k u] due_inside[of "points s u" k] miss by auto
  then have "\<not> value_due s k" using miss by (auto simp: value_due_def)
  moreover have "value_due s' j" if "value_due s j" for j
    using that miss by (auto simp: value_due_def split: if_splits) (metis due_at.simps)
  moreover have "value_due s' k" using miss by (auto simp: value_due_def)
  ultimately show ?thesis using miss(1) assms(3) by (auto simp: few_calls_def split: if_split_asm)
next
  case (return t k v)
  then have "value_due s' = value_due s"
    by (intro due_after_move[where s = s and t = t and q = "Having k v"]) auto
  then show ?thesis using return(1) assms(3) few_calls_frame[of s' s] by simp
next
  case (raise t k)
  have "value_due s' j = value_due s j" if "j \<noteq> k" for j
    using that raise by (auto simp: value_due_def split: if_splits) (metis due_at.simps)+
  moreover have "value_due s k" using raise by (auto simp: value_due_def intro!: exI[of _ t])
  ultimately show ?thesis using raise(1) assms(3) by (auto simp: few_calls_def le_SucI split: if_split_asm)
next
  case (store t k v)
  have "value_due s' j = value_due s j" for j
  proof (cases "j = k")
    case True
    with store show ?thesis by (auto simp: value_due_def intro!: exI[of _ t])
  next
    case False
    then show ?thesis using store by (auto simp: value_due_def split: if_splits) (metis due_at.simps)+
  qed
  then show ?thesis using store assms(3) by (subst few_calls_frame[of _ s]) auto
next
  case clear_all
  have "begun s k \<le> Suc (failed s k + clearings s)" for k
    using assms(3) by (auto simp: few_calls_def dest!: spec[of _ k] split: if_split_asm)
  with clear_all show ?thesis by (auto simp: few_calls_def le_SucI)
qed

lemma reachable_few_calls: "reachable True returns s \<Longrightarrow> few_calls s"
proof (induction rule: reachable.induct)
  case init
  show ?case by (simp add: few_calls_def no_calls_def)
next
  case (move s s')
  then show ?case using step_few_calls reachable_well_locked by blast
qed

text \<open>
  C25: whatever the threads do, the cached function is called for a key at most once more than it failed
  for that key and the cache was cleared.
\<close>

theorem one_successful_call_per_key:
  assumes "reachable True returns s"
  shows "begun s k \<le> failed s k + clearings s + 1"
  using reachable_few_calls[OF assms] by (auto simp: few_calls_def dest!: spec[of _ k] split: if_split_asm)

section \<open>The values that callers see\<close>

definition one_value :: "('k \<Rightarrow> 'v \<Rightarrow> bool) \<Rightarrow> ('k, 'v) calls \<Rightarrow> bool" where
  "one_value returns s \<longleftrightarrow>
     (\<forall>k v. cache s k = Some v \<longrightarrow> returns k v)
     \<and> (\<forall>t k v. points s t \<in> {Having k v, Returned k v} \<longrightarrow> returns k v)
     \<and> (clearings s = 0 \<longrightarrow>
          (\<forall>t k v. points s t = Returned k v \<longrightarrow> cache s k = Some v)
          \<and> (\<forall>t k v w. points s t = Having k v \<longrightarrow> cache s k = Some w \<longrightarrow> v = w)
          \<and> (\<forall>t k. points s t = Running k \<longrightarrow> cache s k = None))"

lemma step_one_value:
  assumes "step True returns s s'" and "well_locked s" and "one_value returns s"
  shows "one_value returns s'"
  using assms
proof (cases rule: step.cases)
  case (store t k v)
  have "u = t" if "points s u = Running k \<or> points s u = Having k w" for u w
    using holders_equal[OF assms(2), of u k t] that store by auto
  then show ?thesis using store(1,2) assms(3) by (auto simp: one_value_def split: if_split_asm)
qed (auto simp: one_value_def split: if_split_asm)

text \<open>
  C26: as long as the cache is not cleared, all callers of a key are given the same value, and it is one the
  function returns, even when the function would return another value on a second call.
\<close>

theorem callers_agree:
  assumes "reachable True returns s" and "clearings s = 0"
    and "points s t = Returned k v" and "points s u = Returned k w"
  shows "v = w \<and> returns k v"
proof -
  have "one_value returns s"
    using assms(1)
  proof (induction rule: reachable.induct)
    case init
    show ?case by (simp add: one_value_def no_calls_def)
  next
    case (move s s')
    then show ?case using step_one_value reachable_well_locked by blast
  qed
  then have c: "cache s k = Some x" "returns k x" if "points s u = Returned k x" for u x
    using that assms(2) unfolding one_value_def by simp_all
  from c[OF assms(3)] c(1)[OF assms(4)] show ?thesis by simp
qed

section \<open>Every call can end\<close>

inductive steps :: "bool \<Rightarrow> ('k \<Rightarrow> 'v \<Rightarrow> bool) \<Rightarrow> ('k, 'v) calls \<Rightarrow> ('k, 'v) calls \<Rightarrow> bool"
  for enabled :: bool and returns :: "'k \<Rightarrow> 'v \<Rightarrow> bool" where
  done_here: "steps enabled returns s s"
| one_more: "step enabled returns s s' \<Longrightarrow> steps enabled returns s' s'' \<Longrightarrow> steps enabled returns s s''"

lemma steps_trans: "steps enabled returns s s' \<Longrightarrow> steps enabled returns s' s'' \<Longrightarrow> steps enabled returns s s''"
  by (induction rule: steps.induct) (auto intro: steps.intros)

lemma steps_reachable: "steps enabled returns s s' \<Longrightarrow> reachable enabled returns s \<Longrightarrow> reachable enabled returns s'"
  by (induction rule: steps.induct) (auto intro: reachable.move)

text \<open>A thread inside the mutex of a key can leave it without anyone else moving.\<close>

definition leaves :: "bool \<Rightarrow> ('k \<Rightarrow> 'v \<Rightarrow> bool) \<Rightarrow> nat \<Rightarrow> 'k \<Rightarrow> ('k, 'v) calls \<Rightarrow> bool" where
  "leaves enabled returns t k s \<longleftrightarrow> (\<exists>s' v. steps enabled returns s s' \<and> points s' t = Returned k v
     \<and> holder s' k = None \<and> mutexes s' = mutexes s \<and> (\<forall>u. u \<noteq> t \<longrightarrow> points s' u = points s u))"

lemma leaves_after:
  "step enabled returns s r \<Longrightarrow> leaves enabled returns t k r \<Longrightarrow> mutexes r = mutexes s \<Longrightarrow>
   (\<forall>u. u \<noteq> t \<longrightarrow> points r u = points s u) \<Longrightarrow> leaves enabled returns t k s"
  unfolding leaves_def by (metis one_more)

lemma having_leaves: "points s t = Having k v \<Longrightarrow> leaves enabled returns t k s"
  using one_more[OF store[of s t k v enabled returns] done_here] unfolding leaves_def by fastforce

lemma running_leaves: "points s t = Running k \<Longrightarrow> returns k v \<Longrightarrow> leaves enabled returns t k s"
  using leaves_after[OF return[of s t k returns v enabled] having_leaves[of _ t k v]] by simp

lemma leaves_mutex:
  assumes "inside (points s t) = Some k" and "\<exists>v. returns k v"
  shows "leaves enabled returns t k s"
proof -
  from assms(2) obtain w where w: "returns k w" ..
  consider "points s t = Holding k" | "points s t = Running k" | v where "points s t = Having k v"
    using assms(1) by (cases "points s t") auto
  then show ?thesis
  proof cases
    case 1
    show ?thesis
    proof (cases "enabled \<and> cache s k \<noteq> None")
      case True
      then obtain v where v: "enabled" "cache s k = Some v" by blast
      show ?thesis by (rule leaves_after[OF hit[OF 1 v] having_leaves[of _ t k v]]) simp_all
    next
      case False
      show ?thesis by (rule leaves_after[OF miss[OF 1 False] running_leaves[where returns = returns and v = w, OF _ w]]) simp_all
    qed
  next
    case 2
    from running_leaves[of s t k returns w enabled, OF 2 w] show ?thesis .
  next
    case (3 v)
    from having_leaves[OF 3] show ?thesis .
  qed
qed

text \<open>
  C27: no call waits for ever: when the cached function returns, the threads can go on from every reachable
  state so that a given call that is under way returns a value.
\<close>

theorem call_can_end:
  assumes "reachable enabled returns s" and "\<forall>k. \<exists>v. returns k v" and "\<not> at_rest (points s t)"
  shows "\<exists>s' k v. steps enabled returns s s' \<and> points s' t = Returned k v"
proof (cases "inside (points s t)")
  case (Some k)
  from leaves_mutex[of s t k returns enabled, OF Some] assms(2) show ?thesis unfolding leaves_def by blast
next
  case None
  with assms(3) obtain k where k: "points s t = Entered k" by (cases "points s t") auto
  have "\<exists>r. steps enabled returns s r \<and> points r t = Entered k \<and> holder r k = None"
  proof (cases "holder s k")
    case (Some u)
    then have u: "inside (points s u) = Some k" using reachable_well_locked[OF assms(1)] by (auto simp: well_locked_def)
    with k have "t \<noteq> u" by auto
    with leaves_mutex[of s u k returns enabled, OF u] assms(2) k show ?thesis unfolding leaves_def by metis
  qed (use k in \<open>auto intro: done_here\<close>)
  then obtain r where r: "steps enabled returns s r" "points r t = Entered k" "holder r k = None" by blast
  have "k \<in> mutexes r" using reachable_well_locked[OF steps_reachable[OF r(1) assms(1)]] r(2) by (auto simp: well_locked_def)
  note go_in = acquire[OF r(2) this r(3), of enabled returns]
  obtain s' v where "steps enabled returns (r\<lparr>points := (points r)(t := Holding k), holder := (holder r)(k := Some t)\<rparr>) s'"
    "points s' t = Returned k v"
    using leaves_mutex[of "r\<lparr>points := (points r)(t := Holding k), holder := (holder r)(k := Some t)\<rparr>" t k returns enabled]
      assms(2) unfolding leaves_def by auto
  with steps_trans[OF r(1) one_more[OF go_in]] show ?thesis by blast
qed

section \<open>An example\<close>

text \<open>Two threads that ask for key 0; the function returns 7 for it.\<close>

definition pair_points :: "(nat, nat) point \<Rightarrow> (nat, nat) point \<Rightarrow> nat \<Rightarrow> (nat, nat) point" where
  "pair_points p q = (\<lambda>t. if t = 0 then p else if t = 1 then q else Outside)"

definition pair :: "(nat, nat) point \<Rightarrow> (nat, nat) point \<Rightarrow> nat option \<Rightarrow> nat option \<Rightarrow> nat \<Rightarrow> (nat, nat) calls" where
  "pair p q h c n = \<lparr>points = pair_points p q, mutexes = {0}, holder = (\<lambda>_. None)(0 := h), cache = (\<lambda>_. None)(0 := c),
     begun = (\<lambda>_. 0)(0 := n), failed = (\<lambda>_. 0), clearings = 0\<rparr>"

lemma pair_points_simps [simp]:
  "pair_points p q 0 = p" "pair_points p q (Suc 0) = q"
  "(pair_points p q)(0 := p') = pair_points p' q" "(pair_points p q)(Suc 0 := q') = pair_points p q'"
  by (auto simp: pair_points_def)

abbreviation gives_seven :: "nat \<Rightarrow> nat \<Rightarrow> bool" where
  "gives_seven k v \<equiv> v = k + 7"

lemma pair_entered: "reachable True gives_seven (pair (Entered 0) (Entered 0) None None 0)"
proof -
  have start: "no_calls = (pair Outside Outside None None 0)\<lparr>mutexes := {}\<rparr>"
    by (auto simp: no_calls_def pair_def pair_points_def)
  have "reachable True gives_seven (pair (Entered 0) Outside None None 0)"
    using move[OF init enter[of no_calls 0 True gives_seven 0]] unfolding start by (simp add: pair_def)
  from move[OF this enter[of _ 1 True gives_seven 0]] show ?thesis by (simp add: pair_def)
qed

lemma pair_running: "reachable True gives_seven (pair (Running 0) (Entered 0) (Some 0) None 1)"
proof -
  have "reachable True gives_seven (pair (Holding 0) (Entered 0) (Some 0) None 0)"
    using move[OF pair_entered acquire[of _ 0 0 True gives_seven]] by (simp add: pair_def)
  from move[OF this miss[of _ 0 0 True gives_seven]] show ?thesis by (simp add: pair_def)
qed

lemma pair_returned: "reachable True gives_seven (pair (Returned 0 7) (Returned 0 7) None (Some 7) 1)"
proof -
  have "reachable True gives_seven (pair (Having 0 7) (Entered 0) (Some 0) None 1)"
    using move[OF pair_running return[of _ 0 0 gives_seven 7 True]] by (simp add: pair_def)
  from move[OF this store[of _ 0 0 7 True gives_seven]]
  have "reachable True gives_seven (pair (Returned 0 7) (Entered 0) None (Some 7) 1)" by (simp add: pair_def)
  from move[OF this acquire[of _ 1 0 True gives_seven]]
  have "reachable True gives_seven (pair (Returned 0 7) (Holding 0) (Some 1) (Some 7) 1)" by (simp add: pair_def)
  from move[OF this hit[of _ 1 0 True 7 gives_seven]]
  have "reachable True gives_seven (pair (Returned 0 7) (Having 0 7) (Some 1) (Some 7) 1)" by (simp add: pair_def)
  from move[OF this store[of _ 1 0 7 True gives_seven]] show ?thesis by (simp add: pair_def)
qed

theorem one_successful_call_per_key_witness: "begun (pair (Returned 0 7) (Returned 0 7) None (Some 7) 1) 0 \<le> 1"
  using one_successful_call_per_key[OF pair_returned, of 0] by (simp add: pair_def)

theorem callers_agree_witness:
  "{v. points (pair (Returned 0 7) (Returned 0 7) None (Some 7) 1) 1 = Returned 0 v} = {7}"
  using callers_agree[OF pair_returned, of 0 0 7 1 7] by (auto simp: pair_def)

theorem call_can_end_witness:
  "\<exists>s' k v. steps True gives_seven (pair (Running 0) (Entered 0) (Some 0) None 1) s' \<and> points s' 1 = Returned k v"
  using call_can_end[OF pair_running, of 1] by (simp add: pair_def)
end
