(* ===== verification/AwsClients.thy ===== *)
theory AwsClients
  imports InstanceTypes Artifacts
begin

text \<open>
  The clients of the AWS services (\<open>pcluster/aws/\<close>): how the exceptions of boto3 become those of the program,
  the caches of descriptions by identifier, the listings that follow page tokens, and the operations of the
  EC2, CloudFormation, S3, CloudWatch, EFS, load balancing and Route 53 clients that do more than pass a request
  on.  What boto3 answers is a parameter; the caching of whole calls is the subject of theory CallCache.
\<close>

section \<open>Exceptions\<close>

datatype boto_error =
    ParamValidation string
  | BotoCore string
  | ClientErr string string \<comment> \<open>code and message of \<open>response["Error"]\<close>\<close>
  | OtherError py_exn

type_synonym 'a boto = "boto_error + 'a"

definition throttling_error_codes :: "string set" where
  "throttling_error_codes = {''RequestLimitExceeded'', ''ThrottlingException''}"

fun client_exception :: "boto_error \<Rightarrow> py_exn" where
  "client_exception (ParamValidation m) =
     Exc ''BadRequestError'' (''Error validating parameter. Failed with exception: '' @ m)"
| "client_exception (BotoCore m) = Exc ''AWSClientError'' m"
| "client_exception (ClientErr code message) =
     (if code \<in> throttling_error_codes then Exc ''LimitExceededError'' message
      else if code = ''ValidationError'' then Exc ''BadRequestError'' message
      else Exc ''AWSClientError'' message)"
| "client_exception (OtherError e) = e"

definition handle_client_exception :: "'a boto \<Rightarrow> 'a result" where
  "handle_client_exception r = (case r of Inl e \<Rightarrow> Inl (client_exception e) | Inr x \<Rightarrow> Inr x)"

definition AWSClientError :: "string \<Rightarrow> py_exn" where
  "AWSClientError message = Exc ''AWSClientError'' message"

text \<open>\<open>retry_on_boto3_throttling\<close>: \<open>attempt k\<close> is what the call gives the \<open>k\<close>-th time.\<close>

definition throttled :: "'a boto \<Rightarrow> bool" where
  "throttled r \<longleftrightarrow> (\<exists>m. r = Inl (ClientErr ''Throttling'' m))"

partial_function (option) retry_from :: "(nat \<Rightarrow> 'a boto) \<Rightarrow> nat \<Rightarrow> 'a boto option" where
  "retry_from attempt k =
     (case attempt k of
        Inl (ClientErr code m) \<Rightarrow>
          if code \<noteq> ''Throttling'' then Some (attempt k) else retry_from attempt (Suc k)
      | _ \<Rightarrow> Some (attempt k))"

definition retry_on_boto3_throttling :: "(nat \<Rightarrow> 'a boto) \<Rightarrow> 'a boto option" where
  "retry_on_boto3_throttling attempt = retry_from attempt 0"

lemma retry_body:
  "(case r of Inl (ClientErr code m) \<Rightarrow> if code \<noteq> ''Throttling'' then a else b | _ \<Rightarrow> a) = (if throttled r then b else a)"
  by (auto simp: throttled_def split: sum.split boto_error.split)

lemma retry_from_step:
  "retry_from attempt k = (if throttled (attempt k) then retry_from attempt (Suc k) else Some (attempt k))"
  by (subst retry_from.simps) (rule retry_body)

lemma retry_from_first:
  "(\<And>j. k \<le> j \<Longrightarrow> j < n \<Longrightarrow> throttled (attempt j)) \<Longrightarrow> k \<le> n \<Longrightarrow> \<not> throttled (attempt n) \<Longrightarrow>
   retry_from attempt k = Some (attempt n)"
proof (induction "n - k" arbitrary: k)
  case 0
  then show ?case by (simp add: retry_from_step)
next
  case (Suc d)
  then have "throttled (attempt k)" "d = n - Suc k" "Suc k \<le> n" by auto
  with Suc show ?case by (subst retry_from_step) auto
qed

lemma retry_from_ends:
  assumes "retry_from attempt k = Some r"
  shows "\<exists>j. \<not> throttled (attempt j)"
proof (rule retry_from.raw_induct[where P = "\<lambda>attempt k r. \<exists>j. \<not> throttled (attempt j)", OF _ assms])
  fix retry :: "(nat \<Rightarrow> 'a boto) \<Rightarrow> nat \<Rightarrow> 'a boto option" and attempt k r
  assume IH: "\<And>attempt k r. retry attempt k = Some r \<Longrightarrow> \<exists>j. \<not> throttled (attempt j)"
    and body: "(case attempt k of
        Inl (ClientErr code m) \<Rightarrow> if code \<noteq> ''Throttling'' then Some (attempt k) else retry attempt (Suc k)
      | _ \<Rightarrow> Some (attempt k)) = Some r"
  show "\<exists>j. \<not> throttled (attempt j)"
  proof (cases "throttled (attempt k)")
    case True
    with body have "retry attempt (Suc k) = Some r" by (simp only: retry_body if_True)
    then show ?thesis by (rule IH)
  qed blast
qed

text \<open>
  A throttled call is repeated until it is answered: the result is that of the first attempt that is not
  throttled, and the call ends just when there is one.
\<close>

lemma throttled_call_outcome:
  "retry_on_boto3_throttling attempt =
    (if \<exists>n. \<not> throttled (attempt n) then Some (attempt (LEAST n. \<not> throttled (attempt n))) else None)"
proof (cases "\<exists>n. \<not> throttled (attempt n)")
  case True
  then have "\<not> throttled (attempt (LEAST n. \<not> throttled (attempt n)))" by (rule LeastI_ex)
  from retry_from_first[of 0 "LEAST n. \<not> throttled (attempt n)" attempt, OF _ le0 this] not_less_Least[where P = "\<lambda>n. \<not> throttled (attempt n)"]
  have "retry_from attempt 0 = Some (attempt (LEAST n. \<not> throttled (attempt n)))" by blast
  with True show ?thesis by (simp only: retry_on_boto3_throttling_def if_True)
next
  case False
  with retry_from_ends[of attempt 0] have "retry_from attempt 0 = None" by (cases "retry_from attempt 0") auto
  with False show ?thesis by (simp only: retry_on_boto3_throttling_def if_False)
qed

section \<open>Descriptions by identifier\<close>

text \<open>
  The clients of EC2 and FSx keep what they have learnt of each identifier.  \<open>usable\<close> is the truth of a kept
  answer: that of the dictionary, or always true for the objects made of it.
\<close>

type_synonym descriptions = "pyval \<Rightarrow> pyval option"

definition kept :: "(pyval \<Rightarrow> bool) \<Rightarrow> descriptions \<Rightarrow> string \<Rightarrow> pyval option" where
  "kept usable cached i = (case cached (VStr i) of
     Some v \<Rightarrow> if usable v then Some v else None | None \<Rightarrow> None)"

fun remember :: "string \<Rightarrow> pyval list \<Rightarrow> (descriptions, unit) act" where
  "remember key_field [] cached = (Inr (), cached)"
| "remember key_field (item # items) cached =
     (case get_key item key_field of
        Inl e \<Rightarrow> (Inl e, cached)
      | Inr k \<Rightarrow> remember key_field items (cached(k := Some item)))"

definition describe_with_cache ::
    "(string list \<Rightarrow> pyval list boto) \<Rightarrow> string \<Rightarrow> (pyval \<Rightarrow> bool) \<Rightarrow> string list \<Rightarrow> (descriptions, pyval list) act" where
  "describe_with_cache request key_field usable ids cached =
     (let found = List.map_filter (kept usable cached) ids;
          missed = filter (\<lambda>i. kept usable cached i = None) ids in
      if missed = [] then (Inr found, cached)
      else case handle_client_exception (request missed) of
        Inl e \<Rightarrow> (Inl e, cached)
      | Inr response \<Rightarrow> (case remember key_field response cached of
          (Inl e, cached') \<Rightarrow> (Inl e, cached')
        | (Inr u, cached') \<Rightarrow> (Inr (found @ response), cached')))"

definition any_object :: "pyval \<Rightarrow> bool" where "any_object v \<longleftrightarrow> True"

record ec2_client =
  additional_instance_types_data :: "(string \<times> pyval) list"
  security_groups_cache :: descriptions
  subnets_cache :: descriptions
  capacity_reservations_cache :: descriptions
  capacity_block_status_cache :: descriptions

text \<open>What boto3 answers the EC2 client; a listing is the list of all pages together.\<close>

record ec2_calls =
  call_subnets :: "string list \<Rightarrow> pyval list boto"
  call_capacity_reservations :: "string list \<Rightarrow> pyval list boto"
  call_security_groups :: "string list \<Rightarrow> pyval list boto"
  call_block_status :: "pyval \<Rightarrow> pyval list boto"
  call_offerings :: "pyval \<Rightarrow> pyval list boto"
  call_instance_types :: "pyval \<Rightarrow> pyval list boto"
  call_images :: "pyval \<Rightarrow> pyval list boto"
  call_instances :: "pyval \<Rightarrow> pyval list boto"
  call_route_tables :: "pyval \<Rightarrow> pyval list boto"
  call_run_instances :: "pyval \<Rightarrow> unit boto"
  call_launch_template_versions :: "string \<Rightarrow> string \<Rightarrow> pyval boto"

text \<open>A computation on one field of the client.\<close>

definition on_field :: "('c \<Rightarrow> 'd) \<Rightarrow> ('d \<Rightarrow> 'c \<Rightarrow> 'c) \<Rightarrow> ('d, 'a) act \<Rightarrow> ('c, 'a) act" where
  "on_field get put m c = (case m (get c) of (r, d) \<Rightarrow> (r, put d c))"

definition describe_subnets :: "ec2_calls \<Rightarrow> string list \<Rightarrow> (ec2_client, pyval list) act" where
  "describe_subnets A subnet_ids = on_field subnets_cache (\<lambda>d. subnets_cache_update (\<lambda>_. d))
     (describe_with_cache (call_subnets A) ''SubnetId'' truthy subnet_ids)"

definition describe_capacity_reservations :: "ec2_calls \<Rightarrow> string list \<Rightarrow> (ec2_client, pyval list) act" where
  "describe_capacity_reservations A capacity_reservation_ids =
     on_field capacity_reservations_cache (\<lambda>d. capacity_reservations_cache_update (\<lambda>_. d))
       (describe_with_cache (call_capacity_reservations A) ''CapacityReservationId'' any_object capacity_reservation_ids)"

definition describe_security_groups :: "ec2_calls \<Rightarrow> string list \<Rightarrow> (ec2_client, pyval list) act" where
  "describe_security_groups A security_group_ids =
     on_field security_groups_cache (\<lambda>d. security_groups_cache_update (\<lambda>_. d))
       (describe_with_cache (call_security_groups A) ''GroupId'' truthy security_group_ids)"

record fsx_client =
  fs_cache :: descriptions
  svm_cache :: descriptions
  volume_cache :: descriptions
  fc_cache :: descriptions
  dra_cache :: descriptions

record fsx_calls =
  call_file_systems :: "string list \<Rightarrow> pyval list boto"
  call_storage_virtual_machines :: "string list \<Rightarrow> pyval list boto"
  call_volumes :: "string list \<Rightarrow> pyval list boto"
  call_data_repository_associations :: "string list \<Rightarrow> pyval list boto"
  call_file_caches :: "string list \<Rightarrow> pyval list boto"

definition get_file_systems_info :: "fsx_calls \<Rightarrow> string list \<Rightarrow> (fsx_client, pyval list) act" where
  "get_file_systems_info A fsx_fs_ids = on_field fs_cache (\<lambda>d. fs_cache_update (\<lambda>_. d))
     (describe_with_cache (call_file_systems A) ''FileSystemId'' any_object fsx_fs_ids)"

definition describe_storage_virtual_machines :: "fsx_calls \<Rightarrow> string list \<Rightarrow> (fsx_client, pyval list) act" where
  "describe_storage_virtual_machines A storage_virtual_machine_ids = on_field svm_cache (\<lambda>d. svm_cache_update (\<lambda>_. d))
     (describe_with_cache (call_storage_virtual_machines A) ''StorageVirtualMachineId'' truthy storage_virtual_machine_ids)"

definition describe_volumes :: "fsx_calls \<Rightarrow> string list \<Rightarrow> (fsx_client, pyval list) act" where
  "describe_volumes A volume_ids = on_field volume_cache (\<lambda>d. volume_cache_update (\<lambda>_. d))
     (describe_with_cache (call_volumes A) ''VolumeId'' truthy volume_ids)"

definition describe_data_repository_associations :: "fsx_calls \<Rightarrow> string list \<Rightarrow> (fsx_client, pyval list) act" where
  "describe_data_repository_associations A dra_ids = on_field dra_cache (\<lambda>d. dra_cache_update (\<lambda>_. d))
     (describe_with_cache (call_data_repository_associations A) ''AssociationId'' truthy dra_ids)"

definition describe_file_caches :: "fsx_calls \<Rightarrow> string list \<Rightarrow> (fsx_client, pyval list) act" where
  "describe_file_caches A file_cache_ids = on_field fc_cache (\<lambda>d. fc_cache_update (\<lambda>_. d))
     (describe_with_cache (call_file_caches A) ''FileCacheId'' any_object file_cache_ids)"
section \<open>What the kept descriptions are\<close>

definition knows :: "(string \<Rightarrow> pyval) \<Rightarrow> descriptions \<Rightarrow> bool" where
  "knows item cached \<longleftrightarrow> (\<forall>k v. cached k = Some v \<longrightarrow> (\<exists>i. k = VStr i \<and> v = item i))"

text \<open>
  A service that describes what it is asked for: each identifier has one description, which carries it, and a
  request that succeeds gives those of the identifiers asked for, in any order.
\<close>

locale describing =
  fixes request :: "string list \<Rightarrow> pyval list boto" and key_field :: string
    and usable :: "pyval \<Rightarrow> bool" and item :: "string \<Rightarrow> pyval"
  assumes item_key: "get_key (item i) key_field = Inr (VStr i)"
    and item_usable: "usable (item i)"
    and answers: "request ids = Inr rs \<Longrightarrow> set rs = item ` set ids"
begin

lemma item_inj:
  assumes "item i = item j"
  shows "i = j"
proof -
  have "(Inr (VStr i) :: pyval result) = Inr (VStr j)" unfolding item_key[symmetric] assms ..
  then show ?thesis by simp
qed

lemma kept_item: "knows item cached \<Longrightarrow> kept usable cached i = Some v \<Longrightarrow> v = item i \<and> cached (VStr i) = Some (item i)"
  unfolding knows_def kept_def by (auto split: option.splits if_splits)

lemma remembered:
  assumes "set rs \<subseteq> range item" and "knows item cached"
  shows "\<exists>cached'. remember key_field rs cached = (Inr (), cached') \<and> knows item cached'
    \<and> (\<forall>i. cached' (VStr i) = (if item i \<in> set rs then Some (item i) else cached (VStr i)))"
  using assms
proof (induction rs arbitrary: cached)
  case Nil
  then show ?case by auto
next
  case (Cons r rs)
  from Cons.prems(1) obtain j where r: "r = item j" by auto
  have "knows item (cached(VStr j := Some r))" using Cons.prems(2) r by (auto simp: knows_def)
  moreover have "set rs \<subseteq> range item" using Cons.prems(1) by simp
  ultimately have
    "\<exists>cached'. remember key_field rs (cached(VStr j := Some r)) = (Inr (), cached') \<and> knows item cached'
      \<and> (\<forall>i. cached' (VStr i) = (if item i \<in> set rs then Some (item i) else (cached(VStr j := Some r)) (VStr i)))"
    using Cons.IH[of "cached(VStr j := Some r)"] by blast
  then obtain cached' where
    *: "remember key_field rs (cached(VStr j := Some r)) = (Inr (), cached')" "knows item cached'"
      "\<forall>i. cached' (VStr i) = (if item i \<in> set rs then Some (item i) else (cached(VStr j := Some r)) (VStr i))" by blast
  show ?case
  proof (intro exI conjI)
    show "remember key_field (r # rs) cached = (Inr (), cached')" using *(1) by (simp add: r item_key)
    show "\<forall>i. cached' (VStr i) = (if item i \<in> set (r # rs) then Some (item i) else cached (VStr i))"
      using *(3) item_inj by (auto simp: r)
  qed (rule *(2))
qed

text \<open>A call gives the descriptions asked for, or the error of a request for some of them; it keeps what is known.\<close>

lemma describe_gives:
  assumes "knows item cached" and "describe_with_cache request key_field usable ids cached = (r, cached')"
  shows "knows item cached'"
    and "r = Inr rs \<Longrightarrow> set rs = item ` set ids \<and> (\<forall>i \<in> set ids. cached' (VStr i) = Some (item i))"
    and "r = Inl e \<Longrightarrow> \<exists>missed. set missed \<subseteq> set ids \<and> handle_client_exception (request missed) = Inl e"
proof -
  define missed where "missed = filter (\<lambda>i. kept usable cached i = None) ids"
  define found where "found = List.map_filter (kept usable cached) ids"
  have found: "set found = item ` (set ids - set missed)"
    using kept_item[OF assms(1)] by (force simp: found_def missed_def map_filter_def)
  have known: "cached (VStr i) = Some (item i)" if "i \<in> set ids - set missed" for i
    using that kept_item[OF assms(1), of i] by (auto simp: missed_def)
  have sub: "set missed \<subseteq> set ids" by (auto simp: missed_def)
  consider (none) "missed = []" | (err) e where "missed \<noteq> []" "handle_client_exception (request missed) = Inl e"
    | (ok) response where "missed \<noteq> []" "request missed = Inr response"
    by (cases "request missed") (auto simp: handle_client_exception_def)
  then have "knows item cached' \<and> (\<forall>rs. r = Inr rs \<longrightarrow> set rs = item ` set ids \<and> (\<forall>i \<in> set ids. cached' (VStr i) = Some (item i)))
      \<and> (\<forall>e. r = Inl e \<longrightarrow> handle_client_exception (request missed) = Inl e)"
  proof cases
    case none
    with assms(2) have "r = Inr found" "cached' = cached"
      by (auto simp: describe_with_cache_def missed_def[symmetric] found_def[symmetric])
    with none found known assms(1) show ?thesis by simp
  next
    case (err e)
    with assms show ?thesis by (auto simp: describe_with_cache_def missed_def[symmetric])
  next
    case (ok response)
    from answers[OF ok(2)] have resp: "set response = item ` set missed" .
    then obtain c where c: "remember key_field response cached = (Inr (), c)" "knows item c"
      "\<forall>i. c (VStr i) = (if item i \<in> set response then Some (item i) else cached (VStr i))"
      using remembered[OF _ assms(1), of response] by auto
    have "(r, cached') = (Inr (found @ response), c)"
      using assms(2) ok c(1)
      by (simp add: describe_with_cache_def missed_def[symmetric] found_def[symmetric] handle_client_exception_def)
    moreover have "item ` set ids = set (found @ response)" using found resp sub by auto
    moreover have "c (VStr i) = Some (item i)" if "i \<in> set ids" for i
      using c(3) resp known[of i] that by auto
    ultimately show ?thesis using c(2) by auto
  qed
  then show "knows item cached'"
    and "r = Inr rs \<Longrightarrow> set rs = item ` set ids \<and> (\<forall>i \<in> set ids. cached' (VStr i) = Some (item i))"
    and "r = Inl e \<Longrightarrow> \<exists>missed. set missed \<subseteq> set ids \<and> handle_client_exception (request missed) = Inl e"
    using sub by blast+
qed

text \<open>What has been described once is not requested again.\<close>

lemma described_once:
  assumes "\<forall>i \<in> set ids. cached (VStr i) = Some (item i)"
  shows "describe_with_cache request key_field usable ids cached = (Inr (map item ids), cached)"
proof -
  have "filter (\<lambda>i. kept usable cached i = None) ids = []"
    "List.map_filter (kept usable cached) ids = map item ids"
    using assms by (auto simp: kept_def item_usable map_filter_def filter_empty_conv)
  then show ?thesis by (simp add: describe_with_cache_def)
qed

end

text \<open>An account held in memory: the fields of each thing it has.\<close>

definition account_item :: "(string \<Rightarrow> (string \<times> pyval) list option) \<Rightarrow> string \<Rightarrow> string \<Rightarrow> pyval" where
  "account_item account key_field i = VDict ((key_field, VStr i) # (case account i of None \<Rightarrow> [] | Some fs \<Rightarrow> fs))"

definition account_request :: "(string \<Rightarrow> (string \<times> pyval) list option) \<Rightarrow> string \<Rightarrow> string list \<Rightarrow> pyval list boto" where
  "account_request account key_field ids =
     (if list_all (\<lambda>i. account i \<noteq> None) ids then Inr (map (account_item account key_field) (remdups ids))
      else Inl (ClientErr ''NotFound'' ''The identifier does not exist''))"

interpretation account: describing "account_request account key_field" key_field truthy "account_item account key_field"
  for account key_field
  by unfold_locales (auto simp: account_request_def account_item_def split: if_splits)

text \<open>The calls of a client in turn.\<close>

fun answers_in_turn :: "('q \<Rightarrow> ('c, 'a) act) \<Rightarrow> 'q list \<Rightarrow> 'c \<Rightarrow> 'a result list" where
  "answers_in_turn call [] c = []"
| "answers_in_turn call (q # qs) c = fst (call q c) # answers_in_turn call qs (snd (call q c))"

definition answers_question ::
    "(string list \<Rightarrow> pyval list boto) \<Rightarrow> (string \<Rightarrow> pyval) \<Rightarrow> string list \<Rightarrow> pyval list result \<Rightarrow> bool" where
  "answers_question request item ids r = (case r of
      Inr rs \<Rightarrow> set rs = item ` set ids
    | Inl e \<Rightarrow> (\<exists>missed. set missed \<subseteq> set ids \<and> handle_client_exception (request missed) = Inl e))"

text \<open>
  C28: whatever was asked before, each call of \<open>describe_subnets\<close> gives just the subnets asked for, or raises
  the error that EC2 gives to a request for some of them.
\<close>

theorem subnets_are_those_asked:
  assumes "\<And>i. get_key (item i) ''SubnetId'' = Inr (VStr i)" and "\<And>i. truthy (item i)"
    and "\<And>ids rs. call_subnets A ids = Inr rs \<Longrightarrow> set rs = item ` set ids"
    and "subnets_cache c = (\<lambda>_. None)"
  shows "list_all2 (answers_question (call_subnets A) item) requests (answers_in_turn (describe_subnets A) requests c)"
proof -
  have D: "describing (call_subnets A) ''SubnetId'' truthy item" by unfold_locales (use assms in auto)
  have "list_all2 (answers_question (call_subnets A) item) requests (answers_in_turn (describe_subnets A) requests c)"
    if "knows item (subnets_cache c)" for c
    using that
  proof (induction requests arbitrary: c)
    case (Cons ids requests)
    obtain r cached where r: "describe_with_cache (call_subnets A) ''SubnetId'' truthy ids (subnets_cache c) = (r, cached)"
      by (cases "describe_with_cache (call_subnets A) ''SubnetId'' truthy ids (subnets_cache c)")
    have call: "describe_subnets A ids c = (r, c\<lparr>subnets_cache := cached\<rparr>)"
      by (simp add: describe_subnets_def on_field_def r)
    note gives = describing.describe_gives[OF D Cons.prems r]
    have "answers_question (call_subnets A) item ids r"
      using gives(2,3) by (auto simp: answers_question_def split: sum.split)
    with Cons.IH[of "c\<lparr>subnets_cache := cached\<rparr>"] gives(1) show ?case by (simp add: call)
  qed simp
  then show ?thesis using assms(4) by (simp add: knows_def)
qed

section \<open>EC2\<close>

abbreviation asked :: "'a boto \<Rightarrow> 'a result" where
  "asked r \<equiv> handle_client_exception r"

definition text_filter :: "string \<Rightarrow> string list \<Rightarrow> pyval" where
  "text_filter name values = VDict [(''Name'', VStr name), (''Values'', VList (map VStr values))]"

definition describe_instance_type_offerings :: "ec2_calls \<Rightarrow> pyval list \<Rightarrow> string option \<Rightarrow> pyval list result" where
  "describe_instance_type_offerings A filters location_type =
     asked (call_offerings A (VDict ((if filters \<noteq> [] then [(''Filters'', VList filters)] else [])
       @ (case location_type of None \<Rightarrow> [] | Some l \<Rightarrow> if l = [] then [] else [(''LocationType'', VStr l)]))))"

definition list_instance_types :: "ec2_calls \<Rightarrow> ec2_client \<Rightarrow> pyval list result" where
  "list_instance_types A c =
     rbind (describe_instance_type_offerings A [] None) (\<lambda>offerings.
     rbind (rmap_list (\<lambda>offering. get_key offering ''InstanceType'') offerings) (\<lambda>types.
       Inr (types @ map (VStr \<circ> fst) (additional_instance_types_data c))))"

definition get_default_instance_type :: "ec2_calls \<Rightarrow> pyval result" where
  "get_default_instance_type A =
     rbind (asked (call_instance_types A (VDict [(''Filters'', VList
         [text_filter ''free-tier-eligible'' [''true''], text_filter ''current-generation'' [''true'']])]))) (\<lambda>types.
       case types of [] \<Rightarrow> Inr (VStr ''t3.micro'') | t # _ \<Rightarrow> py_index t ''InstanceType'')"

text \<open>An attribute of one subnet: \<open>get_subnet_avail_zone\<close>, \<open>get_subnet_vpc\<close>, \<open>get_subnet_cidr\<close>.\<close>

definition subnet_attribute :: "string \<Rightarrow> ec2_calls \<Rightarrow> string \<Rightarrow> (ec2_client, pyval) act" where
  "subnet_attribute attribute A subnet_id =
     bind_act (describe_subnets A [subnet_id]) (\<lambda>subnets. case subnets of
       [] \<Rightarrow> raise_act (AWSClientError (''Subnet '' @ subnet_id @ '' not found''))
     | subnet # _ \<Rightarrow> reading (\<lambda>_. get_key subnet attribute))"

definition get_subnet_avail_zone :: "ec2_calls \<Rightarrow> string \<Rightarrow> (ec2_client, pyval) act" where
  "get_subnet_avail_zone = subnet_attribute ''AvailabilityZone''"

definition get_subnet_vpc :: "ec2_calls \<Rightarrow> string \<Rightarrow> (ec2_client, pyval) act" where
  "get_subnet_vpc = subnet_attribute ''VpcId''"

definition get_subnet_cidr :: "ec2_calls \<Rightarrow> string \<Rightarrow> (ec2_client, pyval) act" where
  "get_subnet_cidr = subnet_attribute ''CidrBlock''"

fun get_subnets_az_mapping :: "ec2_calls \<Rightarrow> string list \<Rightarrow> (ec2_client, (string \<times> pyval) list) act" where
  "get_subnets_az_mapping A [] = unit_act []"
| "get_subnets_az_mapping A (subnet_id # subnet_ids) =
     bind_act (get_subnet_avail_zone A subnet_id) (\<lambda>az.
     bind_act (get_subnets_az_mapping A subnet_ids) (\<lambda>rest. unit_act ((subnet_id, az) # rest)))"

definition describe_image :: "ec2_calls \<Rightarrow> string \<Rightarrow> pyval result" where
  "describe_image A ami_id =
     rbind (asked (call_images A (VDict [(''ImageIds'', VList [VStr ami_id])]))) (\<lambda>images. case images of
       [] \<Rightarrow> Inl (AWSClientError (''Image '' @ ami_id @ '' not found'')) | i # _ \<Rightarrow> Inr i)"

definition image_not_found :: py_exn where
  "image_not_found = Exc ''ImageNotFoundError'' ''No image matching the search criteria found''"

definition describe_images :: "ec2_calls \<Rightarrow> string list \<Rightarrow> pyval list \<Rightarrow> string list \<Rightarrow> pyval list result" where
  "describe_images A ami_ids filters owners =
     rbind (asked (call_images A (VDict [(''ImageIds'', VList (map VStr ami_ids)), (''Filters'', VList filters),
       (''Owners'', VList (map VStr owners))]))) (\<lambda>images. if images = [] then Inl image_not_found else Inr images)"

definition PCLUSTER_IMAGE_ID_TAG :: string where "PCLUSTER_IMAGE_ID_TAG = ''parallelcluster:image_id''"
definition PCLUSTER_IMAGE_BUILD_STATUS_TAG :: string where
  "PCLUSTER_IMAGE_BUILD_STATUS_TAG = ''parallelcluster:build_status''"

definition describe_image_by_id_tag :: "ec2_calls \<Rightarrow> string \<Rightarrow> pyval result" where
  "describe_image_by_id_tag A image_id = rmap hd (describe_images A []
     [text_filter (''tag:'' @ PCLUSTER_IMAGE_ID_TAG) [image_id],
      text_filter (''tag:'' @ PCLUSTER_IMAGE_BUILD_STATUS_TAG) [''available'']] [''self''])"

definition describe_image_by_imagebuilder_arn_tag :: "string \<Rightarrow> string \<Rightarrow> ec2_calls \<Rightarrow> string \<Rightarrow> pyval result" where
  "describe_image_by_imagebuilder_arn_tag aws_partition region A image_id =
     (let name = map to_lower (take 1024 (''ParallelClusterImage-'' @ image_id)) in
      rmap hd (describe_images A []
        [text_filter ''tag:Ec2ImageBuilderArn''
          [''arn:'' @ aws_partition @ '':imagebuilder:'' @ region @ '':*:image/'' @ name @ ''*'']] [''self'']))"

definition found_image :: "pyval result \<Rightarrow> bool result" where \<comment> \<open>\<open>except ImageNotFoundError\<close>\<close>
  "found_image r = (case r of Inr _ \<Rightarrow> Inr True
     | Inl e \<Rightarrow> if is_instance e ''ImageNotFoundError'' then Inr False else Inl e)"

definition image_exists :: "ec2_calls \<Rightarrow> string \<Rightarrow> bool result" where
  "image_exists A image_id = found_image (describe_image_by_id_tag A image_id)"

definition failed_image_exists :: "string \<Rightarrow> string \<Rightarrow> ec2_calls \<Rightarrow> string \<Rightarrow> bool result" where
  "failed_image_exists aws_partition region A image_id =
     found_image (describe_image_by_imagebuilder_arn_tag aws_partition region A image_id)"

definition get_images :: "ec2_calls \<Rightarrow> pyval list result" where
  "get_images A = (case describe_images A []
       [text_filter ''tag-key'' [PCLUSTER_IMAGE_ID_TAG], text_filter (''tag:'' @ PCLUSTER_IMAGE_BUILD_STATUS_TAG) [''available'']]
       [''self''] of
     Inr images \<Rightarrow> Inr images
   | Inl e \<Rightarrow> if is_instance e ''ImageNotFoundError'' then Inr [] else Inl e)"

text \<open>The identifiers of the instances of all reservations.\<close>

fun instance_ids_of :: "pyval list \<Rightarrow> pyval list result" where
  "instance_ids_of [] = Inr []"
| "instance_ids_of (result # results) =
     rbind (get_key result ''Instances'') (\<lambda>instances.
     rbind (py_iter instances) (\<lambda>l.
     rbind (rmap_list (\<lambda>i. get_key i ''InstanceId'') l) (\<lambda>ids. rmap (\<lambda>rest. ids @ rest) (instance_ids_of results))))"

definition list_instance_ids :: "ec2_calls \<Rightarrow> pyval list \<Rightarrow> pyval list result" where
  "list_instance_ids A filters =
     rbind (asked (call_instances A (VDict [(''Filters'', VList filters)]))) instance_ids_of"

definition get_instance_ids_by_ami_id :: "ec2_calls \<Rightarrow> string \<Rightarrow> pyval list result" where
  "get_instance_ids_by_ami_id A image_id = list_instance_ids A
     [text_filter ''image-id'' [image_id],
      text_filter ''instance-state-name'' [''pending'', ''running'', ''stopping'', ''stopped'']]"

text \<open>\<open>permission.get("UserId") or permission.get("Group")\<close> of each launch permission.\<close>

definition get_image_shared_account_ids :: "pyval boto \<Rightarrow> pyval list result" where
  "get_image_shared_account_ids response =
     rbind (asked response) (\<lambda>attribute.
     rbind (get_key attribute ''LaunchPermissions'') (\<lambda>permissions.
     rbind (py_iter permissions) (rmap_list (\<lambda>permission.
       rbind (get_key permission ''UserId'') (\<lambda>user.
         if truthy user then Inr user else get_key permission ''Group'')))))"

definition get_instance_type_info :: "ec2_calls \<Rightarrow> string \<Rightarrow> ec2_client \<Rightarrow> pyval result" where
  "get_instance_type_info A instance_type c =
     (let additional = (case map_of (additional_instance_types_data c) instance_type of None \<Rightarrow> VNone | Some d \<Rightarrow> d) in
      if truthy additional then Inr additional
      else rbind (asked (call_instance_types A (VDict [(''InstanceTypes'', VList [VStr instance_type])]))) (\<lambda>types.
        case types of [] \<Rightarrow> Inl IndexError | t # _ \<Rightarrow> Inr t))"

definition get_supported_architectures :: "ec2_calls \<Rightarrow> string \<Rightarrow> ec2_client \<Rightarrow> string set result" where
  "get_supported_architectures A instance_type c = rbind (get_instance_type_info A instance_type c) supported_architecture"

fun locations_of :: "string \<Rightarrow> pyval list \<Rightarrow> pyval list result" where
  "locations_of instance_type [] = Inr []"
| "locations_of instance_type (offering # offerings) =
     rbind (py_index offering ''InstanceType'') (\<lambda>t.
       if t = VStr instance_type
       then rbind (py_index offering ''Location'') (\<lambda>l. rmap (Cons l) (locations_of instance_type offerings))
       else locations_of instance_type offerings)"

definition get_supported_az_for_instance_types :: "ec2_calls \<Rightarrow> string list \<Rightarrow> (string \<times> pyval list) list result" where
  "get_supported_az_for_instance_types A instance_types =
     rbind (describe_instance_type_offerings A [text_filter ''instance-type'' instance_types] (Some ''availability-zone'')) (\<lambda>offerings.
       rmap_list (\<lambda>t. rmap (Pair t) (locations_of t offerings)) instance_types)"

definition describe_security_group :: "ec2_calls \<Rightarrow> string \<Rightarrow> (ec2_client, pyval) act" where
  "describe_security_group A security_group_id =
     bind_act (describe_security_groups A [security_group_id]) (\<lambda>groups.
       case groups of [] \<Rightarrow> raise_act IndexError | g # _ \<Rightarrow> unit_act g)"

text \<open>A dry run ends with the error \<open>DryRunOperation\<close>, which is success.\<close>

definition run_instances :: "ec2_calls \<Rightarrow> pyval \<Rightarrow> unit result" where
  "run_instances A kwargs = asked (case call_run_instances A kwargs of
     Inl (ClientErr code m) \<Rightarrow> if code \<noteq> ''DryRunOperation'' then Inl (ClientErr code m) else Inr ()
   | r \<Rightarrow> r)"

fun has_internet_route :: "pyval list \<Rightarrow> bool result" where
  "has_internet_route [] = Inr False"
| "has_internet_route (route # routes) =
     rbind (py_contains route ''GatewayId'') (\<lambda>present.
       if \<not> present then has_internet_route routes
       else rbind (py_index route ''GatewayId'') (\<lambda>gateway. case gateway of
         VStr s \<Rightarrow> if startswith s ''igw-'' then Inr True else has_internet_route routes
       | _ \<Rightarrow> Inl AttributeError))"

definition describe_route_tables :: "ec2_calls \<Rightarrow> pyval list \<Rightarrow> pyval list result" where
  "describe_route_tables A filters =
     asked (call_route_tables A (VDict (if filters \<noteq> [] then [(''Filters'', VList filters)] else [])))"

definition is_subnet_public :: "ec2_calls \<Rightarrow> string \<Rightarrow> (ec2_client, bool) act" where
  "is_subnet_public A subnet_id =
     bind_act (reading (\<lambda>_. describe_route_tables A [text_filter ''association.subnet-id'' [subnet_id]])) (\<lambda>route_tables.
     bind_act (if route_tables \<noteq> [] then unit_act route_tables
               else bind_act (describe_subnets A [subnet_id]) (\<lambda>subnets. case subnets of
                      [] \<Rightarrow> raise_act (Exc ''Exception'' (''No subnet found with ID '' @ subnet_id))
                    | subnet # _ \<Rightarrow>
                        bind_act (reading (\<lambda>_. get_key subnet ''VpcId'')) (\<lambda>vpc_id.
                        bind_act (reading (\<lambda>_. describe_route_tables A
                            [VDict [(''Name'', VStr ''vpc-id''), (''Values'', VList [vpc_id])],
                             text_filter ''association.main'' [''true'']])) (\<lambda>tables.
                          if tables = [] then raise_act (Exc ''Exception''
                            ''No route tables found. The subnet or VPC configuration may be incorrect.'')
                          else unit_act tables)))) (\<lambda>tables.
     reading (\<lambda>_. rbind (py_get (hd tables) ''Routes'' (VList [])) (\<lambda>routes. rbind (py_iter routes) has_internet_route))))"

text \<open>
  With identifiers the kept statuses come first and the others are requested and kept; without, nothing is
  kept.  A status without an identifier is returned and not kept.
\<close>

fun remember_statuses :: "pyval list \<Rightarrow> (descriptions, unit) act" where
  "remember_statuses [] cached = (Inr (), cached)"
| "remember_statuses (status # statuses) cached =
     (case get_key status ''CapacityBlockId'' of
        Inl e \<Rightarrow> (Inl e, cached)
      | Inr k \<Rightarrow> remember_statuses statuses (if truthy k then cached(k := Some status) else cached))"

definition status_request :: "string list \<Rightarrow> pyval list \<Rightarrow> int \<Rightarrow> pyval" where
  "status_request ids filters max_results = VDict
     ((if ids \<noteq> [] then [(''CapacityBlockIds'', VList (map VStr ids))] else [])
      @ (if filters \<noteq> [] then [(''Filters'', VList filters)] else [])
      @ (if max_results \<noteq> 0 then [(''MaxResults'', VInt max_results)] else []))"

definition describe_capacity_block_status :: "ec2_calls \<Rightarrow> string list \<Rightarrow> pyval list \<Rightarrow> int \<Rightarrow> (ec2_client, pyval list) act" where
  "describe_capacity_block_status A capacity_block_ids filters max_results =
     on_field capacity_block_status_cache (\<lambda>d. capacity_block_status_cache_update (\<lambda>_. d)) (\<lambda>cached.
       if capacity_block_ids = [] then (asked (call_block_status A (status_request [] filters max_results)), cached)
       else let found = List.map_filter (kept truthy cached) capacity_block_ids;
                missed = filter (\<lambda>i. kept truthy cached i = None) capacity_block_ids in
         if missed = [] then (Inr found, cached)
         else case asked (call_block_status A (status_request missed filters max_results)) of
           Inl e \<Rightarrow> (Inl e, cached)
         | Inr response \<Rightarrow> (case remember_statuses response cached of
             (Inl e, cached') \<Rightarrow> (Inl e, cached') | (Inr u, cached') \<Rightarrow> (Inr (found @ response), cached')))"

definition get_instance_type_and_reservation_type :: "ec2_calls \<Rightarrow> string option \<Rightarrow> (ec2_client, pyval \<times> pyval) act" where
  "get_instance_type_and_reservation_type A capacity_reservation_id =
     (case capacity_reservation_id of
        Some (ch # rest) \<Rightarrow> bind_act (describe_capacity_reservations A [ch # rest]) (\<lambda>reservations.
          case reservations of [] \<Rightarrow> unit_act (VNone, VNone)
          | r # _ \<Rightarrow> reading (\<lambda>_. rbind (get_key r ''InstanceType'') (\<lambda>t. rmap (Pair t) (reservation_type r))))
      | _ \<Rightarrow> unit_act (VNone, VNone))"

definition describe_launch_template_version :: "ec2_calls \<Rightarrow> string \<Rightarrow> string \<Rightarrow> pyval result" where
  "describe_launch_template_version A launch_template_id version =
     rbind (asked (call_launch_template_versions A launch_template_id version)) (\<lambda>response.
     rbind (py_get response ''LaunchTemplateVersions'' (VList [])) (\<lambda>versions.
       if truthy versions then rbind (first_of versions) (\<lambda>v. py_get v ''LaunchTemplateData'' emptydict)
       else Inl (AWSClientError (''Launch template '' @ launch_template_id @ '' version '' @ version @ '' not found''))))"

section \<open>Official images\<close>

definition OS_TO_IMAGE_NAME_PART_MAP :: "(string \<times> string) list" where
  "OS_TO_IMAGE_NAME_PART_MAP =
     [(''alinux2023'', ''amzn2023-hvm''), (''ubuntu2204'', ''ubuntu-2204-lts-hvm''), (''ubuntu2404'', ''ubuntu-2404-lts-hvm''),
      (''rhel8'', ''rhel8-hvm''), (''rocky8'', ''rocky8-hvm''), (''rhel9'', ''rhel9-hvm''), (''rocky9'', ''rocky9-hvm'')]"

definition IMAGE_NAME_PART_TO_OS_MAP :: "(string \<times> string) list" where
  "IMAGE_NAME_PART_TO_OS_MAP = map (\<lambda>(key, part). (part, key)) OS_TO_IMAGE_NAME_PART_MAP"

definition get_official_image_name_prefix :: "string \<Rightarrow> string option \<Rightarrow> string option \<Rightarrow> string" where
  "get_official_image_name_prefix version os architecture =
     (let os_part = (case os of None \<Rightarrow> ''*'' | Some o' \<Rightarrow> dict_get OS_TO_IMAGE_NAME_PART_MAP o' []);
          arch = (case architecture of None \<Rightarrow> ''*'' | Some a \<Rightarrow> if a = [] then ''*'' else a) in
      ''aws-parallelcluster-'' @ version @ ''-'' @ os_part @ ''-'' @ arch)"

text \<open>
  The match of \<open>aws-parallelcluster-[^-]+-(.+-hvm)-.*\<close>: the first part ends at its first dash, the
  second is as long as possible.
\<close>

fun longest_os_part :: "nat \<Rightarrow> string \<Rightarrow> string option" where \<comment> \<open>the last \<open>-hvm-\<close> at \<open>n\<close> or before, not at the start\<close>
  "longest_os_part 0 s = None"
| "longest_os_part (Suc n) s =
     (if startswith (drop (Suc n) s) ''-hvm-'' then Some (take (Suc n) s @ ''-hvm'') else longest_os_part n s)"

definition os_part_of_name :: "string \<Rightarrow> string option" where
  "os_part_of_name name =
     (if \<not> startswith name ''aws-parallelcluster-'' then None
      else let rest = drop 20 name; version = takeWhile (\<lambda>ch. ch \<noteq> CHR ''-'') rest in
        if version = [] \<or> version = rest then None
        else let os_and_more = drop (Suc (length version)) rest in longest_os_part (length os_and_more) os_and_more)"

definition extract_os_from_official_image_name :: "string \<Rightarrow> string" where
  "extract_os_from_official_image_name name =
     (case os_part_of_name name of None \<Rightarrow> ''linux'' | Some part \<Rightarrow> dict_get IMAGE_NAME_PART_TO_OS_MAP part ''linux'')"

text \<open>An image with the texts that are compared; the deprecation time may be missing.\<close>

record official_image =
  Name :: string
  Architecture :: string
  CreationDate :: string
  DeprecationTime :: "string option"
  ImageId :: string

definition is_image_deprecated :: "string \<Rightarrow> official_image \<Rightarrow> bool" where
  "is_image_deprecated now i \<longleftrightarrow> (case DeprecationTime i of None \<Rightarrow> False | Some t \<Rightarrow> t \<le> now)"

definition image_rank :: "string \<Rightarrow> official_image \<Rightarrow> string" where
  "image_rank now i = (if is_image_deprecated now i then ''0'' else ''1'') @ CreationDate i"

text \<open>\<open>max(images, key=\<dots>)\<close>: the first of the greatest.\<close>

fun max_by :: "('a \<Rightarrow> string) \<Rightarrow> 'a \<Rightarrow> 'a list \<Rightarrow> 'a" where
  "max_by key best [] = best"
| "max_by key best (x # xs) = max_by key (if key best < key x then x else best) xs"

definition find_valid_official_image :: "string \<Rightarrow> official_image list \<Rightarrow> official_image result" where
  "find_valid_official_image now images = (case images of
     [] \<Rightarrow> Inl ValueError | i # rest \<Rightarrow> Inr (max_by (image_rank now) i rest))"

text \<open>\<open>itertools.groupby\<close> puts together neighbours with the same key.\<close>

fun group_neighbours :: "('a \<Rightarrow> 'k) \<Rightarrow> 'a list \<Rightarrow> 'a list list" where
  "group_neighbours key [] = []"
| "group_neighbours key (x # xs) = (case group_neighbours key xs of
     [] \<Rightarrow> [[x]]
   | g # gs \<Rightarrow> if key (hd g) = key x then (x # g) # gs else [x] # g # gs)"

definition os_architecture :: "official_image \<Rightarrow> string" where
  "os_architecture i = extract_os_from_official_image_name (Name i) @ ''-'' @ Architecture i"

definition get_official_images ::
    "(string \<Rightarrow> official_image list boto) \<Rightarrow> string \<Rightarrow> string \<Rightarrow> string option \<Rightarrow> string option \<Rightarrow> official_image list result" where
  "get_official_images images_named now version os architecture =
     rbind (asked (images_named (get_official_image_name_prefix version os architecture @ ''*''))) (\<lambda>images.
       rmap_list (find_valid_official_image now) (group_neighbours os_architecture images))"

record ami_filters =
  ami_owner :: "string option"
  ami_tags :: "(string \<times> string) list"
  ami_name_prefix :: string

definition get_official_image_id ::
    "(string \<Rightarrow> (string \<times> string list) list \<Rightarrow> official_image list boto) \<Rightarrow> string \<Rightarrow> string \<Rightarrow> string option \<Rightarrow> string option
      \<Rightarrow> ami_filters option \<Rightarrow> string result" where
  "get_official_image_id images_of now version os architecture filters =
     (let owner = (case filters of Some f \<Rightarrow> (case ami_owner f of Some (ch # r) \<Rightarrow> ch # r | _ \<Rightarrow> ''amazon'') | None \<Rightarrow> ''amazon'');
          tags = (case filters of Some f \<Rightarrow> ami_tags f | None \<Rightarrow> []);
          name_prefix = (case filters of Some f \<Rightarrow> ami_name_prefix f | None \<Rightarrow> []);
          name = name_prefix @ get_official_image_name_prefix version os architecture @ ''*'' in
      rbind (asked (images_of owner ((''name'', [name]) # map (\<lambda>(k, v). (''tag:'' @ k, [v])) tags @ [(''state'', [''available''])]))) (\<lambda>images.
        if images = [] then Inl (AWSClientError ''Cannot find official ParallelCluster AMI'')
        else rmap ImageId (find_valid_official_image now images)))"

section \<open>Official images: what is listed\<close>

lemma max_by_greatest:
  "max_by key best xs \<in> set (best # xs) \<and> (\<forall>x \<in> set (best # xs). key x \<le> key (max_by key best xs))"
proof (induction xs arbitrary: best)
  case (Cons x xs)
  define b where "b = (if key best < key x then x else best)"
  have b: "key best \<le> key b" "key x \<le> key b" "b \<in> {best, x}" by (auto simp: b_def)
  have m: "max_by key best (x # xs) = max_by key b xs" by (simp add: b_def)
  note IH = conjunct1[OF Cons.IH[of b]] conjunct2[OF Cons.IH[of b]]
  then have top: "key b \<le> key (max_by key b xs)" by simp
  show ?case unfolding m using IH b(3) order_trans[OF b(1) top] order_trans[OF b(2) top] by auto
qed simp

lemma concat_group_neighbours: "concat (group_neighbours key xs) = xs"
  by (induction xs) (auto split: list.splits)

lemma neighbours_agree: "\<forall>g \<in> set (group_neighbours key xs). key ` set g = {key (hd g)}"
proof (induction xs)
  case (Cons x xs)
  show ?case
  proof (cases "group_neighbours key xs")
    case g: (Cons g gs)
    with Cons.IH have "key ` set g = {key (hd g)}" "\<forall>h \<in> set gs. key ` set h = {key (hd h)}" by simp_all
    with g show ?thesis by simp
  qed simp
qed simp

lemma keys_of_groups: "map (\<lambda>g. key (hd g)) (group_neighbours key xs) = remdups_adj (map key xs)"
proof (induction xs)
  case (Cons x xs)
  have "remdups_adj (map key (x # xs)) = (case remdups_adj (map key xs) of [] \<Rightarrow> [key x]
      | k # ks \<Rightarrow> if key x = k then k # ks else key x # k # ks)"
    by (simp add: remdups_adj_Cons)
  then show ?case unfolding Cons.IH[symmetric] by (auto split: list.split)
qed simp

text \<open>
  The listing of official images has one image for each run of neighbours of the same system and
  architecture in the answer of EC2, and it is one of the greatest rank of its run: not deprecated before
  deprecated, then the newest.
\<close>

lemma official_images_one_per_run:
  assumes "images_named (get_official_image_name_prefix version os architecture @ ''*'') = Inr images"
  shows "\<exists>result. get_official_images images_named now version os architecture = Inr result
    \<and> map os_architecture result = remdups_adj (map os_architecture images)
    \<and> list_all2 (\<lambda>g i. i \<in> set g \<and> (\<forall>j \<in> set g. image_rank now j \<le> image_rank now i))
        (group_neighbours os_architecture images) result"
proof -
  let ?groups = "group_neighbours os_architecture images"
  define best where "best g = max_by (image_rank now) (hd g) (tl g)" for g
  have runs: "os_architecture ` set g = {os_architecture (hd g)}" if "g \<in> set ?groups" for g
    by (rule bspec[OF neighbours_agree that])
  have best: "best g \<in> set g" "\<forall>j \<in> set g. image_rank now j \<le> image_rank now (best g)" "g \<noteq> []"
    if "g \<in> set ?groups" for g
  proof -
    show "g \<noteq> []" using runs[OF that] by auto
    then obtain x xs where g: "g = x # xs" by (cases g) auto
    have b: "best (x # xs) = max_by (image_rank now) x xs" by (simp add: best_def)
    show "best g \<in> set g" unfolding g b by (rule conjunct1[OF max_by_greatest])
    show "\<forall>j \<in> set g. image_rank now j \<le> image_rank now (best g)" unfolding g b by (rule conjunct2[OF max_by_greatest])
  qed
  have "rmap_list (find_valid_official_image now) ?groups = Inr (map best ?groups)"
    by (rule rmap_list_all) (auto simp: find_valid_official_image_def best_def dest: best(3) split: list.splits)
  then have "get_official_images images_named now version os architecture = Inr (map best ?groups)"
    by (simp add: get_official_images_def assms handle_client_exception_def)
  moreover have "os_architecture (best g) = os_architecture (hd g)" if "g \<in> set ?groups" for g
    using runs[OF that] best(1)[OF that] by blast
  then have "map os_architecture (map best ?groups) = map (\<lambda>g. os_architecture (hd g)) ?groups" by simp
  then have "map os_architecture (map best ?groups) = remdups_adj (map os_architecture images)"
    by (simp only: keys_of_groups)
  moreover have "list_all2 (\<lambda>g i. i \<in> set g \<and> (\<forall>j \<in> set g. image_rank now j \<le> image_rank now i)) ?groups (map best ?groups)"
    unfolding list_all2_conv_all_nth using best(1,2) by simp
  ultimately show ?thesis by blast
qed

text \<open>The name of a system that is published is read back from the name of its images.\<close>

lemma longest_os_part_at:
  assumes "startswith (drop (Suc i) s) ''-hvm-''" and "\<And>j. Suc i < j \<Longrightarrow> j \<le> n \<Longrightarrow> \<not> startswith (drop j s) ''-hvm-''"
    and "Suc i \<le> n"
  shows "longest_os_part n s = Some (take (Suc i) s @ ''-hvm'')"
  using assms(2,3)
proof (induction n)
  case (Suc n)
  show ?case
  proof (cases "n = i")
    case True
    with assms(1) show ?thesis by simp
  next
    case False
    with Suc.prems(2) have "Suc i \<le> n" by simp
    with Suc.IH Suc.prems(1)[of "Suc n"] Suc.prems(1) show ?thesis by simp
  qed
qed simp

lemma drop_contains: "str_contains p (drop k s) \<Longrightarrow> str_contains p s"
proof (induction s arbitrary: k)
  case (Cons ch s)
  then show ?case by (cases k) auto
qed simp

lemma startswith_contains: "startswith s p \<Longrightarrow> str_contains p s"
  by (cases s) (auto simp: startswith_def)

lemma os_part_found:
  assumes "part \<noteq> []" and "\<not> str_contains ''-hvm-'' (CHR ''-'' # tail)"
  shows "longest_os_part (length (part @ ''-hvm-'' @ tail)) (part @ ''-hvm-'' @ tail) = Some (part @ ''-hvm'')"
proof -
  obtain i where i: "length part = Suc i" using assms(1) by (cases part) auto
  have none: "\<not> startswith (drop j (part @ ''-hvm-'' @ tail)) ''-hvm-''" if "Suc i < j" for j
  proof -
    from that i obtain d where j: "j = length part + Suc d" by (metis add.commute less_natE plus_nat.simps(2))
    have "drop j (part @ ''-hvm-'' @ tail) = drop d (''hvm-'' @ tail)" by (simp add: j)
    moreover have "\<not> startswith (drop d (''hvm-'' @ tail)) ''-hvm-''"
    proof (cases "d < 3")
      case True
      then consider "d = 0" | "d = 1" | "d = 2" by linarith
      then show ?thesis by cases (auto simp: startswith_def numeral_2_eq_2)
    next
      case False
      then obtain k where "d = Suc (Suc (Suc k))" by (metis add_2_eq_Suc' less_natE not_less_eq numeral_3_eq_3 not_less)
      then have "drop d (''hvm-'' @ tail) = drop k (CHR ''-'' # tail)" by simp
      with assms(2) show ?thesis using startswith_contains drop_contains by metis
    qed
    ultimately show ?thesis by simp
  qed
  have "longest_os_part (length (part @ ''-hvm-'' @ tail)) (part @ ''-hvm-'' @ tail)
      = Some (take (Suc i) (part @ ''-hvm-'' @ tail) @ ''-hvm'')"
    by (rule longest_os_part_at) (use i none in \<open>auto simp: startswith_def\<close>)
  then show ?thesis by (simp add: i[symmetric])
qed

text \<open>
  The system in the name of an official image is read back from it, for every published system, any
  version without a dash and any tail without another \<open>-hvm-\<close>.
\<close>

lemma image_name_round_trip:
  assumes "os \<in> fst ` set OS_TO_IMAGE_NAME_PART_MAP" and "version \<noteq> []" and "CHR ''-'' \<notin> set version"
    and "\<not> str_contains ''-hvm-'' (CHR ''-'' # architecture @ tail)" and "architecture \<noteq> []"
  shows "extract_os_from_official_image_name
    (get_official_image_name_prefix version (Some os) (Some architecture) @ tail) = os"
proof -
  have map_ok: "\<forall>(k, p) \<in> set OS_TO_IMAGE_NAME_PART_MAP. map_of OS_TO_IMAGE_NAME_PART_MAP k = Some p
      \<and> map_of IMAGE_NAME_PART_TO_OS_MAP p = Some k \<and> take (length p - 4) p \<noteq> [] \<and> p = take (length p - 4) p @ ''-hvm''"
    by code_simp
  from assms(1) obtain part where "(os, part) \<in> set OS_TO_IMAGE_NAME_PART_MAP" by auto
  with map_ok obtain q where part: "map_of OS_TO_IMAGE_NAME_PART_MAP os = Some part"
    "map_of IMAGE_NAME_PART_TO_OS_MAP part = Some os" "q \<noteq> []" "part = q @ ''-hvm''" by blast
  have name: "get_official_image_name_prefix version (Some os) (Some architecture) @ tail
      = ''aws-parallelcluster-'' @ version @ CHR ''-'' # q @ ''-hvm-'' @ architecture @ tail"
    using part(1,4) assms(5) by (simp add: get_official_image_name_prefix_def dict_get_def)
  have version: "takeWhile (\<lambda>ch. ch \<noteq> CHR ''-'') (version @ CHR ''-'' # r) = version" for r
    using assms(3) by (subst takeWhile_append2) auto
  have "os_part_of_name (get_official_image_name_prefix version (Some os) (Some architecture) @ tail) = Some part"
    unfolding name os_part_of_name_def Let_def
    using os_part_found[OF part(3) assms(4)] assms(2) version
    by (simp add: part(4) startswith_def)
  then show ?thesis by (simp add: extract_os_from_official_image_name_def dict_get_def part(2))
qed

section \<open>Examples\<close>

definition example_account :: "string \<Rightarrow> (string \<times> pyval) list option" where
  "example_account i = (if i \<in> {''subnet-1'', ''subnet-2''} then Some [(''AvailabilityZone'', VStr ''az1'')] else None)"

definition example_calls :: ec2_calls where
  "example_calls = \<lparr>call_subnets = account_request example_account ''SubnetId'',
     call_capacity_reservations = (\<lambda>_. Inr []), call_security_groups = (\<lambda>_. Inr []), call_block_status = (\<lambda>_. Inr []),
     call_offerings = (\<lambda>_. Inr []), call_instance_types = (\<lambda>_. Inr []), call_images = (\<lambda>_. Inr []),
     call_instances = (\<lambda>_. Inr []), call_route_tables = (\<lambda>_. Inr []), call_run_instances = (\<lambda>_. Inr ()),
     call_launch_template_versions = (\<lambda>_ _. Inr emptydict)\<rparr>"

definition new_client :: ec2_client where
  "new_client = \<lparr>additional_instance_types_data = [], security_groups_cache = (\<lambda>_. None), subnets_cache = (\<lambda>_. None),
     capacity_reservations_cache = (\<lambda>_. None), capacity_block_status_cache = (\<lambda>_. None)\<rparr>"

text \<open>After \<open>subnet-2\<close>, a call for both gives it first, from what is kept.\<close>

theorem subnets_are_those_asked_witness:
  "list_all2 (answers_question (call_subnets example_calls) (account_item example_account ''SubnetId''))
     [[''subnet-2''], [''subnet-1'', ''subnet-2''], [''subnet-3'']]
     (answers_in_turn (describe_subnets example_calls) [[''subnet-2''], [''subnet-1'', ''subnet-2''], [''subnet-3'']] new_client)"
proof -
  have request: "call_subnets example_calls = account_request example_account ''SubnetId''" by (simp add: example_calls_def)
  show ?thesis
    by (rule subnets_are_those_asked)
      (simp_all only: request account.item_key account.item_usable new_client_def ec2_client.simps account.answers)
qed

definition example_image :: "string \<Rightarrow> string \<Rightarrow> official_image" where
  "example_image os_part date = \<lparr>Name = ''aws-parallelcluster-3.0.0-'' @ os_part @ ''-x86_64-'' @ date,
     Architecture = ''x86_64'', CreationDate = date, DeprecationTime = None, ImageId = ''ami-'' @ date\<rparr>"

text \<open>Images of two systems that alternate: one system is listed twice.\<close>

definition alternating_images :: "official_image list" where
  "alternating_images = [example_image ''rhel8-hvm'' ''2024'', example_image ''rhel9-hvm'' ''2023'', example_image ''rhel8-hvm'' ''2022'']"

end
