(* ===== verification/AwsServices.thy ===== *)
theory AwsServices
  imports AwsClients "HOL-Library.AList"
begin

text \<open>
  The clients of the other services: the listings that follow page tokens (\<open>aws/elb.py\<close>,
  \<open>aws/resource_groups_tagging_api.py\<close>, \<open>aws/logs.py\<close>), the stacks of CloudFormation (\<open>aws/cfn.py\<close>), the
  errors of S3 (\<open>aws/s3.py\<close>), CloudWatch logs, EFS mount targets, hosted zones and resource groups.
\<close>

section \<open>Listings by page\<close>

text \<open>
  \<open>page t\<close> is what the service answers to the token \<open>t\<close> (\<open>None\<close>: no token): the entries of a page and the
  token of the next.  The listing is undefined when the tokens never end.
\<close>

partial_function (option) follow_pages ::
    "(string option \<Rightarrow> ('i list \<times> string option) boto) \<Rightarrow> string option \<Rightarrow> 'i list \<Rightarrow> 'i list boto option" where
  "follow_pages page token found =
     (case page token of
        Inl e \<Rightarrow> Some (Inl e)
      | Inr (items, None) \<Rightarrow> Some (Inr (found @ items))
      | Inr (items, Some t) \<Rightarrow> follow_pages page (Some t) (found @ items))"

text \<open>A token that is the empty text ends the listing of the logs and of the tagged resources.\<close>

definition no_empty_token :: "('i list \<times> string option) boto \<Rightarrow> ('i list \<times> string option) boto" where
  "no_empty_token r = (case r of Inr (items, Some []) \<Rightarrow> Inr (items, None) | _ \<Rightarrow> r)"

text \<open>The load balancers: an empty marker asks for the first page again.\<close>

definition list_load_balancers ::
    "(string option \<Rightarrow> (pyval list \<times> string option) boto) \<Rightarrow> pyval list result option" where
  "list_load_balancers describe_page =
     map_option handle_client_exception
       (follow_pages (\<lambda>marker. describe_page (if marker = Some [] then None else marker)) None [])"

definition get_resources ::
    "(string option \<Rightarrow> (pyval list \<times> string option) boto) \<Rightarrow> pyval list result option" where
  "get_resources resource_page =
     (case follow_pages (\<lambda>token. no_empty_token (resource_page token)) None [] of
        None \<Rightarrow> None
      | Some r \<Rightarrow> Some (rbind (handle_client_exception r) (rmap_list (\<lambda>resource. py_index resource ''ResourceARN''))))"

fun active_tasks_of ::
    "(string \<Rightarrow> string option \<Rightarrow> (pyval list \<times> string option) boto) \<Rightarrow> string list \<Rightarrow> pyval list boto option" where
  "active_tasks_of task_page [] = Some (Inr [])"
| "active_tasks_of task_page (status_code # status_codes) =
     (case follow_pages (\<lambda>token. no_empty_token (task_page status_code token)) None [] of
        None \<Rightarrow> None
      | Some (Inl e) \<Rightarrow> Some (Inl e)
      | Some (Inr tasks) \<Rightarrow> (case active_tasks_of task_page status_codes of
          None \<Rightarrow> None | Some (Inl e) \<Rightarrow> Some (Inl e) | Some (Inr rest) \<Rightarrow> Some (Inr (tasks @ rest))))"

definition get_active_export_tasks ::
    "(string \<Rightarrow> string option \<Rightarrow> (pyval list \<times> string option) boto) \<Rightarrow> pyval list result option" where
  "get_active_export_tasks task_page =
     map_option handle_client_exception (active_tasks_of task_page [''PENDING'', ''PENDING_CANCEL'', ''RUNNING''])"

text \<open>The pages from a token on, each leading to the next; the last has no token.\<close>

inductive pages_from ::
    "(string option \<Rightarrow> ('i list \<times> string option) boto) \<Rightarrow> string option \<Rightarrow> 'i list list \<Rightarrow> bool" for page where
  last_page: "page token = Inr (items, None) \<Longrightarrow> pages_from page token [items]"
| next_page: "page token = Inr (items, Some t) \<Longrightarrow> pages_from page (Some t) rest \<Longrightarrow> pages_from page token (items # rest)"

inductive_cases pages_fromE: "pages_from page token ps"

lemma follow_pages_complete:
  "pages_from page token ps \<Longrightarrow> follow_pages page token found = Some (Inr (found @ concat ps))"
  by (induction arbitrary: found rule: pages_from.induct) (simp_all add: follow_pages.simps)

lemma follow_pages_sound:
  assumes "follow_pages page token found = Some r"
  shows "r = Inr all \<Longrightarrow> \<exists>ps. pages_from page token ps \<and> all = found @ concat ps"
proof (rule follow_pages.raw_induct[where P = "\<lambda>page token found r. \<forall>all. r = Inr all \<longrightarrow>
    (\<exists>ps. pages_from page token ps \<and> all = found @ concat ps)", OF _ assms, THEN spec[of _ all], THEN mp])
  fix follow :: "(string option \<Rightarrow> ('a list \<times> string option) boto) \<Rightarrow> string option \<Rightarrow> 'a list \<Rightarrow> 'a list boto option"
    and page token found r
  assume IH: "\<And>page token found r. follow page token found = Some r \<Longrightarrow>
      \<forall>all. r = Inr all \<longrightarrow> (\<exists>ps. pages_from page token ps \<and> all = found @ concat ps)"
    and body: "(case page token of
        Inl e \<Rightarrow> Some (Inl e)
      | Inr (items, None) \<Rightarrow> Some (Inr (found @ items))
      | Inr (items, Some t) \<Rightarrow> follow page (Some t) (found @ items)) = Some r"
  show "\<forall>all. r = Inr all \<longrightarrow> (\<exists>ps. pages_from page token ps \<and> all = found @ concat ps)"
  proof (intro allI impI)
    fix all assume r: "r = Inr all"
    from body r consider (one) items where "page token = Inr (items, None)" "all = found @ items"
      | (more) items t where "page token = Inr (items, Some t)" "follow page (Some t) (found @ items) = Some (Inr all)"
      by (auto split: sum.splits prod.splits option.splits)
    then show "\<exists>ps. pages_from page token ps \<and> all = found @ concat ps"
    proof cases
      case one
      then show ?thesis using last_page[of page token items] by (intro exI[of _ "[items]"]) simp
    next
      case more
      from IH[OF more(2)] obtain ps where "pages_from page (Some t) ps" "all = (found @ items) @ concat ps" by blast
      then show ?thesis using next_page[of page token items t ps] more(1) by (intro exI[of _ "items # ps"]) simp
    qed
  qed
qed

text \<open>
  C29: the listing of the load balancers returns just when the markers lead from page to page to one that has
  none, and then it is the entries of all those pages in their order.
\<close>

theorem load_balancers_of_all_pages:
  "list_load_balancers describe_page = Some (Inr balancers) \<longleftrightarrow>
    (\<exists>ps. pages_from (\<lambda>marker. describe_page (if marker = Some [] then None else marker)) None ps \<and> balancers = concat ps)"
  (is "_ \<longleftrightarrow> (\<exists>ps. pages_from ?page None ps \<and> _)")
proof
  assume "list_load_balancers describe_page = Some (Inr balancers)"
  then obtain r where "follow_pages ?page None [] = Some r" "handle_client_exception r = Inr balancers"
    by (auto simp: list_load_balancers_def)
  then have "follow_pages ?page None [] = Some (Inr balancers)"
    by (cases r) (simp_all add: handle_client_exception_def)
  from follow_pages_sound[OF this, of balancers]
  show "\<exists>ps. pages_from ?page None ps \<and> balancers = concat ps" by auto
next
  assume "\<exists>ps. pages_from ?page None ps \<and> balancers = concat ps"
  then obtain ps where "pages_from ?page None ps" "balancers = concat ps" by blast
  with follow_pages_complete[of ?page None ps "[]"]
  show "list_load_balancers describe_page = Some (Inr balancers)"
    by (simp add: list_load_balancers_def handle_client_exception_def)
qed
definition describe_load_balancer :: "(string \<Rightarrow> pyval boto) \<Rightarrow> string \<Rightarrow> pyval result" where
  "describe_load_balancer describe load_balancer_arn =
     (if load_balancer_arn = [] then Inr VNone
      else rbind (asked (describe load_balancer_arn)) (\<lambda>response.
           rbind (py_get response ''LoadBalancers'' (VList [])) (\<lambda>load_balancers.
             if truthy load_balancers then first_of load_balancers else Inr VNone)))"

section \<open>CloudFormation\<close>

record cfn_calls =
  call_describe_stack :: "string \<Rightarrow> nat \<Rightarrow> pyval boto" \<comment> \<open>the answer to the \<open>n\<close>-th attempt\<close>
  call_describe_stacks :: "string option \<Rightarrow> pyval boto" \<comment> \<open>one page\<close>
  call_stack_resource :: "string \<Rightarrow> string \<Rightarrow> pyval boto"
  call_stack_resources :: "string \<Rightarrow> string option \<Rightarrow> pyval boto"

definition stack_not_found :: "string \<Rightarrow> boto_error" where
  "stack_not_found stack_name =
     OtherError (Exc ''StackNotFoundError'' (''Stack with id '' @ stack_name @ '' does not exist''))"

text \<open>The body of \<open>describe_stack\<close>: the answer, with a validation error taken for a missing stack.\<close>

definition stack_of_response :: "string \<Rightarrow> pyval boto \<Rightarrow> pyval boto" where
  "stack_of_response stack_name r = (case r of
     Inl (ClientErr code m) \<Rightarrow> if code = ''ValidationError'' then Inl (stack_not_found stack_name) else r
   | Inl e \<Rightarrow> Inl e
   | Inr response \<Rightarrow> (case rbind (get_key response ''Stacks'') first_of of
       Inl e \<Rightarrow> Inl (OtherError e) | Inr stack \<Rightarrow> Inr stack))"

definition describe_stack :: "cfn_calls \<Rightarrow> string \<Rightarrow> pyval result option" where
  "describe_stack C stack_name =
     map_option handle_client_exception
       (retry_on_boto3_throttling (\<lambda>n. stack_of_response stack_name (call_describe_stack C stack_name n)))"

definition stack_exists :: "cfn_calls \<Rightarrow> string \<Rightarrow> bool result option" where
  "stack_exists C stack_name = map_option (\<lambda>r. case r of
     Inr _ \<Rightarrow> Inr True
   | Inl e \<Rightarrow> if is_instance e ''StackNotFoundError'' then Inr False else Inl e) (describe_stack C stack_name)"

text \<open>The stacks of a page without a parent and with a tag, and the token of the next page.\<close>

fun parentless_with_tag :: "string \<Rightarrow> pyval list \<Rightarrow> pyval list result" where
  "parentless_with_tag tag [] = Inr []"
| "parentless_with_tag tag (stack # stacks) =
     rbind (get_key stack ''ParentId'') (\<lambda>parent.
     rbind (if parent = VNone then rmap truthy (stack_get_tag stack tag) else Inr False) (\<lambda>tagged.
     rmap (\<lambda>rest. if tagged then stack # rest else rest) (parentless_with_tag tag stacks)))"

definition list_parentless_stacks_with_tag ::
    "cfn_calls \<Rightarrow> string \<Rightarrow> string option \<Rightarrow> (pyval list \<times> pyval) result" where
  "list_parentless_stacks_with_tag C tag next_token =
     rbind (asked (call_describe_stacks C (if next_token = Some [] then None else next_token))) (\<lambda>result.
     rbind (py_get result ''Stacks'' (VList [])) (\<lambda>stacks.
     rbind (py_iter stacks) (\<lambda>l.
     rbind (parentless_with_tag tag l) (\<lambda>stack_list.
       rmap (Pair stack_list) (get_key result ''NextToken'')))))"

definition PCLUSTER_VERSION_TAG :: string where "PCLUSTER_VERSION_TAG = ''parallelcluster:version''"

fun without_tag :: "string \<Rightarrow> pyval list \<Rightarrow> pyval list result" where
  "without_tag tag [] = Inr []"
| "without_tag tag (stack # stacks) =
     rbind (stack_get_tag stack tag) (\<lambda>v.
     rmap (\<lambda>rest. if v = VNone then stack # rest else rest) (without_tag tag stacks))"

definition list_pcluster_stacks :: "cfn_calls \<Rightarrow> string option \<Rightarrow> (pyval list \<times> pyval) result" where
  "list_pcluster_stacks C next_token =
     rbind (list_parentless_stacks_with_tag C PCLUSTER_VERSION_TAG next_token) (\<lambda>(stacks, result_token).
       rmap (\<lambda>clusters. (clusters, result_token)) (without_tag PCLUSTER_IMAGE_ID_TAG stacks))"

definition get_imagebuilder_stacks :: "cfn_calls \<Rightarrow> string option \<Rightarrow> (pyval list \<times> pyval) result" where
  "get_imagebuilder_stacks C next_token = list_parentless_stacks_with_tag C PCLUSTER_IMAGE_ID_TAG next_token"

definition describe_stack_resource :: "cfn_calls \<Rightarrow> string \<Rightarrow> string \<Rightarrow> pyval result" where
  "describe_stack_resource C stack_name logic_resource_id =
     (case call_stack_resource C stack_name logic_resource_id of
        Inr r \<Rightarrow> Inr r
      | Inl _ \<Rightarrow> Inl (AWSClientError (''No resource '' @ logic_resource_id @ '' found.'')))"

fun by_logical_id :: "pyval list \<Rightarrow> (string \<times> pyval) list \<Rightarrow> (string \<times> pyval) list result" where
  "by_logical_id [] found = Inr found"
| "by_logical_id (resource # resources) found =
     rbind (py_index resource ''LogicalResourceId'') (\<lambda>i. case i of
       VStr s \<Rightarrow> by_logical_id resources (AList.update s resource found) | _ \<Rightarrow> Inl TypeError)"

definition describe_stack_resources :: "cfn_calls \<Rightarrow> string \<Rightarrow> string option \<Rightarrow> (string \<times> pyval) list result" where
  "describe_stack_resources C stack_name logical_resource_id =
     rbind (asked (call_stack_resources C stack_name (if logical_resource_id = Some [] then None else logical_resource_id))) (\<lambda>response.
     rbind (get_key response ''StackResources'') (\<lambda>resources.
     rbind (py_iter resources) (\<lambda>l. by_logical_id l [])))"

definition format_event :: "(pyval \<Rightarrow> string) \<Rightarrow> pyval \<Rightarrow> string result" where \<comment> \<open>with \<open>isoformat\<close> of the time\<close>
  "format_event isoformat event =
     rbind (get_key event ''Timestamp'') (\<lambda>t.
     rbind (get_key event ''ResourceStatus'') (\<lambda>status.
     rbind (get_key event ''ResourceType'') (\<lambda>kind.
     rbind (get_key event ''LogicalResourceId'') (\<lambda>i.
     rbind (py_get event ''ResourceStatusReason'' (VStr [])) (\<lambda>reason.
       if t = VNone then Inl AttributeError
       else Inr (join '' '' [isoformat t, py_str status, py_str kind, py_str i, py_str reason]))))))"

section \<open>S3\<close>

definition process_s3_bucket_error :: "string \<Rightarrow> string \<Rightarrow> string \<Rightarrow> string option \<Rightarrow> string option \<Rightarrow> string" where
  "process_s3_bucket_error code error_message bucket expected_bucket_owner object_name =
     (let owner = text_or_empty expected_bucket_owner; obj = text_or_empty object_name in
      if code = ''NoSuchBucket'' then
        ''The S3 bucket '' @ quoted bucket @ '' does not appear to exist: '' @ quoted error_message
      else if code = ''AccessDenied'' then
        ''You do not have access to the S3 bucket '' @ quoted bucket @ '': '' @ quoted error_message
      else if owner \<noteq> [] \<and> code = ''403'' \<and> error_message = ''Forbidden'' \<and> obj \<noteq> [] then
        ''Failed when accessing object '' @ quoted obj @ '' from bucket '' @ quoted bucket @
        ''. This can be due to bucket owner not matching the expected one '' @ quoted owner
      else if owner \<noteq> [] \<and> code = ''403'' \<and> error_message = ''Forbidden'' then
        ''Failed in accessing bucket '' @ quoted bucket @
        ''. This can be due to bucket owner not matching the expected one '' @ quoted owner
      else if obj \<noteq> [] \<and> code = ''404'' \<and> error_message = ''Not Found'' then
        ''Failed when accessing object '' @ quoted obj @ '' from bucket '' @ quoted bucket @
        ''. This can be due to '' @ quoted obj @ '' not found in '' @ quoted bucket
      else ''Unexpected error when getting S3 bucket '' @ quoted bucket @ '': '' @ quoted error_message)"

text \<open>Only a \<open>ClientError\<close> is caught by these calls; an error of botocore itself leaves them as it is.\<close>

definition s3_client_error :: "string \<Rightarrow> string option \<Rightarrow> string option \<Rightarrow> 'a boto \<Rightarrow> 'a boto" where
  "s3_client_error bucket expected_bucket_owner object_name r = (case r of
     Inl (ClientErr code m) \<Rightarrow> Inl (OtherError (AWSClientError
       (process_s3_bucket_error code m bucket expected_bucket_owner object_name)))
   | _ \<Rightarrow> r)"

definition s3_head_object :: "(string \<Rightarrow> string \<Rightarrow> string option \<Rightarrow> pyval boto) \<Rightarrow> string \<Rightarrow> string \<Rightarrow> string option \<Rightarrow> pyval boto" where
  "s3_head_object head bucket object_name expected_bucket_owner =
     s3_client_error bucket expected_bucket_owner (Some object_name)
       (head bucket object_name (if expected_bucket_owner = Some [] then None else expected_bucket_owner))"

definition s3_head_bucket :: "(string \<Rightarrow> string option \<Rightarrow> pyval boto) \<Rightarrow> string \<Rightarrow> string option \<Rightarrow> pyval boto" where
  "s3_head_bucket head bucket expected_bucket_owner =
     s3_client_error bucket expected_bucket_owner None
       (head bucket (if expected_bucket_owner = Some [] then None else expected_bucket_owner))"

definition get_bucket_region :: "(string \<Rightarrow> pyval boto) \<Rightarrow> string \<Rightarrow> pyval boto" where
  "get_bucket_region get_bucket_location bucket =
     (case s3_client_error bucket None None (get_bucket_location bucket) of
        Inl e \<Rightarrow> Inl e
      | Inr location \<Rightarrow> (case get_key location ''LocationConstraint'' of
          Inl e \<Rightarrow> Inl (OtherError e) | Inr region \<Rightarrow> Inr (if region = VNone then VStr ''us-east-1'' else region)))"

definition create_bucket_request :: "string \<Rightarrow> string \<Rightarrow> pyval" where
  "create_bucket_request bucket region = VDict ((''Bucket'', VStr bucket) #
     (if region \<noteq> ''us-east-1'' then [(''CreateBucketConfiguration'', VDict [(''LocationConstraint'', VStr region)])] else []))"

section \<open>CloudWatch logs\<close>

fun log_group_named :: "string \<Rightarrow> pyval list \<Rightarrow> pyval result" where
  "log_group_named log_group_name [] = Inl (AWSClientError (''Log Group '' @ log_group_name @ '' not found''))"
| "log_group_named log_group_name (lg # lgs) =
     rbind (get_key lg ''logGroupName'') (\<lambda>name. if name = VStr log_group_name then Inr lg else log_group_named log_group_name lgs)"

definition describe_log_group :: "(string \<Rightarrow> pyval list boto) \<Rightarrow> string \<Rightarrow> pyval result" where
  "describe_log_group describe_log_groups log_group_name =
     rbind (asked (describe_log_groups log_group_name)) (log_group_named log_group_name)"

definition log_group_exists :: "(string \<Rightarrow> pyval list boto) \<Rightarrow> string \<Rightarrow> bool result" where
  "log_group_exists describe_log_groups log_group_name =
     (case describe_log_group describe_log_groups log_group_name of
        Inr _ \<Rightarrow> Inr True
      | Inl e \<Rightarrow> if is_instance e ''AWSClientError'' then Inr False else Inl e)"

text \<open>The status of the task with an identifier; \<open>dump\<close> is the JSON text of the tasks.\<close>

definition get_export_task_status :: "(pyval \<Rightarrow> string) \<Rightarrow> (string \<Rightarrow> pyval boto) \<Rightarrow> string \<Rightarrow> pyval result" where
  "get_export_task_status dump describe_export_tasks task_id =
     rbind (asked (describe_export_tasks task_id)) (\<lambda>response.
     rbind (get_key response ''exportTasks'') (\<lambda>tasks.
       if \<not> truthy tasks then Inl (AWSClientError (''Log export task '' @ task_id @ '' not found''))
       else rbind (py_len tasks) (\<lambda>n.
         if n > 2 then Inl (AWSClientError (''More than one CloudWatch logs export task with ID='' @ task_id @ '':\<newline>'' @ dump tasks))
         else rbind (first_of tasks) (\<lambda>task. rbind (get_key task ''status'') (\<lambda>status. get_key status ''code'')))))"

section \<open>EFS, hosted zones and resource groups\<close>

text \<open>The search for a mount target in a zone goes through all of them: the last one wins.\<close>

fun mount_target_in :: "(pyval \<Rightarrow> pyval result) \<Rightarrow> pyval \<Rightarrow> pyval list \<Rightarrow> pyval \<Rightarrow> pyval result" where
  "mount_target_in zone_of avail_zone [] found = Inr found"
| "mount_target_in zone_of avail_zone (target # targets) found =
     rbind (get_key target ''SubnetId'') (\<lambda>subnet.
     rbind (zone_of subnet) (\<lambda>zone.
     rbind (if py_eq avail_zone zone then get_key target ''MountTargetId'' else Inr found) (\<lambda>found.
       mount_target_in zone_of avail_zone targets found)))"

definition get_efs_mount_target_id ::
    "(pyval \<Rightarrow> pyval result) \<Rightarrow> (string \<Rightarrow> pyval result) \<Rightarrow> string \<Rightarrow> pyval \<Rightarrow> pyval result" where
  "get_efs_mount_target_id zone_of describe_mount_targets efs_fs_id avail_zone =
     (if efs_fs_id = [] then Inr VNone
      else rbind (describe_mount_targets efs_fs_id) (\<lambda>response.
           rbind (get_key response ''MountTargets'') (\<lambda>targets.
           rbind (py_iter targets) (\<lambda>l. mount_target_in zone_of avail_zone l VNone))))"

definition is_efs_standard :: "(string \<Rightarrow> pyval result) \<Rightarrow> string \<Rightarrow> bool result" where
  "is_efs_standard describe_file_system efs_fs_id =
     rbind (describe_file_system efs_fs_id) (\<lambda>response.
     rbind (get_key response ''FileSystems'') (\<lambda>file_systems.
     rbind (first_of file_systems) (\<lambda>fs. rmap (\<lambda>zone. zone = VNone) (get_key fs ''AvailabilityZoneName''))))"

definition get_hosted_zone :: "(string \<Rightarrow> pyval boto) \<Rightarrow> string \<Rightarrow> pyval result" where
  "get_hosted_zone request hosted_zone_id =
     rbind (asked (request hosted_zone_id)) (\<lambda>info.
       if truthy info then Inr info
       else Inl (AWSClientError (''Hosted zone '' @ hosted_zone_id @ '' not found'')))"

definition get_hosted_zone_domain_name :: "(string \<Rightarrow> pyval boto) \<Rightarrow> string \<Rightarrow> pyval result" where
  "get_hosted_zone_domain_name request hosted_zone_id =
     rbind (get_hosted_zone request hosted_zone_id) (\<lambda>info. rbind (get_key info ''HostedZone'') (\<lambda>z. get_key z ''Name''))"

definition get_hosted_zone_vpcs :: "(string \<Rightarrow> pyval boto) \<Rightarrow> string \<Rightarrow> pyval list result" where
  "get_hosted_zone_vpcs request hosted_zone_id =
     rbind (get_hosted_zone request hosted_zone_id) (\<lambda>info. rbind (get_key info ''VPCs'') (\<lambda>vpcs.
       rbind (py_iter vpcs) (rmap_list (\<lambda>vpc. get_key vpc ''VPCId''))))"

definition is_hosted_zone_private :: "(string \<Rightarrow> pyval boto) \<Rightarrow> string \<Rightarrow> pyval result" where
  "is_hosted_zone_private request hosted_zone_id =
     rbind (get_hosted_zone request hosted_zone_id) (\<lambda>info. rbind (get_key info ''HostedZone'') (\<lambda>z.
       rbind (get_key z ''Config'') (\<lambda>config. get_key config ''PrivateZone'')))"

text \<open>
  The identifier in the address of a reservation: \<open>arn:.*:.*:.*:.*:.*(cr-.*)\<close> takes the last \<open>cr-\<close> after
  at least five colons; without one \<open>match\<close> is \<open>None\<close> and \<open>group\<close> raises.
\<close>

fun last_cr :: "nat \<Rightarrow> string \<Rightarrow> string option" where \<comment> \<open>the last one at \<open>n\<close> or before\<close>
  "last_cr n s = (if startswith (drop n s) ''cr-'' \<and> 4 \<le> length (filter (\<lambda>ch. ch = CHR '':'') (take n s))
     then Some (drop n s) else if n = 0 then None else last_cr (n - 1) s)"

definition reservation_id_of_arn :: "string \<Rightarrow> string result" where
  "reservation_id_of_arn arn =
     (if \<not> startswith arn ''arn:'' then Inl AttributeError
      else case last_cr (length arn) (drop 4 arn) of None \<Rightarrow> Inl AttributeError | Some i \<Rightarrow> Inr i)"

fun reservation_ids_of :: "pyval list \<Rightarrow> string list result" where
  "reservation_ids_of [] = Inr []"
| "reservation_ids_of (resource # resources) =
     rbind (py_index resource ''Identifier'') (\<lambda>identifier.
     rbind (py_index identifier ''ResourceType'') (\<lambda>t.
       if t \<noteq> VStr ''AWS::EC2::CapacityReservation'' then reservation_ids_of resources
       else rbind (py_index identifier ''ResourceArn'') (\<lambda>arn. case arn of
         VStr s \<Rightarrow> rbind (reservation_id_of_arn s) (\<lambda>i. rmap (Cons i) (reservation_ids_of resources))
       | _ \<Rightarrow> Inl TypeError)))"

definition get_capacity_reservation_ids_from_group_resources :: "(string \<Rightarrow> pyval boto) \<Rightarrow> string \<Rightarrow> string list result" where
  "get_capacity_reservation_ids_from_group_resources list_group_resources grp =
     rbind (asked (list_group_resources grp)) (\<lambda>response.
     rbind (py_index response ''Resources'') (\<lambda>resources. rbind (py_iter resources) reservation_ids_of))"

section \<open>What these calls give\<close>

lemma throttled_response: "throttled (stack_of_response name r) \<longleftrightarrow> throttled r"
  by (auto simp: throttled_def stack_of_response_def stack_not_found_def
    split: sum.splits boto_error.splits if_splits)

lemma instance_of_exc [simp]: "is_instance (Exc cls m) c \<longleftrightarrow> c = ''Exception'' \<or> c = cls \<or> c \<in> set (bases cls)"
  by (simp add: is_instance_def)

lemma client_error_bases [simp]:
  "bases ''AWSClientError'' = []" "bases ''StackNotFoundError'' = [''AWSClientError'']"
  "bases ''LimitExceededError'' = [''AWSClientError'']" "bases ''BadRequestError'' = [''AWSClientError'']"
  by (simp_all add: bases_def)

lemma first_of_errors:
  "rbind (get_key response k) first_of = Inl e \<Longrightarrow> e \<in> {AttributeError, IndexError, KeyError, TypeError}"
  by (cases response) (auto simp: first_of_def rbind_Inl_iff split: pyval.splits list.splits option.splits)

text \<open>
  Whether a stack exists is decided by the first answer that is not throttled: a stack means yes, a
  validation error means no, and any other error is raised.
\<close>

lemma stack_exists_outcome:
  assumes "\<And>j. j < n \<Longrightarrow> throttled (call_describe_stack C name j)" and "\<not> throttled (call_describe_stack C name n)"
  shows "stack_exists C name = Some (case call_describe_stack C name n of
      Inr response \<Rightarrow> rmap (\<lambda>_. True) (rbind (get_key response ''Stacks'') first_of)
    | Inl e \<Rightarrow> if (\<exists>m. e = ClientErr ''ValidationError'' m) \<or> is_instance (client_exception e) ''StackNotFoundError''
        then Inr False else Inl (client_exception e))"
proof -
  let ?attempt = "\<lambda>j. stack_of_response name (call_describe_stack C name j)"
  have "retry_on_boto3_throttling ?attempt = Some (?attempt n)"
    unfolding retry_on_boto3_throttling_def
    by (rule retry_from_first) (use assms in \<open>simp_all add: throttled_response\<close>)
  then have outcome: "stack_exists C name = Some (case handle_client_exception (?attempt n) of
      Inr _ \<Rightarrow> Inr True | Inl e \<Rightarrow> if is_instance e ''StackNotFoundError'' then Inr False else Inl e)"
    by (simp add: stack_exists_def describe_stack_def)
  show ?thesis
  proof (cases "call_describe_stack C name n")
    case (Inr response)
    show ?thesis
    proof (cases "rbind (get_key response ''Stacks'') first_of")
      case (Inl e)
      then have "e \<in> {AttributeError, IndexError, KeyError, TypeError}" by (rule first_of_errors)
      then have "\<not> is_instance e ''StackNotFoundError''" by (auto simp: is_instance_def bases_def)
      with Inl Inr show ?thesis by (simp add: outcome stack_of_response_def handle_client_exception_def)
    qed (simp add: outcome stack_of_response_def handle_client_exception_def Inr)
  next
    case (Inl e)
    then show ?thesis
      by (cases e) (auto simp: outcome stack_of_response_def stack_not_found_def handle_client_exception_def)
  qed
qed

text \<open>Two export tasks with one identifier are not reported: only a third one is.\<close>

lemma two_export_tasks_accepted:
  "get_export_task_status dump (\<lambda>_. Inr (VDict [(''exportTasks'', VList
     [VDict [(''status'', VDict [(''code'', VStr ''RUNNING'')])], t])])) task_id = Inr (VStr ''RUNNING'')"
  by (simp add: get_export_task_status_def handle_client_exception_def first_of_def)

definition is_cluster_stack :: "pyval \<Rightarrow> bool" where
  "is_cluster_stack stack \<longleftrightarrow> get_key stack ''ParentId'' = Inr VNone
     \<and> (\<exists>v. stack_get_tag stack PCLUSTER_VERSION_TAG = Inr v \<and> truthy v)
     \<and> stack_get_tag stack PCLUSTER_IMAGE_ID_TAG = Inr VNone"

lemma parentless_filter:
  "parentless_with_tag tag stacks = Inr found \<Longrightarrow>
   found = filter (\<lambda>s. get_key s ''ParentId'' = Inr VNone \<and> (\<exists>v. stack_get_tag s tag = Inr v \<and> truthy v)) stacks"
  by (induction stacks arbitrary: found) (auto simp: rbind_Inr_iff rmap_Inr_iff split: if_splits)

lemma without_tag_filter:
  "without_tag tag stacks = Inr found \<Longrightarrow> found = filter (\<lambda>s. stack_get_tag s tag = Inr VNone) stacks"
  by (induction stacks arbitrary: found) (auto simp: rbind_Inr_iff rmap_Inr_iff split: if_splits)

text \<open>
  A page of cluster stacks has just the stacks of the answer that have no parent, carry the version tag
  and are not those of an image, in their order, with the token of the answer.
\<close>

lemma listed_stacks_are_cluster_stacks:
  assumes "list_pcluster_stacks C next_token = Inr (stacks, token)"
  shows "\<exists>response all. call_describe_stacks C (if next_token = Some [] then None else next_token) = Inr response
    \<and> rbind (py_get response ''Stacks'' (VList [])) py_iter = Inr all
    \<and> stacks = filter is_cluster_stack all \<and> get_key response ''NextToken'' = Inr token"
proof -
  from assms obtain tagged where 1: "list_parentless_stacks_with_tag C PCLUSTER_VERSION_TAG next_token = Inr (tagged, token)"
    and 2: "without_tag PCLUSTER_IMAGE_ID_TAG tagged = Inr stacks"
    by (auto simp: list_pcluster_stacks_def rbind_Inr_iff rmap_Inr_iff)
  from 1 obtain response v all where 3: "call_describe_stacks C (if next_token = Some [] then None else next_token) = Inr response"
    "py_get response ''Stacks'' (VList []) = Inr v" "py_iter v = Inr all"
    "parentless_with_tag PCLUSTER_VERSION_TAG all = Inr tagged" "get_key response ''NextToken'' = Inr token"
    by (auto simp: list_parentless_stacks_with_tag_def rbind_Inr_iff rmap_Inr_iff handle_client_exception_def split: sum.splits)
  have "stacks = filter is_cluster_stack all"
    unfolding without_tag_filter[OF 2] parentless_filter[OF 3(4)] filter_filter is_cluster_stack_def
    by (rule filter_cong) auto
  with 3 show ?thesis by auto
qed

section \<open>Examples\<close>

definition example_stacks :: cfn_calls where
  "example_stacks = \<lparr>call_describe_stack = (\<lambda>name n. if n < 2 then Inl (ClientErr ''Throttling'' ''Rate exceeded'')
       else Inl (ClientErr ''ValidationError'' ''Stack does not exist'')),
     call_describe_stacks = (\<lambda>_. Inr emptydict), call_stack_resource = (\<lambda>_ _. Inr emptydict),
     call_stack_resources = (\<lambda>_ _. Inr emptydict)\<rparr>"

end
