(* ===== verification/ConfigConverter.thy ===== *)
theory ConfigConverter
  imports InstanceTypes Artifacts "HOL-Library.AList"
begin

text \<open>
  The converter of version 2 configuration files
  (\<open>src/pcluster3_config_converter/pcluster3_config_converter.py\<close>): reading an INI file with the
  interpolation of Python's \<open>configparser\<close>, the validation of the old configuration and its conversion section
  by section.  The file as \<open>configparser\<close> splits it into sections and options is an input; JSON, the
  representation of floating-point numbers and the answers of boto3 are parameters.
\<close>

section \<open>INI files\<close>

record ini =
  ini_sections :: "(string \<times> (string \<times> string) list) list"
  ini_defaults :: "(string \<times> string) list" \<comment> \<open>the section \<open>DEFAULT\<close>\<close>

definition section_options :: "ini \<Rightarrow> string \<Rightarrow> (string \<times> string) list option" where
  "section_options f s =
     (if s = ''DEFAULT'' then Some (ini_defaults f)
      else map_option (\<lambda>items. items @ ini_defaults f) (map_of (ini_sections f) s))"

definition lower_text :: "string \<Rightarrow> string" where "lower_text s = map to_lower s"
definition upper_text :: "string \<Rightarrow> string" where "upper_text s = map to_upper s"

text \<open>
  \<open>BasicInterpolation\<close>: \<open>%%\<close> stands for a percent sign and \<open>%(name)s\<close> for the value of an option, interpolated
  itself when it has a percent sign; \<open>n\<close> counts the nestings that are left of the ten allowed.  The errors
  name the option, its section and its raw value.
\<close>

definition MAX_INTERPOLATION_DEPTH :: nat where "MAX_INTERPOLATION_DEPTH = 10"

record lookup =
  look_option :: string
  look_section :: string
  look_raw :: string
  look_vars :: "(string \<times> string) list"

definition depth_error :: "lookup \<Rightarrow> py_exn" where
  "depth_error l = Exc ''InterpolationDepthError''
     (''Recursion limit exceeded in value substitution: option '' @ repr_str (look_option l) @ '' in section '' @
      repr_str (look_section l) @ '' contains an interpolation key which cannot be substituted in '' @
      str_nat MAX_INTERPOLATION_DEPTH @ '' steps. Raw value: '' @ repr_str (look_raw l))"

definition missing_error :: "lookup \<Rightarrow> string \<Rightarrow> py_exn" where
  "missing_error l reference = Exc ''InterpolationMissingOptionError''
     (''Bad value substitution: option '' @ repr_str (look_option l) @ '' in section '' @ repr_str (look_section l) @
      '' contains an interpolation key '' @ repr_str reference @ '' which is not a valid option name. Raw value: '' @
      repr_str (look_raw l))"

definition reference_error :: "string \<Rightarrow> py_exn" where
  "reference_error rest = Exc ''InterpolationSyntaxError'' (''bad interpolation variable reference '' @ repr_str rest)"

definition percent_error :: "string \<Rightarrow> py_exn" where
  "percent_error rest = Exc ''InterpolationSyntaxError''
     (quoted ''%'' @ '' must be followed by '' @ quoted ''%'' @ '' or '' @ quoted ''('' @ '', found: '' @ repr_str rest)"

text \<open>The name and what follows of \<open>name)s\<close>, after the opening bracket.\<close>

definition reference_in :: "string \<Rightarrow> (string \<times> string) option" where
  "reference_in s =
     (let name = takeWhile (\<lambda>c. c \<noteq> CHR '')'') s in
      case dropWhile (\<lambda>c. c \<noteq> CHR '')'') s of
        _ # c # after \<Rightarrow> if c = CHR ''s'' \<and> name \<noteq> [] then Some (name, after) else None
      | _ \<Rightarrow> None)"

lemma reference_in_shorter: "reference_in s = Some (name, after) \<Longrightarrow> length after < length s"
proof -
  assume r: "reference_in s = Some (name, after)"
  then obtain b c where "dropWhile (\<lambda>c. c \<noteq> CHR '')'') s = b # c # after"
    by (auto simp: reference_in_def Let_def split: list.splits if_splits)
  then show ?thesis using length_dropWhile_le[of "\<lambda>c. c \<noteq> CHR '')''" s] by simp
qed

function interpolate_some :: "lookup \<Rightarrow> nat \<Rightarrow> string \<Rightarrow> string result" where
  "interpolate_some l n [] = (if n = 0 then Inl (depth_error l) else Inr [])"
| "interpolate_some l n (c # rest) =
     (if n = 0 then Inl (depth_error l)
      else if c \<noteq> CHR ''%'' then rmap (Cons c) (interpolate_some l n rest)
      else case rest of
        [] \<Rightarrow> Inl (percent_error (c # rest))
      | d # s \<Rightarrow>
          if d = CHR ''%'' then rmap (Cons d) (interpolate_some l n s)
          else if d = CHR ''('' then (case reference_in s of
              None \<Rightarrow> Inl (reference_error (c # rest))
            | Some (name, after) \<Rightarrow> (case map_of (look_vars l) (lower_text name) of
                None \<Rightarrow> Inl (missing_error l (lower_text name))
              | Some v \<Rightarrow> rbind (if CHR ''%'' \<in> set v then interpolate_some l (n - 1) v else Inr v) (\<lambda>x.
                  rmap ((@) x) (interpolate_some l n after))))
          else Inl (percent_error (c # rest)))"
  by pat_completeness auto

termination
  by (relation "measures [\<lambda>(l, n, s). n, \<lambda>(l, n, s). length s]") (auto dest: reference_in_shorter)

text \<open>\<open>config_parser.get(section, option, fallback=None)\<close>.\<close>

definition ini_get :: "ini \<Rightarrow> string \<Rightarrow> string \<Rightarrow> string option result" where
  "ini_get f section option = (case section_options f section of
      None \<Rightarrow> Inr None
    | Some vars \<Rightarrow> (case map_of vars option of
        None \<Rightarrow> Inr None
      | Some raw \<Rightarrow> rmap Some (interpolate_some
          \<lparr>look_option = option, look_section = section, look_raw = raw, look_vars = vars\<rparr>
          MAX_INTERPOLATION_DEPTH raw)))"

definition convert_to_boolean :: "string \<Rightarrow> bool result" where
  "convert_to_boolean v =
     (if lower_text v \<in> {''1'', ''yes'', ''true'', ''on''} then Inr True
      else if lower_text v \<in> {''0'', ''no'', ''false'', ''off''} then Inr False
      else Inl (Exc ''ValueError'' (''Not a boolean: '' @ v)))"

text \<open>\<open>int(v)\<close>: surrounding space, a sign, digits with single underscores between them.\<close>

fun underscores_between :: "string \<Rightarrow> bool" where
  "underscores_between [] = True"
| "underscores_between [c] = (c \<noteq> CHR ''_'')"
| "underscores_between (c # d # s) = ((c = CHR ''_'' \<longrightarrow> d \<noteq> CHR ''_'') \<and> underscores_between (d # s))"

definition digits_value :: "string \<Rightarrow> int option" where
  "digits_value s =
     (let ds = filter (\<lambda>c. c \<noteq> CHR ''_'') s in
      if ds \<noteq> [] \<and> hd s \<noteq> CHR ''_'' \<and> underscores_between s \<and> list_all is_digit ds
      then Some (foldl (\<lambda>n c. 10 * n + (int (of_char c) - 48)) 0 ds) else None)"

definition int_value :: "string \<Rightarrow> int result" where
  "int_value v =
     (case (case str_strip v of
         [] \<Rightarrow> None
       | c # s \<Rightarrow> if c = CHR ''-'' then map_option uminus (digits_value s)
                  else if c = CHR ''+'' then digits_value s else digits_value (c # s)) of
        Some i \<Rightarrow> Inr i
      | None \<Rightarrow> Inl (Exc ''ValueError'' (''invalid literal for int() with base 10: '' @ repr_str v)))"

section \<open>The converter\<close>

text \<open>
  What the converter asks of its surroundings: the account and the region of boto3, \<open>json.loads\<close>, and the
  representation of the number that a text denotes.
\<close>

type_synonym dict = "(string \<times> pyval) list"

record surroundings =
  account_id :: "string result"
  boto_region :: "string option"
  json_loads :: "string \<Rightarrow> pyval result"
  float_value :: "string \<Rightarrow> string option"

text \<open>The attributes of the class; an empty section name stands for \<open>None\<close>, as no section has it.\<close>

record converter = surroundings +
  config_parser :: ini
  force_convert :: bool
  cluster_label :: "string option"
  pcluster3_configuration :: dict
  convert_shared_storage_name :: "string list"
  cluster_section_name :: string
  vpc_section_label :: string
  comments :: string
  printed :: "string list"

definition system_exit :: "string \<Rightarrow> py_exn" where
  "system_exit message = Exc ''SystemExit'' (''ERROR: '' @ message)"

definition print_line :: "string \<Rightarrow> (converter, unit) act" where
  "print_line message = modify (\<lambda>C. C\<lparr>printed := printed C @ [message]\<rparr>)"

definition warn :: "string \<Rightarrow> (converter, unit) act" where
  "warn message = print_line (''Warning: '' @ message)"

definition note_message :: "string \<Rightarrow> (converter, unit) act" where
  "note_message message = print_line (''Note: '' @ message)"

definition add_comment :: "string \<Rightarrow> (converter, unit) act" where
  "add_comment message = modify (\<lambda>C. C\<lparr>comments := comments C @ message\<rparr>)"

definition and_then :: "('s, unit) act \<Rightarrow> ('s, 'a) act \<Rightarrow> ('s, 'a) act" where
  "and_then m k = bind_act m (\<lambda>_. k)"

definition when_act :: "bool \<Rightarrow> ('s, unit) act \<Rightarrow> ('s, unit) act" where
  "when_act b m = (if b then m else unit_act ())"

fun each :: "('a \<Rightarrow> ('s, unit) act) \<Rightarrow> 'a list \<Rightarrow> ('s, unit) act" where
  "each f [] = unit_act ()"
| "each f (x # xs) = and_then (f x) (each f xs)"

definition add_if :: "string \<Rightarrow> pyval \<Rightarrow> dict \<Rightarrow> dict" where
  "add_if section_name v d = (if truthy v then AList.update section_name v d else d)"

definition given_text :: "string option \<Rightarrow> bool" where \<comment> \<open>the truth of a text or \<open>None\<close>\<close>
  "given_text v \<longleftrightarrow> v \<noteq> None \<and> v \<noteq> Some []"

definition append_if :: "pyval list \<Rightarrow> string option \<Rightarrow> pyval list" where
  "append_if vs v = (if given_text v then vs @ [VStr (the v)] else vs)"

definition config_get :: "converter \<Rightarrow> string \<Rightarrow> string \<Rightarrow> string option result" where
  "config_get C = ini_get (config_parser C)"

definition cluster_config_get :: "converter \<Rightarrow> string \<Rightarrow> string option result" where
  "cluster_config_get C param = config_get C (cluster_section_name C) param"

datatype getter = Get | Getboolean | Getint | Getfloat

fun parse_with :: "converter \<Rightarrow> getter \<Rightarrow> string \<Rightarrow> pyval result" where
  "parse_with C Get v = Inr (VStr v)"
| "parse_with C Getboolean v = rmap VBool (convert_to_boolean v)"
| "parse_with C Getint v = rmap VInt (int_value v)"
| "parse_with C Getfloat v = (case float_value C v of
     Some t \<Rightarrow> Inr (VFloat t)
   | None \<Rightarrow> Inl (Exc ''ValueError'' (''could not convert string to float: '' @ repr_str v)))"

definition get_attribute :: "converter \<Rightarrow> getter \<Rightarrow> string \<Rightarrow> string \<Rightarrow> pyval option result" where
  "get_attribute C g section option = rbind (config_get C section option) (\<lambda>v. case v of
     None \<Rightarrow> Inr None | Some s \<Rightarrow> rmap Some (parse_with C g s))"

definition convert_single_field :: "converter \<Rightarrow> string \<Rightarrow> string \<times> string \<times> getter \<Rightarrow> dict \<Rightarrow> dict result" where
  "convert_single_field C pcluster2_model field model =
     (case field of (pcluster2_attribute, pcluster3_attribute, g) \<Rightarrow>
      (case get_attribute C g pcluster2_model pcluster2_attribute of
         Inl e \<Rightarrow> Inl (system_exit (''Wrong type for '' @ pcluster2_attribute @ '' in '' @ pcluster2_model @
           '' section: '' @ exn_text e))
       | Inr None \<Rightarrow> Inr model
       | Inr (Some v) \<Rightarrow> Inr (AList.update pcluster3_attribute v model)))"

definition convert_fields :: "converter \<Rightarrow> string \<Rightarrow> (string \<times> string \<times> getter) list \<Rightarrow> dict \<Rightarrow> dict result" where
  "convert_fields C pcluster2_model = rfold (convert_single_field C pcluster2_model)"

section \<open>Shared storages\<close>

definition storage_type_of :: "string \<Rightarrow> string" where
  "storage_type_of stype = the (map_of
     [(''ebs'', ''Ebs''), (''raid'', ''Ebs''), (''fsx'', ''FsxLustre''), (''efs'', ''Efs'')] stype)"

definition storage_label :: "string \<Rightarrow> string \<Rightarrow> string" where
  "storage_label stype label = stype @ '' '' @ label"

definition convert_storage_base ::
    "converter \<Rightarrow> string \<Rightarrow> string \<Rightarrow> (string \<times> string \<times> getter) list \<Rightarrow> (dict \<times> dict) result" where
  "convert_storage_base C stype label additional_items =
     (let section_label = storage_label stype label in
      rbind (convert_fields C section_label [(''shared_dir'', ''MountDir'', Get)]
               [(''Name'', VStr label), (''StorageType'', VStr (storage_type_of stype))]) (\<lambda>storage_section.
      rmap (\<lambda>settings. (storage_section, settings))
        (convert_fields C section_label ((''encrypted'', ''Encrypted'', Getboolean) # additional_items) [])))"

definition ebs_fields :: "(string \<times> string \<times> getter) list" where
  "ebs_fields = [(''volume_type'', ''VolumeType'', Get), (''volume_size'', ''Size'', Getint),
     (''volume_iops'', ''Iops'', Getint), (''ebs_snapshot_id'', ''SnapshotId'', Get),
     (''ebs_kms_key_id'', ''KmsKeyId'', Get), (''ebs_volume_id'', ''VolumeId'', Get),
     (''volume_throughput'', ''Throughput'', Getint)]"

definition raid_fields :: "(string \<times> string \<times> getter) list" where
  "raid_fields = [(''volume_type'', ''VolumeType'', Get), (''volume_size'', ''Size'', Getint),
     (''volume_iops'', ''Iops'', Getint), (''ebs_kms_key_id'', ''KmsKeyId'', Get),
     (''volume_throughput'', ''Throughout'', Getint)]"

definition efs_fields :: "(string \<times> string \<times> getter) list" where
  "efs_fields = [(''performance_mode'', ''PerformanceMode'', Get), (''efs_fs_id'', ''FileSystemId'', Get),
     (''efs_kms_key_id'', ''KmsKeyId'', Get), (''provisioned_throughput'', ''ProvisionedThroughput'', Getint),
     (''throughput_mode'', ''ThroughputMode'', Get), (''access_point_id'', ''AccessPointId'', Get)]"

definition fsx_fields :: "(string \<times> string \<times> getter) list" where
  "fsx_fields = [(''auto_import_policy'', ''AutoImportPolicy'', Get), (''fsx_fs_id'', ''FileSystemId'', Get),
     (''fsx_kms_key_id'', ''KmsKeyId'', Get), (''storage_capacity'', ''StorageCapacity'', Getint),
     (''deployment_type'', ''DeploymentType'', Get), (''storage_type'', ''StorageType'', Get),
     (''imported_file_chunk_size'', ''ImportedFileChunkSize'', Getint),
     (''data_compression_type'', ''DataCompressionType'', Get), (''export_path'', ''ExportPath'', Get),
     (''import_path'', ''ImportPath'', Get),
     (''weekly_maintenance_start_time'', ''WeeklyMaintenanceStartTime'', Get),
     (''automatic_backup_retention_days'', ''AutomaticBackupRetentionDays'', Getint),
     (''copy_tags_to_backups'', ''CopyTagsToBackups'', Getboolean),
     (''daily_automatic_backup_start_time'', ''DailyAutomaticBackupStartTime'', Get),
     (''per_unit_storage_throughput'', ''PerUnitStorageThroughput'', Getint), (''fsx_backup_id'', ''BackupId'', Get),
     (''drive_cache_type'', ''DriveCacheType'', Get)]"

definition convert_default_ebs :: "converter \<Rightarrow> pyval list result" where
  "convert_default_ebs C = rmap (\<lambda>shared_dir.
     [VDict [(''MountDir'', VStr (if given_text shared_dir then the shared_dir else ''/shared'')),
             (''Name'', VStr ''default-ebs''), (''StorageType'', VStr ''Ebs'')]]) (cluster_config_get C ''shared_dir'')"

text \<open>The only EBS volume is mounted at the \<open>shared_dir\<close> of the cluster section when that is given.\<close>

definition cluster_shared_dir :: "converter \<Rightarrow> bool \<Rightarrow> dict \<Rightarrow> dict result" where
  "cluster_shared_dir C single ebs_section =
     (if \<not> single then Inr ebs_section
      else rbind (cluster_config_get C ''shared_dir'') (\<lambda>shared_dir.
        if given_text shared_dir
        then convert_single_field C (cluster_section_name C) (''shared_dir'', ''MountDir'', Get) ebs_section
        else Inr ebs_section))"

definition convert_one_ebs :: "converter \<Rightarrow> bool \<Rightarrow> string \<Rightarrow> string \<Rightarrow> pyval result" where
  "convert_one_ebs C single section_name ebs_label =
     rbind (convert_storage_base C ''ebs'' (str_strip ebs_label) ebs_fields) (\<lambda>(ebs_section, settings).
     rmap (\<lambda>s. VDict (add_if section_name (VDict settings) s)) (cluster_shared_dir C single ebs_section))"

definition convert_ebs_settings :: "converter \<Rightarrow> string \<Rightarrow> pyval list result" where
  "convert_ebs_settings C section_name = rbind (cluster_config_get C ''ebs_settings'') (\<lambda>ebs_settings.
     if \<not> given_text ebs_settings then convert_default_ebs C
     else let labels = split_on (CHR '','') (the ebs_settings) in
       rmap_list (convert_one_ebs C (length labels = 1) section_name) labels)"

definition convert_one_raid :: "converter \<Rightarrow> string \<Rightarrow> string \<Rightarrow> pyval result" where
  "convert_one_raid C section_name raid_label =
     rbind (convert_storage_base C ''raid'' (str_strip raid_label) raid_fields) (\<lambda>(ebs_section, ebs_settings).
     rmap (\<lambda>raid. VDict (add_if section_name (VDict (add_if ''Raid'' (VDict raid) ebs_settings)) ebs_section))
       (convert_fields C (storage_label ''raid'' (str_strip raid_label))
          [(''num_of_raid_volumes'', ''NumberOfVolumes'', Getint), (''raid_type'', ''Type'', Getint)] []))"

definition convert_one_storage ::
    "converter \<Rightarrow> string \<Rightarrow> (string \<times> string \<times> getter) list \<Rightarrow> string \<Rightarrow> string \<Rightarrow> pyval result" where
  "convert_one_storage C stype items section_name label =
     rmap (\<lambda>(storage_section, settings). VDict (add_if section_name (VDict settings) storage_section))
       (convert_storage_base C stype (str_strip label) items)"

text \<open>The storages that a comma-separated parameter of the cluster section lists, none when it is not given.\<close>

definition convert_listed :: "converter \<Rightarrow> string \<Rightarrow> (string \<Rightarrow> pyval result) \<Rightarrow> pyval list result" where
  "convert_listed C param convert_one = rbind (cluster_config_get C param) (\<lambda>listed.
     if \<not> given_text listed then Inr [] else rmap_list convert_one (split_on (CHR '','') (the listed)))"

definition convert_raid_settings :: "converter \<Rightarrow> string \<Rightarrow> pyval list result" where
  "convert_raid_settings C section_name = convert_listed C ''raid_settings'' (convert_one_raid C section_name)"

definition convert_efs_settings :: "converter \<Rightarrow> string \<Rightarrow> pyval list result" where
  "convert_efs_settings C section_name =
     convert_listed C ''efs_settings'' (convert_one_storage C ''efs'' efs_fields section_name)"

definition convert_fsx_settings :: "converter \<Rightarrow> string \<Rightarrow> pyval list result" where
  "convert_fsx_settings C section_name =
     convert_listed C ''fsx_settings'' (convert_one_storage C ''fsx'' fsx_fields section_name)"

definition convert_shared_storage :: "converter \<Rightarrow> string \<Rightarrow> dict \<Rightarrow> dict result" where
  "convert_shared_storage C section_name configuration =
     rbind (convert_ebs_settings C ''EbsSettings'') (\<lambda>ebs.
     rbind (convert_raid_settings C ''EbsSettings'') (\<lambda>raid.
     rbind (convert_efs_settings C ''EfsSettings'') (\<lambda>efs.
     rmap (\<lambda>fsx. add_if section_name (VList (ebs @ raid @ efs @ fsx)) configuration)
       (convert_fsx_settings C ''FsxLustreSettings''))))"

section \<open>Top-level sections\<close>

definition convert_region :: "converter \<Rightarrow> string \<Rightarrow> dict \<Rightarrow> dict result" where
  "convert_region C section_name = convert_single_field C ''aws'' (''aws_region_name'', section_name, Get)"

definition convert_cluster_fields :: "converter \<Rightarrow> (string \<times> string \<times> getter) list \<Rightarrow> dict \<Rightarrow> dict result" where
  "convert_cluster_fields C = convert_fields C (cluster_section_name C)"

definition convert_image :: "converter \<Rightarrow> string \<Rightarrow> dict \<Rightarrow> dict result" where
  "convert_image C section_name configuration =
     rmap (\<lambda>i. add_if section_name (VDict i) configuration)
       (convert_cluster_fields C [(''custom_ami'', ''CustomAmi'', Get), (''base_os'', ''Os'', Get)] [])"

definition get_region :: "converter \<Rightarrow> string result" where
  "get_region C = rbind (config_get C ''aws'' ''aws_region_name'') (\<lambda>config_region.
     if given_text config_region then Inr (the config_region)
     else if given_text (boto_region C) then Inr (the (boto_region C))
     else Inl (system_exit
       ''Region not found. Please specify aws_region_name in the configuration or set region in aws_config.''))"

definition role_name_to_arn :: "converter \<Rightarrow> string \<Rightarrow> string \<Rightarrow> string result" where
  "role_name_to_arn C role_name part =
     rmap (\<lambda>account. ''arn:'' @ part @ '':iam::'' @ account @ '':role/'' @ role_name) (account_id C)"

text \<open>The ARN of a role of the account, stored under a key when a parameter of the cluster section names it.\<close>

definition convert_role :: "converter \<Rightarrow> string \<Rightarrow> string \<Rightarrow> dict \<Rightarrow> dict result" where
  "convert_role C param key d = rbind (cluster_config_get C param) (\<lambda>role.
     if \<not> given_text role then Inr d
     else rbind (get_region C) (\<lambda>region.
       rmap (\<lambda>arn. AList.update key (VStr arn) d)
         (role_name_to_arn C (the role) (get_partition [] (Some region)))))"

definition convert_iam :: "converter \<Rightarrow> string \<Rightarrow> dict \<Rightarrow> dict result" where
  "convert_iam C section_name configuration =
     rmap (\<lambda>role. add_if section_name (VDict (add_if ''Role'' (VDict role) [])) configuration)
       (convert_role C ''iam_lambda_role'' ''LambdaFunctionRole'' [])"

definition convert_additional_packages :: "converter \<Rightarrow> string \<Rightarrow> dict \<Rightarrow> dict result" where
  "convert_additional_packages C section_name configuration =
     rmap (\<lambda>intel. add_if section_name (VDict (add_if ''IntelSoftware'' (VDict intel) [])) configuration)
       (convert_cluster_fields C [(''enable_intel_hpc_platform'', ''IntelHpcPlatform'', Getboolean)] [])"

definition convert_tags :: "converter \<Rightarrow> string \<Rightarrow> dict \<Rightarrow> dict result" where
  "convert_tags C section_name configuration = rbind (cluster_config_get C ''tags'') (\<lambda>tags.
     if \<not> given_text tags then Inr configuration
     else case json_loads C (the tags) of
       Inl e \<Rightarrow> Inl (system_exit (''Tags should be in the format of dictionary, '' @ exn_text e))
     | Inr (VDict items) \<Rightarrow> Inr (AList.update section_name
         (VList (map (\<lambda>(k, v). VDict [(''Key'', VStr k), (''Value'', v)]) items)) configuration)
     | Inr _ \<Rightarrow> Inl AttributeError)"

text \<open>The fields of the section that a parameter of the cluster section names, under a prefix.\<close>

definition convert_named_section ::
    "converter \<Rightarrow> string \<Rightarrow> string \<Rightarrow> (string \<times> string \<times> getter) list \<Rightarrow> dict result" where
  "convert_named_section C param prefix items = rbind (cluster_config_get C param) (\<lambda>label.
     if \<not> given_text label then Inr []
     else convert_fields C (prefix @ '' '' @ str_strip (the label)) items [])"

definition convert_monitoring :: "converter \<Rightarrow> string \<Rightarrow> dict \<Rightarrow> dict result" where
  "convert_monitoring C section_name configuration =
     rbind (convert_named_section C ''cw_log_settings'' ''cw_log''
       [(''enable'', ''Enabled'', Getboolean), (''retention_days'', ''RetentionInDays'', Getint)]) (\<lambda>cloudwatch.
     rmap (\<lambda>dashboard_cloudwatch.
       let logs = add_if ''CloudWatch'' (VDict cloudwatch) [];
           dashboards = add_if ''CloudWatch'' (VDict dashboard_cloudwatch) [];
           monitoring = add_if ''Dashboards'' (VDict dashboards) (add_if ''Logs'' (VDict logs) []) in
       add_if section_name (VDict monitoring) configuration)
       (convert_named_section C ''dashboard_settings'' ''dashboard'' [(''enable'', ''Enabled'', Getboolean)]))"

definition convert_dev_settings :: "converter \<Rightarrow> string \<Rightarrow> dict \<Rightarrow> dict result" where
  "convert_dev_settings C section_name configuration =
     rbind (convert_cluster_fields C
       [(''extra_json'', ''ExtraChefAttributes'', Get), (''custom_chef_cookbook'', ''ChefCookbook'', Get)] []) (\<lambda>cookbook.
     rmap (\<lambda>dev_settings. add_if section_name (VDict (add_if ''Cookbook'' (VDict cookbook) dev_settings)) configuration)
       (convert_cluster_fields C
         [(''template_url'', ''ClusterTemplate'', Get), (''instance_types_data'', ''InstanceTypesData'', Get)] []))"

definition convert_custom_s3_bucket :: "converter \<Rightarrow> string \<Rightarrow> dict \<Rightarrow> dict result" where
  "convert_custom_s3_bucket C section_name =
     convert_single_field C (cluster_section_name C) (''cluster_resource_bucket'', section_name, Get)"

definition convert_additional_resources :: "converter \<Rightarrow> string \<Rightarrow> dict \<Rightarrow> dict result" where
  "convert_additional_resources C section_name =
     convert_single_field C (cluster_section_name C) (''additional_cfn_template'', section_name, Get)"

section \<open>The head node\<close>

definition convert_instance_type :: "converter \<Rightarrow> string \<Rightarrow> dict \<Rightarrow> dict result" where
  "convert_instance_type C param_name headnode = rmap (\<lambda>instance_type.
     AList.update ''InstanceType'' (VStr (if given_text instance_type then the instance_type else ''t3.micro'')) headnode)
     (cluster_config_get C param_name)"

definition convert_proxy :: "converter \<Rightarrow> dict \<Rightarrow> dict result" where
  "convert_proxy C networking = rmap (\<lambda>proxy. add_if ''Proxy'' (VDict proxy) networking)
     (convert_cluster_fields C [(''proxy_server'', ''HttpProxyAddress'', Get)] [])"

text \<open>The values of an option of the VPC section, as a list of at most one.\<close>

definition vpc_values :: "converter \<Rightarrow> string \<Rightarrow> pyval list result" where
  "vpc_values C option = (if vpc_section_label C = [] then Inr []
     else rmap (append_if []) (config_get C (vpc_section_label C) option))"

definition convert_networking :: "converter \<Rightarrow> dict \<Rightarrow> dict result" where
  "convert_networking C headnode =
     rbind (if vpc_section_label C = [] then Inr []
            else convert_fields C (vpc_section_label C)
              [(''master_subnet_id'', ''SubnetId'', Get), (''use_public_ips'', ''ElasticIp'', Getboolean)] []) (\<lambda>networking.
     rbind (vpc_values C ''vpc_security_group_id'') (\<lambda>security_groups.
     rbind (vpc_values C ''additional_sg'') (\<lambda>additional_security_groups.
     rmap (\<lambda>networking.
       add_if ''Networking'' (VDict (add_if ''AdditionalSecurityGroups'' (VList additional_security_groups)
         (add_if ''SecurityGroups'' (VList security_groups) networking))) headnode)
       (convert_proxy C networking))))"

definition convert_disable_hyperthreading :: "converter \<Rightarrow> dict \<Rightarrow> dict result" where
  "convert_disable_hyperthreading C = convert_single_field C (cluster_section_name C)
     (''disable_hyperthreading'', ''DisableSimultaneousMultithreading'', Getboolean)"

definition convert_ssh :: "converter \<Rightarrow> dict \<Rightarrow> dict result" where
  "convert_ssh C headnode =
     rbind (convert_cluster_fields C [(''key_name'', ''KeyName'', Get)] []) (\<lambda>ssh.
     rmap (\<lambda>ssh. add_if ''Ssh'' (VDict ssh) headnode)
       (convert_single_field C (vpc_section_label C) (''ssh_from'', ''AllowedIps'', Get) ssh))"

definition convert_local_storage :: "converter \<Rightarrow> string \<Rightarrow> dict \<Rightarrow> dict result" where
  "convert_local_storage C volume_param headnode =
     rbind (convert_cluster_fields C [(volume_param, ''Size'', Getint)] []) (\<lambda>root_volume.
     rmap (\<lambda>ephemeral_volume.
       add_if ''LocalStorage'' (VDict (add_if ''EphemeralVolume'' (VDict ephemeral_volume)
         (add_if ''RootVolume'' (VDict root_volume) []))) headnode)
       (convert_cluster_fields C [(''ephemeral_dir'', ''MountDir'', Get)] []))"

text \<open>\<open>config_parser.get(section, option)\<close> without a fallback.\<close>

definition config_required :: "converter \<Rightarrow> string \<Rightarrow> string \<Rightarrow> string result" where
  "config_required C section option = (case section_options (config_parser C) section of
      None \<Rightarrow> Inl (Exc ''NoSectionError'' (''No section: '' @ repr_str section))
    | Some vars \<Rightarrow> rbind (config_get C section option) (\<lambda>v. case v of
        Some s \<Rightarrow> Inr s
      | None \<Rightarrow> Inl (Exc ''NoOptionError'' (''No option '' @ repr_str option @ '' in section: '' @ repr_str section))))"

definition convert_dcv :: "converter \<Rightarrow> dict \<Rightarrow> dict result" where
  "convert_dcv C headnode = rbind (cluster_config_get C ''dcv_settings'') (\<lambda>dcv_settings.
     if \<not> given_text dcv_settings then Inr headnode
     else let section_label = ''dcv '' @ str_strip (the dcv_settings) in
       rbind (config_required C section_label ''enable'') (\<lambda>enable.
       rmap (\<lambda>dcv. add_if ''Dcv'' (VDict dcv) headnode)
         (convert_fields C section_label [(''port'', ''Port'', Getint), (''access_from'', ''AllowedIps'', Get)]
           (if enable = ''master'' then [(''Enabled'', VBool True)] else []))))"

text \<open>\<open>text.split()\<close>.\<close>

definition split_words :: "string \<Rightarrow> string list" where
  "split_words s = filter (\<lambda>w. w \<noteq> []) (split_on (CHR '' '') (map (\<lambda>c. if is_space c then CHR '' '' else c) s))"

definition option_value :: "string option \<Rightarrow> pyval" where
  "option_value v = (case v of None \<Rightarrow> VNone | Some s \<Rightarrow> VStr s)"

text \<open>The arguments of an action: its script comes first, quotation marks are dropped.\<close>

definition action_args :: "converter \<Rightarrow> string \<Rightarrow> string \<Rightarrow> pyval list result" where
  "action_args C script args_param = rbind (cluster_config_get C args_param) (\<lambda>args.
     if \<not> given_text args then Inr []
     else rmap (\<lambda>s. option_value s #
         map VStr (split_words (filter (\<lambda>c. c \<noteq> CHR 0x27 \<and> c \<noteq> CHR 0x22) (the args))))
       (cluster_config_get C script))"

definition convert_custom_action :: "converter \<Rightarrow> dict \<Rightarrow> dict result" where
  "convert_custom_action C headnode =
     rbind (convert_cluster_fields C [(''pre_install'', ''Script'', Get)] []) (\<lambda>on_node_start.
     rbind (convert_cluster_fields C [(''post_install'', ''Script'', Get)] []) (\<lambda>on_node_configured.
     rbind (action_args C ''pre_install'' ''pre_install_args'') (\<lambda>pre_install_args_list.
     rmap (\<lambda>post_install_args_list.
       add_if ''CustomActions'' (VDict
         (add_if ''OnNodeConfigured'' (VDict (add_if ''Args'' (VList post_install_args_list) on_node_configured))
           (add_if ''OnNodeStart'' (VDict (add_if ''Args'' (VList pre_install_args_list) on_node_start)) [])))
         headnode) (action_args C ''post_install'' ''post_install_args''))))"

text \<open>
  \<open>re.match\<close> of \<open>arn:(.*?):s3:::([^\/\*]*)((\/)?(.*))?\<close>: the text after the first \<open>:s3:::\<close> on the line, its part
  before a slash or a star, and what follows on the line.
\<close>

fun after_service :: "string \<Rightarrow> string option" where
  "after_service [] = None"
| "after_service (c # s) =
     (if startswith (c # s) '':s3:::'' then Some (drop 6 (c # s))
      else if c = CHR 0x0A then None else after_service s)"

definition get_bucket_name_and_key :: "string \<Rightarrow> (string \<times> string option) result" where
  "get_bucket_name_and_key resource_arn =
     (if resource_arn = ''*'' then Inr (''*'', None)
      else case (if startswith resource_arn ''arn:'' then after_service (drop 4 resource_arn) else None) of
        None \<Rightarrow> Inl AttributeError
      | Some s \<Rightarrow>
          let stop = (\<lambda>c. c \<noteq> CHR ''/'' \<and> c \<noteq> CHR ''*'');
              bucket = takeWhile stop s;
              rest = dropWhile stop s;
              key = takeWhile (\<lambda>c. c \<noteq> CHR 0x0A) (if startswith rest ''/'' then tl rest else rest) in
          Inr (if key = ''*'' then (if bucket \<noteq> [] then bucket else ''*'', None) else (bucket, Some key)))"

definition s3_access_of :: "bool \<Rightarrow> string \<times> string option \<Rightarrow> pyval" where
  "s3_access_of writes bk = VDict ((if writes then [(''EnableWriteAccess'', VBool True)] else [])
     @ [(''BucketName'', VStr (fst bk))]
     @ (if given_text (snd bk) then [(''KeyName'', VStr (the (snd bk)))] else []))"

definition s3_read_access :: "string option \<Rightarrow> pyval list result" where
  "s3_read_access s3_read_resource =
     (if \<not> given_text s3_read_resource then Inr []
      else rmap (\<lambda>bk. [s3_access_of False bk]) (get_bucket_name_and_key (the s3_read_resource)))"

definition s3_write_access :: "string option \<Rightarrow> pyval list result" where
  "s3_write_access s3_read_write_resource =
     (if \<not> given_text s3_read_write_resource then Inr []
      else rbind (get_bucket_name_and_key (the s3_read_write_resource)) (\<lambda>bk.
        if fst bk = [] then Inl (system_exit (''BucketName is required in '' @
          quoted (''s3_read_write_resource = '' @ the s3_read_write_resource) @ '' for AWS '' @
          ''ParallelCluster version 3 configuration.''))
        else Inr [s3_access_of True bk]))"

definition iam_policies :: "string option \<Rightarrow> pyval list" where
  "iam_policies additional_iam_policies_list =
     (if \<not> given_text additional_iam_policies_list then []
      else map (\<lambda>p. VDict [(''Policy'', VStr (str_strip p))]) (split_on (CHR '','') (the additional_iam_policies_list)))"

definition covert_headnode_iam :: "converter \<Rightarrow> dict \<Rightarrow> dict result" where
  "covert_headnode_iam C headnode =
     rbind (convert_role C ''ec2_iam_role'' ''InstanceRole'' []) (\<lambda>iam.
     rbind (cluster_config_get C ''additional_iam_policies'') (\<lambda>policies.
     rbind (cluster_config_get C ''s3_read_resource'') (\<lambda>s3_read_resource.
     rbind (cluster_config_get C ''s3_read_write_resource'') (\<lambda>s3_read_write_resource.
     rbind (s3_read_access s3_read_resource) (\<lambda>reads.
     rmap (\<lambda>writes.
       add_if ''Iam'' (VDict (add_if ''S3Access'' (VList (reads @ writes))
         (add_if ''AdditionalIamPolicies'' (VList (iam_policies policies)) iam))) headnode)
       (s3_write_access s3_read_write_resource))))))"

definition convert_imds :: "dict \<Rightarrow> dict" where
  "convert_imds headnode = add_if ''Imds'' (VDict []) headnode"

definition convert_headnode :: "converter \<Rightarrow> string \<Rightarrow> dict \<Rightarrow> dict result" where
  "convert_headnode C section_name configuration =
     rbind (convert_instance_type C ''master_instance_type'' []) (\<lambda>headnode.
     rbind (convert_networking C headnode) (\<lambda>headnode.
     rbind (convert_disable_hyperthreading C headnode) (\<lambda>headnode.
     rbind (convert_ssh C headnode) (\<lambda>headnode.
     rbind (convert_local_storage C ''master_root_volume_size'' headnode) (\<lambda>headnode.
     rbind (convert_dcv C headnode) (\<lambda>headnode.
     rbind (convert_custom_action C headnode) (\<lambda>headnode.
     rmap (\<lambda>headnode. add_if section_name (VDict (convert_imds headnode)) configuration)
       (covert_headnode_iam C headnode))))))))"

section \<open>Queues\<close>

definition convert_base_queue_networking :: "converter \<Rightarrow> dict result" where
  "convert_base_queue_networking C =
     rbind (if vpc_section_label C = [] then Inr []
            else rbind (config_get C (vpc_section_label C) ''compute_subnet_id'') (\<lambda>compute_subnet_id.
              vpc_values C (if given_text compute_subnet_id then ''compute_subnet_id'' else ''master_subnet_id''))) (\<lambda>subnet_ids.
     rbind (vpc_values C ''vpc_security_group_id'') (\<lambda>security_groups.
     rmap (\<lambda>additional_security_groups.
       add_if ''AdditionalSecurityGroups'' (VList additional_security_groups)
         (add_if ''SecurityGroups'' (VList security_groups) (add_if ''SubnetIds'' (VList subnet_ids) [])))
       (vpc_values C ''additional_sg'')))"

definition placement_of :: "string option \<Rightarrow> dict" where
  "placement_of placement =
     (if placement = Some ''DYNAMIC'' then [(''Enabled'', VBool True)]
      else if given_text placement then [(''Id'', VStr (the placement))] else [])"

definition convert_slurm_queue_networking :: "converter \<Rightarrow> string \<Rightarrow> dict \<Rightarrow> dict result" where
  "convert_slurm_queue_networking C queue_section queue =
     rbind (convert_base_queue_networking C) (\<lambda>networking.
     rbind (config_get C queue_section ''placement_group'') (\<lambda>placement.
     rmap (\<lambda>networking. add_if ''Networking'' (VDict networking) queue)
       (convert_proxy C (add_if ''PlacementGroup'' (VDict (placement_of placement)) networking))))"

definition convert_slurm_compute_settings :: "converter \<Rightarrow> dict \<Rightarrow> dict result" where
  "convert_slurm_compute_settings C queue =
     rmap (\<lambda>compute_settings. add_if ''ComputeSettings'' (VDict compute_settings) queue)
       (convert_local_storage C ''compute_root_volume_size'' [])"

text \<open>The capacity type of a queue, in capitals.\<close>

definition convert_capacity_type :: "converter \<Rightarrow> string \<Rightarrow> string \<Rightarrow> dict \<Rightarrow> dict result" where
  "convert_capacity_type C section option queue =
     rmap (\<lambda>queue. case map_of queue ''CapacityType'' of
         Some (VStr s) \<Rightarrow> AList.update ''CapacityType'' (VStr (upper_text s)) queue
       | _ \<Rightarrow> queue)
       (convert_single_field C section (option, ''CapacityType'', Get) queue)"

definition cluster_efa :: "converter \<Rightarrow> dict result" where
  "cluster_efa C =
     rbind (cluster_config_get C ''enable_efa'') (\<lambda>enable_efa.
     rmap (\<lambda>enable_efa_gdr.
       (if enable_efa = Some ''compute'' then [(''Enabled'', VBool True)] else [])
       @ (if enable_efa_gdr = Some ''compute'' then [(''GdrSupport'', VBool True)] else []))
       (cluster_config_get C ''enable_efa_gdr''))"

definition convert_single_slurm_compute_resource :: "converter \<Rightarrow> string \<Rightarrow> string \<Rightarrow> pyval result" where
  "convert_single_slurm_compute_resource C queue_section compute_resource_label =
     (let compute_resource_name = str_strip compute_resource_label;
          compute_resource_section = ''compute_resource '' @ compute_resource_name in
      rbind (cluster_efa C) (\<lambda>efa.
      rbind (convert_fields C compute_resource_section
        [(''instance_type'', ''InstanceType'', Get), (''min_count'', ''MinCount'', Getint),
         (''max_count'', ''MaxCount'', Getint), (''spot_price'', ''SpotPrice'', Getfloat)]
        [(''Name'', VStr compute_resource_name)]) (\<lambda>compute_resource.
      rbind (convert_single_field C queue_section
        (''disable_hyperthreading'', ''DisableSimultaneousMultithreading'', Getboolean) compute_resource) (\<lambda>compute_resource.
      rbind (convert_fields C queue_section
        [(''enable_efa'', ''Enabled'', Getboolean), (''enable_efa_gdr'', ''GdrSupport'', Getboolean)] efa) (\<lambda>efa.
      rbind (get_attribute C Getboolean queue_section ''disable_hyperthreading'') (\<lambda>hyperthreading.
      rmap (\<lambda>compute_resource. VDict (add_if ''Efa'' (VDict efa) compute_resource))
        (if hyperthreading = None then convert_disable_hyperthreading C compute_resource else Inr compute_resource)))))))"

definition convert_slurm_compute_resources :: "converter \<Rightarrow> string \<Rightarrow> dict \<Rightarrow> dict result" where
  "convert_slurm_compute_resources C queue_section queue =
     rbind (config_get C queue_section ''compute_resource_settings'') (\<lambda>settings. case settings of
        None \<Rightarrow> Inl AttributeError
      | Some labels \<Rightarrow> rmap (\<lambda>compute_resources. add_if ''ComputeResources'' (VList compute_resources) queue)
          (rmap_list (convert_single_slurm_compute_resource C queue_section) (split_on (CHR '','') labels)))"

definition convert_single_slurm_queue :: "converter \<Rightarrow> string \<Rightarrow> pyval result" where
  "convert_single_slurm_queue C queue_label =
     (let queue_name = str_strip queue_label; queue_section = ''queue '' @ queue_name in
      rbind (convert_capacity_type C queue_section ''compute_type'' [(''Name'', VStr queue_name)]) (\<lambda>queue.
      rbind (convert_slurm_compute_resources C queue_section queue) (\<lambda>queue.
      rbind (convert_custom_action C queue) (\<lambda>queue.
      rbind (covert_headnode_iam C queue) (\<lambda>queue.
      rbind (convert_slurm_queue_networking C queue_section queue) (\<lambda>queue.
      rmap VDict (convert_slurm_compute_settings C queue)))))))"

section \<open>Messages about single fields\<close>

datatype concern = Ignored | Need_remove | Ambiguous | Dev_settings

definition validate_single_field :: "string \<times> string \<times> concern \<Rightarrow> (converter, unit) act" where
  "validate_single_field item = (case item of (section, field, concern) \<Rightarrow>
     bind_act (asking (\<lambda>C. reading (\<lambda>_. config_get C section field))) (\<lambda>found.
     if \<not> given_text found then unit_act ()
     else let shown = field @ '' = '' @ the found in
       case concern of
         Ignored \<Rightarrow> and_then (add_comment (''# '' @ shown @ '' is ignored\<newline>''))
           (warn (''Parameter '' @ shown @ '' is no longer supported. Ignoring it during conversion.''))
       | Need_remove \<Rightarrow> raise_act (system_exit (''Parameter '' @ shown @
           '' is no longer supported. Please remove it and run the converter again.''))
       | Ambiguous \<Rightarrow> warn (shown @ '' is added to both headnode and scheduling sections. Please review the '' @
           ''configuration file after conversion and decide whether to further trim down the permissions and specialize.'')
       | Dev_settings \<Rightarrow> asking (\<lambda>C.
           if force_convert C
           then and_then (add_comment (''# '' @ shown @ '' is not officially supported and not recommended\<newline>''))
             (warn (''Parameter '' @ shown @ '' is no longer supported. Ignoring it during conversion.''))
           else raise_act (system_exit (field @ '' is not officially supported and not recommended. If you want to proceed with '' @
             ''conversion, please specify `--force-convert` and rerun the command'')))))"

section \<open>Scheduling\<close>

definition sit_fields :: "(string \<times> string \<times> getter) list" where
  "sit_fields = [(''spot_price'', ''SpotPrice'', Getfloat), (''max_queue_size'', ''MaxCount'', Getint),
     (''disable_hyperthreading'', ''DisableSimultaneousMultithreading'', Getboolean)]"

text \<open>The initial size of the single queue, when it is positive or negative and is to be maintained.\<close>

definition maintained_size :: "converter \<Rightarrow> int option result" where
  "maintained_size C =
     rbind (get_attribute C Getint (cluster_section_name C) ''initial_queue_size'') (\<lambda>initial_queue_size.
     rmap (\<lambda>maintain_initial_size.
       case (initial_queue_size, maintain_initial_size) of
         (Some (VInt n), Some (VBool True)) \<Rightarrow> if n \<noteq> 0 then Some n else None
       | _ \<Rightarrow> None)
       (get_attribute C Getboolean (cluster_section_name C) ''maintain_initial_size''))"

definition convert_slurm_sit_compute_resources :: "dict \<Rightarrow> (converter, dict) act" where
  "convert_slurm_sit_compute_resources queue = asking (\<lambda>C.
     bind_act (reading (\<lambda>_. convert_cluster_fields C sit_fields [(''Name'', VStr ''default-resource'')])) (\<lambda>compute_resource.
     bind_act (reading (\<lambda>_. maintained_size C)) (\<lambda>min_count.
     and_then (when_act (min_count = None) (validate_single_field (cluster_section_name C, ''initial_queue_size'', Ignored)))
       (reading (\<lambda>_.
         rbind (convert_instance_type C ''compute_instance_type''
           (case min_count of None \<Rightarrow> compute_resource
            | Some n \<Rightarrow> AList.update ''MinCount'' (VInt n) compute_resource)) (\<lambda>compute_resource.
         rmap (\<lambda>efa. add_if ''ComputeResources'' (VList [VDict (add_if ''Efa'' (VDict efa) compute_resource)]) queue)
           (cluster_efa C)))))))"

definition convert_sit_queue :: "dict \<Rightarrow> string \<Rightarrow> (converter, dict) act" where
  "convert_sit_queue scheduling param = asking (\<lambda>C.
     bind_act (reading (\<lambda>_.
       rbind (convert_slurm_compute_settings C [(''Name'', VStr ''default-queue'')]) (\<lambda>queue.
       rbind (convert_capacity_type C (cluster_section_name C) ''cluster_type'' queue) (\<lambda>queue.
       rbind (convert_custom_action C queue) (\<lambda>queue.
       rbind (covert_headnode_iam C queue) (\<lambda>queue.
         convert_slurm_queue_networking C (cluster_section_name C) queue)))))) (\<lambda>queue.
     bind_act (convert_slurm_sit_compute_resources queue) (\<lambda>queue.
     unit_act (add_if param (VList [VDict queue]) scheduling))))"

definition convert_slurm_queues :: "dict \<Rightarrow> string \<Rightarrow> (converter, dict) act" where
  "convert_slurm_queues scheduling param = asking (\<lambda>C.
     bind_act (reading (\<lambda>_. cluster_config_get C ''queue_settings'')) (\<lambda>queue_settings.
     if \<not> given_text queue_settings then convert_sit_queue scheduling param
     else reading (\<lambda>_. rmap (\<lambda>slurm_queues. add_if param (VList slurm_queues) scheduling)
       (rmap_list (convert_single_slurm_queue C) (split_on (CHR '','') (the queue_settings))))))"

definition convert_slurm_settings :: "converter \<Rightarrow> string \<Rightarrow> dict \<Rightarrow> dict result" where
  "convert_slurm_settings C section_name scheduling =
     rbind (convert_named_section C ''scaling_settings'' ''scaling''
       [(''scaledown_idletime'', ''ScaledownIdletime'', Getint)]) (\<lambda>slurm_settings.
     rmap (\<lambda>dns. add_if section_name (VDict (add_if ''Dns'' (VDict dns) slurm_settings)) scheduling)
       (convert_cluster_fields C [(''disable_cluster_dns'', ''DisableManagedDns'', Getboolean)] []))"

definition convert_scheduling :: "string \<Rightarrow> dict \<Rightarrow> (converter, dict) act" where
  "convert_scheduling section_name configuration = asking (\<lambda>C.
     bind_act (reading (\<lambda>_.
       rbind (convert_cluster_fields C [(''scheduler'', ''Scheduler'', Get)] []) (\<lambda>scheduling.
         convert_slurm_settings C ''SlurmSettings'' scheduling))) (\<lambda>scheduling.
     bind_act (convert_slurm_queues scheduling ''SlurmQueues'') (\<lambda>scheduling.
     unit_act (add_if section_name (VDict scheduling) configuration))))"

text \<open>The sections in the order of \<open>convert_function_mappings\<close>, each added to the configuration.\<close>

definition pure_section :: "(converter \<Rightarrow> string \<Rightarrow> dict \<Rightarrow> dict result) \<Rightarrow> string \<Rightarrow> dict \<Rightarrow> (converter, dict) act" where
  "pure_section convert_function section_name configuration =
     asking (\<lambda>C. reading (\<lambda>_. convert_function C section_name configuration))"

definition add_section :: "(string \<Rightarrow> dict \<Rightarrow> (converter, dict) act) \<Rightarrow> string \<Rightarrow> (converter, unit) act" where
  "add_section convert_function section_name = asking (\<lambda>C.
     bind_act (convert_function section_name (pcluster3_configuration C)) (\<lambda>configuration.
     modify (\<lambda>C. C\<lparr>pcluster3_configuration := configuration\<rparr>)))"

definition convert_function_mappings :: "(string \<times> (string \<Rightarrow> dict \<Rightarrow> (converter, dict) act)) list" where
  "convert_function_mappings =
     [(''Region'', pure_section convert_region), (''Image'', pure_section convert_image),
      (''CustomS3Bucket'', pure_section convert_custom_s3_bucket),
      (''AdditionalResources'', pure_section convert_additional_resources), (''Iam'', pure_section convert_iam),
      (''AdditionalPackages'', pure_section convert_additional_packages), (''Tags'', pure_section convert_tags),
      (''SharedStorage'', pure_section convert_shared_storage), (''Monitoring'', pure_section convert_monitoring),
      (''HeadNode'', pure_section convert_headnode), (''Scheduling'', convert_scheduling),
      (''DevSettings'', pure_section convert_dev_settings)]"

definition convert_to_pcluster3_config :: "(converter, unit) act" where
  "convert_to_pcluster3_config = each (\<lambda>(section_name, convert_function). add_section convert_function section_name)
     convert_function_mappings"

section \<open>Validation of the old configuration\<close>

definition init_config_parser :: "string \<Rightarrow> py_exn + ini \<Rightarrow> (converter, unit) act" where
  "init_config_parser config_file parsed = (case parsed of
      Inr f \<Rightarrow> modify (\<lambda>C. C\<lparr>config_parser := f\<rparr>)
    | Inl (Exc cls message) \<Rightarrow> raise_act (if cls \<in> {''ParsingError'', ''MissingSectionHeaderError'', ''DuplicateOptionError''}
        then system_exit (''Error parsing configuration file '' @ config_file @ ''.\<newline>'' @ message)
        else Exc cls message)
    | Inl e \<Rightarrow> raise_act e)"

definition with_config :: "(converter \<Rightarrow> 'a result) \<Rightarrow> (converter, 'a) act" where
  "with_config r = asking (\<lambda>C. reading (\<lambda>_. r C))"

definition use_cluster_section :: "string \<Rightarrow> (converter, unit) act" where
  "use_cluster_section name = modify (\<lambda>C. C\<lparr>cluster_section_name := name\<rparr>)"

definition validate_cluster_section_name :: "(converter, unit) act" where
  "validate_cluster_section_name = asking (\<lambda>C.
     and_then
       (if given_text (cluster_label C) then use_cluster_section (''cluster '' @ the (cluster_label C))
        else bind_act (with_config (\<lambda>C. config_get C ''global'' ''cluster_template'')) (\<lambda>cluster_template.
          if given_text cluster_template then use_cluster_section (''cluster '' @ the cluster_template)
          else if map_of (ini_sections (config_parser C)) ''cluster default'' \<noteq> None then use_cluster_section ''cluster default''
          else raise_act (system_exit ''Can not find a valid cluster section.'')))
       (asking (\<lambda>C. if map_of (ini_sections (config_parser C)) (cluster_section_name C) \<noteq> None then unit_act ()
          else raise_act (system_exit ''The specified cluster section is not in the configuration.''))))"

definition validate_vpc_settings :: "(converter, unit) act" where
  "validate_vpc_settings = bind_act (with_config (\<lambda>C. cluster_config_get C ''vpc_settings'')) (\<lambda>vpc_settings.
     if given_text vpc_settings
     then modify (\<lambda>C. C\<lparr>vpc_section_label := ''vpc '' @ str_strip (the vpc_settings)\<rparr>)
     else raise_act (system_exit ''Missing vpc_settings in the configuration file.''))"

definition validate_scheduler :: "(converter, unit) act" where
  "validate_scheduler = bind_act (with_config (\<lambda>C. cluster_config_get C ''scheduler'')) (\<lambda>scheduler.
     if \<not> given_text scheduler then raise_act (system_exit ''scheduler must be provided in the config.'')
     else if the scheduler \<in> {''sge'', ''torque'', ''awsbatch''} then raise_act (system_exit
       (''The provided scheduler is no longer supported in AWS ParallelCluster version 3, please check '' @
        ''https://docs.aws.amazon.com/parallelcluster/latest/ug/schedulers-v3.html for supported schedulers.''))
     else if the scheduler \<noteq> ''slurm'' then raise_act (system_exit (''Wrong value for scheduler: '' @ the scheduler @ ''.''))
     else unit_act ())"

definition encryption_note :: string where
  "encryption_note = ''Volume encrypted defaults to True in AWS ParallelCluster version 3 while it defaults to False in AWS '' @
     ''ParallelCluster version 2.''"

definition imds_note :: string where
  "imds_note = ''In AWS ParallelCluster version 3, access to the Instance Metadata Service(IMDS) on the head node is '' @
     ''restricted to the cluster administrator. If additional users required access to IMDS, you can set '' @
     ''HeadNode/Imds/Secured to False.''"

definition validate_required_fields :: "(converter, unit) act" where
  "validate_required_fields =
     and_then (add_comment (''# '' @ encryption_note @ ''\<newline>'')) (
     and_then (note_message encryption_note) (
     bind_act (with_config (\<lambda>C. cluster_config_get C ''scheduler'')) (\<lambda>scheduler.
     and_then (when_act (scheduler = Some ''slurm'')
       (and_then (note_message imds_note) (add_comment (''# '' @ imds_note @ ''\<newline>''))))
     validate_scheduler)))"

definition validate_deprecated_fields :: "(converter, unit) act" where
  "validate_deprecated_fields = asking (\<lambda>C.
     and_then (each validate_single_field
       [(vpc_section_label C, ''vpc_id'', Ignored), (vpc_section_label C, ''compute_subnet_cidr'', Need_remove),
        (''global'', ''update_check'', Ignored), (''aliases'', ''ssh'', Ignored),
        (cluster_section_name C, ''encrypted_ephemeral'', Ignored)]) (
     bind_act (with_config (\<lambda>C. get_attribute C Getboolean ''global'' ''sanity_check'')) (\<lambda>sanity_check.
     when_act (sanity_check = Some (VBool False))
       (and_then (warn (''Parameter sanity_check = false is no longer supported, please specify `--suppress-validators ALL` '' @
          ''during cluster creation.''))
        (add_comment ''# sanity_check = false is ignored\<newline>'')))))"

definition validate_ambiguous_fields :: "(converter, unit) act" where
  "validate_ambiguous_fields = asking (\<lambda>C. each validate_single_field
     (map (\<lambda>field. (cluster_section_name C, field, Ambiguous))
        [''additional_iam_policies'', ''s3_read_write_resource'', ''s3_read_resource'', ''disable_hyperthreading'',
         ''pre_install'', ''post_install'', ''proxy_server'']
      @ map (\<lambda>field. (vpc_section_label C, field, Ambiguous)) [''additional_sg'', ''vpc_security_group_id'']))"

definition given_params :: "converter \<Rightarrow> string list \<Rightarrow> string list result" where
  "given_params C params = rmap concat (rmap_list (\<lambda>param.
     rmap (\<lambda>v. if given_text v then [param] else []) (cluster_config_get C param)) params)"

definition dev_params :: "string list" where
  "dev_params = [''extra_json'', ''custom_chef_cookbook'', ''template_url'', ''instance_types_data'']"

definition validate_dev_settings :: "(converter, unit) act" where
  "validate_dev_settings = bind_act (with_config (\<lambda>C. given_params C dev_params)) (\<lambda>dev_settings.
     if dev_settings = [] then unit_act ()
     else let shown = ''['' @ join '', '' (map repr_str dev_settings) @ '']'' in
       asking (\<lambda>C. if force_convert C
         then and_then (warn (''Parameters '' @ shown @ '' are not officially supported and not recommended.\<newline>''))
           (add_comment (''# The configuration parameters under DevSettings are not officially supported and their name or '' @
              ''structure may change\<newline># over time without any commitment to be backward compatible.\<newline>''))
         else raise_act (system_exit (shown @ '' are not officially supported and not recommended. If you want to proceed with '' @
           ''conversion, please specify `--force-convert` and rerun the command.''))))"

definition warn_and_comment :: "string \<Rightarrow> (converter, unit) act" where
  "warn_and_comment message = and_then (warn message) (add_comment (''# '' @ message @ ''\<newline>''))"

definition validate_default_name :: "string \<Rightarrow> string \<Rightarrow> (converter, unit) act" where
  "validate_default_name name section = when_act (name = ''default'')
     (warn_and_comment (quoted ''default'' @ '' is not allowed as a section name for '' @ quoted section @
        '' in AWS ParallelCluster Version 3. ''))"

definition validate_underscore_in_name :: "string \<Rightarrow> string \<Rightarrow> (converter, unit) act" where
  "validate_underscore_in_name name section = when_act (CHR ''_'' \<in> set name)
     (warn_and_comment (quoted ''_'' @ '' is not allowed in the name of '' @ quoted section @
        ''. Please rename it before cluster creation.''))"

definition validate_duplicate_names :: "string \<Rightarrow> (converter, unit) act" where
  "validate_duplicate_names label = asking (\<lambda>C.
     if label \<in> set (convert_shared_storage_name C)
     then warn_and_comment (''Duplicate names '' @ quoted label @
       '' are not allowed in the SharedStorage section. Please change them before cluster creation.'')
     else modify (\<lambda>C. C\<lparr>convert_shared_storage_name := convert_shared_storage_name C @ [label]\<rparr>))"

definition validate_shared_storages_name :: "(converter, unit) act" where
  "validate_shared_storages_name = each (\<lambda>(setting, section).
     bind_act (with_config (\<lambda>C. cluster_config_get C setting)) (\<lambda>labels.
     if \<not> given_text labels then unit_act ()
     else each (\<lambda>label. and_then (validate_duplicate_names (str_strip label))
            (validate_default_name (str_strip label) (section @ '' '' @ str_strip label)))
       (split_on (CHR '','') (the labels))))
     [(''ebs_settings'', ''ebs''), (''fsx_settings'', ''fsx''), (''raid_settings'', ''raid'')]"

text \<open>A name that is checked for both forms; the compute resources of a queue.\<close>

definition validate_name :: "string \<Rightarrow> string \<Rightarrow> (converter, unit) act" where
  "validate_name name section = and_then (validate_default_name name section) (validate_underscore_in_name name section)"

definition validate_compute_resource :: "string \<Rightarrow> (converter, unit) act" where
  "validate_compute_resource label =
     (let name = str_strip label; section = ''compute_resource '' @ name in
      and_then (validate_name name section) (validate_single_field (section, ''initial_count'', Ignored)))"

text \<open>The loop over the queues ends at the first one without compute resources.\<close>

fun validate_queues :: "string list \<Rightarrow> (converter, unit) act" where
  "validate_queues [] = unit_act ()"
| "validate_queues (queue_label # rest) =
     (let name = str_strip queue_label; section = ''queue '' @ name in
      and_then (validate_name name section) (
      bind_act (with_config (\<lambda>C. config_get C section ''compute_resource_settings'')) (\<lambda>settings.
      if \<not> given_text settings then unit_act ()
      else and_then (each validate_compute_resource (split_on (CHR '','') (the settings))) (validate_queues rest))))"

definition validate_slurm_queues :: "(converter, unit) act" where
  "validate_slurm_queues = bind_act (with_config (\<lambda>C. cluster_config_get C ''scheduler'')) (\<lambda>scheduler.
     if scheduler \<noteq> Some ''slurm'' then unit_act ()
     else bind_act (with_config (\<lambda>C. cluster_config_get C ''queue_settings'')) (\<lambda>queue_settings.
       if \<not> given_text queue_settings then unit_act ()
       else validate_queues (split_on (CHR '','') (the queue_settings))))"

definition default_ebs_note :: string where
  "default_ebs_note =
     ''The default setup of AWS ParallelCluster version 2 uses an EBS volume to share the /shared directory '' @
     ''over NFS. This configuration utility preserves this behavior by default. If you do not need the '' @
     ''/shared directory, you can remove the default-ebs from the SharedStorage section of your configuration.''"

definition validate_default_ebs :: "(converter, unit) act" where
  "validate_default_ebs = bind_act (with_config (\<lambda>C. cluster_config_get C ''ebs_settings'')) (\<lambda>ebs_settings.
     when_act (\<not> given_text ebs_settings)
       (and_then (note_message default_ebs_note) (add_comment (''# '' @ default_ebs_note @ ''\<newline>''))))"

definition validate_old_config :: "(converter, unit) act" where
  "validate_old_config = each (\<lambda>m. m)
     [validate_cluster_section_name, validate_vpc_settings, validate_required_fields, validate_deprecated_fields,
      validate_ambiguous_fields, validate_dev_settings, validate_shared_storages_name, validate_slurm_queues,
      validate_default_ebs]"

section \<open>A run\<close>

definition new_converter :: "surroundings \<Rightarrow> bool \<Rightarrow> string option \<Rightarrow> converter" where
  "new_converter S force label = surroundings.extend S
     \<lparr>config_parser = \<lparr>ini_sections = [], ini_defaults = []\<rparr>, force_convert = force, cluster_label = label,
      pcluster3_configuration = [], convert_shared_storage_name = [], cluster_section_name = [], vpc_section_label = [],
      comments = [], printed = []\<rparr>"

text \<open>
  \<open>convert\<close> up to the writing of the result: \<open>SystemExit\<close> ends the program as it is, any other exception is
  printed, with its format unexpanded, and ends the program with status 1.
\<close>

fun exn_class :: "py_exn \<Rightarrow> string" where
  "exn_class AttributeError = ''AttributeError''"
| "exn_class TypeError = ''TypeError''"
| "exn_class KeyError = ''KeyError''"
| "exn_class IndexError = ''IndexError''"
| "exn_class ValueError = ''ValueError''"
| "exn_class (Exc cls message) = cls"

definition convert :: "string \<Rightarrow> py_exn + ini \<Rightarrow> (converter, unit) act" where
  "convert config_file parsed = handling
     (and_then (init_config_parser config_file parsed) (and_then validate_old_config convert_to_pcluster3_config))
     (\<lambda>e. if exn_class e = ''SystemExit'' then raise_act e
          else and_then (print_line (''Unexpected error of type %s: %s '' @ exn_class e @ '' '' @ exn_text e))
            (raise_act (Exc ''SystemExit'' ''1'')))"

end
