(* ===== verification/ConverterFacts.thy ===== *)
theory ConverterFacts
  imports ConfigConverter SchemaFacts
begin

text \<open>
  What the converter of theory ConfigConverter guarantees: the interpolation of values, the storages and queues
  it writes, what the validation lets through, and that the configuration it writes has the keys and the types
  that the schema of version 3 declares.
\<close>

section \<open>Interpolation\<close>

definition escape_percent :: "string \<Rightarrow> string" where
  "escape_percent s = concat (map (\<lambda>c. if c = CHR ''%'' then ''%%'' else [c]) s)"

lemma escape_percent_simps [simp]:
  "escape_percent [] = []"
  "escape_percent (c # s) = (if c = CHR ''%'' then c # c # escape_percent s else c # escape_percent s)"
  by (simp_all add: escape_percent_def)

text \<open>An escaped text is read back, at any nesting that is left.\<close>

lemma interpolation_round_trip: "0 < n \<Longrightarrow> interpolate_some l n (escape_percent s) = Inr s"
  by (induction s) auto

lemma plain_interpolation: "CHR ''%'' \<notin> set s \<Longrightarrow> 0 < n \<Longrightarrow> interpolate_some l n s = Inr s"
  by (induction s) auto

text \<open>A value without a percent sign is read as it stands.\<close>

definition plain_ini :: "ini \<Rightarrow> bool" where
  "plain_ini f \<longleftrightarrow> (\<forall>s vars k v. section_options f s = Some vars \<longrightarrow> map_of vars k = Some v \<longrightarrow> CHR ''%'' \<notin> set v)"

definition raw_value :: "ini \<Rightarrow> string \<Rightarrow> string \<Rightarrow> string option" where
  "raw_value f section option = Option.bind (section_options f section) (\<lambda>vars. map_of vars option)"

lemma ini_get_plain: "plain_ini f \<Longrightarrow> ini_get f s k = Inr (raw_value f s k)"
  unfolding ini_get_def raw_value_def plain_ini_def
  by (auto split: option.splits simp: plain_interpolation MAX_INTERPOLATION_DEPTH_def)

section \<open>Conforming to a schema\<close>

fun fields_of :: "decl list \<Rightarrow> (string \<times> kind) list" where
  "fields_of [] = []"
| "fields_of (Simple_field name data_key kind required validators policy # S) =
     (on_bind_field name data_key, kind) # fields_of S"
| "fields_of (Nested_field name data_key many required policy update_key schema # S) = fields_of S"

fun sections_of :: "decl list \<Rightarrow> (string \<times> bool \<times> decl list) list" where
  "sections_of [] = []"
| "sections_of (Simple_field name data_key kind required validators policy # S) = sections_of S"
| "sections_of (Nested_field name data_key many required policy update_key schema # S) =
     (on_bind_field name data_key, many, schema) # sections_of S"

fun kind_fits :: "kind \<Rightarrow> pyval \<Rightarrow> bool" where
  "kind_fits FStr v = (\<exists>s. v = VStr s)"
| "kind_fits FInt v = (\<exists>i. v = VInt i)"
| "kind_fits FBool v = (\<exists>b. v = VBool b)"
| "kind_fits FFloat v = (\<exists>t. v = VFloat t)"
| "kind_fits FRaw v = True"
| "kind_fits FDict v = is_dict v"
| "kind_fits (FList k validators) v = (\<exists>xs. v = VList xs \<and> list_all (kind_fits k) xs)"

text \<open>
  \<open>fits S v\<close>: \<open>v\<close> is a section in which every key is declared by \<open>S\<close> and has a value of the declared kind, down to
  the nested sections; \<open>fits_many\<close> is the same of a list of sections.
\<close>

fun fits :: "decl list \<Rightarrow> pyval \<Rightarrow> bool" and fits_many :: "decl list \<Rightarrow> pyval \<Rightarrow> bool" where
  "fits S (VDict d) = (\<forall>kv \<in> set d.
     (\<exists>k \<in> set (fields_of S). fst k = fst kv \<and> kind_fits (snd k) (snd kv))
     \<or> (\<exists>n \<in> set (sections_of S). fst n = fst kv
          \<and> (if fst (snd n) then fits_many (snd (snd n)) (snd kv) else fits (snd (snd n)) (snd kv))))"
| "fits S _ = False"
| "fits_many S (VList xs) = (\<forall>x \<in> set xs. fits S x)"
| "fits_many S _ = False"

text \<open>Adding a declared key.\<close>

definition declared :: "decl list \<Rightarrow> string \<Rightarrow> pyval \<Rightarrow> bool" where
  "declared S key v \<longleftrightarrow> (\<exists>k \<in> set (fields_of S). fst k = key \<and> kind_fits (snd k) v)
     \<or> (\<exists>n \<in> set (sections_of S). fst n = key \<and> (if fst (snd n) then fits_many (snd (snd n)) v else fits (snd (snd n)) v))"

lemma fits_dict: "fits S (VDict d) \<longleftrightarrow> (\<forall>kv \<in> set d. declared S (fst kv) (snd kv))"
  by (simp add: declared_def)

lemmas fits_simps = fits_dict fits_many.simps
declare fits.simps(1) [simp del]

lemma update_subset: "set (AList.update k v d) \<subseteq> insert (k, v) (set d)"
  by (induction d) auto

lemma fits_update: "fits S (VDict d) \<Longrightarrow> declared S k v \<Longrightarrow> fits S (VDict (AList.update k v d))"
  using update_subset[of k v d] unfolding fits_dict by fastforce

lemma fits_add_if: "fits S (VDict d) \<Longrightarrow> (truthy v \<Longrightarrow> declared S k v) \<Longrightarrow> fits S (VDict (add_if k v d))"
  by (simp add: add_if_def fits_update)

lemma fits_empty [simp]: "fits S (VDict [])"
  by (simp add: fits_dict)

lemma declared_section: "(k, False, S') \<in> set (sections_of S) \<Longrightarrow> fits S' v \<Longrightarrow> declared S k v"
  and declared_sections: "(k, True, S') \<in> set (sections_of S) \<Longrightarrow> fits_many S' v \<Longrightarrow> declared S k v"
  and declared_field: "(k, kd) \<in> set (fields_of S) \<Longrightarrow> kind_fits kd v \<Longrightarrow> declared S k v"
  by (force simp: declared_def)+

lemma fits_add_section:
  "fits S (VDict d) \<Longrightarrow> (k, False, S') \<in> set (sections_of S) \<Longrightarrow> fits S' v \<Longrightarrow> fits S (VDict (add_if k v d))"
  and fits_add_sections:
  "fits S (VDict d) \<Longrightarrow> (k, True, S') \<in> set (sections_of S) \<Longrightarrow> fits_many S' v \<Longrightarrow> fits S (VDict (add_if k v d))"
  and fits_add_field:
  "fits S (VDict d) \<Longrightarrow> (k, kd) \<in> set (fields_of S) \<Longrightarrow> kind_fits kd v \<Longrightarrow> fits S (VDict (add_if k v d))"
  by (auto intro: fits_add_if declared_section declared_sections declared_field)

text \<open>The kinds that the values of a conversion function have.\<close>

fun accepts :: "kind \<Rightarrow> getter \<Rightarrow> bool" where
  "accepts FStr g = (g = Get)"
| "accepts FInt g = (g = Getint)"
| "accepts FBool g = (g = Getboolean)"
| "accepts FFloat g = (g = Getfloat)"
| "accepts FRaw g = True"
| "accepts _ g = False"

definition takes :: "decl list \<Rightarrow> string \<times> string \<times> getter \<Rightarrow> bool" where
  "takes S field \<longleftrightarrow> list_ex (\<lambda>k. fst k = fst (snd field) \<and> accepts (snd k) (snd (snd field))) (fields_of S)"

lemma parse_with_fits: "parse_with C g s = Inr v \<Longrightarrow> accepts kd g \<Longrightarrow> kind_fits kd v"
  by (cases g; cases kd) (auto simp: rmap_Inr_iff split: option.splits)

lemma converted_field:
  assumes "convert_single_field C sec field d = Inr d'" and "fits S (VDict d)" and "takes S field"
  shows "fits S (VDict d')"
proof -
  obtain a k g where f: "field = (a, k, g)" by (cases field)
  from assms(3) obtain kd where kd: "(k, kd) \<in> set (fields_of S)" "accepts kd g"
    by (auto simp: takes_def f list_ex_iff)
  from assms(1) consider "d' = d" | v s where "d' = AList.update k v d" "parse_with C g s = Inr v"
    by (auto simp: convert_single_field_def f get_attribute_def rbind_Inr_iff rmap_Inr_iff
        split: sum.splits option.splits)
  then show ?thesis
    by cases (use assms(2) kd in \<open>auto intro!: fits_update declared_field[OF kd(1)] dest: parse_with_fits\<close>)
qed

lemma converted_fields:
  "convert_fields C sec items d = Inr d' \<Longrightarrow> fits S (VDict d) \<Longrightarrow> list_all (takes S) items \<Longrightarrow> fits S (VDict d')"
  unfolding convert_fields_def
  by (rule rfold_invariant[where P = "\<lambda>d. fits S (VDict d)"])
    (auto simp: list_all_iff dest: converted_field)

section \<open>The sections that are written\<close>

text \<open>The keys of the schemas, as they stand in a configuration file.\<close>

lemma raid_parts [simp]:
  "fields_of RaidSchema =
    [(''Type'', FInt), (''NumberOfVolumes'', FInt)]"
  "sections_of RaidSchema = []"
  by (simp_all add: RaidSchema_def pascal_defs)

lemma ebs_settings_parts [simp]:
  "fields_of EbsSettingsSchema =
    [(''VolumeType'', FStr), (''Iops'', FInt), (''Size'', FInt), (''KmsKeyId'', FStr),
     (''Throughput'', FInt), (''Encrypted'', FBool), (''SnapshotId'', FStr), (''VolumeId'', FStr),
     (''DeletionPolicy'', FStr)]"
  "sections_of EbsSettingsSchema =
    [(''Raid'', False, RaidSchema)]"
  by (simp_all add: EbsSettingsSchema_def pascal_defs)

lemma efs_settings_parts [simp]:
  "fields_of EfsSettingsSchema =
    [(''Encrypted'', FBool), (''KmsKeyId'', FStr), (''PerformanceMode'', FStr), (''ThroughputMode'', FStr),
     (''ProvisionedThroughput'', FInt), (''FileSystemId'', FStr), (''DeletionPolicy'', FStr),
     (''AccessPointId'', FStr), (''EncryptionInTransit'', FBool), (''IamAuthorization'', FBool)]"
  "sections_of EfsSettingsSchema = []"
  by (simp_all add: EfsSettingsSchema_def pascal_defs)

lemma fsx_lustre_settings_parts [simp]:
  "fields_of FsxLustreSettingsSchema =
    [(''StorageCapacity'', FInt), (''DeploymentType'', FStr), (''ImportedFileChunkSize'', FInt),
     (''ExportPath'', FStr), (''ImportPath'', FStr), (''WeeklyMaintenanceStartTime'', FStr),
     (''AutomaticBackupRetentionDays'', FInt), (''CopyTagsToBackups'', FBool),
     (''DailyAutomaticBackupStartTime'', FStr), (''PerUnitStorageThroughput'', FInt), (''BackupId'', FStr),
     (''KmsKeyId'', FStr), (''FileSystemId'', FStr), (''AutoImportPolicy'', FStr),
     (''DriveCacheType'', FStr), (''DataCompressionType'', FStr), (''StorageType'', FStr),
     (''DeletionPolicy'', FStr)]"
  "sections_of FsxLustreSettingsSchema =
    [(''DataRepositoryAssociations'', True, DataRepositoryAssociationSchema)]"
  by (simp_all add: FsxLustreSettingsSchema_def pascal_defs)

lemma shared_storage_parts [simp]:
  "fields_of SharedStorageSchema =
    [(''MountDir'', FStr), (''Name'', FStr), (''StorageType'', FStr)]"
  "sections_of SharedStorageSchema =
    [(''EbsSettings'', False, EbsSettingsSchema), (''EfsSettings'', False, EfsSettingsSchema),
     (''FsxLustreSettings'', False, FsxLustreSettingsSchema),
     (''FsxOpenZfsSettings'', False, FsxOpenZfsSettingsSchema),
     (''FsxOntapSettings'', False, FsxOntapSettingsSchema),
     (''FileCacheSettings'', False, FileCacheSettingsSchema)]"
  by (simp_all add: SharedStorageSchema_def pascal_defs)

lemma head_node_proxy_parts [simp]:
  "fields_of HeadNodeProxySchema =
    [(''HttpProxyAddress'', FStr)]"
  "sections_of HeadNodeProxySchema = []"
  by (simp_all add: HeadNodeProxySchema_def pascal_defs)

lemma queue_proxy_parts [simp]:
  "fields_of QueueProxySchema =
    [(''HttpProxyAddress'', FStr)]"
  "sections_of QueueProxySchema = []"
  by (simp_all add: QueueProxySchema_def pascal_defs)

lemma head_node_networking_parts [simp]:
  "fields_of HeadNodeNetworkingSchema =
    [(''AdditionalSecurityGroups'', (FList FStr [get_field_validator ''security_group_id''])),
     (''SecurityGroups'', (FList FStr [get_field_validator ''security_group_id''])), (''SubnetId'', FStr),
     (''ElasticIp'', FRaw)]"
  "sections_of HeadNodeNetworkingSchema =
    [(''Proxy'', False, HeadNodeProxySchema)]"
  by (simp_all add: HeadNodeNetworkingSchema_def BaseNetworkingSchema_def inherit_def pascal_defs)

lemma placement_group_parts [simp]:
  "fields_of PlacementGroupSchema =
    [(''Enabled'', FBool), (''Id'', FStr), (''Name'', FStr)]"
  "sections_of PlacementGroupSchema = []"
  by (simp_all add: PlacementGroupSchema_def pascal_defs)

lemma slurm_queue_networking_parts [simp]:
  "fields_of SlurmQueueNetworkingSchema =
    [(''AdditionalSecurityGroups'', (FList FStr [get_field_validator ''security_group_id''])),
     (''SecurityGroups'', (FList FStr [get_field_validator ''security_group_id''])),
     (''AssignPublicIp'', FBool), (''SubnetIds'', (FList FStr [get_field_validator ''subnet_id'']))]"
  "sections_of SlurmQueueNetworkingSchema =
    [(''PlacementGroup'', False, PlacementGroupSchema), (''Proxy'', False, QueueProxySchema)]"
  by (simp_all add: SlurmQueueNetworkingSchema_def QueueNetworkingSchema_def BaseNetworkingSchema_def inherit_def pascal_defs)

lemma head_node_ssh_parts [simp]:
  "fields_of HeadNodeSshSchema =
    [(''KeyName'', FStr), (''AllowedIps'', FStr)]"
  "sections_of HeadNodeSshSchema = []"
  by (simp_all add: HeadNodeSshSchema_def BaseSshSchema_def inherit_def pascal_defs)

lemma dcv_parts [simp]:
  "fields_of DcvSchema =
    [(''Enabled'', FBool), (''Port'', FInt), (''AllowedIps'', FStr)]"
  "sections_of DcvSchema = []"
  by (simp_all add: DcvSchema_def pascal_defs)

lemma efa_parts [simp]:
  "fields_of EfaSchema =
    [(''Enabled'', FBool), (''GdrSupport'', FBool)]"
  "sections_of EfaSchema = []"
  by (simp_all add: EfaSchema_def pascal_defs)

lemma cloud_watch_logs_parts [simp]:
  "fields_of CloudWatchLogsSchema =
    [(''Enabled'', FBool), (''RetentionInDays'', FInt), (''DeletionPolicy'', FStr)]"
  "sections_of CloudWatchLogsSchema = []"
  by (simp_all add: CloudWatchLogsSchema_def pascal_defs)

lemma cloud_watch_dashboards_parts [simp]:
  "fields_of CloudWatchDashboardsSchema =
    [(''Enabled'', FBool)]"
  "sections_of CloudWatchDashboardsSchema = []"
  by (simp_all add: CloudWatchDashboardsSchema_def pascal_defs)

lemma logs_parts [simp]:
  "fields_of LogsSchema = []"
  "sections_of LogsSchema =
    [(''CloudWatch'', False, CloudWatchLogsSchema), (''Rotation'', False, RotationSchema)]"
  by (simp_all add: LogsSchema_def pascal_defs)

lemma dashboards_parts [simp]:
  "fields_of DashboardsSchema = []"
  "sections_of DashboardsSchema =
    [(''CloudWatch'', False, CloudWatchDashboardsSchema)]"
  by (simp_all add: DashboardsSchema_def pascal_defs)

lemma monitoring_parts [simp]:
  "fields_of MonitoringSchema =
    [(''DetailedMonitoring'', FBool)]"
  "sections_of MonitoringSchema =
    [(''Logs'', False, LogsSchema), (''Dashboards'', False, DashboardsSchema),
     (''Alarms'', False, AlarmsSchema)]"
  by (simp_all add: MonitoringSchema_def pascal_defs)

lemma s3_access_parts [simp]:
  "fields_of S3AccessSchema =
    [(''BucketName'', FStr), (''KeyName'', FStr), (''EnableWriteAccess'', FBool)]"
  "sections_of S3AccessSchema = []"
  by (simp_all add: S3AccessSchema_def pascal_defs)

lemma head_node_iam_parts [simp]:
  "fields_of HeadNodeIamSchema =
    [(''InstanceRole'', FStr), (''InstanceProfile'', FStr)]"
  "sections_of HeadNodeIamSchema =
    [(''AdditionalIamPolicies'', True, AdditionalIamPolicySchema), (''S3Access'', True, S3AccessSchema)]"
  by (simp_all add: HeadNodeIamSchema_def IamSchema_def BaseIamSchema_def inherit_def pascal_defs)

lemma queue_iam_parts [simp]:
  "fields_of QueueIamSchema =
    [(''InstanceRole'', FStr), (''InstanceProfile'', FStr)]"
  "sections_of QueueIamSchema =
    [(''AdditionalIamPolicies'', True, AdditionalIamPolicySchema), (''S3Access'', True, S3AccessSchema)]"
  by (simp_all add: QueueIamSchema_def IamSchema_def BaseIamSchema_def inherit_def pascal_defs)

lemma additional_iam_policy_parts [simp]:
  "fields_of AdditionalIamPolicySchema =
    [(''Policy'', FStr)]"
  "sections_of AdditionalIamPolicySchema = []"
  by (simp_all add: AdditionalIamPolicySchema_def pascal_defs)

lemma cluster_iam_parts [simp]:
  "fields_of ClusterIamSchema =
    [(''PermissionsBoundary'', FStr), (''ResourcePrefix'', FStr)]"
  "sections_of ClusterIamSchema =
    [(''Roles'', False, RolesSchema)]"
  by (simp_all add: ClusterIamSchema_def pascal_defs)

lemma roles_parts [simp]:
  "fields_of RolesSchema =
    [(''LambdaFunctionsRole'', FStr)]"
  "sections_of RolesSchema = []"
  by (simp_all add: RolesSchema_def pascal_defs)

lemma intel_software_parts [simp]:
  "fields_of IntelSoftwareSchema =
    [(''IntelHpcPlatform'', FBool)]"
  "sections_of IntelSoftwareSchema = []"
  by (simp_all add: IntelSoftwareSchema_def pascal_defs)

lemma additional_packages_parts [simp]:
  "fields_of AdditionalPackagesSchema = []"
  "sections_of AdditionalPackagesSchema =
    [(''IntelSoftware'', False, IntelSoftwareSchema)]"
  by (simp_all add: AdditionalPackagesSchema_def pascal_defs)

lemma tag_parts [simp]:
  "fields_of TagSchema =
    [(''Key'', FStr), (''Value'', FStr)]"
  "sections_of TagSchema = []"
  by (simp_all add: TagSchema_def pascal_defs)

lemma cookbook_parts [simp]:
  "fields_of CookbookSchema =
    [(''ChefCookbook'', FStr), (''ExtraChefAttributes'', FStr)]"
  "sections_of CookbookSchema = []"
  by (simp_all add: CookbookSchema_def pascal_defs)

lemma cluster_dev_settings_parts [simp]:
  "fields_of ClusterDevSettingsSchema =
    [(''NodePackage'', FStr), (''ClusterTemplate'', FStr), (''InstanceTypesData'', FStr),
     (''ComputeStartupTimeMetricEnabled'', FBool), (''EfaInterfaceType'', FStr)]"
  "sections_of ClusterDevSettingsSchema =
    [(''Cookbook'', False, CookbookSchema), (''AmiSearchFilters'', False, AmiSearchFiltersSchema),
     (''Timeouts'', False, TimeoutsSchema)]"
  by (simp_all add: ClusterDevSettingsSchema_def BaseDevSettingsSchema_def inherit_def pascal_defs)

lemma image_parts [simp]:
  "fields_of ImageSchema =
    [(''Os'', FStr), (''CustomAmi'', FStr)]"
  "sections_of ImageSchema = []"
  by (simp_all add: ImageSchema_def pascal_defs)

lemma head_node_root_volume_parts [simp]:
  "fields_of HeadNodeRootVolumeSchema =
    [(''VolumeType'', FStr), (''Iops'', FInt), (''Size'', FInt), (''Throughput'', FInt),
     (''Encrypted'', FBool), (''DeleteOnTermination'', FBool)]"
  "sections_of HeadNodeRootVolumeSchema = []"
  by (simp_all add: HeadNodeRootVolumeSchema_def pascal_defs)

lemma queue_root_volume_parts [simp]:
  "fields_of QueueRootVolumeSchema =
    [(''Size'', FInt), (''Encrypted'', FBool), (''VolumeType'', FStr), (''Iops'', FInt),
     (''Throughput'', FInt)]"
  "sections_of QueueRootVolumeSchema = []"
  by (simp_all add: QueueRootVolumeSchema_def pascal_defs)

lemma head_node_ephemeral_volume_parts [simp]:
  "fields_of HeadNodeEphemeralVolumeSchema =
    [(''MountDir'', FStr)]"
  "sections_of HeadNodeEphemeralVolumeSchema = []"
  by (simp_all add: HeadNodeEphemeralVolumeSchema_def pascal_defs)

lemma queue_ephemeral_volume_parts [simp]:
  "fields_of QueueEphemeralVolumeSchema =
    [(''MountDir'', FStr)]"
  "sections_of QueueEphemeralVolumeSchema = []"
  by (simp_all add: QueueEphemeralVolumeSchema_def pascal_defs)

lemma head_node_storage_parts [simp]:
  "fields_of HeadNodeStorageSchema = []"
  "sections_of HeadNodeStorageSchema =
    [(''RootVolume'', False, HeadNodeRootVolumeSchema),
     (''EphemeralVolume'', False, HeadNodeEphemeralVolumeSchema)]"
  by (simp_all add: HeadNodeStorageSchema_def pascal_defs)

lemma queue_storage_parts [simp]:
  "fields_of QueueStorageSchema = []"
  "sections_of QueueStorageSchema =
    [(''RootVolume'', False, QueueRootVolumeSchema), (''EphemeralVolume'', False, QueueEphemeralVolumeSchema)]"
  by (simp_all add: QueueStorageSchema_def pascal_defs)

lemma head_node_custom_actions_parts [simp]:
  "fields_of HeadNodeCustomActionsSchema = []"
  "sections_of HeadNodeCustomActionsSchema =
    [(''OnNodeStart'', False, (build_dynamic_schema_class UNSUPPORTED)),
     (''OnNodeConfigured'', False, (build_dynamic_schema_class UNSUPPORTED)),
     (''OnNodeUpdated'', False, (build_dynamic_schema_class SUPPORTED))]"
  by (simp_all add: HeadNodeCustomActionsSchema_def one_or_many_custom_action_def pascal_defs)

lemma queue_custom_actions_parts [simp]:
  "fields_of QueueCustomActionsSchema = []"
  "sections_of QueueCustomActionsSchema =
    [(''OnNodeStart'', False, (build_dynamic_schema_class QUEUE_UPDATE_STRATEGY)),
     (''OnNodeConfigured'', False, (build_dynamic_schema_class QUEUE_UPDATE_STRATEGY))]"
  by (simp_all add: QueueCustomActionsSchema_def one_or_many_custom_action_def pascal_defs)

lemma head_node_parts [simp]:
  "fields_of HeadNodeSchema =
    [(''InstanceType'', FStr), (''DisableSimultaneousMultithreading'', FBool), (''SharedStorageType'', FStr)]"
  "sections_of HeadNodeSchema =
    [(''Networking'', False, HeadNodeNetworkingSchema), (''Ssh'', False, HeadNodeSshSchema),
     (''LocalStorage'', False, HeadNodeStorageSchema),
     (''SharedStorageEfsSettings'', False, SharedStorageEfsSettingsSchema), (''Dcv'', False, DcvSchema),
     (''CustomActions'', False, HeadNodeCustomActionsSchema), (''Iam'', False, HeadNodeIamSchema),
     (''Imds'', False, ImdsSchema), (''Image'', False, HeadNodeImageSchema)]"
  by (simp_all add: HeadNodeSchema_def pascal_defs)

lemma slurm_compute_resource_parts [simp]:
  "fields_of SlurmComputeResourceSchema =
    [(''Name'', FStr), (''InstanceType'', FStr), (''MaxCount'', FInt), (''MinCount'', FInt),
     (''SpotPrice'', FFloat), (''DisableSimultaneousMultithreading'', FBool), (''SchedulableMemory'', FInt),
     (''CustomSlurmSettings'', FDict), (''StaticNodePriority'', FInt), (''DynamicNodePriority'', FInt)]"
  "sections_of SlurmComputeResourceSchema =
    [(''Instances'', True, InstanceTypeSchema), (''Efa'', False, EfaSchema),
     (''CapacityReservationTarget'', False, CapacityReservationTargetSchema),
     (''Networking'', False, SlurmComputeResourceNetworkingSchema),
     (''HealthChecks'', False, HealthChecksSchema), (''Tags'', True, QueueTagSchema),
     (''LaunchTemplateOverrides'', False, LaunchTemplateOverridesSchema)]"
  by (simp_all add: SlurmComputeResourceSchema_def ComputeResourceSchema_def inherit_def pascal_defs)

lemma compute_settings_parts [simp]:
  "fields_of ComputeSettingsSchema = []"
  "sections_of ComputeSettingsSchema =
    [(''LocalStorage'', False, QueueStorageSchema)]"
  by (simp_all add: ComputeSettingsSchema_def pascal_defs)

lemma slurm_queue_parts [simp]:
  "fields_of SlurmQueueSchema =
    [(''Name'', FStr), (''CapacityType'', FStr), (''AllocationStrategy'', FStr),
     (''CustomSlurmSettings'', FDict), (''JobExclusiveAllocation'', FBool)]"
  "sections_of SlurmQueueSchema =
    [(''ComputeSettings'', False, ComputeSettingsSchema),
     (''CustomActions'', False, QueueCustomActionsSchema), (''Iam'', False, QueueIamSchema),
     (''Image'', False, QueueImageSchema),
     (''CapacityReservationTarget'', False, CapacityReservationTargetSchema),
     (''ComputeResources'', True, SlurmComputeResourceSchema),
     (''Networking'', False, SlurmQueueNetworkingSchema), (''HealthChecks'', False, HealthChecksSchema),
     (''Tags'', True, QueueTagSchema)]"
  by (simp_all add: SlurmQueueSchema_def CommonQueueSchema_def BaseQueueSchema_def inherit_def pascal_defs)

lemma dns_parts [simp]:
  "fields_of DnsSchema =
    [(''DisableManagedDns'', FBool), (''HostedZoneId'', FStr), (''UseEc2Hostnames'', FBool)]"
  "sections_of DnsSchema = []"
  by (simp_all add: DnsSchema_def pascal_defs)

lemma slurm_settings_parts [simp]:
  "fields_of SlurmSettingsSchema =
    [(''ScaledownIdletime'', FInt), (''QueueUpdateStrategy'', FStr),
     (''EnableMemoryBasedScheduling'', FBool), (''CustomSlurmSettings'', (FList FDict [])),
     (''CustomSlurmSettingsIncludeFile'', FStr), (''MungeKeySecretArn'', FStr)]"
  "sections_of SlurmSettingsSchema =
    [(''Dns'', False, DnsSchema), (''Database'', False, DatabaseSchema),
     (''ExternalSlurmdbd'', False, ExternalSlurmdbdSchema)]"
  by (simp_all add: SlurmSettingsSchema_def pascal_defs)

lemma scheduling_parts [simp]:
  "fields_of SchedulingSchema =
    [(''Scheduler'', FStr), (''ScalingStrategy'', FStr)]"
  "sections_of SchedulingSchema =
    [(''SlurmSettings'', False, SlurmSettingsSchema), (''SlurmQueues'', True, SlurmQueueSchema)]"
  by (simp_all add: SchedulingSchema_def pascal_defs)

lemma cluster_parts [simp]:
  "fields_of ClusterSchema =
    [(''Region'', FStr), (''CustomS3Bucket'', FStr), (''AdditionalResources'', FStr)]"
  "sections_of ClusterSchema =
    [(''LoginNodes'', False, LoginNodesSchema), (''Image'', False, ImageSchema),
     (''HeadNode'', False, HeadNodeSchema), (''Scheduling'', False, SchedulingSchema),
     (''SharedStorage'', True, SharedStorageSchema), (''Monitoring'', False, MonitoringSchema),
     (''AdditionalPackages'', False, AdditionalPackagesSchema), (''Tags'', True, TagSchema),
     (''Iam'', False, ClusterIamSchema), (''DirectoryService'', False, DirectoryServiceSchema),
     (''Imds'', False, TopLevelImdsSchema), (''DevSettings'', False, ClusterDevSettingsSchema),
     (''DeploymentSettings'', False, ClusterDeploymentSettingsSchema)]"
  by (simp_all add: ClusterSchema_def pascal_defs)

lemma action_parts [simp]:
  "fields_of (build_dynamic_schema_class p) = [(''Script'', FStr), (''Args'', FList FStr [])]"
  "sections_of (build_dynamic_schema_class p) = []"
  by (simp_all add: build_dynamic_schema_class_def pascal_defs)

text \<open>
  What the conversion relies on to write declared keys only: no role for the Lambda functions, no throughput of a
  RAID array and no encryption of a Lustre file system is given, as these are written under other names; tags
  have texts as values; arguments of an action come with its script.
\<close>

definition convertible :: "converter \<Rightarrow> bool" where
  "convertible C \<longleftrightarrow>
     (\<forall>v. cluster_config_get C ''iam_lambda_role'' = Inr v \<longrightarrow> \<not> given_text v)
     \<and> (\<forall>label. config_get C (storage_label ''raid'' label) ''volume_throughput'' = Inr None)
     \<and> (\<forall>label. config_get C (storage_label ''fsx'' label) ''encrypted'' = Inr None)
     \<and> (\<forall>t items. cluster_config_get C ''tags'' = Inr (Some t) \<longrightarrow> json_loads C t = Inr (VDict items) \<longrightarrow>
          (\<forall>kv \<in> set items. \<exists>s. snd kv = VStr s))
     \<and> (\<forall>v \<in> {''pre_install'', ''post_install''}. cluster_config_get C v = Inr None \<longrightarrow>
          (\<forall>a. cluster_config_get C (v @ ''_args'') = Inr a \<longrightarrow> \<not> given_text a))"

lemmas result_iffs = rbind_Inr_iff rmap_Inr_iff

lemma absent_field: "config_get C sec a = Inr None \<Longrightarrow> convert_single_field C sec (a, k, g) d = Inr d"
  by (simp add: convert_single_field_def get_attribute_def)

text \<open>The fields that are taken, or not given.\<close>

definition harmless :: "converter \<Rightarrow> string \<Rightarrow> decl list \<Rightarrow> (string \<times> string \<times> getter) \<Rightarrow> bool" where
  "harmless C sec S field \<longleftrightarrow> takes S field \<or> config_get C sec (fst field) = Inr None"

lemma harmless_fields:
  assumes "convert_fields C sec items d = Inr d'" and "fits S (VDict d)" and "\<forall>i \<in> set items. harmless C sec S i"
  shows "fits S (VDict d')"
  using assms(1) unfolding convert_fields_def
proof (rule rfold_invariant[where P = "\<lambda>d. fits S (VDict d)"])
  fix i d t assume "i \<in> set items" "fits S (VDict d)" "convert_single_field C sec i d = Inr t"
  with assms(3) show "fits S (VDict t)"
    by (cases i) (auto simp: harmless_def absent_field dest: converted_field)
qed (rule assms(2))

lemma storage_base_fits:
  assumes "convert_storage_base C t label items = Inr (sec, settings)"
    and "\<forall>i \<in> set ((''encrypted'', ''Encrypted'', Getboolean) # items). harmless C (storage_label t label) S i"
  shows "fits SharedStorageSchema (VDict sec)" and "fits S (VDict settings)"
proof -
  have d: "fits SharedStorageSchema (VDict [(''Name'', VStr label), (''StorageType'', VStr (storage_type_of t))])"
    by (simp add: fits_dict declared_def)
  show "fits SharedStorageSchema (VDict sec)"
    using assms(1) converted_fields[OF _ d] by (auto simp: convert_storage_base_def result_iffs Let_def takes_def)
  show "fits S (VDict settings)"
    using assms harmless_fields[OF _ fits_empty, of C _ _ settings S]
    by (auto simp: convert_storage_base_def result_iffs Let_def)
qed

lemma rmap_list_all_of: "rmap_list f xs = Inr ys \<Longrightarrow> (\<And>x y. f x = Inr y \<Longrightarrow> P y) \<Longrightarrow> \<forall>y \<in> set ys. P y"
  by (induction xs arbitrary: ys) (auto simp: result_iffs)

lemma storage_fields_harmless:
  "\<forall>i \<in> set ((''encrypted'', ''Encrypted'', Getboolean) # ebs_fields). harmless C sec EbsSettingsSchema i"
  "\<forall>i \<in> set ((''encrypted'', ''Encrypted'', Getboolean) # efs_fields). harmless C sec EfsSettingsSchema i"
  "config_get C sec ''encrypted'' = Inr None \<Longrightarrow>
     \<forall>i \<in> set ((''encrypted'', ''Encrypted'', Getboolean) # fsx_fields). harmless C sec FsxLustreSettingsSchema i"
  "config_get C sec ''volume_throughput'' = Inr None \<Longrightarrow>
     \<forall>i \<in> set ((''encrypted'', ''Encrypted'', Getboolean) # raid_fields). harmless C sec EbsSettingsSchema i"
  by (simp_all add: harmless_def takes_def ebs_fields_def efs_fields_def fsx_fields_def raid_fields_def)

lemma one_storage_fits:
  assumes "convert_one_storage C t items key label = Inr v"
    and "\<And>l. \<forall>i \<in> set ((''encrypted'', ''Encrypted'', Getboolean) # items). harmless C (storage_label t l) S i"
    and "(key, False, S) \<in> set (sections_of SharedStorageSchema)"
  shows "fits SharedStorageSchema v"
  using assms(1) storage_base_fits[OF _ assms(2)] fits_add_section[OF _ assms(3)]
  by (auto simp: convert_one_storage_def result_iffs split: prod.splits)

lemma one_raid_fits:
  assumes "convertible C" and "convert_one_raid C ''EbsSettings'' label = Inr v"
  shows "fits SharedStorageSchema v"
proof -
  from assms(2) obtain sec settings raid where *:
    "convert_storage_base C ''raid'' (str_strip label) raid_fields = Inr (sec, settings)"
    "convert_fields C (storage_label ''raid'' (str_strip label))
       [(''num_of_raid_volumes'', ''NumberOfVolumes'', Getint), (''raid_type'', ''Type'', Getint)] [] = Inr raid"
    "v = VDict (add_if ''EbsSettings'' (VDict (add_if ''Raid'' (VDict raid) settings)) sec)"
    by (auto simp: convert_one_raid_def result_iffs)
  have "fits RaidSchema (VDict raid)" by (rule converted_fields[OF *(2) fits_empty]) (simp add: takes_def)
  moreover note storage_base_fits[OF *(1) storage_fields_harmless(4)]
  ultimately show ?thesis using assms(1) unfolding *(3) convertible_def
    by (intro fits_add_section[where S' = EbsSettingsSchema] fits_add_section[where S' = RaidSchema]) simp_all
qed

lemma shared_dir_fits:
  assumes "cluster_shared_dir C single d = Inr d'" and "fits SharedStorageSchema (VDict d)"
  shows "fits SharedStorageSchema (VDict d')"
  using assms converted_field[OF _ assms(2), of C "cluster_section_name C" "(''shared_dir'', ''MountDir'', Get)" d']
  by (auto simp: cluster_shared_dir_def result_iffs takes_def split: if_splits)

lemma one_ebs_fits:
  assumes "convert_one_ebs C single ''EbsSettings'' label = Inr v"
  shows "fits SharedStorageSchema v"
proof -
  from assms obtain sec settings s where *:
    "convert_storage_base C ''ebs'' (str_strip label) ebs_fields = Inr (sec, settings)"
    "cluster_shared_dir C single sec = Inr s" "v = VDict (add_if ''EbsSettings'' (VDict settings) s)"
    by (auto simp: convert_one_ebs_def result_iffs)
  note base = storage_base_fits[OF *(1) storage_fields_harmless(1)]
  show ?thesis unfolding *(3)
    by (rule fits_add_section[OF shared_dir_fits[OF *(2) base(1)] _ base(2)]) simp
qed

lemma ebs_settings_fit:
  assumes "convert_ebs_settings C ''EbsSettings'' = Inr vs"
  shows "\<forall>v \<in> set vs. fits SharedStorageSchema v"
proof -
  from assms consider "convert_default_ebs C = Inr vs"
    | b ls where "rmap_list (convert_one_ebs C b ''EbsSettings'') ls = Inr vs"
    by (auto simp: convert_ebs_settings_def rbind_Inr_iff Let_def split: if_splits)
  then show ?thesis
  proof cases
    case 1
    then show ?thesis by (auto simp: convert_default_ebs_def result_iffs fits_dict declared_def)
  next
    case 2
    then show ?thesis by (rule rmap_list_all_of) (rule one_ebs_fits)
  qed
qed

lemma listed_fit:
  assumes "convert_listed C param f = Inr vs" and "\<And>l v. f l = Inr v \<Longrightarrow> P v"
  shows "\<forall>v \<in> set vs. P v"
  using assms rmap_list_all_of[of f _ vs P] by (auto simp: convert_listed_def result_iffs split: if_splits)

lemma fits_manyI: "\<forall>v \<in> set vs. fits S v \<Longrightarrow> fits_many S (VList vs)"
  by simp

lemma shared_storage_fits:
  assumes "convertible C" and "convert_shared_storage C ''SharedStorage'' d = Inr d'"
    and "fits ClusterSchema (VDict d)"
  shows "fits ClusterSchema (VDict d')"
proof -
  from assms(2) obtain ebs raid efs fsx where *:
    "convert_ebs_settings C ''EbsSettings'' = Inr ebs"
    "convert_raid_settings C ''EbsSettings'' = Inr raid"
    "convert_efs_settings C ''EfsSettings'' = Inr efs"
    "convert_fsx_settings C ''FsxLustreSettings'' = Inr fsx"
    "d' = add_if ''SharedStorage'' (VList (ebs @ raid @ efs @ fsx)) d"
    by (auto simp: convert_shared_storage_def result_iffs)
  have fsx: "config_get C (storage_label ''fsx'' l) ''encrypted'' = Inr None" for l
    using assms(1) by (simp add: convertible_def)
  have "\<forall>v \<in> set raid. fits SharedStorageSchema v"
    by (rule listed_fit[OF *(2)[unfolded convert_raid_settings_def] one_raid_fits[OF assms(1)]])
  moreover have "\<forall>v \<in> set efs. fits SharedStorageSchema v"
  proof (rule listed_fit[OF *(3)[unfolded convert_efs_settings_def]])
    fix l v assume "convert_one_storage C ''efs'' efs_fields ''EfsSettings'' l = Inr v"
    then show "fits SharedStorageSchema v" by (rule one_storage_fits[OF _ storage_fields_harmless(2)]) simp
  qed
  moreover have "\<forall>v \<in> set fsx. fits SharedStorageSchema v"
  proof (rule listed_fit[OF *(4)[unfolded convert_fsx_settings_def]])
    fix l v assume "convert_one_storage C ''fsx'' fsx_fields ''FsxLustreSettings'' l = Inr v"
    then show "fits SharedStorageSchema v" by (rule one_storage_fits[OF _ storage_fields_harmless(3)[OF fsx]]) simp
  qed
  ultimately have "\<forall>v \<in> set (ebs @ raid @ efs @ fsx). fits SharedStorageSchema v"
    using ebs_settings_fit[OF *(1)] by auto
  then show ?thesis unfolding *(5)
    by (intro fits_add_sections[where S' = SharedStorageSchema] fits_manyI) (simp_all add: assms(3))
qed

text \<open>The top-level sections that are read field by field.\<close>

lemma cluster_fields_fit:
  "convert_cluster_fields C items d = Inr d' \<Longrightarrow> fits S (VDict d) \<Longrightarrow> list_all (takes S) items \<Longrightarrow> fits S (VDict d')"
  unfolding convert_cluster_fields_def by (rule converted_fields)

lemma named_section_fits:
  "convert_named_section C param prefix items = Inr d \<Longrightarrow> list_all (takes S) items \<Longrightarrow> fits S (VDict d)"
  by (auto simp: convert_named_section_def result_iffs split: if_splits intro: converted_fields[OF _ fits_empty])

lemma image_fits: "convert_image C ''Image'' d = Inr d' \<Longrightarrow> fits ClusterSchema (VDict d) \<Longrightarrow> fits ClusterSchema (VDict d')"
  using cluster_fields_fit[OF _ fits_empty, where S = ImageSchema]
  by (force simp: convert_image_def result_iffs takes_def intro!: fits_add_section[where S' = ImageSchema])

lemma text_fields_fit:
  "convert_region C ''Region'' d = Inr d' \<Longrightarrow> fits ClusterSchema (VDict d) \<Longrightarrow> fits ClusterSchema (VDict d')"
  "convert_custom_s3_bucket C ''CustomS3Bucket'' d = Inr d' \<Longrightarrow> fits ClusterSchema (VDict d) \<Longrightarrow> fits ClusterSchema (VDict d')"
  "convert_additional_resources C ''AdditionalResources'' d = Inr d' \<Longrightarrow> fits ClusterSchema (VDict d) \<Longrightarrow> fits ClusterSchema (VDict d')"
  by (auto simp: convert_region_def convert_custom_s3_bucket_def convert_additional_resources_def takes_def
      dest!: converted_field[where S = ClusterSchema])

lemma iam_fits:
  "convertible C \<Longrightarrow> convert_iam C ''Iam'' d = Inr d' \<Longrightarrow> fits ClusterSchema (VDict d) \<Longrightarrow> fits ClusterSchema (VDict d')"
  by (auto simp: convert_iam_def convert_role_def convertible_def result_iffs add_if_def)

lemma additional_packages_fit:
  assumes "convert_additional_packages C ''AdditionalPackages'' d = Inr d'" and "fits ClusterSchema (VDict d)"
  shows "fits ClusterSchema (VDict d')"
proof -
  from assms(1) obtain intel where *:
    "convert_cluster_fields C [(''enable_intel_hpc_platform'', ''IntelHpcPlatform'', Getboolean)] [] = Inr intel"
    "d' = add_if ''AdditionalPackages'' (VDict (add_if ''IntelSoftware'' (VDict intel) [])) d"
    by (auto simp: convert_additional_packages_def result_iffs)
  have "fits IntelSoftwareSchema (VDict intel)" by (rule cluster_fields_fit[OF *(1) fits_empty]) (simp add: takes_def)
  then show ?thesis unfolding *(2) using assms(2)
    by (intro fits_add_section[where S' = AdditionalPackagesSchema] fits_add_section[where S' = IntelSoftwareSchema]) simp_all
qed

lemma tags_fit:
  assumes "convertible C" and "convert_tags C ''Tags'' d = Inr d'" and "fits ClusterSchema (VDict d)"
  shows "fits ClusterSchema (VDict d')"
proof -
  from assms(2) obtain tags where tags: "cluster_config_get C ''tags'' = Inr tags" by (auto simp: convert_tags_def rbind_Inr_iff)
  with assms(2) consider "d' = d" | t items where "tags = Some t" "json_loads C t = Inr (VDict items)"
    "d' = AList.update ''Tags'' (VList (map (\<lambda>(k, v). VDict [(''Key'', VStr k), (''Value'', v)]) items)) d"
    by (cases tags; cases "given_text tags"; cases "json_loads C (the tags)"; cases "projr (json_loads C (the tags))")
      (auto simp: convert_tags_def given_text_def)
  then show ?thesis
  proof cases
    case (2 t items)
    then have texts: "\<forall>kv \<in> set items. \<exists>s. snd kv = VStr s" using assms(1) tags by (auto simp: convertible_def)
    have "fits_many TagSchema (VList (map (\<lambda>(k, v). VDict [(''Key'', VStr k), (''Value'', v)]) items))"
    proof (rule fits_manyI, rule ballI)
      fix v assume "v \<in> set (map (\<lambda>(k, v). VDict [(''Key'', VStr k), (''Value'', v)]) items)"
      then obtain k w where "v = VDict [(''Key'', VStr k), (''Value'', w)]" "(k, w) \<in> set items" by auto
      with texts show "fits TagSchema v" by (force simp: fits_dict declared_def)
    qed
    then show ?thesis unfolding 2(3) by (intro fits_update assms(3) declared_sections[where S' = TagSchema]) simp_all
  qed (simp add: assms(3))
qed

lemma monitoring_fits:
  assumes "convert_monitoring C ''Monitoring'' d = Inr d'" and "fits ClusterSchema (VDict d)"
  shows "fits ClusterSchema (VDict d')"
proof -
  from assms(1) obtain logs boards where *:
    "convert_named_section C ''cw_log_settings'' ''cw_log''
       [(''enable'', ''Enabled'', Getboolean), (''retention_days'', ''RetentionInDays'', Getint)] = Inr logs"
    "convert_named_section C ''dashboard_settings'' ''dashboard'' [(''enable'', ''Enabled'', Getboolean)] = Inr boards"
    "d' = add_if ''Monitoring'' (VDict (add_if ''Dashboards'' (VDict (add_if ''CloudWatch'' (VDict boards) []))
       (add_if ''Logs'' (VDict (add_if ''CloudWatch'' (VDict logs) [])) []))) d"
    by (auto simp: convert_monitoring_def result_iffs Let_def)
  have "fits CloudWatchLogsSchema (VDict logs)" by (rule named_section_fits[OF *(1)]) (simp add: takes_def)
  moreover have "fits CloudWatchDashboardsSchema (VDict boards)" by (rule named_section_fits[OF *(2)]) (simp add: takes_def)
  ultimately show ?thesis unfolding *(3) using assms(2)
    by (intro fits_add_section[where S' = MonitoringSchema] fits_add_section[where S' = DashboardsSchema]
        fits_add_section[where S' = LogsSchema] fits_add_section[where S' = CloudWatchLogsSchema and S = LogsSchema]
        fits_add_section[where S' = CloudWatchDashboardsSchema and S = DashboardsSchema]) simp_all
qed

lemma dev_settings_fit:
  assumes "convert_dev_settings C ''DevSettings'' d = Inr d'" and "fits ClusterSchema (VDict d)"
  shows "fits ClusterSchema (VDict d')"
proof -
  from assms(1) obtain cookbook dev where *:
    "convert_cluster_fields C
       [(''extra_json'', ''ExtraChefAttributes'', Get), (''custom_chef_cookbook'', ''ChefCookbook'', Get)] [] = Inr cookbook"
    "convert_cluster_fields C
       [(''template_url'', ''ClusterTemplate'', Get), (''instance_types_data'', ''InstanceTypesData'', Get)] [] = Inr dev"
    "d' = add_if ''DevSettings'' (VDict (add_if ''Cookbook'' (VDict cookbook) dev)) d"
    by (auto simp: convert_dev_settings_def result_iffs)
  have "fits CookbookSchema (VDict cookbook)" by (rule cluster_fields_fit[OF *(1) fits_empty]) (simp add: takes_def)
  moreover have "fits ClusterDevSettingsSchema (VDict dev)" by (rule cluster_fields_fit[OF *(2) fits_empty]) (simp add: takes_def)
  ultimately show ?thesis unfolding *(3) using assms(2)
    by (intro fits_add_section[where S' = ClusterDevSettingsSchema] fits_add_section[where S' = CookbookSchema]) simp_all
qed

text \<open>The parts that the head node and the queues share.\<close>

lemma proxy_fits:
  assumes "convert_proxy C d = Inr d'" and "fits S (VDict d)" and "(''Proxy'', False, P) \<in> set (sections_of S)"
    and "(''HttpProxyAddress'', FStr) \<in> set (fields_of P)"
  shows "fits S (VDict d')"
proof -
  from assms(1) obtain proxy where *:
    "convert_cluster_fields C [(''proxy_server'', ''HttpProxyAddress'', Get)] [] = Inr proxy" "d' = add_if ''Proxy'' (VDict proxy) d"
    by (auto simp: convert_proxy_def result_iffs)
  have "fits P (VDict proxy)"
    by (rule cluster_fields_fit[OF *(1) fits_empty]) (use assms(4) in \<open>force simp: takes_def list_ex_iff\<close>)
  then show ?thesis unfolding *(2) by (rule fits_add_section[OF assms(2,3)])
qed

lemma vpc_values_texts: "vpc_values C a = Inr vs \<Longrightarrow> list_all (kind_fits FStr) vs"
  by (auto simp: vpc_values_def rmap_Inr_iff append_if_def split: if_splits)

lemma local_storage_fits:
  assumes "convert_local_storage C param d = Inr d'" and "fits S (VDict d)"
    and "(''LocalStorage'', False, L) \<in> set (sections_of S)"
    and "(''RootVolume'', False, R) \<in> set (sections_of L)" and "(''EphemeralVolume'', False, E) \<in> set (sections_of L)"
    and "(''Size'', FInt) \<in> set (fields_of R)" and "(''MountDir'', FStr) \<in> set (fields_of E)"
  shows "fits S (VDict d')"
proof -
  from assms(1) obtain r e where *:
    "convert_cluster_fields C [(param, ''Size'', Getint)] [] = Inr r"
    "convert_cluster_fields C [(''ephemeral_dir'', ''MountDir'', Get)] [] = Inr e"
    "d' = add_if ''LocalStorage'' (VDict (add_if ''EphemeralVolume'' (VDict e) (add_if ''RootVolume'' (VDict r) []))) d"
    by (auto simp: convert_local_storage_def result_iffs)
  have "fits R (VDict r)"
    by (rule cluster_fields_fit[OF *(1) fits_empty]) (use assms(6) in \<open>force simp: takes_def list_ex_iff\<close>)
  moreover have "fits E (VDict e)"
    by (rule cluster_fields_fit[OF *(2) fits_empty]) (use assms(7) in \<open>force simp: takes_def list_ex_iff\<close>)
  ultimately show ?thesis unfolding *(3)
    by (intro fits_add_section[OF _ assms(3)] fits_add_section[OF _ assms(4)] fits_add_section[OF _ assms(5)] assms(2)) simp_all
qed

lemma action_args_texts:
  assumes "convertible C" and "v \<in> {''pre_install'', ''post_install''}" and "action_args C v (v @ ''_args'') = Inr vs"
  shows "list_all (kind_fits FStr) vs"
proof -
  from assms(3) obtain a where a: "cluster_config_get C (v @ ''_args'') = Inr a" by (auto simp: action_args_def rbind_Inr_iff)
  show ?thesis
  proof (cases "given_text a")
    case True
    with assms a obtain s ws where s: "cluster_config_get C v = Inr s" "vs = option_value s # map VStr ws"
      by (auto simp: action_args_def rmap_Inr_iff)
    moreover have "s \<noteq> None" using assms(1,2) a True s(1) by (auto simp: convertible_def)
    ultimately show ?thesis by (auto simp: option_value_def list_all_iff)
  qed (use assms(3) a in \<open>auto simp: action_args_def\<close>)
qed

lemma one_action_fits:
  assumes "convert_cluster_fields C [(v, ''Script'', Get)] [] = Inr d" and "list_all (kind_fits FStr) vs"
  shows "fits (build_dynamic_schema_class p) (VDict (add_if ''Args'' (VList vs) d))"
  by (intro fits_add_field[where kd = "FList FStr []"] cluster_fields_fit[OF assms(1) fits_empty])
    (simp_all add: takes_def assms(2))

lemma custom_action_fits:
  assumes "convertible C" and "convert_custom_action C d = Inr d'" and "fits S (VDict d)"
    and "(''CustomActions'', False, A) \<in> set (sections_of S)"
    and "(''OnNodeStart'', False, build_dynamic_schema_class p) \<in> set (sections_of A)"
    and "(''OnNodeConfigured'', False, build_dynamic_schema_class q) \<in> set (sections_of A)"
  shows "fits S (VDict d')"
proof -
  from assms(2) obtain s c sa ca where *:
    "convert_cluster_fields C [(''pre_install'', ''Script'', Get)] [] = Inr s"
    "convert_cluster_fields C [(''post_install'', ''Script'', Get)] [] = Inr c"
    "action_args C ''pre_install'' ''pre_install_args'' = Inr sa"
    "action_args C ''post_install'' ''post_install_args'' = Inr ca"
    "d' = add_if ''CustomActions'' (VDict (add_if ''OnNodeConfigured'' (VDict (add_if ''Args'' (VList ca) c))
       (add_if ''OnNodeStart'' (VDict (add_if ''Args'' (VList sa) s)) []))) d"
    by (auto simp: convert_custom_action_def result_iffs)
  have "list_all (kind_fits FStr) sa" "list_all (kind_fits FStr) ca"
    using action_args_texts[OF assms(1), of "''pre_install''" sa] action_args_texts[OF assms(1), of "''post_install''" ca] *(3,4)
    by simp_all
  then show ?thesis unfolding *(5)
    by (intro fits_add_section[OF _ assms(4)] fits_add_section[OF _ assms(5)] fits_add_section[OF _ assms(6)]
        one_action_fits[OF *(1)] one_action_fits[OF *(2)] fits_empty assms(3))
qed

lemma role_fits:
  assumes "convert_role C param key d = Inr d'" and "fits S (VDict d)" and "(key, FStr) \<in> set (fields_of S)"
  shows "fits S (VDict d')"
proof -
  from assms(1) consider "d' = d" | arn where "d' = AList.update key (VStr arn) d"
    by (auto simp: convert_role_def result_iffs split: if_splits)
  then show ?thesis
    by cases (use assms(2,3) in \<open>auto intro!: fits_update declared_field[where kd = FStr]\<close>)
qed

lemma s3_access_fits: "fits S3AccessSchema (s3_access_of w bk)"
  by (auto simp: s3_access_of_def fits_dict declared_def)

lemma s3_lists_fit:
  "s3_read_access r = Inr vs \<Longrightarrow> \<forall>v \<in> set vs. fits S3AccessSchema v"
  "s3_write_access r = Inr vs \<Longrightarrow> \<forall>v \<in> set vs. fits S3AccessSchema v"
  by (auto simp: s3_read_access_def s3_write_access_def result_iffs s3_access_fits split: if_splits)

lemma policies_fit: "\<forall>v \<in> set (iam_policies p). fits AdditionalIamPolicySchema v"
  by (auto simp: iam_policies_def fits_dict declared_def)

lemma headnode_iam_fits:
  assumes "covert_headnode_iam C d = Inr d'" and "fits S (VDict d)" and "(''Iam'', False, I) \<in> set (sections_of S)"
    and "(''InstanceRole'', FStr) \<in> set (fields_of I)"
    and "(''AdditionalIamPolicies'', True, AdditionalIamPolicySchema) \<in> set (sections_of I)"
    and "(''S3Access'', True, S3AccessSchema) \<in> set (sections_of I)"
  shows "fits S (VDict d')"
proof -
  from assms(1) obtain iam p r w rs ws where *:
    "convert_role C ''ec2_iam_role'' ''InstanceRole'' [] = Inr iam"
    "s3_read_access r = Inr rs" "s3_write_access w = Inr ws"
    "d' = add_if ''Iam'' (VDict (add_if ''S3Access'' (VList (rs @ ws))
         (add_if ''AdditionalIamPolicies'' (VList (iam_policies p)) iam))) d"
    by (auto simp: covert_headnode_iam_def result_iffs)
  have "fits_many S3AccessSchema (VList (rs @ ws))"
    using s3_lists_fit(1)[OF *(2)] s3_lists_fit(2)[OF *(3)] by auto
  moreover have "fits_many AdditionalIamPolicySchema (VList (iam_policies p))" by (rule fits_manyI) (rule policies_fit)
  moreover have "fits I (VDict iam)" by (rule role_fits[OF *(1) fits_empty assms(4)])
  ultimately show ?thesis unfolding *(4)
    by (blast intro: fits_add_section[OF assms(2,3)] fits_add_sections[OF _ assms(5)] fits_add_sections[OF _ assms(6)])
qed

text \<open>The head node.\<close>

lemma instance_type_fits:
  "convert_instance_type C param d = Inr d' \<Longrightarrow> fits S (VDict d) \<Longrightarrow> (''InstanceType'', FStr) \<in> set (fields_of S) \<Longrightarrow>
   fits S (VDict d')"
  by (auto simp: convert_instance_type_def rmap_Inr_iff intro!: fits_update declared_field[where kd = FStr])

lemma hyperthreading_fits:
  "convert_disable_hyperthreading C d = Inr d' \<Longrightarrow> fits S (VDict d) \<Longrightarrow>
   (''DisableSimultaneousMultithreading'', FBool) \<in> set (fields_of S) \<Longrightarrow> fits S (VDict d')"
  unfolding convert_disable_hyperthreading_def
  by (erule converted_field) (force simp: takes_def list_ex_iff)+

lemma head_networking_fits:
  assumes "convert_networking C d = Inr d'" and "fits HeadNodeSchema (VDict d)"
  shows "fits HeadNodeSchema (VDict d')"
proof -
  from assms(1) obtain n n' sg add where *:
    "(if vpc_section_label C = [] then Inr [] else convert_fields C (vpc_section_label C)
        [(''master_subnet_id'', ''SubnetId'', Get), (''use_public_ips'', ''ElasticIp'', Getboolean)] []) = Inr n"
    "vpc_values C ''vpc_security_group_id'' = Inr sg" "vpc_values C ''additional_sg'' = Inr add"
    "convert_proxy C n = Inr n'"
    "d' = add_if ''Networking'' (VDict (add_if ''AdditionalSecurityGroups'' (VList add)
         (add_if ''SecurityGroups'' (VList sg) n'))) d"
    by (auto simp: convert_networking_def result_iffs)
  have "fits HeadNodeNetworkingSchema (VDict n)"
    using *(1) converted_fields[OF _ fits_empty, where S = HeadNodeNetworkingSchema] by (auto simp: takes_def split: if_splits)
  then have "fits HeadNodeNetworkingSchema (VDict n')" by (rule proxy_fits[OF *(4), where P = HeadNodeProxySchema]) simp_all
  moreover note vpc_values_texts[OF *(2)] vpc_values_texts[OF *(3)]
  ultimately have "fits HeadNodeNetworkingSchema (VDict (add_if ''AdditionalSecurityGroups'' (VList add)
         (add_if ''SecurityGroups'' (VList sg) n')))"
    by (intro fits_add_field[where kd = "FList FStr [get_field_validator ''security_group_id'']"]) simp_all
  then show ?thesis unfolding *(5) by (rule fits_add_section[OF assms(2), rotated]) simp
qed

lemma ssh_fits:
  assumes "convert_ssh C d = Inr d'" and "fits HeadNodeSchema (VDict d)"
  shows "fits HeadNodeSchema (VDict d')"
proof -
  from assms(1) obtain s s' where *:
    "convert_cluster_fields C [(''key_name'', ''KeyName'', Get)] [] = Inr s"
    "convert_single_field C (vpc_section_label C) (''ssh_from'', ''AllowedIps'', Get) s = Inr s'" "d' = add_if ''Ssh'' (VDict s') d"
    by (auto simp: convert_ssh_def result_iffs)
  have "fits HeadNodeSshSchema (VDict s)" by (rule cluster_fields_fit[OF *(1) fits_empty]) (simp add: takes_def)
  then have "fits HeadNodeSshSchema (VDict s')" by (rule converted_field[OF *(2)]) (simp add: takes_def)
  then show ?thesis unfolding *(3) by (intro fits_add_section[where S' = HeadNodeSshSchema] assms(2)) simp_all
qed

lemma dcv_fits:
  assumes "convert_dcv C d = Inr d'" and "fits HeadNodeSchema (VDict d)"
  shows "fits HeadNodeSchema (VDict d')"
proof -
  have start: "fits DcvSchema (VDict (if b then [(''Enabled'', VBool True)] else []))" for b
    by (simp add: fits_dict declared_def ex_bool_eq)
  from assms(1) obtain label where label: "cluster_config_get C ''dcv_settings'' = Inr label"
    by (auto simp: convert_dcv_def rbind_Inr_iff)
  show ?thesis
  proof (cases "given_text label")
    case True
    with assms(1) label obtain sec enable dcv where *:
      "convert_fields C sec [(''port'', ''Port'', Getint), (''access_from'', ''AllowedIps'', Get)]
        (if enable = ''master'' then [(''Enabled'', VBool True)] else []) = Inr dcv" "d' = add_if ''Dcv'' (VDict dcv) d"
      by (auto simp: convert_dcv_def result_iffs Let_def simp del: append.simps split del: if_split)
    have "fits DcvSchema (VDict dcv)" by (rule converted_fields[OF *(1) start]) (simp add: takes_def)
    then show ?thesis unfolding *(2) by (rule fits_add_section[OF assms(2), rotated]) simp
  qed (use assms label in \<open>simp add: convert_dcv_def\<close>)
qed

lemma headnode_fits:
  assumes "convertible C" and "convert_headnode C ''HeadNode'' d = Inr d'" and "fits ClusterSchema (VDict d)"
  shows "fits ClusterSchema (VDict d')"
proof -
  from assms(2) obtain h1 h2 h3 h4 h5 h6 h7 h8 where *:
    "convert_instance_type C ''master_instance_type'' [] = Inr h1" "convert_networking C h1 = Inr h2"
    "convert_disable_hyperthreading C h2 = Inr h3" "convert_ssh C h3 = Inr h4"
    "convert_local_storage C ''master_root_volume_size'' h4 = Inr h5" "convert_dcv C h5 = Inr h6"
    "convert_custom_action C h6 = Inr h7" "covert_headnode_iam C h7 = Inr h8"
    "d' = add_if ''HeadNode'' (VDict h8) d"
    by (auto simp: convert_headnode_def convert_imds_def add_if_def[of "''Imds''"] result_iffs)
  have "fits HeadNodeSchema (VDict h1)" by (rule instance_type_fits[OF *(1) fits_empty]) simp
  from head_networking_fits[OF *(2) this] have "fits HeadNodeSchema (VDict h2)" .
  then have "fits HeadNodeSchema (VDict h3)" by (rule hyperthreading_fits[OF *(3)]) simp
  from ssh_fits[OF *(4) this] have "fits HeadNodeSchema (VDict h4)" .
  then have "fits HeadNodeSchema (VDict h5)"
    by (rule local_storage_fits[OF *(5), where L = HeadNodeStorageSchema and R = HeadNodeRootVolumeSchema
          and E = HeadNodeEphemeralVolumeSchema]) simp_all
  from dcv_fits[OF *(6) this] have "fits HeadNodeSchema (VDict h6)" .
  then have "fits HeadNodeSchema (VDict h7)"
    by (rule custom_action_fits[OF assms(1) *(7), where A = HeadNodeCustomActionsSchema and p = UNSUPPORTED and q = UNSUPPORTED]) simp_all
  then have "fits HeadNodeSchema (VDict h8)" by (rule headnode_iam_fits[OF *(8), where I = HeadNodeIamSchema]) simp_all
  then show ?thesis unfolding *(9) by (intro fits_add_section[where S' = HeadNodeSchema] assms(3)) simp_all
qed

text \<open>The queues.\<close>

lemma efa_start: "cluster_efa C = Inr d \<Longrightarrow> fits EfaSchema (VDict d)"
  by (auto simp: cluster_efa_def result_iffs fits_dict declared_def ex_bool_eq split: if_splits)

lemma compute_resource_fits:
  assumes "convert_single_slurm_compute_resource C queue_section label = Inr v"
  shows "fits SlurmComputeResourceSchema v"
proof -
  from assms obtain e0 e sec r1 r2 r3 h where *:
    "cluster_efa C = Inr e0"
    "convert_fields C sec
        [(''instance_type'', ''InstanceType'', Get), (''min_count'', ''MinCount'', Getint),
         (''max_count'', ''MaxCount'', Getint), (''spot_price'', ''SpotPrice'', Getfloat)]
        [(''Name'', VStr (str_strip label))] = Inr r1"
    "convert_single_field C queue_section
        (''disable_hyperthreading'', ''DisableSimultaneousMultithreading'', Getboolean) r1 = Inr r2"
    "convert_fields C queue_section
        [(''enable_efa'', ''Enabled'', Getboolean), (''enable_efa_gdr'', ''GdrSupport'', Getboolean)] e0 = Inr e"
    "(if h = (None :: pyval option) then convert_disable_hyperthreading C r2 else Inr r2) = Inr r3"
    "v = VDict (add_if ''Efa'' (VDict e) r3)"
    unfolding convert_single_slurm_compute_resource_def Let_def result_iffs by (elim exE conjE) (rule that; assumption)
  have "fits SlurmComputeResourceSchema (VDict [(''Name'', VStr (str_strip label))])" by (simp add: fits_dict declared_def)
  then have "fits SlurmComputeResourceSchema (VDict r1)" by (rule converted_fields[OF *(2)]) (simp add: takes_def)
  then have r2: "fits SlurmComputeResourceSchema (VDict r2)" by (rule converted_field[OF *(3)]) (simp add: takes_def)
  have "fits SlurmComputeResourceSchema (VDict r3)"
    using *(5) r2 hyperthreading_fits[OF _ r2, of C r3] by (auto split: if_splits)
  moreover have "fits EfaSchema (VDict e)" by (rule converted_fields[OF *(4) efa_start[OF *(1)]]) (simp add: takes_def)
  ultimately show ?thesis unfolding *(6) by (intro fits_add_section[where S' = EfaSchema]) simp_all
qed

lemma compute_resources_fit:
  assumes "convert_slurm_compute_resources C queue_section d = Inr d'" and "fits SlurmQueueSchema (VDict d)"
  shows "fits SlurmQueueSchema (VDict d')"
proof -
  from assms(1) obtain labels rs where *:
    "rmap_list (convert_single_slurm_compute_resource C queue_section) labels = Inr rs"
    "d' = add_if ''ComputeResources'' (VList rs) d"
    by (auto simp: convert_slurm_compute_resources_def result_iffs split: option.splits)
  have "fits_many SlurmComputeResourceSchema (VList rs)"
    by (rule fits_manyI) (rule rmap_list_all_of[OF *(1) compute_resource_fits])
  then show ?thesis unfolding *(2) by (rule fits_add_sections[OF assms(2), rotated]) simp
qed

lemma capacity_type_runs:
  assumes "convert_capacity_type C section option d = Inr d'"
  shows "\<exists>q. convert_single_field C section (option, ''CapacityType'', Get) d = Inr q
    \<and> (d' = q \<or> (\<exists>s. d' = AList.update ''CapacityType'' (VStr s) q))"
proof -
  from assms obtain q where q: "convert_single_field C section (option, ''CapacityType'', Get) d = Inr q"
    and "d' = (case map_of q ''CapacityType'' of Some (VStr s) \<Rightarrow> AList.update ''CapacityType'' (VStr (upper_text s)) q | _ \<Rightarrow> q)"
    unfolding convert_capacity_type_def rmap_Inr_iff by blast
  then have "d' = q \<or> (\<exists>s. d' = AList.update ''CapacityType'' (VStr s) q)"
    by (auto split: option.splits pyval.splits)
  with q show ?thesis by blast
qed

lemma capacity_type_fits:
  assumes "convert_capacity_type C section option d = Inr d'" and "fits SlurmQueueSchema (VDict d)"
  shows "fits SlurmQueueSchema (VDict d')"
proof -
  from capacity_type_runs[OF assms(1)] obtain q where q: "convert_single_field C section (option, ''CapacityType'', Get) d = Inr q"
    and d': "d' = q \<or> (\<exists>s. d' = AList.update ''CapacityType'' (VStr s) q)" by blast
  have "fits SlurmQueueSchema (VDict q)" by (rule converted_field[OF q assms(2)]) (simp add: takes_def)
  with d' show ?thesis by (auto intro!: fits_update declared_field[where kd = FStr])
qed

lemma base_networking_fits:
  assumes "convert_base_queue_networking C = Inr n"
  shows "fits SlurmQueueNetworkingSchema (VDict n)"
proof -
  from assms obtain subnets sg add where *:
    "subnets = [] \<or> (\<exists>a. vpc_values C a = Inr subnets)"
    "vpc_values C ''vpc_security_group_id'' = Inr sg" "vpc_values C ''additional_sg'' = Inr add"
    "n = add_if ''AdditionalSecurityGroups'' (VList add) (add_if ''SecurityGroups'' (VList sg)
       (add_if ''SubnetIds'' (VList subnets) []))"
    by (auto simp: convert_base_queue_networking_def result_iffs split: if_splits)
  have "list_all (kind_fits FStr) subnets" using *(1) vpc_values_texts by auto
  moreover note vpc_values_texts[OF *(2)] vpc_values_texts[OF *(3)]
  ultimately show ?thesis unfolding *(4)
    by (intro fits_add_field[where kd = "FList FStr [get_field_validator ''security_group_id'']"]
        fits_add_field[where kd = "FList FStr [get_field_validator ''subnet_id'']" and k = "''SubnetIds''"]) simp_all
qed

lemma queue_networking_fits:
  assumes "convert_slurm_queue_networking C queue_section d = Inr d'" and "fits SlurmQueueSchema (VDict d)"
  shows "fits SlurmQueueSchema (VDict d')"
proof -
  from assms(1) obtain n p n' where *:
    "convert_base_queue_networking C = Inr n"
    "convert_proxy C (add_if ''PlacementGroup'' (VDict (placement_of p)) n) = Inr n'"
    "d' = add_if ''Networking'' (VDict n') d"
    by (auto simp: convert_slurm_queue_networking_def result_iffs)
  have "fits PlacementGroupSchema (VDict (placement_of p))"
    by (auto simp: placement_of_def fits_dict declared_def ex_bool_eq)
  then have "fits SlurmQueueNetworkingSchema (VDict (add_if ''PlacementGroup'' (VDict (placement_of p)) n))"
    by (rule fits_add_section[OF base_networking_fits[OF *(1)], rotated]) simp
  then have "fits SlurmQueueNetworkingSchema (VDict n')" by (rule proxy_fits[OF *(2), where P = QueueProxySchema]) simp_all
  then show ?thesis unfolding *(3) by (rule fits_add_section[OF assms(2), rotated]) simp
qed

lemma compute_settings_fit:
  assumes "convert_slurm_compute_settings C d = Inr d'" and "fits SlurmQueueSchema (VDict d)"
  shows "fits SlurmQueueSchema (VDict d')"
proof -
  from assms(1) obtain c where *: "convert_local_storage C ''compute_root_volume_size'' [] = Inr c"
    "d' = add_if ''ComputeSettings'' (VDict c) d"
    by (auto simp: convert_slurm_compute_settings_def rmap_Inr_iff)
  have "fits ComputeSettingsSchema (VDict c)"
    by (rule local_storage_fits[OF *(1) fits_empty, where L = QueueStorageSchema and R = QueueRootVolumeSchema
          and E = QueueEphemeralVolumeSchema]) simp_all
  then show ?thesis unfolding *(2) by (rule fits_add_section[OF assms(2), rotated]) simp
qed

lemma queue_actions_fit:
  "convertible C \<Longrightarrow> convert_custom_action C d = Inr d' \<Longrightarrow> fits SlurmQueueSchema (VDict d) \<Longrightarrow> fits SlurmQueueSchema (VDict d')"
  by (erule custom_action_fits[where A = QueueCustomActionsSchema and p = QUEUE_UPDATE_STRATEGY and q = QUEUE_UPDATE_STRATEGY]) simp_all

lemma queue_iam_fits:
  "covert_headnode_iam C d = Inr d' \<Longrightarrow> fits SlurmQueueSchema (VDict d) \<Longrightarrow> fits SlurmQueueSchema (VDict d')"
  by (erule headnode_iam_fits[where I = QueueIamSchema]) simp_all

lemmas queue_steps = capacity_type_fits compute_resources_fit queue_actions_fit queue_iam_fits queue_networking_fits compute_settings_fit

lemma named_queue: "fits SlurmQueueSchema (VDict [(''Name'', VStr n)])"
  by (simp add: fits_dict declared_def)

lemma slurm_queue_fits:
  "convertible C \<Longrightarrow> convert_single_slurm_queue C label = Inr v \<Longrightarrow> fits SlurmQueueSchema v"
  unfolding convert_single_slurm_queue_def Let_def result_iffs
  by (elim exE conjE) (simp, (erule queue_steps | assumption | rule named_queue)+)

text \<open>A run of a computation that returns; the messages it may leave.\<close>

lemma act_iffs:
  "reading r s = (Inr y, u) \<longleftrightarrow> r s = Inr y \<and> u = s"
  "unit_act x s = (Inr y, u) \<longleftrightarrow> y = x \<and> u = s"
  "raise_act e s = (Inr y, u) \<longleftrightarrow> False"
  "modify f s = (Inr w, u) \<longleftrightarrow> u = f s"
  "asking a s = (Inr y, u) \<longleftrightarrow> a s s = (Inr y, u)"
  by (auto simp: act_defs)

lemma and_then_iff: "and_then m k s = (Inr y, u) \<longleftrightarrow> (\<exists>t. m s = (Inr (), t) \<and> k t = (Inr y, u))"
  by (simp add: and_then_def bind_act_Inr_iff)

lemmas run_iffs = act_iffs and_then_iff bind_act_Inr_iff

definition messages_only :: "converter \<Rightarrow> converter \<Rightarrow> bool" where
  "messages_only C C' \<longleftrightarrow> (\<exists>c p. C' = C\<lparr>comments := c, printed := p\<rparr>)"

lemma messages_only_refl [simp]: "messages_only C C"
  unfolding messages_only_def by (intro exI[of _ "comments C"] exI[of _ "printed C"]) simp

lemma messages_onlyI [simp]: "messages_only C (C\<lparr>comments := c, printed := p\<rparr>)"
  unfolding messages_only_def by (rule exI, rule exI, rule refl)

lemma ignored_messages:
  assumes "validate_single_field (s, f, Ignored) C = (Inr u, C')"
  shows "messages_only C C'"
proof (cases "config_get C s f")
  case (Inr v)
  show ?thesis
  proof (cases "given_text v")
    case True
    with assms Inr have "C' = C\<lparr>comments := comments C', printed := printed C'\<rparr>"
      by (auto simp: validate_single_field_def Let_def and_then_def add_comment_def warn_def print_line_def act_defs)
    then show ?thesis using messages_onlyI[of C "printed C'" "comments C'"] by simp
  qed (use assms Inr in \<open>auto simp: validate_single_field_def act_defs\<close>)
qed (use assms in \<open>simp add: validate_single_field_def act_defs\<close>)

lemma sit_resources_fit:
  assumes "convert_slurm_sit_compute_resources d C = (Inr d', C')" and "fits SlurmQueueSchema (VDict d)"
  shows "fits SlurmQueueSchema (VDict d')" and "messages_only C C'"
proof -
  from assms(1) obtain r m i e where *:
    "convert_cluster_fields C sit_fields [(''Name'', VStr ''default-resource'')] = Inr r"
    "when_act (m = None) (validate_single_field (cluster_section_name C, ''initial_queue_size'', Ignored)) C = (Inr (), C')"
    "convert_instance_type C ''compute_instance_type''
       (case m of None \<Rightarrow> r | Some n \<Rightarrow> AList.update ''MinCount'' (VInt n) r) = Inr i"
    "cluster_efa C = Inr e" "d' = add_if ''ComputeResources'' (VList [VDict (add_if ''Efa'' (VDict e) i)]) d"
    unfolding convert_slurm_sit_compute_resources_def run_iffs result_iffs by blast
  show "messages_only C C'"
    using *(2) ignored_messages by (auto simp: when_act_def run_iffs split: if_splits)
  have "fits SlurmComputeResourceSchema (VDict [(''Name'', VStr ''default-resource'')])" by (simp add: fits_dict declared_def)
  then have "fits SlurmComputeResourceSchema (VDict r)"
    by (rule cluster_fields_fit[OF *(1)]) (simp add: takes_def sit_fields_def)
  then have "fits SlurmComputeResourceSchema (VDict (case m of None \<Rightarrow> r | Some n \<Rightarrow> AList.update ''MinCount'' (VInt n) r))"
    by (cases m) (auto intro!: fits_update declared_field[where kd = FInt])
  then have "fits SlurmComputeResourceSchema (VDict i)" by (rule instance_type_fits[OF *(3)]) simp
  moreover note efa_start[OF *(4)]
  ultimately have "fits SlurmComputeResourceSchema (VDict (add_if ''Efa'' (VDict e) i))"
    by (intro fits_add_section[where S' = EfaSchema]) simp_all
  then show "fits SlurmQueueSchema (VDict d')" unfolding *(5)
    by (intro fits_add_sections[OF assms(2), where S' = SlurmComputeResourceSchema]) simp_all
qed

lemma sit_queue_fits:
  assumes "convertible C" and "convert_sit_queue d ''SlurmQueues'' C = (Inr d', C')" and "fits SchedulingSchema (VDict d)"
  shows "fits SchedulingSchema (VDict d')" and "messages_only C C'"
proof -
  from assms(2) obtain q1 q2 q3 q4 q5 q6 where *:
    "convert_slurm_compute_settings C [(''Name'', VStr ''default-queue'')] = Inr q1"
    "convert_capacity_type C (cluster_section_name C) ''cluster_type'' q1 = Inr q2"
    "convert_custom_action C q2 = Inr q3" "covert_headnode_iam C q3 = Inr q4"
    "convert_slurm_queue_networking C (cluster_section_name C) q4 = Inr q5"
    "convert_slurm_sit_compute_resources q5 C = (Inr q6, C')"
    "d' = add_if ''SlurmQueues'' (VList [VDict q6]) d"
    unfolding convert_sit_queue_def run_iffs result_iffs by blast
  have "fits SlurmQueueSchema (VDict q5)"
    by (intro queue_networking_fits[OF *(5)] queue_iam_fits[OF *(4)] queue_actions_fit[OF assms(1) *(3)]
        capacity_type_fits[OF *(2)] compute_settings_fit[OF *(1)] named_queue)
  note last = sit_resources_fit[OF *(6) this]
  show "messages_only C C'" by (rule last(2))
  show "fits SchedulingSchema (VDict d')" unfolding *(7) using last(1)
    by (intro fits_add_sections[OF assms(3), where S' = SlurmQueueSchema]) simp_all
qed

lemma slurm_queues_fit:
  assumes "convertible C" and "convert_slurm_queues d ''SlurmQueues'' C = (Inr d', C')" and "fits SchedulingSchema (VDict d)"
  shows "fits SchedulingSchema (VDict d') \<and> messages_only C C'"
proof -
  from assms(2) obtain s where s: "cluster_config_get C ''queue_settings'' = Inr s"
    by (auto simp: convert_slurm_queues_def run_iffs)
  show ?thesis
  proof (cases "given_text s")
    case False
    with assms(2) s have "convert_sit_queue d ''SlurmQueues'' C = (Inr d', C')"
      by (simp add: convert_slurm_queues_def run_iffs)
    from sit_queue_fits[OF assms(1) this assms(3)] show ?thesis ..
  next
    case True
    with assms(2) s obtain vs where *:
      "rmap_list (convert_single_slurm_queue C) (split_on (CHR '','') (the s)) = Inr vs"
      "d' = add_if ''SlurmQueues'' (VList vs) d" "C' = C"
      by (auto simp: convert_slurm_queues_def run_iffs result_iffs)
    have "fits_many SlurmQueueSchema (VList vs)"
      by (rule fits_manyI) (rule rmap_list_all_of[OF *(1) slurm_queue_fits[OF assms(1)]])
    then show ?thesis unfolding *(2,3)
      by (simp add: fits_add_sections[OF assms(3), where S' = SlurmQueueSchema])
  qed
qed

lemma slurm_settings_fit:
  assumes "convert_slurm_settings C ''SlurmSettings'' d = Inr d'" and "fits SchedulingSchema (VDict d)"
  shows "fits SchedulingSchema (VDict d')"
proof -
  from assms(1) obtain s dns where *:
    "convert_named_section C ''scaling_settings'' ''scaling'' [(''scaledown_idletime'', ''ScaledownIdletime'', Getint)] = Inr s"
    "convert_cluster_fields C [(''disable_cluster_dns'', ''DisableManagedDns'', Getboolean)] [] = Inr dns"
    "d' = add_if ''SlurmSettings'' (VDict (add_if ''Dns'' (VDict dns) s)) d"
    by (auto simp: convert_slurm_settings_def result_iffs)
  have "fits SlurmSettingsSchema (VDict s)" by (rule named_section_fits[OF *(1)]) (simp add: takes_def)
  moreover have "fits DnsSchema (VDict dns)" by (rule cluster_fields_fit[OF *(2) fits_empty]) (simp add: takes_def)
  ultimately show ?thesis unfolding *(3)
    by (intro fits_add_section[OF assms(2), where S' = SlurmSettingsSchema] fits_add_section[where S' = DnsSchema]) simp_all
qed

lemma scheduling_fits:
  assumes "convertible C" and "convert_scheduling ''Scheduling'' d C = (Inr d', C')" and "fits ClusterSchema (VDict d)"
  shows "fits ClusterSchema (VDict d') \<and> messages_only C C'"
proof -
  from assms(2) obtain s1 s2 s3 where *:
    "convert_cluster_fields C [(''scheduler'', ''Scheduler'', Get)] [] = Inr s1"
    "convert_slurm_settings C ''SlurmSettings'' s1 = Inr s2"
    "convert_slurm_queues s2 ''SlurmQueues'' C = (Inr s3, C')" "d' = add_if ''Scheduling'' (VDict s3) d"
    unfolding convert_scheduling_def run_iffs result_iffs by blast
  have "fits SchedulingSchema (VDict s1)" by (rule cluster_fields_fit[OF *(1) fits_empty]) (simp add: takes_def)
  from slurm_queues_fit[OF assms(1) *(3) slurm_settings_fit[OF *(2) this]] show ?thesis unfolding *(4)
    by (simp add: fits_add_section[OF assms(3), where S' = SchedulingSchema])
qed

section \<open>The converted configuration\<close>

lemma each_invariant:
  "each f xs s = (Inr (), t) \<Longrightarrow> P s \<Longrightarrow> (\<And>x s t. x \<in> set xs \<Longrightarrow> P s \<Longrightarrow> f x s = (Inr (), t) \<Longrightarrow> P t) \<Longrightarrow> P t"
proof (induction xs arbitrary: s)
  case (Cons x xs)
  from Cons.prems(1) obtain u where u: "f x s = (Inr (), u)" "each f xs u = (Inr (), t)" by (auto simp: run_iffs)
  have "P u" using Cons.prems(3)[of x s u] Cons.prems(2) u(1) by simp
  then show ?case by (rule Cons.IH[OF u(2)]) (rule Cons.prems(3), auto)
qed (simp add: run_iffs)

lemma convertible_updates [simp]:
  "convertible (C\<lparr>pcluster3_configuration := d\<rparr>) = convertible C"
  "convertible (C\<lparr>comments := c, printed := p\<rparr>) = convertible C"
  by (simp_all add: convertible_def cluster_config_get_def config_get_def)

definition well_converted :: "converter \<Rightarrow> bool" where
  "well_converted C \<longleftrightarrow> convertible C \<and> fits ClusterSchema (VDict (pcluster3_configuration C))"

lemma section_step:
  assumes "add_section f n C = (Inr (), C')" and "well_converted C"
    and "\<And>d C''. f n (pcluster3_configuration C) C = (Inr d, C'') \<Longrightarrow> fits ClusterSchema (VDict d) \<and> messages_only C C''"
  shows "well_converted C'"
proof -
  from assms(1) obtain d C'' where *: "f n (pcluster3_configuration C) C = (Inr d, C'')"
    "C' = C''\<lparr>pcluster3_configuration := d\<rparr>"
    by (auto simp: add_section_def run_iffs)
  from assms(3)[OF *(1)] obtain c p where "C'' = C\<lparr>comments := c, printed := p\<rparr>" "fits ClusterSchema (VDict d)"
    by (auto simp: messages_only_def)
  with *(2) assms(2) show ?thesis by (simp add: well_converted_def)
qed

lemma pure_section_runs: "pure_section f n d C = (Inr d', C') \<longleftrightarrow> f C n d = Inr d' \<and> C' = C"
  by (simp add: pure_section_def run_iffs)

lemma sections_fit:
  assumes "(n, f) \<in> set convert_function_mappings" and "well_converted C" and "f n (pcluster3_configuration C) C = (Inr d, C')"
  shows "fits ClusterSchema (VDict d) \<and> messages_only C C'"
proof -
  note wc = assms(2)[unfolded well_converted_def]
  note facts = text_fields_fit image_fits iam_fits additional_packages_fit tags_fit shared_storage_fits monitoring_fits
    headnode_fits dev_settings_fit
  show ?thesis
    using assms(1,3) wc unfolding convert_function_mappings_def
    by (auto simp: pure_section_runs dest: facts scheduling_fits)
qed


text \<open>What is written under other names.\<close>

lemma lambda_role_not_declared:
  assumes "cluster_config_get C ''iam_lambda_role'' = Inr (Some r)" and "r \<noteq> []" and "convert_iam C ''Iam'' [] = Inr d"
  shows "\<not> fits ClusterSchema (VDict d)"
  using assms by (auto simp: convert_iam_def convert_role_def result_iffs given_text_def add_if_def fits_dict declared_def)

lemma add_if_keys: "fst ` set d \<subseteq> fst ` set (add_if k v d)"
  and updated_key: "k \<in> fst ` set (AList.update k v d)"
  by (auto simp: add_if_def dom_update)

lemma raid_throughput_not_declared:
  assumes "config_get C (storage_label ''raid'' (str_strip label)) ''volume_throughput'' = Inr (Some s)"
    and "convert_one_raid C ''EbsSettings'' label = Inr v"
  shows "\<not> fits SharedStorageSchema v"
proof -
  from assms(2) obtain sec settings raid where *:
    "convert_storage_base C ''raid'' (str_strip label) raid_fields = Inr (sec, settings)"
    "v = VDict (add_if ''EbsSettings'' (VDict (add_if ''Raid'' (VDict raid) settings)) sec)"
    by (auto simp: convert_one_raid_def result_iffs)
  from *(1) obtain d where "convert_single_field C (storage_label ''raid'' (str_strip label))
      (''volume_throughput'', ''Throughout'', Getint) d = Inr settings"
    by (auto simp: convert_storage_base_def convert_fields_def raid_fields_def result_iffs Let_def)
  with assms(1) obtain i where "settings = AList.update ''Throughout'' i d"
    by (auto simp: convert_single_field_def get_attribute_def rmap_def rbind_def split: sum.splits)
  then have key: "''Throughout'' \<in> fst ` set (add_if ''Raid'' (VDict raid) settings)"
    using add_if_keys[of settings "''Raid''" "VDict raid"] updated_key[of "''Throughout''" i d] by blast
  then have "add_if ''Raid'' (VDict raid) settings \<noteq> []" by auto
  then have "map_of (add_if ''EbsSettings'' (VDict (add_if ''Raid'' (VDict raid) settings)) sec) ''EbsSettings''
      = Some (VDict (add_if ''Raid'' (VDict raid) settings))"
    by (simp add: add_if_def[of "''EbsSettings''"] update_conv')
  from map_of_SomeD[OF this] key show ?thesis unfolding *(2) fits_dict
    by (force simp: declared_def fits_dict)
qed

section \<open>Queues and storages by name\<close>

fun name_in :: "pyval \<Rightarrow> pyval option" where
  "name_in (VDict d) = map_of d ''Name''"
| "name_in _ = None"

lemma name_kept:
  "k \<noteq> ''Name'' \<Longrightarrow> map_of (AList.update k v d) ''Name'' = map_of d ''Name''"
  "k \<noteq> ''Name'' \<Longrightarrow> map_of (add_if k v d) ''Name'' = map_of d ''Name''"
  by (simp_all add: update_conv' add_if_def)

lemma field_keeps_name:
  "convert_single_field C sec field d = Inr d' \<Longrightarrow> fst (snd field) \<noteq> ''Name'' \<Longrightarrow> map_of d' ''Name'' = map_of d ''Name''"
  by (cases field) (auto simp: convert_single_field_def name_kept split: sum.splits option.splits)

lemma queue_step_keeps_name:
  "convert_capacity_type C s f d = Inr d' \<Longrightarrow> map_of d' ''Name'' = map_of d ''Name''"
  "convert_slurm_compute_resources C s d = Inr d' \<Longrightarrow> map_of d' ''Name'' = map_of d ''Name''"
  "convert_custom_action C d = Inr d' \<Longrightarrow> map_of d' ''Name'' = map_of d ''Name''"
  "covert_headnode_iam C d = Inr d' \<Longrightarrow> map_of d' ''Name'' = map_of d ''Name''"
  "convert_slurm_queue_networking C s d = Inr d' \<Longrightarrow> map_of d' ''Name'' = map_of d ''Name''"
  "convert_slurm_compute_settings C d = Inr d' \<Longrightarrow> map_of d' ''Name'' = map_of d ''Name''"
  by (auto simp: convert_slurm_compute_resources_def convert_custom_action_def
      covert_headnode_iam_def convert_slurm_queue_networking_def convert_slurm_compute_settings_def result_iffs name_kept
      split: option.splits dest!: capacity_type_runs dest: field_keeps_name)

lemma queue_name: "convert_single_slurm_queue C label = Inr v \<Longrightarrow> name_in v = Some (VStr (str_strip label))"
  unfolding convert_single_slurm_queue_def Let_def result_iffs
  by (elim exE conjE) (simp add: queue_step_keeps_name)

lemma names_in_order:
  "rmap_list f xs = Inr vs \<Longrightarrow> (\<And>x v. f x = Inr v \<Longrightarrow> g v = h x) \<Longrightarrow> map g vs = map h xs"
  by (induction xs arbitrary: vs) (auto simp: result_iffs)

text \<open>The queues are those that the old configuration lists, in its order and under its names.\<close>

lemma converted_queues_in_order:
  assumes "cluster_config_get C ''queue_settings'' = Inr (Some labels)" and "labels \<noteq> []"
    and "convert_slurm_queues scheduling ''SlurmQueues'' C = (Inr d, C')"
  shows "\<exists>queues. map_of d ''SlurmQueues'' = Some (VList queues) \<and> C' = C
    \<and> map name_in queues = map (\<lambda>l. Some (VStr (str_strip l))) (split_on (CHR '','') labels)"
proof -
  from assms obtain vs where *: "rmap_list (convert_single_slurm_queue C) (split_on (CHR '','') labels) = Inr vs"
    "d = add_if ''SlurmQueues'' (VList vs) scheduling" "C' = C"
    by (auto simp: convert_slurm_queues_def run_iffs result_iffs given_text_def)
  have names: "map name_in vs = map (\<lambda>l. Some (VStr (str_strip l))) (split_on (CHR '','') labels)"
    by (rule names_in_order[OF *(1) queue_name])
  then have "vs \<noteq> []" using split_on_nonempty[of "CHR '',''" labels] by (metis map_is_Nil_conv)
  then have "map_of d ''SlurmQueues'' = Some (VList vs)" by (simp add: *(2) add_if_def update_conv')
  with *(3) names show ?thesis by blast
qed

lemma fields_keep_name:
  assumes "convert_fields C sec items d = Inr d'" and "\<forall>i \<in> set items. fst (snd i) \<noteq> ''Name''"
  shows "map_of d' ''Name'' = map_of d ''Name''"
  using assms(1) unfolding convert_fields_def
  by (rule rfold_invariant[where P = "\<lambda>x. map_of x ''Name'' = map_of d ''Name''"])
    (use assms(2) field_keeps_name in auto)

lemma storage_name:
  assumes "convert_storage_base C t label items = Inr (sec, settings)"
  shows "map_of sec ''Name'' = Some (VStr label)"
  using assms fields_keep_name[of C "storage_label t label" "[(''shared_dir'', ''MountDir'', Get)]"]
  by (auto simp: convert_storage_base_def result_iffs Let_def)

lemma listed_storage_name:
  assumes "convert_one_storage C t items key l = Inr v" and "key \<noteq> ''Name''"
  shows "name_in v = Some (VStr (str_strip l))"
proof -
  from assms(1) obtain sec settings where *: "convert_storage_base C t (str_strip l) items = Inr (sec, settings)"
    "v = VDict (add_if key (VDict settings) sec)"
    by (auto simp: convert_one_storage_def rmap_Inr_iff)
  then show ?thesis using storage_name[OF *(1)] assms(2) by (simp add: name_kept)
qed

lemma raid_storage_name:
  assumes "convert_one_raid C ''EbsSettings'' l = Inr v"
  shows "name_in v = Some (VStr (str_strip l))"
proof -
  from assms obtain sec settings w where *: "convert_storage_base C ''raid'' (str_strip l) raid_fields = Inr (sec, settings)"
    "v = VDict (add_if ''EbsSettings'' w sec)"
    by (auto simp: convert_one_raid_def result_iffs)
  then show ?thesis using storage_name[OF *(1)] by (simp add: name_kept)
qed

lemma ebs_storage_name:
  assumes "convert_one_ebs C single ''EbsSettings'' l = Inr v"
  shows "name_in v = Some (VStr (str_strip l))"
proof -
  from assms obtain sec settings s where *: "convert_storage_base C ''ebs'' (str_strip l) ebs_fields = Inr (sec, settings)"
    "cluster_shared_dir C single sec = Inr s" "v = VDict (add_if ''EbsSettings'' (VDict settings) s)"
    by (auto simp: convert_one_ebs_def result_iffs)
  have "map_of s ''Name'' = map_of sec ''Name''"
    using *(2) field_keeps_name[of C _ _ sec s] by (auto simp: cluster_shared_dir_def rbind_Inr_iff split: if_splits)
  then show ?thesis using storage_name[OF *(1)] *(3) by (simp add: name_kept)
qed

section \<open>What the validation guards\<close>

text \<open>Settings without a text in them.\<close>

fun blank :: "pyval \<Rightarrow> bool" where
  "blank (VStr s) = (s = [])"
| "blank (VDict d) = (\<forall>kv \<in> set d. blank (snd kv))"
| "blank _ = False"

lemma blank_update:
  assumes "blank (VDict d)" and "blank v"
  shows "blank (VDict (AList.update k v d))"
  unfolding blank.simps
proof (rule ballI)
  fix kv assume "kv \<in> set (AList.update k v d)"
  from subsetD[OF update_subset this] have "kv = (k, v) \<or> kv \<in> set d" by simp
  then show "blank (snd kv)" using assms(2) bspec[OF assms(1)[unfolded blank.simps], of kv] by (elim disjE) simp_all
qed

lemma blank_add_if: "blank (VDict d) \<Longrightarrow> blank v \<Longrightarrow> blank (VDict (add_if k v d))"
  by (simp add: add_if_def blank_update del: blank.simps)

lemma blank_field:
  assumes "convert_single_field C sec (a, k, Get) d = Inr d'" and "blank (VDict d)"
    and "\<exists>v. config_get C sec a = Inr v \<and> \<not> given_text v"
  shows "blank (VDict d')"
proof -
  from assms(3) obtain v where v: "config_get C sec a = Inr v" "v = None \<or> v = Some []" by (auto simp: given_text_def)
  with assms(1) consider "d' = d" | "d' = AList.update k (VStr []) d"
    by (auto simp: convert_single_field_def get_attribute_def)
  then show ?thesis by cases (use assms(2) in \<open>simp_all add: blank_update del: blank.simps(2)\<close>)
qed

lemma given_params_none:
  assumes "given_params C params = Inr []" and "p \<in> set params"
  shows "\<exists>v. cluster_config_get C p = Inr v \<and> \<not> given_text v"
proof -
  let ?f = "\<lambda>param. rmap (\<lambda>v. if given_text v then [param] else []) (cluster_config_get C param)"
  from assms(1) obtain xss where "rmap_list ?f params = Inr xss" "\<forall>xs \<in> set xss. xs = []"
    by (auto simp: given_params_def rmap_Inr_iff)
  then show ?thesis using assms(2)
  proof (induction params arbitrary: xss)
    case (Cons q ps)
    then show ?case by (cases "p = q") (auto simp: result_iffs split: if_splits)
  qed simp
qed

text \<open>
  C37: without \<open>--force-convert\<close>, a configuration that passes the check of the development settings is converted to
  one whose development settings hold no text.
\<close>

theorem dev_settings_need_force:
  assumes "\<not> force_convert C" and "validate_dev_settings C = (Inr (), C')"
    and "convert_dev_settings C' ''DevSettings'' [] = Inr d"
  shows "blank (VDict d)"
proof -
  from assms(1,2) have none: "given_params C dev_params = Inr []" and C': "C' = C"
    by (auto simp: validate_dev_settings_def run_iffs Let_def with_config_def split: if_splits)
  have absent: "\<exists>v. config_get C (cluster_section_name C) p = Inr v \<and> \<not> given_text v" if "p \<in> set dev_params" for p
    using given_params_none[OF none that] by (simp add: cluster_config_get_def)
  from assms(3) C' obtain cookbook dev where *:
    "convert_cluster_fields C
       [(''extra_json'', ''ExtraChefAttributes'', Get), (''custom_chef_cookbook'', ''ChefCookbook'', Get)] [] = Inr cookbook"
    "convert_cluster_fields C
       [(''template_url'', ''ClusterTemplate'', Get), (''instance_types_data'', ''InstanceTypesData'', Get)] [] = Inr dev"
    "d = add_if ''DevSettings'' (VDict (add_if ''Cookbook'' (VDict cookbook) dev)) []"
    by (auto simp: convert_dev_settings_def result_iffs)
  have step: "blank (VDict e)" if "convert_cluster_fields C [(a, k, Get), (b, l, Get)] [] = Inr e"
    "a \<in> set dev_params" "b \<in> set dev_params" for a b k l e
    using that(1) blank_field[OF _ _ absent[OF that(2)]] blank_field[OF _ _ absent[OF that(3)]]
    by (fastforce simp: convert_cluster_fields_def convert_fields_def result_iffs)
  have "blank (VDict cookbook)" "blank (VDict dev)"
    by (rule step[OF *(1)] step[OF *(2)]; simp add: dev_params_def)+
  then show ?thesis unfolding *(3) by (intro blank_add_if) simp_all
qed

section \<open>What the validation accepts\<close>

text \<open>A change of the messages and of the names seen; a check that only leaves such changes.\<close>

definition settled :: "converter \<Rightarrow> converter \<Rightarrow> bool" where
  "settled C C' \<longleftrightarrow> (\<exists>n c p. C' = C\<lparr>convert_shared_storage_name := n, comments := c, printed := p\<rparr>)"

lemma settledI: "settled C (C\<lparr>convert_shared_storage_name := n, comments := c, printed := p\<rparr>)"
  unfolding settled_def by (rule exI, rule exI, rule exI, rule refl)

lemma settled_refl: "settled C C"
  using settledI[of C "printed C" "comments C" "convert_shared_storage_name C"] by simp

lemma settled_trans: "settled C D \<Longrightarrow> settled D E \<Longrightarrow> settled C E"
proof -
  assume "settled C D" "settled D E"
  then obtain n c p n' c' p' where "D = C\<lparr>convert_shared_storage_name := n, comments := c, printed := p\<rparr>"
    "E = D\<lparr>convert_shared_storage_name := n', comments := c', printed := p'\<rparr>"
    unfolding settled_def by blast
  then have "E = C\<lparr>convert_shared_storage_name := n', comments := c', printed := p'\<rparr>" by simp
  then show ?thesis by (simp add: settledI)
qed

definition quiet :: "(converter, unit) act \<Rightarrow> bool" where
  "quiet m \<longleftrightarrow> (\<forall>C. plain_ini (config_parser C) \<longrightarrow> (\<exists>C'. m C = (Inr (), C') \<and> settled C C'))"

lemma quiet_unit: "quiet (unit_act ())"
  by (simp add: quiet_def act_defs settled_refl)

lemma settled_parser: "settled C C' \<Longrightarrow> config_parser C' = config_parser C"
  by (auto simp: settled_def)

lemma quiet_then:
  assumes "quiet m" and "quiet k"
  shows "quiet (and_then m k)"
  unfolding quiet_def
proof (intro allI impI)
  fix C :: converter assume "plain_ini (config_parser C)"
  with assms(1) obtain D where D: "m C = (Inr (), D)" "settled C D" by (auto simp: quiet_def)
  have "plain_ini (config_parser D)" using settled_parser[OF D(2)] \<open>plain_ini (config_parser C)\<close> by simp
  with assms(2) obtain E where "k D = (Inr (), E)" "settled D E" by (auto simp: quiet_def)
  with D show "\<exists>C'. and_then m k C = (Inr (), C') \<and> settled C C'"
    using settled_trans by (auto simp: and_then_iff)
qed

lemma quiet_when: "quiet m \<Longrightarrow> quiet (when_act b m)"
  by (simp add: when_act_def quiet_unit)

lemma quiet_each: "(\<And>x. quiet (f x)) \<Longrightarrow> quiet (each f xs)"
  by (induction xs) (simp_all add: quiet_unit quiet_then)

lemma quiet_if: "quiet m \<Longrightarrow> quiet k \<Longrightarrow> quiet (if b then m else k)"
  by simp

lemma quiet_asking: "(\<And>C. quiet (a C)) \<Longrightarrow> quiet (asking a)"
  by (simp add: quiet_def asking_def)

lemma quiet_reads:
  assumes "\<And>C. plain_ini (config_parser C) \<Longrightarrow> \<exists>v. r C = Inr v" and "\<And>v. quiet (f v)"
  shows "quiet (bind_act (with_config r) f)"
  unfolding quiet_def
proof (intro allI impI)
  fix C :: converter assume p: "plain_ini (config_parser C)"
  with assms(1) obtain v where v: "r C = Inr v" by blast
  from assms(2)[of v] p obtain D where "f v C = (Inr (), D)" "settled C D" by (auto simp: quiet_def)
  with v show "\<exists>C'. bind_act (with_config r) f C = (Inr (), C') \<and> settled C C'"
    by (simp add: bind_act_def with_config_def act_defs)
qed

lemma config_get_plain: "plain_ini (config_parser C) \<Longrightarrow> config_get C s k = Inr (raw_value (config_parser C) s k)"
  by (simp add: config_get_def ini_get_plain)

lemma plain_reads:
  "plain_ini (config_parser C) \<Longrightarrow> \<exists>v. config_get C s k = Inr v"
  "plain_ini (config_parser C) \<Longrightarrow> \<exists>v. cluster_config_get C k = Inr v"
  by (simp_all add: cluster_config_get_def config_get_plain)

lemma settled_updates:
  "settled C (C\<lparr>printed := p\<rparr>)" "settled C (C\<lparr>comments := c\<rparr>)" "settled C (C\<lparr>convert_shared_storage_name := n\<rparr>)"
  using settledI[of C p "comments C" "convert_shared_storage_name C"]
    settledI[of C "printed C" c "convert_shared_storage_name C"] settledI[of C "printed C" "comments C" n]
  by simp_all

lemma quiet_messages: "quiet (print_line m)" "quiet (add_comment m)"
  by (simp_all add: quiet_def print_line_def add_comment_def act_defs settled_updates)

lemma quiet_warnings: "quiet (warn m)" "quiet (note_message m)" "quiet (warn_and_comment m)"
  by (simp_all add: warn_def note_message_def warn_and_comment_def quiet_messages quiet_then)

lemmas quiet_intros = quiet_unit quiet_then quiet_when quiet_each quiet_asking quiet_if quiet_messages quiet_warnings

lemma quiet_single_field: "concern = Ignored \<or> concern = Ambiguous \<Longrightarrow> quiet (validate_single_field (s, f, concern))"
  unfolding validate_single_field_def prod.case with_config_def[symmetric]
  by (rule quiet_reads) (auto simp: plain_reads Let_def intro!: quiet_intros)

lemma quiet_names: "quiet (validate_name n s)" "quiet (validate_default_name n s)"
  by (auto simp: validate_name_def validate_default_name_def validate_underscore_in_name_def intro!: quiet_intros)

lemma quiet_duplicate_names: "quiet (validate_duplicate_names l)"
  using quiet_warnings(3) by (auto simp: validate_duplicate_names_def quiet_def asking_def modify_def settled_updates)

lemma quiet_queues: "quiet (validate_queues labels)"
proof (induction labels)
  case (Cons l ls)
  show ?case unfolding validate_queues.simps Let_def
    by (intro quiet_then quiet_names quiet_reads plain_reads quiet_if quiet_unit Cons quiet_each)
      (auto simp: validate_compute_resource_def Let_def intro!: quiet_then quiet_names quiet_single_field)
qed (simp add: quiet_unit)

lemma quiet_checks:
  "quiet validate_shared_storages_name" "quiet validate_slurm_queues" "quiet validate_default_ebs"
  "quiet validate_ambiguous_fields"
  unfolding validate_shared_storages_name_def validate_slurm_queues_def validate_default_ebs_def validate_ambiguous_fields_def
  by (auto intro!: quiet_reads plain_reads quiet_intros quiet_duplicate_names quiet_names quiet_queues quiet_single_field
      split: prod.splits)

text \<open>A check that accepts exactly under a condition, and leaves messages only when it does.\<close>

definition accepts_when :: "(converter \<Rightarrow> bool) \<Rightarrow> (converter, unit) act \<Rightarrow> bool" where
  "accepts_when b m \<longleftrightarrow> (\<forall>C. plain_ini (config_parser C) \<longrightarrow>
     (if b C then \<exists>C'. m C = (Inr (), C') \<and> settled C C' else \<forall>C'. m C \<noteq> (Inr (), C')))"

definition steady :: "(converter \<Rightarrow> bool) \<Rightarrow> bool" where \<comment> \<open>a condition that messages do not change\<close>
  "steady b \<longleftrightarrow> (\<forall>C D. settled C D \<longrightarrow> b D = b C)"

lemma accepts_quiet: "quiet m \<longleftrightarrow> accepts_when (\<lambda>_. True) m"
  by (simp add: quiet_def accepts_when_def)

lemma accepts_at:
  assumes "accepts_when b m" and "plain_ini (config_parser C)"
  shows "b C \<Longrightarrow> \<exists>C'. m C = (Inr (), C') \<and> settled C C'" and "m C = (Inr (), C') \<Longrightarrow> b C"
  using assms(1)[unfolded accepts_when_def, rule_format, OF assms(2)] by (simp, cases "b C", simp_all)

lemma accepts_then:
  assumes "accepts_when b m" and "accepts_when c k" and "steady c"
  shows "accepts_when (\<lambda>C. b C \<and> c C) (and_then m k)"
  unfolding accepts_when_def
proof (intro allI impI)
  fix C :: converter assume p: "plain_ini (config_parser C)"
  show "if b C \<and> c C then \<exists>C'. and_then m k C = (Inr (), C') \<and> settled C C' else \<forall>C'. and_then m k C \<noteq> (Inr (), C')"
  proof (cases "b C")
    case True
    from accepts_at(1)[OF assms(1) p True] obtain D where D: "m C = (Inr (), D)" "settled C D" by blast
    then have cD: "c D = c C" "plain_ini (config_parser D)" using assms(3) p by (auto simp: steady_def settled_parser)
    show ?thesis
    proof (cases "c C")
      case c: True
      with accepts_at(1)[OF assms(2) cD(2)] cD obtain E where "k D = (Inr (), E)" "settled D E" by blast
      with D True c settled_trans show ?thesis by (auto simp: and_then_iff)
    next
      case False
      with accepts_at(2)[OF assms(2) cD(2)] cD D show ?thesis by (auto simp: and_then_iff)
    qed
  next
    case False
    with assms(1) p show ?thesis by (auto simp: accepts_when_def and_then_iff)
  qed
qed

lemma accepts_reads:
  assumes "\<And>C. plain_ini (config_parser C) \<Longrightarrow> r C = Inr (g C)" and "\<And>v. accepts_when (b v) (f v)"
  shows "accepts_when (\<lambda>C. b (g C) C) (bind_act (with_config r) f)"
  unfolding accepts_when_def
proof (intro allI impI)
  fix C :: converter assume p: "plain_ini (config_parser C)"
  have "bind_act (with_config r) f C = f (g C) C"
    using assms(1)[OF p] by (simp add: bind_act_def with_config_def act_defs)
  then show "if b (g C) C then \<exists>C'. bind_act (with_config r) f C = (Inr (), C') \<and> settled C C'
    else \<forall>C'. bind_act (with_config r) f C \<noteq> (Inr (), C')"
    using assms(2)[of "g C"] p by (simp add: accepts_when_def)
qed

lemma accepts_refusal: "accepts_when (\<lambda>_. False) (raise_act e)"
  by (simp add: accepts_when_def act_defs)

lemma accepts_if: "accepts_when b m \<Longrightarrow> accepts_when c k \<Longrightarrow> accepts_when (\<lambda>C. if t then b C else c C) (if t then m else k)"
  by (simp add: accepts_when_def)

lemma accepts_asking: "(\<And>D. accepts_when (b D) (a D)) \<Longrightarrow> accepts_when (\<lambda>C. b C C) (asking a)"
  by (simp add: accepts_when_def asking_def)

lemma accepts_cong: "accepts_when b m \<Longrightarrow> (\<And>C. plain_ini (config_parser C) \<Longrightarrow> b C = c C) \<Longrightarrow> accepts_when c m"
  by (simp add: accepts_when_def)

definition cluster_value :: "string \<Rightarrow> converter \<Rightarrow> string option" where
  "cluster_value k C = raw_value (config_parser C) (cluster_section_name C) k"

lemma cluster_reads: "plain_ini (config_parser C) \<Longrightarrow> cluster_config_get C k = Inr (cluster_value k C)"
  by (simp add: cluster_config_get_def cluster_value_def config_get_plain)

lemma settled_values:
  assumes "settled C D"
  shows "cluster_value k D = cluster_value k C" "config_parser D = config_parser C"
    "force_convert D = force_convert C" "vpc_section_label D = vpc_section_label C"
  using assms by (auto simp: settled_def cluster_value_def)

lemma accepts_scheduler: "accepts_when (\<lambda>C. cluster_value ''scheduler'' C = Some ''slurm'') validate_scheduler"
proof -
  have "accepts_when (\<lambda>_. v = Some ''slurm'') (if \<not> given_text v then raise_act (e v) else
     if the v \<in> {''sge'', ''torque'', ''awsbatch''} then raise_act (e' v) else if the v \<noteq> ''slurm'' then raise_act (e'' v)
     else unit_act ())" for v :: "string option" and e e' e''
    by (cases v) (auto simp: given_text_def accepts_refusal quiet_unit[unfolded accepts_quiet])
  from accepts_reads[OF cluster_reads this] show ?thesis unfolding validate_scheduler_def .
qed

lemma accepts_required: "accepts_when (\<lambda>C. cluster_value ''scheduler'' C = Some ''slurm'') validate_required_fields"
proof -
  have st: "steady (\<lambda>C. cluster_value ''scheduler'' C = Some ''slurm'')" by (simp add: steady_def settled_values)
  have "accepts_when (\<lambda>C. True \<and> cluster_value ''scheduler'' C = Some ''slurm'')
      (and_then (when_act (v = Some ''slurm'') (and_then (note_message imds_note) (add_comment m))) validate_scheduler)" for v m
    by (rule accepts_then[OF _ accepts_scheduler st]) (simp add: accepts_quiet[symmetric] quiet_when quiet_then quiet_messages quiet_warnings)
  from accepts_reads[where b = "\<lambda>_ C. True \<and> cluster_value ''scheduler'' C = Some ''slurm''", OF cluster_reads this]
  have "accepts_when (\<lambda>C. True \<and> True \<and> True \<and> cluster_value ''scheduler'' C = Some ''slurm'') validate_required_fields"
    unfolding validate_required_fields_def
    by (intro accepts_then quiet_messages(2)[unfolded accepts_quiet] quiet_warnings(2)[unfolded accepts_quiet])
      (simp_all add: st steady_def settled_values)
  then show ?thesis by simp
qed

lemma accepts_removal:
  "accepts_when (\<lambda>C. \<not> given_text (raw_value (config_parser C) s f)) (validate_single_field (s, f, Need_remove))"
  unfolding validate_single_field_def prod.case concern.case Let_def with_config_def[symmetric]
  by (rule accepts_reads[where b = "\<lambda>v _. \<not> given_text v", OF config_get_plain])
    (simp_all add: accepts_refusal quiet_unit[unfolded accepts_quiet])

definition boolean_text :: "string option \<Rightarrow> bool" where
  "boolean_text v \<longleftrightarrow> (case v of None \<Rightarrow> True
     | Some s \<Rightarrow> lower_text s \<in> {''1'', ''yes'', ''true'', ''on'', ''0'', ''no'', ''false'', ''off''})"

lemma accepts_sanity_check:
  assumes "\<And>v. quiet (f v)"
  shows "accepts_when (\<lambda>C. boolean_text (raw_value (config_parser C) s k)) (bind_act (with_config (\<lambda>C. get_attribute C Getboolean s k)) f)"
proof (simp only: accepts_when_def, intro allI impI)
  fix C :: converter assume p: "plain_ini (config_parser C)"
  have run: "bind_act (with_config (\<lambda>C. get_attribute C Getboolean s k)) f C = (case get_attribute C Getboolean s k of
      Inl e \<Rightarrow> (Inl e, C) | Inr v \<Rightarrow> f v C)"
    by (simp add: bind_act_def with_config_def act_defs split: sum.splits)
  have read: "\<exists>v. get_attribute C Getboolean s k = Inr v" if "boolean_text (raw_value (config_parser C) s k)"
    using that p by (auto simp: get_attribute_def config_get_plain boolean_text_def convert_to_boolean_def split: option.splits)
  have "\<exists>e. get_attribute C Getboolean s k = Inl e" if "\<not> boolean_text (raw_value (config_parser C) s k)"
    using that p by (auto simp: get_attribute_def config_get_plain boolean_text_def convert_to_boolean_def split: option.splits)
  with read p assms show "if boolean_text (raw_value (config_parser C) s k)
     then \<exists>C'. bind_act (with_config (\<lambda>C. get_attribute C Getboolean s k)) f C = (Inr (), C') \<and> settled C C'
     else \<forall>C'. bind_act (with_config (\<lambda>C. get_attribute C Getboolean s k)) f C \<noteq> (Inr (), C')"
    unfolding run by (auto simp: quiet_def)
qed

lemma accepts_deprecated:
  "accepts_when (\<lambda>C. \<not> given_text (raw_value (config_parser C) (vpc_section_label C) ''compute_subnet_cidr'')
       \<and> boolean_text (raw_value (config_parser C) ''global'' ''sanity_check'')) validate_deprecated_fields"
proof -
  have ignored: "accepts_when (\<lambda>_. True) (validate_single_field (s, f, Ignored))" for s f
    by (simp add: accepts_quiet[symmetric] quiet_single_field)
  have last: "quiet (when_act (v = Some (VBool False)) (and_then (warn m) (add_comment n)))" for v m n
    by (intro quiet_when quiet_then quiet_messages quiet_warnings)
  have "accepts_when (\<lambda>C. (True \<and> \<not> given_text (raw_value (config_parser C) vpc ''compute_subnet_cidr'') \<and> True \<and> True \<and> True \<and> True)
      \<and> boolean_text (raw_value (config_parser C) ''global'' ''sanity_check''))
     (and_then (each validate_single_field
       [(vpc, ''vpc_id'', Ignored), (vpc, ''compute_subnet_cidr'', Need_remove),
        (''global'', ''update_check'', Ignored), (''aliases'', ''ssh'', Ignored), (cluster, ''encrypted_ephemeral'', Ignored)])
      (bind_act (with_config (\<lambda>C. get_attribute C Getboolean ''global'' ''sanity_check'')) (\<lambda>v.
        when_act (v = Some (VBool False)) (and_then (warn m) (add_comment n)))))" for vpc cluster m n
    unfolding each.simps
    by (intro accepts_then accepts_removal ignored accepts_sanity_check last quiet_unit[unfolded accepts_quiet])
      (simp_all add: steady_def settled_values)
  then show ?thesis
    unfolding validate_deprecated_fields_def by (intro accepts_cong[OF accepts_asking]) (assumption, simp)
qed

definition unguarded :: "converter \<Rightarrow> bool" where \<comment> \<open>no development setting is given, or the conversion is forced\<close>
  "unguarded C \<longleftrightarrow> force_convert C \<or> list_all (\<lambda>p. \<not> given_text (cluster_value p C)) dev_params"

lemma plain_params:
  assumes "plain_ini (config_parser C)"
  shows "given_params C params = Inr (filter (\<lambda>p. given_text (cluster_value p C)) params)"
proof -
  have "concat (map (\<lambda>p. if P p then [p] else []) params) = filter P params" for P :: "string \<Rightarrow> bool"
    by (induction params) auto
  with assms show ?thesis
    by (simp add: given_params_def cluster_reads rmap_list_all[where g = "\<lambda>p. if given_text (cluster_value p C) then [p] else []"])
qed

lemma accepts_dev_settings: "accepts_when unguarded validate_dev_settings"
proof -
  have messages: "quiet (and_then (warn m) (add_comment n))" for m n
    by (intro quiet_then quiet_messages quiet_warnings)
  have "accepts_when (\<lambda>C. v = [] \<or> force_convert C) (if v = [] then unit_act () else
      asking (\<lambda>C. if force_convert C then and_then (warn (m v)) (add_comment (n v)) else raise_act (e v)))" for v :: "string list" and m n e
    using messages by (cases "v = []")
      (simp_all add: quiet_unit[unfolded accepts_quiet] accepts_asking[where b = "\<lambda>C _. force_convert C"] accepts_refusal accepts_quiet)
  from accepts_reads[where b = "\<lambda>v C. v = [] \<or> force_convert C", OF plain_params this] show ?thesis
    unfolding validate_dev_settings_def Let_def
    by (rule accepts_cong) (auto simp: unguarded_def list_all_iff filter_empty_conv)
qed

text \<open>The checks that follow the choice of the sections.\<close>

definition convertible_sections :: "converter \<Rightarrow> bool" where
  "convertible_sections C \<longleftrightarrow> cluster_value ''scheduler'' C = Some ''slurm''
     \<and> \<not> given_text (raw_value (config_parser C) (vpc_section_label C) ''compute_subnet_cidr'')
     \<and> boolean_text (raw_value (config_parser C) ''global'' ''sanity_check'')
     \<and> unguarded C"

lemma accepts_sections:
  "accepts_when convertible_sections (each (\<lambda>m. m)
     [validate_required_fields, validate_deprecated_fields, validate_ambiguous_fields, validate_dev_settings,
      validate_shared_storages_name, validate_slurm_queues, validate_default_ebs])"
proof -
  note quiets = quiet_checks[unfolded accepts_quiet] quiet_unit[unfolded accepts_quiet]
  have "accepts_when (\<lambda>C. cluster_value ''scheduler'' C = Some ''slurm'' \<and>
      (\<not> given_text (raw_value (config_parser C) (vpc_section_label C) ''compute_subnet_cidr'')
        \<and> boolean_text (raw_value (config_parser C) ''global'' ''sanity_check'')) \<and>
      True \<and> unguarded C \<and> True \<and> True \<and> True \<and> True) (each (\<lambda>m. m)
     [validate_required_fields, validate_deprecated_fields, validate_ambiguous_fields, validate_dev_settings,
      validate_shared_storages_name, validate_slurm_queues, validate_default_ebs])"
    unfolding each.simps
    by (intro accepts_then accepts_required accepts_deprecated accepts_dev_settings quiets)
      (simp_all add: steady_def settled_values unguarded_def)
  then show ?thesis by (rule accepts_cong) (auto simp: convertible_sections_def)
qed

definition chosen_section :: "converter \<Rightarrow> string option" where
  "chosen_section C =
     (let template = raw_value (config_parser C) ''global'' ''cluster_template'' in
      if given_text (cluster_label C) then Some (''cluster '' @ the (cluster_label C))
      else if given_text template then Some (''cluster '' @ the template)
      else if map_of (ini_sections (config_parser C)) ''cluster default'' \<noteq> None then Some ''cluster default'' else None)"

lemma section_choice:
  "plain_ini (config_parser C) \<Longrightarrow> validate_cluster_section_name C = (Inr (), D) \<longleftrightarrow>
     (\<exists>s. chosen_section C = Some s \<and> map_of (ini_sections (config_parser C)) s \<noteq> None \<and> D = C\<lparr>cluster_section_name := s\<rparr>)"
  by (auto simp: validate_cluster_section_name_def chosen_section_def Let_def run_iffs with_config_def config_get_plain
      use_cluster_section_def split: if_splits)

lemma vpc_choice:
  "plain_ini (config_parser C) \<Longrightarrow> validate_vpc_settings C = (Inr (), D) \<longleftrightarrow>
     given_text (cluster_value ''vpc_settings'' C) \<and>
     D = C\<lparr>vpc_section_label := ''vpc '' @ str_strip (the (cluster_value ''vpc_settings'' C))\<rparr>"
  by (auto simp: validate_vpc_settings_def run_iffs with_config_def cluster_reads split: if_splits)

text \<open>What a file must hold to be accepted.\<close>

definition acceptable :: "converter \<Rightarrow> bool" where
  "acceptable C =
     (let f = config_parser C in case chosen_section C of
        None \<Rightarrow> False
      | Some s \<Rightarrow> map_of (ini_sections f) s \<noteq> None
          \<and> given_text (raw_value f s ''vpc_settings'')
          \<and> raw_value f s ''scheduler'' = Some ''slurm''
          \<and> \<not> given_text (raw_value f (''vpc '' @ str_strip (the (raw_value f s ''vpc_settings''))) ''compute_subnet_cidr'')
          \<and> boolean_text (raw_value f ''global'' ''sanity_check'')
          \<and> (force_convert C \<or> list_all (\<lambda>p. \<not> given_text (raw_value f s p)) dev_params))"

text \<open>
  C36: a file without interpolation is accepted exactly when the chosen cluster section exists, names a VPC section
  without \<open>compute_subnet_cidr\<close> and the Slurm scheduler, \<open>sanity_check\<close> is a boolean if it is given, and no
  development setting is given unless the conversion is forced: all the other checks only leave messages.
\<close>

theorem validation_accepts_iff:
  assumes "plain_ini (config_parser C)"
  shows "fst (validate_old_config C) = Inr () \<longleftrightarrow> acceptable C"
proof -
  let ?rest = "each (\<lambda>m. m) [validate_required_fields, validate_deprecated_fields, validate_ambiguous_fields, validate_dev_settings,
    validate_shared_storages_name, validate_slurm_queues, validate_default_ebs]"
  have rest: "(\<exists>F. ?rest E = (Inr (), F)) \<longleftrightarrow> convertible_sections E"
    if "validate_cluster_section_name C = (Inr (), D)" "validate_vpc_settings D = (Inr (), E)" for D E
  proof -
    have "plain_ini (config_parser E)" using assms that by (auto simp: section_choice vpc_choice)
    from accepts_at[OF accepts_sections this] show ?thesis by blast
  qed
  have "fst (validate_old_config C) = Inr () \<longleftrightarrow> (\<exists>E. validate_old_config C = (Inr (), E))"
    by (cases "validate_old_config C") auto
  also have "\<dots> \<longleftrightarrow> (\<exists>D E F. validate_cluster_section_name C = (Inr (), D) \<and> validate_vpc_settings D = (Inr (), E) \<and>
      ?rest E = (Inr (), F))"
    unfolding validate_old_config_def each.simps(2)[of _ validate_cluster_section_name] each.simps(2)[of _ validate_vpc_settings]
      and_then_iff by blast
  also have "\<dots> \<longleftrightarrow> (\<exists>D E. validate_cluster_section_name C = (Inr (), D) \<and> validate_vpc_settings D = (Inr (), E) \<and>
      convertible_sections E)"
    using rest by blast
  also have "\<dots> \<longleftrightarrow> acceptable C"
    using assms
    by (auto simp: section_choice vpc_choice acceptable_def convertible_sections_def cluster_value_def unguarded_def Let_def
        split: option.splits)
  finally show ?thesis .
qed

section \<open>An example\<close>

definition example_ini :: ini where
  "example_ini = \<lparr>ini_sections =
     [(''global'', [(''cluster_template'', ''prod'')]),
      (''aws'', [(''aws_region_name'', ''eu-west-1'')]),
      (''cluster prod'', [(''key_name'', ''key''), (''base_os'', ''alinux2''), (''scheduler'', ''slurm''),
         (''vpc_settings'', ''main''), (''queue_settings'', ''q1, q2''), (''ebs_settings'', ''data'')]),
      (''vpc main'', [(''master_subnet_id'', ''subnet-1'')]),
      (''ebs data'', [(''shared_dir'', ''/data''), (''volume_size'', ''80'')]),
      (''queue q1'', [(''compute_resource_settings'', ''c1''), (''compute_type'', ''spot'')]),
      (''queue q2'', [(''compute_resource_settings'', ''c2'')]),
      (''compute_resource c1'', [(''instance_type'', ''c5.large''), (''max_count'', ''4'')]),
      (''compute_resource c2'', [(''instance_type'', ''t2.micro'')])],
     ini_defaults = []\<rparr>"

definition example_surroundings :: surroundings where
  "example_surroundings = \<lparr>account_id = Inr ''123456789012'', boto_region = None, json_loads = (\<lambda>_. Inl ValueError),
     float_value = (\<lambda>_. None)\<rparr>"

definition example_converter :: converter where
  "example_converter = (new_converter example_surroundings False None)\<lparr>config_parser := example_ini\<rparr>"

definition validated_example :: converter where
  "validated_example = example_converter\<lparr>cluster_section_name := ''cluster prod'', vpc_section_label := ''vpc main''\<rparr>"

lemma example_plain: "plain_ini example_ini"
  by (auto simp: plain_ini_def section_options_def example_ini_def split: if_splits)

lemma validated_parser: "config_parser validated_example = example_ini"
  by (simp add: validated_example_def example_converter_def)

lemma example_convertible: "convertible validated_example"
proof -
  have texts: "raw_value example_ini ''cluster prod'' k = None"
    if "k \<in> {''iam_lambda_role'', ''tags'', ''pre_install_args'', ''post_install_args''}" for k
    using that by (auto simp: raw_value_def section_options_def example_ini_def)
  have sections: "raw_value example_ini (''raid '' @ l) ''volume_throughput'' = None"
    "raw_value example_ini (''fsx '' @ l) ''encrypted'' = None" for l
    by (simp_all add: raw_value_def section_options_def example_ini_def)
  have "config_get validated_example s k = Inr (raw_value example_ini s k)" for s k
    by (simp add: config_get_def validated_parser ini_get_plain example_plain)
  then show ?thesis using texts sections
    by (auto simp: convertible_def cluster_config_get_def storage_label_def given_text_def validated_example_def)
qed


theorem dev_settings_need_force_witness:
  "\<exists>d. convert_dev_settings validated_example ''DevSettings'' [] = Inr d \<and> blank (VDict d)"
proof -
  have given: "given_params validated_example dev_params = Inr []" by code_simp
  have checked: "validate_dev_settings validated_example = (Inr (), validated_example)"
    by (simp add: validate_dev_settings_def with_config_def bind_act_def act_defs given)
  have "\<not> force_convert validated_example" by code_simp
  moreover have converted: "convert_dev_settings validated_example ''DevSettings'' [] = Inr []" by code_simp
  ultimately show ?thesis using dev_settings_need_force[OF _ checked converted] by blast
qed

theorem validation_accepts_iff_witness: "fst (validate_old_config example_converter) = Inr ()"
proof -
  have "plain_ini (config_parser example_converter)" by (simp add: example_converter_def example_plain)
  moreover have "acceptable example_converter" by code_simp
  ultimately show ?thesis by (simp add: validation_accepts_iff)
qed

text \<open>An empty development setting passes the check and is still converted.\<close>

lemma empty_dev_setting_converted:
  assumes "C = example_converter\<lparr>config_parser := \<lparr>ini_sections = [(''cluster prod'', [(''extra_json'', [])])], ini_defaults = []\<rparr>,
    cluster_section_name := ''cluster prod''\<rparr>"
  shows "fst (validate_dev_settings C) = Inr ()"
    and "convert_dev_settings C ''DevSettings'' [] =
      Inr [(''DevSettings'', VDict [(''Cookbook'', VDict [(''ExtraChefAttributes'', VStr [])])])]"
  unfolding assms by code_simp+

end
