(* ===== verification/ClusterResources.thy ===== *)
theory ClusterResources
  imports InstanceValidators StorageValidators "HOL-Library.AList"
begin

text \<open>
  The resources of a cluster configuration (\<open>pcluster/config/cluster_config.py\<close>) below the cluster itself: what the
  constructors make of the values of a file, and the values that are derived from them.  A record holds the values
  of the attributes; an attribute made by \<open>Resource.init_param\<close> takes its default when no value is given.  What the
  clients of AWS answer is the record \<open>aws\<close>: a property that keeps its answer gives what it computes, as the
  clients themselves answer from their caches.
\<close>

section \<open>Answers of AWS\<close>

record file_system =
  fs_dns_name :: string
  fs_mount_name :: string
  fs_subnet_ids :: "string list"

record ami_search_filters =
  af_tags :: "tag list option"
  af_owner :: "string option"
  af_name_prefix :: "string option"

record aws =
  ec2 :: ec2_api
  type_info :: "string option \<Rightarrow> pyval result" \<comment> \<open>\<open>get_instance_type_info\<close>, also of \<open>None\<close>\<close>
  region_name :: string \<comment> \<open>\<open>get_region()\<close>\<close>
  subnet_zone :: "string \<Rightarrow> string result"
  subnets_zones :: "string list \<Rightarrow> (string \<times> string) list result"
  subnet_vpc :: "string \<Rightarrow> string result"
  public_subnet :: "string \<Rightarrow> bool result"
  volume_description :: "string \<Rightarrow> pyval result"
  file_system_info :: "string \<Rightarrow> file_system result"
  fsx_volume :: "string \<Rightarrow> pyval result"
  storage_virtual_machine :: "string \<Rightarrow> pyval result"
  file_cache_info :: "string \<Rightarrow> file_system result"
  image_device_and_size :: "string \<Rightarrow> (string \<times> int) result"
  reservation_types :: "string option \<Rightarrow> (string option \<times> string option) result"
  official_image_id :: "string \<Rightarrow> string \<Rightarrow> ami_search_filters option \<Rightarrow> string result"
  profile_role_arns :: "string \<Rightarrow> string list result"
  pick_architecture :: "string set \<Rightarrow> string" \<comment> \<open>the element of a set that is listed first\<close>

definition or_default :: "'a option \<Rightarrow> 'a \<Rightarrow> 'a" where
  "or_default v dflt = (case v of None \<Rightarrow> dflt | Some x \<Rightarrow> x)"

definition or_else :: "'a option \<Rightarrow> 'a option \<Rightarrow> 'a option" where \<comment> \<open>a default that may be missing\<close>
  "or_else v dflt = (case v of None \<Rightarrow> dflt | Some x \<Rightarrow> Some x)"

lemma or_else_value: "or_else v dflt = pm_value (init_param v dflt)"
  by (cases v; cases dflt) (simp_all add: or_else_def init_param_def)

definition or_given :: "string option \<Rightarrow> string option \<Rightarrow> string option" where \<comment> \<open>Python's \<open>or\<close> on texts\<close>
  "or_given v w = (if given_text v then v else w)"

section \<open>Storage\<close>

record ebs_volume =
  ebs_encrypted :: bool
  ebs_volume_type :: string
  ebs_iops :: "int option"
  ebs_throughput :: "int option"

definition init_ebs :: "bool option \<Rightarrow> string option \<Rightarrow> int option \<Rightarrow> int option \<Rightarrow> ebs_volume" where
  "init_ebs encrypted volume_type iops throughput =
     (let t = or_default volume_type EBS_VOLUME_TYPE_DEFAULT in
      \<lparr>ebs_encrypted = or_default encrypted True, ebs_volume_type = t,
       ebs_iops = or_else iops (map_of EBS_VOLUME_TYPE_IOPS_DEFAULT t),
       ebs_throughput = or_else throughput (if t = ''gp3'' then Some 125 else None)\<rparr>)"

definition EBS_ROOT_VOLUME_SIZE_DEFAULT :: int where "EBS_ROOT_VOLUME_SIZE_DEFAULT = 50"

record root_volume = ebs_volume +
  root_size :: "int option"
  delete_on_termination :: bool

definition init_root_volume :: "string \<Rightarrow> ebs_volume \<Rightarrow> int option \<Rightarrow> bool option \<Rightarrow> root_volume" where
  "init_root_volume region base given_size delete = ebs_volume.extend base
     \<lparr>root_size = or_else given_size (if startswith region ''us-iso'' then Some EBS_ROOT_VOLUME_SIZE_DEFAULT else None),
      delete_on_termination = or_default delete True\<rparr>"

record raid =
  raid_type :: int
  number_of_volumes :: int

definition init_raid :: "int \<Rightarrow> int option \<Rightarrow> raid" where
  "init_raid rtype number = \<lparr>raid_type = rtype, number_of_volumes = or_default number 2\<rparr>"

definition DEFAULT_EPHEMERAL_DIR :: string where "DEFAULT_EPHEMERAL_DIR = ''/scratch''"

definition init_ephemeral_volume :: "string option \<Rightarrow> string" where \<comment> \<open>its only attribute, the mount directory\<close>
  "init_ephemeral_volume mount_dir = or_default mount_dir DEFAULT_EPHEMERAL_DIR"

record local_storage =
  root_volume_of :: root_volume
  ephemeral_volume_of :: "string option"

definition init_local_storage :: "string \<Rightarrow> root_volume option \<Rightarrow> string option \<Rightarrow> local_storage" where
  "init_local_storage region root ephemeral =
     \<lparr>root_volume_of = or_default root (init_root_volume region (init_ebs None None None None) None None),
      ephemeral_volume_of = ephemeral\<rparr>"

definition DELETE_POLICY :: string where "DELETE_POLICY = ''Delete''"

definition delete_when_managed :: "string option \<Rightarrow> string option \<Rightarrow> string option" where
  "delete_when_managed deletion_policy existing_id =
     or_else deletion_policy (if \<not> given_text existing_id then Some DELETE_POLICY else None)"

datatype shared_storage_type = EBS | RAID | EFS | FSX

record shared_ebs = ebs_volume +
  se_mount_dir :: string
  se_name :: string
  se_size :: int
  se_kms_key_id :: "string option"
  se_snapshot_id :: "string option"
  se_volume_id :: "string option"
  se_raid :: "raid option"
  se_deletion_policy :: "string option"
  se_shared_storage_type :: shared_storage_type

definition init_shared_ebs ::
    "ebs_volume \<Rightarrow> string \<Rightarrow> string \<Rightarrow> int option \<Rightarrow> string option \<Rightarrow> string option \<Rightarrow> string option \<Rightarrow> raid option \<Rightarrow>
     string option \<Rightarrow> shared_ebs" where
  "init_shared_ebs base mount_dir name given_size kms_key_id snapshot_id volume_id raid deletion_policy = ebs_volume.extend base
     \<lparr>se_mount_dir = mount_dir, se_name = name, se_size = or_default given_size EBS_VOLUME_SIZE_DEFAULT,
      se_kms_key_id = kms_key_id, se_snapshot_id = snapshot_id, se_volume_id = volume_id, se_raid = raid,
      se_deletion_policy = delete_when_managed deletion_policy volume_id,
      se_shared_storage_type = (if raid \<noteq> None then RAID else EBS)\<rparr>"

definition is_managed :: "shared_ebs \<Rightarrow> bool" where
  "is_managed e \<longleftrightarrow> se_volume_id e = None"

definition availability_zone :: "aws \<Rightarrow> shared_ebs \<Rightarrow> pyval result" where
  "availability_zone A e = (case se_volume_id e of
     Some v \<Rightarrow> rbind (volume_description A v) (\<lambda>d. py_index d ''AvailabilityZone'') | None \<Rightarrow> Inr (VStr []))"

record shared_efs =
  efs_mount_dir :: string
  efs_name :: string
  efs_encrypted :: bool
  efs_kms_key_id :: "string option"
  efs_performance_mode :: string
  efs_throughput_mode :: string
  efs_provisioned_throughput :: "int option"
  efs_file_system_id :: "string option"
  efs_deletion_policy :: "string option"
  efs_encryption_in_transit :: bool
  efs_iam_authorization :: bool
  efs_access_point_id :: "string option"

definition init_shared_efs ::
    "string \<Rightarrow> string \<Rightarrow> bool option \<Rightarrow> string option \<Rightarrow> string option \<Rightarrow> string option \<Rightarrow> int option \<Rightarrow> string option \<Rightarrow>
     string option \<Rightarrow> bool option \<Rightarrow> bool option \<Rightarrow> string option \<Rightarrow> shared_efs" where
  "init_shared_efs mount_dir name encrypted kms_key_id performance_mode throughput_mode provisioned_throughput
       file_system_id deletion_policy encryption_in_transit iam_authorization access_point_id =
     \<lparr>efs_mount_dir = mount_dir, efs_name = name, efs_encrypted = or_default encrypted False, efs_kms_key_id = kms_key_id,
      efs_performance_mode = or_default performance_mode ''generalPurpose'',
      efs_throughput_mode = or_default throughput_mode ''bursting'', efs_provisioned_throughput = provisioned_throughput,
      efs_file_system_id = file_system_id, efs_deletion_policy = delete_when_managed deletion_policy file_system_id,
      efs_encryption_in_transit = or_default encryption_in_transit False,
      efs_iam_authorization = or_default iam_authorization False, efs_access_point_id = access_point_id\<rparr>"

record data_repository_association =
  dra_name :: string
  batch_import_meta_data_on_create :: bool
  data_repository_path :: string
  dra_file_system_path :: string
  dra_imported_file_chunk_size :: int
  dra_auto_export_policy :: "string list option"
  dra_auto_import_policy :: "string list option"

definition init_data_repository_association ::
    "string \<Rightarrow> string \<Rightarrow> string \<Rightarrow> bool option \<Rightarrow> int option \<Rightarrow> string list option \<Rightarrow> string list option \<Rightarrow> data_repository_association" where
  "init_data_repository_association name repository_path file_system_path batch chunk_size export_policy import_policy =
     \<lparr>dra_name = name, batch_import_meta_data_on_create = or_default batch False, data_repository_path = repository_path,
      dra_file_system_path = file_system_path, dra_imported_file_chunk_size = or_default chunk_size 1024,
      dra_auto_export_policy = export_policy, dra_auto_import_policy = import_policy\<rparr>"

text \<open>The parameters of a Lustre file system, as they are given, and the attributes made from them.\<close>

record lustre_params =
  lu_storage_capacity :: "int option"
  lu_fsx_storage_type :: "string option"
  lu_deployment_type :: "string option"
  lu_data_compression_type :: "string option"
  lu_export_path :: "string option"
  lu_import_path :: "string option"
  lu_imported_file_chunk_size :: "int option"
  lu_weekly_maintenance_start_time :: "string option"
  lu_automatic_backup_retention_days :: "int option"
  lu_copy_tags_to_backups :: "bool option"
  lu_daily_automatic_backup_start_time :: "string option"
  lu_per_unit_storage_throughput :: "int option"
  lu_backup_id :: "string option"
  lu_kms_key_id :: "string option"
  lu_file_system_id :: "string option"
  lu_auto_import_policy :: "string option"
  lu_drive_cache_type :: "string option"
  lu_deletion_policy :: "string option"
  lu_data_repository_associations :: "data_repository_association list option"

record shared_fsx_lustre = lustre_params +
  lu_mount_dir :: string
  lu_name :: string
  lu_file_system_type_version :: "string option"

definition init_shared_fsx_lustre :: "string \<Rightarrow> string \<Rightarrow> lustre_params \<Rightarrow> shared_fsx_lustre" where
  "init_shared_fsx_lustre mount_dir name p =
     (let fresh = lu_backup_id p = None \<and> lu_file_system_id p = None in
      lustre_params.extend
        (p\<lparr>lu_deployment_type := or_else (lu_deployment_type p) (if fresh then Some ''SCRATCH_2'' else None),
           lu_deletion_policy := delete_when_managed (lu_deletion_policy p) (lu_file_system_id p)\<rparr>)
        \<lparr>lu_mount_dir = mount_dir, lu_name = name, lu_file_system_type_version = (if fresh then Some ''2.15'' else None)\<rparr>)"

record existing_storage = \<comment> \<open>a volume of OpenZFS or ONTAP, or a file cache\<close>
  ex_mount_dir :: string
  ex_name :: string
  ex_id :: string

datatype shared_storage =
    SharedEbs shared_ebs
  | SharedEfs shared_efs
  | SharedFsxLustre shared_fsx_lustre
  | ExistingFsxOpenZfs existing_storage
  | ExistingFsxOntap existing_storage
  | ExistingFileCache existing_storage

fun storage_name :: "shared_storage \<Rightarrow> string" where
  "storage_name (SharedEbs e) = se_name e"
| "storage_name (SharedEfs e) = efs_name e"
| "storage_name (SharedFsxLustre l) = lu_name l"
| "storage_name (ExistingFsxOpenZfs v) = ex_name v"
| "storage_name (ExistingFsxOntap v) = ex_name v"
| "storage_name (ExistingFileCache c) = ex_name c"

fun storage_mount_dir :: "shared_storage \<Rightarrow> string" where
  "storage_mount_dir (SharedEbs e) = se_mount_dir e"
| "storage_mount_dir (SharedEfs e) = efs_mount_dir e"
| "storage_mount_dir (SharedFsxLustre l) = lu_mount_dir l"
| "storage_mount_dir (ExistingFsxOpenZfs v) = ex_mount_dir v"
| "storage_mount_dir (ExistingFsxOntap v) = ex_mount_dir v"
| "storage_mount_dir (ExistingFileCache c) = ex_mount_dir c"

text \<open>The file system behind an FSx storage: that of the volume, asked from FSx, for OpenZFS and ONTAP.\<close>

definition volume_file_system_id :: "aws \<Rightarrow> string \<Rightarrow> string option result" where
  "volume_file_system_id A v = rbind (fsx_volume A v) (\<lambda>d. rbind (py_index d ''FileSystemId'') (\<lambda>i.
     case i of VStr s \<Rightarrow> Inr (Some s) | VNone \<Rightarrow> Inr None | _ \<Rightarrow> Inl TypeError))"

fun file_system_id_of :: "aws \<Rightarrow> shared_storage \<Rightarrow> string option result" where
  "file_system_id_of A (SharedFsxLustre l) = Inr (lu_file_system_id l)"
| "file_system_id_of A (ExistingFsxOpenZfs v) = volume_file_system_id A (ex_id v)"
| "file_system_id_of A (ExistingFsxOntap v) = volume_file_system_id A (ex_id v)"
| "file_system_id_of A (ExistingFileCache c) = Inr (Some (ex_id c))"
| "file_system_id_of A _ = Inl AttributeError"

definition is_unmanaged :: "aws \<Rightarrow> shared_storage \<Rightarrow> bool result" where
  "is_unmanaged A s = rmap (\<lambda>i. i \<noteq> None) (file_system_id_of A s)"

definition file_system_data :: "aws \<Rightarrow> shared_storage \<Rightarrow> file_system option result" where
  "file_system_data A s = rbind (file_system_id_of A s) (\<lambda>i. case i of
     None \<Rightarrow> Inr None | Some f \<Rightarrow> rmap Some (file_system_info A f))"

definition file_system_subnets :: "aws \<Rightarrow> shared_storage \<Rightarrow> string list result" where
  "file_system_subnets A s = rmap (\<lambda>f. case f of None \<Rightarrow> [] | Some d \<Rightarrow> fs_subnet_ids d) (file_system_data A s)"

definition file_system_availability_zones :: "aws \<Rightarrow> shared_storage \<Rightarrow> string list result" where
  "file_system_availability_zones A s = rbind (is_unmanaged A s) (\<lambda>unmanaged.
     if \<not> unmanaged then Inr []
     else rbind (file_system_subnets A s) (\<lambda>subnets. rmap (map snd) (subnets_zones A subnets)))"

definition volume_path :: "aws \<Rightarrow> existing_storage \<Rightarrow> pyval result" where
  "volume_path A v = rbind (fsx_volume A (ex_id v)) (\<lambda>d. rbind (py_index d ''OpenZFSConfiguration'') (\<lambda>c. py_index c ''VolumePath''))"

definition ontap_setting :: "aws \<Rightarrow> existing_storage \<Rightarrow> string \<Rightarrow> pyval result" where
  "ontap_setting A v k = rbind (fsx_volume A (ex_id v)) (\<lambda>d. rbind (py_index d ''OntapConfiguration'') (\<lambda>c. py_index c k))"

definition storage_virtual_machine_id :: "aws \<Rightarrow> existing_storage \<Rightarrow> pyval result" where
  "storage_virtual_machine_id A v = ontap_setting A v ''StorageVirtualMachineId''"

definition junction_path :: "aws \<Rightarrow> existing_storage \<Rightarrow> pyval result" where
  "junction_path A v = ontap_setting A v ''JunctionPath''"

definition machine_dns_name :: "aws \<Rightarrow> existing_storage \<Rightarrow> pyval result" where
  "machine_dns_name A v = rbind (storage_virtual_machine_id A v) (\<lambda>m.
     rbind (storage_virtual_machine A (py_str m)) (\<lambda>d. rbind (py_index d ''Endpoints'') (\<lambda>e.
     rbind (py_index e ''Nfs'') (\<lambda>n. py_index n ''DNSName''))))"

fun existing_dns_name :: "aws \<Rightarrow> shared_storage \<Rightarrow> pyval result" where
  "existing_dns_name A (ExistingFsxOntap v) = machine_dns_name A v"
| "existing_dns_name A (ExistingFileCache c) = rmap (\<lambda>f. VStr (fs_dns_name f)) (file_cache_info A (ex_id c))"
| "existing_dns_name A s = rmap (\<lambda>f. case f of None \<Rightarrow> VStr [] | Some d \<Rightarrow> VStr (fs_dns_name d)) (file_system_data A s)"

definition existing_mount_name :: "aws \<Rightarrow> shared_fsx_lustre \<Rightarrow> string result" where
  "existing_mount_name A l = (if given_text (lu_file_system_id l)
     then rmap fs_mount_name (file_system_info A (the (lu_file_system_id l))) else Inr [])"

definition file_cache_mount_name :: "aws \<Rightarrow> existing_storage \<Rightarrow> string result" where
  "file_cache_mount_name A c = rmap fs_mount_name (file_cache_info A (ex_id c))"

section \<open>Networking\<close>

record networking =
  security_groups :: "string list option"
  additional_security_groups :: "string list option"

record subnets_networking = networking +
  subnet_ids :: "string list"

definition subnet_id_az_mapping :: "aws \<Rightarrow> 'a subnets_networking_scheme \<Rightarrow> (string \<times> string) list result" where
  "subnet_id_az_mapping A n = subnets_zones A (subnet_ids n)"

text \<open>A \<open>defaultdict(set)\<close> filled in a loop; its keys are in the order of their first appearance.\<close>

definition add_to_set :: "'k \<times> 'v \<Rightarrow> ('k \<times> 'v set) list \<Rightarrow> ('k \<times> 'v set) list" where
  "add_to_set kv d = AList.update (fst kv) (insert (snd kv) (or_default (map_of d (fst kv)) {})) d"

definition group_by :: "('k \<times> 'v) list \<Rightarrow> ('k \<times> 'v set) list" where
  "group_by kvs = fold add_to_set kvs []"

definition az_subnet_ids_mapping :: "aws \<Rightarrow> 'a subnets_networking_scheme \<Rightarrow> (string \<times> string set) list result" where
  "az_subnet_ids_mapping A n = rmap (\<lambda>m. group_by (map (\<lambda>(subnet, az). (az, subnet)) m)) (subnet_id_az_mapping A n)"

definition az_list :: "aws \<Rightarrow> 'a subnets_networking_scheme \<Rightarrow> string list result" where
  "az_list A n = rmap (map fst) (az_subnet_ids_mapping A n)"

type_synonym proxy = "string option" \<comment> \<open>its only attribute, \<open>http_proxy_address\<close>\<close>

record head_node_networking = networking +
  hn_subnet_id :: string
  hn_elastic_ip :: pyval
  hn_proxy :: "proxy option"

definition head_node_zone :: "aws \<Rightarrow> head_node_networking \<Rightarrow> string result" where
  "head_node_zone A n = subnet_zone A (hn_subnet_id n)"

definition headnode_elastic_ip :: "head_node_networking \<Rightarrow> pyval" where
  "headnode_elastic_ip n = (case hn_elastic_ip n of
     VBool b \<Rightarrow> VBool b
   | VStr s \<Rightarrow> if map to_lower s \<in> {''true'', ''false''} then VBool (map to_lower s = ''true'') else VStr s
   | v \<Rightarrow> v)"

record placement_group =
  pg_enabled :: "bool option"
  pg_name :: "string option"
  pg_id :: "string option"
  pg_implied :: bool

definition init_placement_group :: "placement_group option \<Rightarrow> placement_group" where \<comment> \<open>\<open>placement_group or PlacementGroup(implied=True)\<close>\<close>
  "init_placement_group g = or_default g \<lparr>pg_enabled = None, pg_name = None, pg_id = None, pg_implied = True\<rparr>"

definition assignment :: "placement_group \<Rightarrow> string option" where
  "assignment g = or_given (pg_name g) (pg_id g)"

definition enabled_or_assigned :: "placement_group \<Rightarrow> bool" where
  "enabled_or_assigned g \<longleftrightarrow> pg_enabled g = Some True \<or> assignment g \<noteq> None"

record queue_networking = subnets_networking +
  assign_public_ip :: "string option"
  q_placement_group :: placement_group
  q_proxy :: "proxy option"

definition CIDR_ALL_IPS :: string where "CIDR_ALL_IPS = ''0.0.0.0/0''"

record head_node_ssh =
  hs_key_name :: "string option"
  hs_allowed_ips :: string

definition init_head_node_ssh :: "string option \<Rightarrow> string option \<Rightarrow> head_node_ssh" where
  "init_head_node_ssh key_name allowed_ips = \<lparr>hs_key_name = key_name, hs_allowed_ips = or_default allowed_ips CIDR_ALL_IPS\<rparr>"

type_synonym login_nodes_ssh = "string option" \<comment> \<open>its only attribute, \<open>allowed_ips\<close>\<close>

record dcv =
  dcv_enabled :: bool
  dcv_port :: int
  dcv_allowed_ips :: string

definition init_dcv :: "bool \<Rightarrow> int option \<Rightarrow> string option \<Rightarrow> dcv" where
  "init_dcv enabled port allowed_ips =
     \<lparr>dcv_enabled = enabled, dcv_port = or_default port 8443, dcv_allowed_ips = or_default allowed_ips CIDR_ALL_IPS\<rparr>"

record efa =
  efa_enabled :: "bool option"
  gdr_support :: bool

definition init_efa :: "bool option \<Rightarrow> bool option \<Rightarrow> efa" where
  "init_efa enabled gdr = \<lparr>efa_enabled = enabled, gdr_support = or_default gdr False\<rparr>"

record launch_template_overrides =
  launch_template_id :: "string option"
  launch_template_version :: "int option"

text \<open>\<open>HealthChecks\<close> has one attribute, the GPU check, and that one its \<open>enabled\<close>, not given by default.\<close>

type_synonym health_checks = "bool option"

definition init_health_checks :: "bool option option \<Rightarrow> health_checks" where
  "init_health_checks gpu = or_default gpu None"

section \<open>Monitoring\<close>

definition CW_LOGS_ENABLED_DEFAULT :: bool where "CW_LOGS_ENABLED_DEFAULT = True"
definition CW_LOGS_RETENTION_DAYS_DEFAULT :: int where "CW_LOGS_RETENTION_DAYS_DEFAULT = 180"
definition CW_LOGS_ROTATION_ENABLED_DEFAULT :: bool where "CW_LOGS_ROTATION_ENABLED_DEFAULT = True"
definition CW_DASHBOARD_ENABLED_DEFAULT :: bool where "CW_DASHBOARD_ENABLED_DEFAULT = True"
definition CW_ALARMS_ENABLED_DEFAULT :: bool where "CW_ALARMS_ENABLED_DEFAULT = True"
definition DETAILED_MONITORING_ENABLED_DEFAULT :: bool where "DETAILED_MONITORING_ENABLED_DEFAULT = False"

record cloud_watch_logs =
  cwl_enabled :: bool
  retention_in_days :: int
  cwl_deletion_policy :: string

definition init_cloud_watch_logs :: "bool option \<Rightarrow> int option \<Rightarrow> string option \<Rightarrow> cloud_watch_logs" where
  "init_cloud_watch_logs enabled retention deletion_policy =
     \<lparr>cwl_enabled = or_default enabled CW_LOGS_ENABLED_DEFAULT,
      retention_in_days = or_default retention CW_LOGS_RETENTION_DAYS_DEFAULT,
      cwl_deletion_policy = or_default deletion_policy ''Retain''\<rparr>"

record logs =
  cloud_watch :: cloud_watch_logs
  rotation_enabled :: bool

definition init_log_rotation :: "bool option \<Rightarrow> bool" where
  "init_log_rotation enabled = or_default enabled CW_LOGS_ROTATION_ENABLED_DEFAULT"

definition init_logs :: "cloud_watch_logs option \<Rightarrow> bool option \<Rightarrow> logs" where
  "init_logs cw rotation = \<lparr>cloud_watch = or_default cw (init_cloud_watch_logs None None None),
     rotation_enabled = or_default rotation (init_log_rotation None)\<rparr>"

definition init_alarms :: "bool option \<Rightarrow> bool" where
  "init_alarms enabled = or_default enabled CW_ALARMS_ENABLED_DEFAULT"

definition init_cloud_watch_dashboards :: "bool option \<Rightarrow> bool" where
  "init_cloud_watch_dashboards enabled = or_default enabled CW_DASHBOARD_ENABLED_DEFAULT"

definition init_dashboards :: "bool option \<Rightarrow> bool" where
  "init_dashboards cw = or_default cw (init_cloud_watch_dashboards None)"

record monitoring =
  detailed_monitoring :: bool
  mon_logs :: logs
  dashboards_enabled :: bool
  alarms_enabled :: bool

definition init_monitoring :: "bool option \<Rightarrow> logs option \<Rightarrow> bool option \<Rightarrow> bool option \<Rightarrow> monitoring" where
  "init_monitoring detailed logs dashboards alarms =
     \<lparr>detailed_monitoring = or_default detailed DETAILED_MONITORING_ENABLED_DEFAULT,
      mon_logs = or_default logs (init_logs None None), dashboards_enabled = or_default dashboards (init_dashboards None),
      alarms_enabled = or_default alarms (init_alarms None)\<rparr>"

section \<open>Roles, services and settings\<close>

record s3_access =
  s3_bucket_name :: string
  s3_key_name :: "string option"
  enable_write_access :: bool

definition init_s3_access :: "string \<Rightarrow> string option \<Rightarrow> bool option \<Rightarrow> s3_access" where
  "init_s3_access bucket key write = \<lparr>s3_bucket_name = bucket, s3_key_name = key, enable_write_access = or_default write False\<rparr>"

definition resource_regex :: "s3_access \<Rightarrow> string list" where
  "resource_regex a = (if given_text (s3_key_name a) then [s3_bucket_name a @ ''/'' @ the (s3_key_name a)]
     else [s3_bucket_name a, s3_bucket_name a @ ''/*''])"

record iam =
  additional_iam_policies :: "string list" \<comment> \<open>the attribute \<open>policy\<close> of each\<close>
  iam_instance_role :: "string option"
  iam_instance_profile :: "string option"
  iam_s3_access :: "s3_access list option"

definition init_iam :: "iam option \<Rightarrow> iam" where \<comment> \<open>\<open>iam or Iam(implied=True)\<close>\<close>
  "init_iam i = or_default i
     \<lparr>additional_iam_policies = [], iam_instance_role = None, iam_instance_profile = None, iam_s3_access = None\<rparr>"

definition additional_iam_policy_arns :: "iam \<Rightarrow> string list" where
  "additional_iam_policy_arns i = map (\<lambda>policy. policy) (additional_iam_policies i)"

definition instance_role_arns :: "aws \<Rightarrow> iam \<Rightarrow> string set result" where
  "instance_role_arns A i =
     (if given_text (iam_instance_role i) then Inr {the (iam_instance_role i)}
      else if given_text (iam_instance_profile i)
      then rmap set (profile_role_arns A (get_resource_name_from_resource_arn (iam_instance_profile i)))
      else Inr {})"

definition init_imds :: "bool option \<Rightarrow> bool" where \<comment> \<open>\<open>secured\<close>, its only attribute\<close>
  "init_imds secured = or_default secured True"

definition init_top_level_imds :: "string option \<Rightarrow> string" where \<comment> \<open>\<open>imds_support\<close>, its only attribute\<close>
  "init_top_level_imds imds_support = or_default imds_support ''v2.0''"

record directory_service =
  domain_name :: "string option"
  domain_addr :: "string option"
  ds_password_secret_arn :: "string option"
  domain_read_only_user :: "string option"
  ldap_tls_ca_cert :: "string option"
  ldap_tls_req_cert :: string
  ldap_access_filter :: "string option"
  generate_ssh_keys_for_users :: bool
  additional_sssd_configs :: "(string \<times> pyval) list"

definition init_directory_service ::
    "string option \<Rightarrow> string option \<Rightarrow> string option \<Rightarrow> string option \<Rightarrow> string option \<Rightarrow> string option \<Rightarrow> string option \<Rightarrow>
     bool option \<Rightarrow> (string \<times> pyval) list option \<Rightarrow> directory_service" where
  "init_directory_service name addr secret_arn read_only_user ca_cert req_cert access_filter ssh_keys sssd_configs =
     \<lparr>domain_name = name, domain_addr = addr, ds_password_secret_arn = secret_arn, domain_read_only_user = read_only_user,
      ldap_tls_ca_cert = ca_cert, ldap_tls_req_cert = or_default req_cert ''hard'', ldap_access_filter = access_filter,
      generate_ssh_keys_for_users = or_default ssh_keys True, additional_sssd_configs = or_default sssd_configs []\<rparr>"

record cluster_iam =
  lambda_functions_role :: "string option option" \<comment> \<open>the attribute of \<open>Roles\<close>, when there are roles\<close>
  permissions_boundary :: "string option"
  resource_prefix :: "string option"

definition init_intel_software :: "bool option \<Rightarrow> bool" where \<comment> \<open>\<open>intel_hpc_platform\<close>\<close>
  "init_intel_software platform = or_default platform False"

type_synonym additional_packages = "bool option" \<comment> \<open>\<open>intel_software\<close>, with its \<open>intel_hpc_platform\<close>\<close>

definition NODE_BOOTSTRAP_TIMEOUT :: int where "NODE_BOOTSTRAP_TIMEOUT = 2100"
definition COMPUTE_INSTANCE_INFO_TIMEOUT :: int where "COMPUTE_INSTANCE_INFO_TIMEOUT = 90"

record timeouts =
  head_node_bootstrap_timeout :: int
  compute_node_bootstrap_timeout :: int
  compute_instance_info_timeout :: int

definition init_timeouts :: "int option \<Rightarrow> int option \<Rightarrow> int option \<Rightarrow> timeouts" where
  "init_timeouts head compute info =
     \<lparr>head_node_bootstrap_timeout = or_default head NODE_BOOTSTRAP_TIMEOUT,
      compute_node_bootstrap_timeout = or_default compute NODE_BOOTSTRAP_TIMEOUT,
      compute_instance_info_timeout = or_default info COMPUTE_INSTANCE_INFO_TIMEOUT\<rparr>"

record cookbook =
  chef_cookbook :: "string option"
  cb_extra_chef_attributes :: "string option"

record dev_settings =
  ds_cookbook :: "cookbook option"
  node_package :: "string option"
  cluster_template :: "string option"
  ami_filters :: "ami_search_filters option"
  instance_types_data :: "string option"
  ds_timeouts :: "timeouts option"
  compute_startup_time_metric_enabled :: bool
  efa_interface_type :: "string option"

definition init_dev_settings ::
    "cookbook option \<Rightarrow> string option \<Rightarrow> string option \<Rightarrow> ami_search_filters option \<Rightarrow> string option \<Rightarrow> timeouts option \<Rightarrow>
     bool option \<Rightarrow> string option \<Rightarrow> dev_settings" where
  "init_dev_settings cookbook package template filters types_data timeouts metric interface_type =
     \<lparr>ds_cookbook = cookbook, node_package = package, cluster_template = template, ami_filters = filters,
      instance_types_data = types_data, ds_timeouts = timeouts,
      compute_startup_time_metric_enabled = or_default metric False, efa_interface_type = interface_type\<rparr>"

record lambda_functions_vpc_config =
  lv_security_group_ids :: "string list option"
  lv_subnet_ids :: "string list option"

record deployment_settings =
  vpc_config :: "lambda_functions_vpc_config option"
  disable_sudo_access_default_user :: "bool option"
  default_user_home :: string

definition init_deployment_settings ::
    "lambda_functions_vpc_config option \<Rightarrow> bool option \<Rightarrow> string option \<Rightarrow> deployment_settings" where
  "init_deployment_settings config disable_sudo home =
     \<lparr>vpc_config = config, disable_sudo_access_default_user = disable_sudo, default_user_home = or_default home ''Shared''\<rparr>"

section \<open>Nodes\<close>

record os_image =
  im_os :: string
  im_custom_ami :: "string option"

record custom_action =
  ca_script :: string
  ca_args :: "string list option"

record custom_actions =
  on_node_start :: "custom_action list option"
  on_node_configured :: "custom_action list option"
  on_node_updated :: "custom_action list option"

definition first_architecture :: "aws \<Rightarrow> pyval \<Rightarrow> string result" where \<comment> \<open>\<open>supported_architecture()[0]\<close>\<close>
  "first_architecture A info = rbind (supported_architecture info) (\<lambda>s.
     if s = {} then Inl IndexError else Inr (pick_architecture A s))"

record login_nodes_pool =
  pool_name :: string
  pool_instance_type :: string
  pool_custom_ami :: "string option" \<comment> \<open>of its image, when there is one\<close>
  pool_networking :: "(subnets_networking \<times> proxy option) option"
  pool_count :: int
  pool_ssh :: "login_nodes_ssh option"
  pool_dcv :: "dcv option"
  pool_custom_actions :: "custom_actions option"
  pool_iam :: iam
  gracetime_period :: int
  pool_local_storage :: "local_storage option" \<comment> \<open>set by the cluster\<close>

definition init_login_nodes_pool ::
    "string \<Rightarrow> string \<Rightarrow> string option \<Rightarrow> (subnets_networking \<times> proxy option) option \<Rightarrow> int option \<Rightarrow>
     login_nodes_ssh option \<Rightarrow> dcv option \<Rightarrow> custom_actions option \<Rightarrow> iam option \<Rightarrow> int option \<Rightarrow> login_nodes_pool" where
  "init_login_nodes_pool name itype ami networking given_count ssh dcv actions iam gracetime =
     \<lparr>pool_name = name, pool_instance_type = itype, pool_custom_ami = ami, pool_networking = networking,
      pool_count = or_default given_count 1, pool_ssh = ssh, pool_dcv = dcv, pool_custom_actions = actions,
      pool_iam = init_iam iam, gracetime_period = or_default gracetime 10, pool_local_storage = None\<rparr>"

definition pool_instance_role :: "login_nodes_pool \<Rightarrow> string option" where
  "pool_instance_role p = iam_instance_role (pool_iam p)"

definition pool_instance_profile :: "login_nodes_pool \<Rightarrow> string option" where
  "pool_instance_profile p = iam_instance_profile (pool_iam p)"

definition pool_architecture :: "aws \<Rightarrow> login_nodes_pool \<Rightarrow> string result" where
  "pool_architecture A p = rbind (type_info A (Some (pool_instance_type p))) (first_architecture A)"

definition has_dcv_enabled :: "login_nodes_pool \<Rightarrow> bool" where \<comment> \<open>its truth value\<close>
  "has_dcv_enabled p \<longleftrightarrow> (case pool_dcv p of None \<Rightarrow> False | Some d \<Rightarrow> dcv_enabled d)"

definition pool_subnet_public :: "aws \<Rightarrow> subnets_networking \<Rightarrow> bool result" where
  "pool_subnet_public A n = (case subnet_ids n of [] \<Rightarrow> Inl IndexError | s # _ \<Rightarrow> public_subnet A s)"

record head_node =
  hn_instance_type :: string
  hn_disable_simultaneous_multithreading :: bool
  hn_networking :: head_node_networking
  hn_ssh :: head_node_ssh
  hn_local_storage :: local_storage
  hn_shared_storage_type :: string
  hn_efs_encrypted :: "bool option" \<comment> \<open>of \<open>SharedStorageEfsSettings\<close>, when there are such settings\<close>
  hn_dcv :: "dcv option"
  hn_custom_actions :: "custom_actions option"
  hn_iam :: iam
  hn_imds_secured :: bool
  hn_custom_ami :: "string option" \<comment> \<open>of its image, when there is one\<close>

definition init_head_node ::
    "string \<Rightarrow> string \<Rightarrow> head_node_networking \<Rightarrow> head_node_ssh option \<Rightarrow> bool option \<Rightarrow> local_storage option \<Rightarrow> string option \<Rightarrow>
     bool option \<Rightarrow> dcv option \<Rightarrow> custom_actions option \<Rightarrow> iam option \<Rightarrow> bool option \<Rightarrow> string option \<Rightarrow> head_node" where
  "init_head_node region itype networking ssh disable_smt storage storage_kind efs_settings dcv actions iam secured ami =
     \<lparr>hn_instance_type = itype, hn_disable_simultaneous_multithreading = or_default disable_smt False,
      hn_networking = networking, hn_ssh = or_default ssh (init_head_node_ssh None None),
      hn_local_storage = or_default storage (init_local_storage region None None),
      hn_shared_storage_type = or_default storage_kind ''Ebs'', hn_efs_encrypted = efs_settings, hn_dcv = dcv,
      hn_custom_actions = actions, hn_iam = init_iam iam, hn_imds_secured = or_default secured (init_imds None),
      hn_custom_ami = ami\<rparr>"

definition head_node_type_info :: "aws \<Rightarrow> head_node \<Rightarrow> pyval result" where
  "head_node_type_info A h = type_info A (Some (hn_instance_type h))"

definition head_node_architecture :: "aws \<Rightarrow> head_node \<Rightarrow> string result" where
  "head_node_architecture A h = rbind (head_node_type_info A h) (first_architecture A)"

definition head_node_is_ebs_optimized :: "aws \<Rightarrow> head_node \<Rightarrow> bool result" where
  "head_node_is_ebs_optimized A h = rbind (head_node_type_info A h) is_ebs_optimized"

definition head_node_max_network_cards :: "aws \<Rightarrow> head_node \<Rightarrow> nat result" where
  "head_node_max_network_cards A h = rbind (head_node_type_info A h) max_network_cards"

definition head_node_network_cards_list :: "aws \<Rightarrow> head_node \<Rightarrow> pyval list result" where
  "head_node_network_cards_list A h = rbind (head_node_type_info A h) network_cards_list"

definition smt_disabled_manually :: "bool \<Rightarrow> pyval result \<Rightarrow> bool result" where
  "smt_disabled_manually disable info =
     (if \<not> disable then Inr False
      else rbind info (\<lambda>i. rbind (default_threads_per_core i) (\<lambda>n. rmap (\<lambda>k. k > 1) (as_count n))))"

definition head_node_smt_disabled_manually :: "aws \<Rightarrow> head_node \<Rightarrow> bool result" where
  "head_node_smt_disabled_manually A h =
     smt_disabled_manually (hn_disable_simultaneous_multithreading h) (head_node_type_info A h)"

definition head_node_role :: "head_node \<Rightarrow> string option" where
  "head_node_role h = iam_instance_role (hn_iam h)"

definition head_node_profile :: "head_node \<Rightarrow> string option" where
  "head_node_profile h = iam_instance_profile (hn_iam h)"

section \<open>Compute resources\<close>

text \<open>\<open>Flexible\<close> is a \<open>SlurmFlexibleComputeResource\<close> with the types of its instances, \<open>Single\<close> a \<open>SlurmComputeResource\<close>.\<close>

datatype instances = Flexible "string list" | Single "string option"

definition DEFAULT_MAX_COUNT :: int where "DEFAULT_MAX_COUNT = 10"
definition DEFAULT_MIN_COUNT :: int where "DEFAULT_MIN_COUNT = 0"

record slurm_compute_resource =
  sc_name :: string
  sc_instances :: instances
  sc_max_count :: int
  sc_min_count :: int
  sc_spot_price :: "string option"
  sc_efa :: efa
  sc_disable_simultaneous_multithreading :: bool
  sc_schedulable_memory :: "int option"
  sc_capacity_reservation_target :: "capacity_target option"
  sc_placement_group :: placement_group \<comment> \<open>of its networking\<close>
  sc_health_checks :: health_checks
  sc_custom_slurm_settings :: "(string \<times> pyval) list"
  sc_tags :: "tag list option"
  sc_static_node_priority :: int
  sc_dynamic_node_priority :: int
  sc_launch_template_overrides :: "launch_template_overrides option"

definition init_compute_resource ::
    "string \<Rightarrow> instances \<Rightarrow> int option \<Rightarrow> int option \<Rightarrow> string option \<Rightarrow> efa option \<Rightarrow> bool option \<Rightarrow> int option \<Rightarrow>
     capacity_target option \<Rightarrow> placement_group option \<Rightarrow> health_checks option \<Rightarrow> (string \<times> pyval) list option \<Rightarrow>
     tag list option \<Rightarrow> int option \<Rightarrow> int option \<Rightarrow> launch_template_overrides option \<Rightarrow> slurm_compute_resource" where
  "init_compute_resource name instances max_count min_count price efa disable_smt memory target group_given health settings tags
       static_priority dynamic_priority overrides =
     \<lparr>sc_name = name, sc_instances = instances, sc_max_count = or_default max_count DEFAULT_MAX_COUNT,
      sc_min_count = or_default min_count DEFAULT_MIN_COUNT, sc_spot_price = price,
      sc_efa = or_default efa (init_efa (Some False) None),
      sc_disable_simultaneous_multithreading = or_default disable_smt False, sc_schedulable_memory = memory,
      sc_capacity_reservation_target = target, sc_placement_group = init_placement_group group_given,
      sc_health_checks = or_default health (init_health_checks None), sc_custom_slurm_settings = or_default settings [],
      sc_tags = tags, sc_static_node_priority = or_default static_priority 1,
      sc_dynamic_node_priority = or_default dynamic_priority 1000, sc_launch_template_overrides = overrides\<rparr>"

definition is_flexible :: "slurm_compute_resource \<Rightarrow> bool" where
  "is_flexible cr \<longleftrightarrow> (case sc_instances cr of Flexible _ \<Rightarrow> True | Single _ \<Rightarrow> False)"

text \<open>The type of a single instance, that of its capacity reservation when none is given.\<close>

definition single_instance_type :: "aws \<Rightarrow> slurm_compute_resource \<Rightarrow> string option \<Rightarrow> string option result" where
  "single_instance_type A cr given_type =
     (if given_text given_type then Inr given_type
      else rmap fst (reservation_types A
        (case sc_capacity_reservation_target cr of None \<Rightarrow> None | Some t \<Rightarrow> capacity_reservation_id t)))"

definition instance_types :: "aws \<Rightarrow> slurm_compute_resource \<Rightarrow> string option list result" where
  "instance_types A cr = (case sc_instances cr of
     Flexible ts \<Rightarrow> Inr (map Some ts) | Single t \<Rightarrow> rmap (\<lambda>u. [u]) (single_instance_type A cr t))"

definition py_dict :: "('k \<times> 'v) list \<Rightarrow> ('k \<times> 'v) list" where \<comment> \<open>a dictionary comprehension\<close>
  "py_dict kvs = fold (\<lambda>kv. AList.update (fst kv) (snd kv)) kvs []"

definition instance_type_info_map :: "aws \<Rightarrow> slurm_compute_resource \<Rightarrow> (string option \<times> pyval) list result" where
  "instance_type_info_map A cr = rbind (instance_types A cr) (\<lambda>ts.
     rmap py_dict (rmap_list (\<lambda>t. rmap (Pair t) (type_info A t)) ts))"

text \<open>The descriptions in the order of the types.\<close>

definition type_infos :: "aws \<Rightarrow> slurm_compute_resource \<Rightarrow> pyval list result" where
  "type_infos A cr = rbind (instance_types A cr) (\<lambda>ts. rbind (instance_type_info_map A cr) (\<lambda>m.
     rmap_list (\<lambda>t. case map_of m t of None \<Rightarrow> Inl KeyError | Some i \<Rightarrow> Inr i) ts))"

definition single_info :: "aws \<Rightarrow> slurm_compute_resource \<Rightarrow> string option \<Rightarrow> pyval result" where
  "single_info A cr t = rbind (single_instance_type A cr t) (type_info A)"

fun rfilter :: "('a \<Rightarrow> bool result) \<Rightarrow> 'a list \<Rightarrow> 'a list result" where
  "rfilter P [] = Inr []"
| "rfilter P (x # xs) = rbind (P x) (\<lambda>b. rmap (\<lambda>ys. if b then x # ys else ys) (rfilter P xs))"

definition instance_types_with_instance_storage :: "aws \<Rightarrow> slurm_compute_resource \<Rightarrow> string option list result" where
  "instance_types_with_instance_storage A cr = rbind (instance_types A cr) (\<lambda>ts. rbind (type_infos A cr) (\<lambda>infos.
     rmap (map fst) (rfilter (\<lambda>(t, i). rmap truthy (instance_storage_supported i)) (zip ts infos))))"

fun all_hold :: "('a \<Rightarrow> bool result) \<Rightarrow> 'a list \<Rightarrow> bool result" where \<comment> \<open>\<open>all\<close>, which stops at the first that fails\<close>
  "all_hold P [] = Inr True"
| "all_hold P (x # xs) = rbind (P x) (\<lambda>b. if b then all_hold P xs else Inr False)"

definition compute_is_ebs_optimized :: "aws \<Rightarrow> slurm_compute_resource \<Rightarrow> bool result" where
  "compute_is_ebs_optimized A cr = (case sc_instances cr of
     Flexible _ \<Rightarrow> rbind (type_infos A cr) (all_hold is_ebs_optimized)
   | Single t \<Rightarrow> rbind (single_info A cr t) is_ebs_optimized)"

definition compute_smt_disabled_manually :: "aws \<Rightarrow> slurm_compute_resource \<Rightarrow> bool result" where
  "compute_smt_disabled_manually A cr = (case sc_instances cr of
     Flexible _ \<Rightarrow> Inr (sc_disable_simultaneous_multithreading cr)
   | Single t \<Rightarrow> smt_disabled_manually (sc_disable_simultaneous_multithreading cr) (single_info A cr t))"

text \<open>The cards of the instance with the least number of them, the first of those in the list.\<close>

fun least_cards :: "nat \<Rightarrow> pyval list \<Rightarrow> pyval list \<Rightarrow> pyval list result" where
  "least_cards least cards [] = Inr cards"
| "least_cards least cards (i # infos) = rbind (max_network_cards i) (\<lambda>n.
     if n < least then rbind (network_cards_list i) (\<lambda>c. least_cards n c infos) else least_cards least cards infos)"

definition compute_max_network_cards :: "aws \<Rightarrow> slurm_compute_resource \<Rightarrow> nat result" where
  "compute_max_network_cards A cr = (case sc_instances cr of
     Single t \<Rightarrow> rbind (single_info A cr t) max_network_cards
   | Flexible _ \<Rightarrow> rbind (type_infos A cr) (\<lambda>infos. case infos of
       [] \<Rightarrow> Inl IndexError
     | i # rest \<Rightarrow> rbind (max_network_cards i) (\<lambda>first.
         rfold (\<lambda>i least. rmap (min least) (max_network_cards i)) rest first)))"

definition compute_network_cards_list :: "aws \<Rightarrow> slurm_compute_resource \<Rightarrow> pyval list result" where
  "compute_network_cards_list A cr = (case sc_instances cr of
     Single t \<Rightarrow> rbind (single_info A cr t) network_cards_list
   | Flexible _ \<Rightarrow> rbind (type_infos A cr) (\<lambda>infos. case infos of
       [] \<Rightarrow> Inl IndexError
     | i # rest \<Rightarrow> rbind (max_network_cards i) (\<lambda>first.
         rbind (network_cards_list i) (\<lambda>cards. least_cards first cards rest))))"

fun py_min :: "int \<Rightarrow> pyval list \<Rightarrow> int result" where \<comment> \<open>the least of numbers, from the one found so far\<close>
  "py_min least [] = Inr least"
| "py_min least (v # vs) = rbind (as_count v) (\<lambda>n. py_min (if n < least then n else least) vs)"

definition least_of :: "pyval list \<Rightarrow> pyval result" where
  "least_of vs = (case vs of [] \<Rightarrow> Inl ValueError | [v] \<Rightarrow> Inr v | v # rest \<Rightarrow> rbind (as_count v) (\<lambda>n. rmap VInt (py_min n rest)))"

definition compute_max_efa_interfaces :: "aws \<Rightarrow> slurm_compute_resource \<Rightarrow> pyval result" where
  "compute_max_efa_interfaces A cr = (case sc_instances cr of
     Single t \<Rightarrow> rbind (single_info A cr t) max_efa_interfaces
   | Flexible _ \<Rightarrow> rbind (type_infos A cr) (\<lambda>infos. rbind (rmap_list max_efa_interfaces infos) least_of))"

definition compute_architecture :: "aws \<Rightarrow> slurm_compute_resource \<Rightarrow> string option \<Rightarrow> string result" where
  "compute_architecture A cr t = rbind (single_info A cr t) (first_architecture A)"

text \<open>\<open>min(d, key=d.get)\<close>: the first type of the least memory.\<close>

fun smallest :: "string option \<times> int \<Rightarrow> (string option \<times> int) list \<Rightarrow> string option \<times> int" where
  "smallest least [] = least"
| "smallest least (x # xs) = smallest (if snd x < snd least then x else least) xs"

definition min_schedulable_memory_and_instance_type :: "aws \<Rightarrow> slurm_compute_resource \<Rightarrow> (string option \<times> int) result" where
  "min_schedulable_memory_and_instance_type A cr = rbind (instance_type_info_map A cr) (\<lambda>m.
     rbind (rmap_list (\<lambda>(t, i). rbind (ec2memory_size_in_mib i) (\<lambda>v. rmap (Pair t) (as_count v))) m) (\<lambda>memories.
     case memories of [] \<Rightarrow> Inl ValueError | x # xs \<Rightarrow> Inr (smallest x xs)))"

section \<open>Queues\<close>

definition init_capacity_type :: "string option \<Rightarrow> capacity_type" where
  "init_capacity_type capacity_type = or_default
     (Option.bind capacity_type (\<lambda>c. map_of (map (\<lambda>t. (capacity_type_value t, t)) [CAPACITY_BLOCK, ONDEMAND, SPOT]) (map to_upper c)))
     ONDEMAND"

fun strategy_name :: "allocation_strategy \<Rightarrow> string" where \<comment> \<open>the name of a member of \<open>AllocationStrategy\<close>\<close>
  "strategy_name LOWEST_PRICE = ''LOWEST_PRICE''"
| "strategy_name CAPACITY_OPTIMIZED = ''CAPACITY_OPTIMIZED''"
| "strategy_name PRICE_CAPACITY_OPTIMIZED = ''PRICE_CAPACITY_OPTIMIZED''"
| "strategy_name PRIORITIZED = ''PRIORITIZED''"
| "strategy_name CAPACITY_OPTIMIZED_PRIORITIZED = ''CAPACITY_OPTIMIZED_PRIORITIZED''"

definition strategy_named :: "string \<Rightarrow> allocation_strategy result" where \<comment> \<open>\<open>AllocationStrategy[name]\<close>\<close>
  "strategy_named s = (case map_of (map (\<lambda>t. (strategy_name t, t))
       [LOWEST_PRICE, CAPACITY_OPTIMIZED, PRICE_CAPACITY_OPTIMIZED, PRIORITIZED, CAPACITY_OPTIMIZED_PRIORITIZED]) s of
     None \<Rightarrow> Inl KeyError | Some t \<Rightarrow> Inr t)"

text \<open>\<open>allocation_strategy\<close> is an attribute only of a queue that has a flexible compute resource.\<close>

record slurm_queue =
  q_name :: string
  q_capacity_type :: capacity_type
  q_local_storage :: local_storage \<comment> \<open>of its compute settings\<close>
  q_custom_actions :: "custom_actions option"
  q_iam :: iam
  q_custom_ami :: "string option" \<comment> \<open>of its image, when there is one\<close>
  q_capacity_reservation_target :: "capacity_target option"
  q_compute_resources :: "slurm_compute_resource list"
  q_networking :: queue_networking
  q_health_checks :: health_checks
  q_custom_slurm_settings :: "(string \<times> pyval) list"
  q_job_exclusive_allocation :: bool
  q_tags :: "tag list option"
  q_allocation_strategy :: "allocation_strategy option option"

definition init_allocation_strategy ::
    "capacity_type \<Rightarrow> slurm_compute_resource list \<Rightarrow> string option \<Rightarrow> allocation_strategy option option result" where
  "init_allocation_strategy capacity crs given_strategy =
     (if \<not> list_ex is_flexible crs then Inr None
      else if given_text given_strategy
      then rmap (\<lambda>s. Some (Some s)) (strategy_named (map to_upper (to_snake_case (the given_strategy))))
      else Inr (Some (if capacity = CAPACITY_BLOCK then None else Some LOWEST_PRICE)))"

definition init_slurm_queue ::
    "string \<Rightarrow> string \<Rightarrow> string option \<Rightarrow> local_storage option \<Rightarrow> custom_actions option \<Rightarrow> iam option \<Rightarrow> string option \<Rightarrow>
     capacity_target option \<Rightarrow> slurm_compute_resource list \<Rightarrow> queue_networking \<Rightarrow> health_checks option \<Rightarrow>
     (string \<times> pyval) list option \<Rightarrow> bool option \<Rightarrow> tag list option \<Rightarrow> string option \<Rightarrow> slurm_queue result" where
  "init_slurm_queue region name given_capacity storage actions iam ami target crs networking health settings exclusive tags strategy =
     (let capacity = init_capacity_type given_capacity in
      rmap (\<lambda>s. \<lparr>q_name = name, q_capacity_type = capacity,
          q_local_storage = or_default storage (init_local_storage region None None), q_custom_actions = actions,
          q_iam = init_iam iam, q_custom_ami = ami, q_capacity_reservation_target = target, q_compute_resources = crs,
          q_networking = networking, q_health_checks = or_default health (init_health_checks None),
          q_custom_slurm_settings = or_default settings [], q_job_exclusive_allocation = or_default exclusive False,
          q_tags = tags, q_allocation_strategy = s\<rparr>)
        (init_allocation_strategy capacity crs strategy))"

definition is_spot :: "slurm_queue \<Rightarrow> bool" where
  "is_spot q \<longleftrightarrow> q_capacity_type q = SPOT"

definition is_capacity_block :: "slurm_queue \<Rightarrow> bool" where
  "is_capacity_block q \<longleftrightarrow> q_capacity_type q = CAPACITY_BLOCK"

definition queue_role :: "slurm_queue \<Rightarrow> string option" where
  "queue_role q = iam_instance_role (q_iam q)"

definition queue_profile :: "slurm_queue \<Rightarrow> string option" where
  "queue_profile q = iam_instance_profile (q_iam q)"

definition queue_ami :: "slurm_queue \<Rightarrow> string option" where
  "queue_ami q = or_given (q_custom_ami q) None"

definition multi_az_enabled :: "aws \<Rightarrow> slurm_queue \<Rightarrow> bool result" where
  "multi_az_enabled A q = rmap (\<lambda>zones. length zones > 1) (az_list A (q_networking q))"

definition get_chosen_placement_group_setting_for_compute_resource ::
    "slurm_queue \<Rightarrow> slurm_compute_resource \<Rightarrow> placement_group" where
  "get_chosen_placement_group_setting_for_compute_resource q cr =
     (if \<not> pg_implied (sc_placement_group cr) then sc_placement_group cr else q_placement_group (q_networking q))"

text \<open>The pair of the key and whether the group is managed.\<close>

definition get_placement_group_settings_for_compute_resource ::
    "slurm_queue \<Rightarrow> slurm_compute_resource \<Rightarrow> string option \<times> bool" where
  "get_placement_group_settings_for_compute_resource q cr =
     (let chosen_pg = get_chosen_placement_group_setting_for_compute_resource q cr in
      if given_text (assignment chosen_pg) then (assignment chosen_pg, False)
      else if pg_enabled chosen_pg = Some True then (Some (q_name q @ ''-'' @ sc_name cr), True)
      else (None, False))"

definition is_placement_group_enabled_for_compute_resource :: "slurm_queue \<Rightarrow> slurm_compute_resource \<Rightarrow> bool" where
  "is_placement_group_enabled_for_compute_resource q cr \<longleftrightarrow> fst (get_placement_group_settings_for_compute_resource q cr) \<noteq> None"

definition get_managed_placement_group_keys :: "slurm_queue \<Rightarrow> string list" where
  "get_managed_placement_group_keys q = concat (map (\<lambda>cr.
     case get_placement_group_settings_for_compute_resource q cr of
       (Some key, True) \<Rightarrow> [key] | _ \<Rightarrow> []) (q_compute_resources q))"

text \<open>The instance types of a queue, and those with storage: sets in the code.\<close>

definition instance_type_list :: "aws \<Rightarrow> slurm_queue \<Rightarrow> string option set result" where
  "instance_type_list A q = rmap (\<lambda>l. set (concat l)) (rmap_list (instance_types A) (q_compute_resources q))"

definition queue_types_with_instance_storage :: "aws \<Rightarrow> slurm_queue \<Rightarrow> string option set result" where
  "queue_types_with_instance_storage A q =
     rmap (\<lambda>l. set (concat l)) (rmap_list (instance_types_with_instance_storage A) (q_compute_resources q))"

section \<open>Scheduling\<close>

record dns =
  disable_managed_dns :: bool
  hosted_zone_id :: "string option"
  use_ec2_hostnames :: bool

definition init_dns :: "bool option \<Rightarrow> string option \<Rightarrow> bool option \<Rightarrow> dns" where
  "init_dns disable zone_id hostnames = \<lparr>disable_managed_dns = or_default disable False, hosted_zone_id = zone_id,
     use_ec2_hostnames = or_default hostnames False\<rparr>"

record database =
  db_uri :: "string option"
  db_user_name :: "string option"
  db_password_secret_arn :: "string option"
  db_database_name :: "string option"

record external_slurmdbd =
  es_host :: string
  es_port :: int

definition init_external_slurmdbd :: "string \<Rightarrow> int option \<Rightarrow> external_slurmdbd" where
  "init_external_slurmdbd host port = \<lparr>es_host = host, es_port = or_default port 6819\<rparr>"

record slurm_settings =
  scaledown_idletime :: int
  ss_dns :: dns
  queue_update_strategy :: string
  enable_memory_based_scheduling :: bool
  ss_database :: "database option"
  ss_custom_slurm_settings :: "pyval list option"
  custom_slurm_settings_include_file :: "string option"
  munge_key_secret_arn :: "string option"
  ss_external_slurmdbd :: "external_slurmdbd option"

definition init_slurm_settings ::
    "int option \<Rightarrow> dns option \<Rightarrow> string option \<Rightarrow> bool option \<Rightarrow> database option \<Rightarrow> pyval list option \<Rightarrow> string option \<Rightarrow>
     string option \<Rightarrow> external_slurmdbd option \<Rightarrow> slurm_settings" where
  "init_slurm_settings idletime dns strategy memory database settings include_file munge_key slurmdbd =
     \<lparr>scaledown_idletime = or_default idletime 10, ss_dns = or_default dns (init_dns None None None),
      queue_update_strategy = or_default strategy ''COMPUTE_FLEET_STOP'',
      enable_memory_based_scheduling = or_default memory False, ss_database = database,
      ss_custom_slurm_settings = settings, custom_slurm_settings_include_file = include_file,
      munge_key_secret_arn = munge_key, ss_external_slurmdbd = slurmdbd\<rparr>"

record slurm_scheduling =
  scheduler :: string
  scaling_strategy :: string
  queues :: "slurm_queue list"
  scheduling_settings :: slurm_settings

definition init_slurm_scheduling :: "slurm_queue list \<Rightarrow> slurm_settings option \<Rightarrow> string option \<Rightarrow> slurm_scheduling" where
  "init_slurm_scheduling qs settings strategy =
     \<lparr>scheduler = ''slurm'', scaling_strategy = or_default strategy ''all-or-nothing'', queues = qs,
      scheduling_settings = or_default settings (init_slurm_settings None None None None None None None None None)\<rparr>"

end
