(* ===== verification/ClusterConfig.thy ===== *)
theory ClusterConfig
  imports ClusterResources
begin

text \<open>
  The configuration of a cluster as a whole (\<open>BaseClusterConfig\<close> and \<open>SlurmClusterConfig\<close> of
  \<open>pcluster/config/cluster_config.py\<close>): its construction and the values derived from all of its resources.  The order
  in which Python lists a set is not specified; the model lists the elements in the order in which they were added.
\<close>

record cluster_config =
  cluster_name :: string
  config_image :: os_image
  config_head_node :: head_node
  scheduling :: slurm_scheduling
  shared_storage :: "shared_storage list option"
  config_monitoring :: monitoring
  config_additional_packages :: "additional_packages option"
  config_tags :: "tag list option"
  config_iam :: "cluster_iam option"
  config_directory_service :: "directory_service option"
  custom_s3_bucket :: "string option"
  additional_resources :: "string option"
  config_dev_settings :: "dev_settings option"
  config_deployment_settings :: "deployment_settings option"
  imds_support :: string
  login_nodes :: "login_nodes_pool list option"
  managed_head_node_security_group :: "string option"
  managed_compute_security_group :: "string option"
  existing_fsx_file_system_subnets :: "(string \<times> string list) list"
  region_value :: "string option"
  official_ami_value :: "string option"

text \<open>The pools of the login nodes get a local storage and, where they have no addresses, those of the head node.\<close>

definition init_pool :: "string \<Rightarrow> head_node \<Rightarrow> login_nodes_pool \<Rightarrow> login_nodes_pool" where
  "init_pool region h p =
     (let ssh = or_default (pool_ssh p) None in
      p\<lparr>pool_local_storage := Some (init_local_storage region None None),
        pool_ssh := Some (if given_text ssh then ssh else Some (hs_allowed_ips (hn_ssh h)))\<rparr>)"

definition init_cluster_config ::
    "string \<Rightarrow> string \<Rightarrow> os_image \<Rightarrow> head_node \<Rightarrow> slurm_scheduling \<Rightarrow> shared_storage list option \<Rightarrow> monitoring option \<Rightarrow>
     additional_packages option \<Rightarrow> tag list option \<Rightarrow> cluster_iam option \<Rightarrow> directory_service option \<Rightarrow> string option \<Rightarrow>
     string option \<Rightarrow> string option \<Rightarrow> dev_settings option \<Rightarrow> deployment_settings option \<Rightarrow> login_nodes_pool list option \<Rightarrow>
     cluster_config" where
  "init_cluster_config region name im h sched storages mon packages tags iam directory bucket imds resources dev deployment pools =
     \<lparr>cluster_name = name, config_image = im, config_head_node = h, scheduling = sched, shared_storage = storages,
      config_monitoring = or_default mon (init_monitoring None None None None), config_additional_packages = packages,
      config_tags = tags, config_iam = iam, config_directory_service = directory, custom_s3_bucket = bucket,
      additional_resources = resources, config_dev_settings = dev, config_deployment_settings = deployment,
      imds_support = or_default imds (init_top_level_imds None), login_nodes = map_option (map (init_pool region h)) pools,
      managed_head_node_security_group = None, managed_compute_security_group = None,
      existing_fsx_file_system_subnets = [], region_value = None, official_ami_value = None\<rparr>"

section \<open>Storages\<close>

definition shared_storages :: "cluster_config \<Rightarrow> shared_storage list" where
  "shared_storages C = or_default (shared_storage C) []"

definition shared_storage_name_mount_dir_tuple_list :: "cluster_config \<Rightarrow> (string \<times> string) list" where
  "shared_storage_name_mount_dir_tuple_list C = map (\<lambda>s. (storage_name s, storage_mount_dir s)) (shared_storages C)"

fun existing_storage_id :: "shared_storage \<Rightarrow> string option" where
  "existing_storage_id (SharedEfs e) = efs_file_system_id e"
| "existing_storage_id (SharedFsxLustre l) = lu_file_system_id l"
| "existing_storage_id (SharedEbs e) = se_volume_id e"
| "existing_storage_id (ExistingFsxOpenZfs v) = Some (ex_id v)"
| "existing_storage_id (ExistingFsxOntap v) = Some (ex_id v)"
| "existing_storage_id (ExistingFileCache c) = Some (ex_id c)"

definition existing_storage_id_list :: "cluster_config \<Rightarrow> string list" where
  "existing_storage_id_list C = map the (filter given_text (map existing_storage_id (shared_storages C)))"

text \<open>The mount directory of the local storage of a node, and the types of instances that mount it.\<close>

definition local_mount_dir :: "local_storage \<Rightarrow> string" where
  "local_mount_dir l = or_default (ephemeral_volume_of l) DEFAULT_EPHEMERAL_DIR"

definition add_all_to_set :: "'k \<times> 'v set \<Rightarrow> ('k \<times> 'v set) list \<Rightarrow> ('k \<times> 'v set) list" where
  "add_all_to_set kv d = AList.update (fst kv) (or_default (map_of d (fst kv)) {} \<union> snd kv) d"

definition head_node_local_mount :: "aws \<Rightarrow> cluster_config \<Rightarrow> (string \<times> string option set) list result" where
  "head_node_local_mount A C = (let h = config_head_node C in
     rbind (head_node_type_info A h) (\<lambda>info. rmap (\<lambda>supported.
       if truthy supported then [(local_mount_dir (hn_local_storage h), {Some (hn_instance_type h)})] else [])
       (instance_storage_supported info)))"

definition queue_local_mount :: "aws \<Rightarrow> slurm_queue \<Rightarrow> (string \<times> string option set) list result" where
  "queue_local_mount A q = rmap (\<lambda>ts. if ts = {} then [] else [(local_mount_dir (q_local_storage q), ts)])
     (queue_types_with_instance_storage A q)"

definition local_mount_dir_instance_types_dict :: "aws \<Rightarrow> cluster_config \<Rightarrow> (string \<times> string option set) list result" where
  "local_mount_dir_instance_types_dict A C =
     rbind (head_node_local_mount A C) (\<lambda>head.
     rmap (\<lambda>l. fold add_all_to_set (concat l) head) (rmap_list (queue_local_mount A) (queues (scheduling C))))"

section \<open>Networks\<close>

definition in_order :: "'a list \<Rightarrow> 'a list" where \<comment> \<open>the elements of a set, as they were added\<close>
  "in_order xs = rev (remdups (rev xs))"

definition compute_subnet_ids :: "cluster_config \<Rightarrow> string list" where
  "compute_subnet_ids C = in_order (concat (map (\<lambda>q. subnet_ids (q_networking q)) (queues (scheduling C))))"

definition availability_zones_subnets_mapping :: "aws \<Rightarrow> cluster_config \<Rightarrow> (string \<times> string set) list result" where
  "availability_zones_subnets_mapping A C =
     (let n = hn_networking (config_head_node C) in
      rbind (head_node_zone A n) (\<lambda>zone.
      rmap (\<lambda>zones. fold add_to_set zones [(zone, {hn_subnet_id n})])
        (rmap_list (\<lambda>s. rmap (\<lambda>z. (z, s)) (subnet_zone A s)) (compute_subnet_ids C))))"

definition groups_given :: "string list option \<Rightarrow> string list" where \<comment> \<open>none when the list is missing or empty\<close>
  "groups_given gs = or_default gs []"

definition compute_security_groups :: "cluster_config \<Rightarrow> string list" where
  "compute_security_groups C =
     in_order (concat (map (\<lambda>q. groups_given (security_groups (q_networking q))) (queues (scheduling C))))"

definition vpc_id :: "aws \<Rightarrow> cluster_config \<Rightarrow> string result" where
  "vpc_id A C = subnet_vpc A (hn_subnet_id (hn_networking (config_head_node C)))"

definition node_security_groups :: "string option \<Rightarrow> 'a networking_scheme \<Rightarrow> string option set" where
  "node_security_groups managed n =
     (if groups_given (security_groups n) \<noteq> [] then Some ` set (groups_given (security_groups n)) else {managed})
     \<union> Some ` set (groups_given (additional_security_groups n))"

definition security_groups_by_nodes :: "cluster_config \<Rightarrow> string option set set" where
  "security_groups_by_nodes C =
     insert (node_security_groups (managed_head_node_security_group C) (hn_networking (config_head_node C)))
       (set (map (\<lambda>q. node_security_groups (managed_compute_security_group C) (q_networking q)) (queues (scheduling C))))"

definition login_nodes_subnet_ids :: "cluster_config \<Rightarrow> string list result" where
  "login_nodes_subnet_ids C = (case login_nodes C of
     None \<Rightarrow> Inl AttributeError
   | Some pools \<Rightarrow> rmap (\<lambda>l. in_order (concat l)) (rmap_list (\<lambda>p. case pool_networking p of
       None \<Rightarrow> Inl AttributeError | Some (n, _) \<Rightarrow> Inr (subnet_ids n)) pools))"

section \<open>Images\<close>

definition cluster_region :: "aws \<Rightarrow> cluster_config \<Rightarrow> string" where
  "cluster_region A C = (if given_text (region_value C) then the (region_value C) else region_name A)"

definition official_ami :: "aws \<Rightarrow> cluster_config \<Rightarrow> string result" where
  "official_ami A C =
     (if given_text (official_ami_value C) then Inr (the (official_ami_value C))
      else rbind (head_node_architecture A (config_head_node C)) (\<lambda>architecture.
        official_image_id A (im_os (config_image C)) architecture (Option.bind (config_dev_settings C) ami_filters)))"

definition own_or_cluster_ami :: "aws \<Rightarrow> cluster_config \<Rightarrow> string option \<Rightarrow> string result" where
  "own_or_cluster_ami A C own =
     (if given_text own then Inr (the own)
      else if given_text (im_custom_ami (config_image C)) then Inr (the (im_custom_ami (config_image C)))
      else official_ami A C)"

definition head_node_ami :: "aws \<Rightarrow> cluster_config \<Rightarrow> string result" where
  "head_node_ami A C = own_or_cluster_ami A C (hn_custom_ami (config_head_node C))"

definition login_nodes_ami :: "aws \<Rightarrow> cluster_config \<Rightarrow> (string \<times> string) list result" where
  "login_nodes_ami A C = rmap py_dict (rmap_list (\<lambda>p. rmap (Pair (pool_name p)) (own_or_cluster_ami A C (pool_custom_ami p)))
     (or_default (login_nodes C) []))"

definition image_dict :: "aws \<Rightarrow> cluster_config \<Rightarrow> (string \<times> string) list result" where
  "image_dict A C = rmap py_dict (rmap_list (\<lambda>q. rmap (Pair (q_name q)) (own_or_cluster_ami A C (queue_ami q)))
     (queues (scheduling C)))"

section \<open>Settings of the cluster\<close>

definition is_intel_hpc_platform_enabled :: "cluster_config \<Rightarrow> bool" where
  "is_intel_hpc_platform_enabled C = or_default (Option.bind (config_additional_packages C) id) False"

definition is_cw_logging_enabled :: "cluster_config \<Rightarrow> bool" where
  "is_cw_logging_enabled C = cwl_enabled (cloud_watch (mon_logs (config_monitoring C)))"

definition is_log_rotation_enabled :: "cluster_config \<Rightarrow> bool" where
  "is_log_rotation_enabled C = rotation_enabled (mon_logs (config_monitoring C))"

definition is_cw_dashboard_enabled :: "cluster_config \<Rightarrow> bool" where
  "is_cw_dashboard_enabled C = dashboards_enabled (config_monitoring C)"

definition are_alarms_enabled :: "cluster_config \<Rightarrow> bool" where
  "are_alarms_enabled C = alarms_enabled (config_monitoring C)"

definition is_detailed_monitoring_enabled :: "cluster_config \<Rightarrow> bool" where
  "is_detailed_monitoring_enabled C = detailed_monitoring (config_monitoring C)"

definition is_dcv_enabled :: "cluster_config \<Rightarrow> bool" where \<comment> \<open>its truth value\<close>
  "is_dcv_enabled C \<longleftrightarrow> (case hn_dcv (config_head_node C) of None \<Rightarrow> False | Some d \<Rightarrow> dcv_enabled d)"

definition given_cookbook :: "cluster_config \<Rightarrow> cookbook option" where
  "given_cookbook C = Option.bind (config_dev_settings C) ds_cookbook"

definition extra_chef_attributes :: "cluster_config \<Rightarrow> string" where
  "extra_chef_attributes C = (let given_attributes = Option.bind (given_cookbook C) cb_extra_chef_attributes in
     if given_text given_attributes then the given_attributes else ''{}'')"

definition custom_chef_cookbook :: "cluster_config \<Rightarrow> string option" where
  "custom_chef_cookbook C = or_given (Option.bind (given_cookbook C) chef_cookbook) None"

definition custom_node_package :: "cluster_config \<Rightarrow> string option" where
  "custom_node_package C = Option.bind (config_dev_settings C) node_package"

definition lambda_functions_vpc :: "cluster_config \<Rightarrow> lambda_functions_vpc_config option" where
  "lambda_functions_vpc C = Option.bind (config_deployment_settings C) vpc_config"

section \<open>Instances\<close>

definition type_key :: "string option \<Rightarrow> pyval" where
  "type_key t = (case t of None \<Rightarrow> VNone | Some s \<Rightarrow> VStr s)"

definition compute_types_data :: "aws \<Rightarrow> slurm_compute_resource \<Rightarrow> (pyval \<times> pyval) list result" where
  "compute_types_data A cr = rbind (instance_types A cr) (\<lambda>ts.
     rmap (\<lambda>infos. zip (map type_key ts) infos) (type_infos A cr))"

definition get_instance_types_data :: "aws \<Rightarrow> cluster_config \<Rightarrow> (pyval \<times> pyval) list result" where
  "get_instance_types_data A C = rbind (head_node_type_info A (config_head_node C)) (\<lambda>info.
     rbind (instance_type_name info) (\<lambda>name.
     rmap (\<lambda>l. py_dict ((name, info) # concat l))
       (rmap_list (compute_types_data A) (concat (map q_compute_resources (queues (scheduling C)))))))"

definition has_gpu_health_checks_enabled :: "cluster_config \<Rightarrow> bool" where
  "has_gpu_health_checks_enabled C = list_ex (\<lambda>q. q_health_checks q = Some True
     \<or> list_ex (\<lambda>cr. sc_health_checks cr = Some True) (q_compute_resources q)) (queues (scheduling C))"

definition has_custom_actions_in_queue :: "cluster_config \<Rightarrow> bool" where
  "has_custom_actions_in_queue C = list_ex (\<lambda>q. q_custom_actions q \<noteq> None) (queues (scheduling C))"

section \<open>Capacity reservations\<close>

definition target_of :: "slurm_queue \<Rightarrow> slurm_compute_resource \<Rightarrow> capacity_target option" where
  "target_of q cr = (case sc_capacity_reservation_target cr of None \<Rightarrow> q_capacity_reservation_target q | Some t \<Rightarrow> Some t)"

definition option_list :: "'a option \<Rightarrow> 'a list" where
  "option_list v = (case v of None \<Rightarrow> [] | Some x \<Rightarrow> [x])"

definition capacity_reservation_targets :: "cluster_config \<Rightarrow> capacity_target list" where
  "capacity_reservation_targets C = concat (map (\<lambda>q. option_list (q_capacity_reservation_target q)
     @ concat (map (\<lambda>cr. option_list (sc_capacity_reservation_target cr)) (q_compute_resources q))) (queues (scheduling C)))"

definition capacity_reservation_ids :: "cluster_config \<Rightarrow> string list" where
  "capacity_reservation_ids C =
     in_order (map the (filter given_text (map capacity_reservation_id (capacity_reservation_targets C))))"

definition capacity_reservation_arns :: "aws \<Rightarrow> cluster_config \<Rightarrow> pyval list result" where
  "capacity_reservation_arns A C = rbind (describe_capacity_reservations (ec2 A) (capacity_reservation_ids C))
     (rmap_list (\<lambda>r. get_key r ''CapacityReservationArn''))"

definition capacity_reservation_resource_group_arns :: "cluster_config \<Rightarrow> string list" where
  "capacity_reservation_resource_group_arns C =
     in_order (map the (filter given_text (map capacity_reservation_resource_group_arn (capacity_reservation_targets C))))"

definition all_relevant_capacity_reservation_ids :: "aws \<Rightarrow> cluster_config \<Rightarrow> string list result" where
  "all_relevant_capacity_reservation_ids A C =
     rmap (\<lambda>l. in_order (capacity_reservation_ids C @ concat l))
       (rmap_list (group_reservation_ids (ec2 A)) (capacity_reservation_resource_group_arns C))"

definition ULTRASERVER_INSTANCE_PREFIX_LIST :: "string list" where "ULTRASERVER_INSTANCE_PREFIX_LIST = [''p6e-gb200'']"

text \<open>The prefix of an ultraserver and the reservation of a compute resource, when it is a capacity block for one.\<close>

definition ultraserver_block :: "aws \<Rightarrow> slurm_queue \<Rightarrow> slurm_compute_resource \<Rightarrow> (string \<times> string) list result" where
  "ultraserver_block A q cr = (case Option.bind (target_of q cr) capacity_reservation_id of
     None \<Rightarrow> Inr []
   | Some r \<Rightarrow> if r = [] then Inr []
     else rbind (reservation_types A (Some r)) (\<lambda>(itype, rtype). case itype of
       None \<Rightarrow> Inl AttributeError
     | Some t \<Rightarrow> (let instance_prefix = hd (split_on (CHR ''.'') t) in
         Inr (if rtype = Some ''capacity-block'' \<and> instance_prefix \<in> set ULTRASERVER_INSTANCE_PREFIX_LIST
              then [(instance_prefix, r)] else []))))"

definition ultraserver_capacity_block_dict :: "aws \<Rightarrow> cluster_config \<Rightarrow> (string \<times> string list) list result" where
  "ultraserver_capacity_block_dict A C =
     rmap (\<lambda>l. map (\<lambda>p. (p, map snd (filter (\<lambda>b. fst b = p) (concat l)))) ULTRASERVER_INSTANCE_PREFIX_LIST)
       (rmap_list (\<lambda>(q, cr). ultraserver_block A q cr)
         (concat (map (\<lambda>q. map (Pair q) (q_compute_resources q)) (queues (scheduling C)))))"

end
