(* ===== verification/ConfigValidators.thy ===== *)
theory ConfigValidators
  imports ClusterConfig SlurmValidators
begin

text \<open>
  Which validators the resources of a cluster register, with which arguments
  (the \<open>_register_validators\<close> of \<open>pcluster/config/cluster_config.py\<close> and \<open>config/common.py\<close>), and the tree of the
  resources that a validation walks.  A registration is the class of a validator with its named arguments; a
  registration may raise, as it asks AWS.
\<close>

section \<open>Registrations\<close>

text \<open>
  The argument \<open>feature\<close> of \<open>FeatureRegionValidator\<close> is a member of \<open>Feature\<close> in most places, and a member of
  another enumeration, \<open>CapacityType\<close>, in the queues.
\<close>

datatype feature_key = Feature_member feature | Capacity_member capacity_type

datatype argument =
    Value pyval
  | Group placement_group
  | Of_logs logs
  | Of_head_node head_node
  | Of_queue slurm_queue
  | Of_queues "slurm_queue list"
  | Of_scheduling slurm_scheduling
  | Of_resources "slurm_compute_resource list"
  | Of_database "database option"
  | Of_slurmdbd "external_slurmdbd option"
  | Of_target capacity_target
  | Of_efs_settings "bool option"
  | Of_associations "data_repository_association list option"
  | Of_volumes "shared_ebs list"
  | Of_tags "tag list option"
  | Of_capacity capacity_type
  | Of_feature feature_key
  | Of_strategy "allocation_strategy option"
  | Of_level custom_slurm_setting_level
  | Node_groups "string option set set"
  | Sets_by_key "(string \<times> string set) list"
  | Types_by_key "(string \<times> string option set) list"
  | Pairs "(string \<times> string) list"
  | Flags_by_name "(string \<times> bool) list"
  | Infos "(string option \<times> pyval) list"
  | Counts "string \<Rightarrow> int" \<comment> \<open>a \<open>defaultdict(int)\<close>\<close>
  | Blocks "(string \<times> string list) list"

type_synonym registration = "string \<times> (string \<times> argument) list"

definition tx :: "string \<Rightarrow> argument" where "tx s = Value (VStr s)"
definition opt_txt :: "string option \<Rightarrow> argument" where "opt_txt s = Value (type_key s)"
definition num :: "int \<Rightarrow> argument" where "num i = Value (VInt i)"
definition opt_num :: "int option \<Rightarrow> argument" where "opt_num i = Value (case i of None \<Rightarrow> VNone | Some n \<Rightarrow> VInt n)"
definition flag :: "bool \<Rightarrow> argument" where "flag b = Value (VBool b)"
definition opt_flag :: "bool option \<Rightarrow> argument" where "opt_flag b = Value (case b of None \<Rightarrow> VNone | Some c \<Rightarrow> VBool c)"
definition texts :: "string list \<Rightarrow> argument" where "texts xs = Value (VList (map VStr xs))"
definition opt_texts :: "string list option \<Rightarrow> argument" where
  "opt_texts xs = (case xs of None \<Rightarrow> Value VNone | Some l \<Rightarrow> texts l)"
definition type_names :: "string option list \<Rightarrow> argument" where "type_names ts = Value (VList (map type_key ts))"

lemmas argument_defs = tx_def opt_txt_def num_def opt_num_def flag_def opt_flag_def texts_def opt_texts_def type_names_def

definition registers_when :: "bool \<Rightarrow> registration list \<Rightarrow> registration list" where
  "registers_when b rs = (if b then rs else [])"

section \<open>Storages\<close>

definition ebs_registers :: "'a ebs_volume_scheme \<Rightarrow> registration list" where
  "ebs_registers e =
     [(''EbsVolumeThroughputValidator'', [(''volume_type'', tx (ebs_volume_type e)), (''volume_throughput'', opt_num (ebs_throughput e))]),
      (''EbsVolumeThroughputIopsValidator'', [(''volume_type'', tx (ebs_volume_type e)), (''volume_iops'', opt_num (ebs_iops e)),
         (''volume_throughput'', opt_num (ebs_throughput e))])]"

definition kms_key_registers :: "string option \<Rightarrow> bool \<Rightarrow> registration list" where
  "kms_key_registers kms_key encrypted = registers_when (given_text kms_key)
     [(''KmsKeyValidator'', [(''kms_key_id'', opt_txt kms_key)]),
      (''KmsKeyIdEncryptedValidator'', [(''kms_key_id'', opt_txt kms_key), (''encrypted'', flag encrypted)])]"

definition shared_ebs_registers :: "string option \<Rightarrow> shared_ebs \<Rightarrow> registration list" where
  "shared_ebs_registers head_node_instance_id e = ebs_registers e
     @ [(''EbsVolumeTypeSizeValidator'', [(''volume_type'', tx (ebs_volume_type e)), (''volume_size'', num (se_size e))]),
        (''EbsVolumeIopsValidator'', [(''volume_type'', tx (ebs_volume_type e)), (''volume_size'', num (se_size e)),
           (''volume_iops'', opt_num (ebs_iops e))]),
        (''SharedStorageNameValidator'', [(''name'', tx (se_name e))])]
     @ kms_key_registers (se_kms_key_id e) (ebs_encrypted e)
     @ [(''SharedEbsVolumeIdValidator'', [(''volume_id'', opt_txt (se_volume_id e)),
           (''head_node_instance_id'', opt_txt head_node_instance_id)]),
        (''EbsVolumeSizeSnapshotValidator'', [(''snapshot_id'', opt_txt (se_snapshot_id e)), (''volume_size'', num (se_size e))]),
        (''DeletionPolicyValidator'', [(''deletion_policy'', opt_txt (se_deletion_policy e)), (''name'', tx (se_name e))])]"

definition shared_efs_registers :: "shared_efs \<Rightarrow> registration list" where
  "shared_efs_registers e =
     [(''SharedStorageNameValidator'', [(''name'', tx (efs_name e))])]
     @ kms_key_registers (efs_kms_key_id e) (efs_encrypted e)
     @ [(''DeletionPolicyValidator'', [(''deletion_policy'', opt_txt (efs_deletion_policy e)), (''name'', tx (efs_name e))]),
        (''EfsMountOptionsValidator'', [(''encryption_in_transit'', flag (efs_encryption_in_transit e)),
           (''iam_authorization'', flag (efs_iam_authorization e)), (''name'', tx (efs_name e))]),
        (''EfsAccessPointOptionsValidator'', [(''access_point_id'', opt_txt (efs_access_point_id e)),
           (''file_system_id'', opt_txt (efs_file_system_id e)),
           (''encryption_in_transit'', flag (efs_encryption_in_transit e))])]"

definition data_repository_association_registers :: "data_repository_association \<Rightarrow> registration list" where
  "data_repository_association_registers d =
     [(''SharedStorageNameValidator'', [(''name'', tx (dra_name d))]),
      (''S3BucketUriValidator'', [(''url'', tx (data_repository_path d))]),
      (''FsxAutoImportValidator'', [(''auto_import_policy'', opt_texts (dra_auto_import_policy d)),
         (''import_path'', tx (data_repository_path d))])]"

definition shared_fsx_lustre_registers :: "shared_fsx_lustre \<Rightarrow> registration list" where
  "shared_fsx_lustre_registers l =
     [(''SharedStorageNameValidator'', [(''name'', tx (lu_name l))]),
      (''FsxDraValidator'', [(''data_repository_associations'', Of_associations (lu_data_repository_associations l)),
         (''import_path'', opt_txt (lu_import_path l)), (''export_path'', opt_txt (lu_export_path l))]),
      (''FsxS3Validator'', [(''import_path'', opt_txt (lu_import_path l)),
         (''imported_file_chunk_size'', opt_num (lu_imported_file_chunk_size l)), (''export_path'', opt_txt (lu_export_path l)),
         (''auto_import_policy'', opt_txt (lu_auto_import_policy l))]),
      (''FsxPersistentOptionsValidator'', [(''deployment_type'', opt_txt (lu_deployment_type l)),
         (''kms_key_id'', opt_txt (lu_kms_key_id l)),
         (''per_unit_storage_throughput'', opt_num (lu_per_unit_storage_throughput l))]),
      (''FsxBackupOptionsValidator'', [(''automatic_backup_retention_days'', opt_num (lu_automatic_backup_retention_days l)),
         (''daily_automatic_backup_start_time'', opt_txt (lu_daily_automatic_backup_start_time l)),
         (''copy_tags_to_backups'', opt_flag (lu_copy_tags_to_backups l)), (''deployment_type'', opt_txt (lu_deployment_type l)),
         (''imported_file_chunk_size'', opt_num (lu_imported_file_chunk_size l)), (''import_path'', opt_txt (lu_import_path l)),
         (''export_path'', opt_txt (lu_export_path l)), (''auto_import_policy'', opt_txt (lu_auto_import_policy l))]),
      (''FsxStorageTypeOptionsValidator'', [(''fsx_storage_type'', opt_txt (lu_fsx_storage_type l)),
         (''deployment_type'', opt_txt (lu_deployment_type l)),
         (''per_unit_storage_throughput'', opt_num (lu_per_unit_storage_throughput l)),
         (''drive_cache_type'', opt_txt (lu_drive_cache_type l))]),
      (''FsxStorageCapacityValidator'', [(''storage_capacity'', opt_num (lu_storage_capacity l)),
         (''deployment_type'', opt_txt (lu_deployment_type l)), (''fsx_storage_type'', opt_txt (lu_fsx_storage_type l)),
         (''per_unit_storage_throughput'', opt_num (lu_per_unit_storage_throughput l)),
         (''file_system_id'', opt_txt (lu_file_system_id l)), (''backup_id'', opt_txt (lu_backup_id l))]),
      (''FsxBackupIdValidator'', [(''backup_id'', opt_txt (lu_backup_id l))])]
     @ registers_when (given_text (lu_import_path l)) [(''S3BucketUriValidator'', [(''url'', opt_txt (lu_import_path l))])]
     @ registers_when (given_text (lu_export_path l)) [(''S3BucketUriValidator'', [(''url'', opt_txt (lu_export_path l))])]
     @ registers_when (given_text (lu_kms_key_id l)) [(''KmsKeyValidator'', [(''kms_key_id'', opt_txt (lu_kms_key_id l))])]
     @ registers_when (given_text (lu_auto_import_policy l)) [(''FsxAutoImportValidator'',
         [(''auto_import_policy'', opt_txt (lu_auto_import_policy l)), (''import_path'', opt_txt (lu_import_path l))])]
     @ [(''DeletionPolicyValidator'', [(''deletion_policy'', opt_txt (lu_deletion_policy l)), (''name'', tx (lu_name l))])]"

fun shared_storage_registers :: "string option \<Rightarrow> shared_storage \<Rightarrow> registration list" where
  "shared_storage_registers i (SharedEbs e) = shared_ebs_registers i e"
| "shared_storage_registers i (SharedEfs e) = shared_efs_registers e"
| "shared_storage_registers i (SharedFsxLustre l) = shared_fsx_lustre_registers l"
| "shared_storage_registers i (ExistingFsxOpenZfs v) = [(''SharedStorageNameValidator'', [(''name'', tx (ex_name v))])]"
| "shared_storage_registers i (ExistingFsxOntap v) = [(''SharedStorageNameValidator'', [(''name'', tx (ex_name v))])]"
| "shared_storage_registers i (ExistingFileCache c) =
     [(''SharedStorageNameValidator'', [(''name'', tx (ex_name c))]),
      (''SharedFileCacheNotHomeValidator'', [(''mount_dir'', tx (ex_mount_dir c))])]"

section \<open>Networks, roles and settings\<close>

definition networking_registers :: "'a networking_scheme \<Rightarrow> registration list" where
  "networking_registers n =
     [(''SecurityGroupsValidator'', [(''security_group_ids'', opt_texts (security_groups n))]),
      (''SecurityGroupsValidator'', [(''security_group_ids'', opt_texts (additional_security_groups n))])]"

definition head_node_networking_registers :: "head_node_networking \<Rightarrow> registration list" where
  "head_node_networking_registers n = networking_registers n
     @ [(''ElasticIpValidator'', [(''elastic_ip'', Value (hn_elastic_ip n))])]"

definition placement_group_registers :: "placement_group \<Rightarrow> registration list" where
  "placement_group_registers g = [(''PlacementGroupNamingValidator'', [(''placement_group'', Group g)])]"

definition logs_registers :: "logs \<Rightarrow> registration list" where
  "logs_registers l = [(''LogRotationValidator'', [(''log'', Of_logs l)])]"

definition monitoring_registers :: "monitoring \<Rightarrow> registration list" where
  "monitoring_registers m =
     [(''DetailedMonitoringValidator'', [(''is_detailed_monitoring_enabled'', flag (detailed_monitoring m))])]"

definition roles_registers :: "string option \<Rightarrow> registration list" where
  "roles_registers r = registers_when (given_text r) [(''RoleValidator'', [(''role_arn'', opt_txt r)])]"

definition iam_registers :: "iam \<Rightarrow> registration list" where
  "iam_registers i =
     (if given_text (iam_instance_role i) then [(''RoleValidator'', [(''role_arn'', opt_txt (iam_instance_role i))])]
      else registers_when (given_text (iam_instance_profile i))
        [(''InstanceProfileValidator'', [(''instance_profile_arn'', opt_txt (iam_instance_profile i))])])"

definition additional_iam_policy_registers :: "string \<Rightarrow> registration list" where
  "additional_iam_policy_registers policy = [(''AdditionalIamPolicyValidator'', [(''policy'', tx policy)])]"

definition directory_service_registers :: "string \<Rightarrow> directory_service \<Rightarrow> registration list" where
  "directory_service_registers region d =
     registers_when (given_text (domain_name d)) [(''DomainNameValidator'', [(''domain_name'', opt_txt (domain_name d))])]
     @ registers_when (given_text (domain_addr d)) [(''DomainAddrValidator'', [(''domain_addr'', opt_txt (domain_addr d)),
         (''additional_sssd_configs'', Value (VDict (additional_sssd_configs d)))])]
     @ registers_when (given_text (ds_password_secret_arn d)) [(''PasswordSecretArnValidator'',
         [(''password_secret_arn'', opt_txt (ds_password_secret_arn d)), (''region'', tx region)])]
     @ registers_when (ldap_tls_req_cert d \<noteq> []) [(''LdapTlsReqCertValidator'', [(''ldap_tls_reqcert'', tx (ldap_tls_req_cert d))])]
     @ registers_when (additional_sssd_configs d \<noteq> []) [(''AdditionalSssdConfigsValidator'',
         [(''additional_sssd_configs'', Value (VDict (additional_sssd_configs d))),
          (''ldap_access_filter'', opt_txt (ldap_access_filter d))])]"

definition cluster_iam_registers :: "cluster_iam \<Rightarrow> registration list" where
  "cluster_iam_registers i =
     registers_when (given_text (permissions_boundary i)) [(''IamPolicyValidator'', [(''policy'', opt_txt (permissions_boundary i))])]
     @ registers_when (given_text (resource_prefix i))
         [(''IamResourcePrefixValidator'', [(''resource_prefix'', opt_txt (resource_prefix i))])]"

definition cookbook_registers :: "cookbook \<Rightarrow> registration list" where
  "cookbook_registers c =
     registers_when (chef_cookbook c \<noteq> None) [(''UrlValidator'', [(''url'', opt_txt (chef_cookbook c))])]
     @ registers_when (given_text (cb_extra_chef_attributes c))
         [(''ExtraChefAttributesValidator'', [(''extra_chef_attributes'', opt_txt (cb_extra_chef_attributes c))])]"

definition dev_settings_registers :: "dev_settings \<Rightarrow> registration list" where
  "dev_settings_registers d =
     registers_when (given_text (node_package d)) [(''UrlValidator'', [(''url'', opt_txt (node_package d))])]
     @ registers_when (given_text (cluster_template d)) [(''UrlValidator'', [(''url'', opt_txt (cluster_template d))])]"

definition deployment_settings_registers :: "deployment_settings \<Rightarrow> registration list" where
  "deployment_settings_registers d = (case vpc_config d of
     None \<Rightarrow> []
   | Some v \<Rightarrow> [(''LambdaFunctionsVpcConfigValidator'', [(''security_group_ids'', opt_texts (lv_security_group_ids v)),
       (''subnet_ids'', opt_texts (lv_subnet_ids v))])])"

section \<open>Nodes\<close>

definition custom_ami_registers :: "string option \<Rightarrow> registration list" where \<comment> \<open>the images of the nodes\<close>
  "custom_ami_registers ami = registers_when (given_text ami) [(''CustomAmiTagValidator'', [(''custom_ami'', opt_txt ami)])]"

definition image_registers :: "os_image \<Rightarrow> registration list" where
  "image_registers im =
     [(''OsCustomAmiValidator'', [(''os'', tx (im_os im)), (''custom_ami'', opt_txt (im_custom_ami im))])]
     @ registers_when (given_text (im_custom_ami im))
       [(''CustomAmiTagValidator'', [(''custom_ami'', opt_txt (im_custom_ami im))]),
        (''AmiOsCompatibleValidator'', [(''os'', tx (im_os im)), (''image_id'', opt_txt (im_custom_ami im))])]"

definition custom_action_registers :: "custom_action \<Rightarrow> registration list" where
  "custom_action_registers a = [(''AsyncTimedUrlValidator'', [(''url'', tx (ca_script a)), (''timeout'', num 5)])]"

definition login_nodes_pool_registers :: "login_nodes_pool \<Rightarrow> registration list" where
  "login_nodes_pool_registers p =
     [(''InstanceTypeValidator'', [(''instance_type'', tx (pool_instance_type p))]), (''NameValidator'', [(''name'', tx (pool_name p))])]"

definition login_nodes_registers :: "login_nodes_pool list \<Rightarrow> registration list" where
  "login_nodes_registers pools =
     [(''DuplicateNameValidator'', [(''name_list'', texts (map pool_name pools)), (''resource_name'', tx ''Pool'')])]"

definition head_node_registers :: "head_node \<Rightarrow> registration list" where
  "head_node_registers h =
     [(''InstanceTypeValidator'', [(''instance_type'', tx (hn_instance_type h))]),
      (''SharedStorageEfsSettingsValidator'', [(''shared_storage_type'', tx (hn_shared_storage_type h)),
         (''shared_storage_efs_settings'', Of_efs_settings (hn_efs_encrypted h))])]"

definition launch_template_registers :: "slurm_compute_resource \<Rightarrow> registration list" where
  "launch_template_registers cr = (case sc_launch_template_overrides cr of
     None \<Rightarrow> []
   | Some ov \<Rightarrow> [(''LaunchTemplateValidator'', [(''compute_resource_name'', tx (sc_name cr)),
       (''launch_template_id'', opt_txt (launch_template_id ov)), (''launch_template_version'', opt_num (launch_template_version ov))])])"

text \<open>The type with the least memory of a flexible resource, the only type of another one.\<close>

definition schedulable_type_and_memory :: "aws \<Rightarrow> slurm_compute_resource \<Rightarrow> (string option \<times> pyval) result" where
  "schedulable_type_and_memory A cr = (case sc_instances cr of
     Flexible _ \<Rightarrow> rmap (\<lambda>(t, m). (t, VInt m)) (min_schedulable_memory_and_instance_type A cr)
   | Single t \<Rightarrow> rbind (single_instance_type A cr t) (\<lambda>u. rbind (type_info A u) (\<lambda>i.
       rmap (Pair u) (ec2memory_size_in_mib i))))"

definition compute_resource_registers :: "aws \<Rightarrow> slurm_compute_resource \<Rightarrow> registration list result" where
  "compute_resource_registers A cr = rmap (\<lambda>(t, memory).
     [(''NameValidator'', [(''name'', tx (sc_name cr))]),
      (''SchedulableMemoryValidator'', [(''schedulable_memory'', opt_num (sc_schedulable_memory cr)),
         (''ec2memory'', Value memory), (''instance_type'', opt_txt t)])]
     @ launch_template_registers cr) (schedulable_type_and_memory A cr)"

section \<open>Queues and scheduling\<close>

definition common_compute_resource_registers :: "aws \<Rightarrow> slurm_queue \<Rightarrow> slurm_compute_resource \<Rightarrow> registration list result" where
  "common_compute_resource_registers A q cr =
     rbind (multi_az_enabled A q) (\<lambda>multi_az.
     rmap (\<lambda>efa_check.
       [(''EfaMultiAzValidator'', [(''queue_name'', tx (q_name q)), (''multi_az_enabled'', flag multi_az),
          (''compute_resource_name'', tx (sc_name cr)), (''compute_resource_efa_enabled'', opt_flag (efa_enabled (sc_efa cr)))])]
       @ efa_check
       @ [(''MultiAzPlacementGroupValidator'', [(''multi_az_enabled'', flag multi_az),
           (''placement_group_enabled'',
              flag (enabled_or_assigned (get_chosen_placement_group_setting_for_compute_resource q cr))),
           (''compute_resource_name'', tx (sc_name cr)), (''queue_name'', tx (q_name q))])])
       (if is_flexible cr then Inr []
        else rmap (\<lambda>ts. [(''EfaValidator'', [(''instance_type'', opt_txt (hd ts)), (''efa_enabled'', opt_flag (efa_enabled (sc_efa cr))),
            (''gdr_support'', flag (gdr_support (sc_efa cr))), (''multiaz_enabled'', flag multi_az)])]) (instance_types A cr)))"

definition queue_instance_registers :: "slurm_queue \<Rightarrow> slurm_compute_resource \<Rightarrow> string option \<Rightarrow> registration list" where
  "queue_instance_registers q cr t =
     [(''CapacityTypeValidator'', [(''capacity_type'', Of_capacity (q_capacity_type q)), (''instance_type'', opt_txt t),
         (''capacity_reservation_id'', opt_txt (Option.bind (target_of q cr) capacity_reservation_id))]),
      (''FeatureRegionValidator'', [(''feature'', Of_feature (Capacity_member (q_capacity_type q))), (''region'', Value VNone)])]"

definition queue_compute_resource_registers :: "aws \<Rightarrow> slurm_queue \<Rightarrow> slurm_compute_resource \<Rightarrow> registration list result" where
  "queue_compute_resource_registers A q cr =
     rbind (multi_az_enabled A q) (\<lambda>multi_az. rmap (\<lambda>ts.
       [(''EfaSecurityGroupValidator'', [(''efa_enabled'', opt_flag (efa_enabled (sc_efa cr))),
           (''security_groups'', opt_texts (security_groups (q_networking q))),
           (''additional_security_groups'', opt_texts (additional_security_groups (q_networking q)))]),
        (''EfaPlacementGroupValidator'', [(''efa_enabled'', opt_flag (efa_enabled (sc_efa cr))),
           (''placement_group_key'', opt_txt (fst (get_placement_group_settings_for_compute_resource q cr))),
           (''placement_group_disabled'',
              flag (pg_enabled (get_chosen_placement_group_setting_for_compute_resource q cr) = Some False)),
           (''multi_az_enabled'', flag multi_az), (''capacity_type'', Of_capacity (q_capacity_type q)),
           (''queue_name'', tx (q_name q))]),
        (''ComputeResourceSizeValidator'', [(''min_count'', num (sc_min_count cr)), (''max_count'', num (sc_max_count cr)),
           (''capacity_type'', Of_capacity (q_capacity_type q))])]
       @ registers_when (sc_custom_slurm_settings cr \<noteq> []) [(''CustomSlurmSettingsValidator'',
           [(''custom_settings'', Value (VList [VDict (sc_custom_slurm_settings cr)])),
            (''deny_list'', texts (the (map_of SLURM_SETTINGS_DENY_LIST (''ComputeResource'', ''Global'')))),
            (''settings_level'', Of_level COMPUTE_RESOURCE)])]
       @ concat (map (queue_instance_registers q cr) ts)) (instance_types A cr))"

definition MAX_COMPUTE_RESOURCES_PER_QUEUE :: int where "MAX_COMPUTE_RESOURCES_PER_QUEUE = 50"
definition MAX_NUMBER_OF_COMPUTE_RESOURCES_PER_CLUSTER :: int where "MAX_NUMBER_OF_COMPUTE_RESOURCES_PER_CLUSTER = 50"
definition MAX_NUMBER_OF_QUEUES :: int where "MAX_NUMBER_OF_QUEUES = 50"
definition MAX_NUMBER_OF_LOGIN_NODE_POOLS :: int where "MAX_NUMBER_OF_LOGIN_NODE_POOLS = 10"

definition max_count_register :: "nat \<Rightarrow> int \<Rightarrow> string \<Rightarrow> registration" where
  "max_count_register resources_length max_length resource_name = (''MaxCountValidator'',
     [(''resources_length'', num (int resources_length)), (''max_length'', num max_length), (''resource_name'', tx resource_name)])"

definition queue_registers :: "aws \<Rightarrow> slurm_queue \<Rightarrow> registration list result" where
  "queue_registers A q =
     rbind (rmap_list (common_compute_resource_registers A q) (q_compute_resources q)) (\<lambda>common.
     rbind (az_subnet_ids_mapping A (q_networking q)) (\<lambda>zones.
     rmap (\<lambda>per_resource.
       [(''NameValidator'', [(''name'', tx (q_name q))])] @ concat common
       @ [(''DuplicateNameValidator'', [(''name_list'', texts (map sc_name (q_compute_resources q))),
            (''resource_name'', tx ''Compute resource'')]),
          max_count_register (length (q_compute_resources q)) MAX_COMPUTE_RESOURCES_PER_QUEUE ''ComputeResources per Queue'',
          (''QueueSubnetsValidator'', [(''queue_name'', tx (q_name q)), (''subnet_ids'', texts (subnet_ids (q_networking q))),
            (''az_subnet_ids_mapping'', Sets_by_key zones)]),
          (''SlurmNodePrioritiesWarningValidator'', [(''queue_name'', tx (q_name q)),
            (''compute_resources'', Of_resources (q_compute_resources q))])]
       @ registers_when (list_ex (\<lambda>cr. \<not> is_flexible cr) (q_compute_resources q)) [(''SingleInstanceTypeSubnetValidator'',
            [(''queue_name'', tx (q_name q)), (''subnet_ids'', texts (subnet_ids (q_networking q)))])]
       @ registers_when (q_custom_slurm_settings q \<noteq> []) [(''CustomSlurmSettingsValidator'',
            [(''custom_settings'', Value (VList [VDict (q_custom_slurm_settings q)])),
             (''deny_list'', texts (the (map_of SLURM_SETTINGS_DENY_LIST (''Queue'', ''Global'')))),
             (''settings_level'', Of_level QUEUE)])]
       @ concat per_resource)
       (rmap_list (queue_compute_resource_registers A q) (q_compute_resources q))))"

definition database_registers :: "string \<Rightarrow> database \<Rightarrow> registration list" where
  "database_registers region d =
     [(''FeatureRegionValidator'', [(''feature'', Of_feature (Feature_member SLURM_DATABASE)), (''region'', tx region)])]
     @ registers_when (given_text (db_uri d)) [(''DatabaseUriValidator'', [(''uri'', opt_txt (db_uri d))])]
     @ registers_when (given_text (db_password_secret_arn d)) [(''PasswordSecretArnValidator'',
         [(''password_secret_arn'', opt_txt (db_password_secret_arn d)), (''region'', tx region)])]"

definition custom_settings_argument :: "pyval list option \<Rightarrow> argument" where
  "custom_settings_argument s = Value (case s of None \<Rightarrow> VNone | Some l \<Rightarrow> VList l)"

definition slurm_settings_registers :: "string \<Rightarrow> slurm_settings \<Rightarrow> registration list" where
  "slurm_settings_registers region s =
     (let custom = custom_settings_argument (ss_custom_slurm_settings s);
          denied = (\<lambda>section. [(''custom_settings'', custom),
            (''deny_list'', texts (the (map_of SLURM_SETTINGS_DENY_LIST (''SlurmConf'', section)))),
            (''settings_level'', Of_level SLURM_CONF)]) in
      registers_when (or_default (ss_custom_slurm_settings s) [] \<noteq> [])
        ([(''CustomSlurmSettingsValidator'', denied ''Global''), (''CustomSlurmNodeNamesValidator'', [(''custom_settings'', custom)])]
         @ registers_when (ss_database s \<noteq> None) [(''CustomSlurmSettingsValidator'', denied ''Accounting'')])
      @ registers_when (given_text (custom_slurm_settings_include_file s))
        [(''UrlValidator'', [(''url'', opt_txt (custom_slurm_settings_include_file s))]),
         (''CustomSlurmSettingsIncludeFileOnlyValidator'', [(''custom_settings'', custom),
            (''include_file_url'', opt_txt (custom_slurm_settings_include_file s))])]
      @ registers_when (given_text (munge_key_secret_arn s))
        [(''ArnServiceAndResourceValidator'', [(''arn'', opt_txt (munge_key_secret_arn s)), (''region'', tx region),
            (''expected_service'', tx ''secretsmanager''), (''expected_resource'', tx ''secret'')]),
         (''MungeKeySecretSizeAndBase64Validator'', [(''munge_key_secret_arn'', opt_txt (munge_key_secret_arn s))])]
      @ [(''ExternalSlurmdbdVsDatabaseIncompatibility'', [(''database'', Of_database (ss_database s)),
            (''external_slurmdbd'', Of_slurmdbd (ss_external_slurmdbd s))]),
         (''ExternalSlurmdbdRequiresCustomMungeKey'', [(''external_slurmdbd'', Of_slurmdbd (ss_external_slurmdbd s)),
            (''munge_key_secret_arn'', opt_txt (munge_key_secret_arn s))]),
         (''ExternalSlurmdbdTrafficNotEncrypted'', [(''external_slurmdbd'', Of_slurmdbd (ss_external_slurmdbd s))])])"

definition scheduling_registers :: "slurm_scheduling \<Rightarrow> registration list" where
  "scheduling_registers s =
     [(''DuplicateNameValidator'', [(''name_list'', texts (map q_name (queues s))), (''resource_name'', tx ''Queue'')]),
      (''RootVolumeEncryptionConsistencyValidator'', [(''encryption_settings'',
         Flags_by_name (map (\<lambda>q. (q_name q, ebs_encrypted (root_volume_of (q_local_storage q)))) (queues s)))]),
      max_count_register (length (queues s)) MAX_NUMBER_OF_QUEUES ''SlurmQueues'',
      max_count_register (sum_list (map (\<lambda>q. length (q_compute_resources q)) (queues s)))
        MAX_NUMBER_OF_COMPUTE_RESOURCES_PER_CLUSTER ''ComputeResources per Cluster'']"

section \<open>The storages of the cluster\<close>

text \<open>The counters of the loop over the shared storages, and the registrations it makes.\<close>

record storage_tally =
  ebs_count :: int
  existing_storage_count :: "string \<Rightarrow> int"
  new_storage_count :: "string \<Rightarrow> int"
  existing_fsx :: "string option list"

definition no_storages :: storage_tally where
  "no_storages = \<lparr>ebs_count = 0, existing_storage_count = (\<lambda>_. 0), new_storage_count = (\<lambda>_. 0), existing_fsx = []\<rparr>"

definition count_existing :: "string \<Rightarrow> storage_tally \<Rightarrow> storage_tally" where
  "count_existing k T = T\<lparr>existing_storage_count := (existing_storage_count T)(k := existing_storage_count T k + 1)\<rparr>"

definition count_new :: "string \<Rightarrow> storage_tally \<Rightarrow> storage_tally" where
  "count_new k T = T\<lparr>new_storage_count := (new_storage_count T)(k := new_storage_count T k + 1)\<rparr>"

definition count_existing_fsx :: "string option \<Rightarrow> storage_tally \<Rightarrow> storage_tally" where
  "count_existing_fsx i T = (count_existing ''fsx'' T)\<lparr>existing_fsx := existing_fsx T @ [i]\<rparr>"

definition feature_registers :: "feature \<Rightarrow> string \<Rightarrow> registration list" where
  "feature_registers f region = [(''FeatureRegionValidator'', [(''feature'', Of_feature (Feature_member f)), (''region'', tx region)])]"

definition tally_storage :: "aws \<Rightarrow> cluster_config \<Rightarrow> shared_storage \<Rightarrow> storage_tally \<Rightarrow> (registration list \<times> storage_tally) result" where
  "tally_storage A C s T = (case s of
     SharedFsxLustre l \<Rightarrow> rmap (\<lambda>architecture.
       (feature_registers feature.FSX_LUSTRE (cluster_region A C) @ [(''FsxArchitectureOsValidator'',
          [(''architecture'', tx architecture), (''os'', tx (im_os (config_image C)))])],
        if given_text (lu_file_system_id l) then count_existing_fsx (lu_file_system_id l) T else count_new ''fsx'' T))
       (head_node_architecture A (config_head_node C))
   | ExistingFsxOpenZfs v \<Rightarrow> rmap (\<lambda>i. (feature_registers feature.FSX_OPENZFS (cluster_region A C), count_existing_fsx i T))
       (volume_file_system_id A (ex_id v))
   | ExistingFsxOntap v \<Rightarrow> rmap (\<lambda>i. (feature_registers feature.FSX_ONTAP (cluster_region A C), count_existing_fsx i T))
       (volume_file_system_id A (ex_id v))
   | ExistingFileCache c \<Rightarrow> Inr (feature_registers feature.FILE_CACHE (cluster_region A C), count_existing_fsx (Some (ex_id c)) T)
   | SharedEbs e \<Rightarrow> Inr ([], if se_raid e \<noteq> None then count_new ''raid'' T else T\<lparr>ebs_count := ebs_count T + 1\<rparr>)
   | SharedEfs e \<Rightarrow> (if given_text (efs_file_system_id e)
       then rmap (\<lambda>mapping. ([(''EfsIdValidator'', [(''efs_id'', opt_txt (efs_file_system_id e)),
           (''avail_zones_mapping'', Sets_by_key mapping), (''security_groups_by_nodes'', Node_groups (security_groups_by_nodes C))])],
         count_existing ''efs'' T)) (availability_zones_subnets_mapping A C)
       else Inr ([], count_new ''efs'' T)))"

definition storage_step :: "aws \<Rightarrow> cluster_config \<Rightarrow> shared_storage \<Rightarrow> registration list \<times> storage_tally \<Rightarrow>
    (registration list \<times> storage_tally) result" where
  "storage_step A C s st = rmap (\<lambda>(rs, T).
       (fst st @ [(''SharedStorageNameValidator'', [(''name'', tx (storage_name s))]),
          (''SharedStorageMountDirValidator'', [(''mount_dir'', tx (storage_mount_dir s))])] @ rs, T))
     (tally_storage A C s (snd st))"

definition MAX_EBS_COUNT :: int where "MAX_EBS_COUNT = 5"
definition MAX_NEW_STORAGE_COUNT :: "(string \<times> int) list" where
  "MAX_NEW_STORAGE_COUNT = [(''efs'', 1), (''fsx'', 1), (''raid'', 1)]"
definition MAX_EXISTING_STORAGE_COUNT :: "(string \<times> int) list" where
  "MAX_EXISTING_STORAGE_COUNT = [(''efs'', 20), (''fsx'', 20), (''raid'', 0)]"

definition number_register :: "string \<Rightarrow> int option \<Rightarrow> int \<Rightarrow> registration" where
  "number_register kind max_number n = (''NumberOfStorageValidator'',
     [(''storage_type'', tx kind), (''max_number'', opt_num max_number), (''storage_count'', num n)])"

definition max_storage_count_registers :: "storage_tally \<Rightarrow> registration list" where
  "max_storage_count_registers T =
     concat (map (\<lambda>kind. let k = map to_lower kind in
       [number_register (''new '' @ kind) (map_of MAX_NEW_STORAGE_COUNT k) (new_storage_count T k),
        number_register (''existing '' @ kind) (map_of MAX_EXISTING_STORAGE_COUNT k) (existing_storage_count T k)])
       [''EFS'', ''FSx'', ''RAID''])
     @ [number_register ''EBS'' (Some MAX_EBS_COUNT) (ebs_count T)]"

text \<open>The storages that need a subnet or a zone: \<open>_validate_new_storage_multiple_subnets\<close>.\<close>

definition fsx_zone_registers :: "(string \<Rightarrow> string) \<Rightarrow> aws \<Rightarrow> cluster_config \<Rightarrow> shared_storage \<Rightarrow> registration list result" where
  "fsx_zone_registers digest A C s =
     (let unmanaged_check = (\<lambda>unmanaged. if unmanaged
            then rmap (\<lambda>zones. [(''UnmanagedFsxMultiAzValidator'', [(''queues'', Of_queues (queues (scheduling C))), (''fsx_az_list'', texts zones)])])
              (file_system_availability_zones A s)
            else Inr []) in
      case s of
        SharedFsxLustre l \<Rightarrow> rmap (\<lambda>rs. rs @
          (if lu_file_system_id l \<noteq> None then []
           else case map_of (existing_fsx_file_system_subnets C) (''FSX'' @ create_hash_suffix digest (lu_name l)) of
             Some (subnet # rest) \<Rightarrow> [(''ManagedFsxCrossAzValidator'', [(''fsx_name'', tx (lu_name l)),
               (''fsx_subnet_ids'', texts (subnet # rest)), (''compute_subnet_ids'', texts (compute_subnet_ids C))])]
           | _ \<Rightarrow> []))
          (unmanaged_check (lu_file_system_id l \<noteq> None))
      | ExistingFsxOpenZfs v \<Rightarrow> rbind (is_unmanaged A s) unmanaged_check
      | ExistingFsxOntap v \<Rightarrow> rbind (is_unmanaged A s) unmanaged_check
      | _ \<Rightarrow> Inr [])"

fun ebs_volumes :: "shared_storage list \<Rightarrow> shared_ebs list" where
  "ebs_volumes [] = []"
| "ebs_volumes (s # ss) = (case s of SharedEbs e \<Rightarrow> e # ebs_volumes ss | _ \<Rightarrow> ebs_volumes ss)"

definition new_storage_multiple_subnets_registers ::
    "(string \<Rightarrow> string) \<Rightarrow> aws \<Rightarrow> cluster_config \<Rightarrow> storage_tally \<Rightarrow> registration list result" where
  "new_storage_multiple_subnets_registers digest A C T =
     rbind (head_node_zone A (hn_networking (config_head_node C))) (\<lambda>zone.
     rmap (\<lambda>l.
       [(''ManagedFsxMultiAzValidator'', [(''compute_subnet_ids'', texts (compute_subnet_ids C)),
           (''new_storage_count'', Counts (new_storage_count T))])]
       @ concat l
       @ [(''MultiAzEbsVolumeValidator'', [(''head_node_az'', tx zone), (''ebs_volumes'', Of_volumes (ebs_volumes (shared_storages C))),
             (''queues'', Of_queues (queues (scheduling C)))]),
          (''MultiAzRootVolumeValidator'', [(''head_node_az'', tx zone), (''queues'', Of_queues (queues (scheduling C)))])])
       (rmap_list (fsx_zone_registers digest A C) (shared_storages C)))"

definition mount_dirs_registers :: "aws \<Rightarrow> cluster_config \<Rightarrow> registration list result" where
  "mount_dirs_registers A C = rmap (\<lambda>local.
     [(''DuplicateMountDirValidator'',
        [(''shared_storage_name_mount_dir_tuple_list'', Pairs (shared_storage_name_mount_dir_tuple_list C)),
         (''local_mount_dir_instance_types_dict'', Types_by_key local)]),
      (''OverlappingMountDirValidator'',
        [(''shared_mount_dir_list'', texts (map fst (shared_storage_name_mount_dir_tuple_list C))),
         (''local_mount_dir_list'', texts (map fst local))])]) (local_mount_dir_instance_types_dict A C)"

text \<open>
  \<open>_cache_describe_volume\<close> asks FSx for all the volumes at once; an exception there ends the registration.
\<close>

definition fsx_volume_ids :: "cluster_config \<Rightarrow> string list" where
  "fsx_volume_ids C = concat (map (\<lambda>s. case s of
     ExistingFsxOpenZfs v \<Rightarrow> [ex_id v] | ExistingFsxOntap v \<Rightarrow> [ex_id v] | _ \<Rightarrow> []) (shared_storages C))"

definition storage_registers :: "(string \<Rightarrow> string) \<Rightarrow> aws \<Rightarrow> cluster_config \<Rightarrow> registration list result" where
  "storage_registers digest A C =
     (if shared_storages C = [] then mount_dirs_registers A C
      else rbind (rmap_list (fsx_volume A) (fsx_volume_ids C)) (\<lambda>_.
        rbind (rfold (storage_step A C) (shared_storages C) ([], no_storages)) (\<lambda>(rs, T).
        rbind (new_storage_multiple_subnets_registers digest A C T) (\<lambda>zones.
        rmap (\<lambda>mounts.
          [(''DuplicateNameValidator'', [(''name_list'', texts (map storage_name (shared_storages C))),
              (''resource_name'', tx ''Shared Storage'')]),
           (''DuplicateNameValidator'', [(''name_list'', texts (existing_storage_id_list C)),
              (''resource_name'', tx ''Shared Storage IDs'')])]
          @ rs
          @ [(''ExistingFsxNetworkingValidator'', [(''file_storage_ids'', type_names (in_order (existing_fsx T))),
              (''subnet_ids'', texts (hn_subnet_id (hn_networking (config_head_node C)) # compute_subnet_ids C)),
              (''security_groups_by_nodes'', Node_groups (security_groups_by_nodes C))])]
          @ max_storage_count_registers T @ zones @ mounts)
          (mount_dirs_registers A C)))))"

section \<open>The cluster\<close>

definition additional_package_registers :: "aws \<Rightarrow> cluster_config \<Rightarrow> registration list result" where
  "additional_package_registers A C =
     (if is_intel_hpc_platform_enabled C
      then rmap (\<lambda>architecture. [(''IntelHpcOsValidator'', [(''os'', tx (im_os (config_image C)))]),
          (''IntelHpcArchitectureValidator'', [(''architecture'', tx architecture)])])
        (head_node_architecture A (config_head_node C))
      else Inr [])"

text \<open>The root volume of a node: its size is that of the image when it is not given.\<close>

definition root_volume_size :: "root_volume \<Rightarrow> int \<Rightarrow> int" where
  "root_volume_size v ami_volume_size = or_default (root_size v) ami_volume_size"

definition root_volume_registers :: "root_volume \<Rightarrow> int \<Rightarrow> registration list" where
  "root_volume_registers v ami_volume_size = (let s = root_volume_size v ami_volume_size in
     [(''RootVolumeSizeValidator'', [(''root_volume_size'', num s), (''ami_volume_size'', num ami_volume_size)]),
      (''EbsVolumeTypeSizeValidator'', [(''volume_type'', tx (ebs_volume_type v)), (''volume_size'', num s)]),
      (''EbsVolumeIopsValidator'', [(''volume_type'', tx (ebs_volume_type v)), (''volume_size'', num s),
        (''volume_iops'', opt_num (ebs_iops v))])])"

definition type_image_registers :: "string option \<Rightarrow> string \<Rightarrow> string \<Rightarrow> registration list" where
  "type_image_registers t ami os =
     [(''InstanceTypeBaseAMICompatibleValidator'', [(''instance_type'', opt_txt t), (''image'', tx ami)]),
      (''InstanceTypeOSCompatibleValidator'', [(''instance_type'', opt_txt t), (''os'', tx os)])]"

definition dcv_register :: "string \<Rightarrow> dcv \<Rightarrow> string \<Rightarrow> string \<Rightarrow> registration" where
  "dcv_register itype d os architecture = (''DcvValidator'', [(''instance_type'', tx itype), (''dcv_enabled'', flag (dcv_enabled d)),
     (''allowed_ips'', tx (dcv_allowed_ips d)), (''port'', num (dcv_port d)), (''os'', tx os), (''architecture'', tx architecture)])"

definition base_cluster_registers :: "(string \<Rightarrow> string) \<Rightarrow> aws \<Rightarrow> cluster_config \<Rightarrow> registration list result" where
  "base_cluster_registers digest A C =
     (let h = config_head_node C; os = im_os (config_image C) in
      rbind (head_node_architecture A h) (\<lambda>architecture.
      rbind (head_node_ami A C) (\<lambda>ami.
      rbind (storage_registers digest A C) (\<lambda>storages.
      rbind (image_device_and_size A ami) (\<lambda>(device, ami_volume_size).
      rmap (\<lambda>packages.
        [(''RegionValidator'', [(''region'', tx (cluster_region A C))]),
         (''ClusterNameValidator'', [(''name'', tx (cluster_name C)), (''scheduling'', Of_scheduling (scheduling C))]),
         (''ArchitectureOsValidator'', [(''os'', tx os), (''architecture'', tx architecture)])]
        @ registers_when (ami \<noteq> []) (type_image_registers (Some (hn_instance_type h)) ami os)
        @ registers_when (given_text (hn_custom_ami h))
            [(''AmiOsCompatibleValidator'', [(''os'', tx os), (''image_id'', opt_txt (hn_custom_ami h))])]
        @ storages
        @ [(''HeadNodeLaunchTemplateValidator'', [(''head_node'', Of_head_node h), (''root_volume_device_name'', tx device),
             (''ami_id'', tx ami), (''tags'', Of_tags (config_tags C)), (''imds_support'', tx (imds_support C))])]
        @ (case hn_dcv h of None \<Rightarrow> [] | Some d \<Rightarrow> [dcv_register (hn_instance_type h) d os architecture])
        @ packages
        @ registers_when (given_text (custom_s3_bucket C))
            [(''S3BucketValidator'', [(''bucket'', opt_txt (custom_s3_bucket C))]),
             (''S3BucketRegionValidator'', [(''bucket'', opt_txt (custom_s3_bucket C)), (''region'', tx (cluster_region A C))])]
        @ [(''SchedulerValidator'', [(''scheduler'', tx (scheduler (scheduling C)))])]
        @ root_volume_registers (root_volume_of (hn_local_storage h)) ami_volume_size
        @ [(''KeyPairValidator'', [(''key_name'', opt_txt (hs_key_name (hn_ssh h))), (''os'', tx os)])])
        (additional_package_registers A C))))))"

definition login_pool_registers :: "aws \<Rightarrow> cluster_config \<Rightarrow> (string \<times> string) list \<Rightarrow> login_nodes_pool \<Rightarrow> registration list result" where
  "login_pool_registers A C amis p =
     (let os = im_os (config_image C);
          image_part = (if given_text (pool_custom_ami p)
            then rmap (\<lambda>ami. (''AmiOsCompatibleValidator'', [(''os'', tx os), (''image_id'', opt_txt (pool_custom_ami p))])
                # type_image_registers (Some (pool_instance_type p)) ami os)
              (case map_of amis (pool_name p) of None \<Rightarrow> Inl KeyError | Some ami \<Rightarrow> Inr ami)
            else Inr []);
          dcv_part = (case pool_dcv p of None \<Rightarrow> Inr []
            | Some d \<Rightarrow> rmap (\<lambda>architecture. [dcv_register (pool_instance_type p) d os architecture]) (pool_architecture A p)) in
      rbind image_part (\<lambda>image_checks. rmap (\<lambda>dcv_checks. image_checks @ dcv_checks) dcv_part))"

definition login_node_registers :: "aws \<Rightarrow> cluster_config \<Rightarrow> registration list result" where
  "login_node_registers A C = (case login_nodes C of
     None \<Rightarrow> Inr []
   | Some pools \<Rightarrow> rbind (login_nodes_subnet_ids C) (\<lambda>subnets.
       rbind (login_nodes_ami A C) (\<lambda>amis.
       rmap (\<lambda>l.
         [(''SubnetsValidator'', [(''subnet_ids'',
             texts (subnets @ compute_subnet_ids C @ [hn_subnet_id (hn_networking (config_head_node C))]))]),
          max_count_register (length pools) MAX_NUMBER_OF_LOGIN_NODE_POOLS ''LoginNodePools'']
         @ concat l)
         (rmap_list (login_pool_registers A C amis) pools))))"

text \<open>The capacity reservation of a compute resource, and the checks of each of its instance types.\<close>

definition reservation_registers :: "aws \<Rightarrow> cluster_config \<Rightarrow> slurm_queue \<Rightarrow> slurm_compute_resource \<Rightarrow> registration list result" where
  "reservation_registers A C q cr = (case target_of q cr of
     None \<Rightarrow> Inr []
   | Some t \<Rightarrow> rbind (instance_types A cr) (\<lambda>ts.
       (case subnet_ids (q_networking q) of
          [] \<Rightarrow> Inl IndexError
        | subnet # rest \<Rightarrow> rbind (subnet_id_az_mapping A (q_networking q)) (\<lambda>mapping.
            rmap (\<lambda>multi_az.
              [(''CapacityReservationValidator'', [(''capacity_reservation_id'', opt_txt (capacity_reservation_id t)),
                  (''instance_types'', type_names ts), (''is_flexible'', flag (is_flexible cr)), (''subnet'', tx subnet),
                  (''capacity_type'', Of_capacity (q_capacity_type q)), (''os'', tx (im_os (config_image C)))]),
               (''CapacityReservationResourceGroupValidator'',
                 [(''capacity_reservation_resource_group_arn'', opt_txt (capacity_reservation_resource_group_arn t)),
                  (''instance_types'', type_names ts), (''subnet_ids'', texts (subnet # rest)), (''queue_name'', tx (q_name q)),
                  (''subnet_id_az_mapping'', Pairs mapping)]),
               (''PlacementGroupCapacityReservationValidator'',
                 [(''placement_group'', opt_txt (fst (get_placement_group_settings_for_compute_resource q cr))),
                  (''odcr'', Of_target t), (''subnet'', tx subnet), (''instance_types'', type_names ts),
                  (''multi_az_enabled'', flag multi_az)])])
              (multi_az_enabled A q)))))"

definition instance_registers :: "cluster_config \<Rightarrow> (pyval \<times> pyval) list \<Rightarrow> string \<Rightarrow> slurm_queue \<Rightarrow> slurm_compute_resource \<Rightarrow>
    string option \<Rightarrow> registration list result" where
  "instance_registers C types_data ami q cr t = (case map_of types_data (type_key t) of
     None \<Rightarrow> Inl KeyError
   | Some d \<Rightarrow> (let described = [(''instance_type'', opt_txt t), (''instance_type_data'', Value d)] in Inr (
       registers_when (enable_memory_based_scheduling (scheduling_settings (scheduling C)))
         [(''InstanceTypeMemoryInfoValidator'', described)]
       @ type_image_registers t ami (im_os (config_image C))
       @ [(''InstanceTypeAcceleratorManufacturerValidator'', described),
          (''InstanceTypePlacementGroupValidator'', described
             @ [(''placement_group_enabled'', flag (is_placement_group_enabled_for_compute_resource q cr))])])))"

definition flexible_instance_types_validators :: "string list" where
  "flexible_instance_types_validators = [''InstancesCPUValidator'', ''InstancesAcceleratorsValidator'', ''InstancesEFAValidator'',
     ''InstancesNetworkingValidator'', ''InstancesAllocationStrategyValidator'', ''InstancesMemorySchedulingWarningValidator'']"

text \<open>A queue without the attribute \<open>allocation_strategy\<close> would raise here.\<close>

definition flexible_registers :: "aws \<Rightarrow> cluster_config \<Rightarrow> slurm_queue \<Rightarrow> slurm_compute_resource \<Rightarrow> registration list result" where
  "flexible_registers A C q cr =
     (if \<not> is_flexible cr then Inr []
      else rbind (multi_az_enabled A q) (\<lambda>multi_az.
        (case q_allocation_strategy q of
           None \<Rightarrow> Inl AttributeError
         | Some strategy \<Rightarrow> rmap (\<lambda>infos. map (\<lambda>v. (v,
             [(''queue_name'', tx (q_name q)), (''multiaz_queue'', flag multi_az), (''capacity_type'', Of_capacity (q_capacity_type q)),
              (''allocation_strategy'', Of_strategy strategy), (''compute_resource_name'', tx (sc_name cr)),
              (''instance_types_info'', Infos infos),
              (''disable_simultaneous_multithreading'', flag (sc_disable_simultaneous_multithreading cr)),
              (''efa_enabled'', opt_flag (efa_enabled (sc_efa cr))),
              (''placement_group_enabled'', flag (is_placement_group_enabled_for_compute_resource q cr)),
              (''memory_scheduling_enabled'', flag (enable_memory_based_scheduling (scheduling_settings (scheduling C))))]))
             flexible_instance_types_validators) (instance_type_info_map A cr))))"

definition cluster_compute_resource_registers ::
    "aws \<Rightarrow> cluster_config \<Rightarrow> (pyval \<times> pyval) list \<Rightarrow> string \<Rightarrow> slurm_queue \<Rightarrow> slurm_compute_resource \<Rightarrow> registration list result" where
  "cluster_compute_resource_registers A C types_data ami q cr =
     rbind (instance_type_info_map A cr) (\<lambda>infos.
     rbind (head_node_architecture A (config_head_node C)) (\<lambda>architecture.
     rbind (reservation_registers A C q cr) (\<lambda>reservations.
     rbind (instance_types A cr) (\<lambda>ts.
     rbind (rmap_list (instance_registers C types_data ami q cr) ts) (\<lambda>instances.
     rmap (\<lambda>flexible.
       [(''InstanceArchitectureCompatibilityValidator'', [(''instance_type_info_list'', Value (VList (map snd infos))),
           (''architecture'', tx architecture)]),
        (''EfaOsArchitectureValidator'', [(''efa_enabled'', opt_flag (efa_enabled (sc_efa cr))),
           (''os'', tx (im_os (config_image C))), (''architecture'', tx architecture)]),
        (''PlacementGroupCapacityTypeValidator'', [(''capacity_type'', Of_capacity (q_capacity_type q)),
           (''placement_group_enabled'', flag (is_placement_group_enabled_for_compute_resource q cr))])]
       @ reservations @ concat instances @ flexible
       @ [(''ComputeResourceTagsValidator'', [(''queue_name'', tx (q_name q)), (''compute_resource_name'', tx (sc_name cr)),
           (''cluster_tags'', Of_tags (config_tags C)), (''queue_tags'', Of_tags (q_tags q)),
           (''compute_resource_tags'', Of_tags (sc_tags cr))])])
       (flexible_registers A C q cr))))))"

text \<open>A queue: its image, root volume and compute resources; \<open>checked\<close> are the images checked so far.\<close>

definition cluster_queue_registers ::
    "aws \<Rightarrow> cluster_config \<Rightarrow> (pyval \<times> pyval) list \<Rightarrow> (string \<times> string) list \<Rightarrow> bool \<Rightarrow> string list \<Rightarrow> slurm_queue \<Rightarrow>
     (registration list \<times> string list) result" where
  "cluster_queue_registers A C types_data images first checked q = (case map_of images (q_name q) of
     None \<Rightarrow> Inl KeyError
   | Some ami \<Rightarrow> rbind (image_device_and_size A ami) (\<lambda>(device, ami_volume_size).
       (let unchecked = ami \<notin> set checked \<and> given_text (queue_ami q) in
        rmap (\<lambda>l.
          (registers_when first
             [(''ComputeResourceLaunchTemplateValidator'', [(''queue'', Of_queue q), (''ami_id'', tx ami),
                (''root_volume_device_name'', tx device), (''tags'', Of_tags (config_tags C)), (''imds_support'', tx (imds_support C))])]
           @ root_volume_registers (root_volume_of (q_local_storage q)) ami_volume_size
           @ registers_when unchecked [(''AmiOsCompatibleValidator'', [(''os'', tx (im_os (config_image C))), (''image_id'', tx ami)])]
           @ concat l,
           if unchecked then checked @ [ami] else checked))
          (rmap_list (cluster_compute_resource_registers A C types_data ami q) (q_compute_resources q)))))"

fun cluster_queues_registers ::
    "aws \<Rightarrow> cluster_config \<Rightarrow> (pyval \<times> pyval) list \<Rightarrow> (string \<times> string) list \<Rightarrow> bool \<Rightarrow> string list \<Rightarrow> slurm_queue list \<Rightarrow>
     registration list result" where
  "cluster_queues_registers A C types_data images first checked [] = Inr []"
| "cluster_queues_registers A C types_data images first checked (q # qs) =
     rbind (cluster_queue_registers A C types_data images first checked q) (\<lambda>(rs, checked').
     rmap (append rs) (cluster_queues_registers A C types_data images False checked' qs))"

definition queue_resources :: "cluster_config \<Rightarrow> (slurm_queue \<times> slurm_compute_resource) list" where
  "queue_resources C = concat (map (\<lambda>q. map (Pair q) (q_compute_resources q)) (queues (scheduling C)))"

definition total_max_compute_nodes :: "cluster_config \<Rightarrow> int" where
  "total_max_compute_nodes C = sum_list (map (\<lambda>(q, cr). sc_max_count cr) (queue_resources C))"

text \<open>How many instances the compute resources ask of each capacity reservation.\<close>

definition count_reservation :: "slurm_queue \<times> slurm_compute_resource \<Rightarrow> (string \<times> int) list \<Rightarrow> (string \<times> int) list" where
  "count_reservation qc m = (case Option.bind (target_of (fst qc) (snd qc)) capacity_reservation_id of
     None \<Rightarrow> m
   | Some r \<Rightarrow> if r = [] then m else AList.update r (or_default (map_of m r) 0 + sc_max_count (snd qc)) m)"

definition capacity_reservation_id_max_count_map :: "cluster_config \<Rightarrow> (string \<times> int) list" where
  "capacity_reservation_id_max_count_map C = fold count_reservation (queue_resources C) []"

definition reservation_size_registers :: "cluster_config \<Rightarrow> registration list" where
  "reservation_size_registers C = map (\<lambda>(r, n). (''CapacityReservationSizeValidator'',
     [(''capacity_reservation_id'', tx r), (''num_of_instances'', num n)])) (capacity_reservation_id_max_count_map C)"

definition ultraserver_registers :: "aws \<Rightarrow> cluster_config \<Rightarrow> registration list result" where
  "ultraserver_registers A C = rmap (\<lambda>blocks.
     concat (map (\<lambda>p. case map_of blocks p of
         Some (r # rs) \<Rightarrow> [(''CapacityBlockHealthStatusValidator'', [(''capacity_reservation_ids'', texts (r # rs))])]
       | _ \<Rightarrow> []) ULTRASERVER_INSTANCE_PREFIX_LIST)
     @ registers_when (list_ex (\<lambda>p. or_default (map_of blocks p) [] \<noteq> []) ULTRASERVER_INSTANCE_PREFIX_LIST)
       [(''UltraserverCapacityBlockSizeValidator'', [(''cluster_ultraserver_capacity_block_dict'', Blocks blocks)])])
     (ultraserver_capacity_block_dict A C)"

definition hosted_zone_registers :: "aws \<Rightarrow> cluster_config \<Rightarrow> registration list result" where
  "hosted_zone_registers A C = (let zone = hosted_zone_id (ss_dns (scheduling_settings (scheduling C))) in
     if given_text zone
     then rmap (\<lambda>vpc. [(''HostedZoneValidator'', [(''hosted_zone_id'', opt_txt zone), (''cluster_vpc'', tx vpc),
         (''cluster_name'', tx (cluster_name C))])]) (vpc_id A C)
     else Inr [])"

definition performance_registers :: "cluster_config \<Rightarrow> registration list" where
  "performance_registers C = map (\<lambda>_. (''SharedEbsPerformanceBottleNeckValidator'',
     [(''total_max_compute_nodes'', num (total_max_compute_nodes C))])) (ebs_volumes (shared_storages C))"

definition cluster_registers :: "(string \<Rightarrow> string) \<Rightarrow> aws \<Rightarrow> cluster_config \<Rightarrow> registration list result" where
  "cluster_registers digest A C =
     rbind (base_cluster_registers digest A C) (\<lambda>base.
     rbind (login_node_registers A C) (\<lambda>login.
     rbind (hosted_zone_registers A C) (\<lambda>zone.
     rbind (get_instance_types_data A C) (\<lambda>types_data.
     rbind (image_dict A C) (\<lambda>images.
     rbind (cluster_queues_registers A C types_data images True [] (queues (scheduling C))) (\<lambda>queue_checks.
     rmap (\<lambda>ultraservers.
       base
       @ [(''MixedSecurityGroupOverwriteValidator'',
             [(''head_node_security_groups'', opt_texts (security_groups (hn_networking (config_head_node C)))),
              (''queues'', Of_queues (queues (scheduling C)))])]
       @ login @ zone
       @ [(''MultiNetworkInterfacesInstancesValidator'', [(''queues'', Of_queues (queues (scheduling C))),
             (''efa_interface_type'', opt_txt (Option.bind (config_dev_settings C) efa_interface_type))])]
       @ queue_checks
       @ [(''HeadNodeMemorySizeValidator'', [(''head_node_instance_type'', tx (hn_instance_type (config_head_node C))),
             (''total_max_compute_nodes'', num (total_max_compute_nodes C))])]
       @ performance_registers C @ reservation_size_registers C @ ultraservers)
       (ultraserver_registers A C)))))))"

text \<open>\<open>FeatureRegionValidator\<close>: a key that is not a member of \<open>Feature\<close> is in no entry of the map of unsupported features.\<close>

fun feature_value :: "feature \<Rightarrow> string" where
  "feature_value BATCH = ''AWS Batch scheduler''"
| "feature_value DCV = ''Amazon DCV''"
| "feature_value feature.FSX_LUSTRE = ''FSx Lustre''"
| "feature_value feature.FILE_CACHE = ''FileCache''"
| "feature_value feature.FSX_ONTAP = ''FSx ONTAP''"
| "feature_value feature.FSX_OPENZFS = ''FSx OpenZfs''"
| "feature_value SLURM_DATABASE = ''SLURM Database''"
| "feature_value CLUSTER_HEALTH_METRICS = ''Cluster Health Metrics''"
| "feature_value feature.CAPACITY_BLOCK = ''Capacity Block''"
| "feature_value NLB_SECURITY_GROUP = ''Network Load Balancer Security Group''"

fun feature_key_value :: "feature_key \<Rightarrow> string" where
  "feature_key_value (Feature_member f) = feature_value f"
| "feature_key_value (Capacity_member c) = capacity_type_value c"

fun feature_key_supported :: "string \<Rightarrow> feature_key \<Rightarrow> string option \<Rightarrow> bool" where
  "feature_key_supported env (Feature_member f) region = is_feature_supported env f region"
| "feature_key_supported env (Capacity_member c) region = True"

definition FeatureRegionValidator :: "string \<Rightarrow> feature_key \<Rightarrow> string option \<Rightarrow> failures" where
  "FeatureRegionValidator env f region = fail_if (\<not> feature_key_supported env f region) ERROR
     (feature_key_value f @ '' is not supported in region '' @ quoted (case region of None \<Rightarrow> ''None'' | Some r \<Rightarrow> r) @ ''.'')"

section \<open>The tree of the resources\<close>

text \<open>
  A resource with its registrations and the resources in its attributes, in the order of the attributes.  A leaf
  without validators of its own is left out.
\<close>

datatype tree = Node "registration list result" "tree list"

definition leaf :: "registration list \<Rightarrow> tree" where "leaf rs = Node (Inr rs) []"

definition branch :: "tree list \<Rightarrow> tree" where "branch ts = Node (Inr []) ts"

definition optional :: "'a option \<Rightarrow> ('a \<Rightarrow> tree) \<Rightarrow> tree list" where
  "optional v f = map f (option_list v)"

definition iam_tree :: "iam \<Rightarrow> tree" where
  "iam_tree i = Node (Inr (iam_registers i)) (map (\<lambda>p. leaf (additional_iam_policy_registers p)) (additional_iam_policies i))"

definition local_storage_tree :: "local_storage \<Rightarrow> tree" where
  "local_storage_tree l = branch [leaf (ebs_registers (root_volume_of l))]"

definition custom_actions_tree :: "custom_actions \<Rightarrow> tree" where
  "custom_actions_tree a = branch (map (\<lambda>x. leaf (custom_action_registers x))
     (or_default (on_node_start a) [] @ or_default (on_node_configured a) [] @ or_default (on_node_updated a) []))"

definition shared_storage_tree :: "string option \<Rightarrow> shared_storage \<Rightarrow> tree" where
  "shared_storage_tree i s = Node (Inr (shared_storage_registers i s)) (case s of
     SharedFsxLustre l \<Rightarrow> map (\<lambda>d. leaf (data_repository_association_registers d)) (or_default (lu_data_repository_associations l) [])
   | _ \<Rightarrow> [])"

definition head_node_tree :: "head_node \<Rightarrow> tree" where
  "head_node_tree h = Node (Inr (head_node_registers h))
     ([leaf (head_node_networking_registers (hn_networking h)), local_storage_tree (hn_local_storage h)]
      @ optional (hn_custom_actions h) custom_actions_tree @ [iam_tree (hn_iam h)]
      @ optional (hn_custom_ami h) (\<lambda>ami. leaf (custom_ami_registers (Some ami))))"

definition pool_tree :: "login_nodes_pool \<Rightarrow> tree" where
  "pool_tree p = Node (Inr (login_nodes_pool_registers p))
     (optional (pool_custom_ami p) (\<lambda>ami. leaf (custom_ami_registers (Some ami)))
      @ optional (pool_networking p) (\<lambda>(n, _). leaf (networking_registers n))
      @ optional (pool_custom_actions p) custom_actions_tree @ [iam_tree (pool_iam p)]
      @ optional (pool_local_storage p) local_storage_tree)"

definition compute_resource_tree :: "aws \<Rightarrow> slurm_compute_resource \<Rightarrow> tree" where
  "compute_resource_tree A cr = Node (compute_resource_registers A cr)
     [branch [leaf (placement_group_registers (sc_placement_group cr))]]"

definition queue_tree :: "aws \<Rightarrow> slurm_queue \<Rightarrow> tree" where
  "queue_tree A q = Node (queue_registers A q)
     ([branch [local_storage_tree (q_local_storage q)]] @ optional (q_custom_actions q) custom_actions_tree
      @ [iam_tree (q_iam q)] @ optional (q_custom_ami q) (\<lambda>ami. leaf (custom_ami_registers (Some ami)))
      @ map (compute_resource_tree A) (q_compute_resources q)
      @ [Node (Inr (networking_registers (q_networking q))) [leaf (placement_group_registers (q_placement_group (q_networking q)))]])"

definition scheduling_tree :: "aws \<Rightarrow> slurm_scheduling \<Rightarrow> tree" where
  "scheduling_tree A s = Node (Inr (scheduling_registers s))
     (map (queue_tree A) (queues s)
      @ [Node (Inr (slurm_settings_registers (region_name A) (scheduling_settings s)))
          (optional (ss_database (scheduling_settings s)) (\<lambda>d. leaf (database_registers (region_name A) d)))])"

definition cluster_tree :: "(string \<Rightarrow> string) \<Rightarrow> string option \<Rightarrow> aws \<Rightarrow> cluster_config \<Rightarrow> tree" where
  "cluster_tree digest head_node_instance_id A C = Node (cluster_registers digest A C)
     ([leaf (image_registers (config_image C)), head_node_tree (config_head_node C), scheduling_tree A (scheduling C)]
      @ map (shared_storage_tree head_node_instance_id) (shared_storages C)
      @ [Node (Inr (monitoring_registers (config_monitoring C))) [leaf (logs_registers (mon_logs (config_monitoring C)))]]
      @ optional (config_iam C) (\<lambda>i. Node (Inr (cluster_iam_registers i)) (optional (lambda_functions_role i) (\<lambda>r. leaf (roles_registers r))))
      @ optional (config_directory_service C) (\<lambda>d. leaf (directory_service_registers (region_name A) d))
      @ optional (config_dev_settings C) (\<lambda>d. Node (Inr (dev_settings_registers d)) (optional (ds_cookbook d) (\<lambda>c. leaf (cookbook_registers c))))
      @ optional (config_deployment_settings C) (\<lambda>d. leaf (deployment_settings_registers d))
      @ optional (login_nodes C) (\<lambda>pools. Node (Inr (login_nodes_registers pools)) (map pool_tree pools)))"

text \<open>
  The tree that the framework validates: \<open>body\<close> is what a validator finds for its arguments, asynchronous for the
  checks of addresses.
\<close>

definition validator_of :: "(registration \<Rightarrow> failures result) \<Rightarrow> registration \<Rightarrow> validator" where
  "validator_of body r = \<lparr>val_type = fst r, val_async = (fst r \<in> {''UrlValidator'', ''AsyncTimedUrlValidator''}), val_body = body r\<rparr>"

fun resource_of :: "(registration \<Rightarrow> failures result) \<Rightarrow> tree \<Rightarrow> resource" where
  "resource_of body (Node registered nested) = Resource (rmap (map (validator_of body)) registered) (map (resource_of body) nested)"

fun registrations_of :: "tree \<Rightarrow> registration list option" where \<comment> \<open>all of them, the nested resources' first\<close>
  "registrations_of (Node registered nested) = (case those (map registrations_of nested) of
     None \<Rightarrow> None
   | Some rss \<Rightarrow> (case registered of Inl e \<Rightarrow> None | Inr rs \<Rightarrow> Some (concat rss @ rs)))"

definition validate_cluster ::
    "suppressor list \<Rightarrow> (registration \<Rightarrow> failures result) \<Rightarrow> (string \<Rightarrow> string) \<Rightarrow> string option \<Rightarrow> aws \<Rightarrow> cluster_config \<Rightarrow>
     validation_result list result" where
  "validate_cluster sups body digest head_node_instance_id A C =
     validate sups (resource_of body (cluster_tree digest head_node_instance_id A C))"

end
