(* ===== verification/ConfigFacts.thy ===== *)
theory ConfigFacts
  imports ConfigValidators
begin

text \<open>
  What holds of the configuration of a cluster: which checks a validation runs on its resources, and what the values
  derived from them are.
\<close>

section \<open>What a validation runs\<close>

lemma those_Some_iff: "those xs = Some ys \<longleftrightarrow> xs = map Some ys"
  by (induction xs arbitrary: ys) (auto split: option.splits)

lemma resource_validators:
  "validators_of (resource_of body t) = map_option (map (validator_of body)) (registrations_of t)"
proof (induction t)
  case (Node registered nested)
  have those_map: "those (map (map_option f) xs) = map_option (map f) (those xs)" for f :: "registration list \<Rightarrow> validator list" and xs
    by (induction xs) (auto simp: option.map_comp comp_def split: option.splits)
  have "map validators_of (map (resource_of body) nested) = map (map_option (map (validator_of body))) (map registrations_of nested)"
    using Node by simp
  then have "those (map validators_of (map (resource_of body) nested)) =
      map_option (map (map (validator_of body))) (those (map registrations_of nested))"
    by (simp only: those_map)
  then show ?case
    unfolding resource_of.simps validators_of.simps registrations_of.simps
    by (cases "those (map registrations_of nested)"; cases registered) (simp_all add: map_concat)
qed

text \<open>A validation that returns has registered the validators of every resource.\<close>

lemma validated_registered:
  "validate_nested sups r = Inr p \<Longrightarrow> \<exists>vs. validators_of r = Some vs"
  and validated_children_registered:
  "validate_children sups rs st = (st', None) \<Longrightarrow> \<exists>vss. those (map validators_of rs) = Some vss"
proof (induction sups r and sups rs st arbitrary: p and st' rule: validate_nested_validate_children.induct)
  case (1 sups registered nested)
  then obtain st where children: "validate_children sups nested ([], []) = (st, None)" and "\<exists>vs. registered = Inr vs"
    by (auto simp: rmap_Inr_iff split: option.splits prod.splits)
  with 1(1)[OF children] show ?case by auto
next
  case (3 sups r rs st)
  then obtain fs where r: "validate_nested sups r = Inr fs"
    and rest: "validate_children sups rs (fst st @ fst fs, snd st @ snd fs) = (st', None)"
    by (cases "validate_nested sups r") (auto split: prod.splits)
  from 3(1)[OF r] 3(2)[OF r, of "fst fs" "snd fs"] rest show ?case by auto
qed simp

lemma validate_registered: "validate sups r = Inr results \<Longrightarrow> \<exists>vs. validators_of r = Some vs"
proof (cases r)
  case (Resource registered nested)
  assume "validate sups r = Inr results"
  with Resource obtain st vs where children: "validate_children sups nested ([], []) = (st, None)" and "registered = Inr vs"
    by (auto simp: validate_def rbind_Inr_iff split: prod.splits option.splits sum.splits)
  with validated_children_registered[OF children] Resource show ?thesis by auto
qed

lemma reported:
  assumes "validate sups (resource_of body t) = Inr results"
  shows "\<exists>rs. registrations_of t = Some rs \<and> (\<forall>r \<in> set rs. \<not> suppressed sups (validator_of body r) \<longrightarrow>
    set (validator_execute_sync (validator_of body r)) \<subseteq> set results)"
proof -
  from validate_registered[OF assms] obtain rs where rs: "registrations_of t = Some rs"
    by (auto simp: resource_validators)
  then have vs: "validators_of (resource_of body t) = Some (map (validator_of body) rs)" by (simp add: resource_validators)
  from assms validate_results[OF vs, of sups] obtain awaited
    where aw: "await_async_validators (async_pending sups (map (validator_of body) rs)) = Inr awaited"
      and res: "results = sync_results sups (map (validator_of body) rs) @ awaited"
    by (auto simp: rmap_Inr_iff)
  have "set (validator_execute_sync (validator_of body r)) \<subseteq> set results"
    if "r \<in> set rs" "\<not> suppressed sups (validator_of body r)" for r
    using that aw unfolding res await_Inr_iff
    by (auto simp: sync_results_def async_pending_def active_def)
  with rs show ?thesis by blast
qed

lemma own_registered:
  "registrations_of (Node registered nested) = Some rs \<Longrightarrow> \<exists>own. registered = Inr own \<and> set own \<subseteq> set rs"
  by (auto split: option.splits sum.splits)

lemma nested_registered:
  "registrations_of (Node registered nested) = Some rs \<Longrightarrow> t \<in> set nested \<Longrightarrow>
     \<exists>rs'. registrations_of t = Some rs' \<and> set rs' \<subseteq> set rs"
proof -
  assume "registrations_of (Node registered nested) = Some rs" and t: "t \<in> set nested"
  then obtain rss where "map registrations_of nested = map Some rss" and rs: "\<Union> (set ` set rss) \<subseteq> set rs"
    by (auto simp: those_Some_iff split: option.splits sum.splits)
  then have "registrations_of ` set nested = Some ` set rss" by (metis set_map)
  with t obtain rs' where "registrations_of t = Some rs'" "rs' \<in> set rss" by blast
  with rs show ?thesis by blast
qed

text \<open>Names of queues, compute resources and storages, the sizes of compute resources, mount directories.\<close>

definition queue_checks :: "slurm_queue \<Rightarrow> registration set" where
  "queue_checks q = {(''NameValidator'', [(''name'', tx (q_name q))])}
     \<union> (\<lambda>cr. (''NameValidator'', [(''name'', tx (sc_name cr))])) ` set (q_compute_resources q)
     \<union> (\<lambda>cr. (''ComputeResourceSizeValidator'', [(''min_count'', num (sc_min_count cr)), (''max_count'', num (sc_max_count cr)),
           (''capacity_type'', Of_capacity (q_capacity_type q))])) ` set (q_compute_resources q)"

definition storage_checks :: "shared_storage \<Rightarrow> registration set" where
  "storage_checks s = {(''SharedStorageNameValidator'', [(''name'', tx (storage_name s))]),
     (''SharedStorageMountDirValidator'', [(''mount_dir'', tx (storage_mount_dir s))])}"

lemma per_item_registered: "rmap_list f xs = Inr ys \<Longrightarrow> x \<in> set xs \<Longrightarrow> \<exists>y. f x = Inr y \<and> y \<in> set ys"
  by (induction xs arbitrary: ys) (auto simp: rbind_Inr_iff rmap_Inr_iff)

lemma queue_own_checks:
  assumes "queue_registers A q = Inr rs"
  shows "(''NameValidator'', [(''name'', tx (q_name q))]) \<in> set rs"
    and "cr \<in> set (q_compute_resources q) \<Longrightarrow> (''ComputeResourceSizeValidator'', [(''min_count'', num (sc_min_count cr)),
       (''max_count'', num (sc_max_count cr)), (''capacity_type'', Of_capacity (q_capacity_type q))]) \<in> set rs"
proof -
  show "(''NameValidator'', [(''name'', tx (q_name q))]) \<in> set rs"
    using assms by (clarsimp simp: queue_registers_def rbind_Inr_iff rmap_Inr_iff)
  have "\<exists>per_resource. rmap_list (queue_compute_resource_registers A q) (q_compute_resources q) = Inr per_resource
      \<and> set (concat per_resource) \<subseteq> set rs"
    using assms by (clarsimp simp: queue_registers_def rbind_Inr_iff rmap_Inr_iff)
  then obtain per_resource where per: "rmap_list (queue_compute_resource_registers A q) (q_compute_resources q) = Inr per_resource"
    and rs: "set (concat per_resource) \<subseteq> set rs" by blast
  assume "cr \<in> set (q_compute_resources q)"
  from per_item_registered[OF per this] obtain own where own: "queue_compute_resource_registers A q cr = Inr own" "own \<in> set per_resource"
    by blast
  have "(''ComputeResourceSizeValidator'', [(''min_count'', num (sc_min_count cr)), (''max_count'', num (sc_max_count cr)),
       (''capacity_type'', Of_capacity (q_capacity_type q))]) \<in> set own"
    using own(1) by (clarsimp simp: queue_compute_resource_registers_def rbind_Inr_iff rmap_Inr_iff)
  with own(2) rs show "(''ComputeResourceSizeValidator'', [(''min_count'', num (sc_min_count cr)),
       (''max_count'', num (sc_max_count cr)), (''capacity_type'', Of_capacity (q_capacity_type q))]) \<in> set rs"
    by auto
qed

lemma queue_registered:
  assumes "registrations_of (queue_tree A q) = Some rs"
  shows "queue_checks q \<subseteq> set rs"
proof -
  from own_registered[OF assms[unfolded queue_tree_def]] obtain own where own: "queue_registers A q = Inr own" "set own \<subseteq> set rs"
    by blast
  have resource: "(''NameValidator'', [(''name'', tx (sc_name cr))]) \<in> set rs" if cr: "cr \<in> set (q_compute_resources q)" for cr
  proof -
    have "compute_resource_tree A cr \<in> set (map (compute_resource_tree A) (q_compute_resources q))" using cr by simp
    then obtain rs' where sub: "registrations_of (compute_resource_tree A cr) = Some rs'" "set rs' \<subseteq> set rs"
      using nested_registered[OF assms[unfolded queue_tree_def], of "compute_resource_tree A cr"] by auto
    from own_registered[OF sub(1)[unfolded compute_resource_tree_def]] obtain own' where
      "compute_resource_registers A cr = Inr own'" "set own' \<subseteq> set rs'" by blast
    with sub(2) show ?thesis by (auto simp: compute_resource_registers_def rmap_Inr_iff split: prod.splits)
  qed
  with own queue_own_checks[OF own(1)] show ?thesis by (auto simp: queue_checks_def)
qed

lemma storage_steps_register:
  assumes "rfold (storage_step A C) ss st = Inr st'"
  shows "set (fst st) \<subseteq> set (fst st')" and "\<forall>s \<in> set ss. storage_checks s \<subseteq> set (fst st')"
proof -
  have "set (fst st) \<subseteq> set (fst st') \<and> (\<forall>s \<in> set ss. storage_checks s \<subseteq> set (fst st'))"
    using assms
  proof (induction ss arbitrary: st)
    case (Cons s ss)
    then obtain st1 where step: "storage_step A C s st = Inr st1" and rest: "rfold (storage_step A C) ss st1 = Inr st'"
      by (auto simp: rbind_Inr_iff)
    from step have "set (fst st) \<subseteq> set (fst st1)" "storage_checks s \<subseteq> set (fst st1)"
      by (auto simp: storage_step_def storage_checks_def rmap_Inr_iff)
    with Cons.IH[OF rest] show ?case by auto
  qed simp
  then show "set (fst st) \<subseteq> set (fst st')" and "\<forall>s \<in> set ss. storage_checks s \<subseteq> set (fst st')" by auto
qed

lemma storages_registered:
  assumes "storage_registers digest A C = Inr rs" and "s \<in> set (shared_storages C)"
  shows "storage_checks s \<subseteq> set rs"
proof -
  have "shared_storages C \<noteq> []" using assms(2) by auto
  then have "\<exists>st. rfold (storage_step A C) (shared_storages C) ([], no_storages) = Inr st \<and> set (fst st) \<subseteq> set rs"
    using assms(1) by (clarsimp simp: storage_registers_def rbind_Inr_iff rmap_Inr_iff split: prod.splits)
  then obtain rs' T where fold: "rfold (storage_step A C) (shared_storages C) ([], no_storages) = Inr (rs', T)"
    and sub: "set rs' \<subseteq> set rs" by auto
  from storage_steps_register(2)[OF fold] assms(2) sub show ?thesis by fastforce
qed

lemma cluster_storages_registered:
  assumes "cluster_registers digest A C = Inr rs" and "s \<in> set (shared_storages C)"
  shows "storage_checks s \<subseteq> set rs"
proof -
  have "\<exists>base. base_cluster_registers digest A C = Inr base \<and> set base \<subseteq> set rs"
    using assms(1) by (clarsimp simp: cluster_registers_def rbind_Inr_iff rmap_Inr_iff)
  then obtain base where base: "base_cluster_registers digest A C = Inr base" and sub: "set base \<subseteq> set rs" by blast
  have "\<exists>storages. storage_registers digest A C = Inr storages \<and> set storages \<subseteq> set base"
    using base by (clarsimp simp: base_cluster_registers_def Let_def rbind_Inr_iff rmap_Inr_iff split: prod.splits)
  then obtain storages where "storage_registers digest A C = Inr storages" "set storages \<subseteq> set base" by blast
  with storages_registered[OF _ assms(2)] sub show ?thesis by blast
qed

definition cluster_checks :: "cluster_config \<Rightarrow> registration set" where
  "cluster_checks C = (\<Union>q \<in> set (queues (scheduling C)). queue_checks q) \<union> (\<Union>s \<in> set (shared_storages C). storage_checks s)"

lemma cluster_registered:
  assumes "registrations_of (cluster_tree digest i A C) = Some rs"
  shows "cluster_checks C \<subseteq> set rs"
proof -
  from own_registered[OF assms[unfolded cluster_tree_def]] obtain own where "cluster_registers digest A C = Inr own" "set own \<subseteq> set rs"
    by blast
  then have storages: "storage_checks s \<subseteq> set rs" if "s \<in> set (shared_storages C)" for s
    using cluster_storages_registered that by blast
  obtain sched where sched: "registrations_of (scheduling_tree A (scheduling C)) = Some sched" "set sched \<subseteq> set rs"
    using nested_registered[OF assms[unfolded cluster_tree_def], of "scheduling_tree A (scheduling C)"] by auto
  have "queue_checks q \<subseteq> set rs" if q: "q \<in> set (queues (scheduling C))" for q
  proof -
    have "queue_tree A q \<in> set (map (queue_tree A) (queues (scheduling C)))" using q by simp
    then obtain rs' where "registrations_of (queue_tree A q) = Some rs'" "set rs' \<subseteq> set sched"
      using nested_registered[OF sched(1)[unfolded scheduling_tree_def], of "queue_tree A q"] by auto
    with queue_registered sched(2) show ?thesis by blast
  qed
  with storages show ?thesis by (auto simp: cluster_checks_def)
qed

text \<open>
  C13: a validation of a cluster that returns has run the checks of the names and the mount directory of every shared
  storage, of the name of every queue and every compute resource and of the sizes of the latter, unless they are
  suppressed: all that they find is reported.
\<close>

theorem every_resource_is_checked:
  assumes "validate_cluster sups body digest i A C = Inr results" and "r \<in> cluster_checks C"
    and "\<not> suppressed sups (validator_of body r)"
  shows "set (validator_execute_sync (validator_of body r)) \<subseteq> set results"
proof -
  from reported[OF assms(1)[unfolded validate_cluster_def]] obtain rs
    where rs: "registrations_of (cluster_tree digest i A C) = Some rs"
      and all: "\<forall>r \<in> set rs. \<not> suppressed sups (validator_of body r) \<longrightarrow>
        set (validator_execute_sync (validator_of body r)) \<subseteq> set results" by blast
  from cluster_registered[OF rs] assms(2,3) all show ?thesis by blast
qed

lemma queues_registered:
  assumes "cluster_queues_registers A C types_data images first checked qs = Inr rs" and "q \<in> set qs"
  shows "\<exists>first' checked' own. cluster_queue_registers A C types_data images first' checked' q = Inr own \<and> set (fst own) \<subseteq> set rs"
  using assms
proof (induction qs arbitrary: first checked rs)
  case (Cons p qs)
  then obtain own where own: "cluster_queue_registers A C types_data images first checked p = Inr own" and
    "\<exists>rest. cluster_queues_registers A C types_data images False (snd own) qs = Inr rest \<and> rs = fst own @ rest"
    by (auto simp: rbind_Inr_iff rmap_Inr_iff)
  then obtain rest where rest: "cluster_queues_registers A C types_data images False (snd own) qs = Inr rest" "rs = fst own @ rest"
    by blast
  show ?case
  proof (cases "q = p")
    case True
    have "set (fst own) \<subseteq> set rs" using rest(2) by simp
    with own True show ?thesis by blast
  next
    case False
    with Cons.prems(2) Cons.IH[OF rest(1)] obtain f' c' own' where
      "cluster_queue_registers A C types_data images f' c' q = Inr own'" "set (fst own') \<subseteq> set rest" by auto
    moreover from this(2) rest(2) have "set (fst own') \<subseteq> set rs" by auto
    ultimately show ?thesis by blast
  qed
qed simp

lemma instances_registered:
  assumes "cluster_queue_registers A C types_data images first checked q = Inr own" and "cr \<in> set (q_compute_resources q)"
    and "instance_types A cr = Inr ts" and "t \<in> set ts"
  shows "\<exists>ami. map_of images (q_name q) = Some ami \<and> set (type_image_registers t ami (im_os (config_image C))) \<subseteq> set (fst own)"
proof -
  from assms(1) obtain ami where ami: "map_of images (q_name q) = Some ami"
    by (auto simp: cluster_queue_registers_def split: option.splits)
  have "\<exists>l. rmap_list (cluster_compute_resource_registers A C types_data ami q) (q_compute_resources q) = Inr l
      \<and> set (concat l) \<subseteq> set (fst own)"
    using assms(1) ami by (clarsimp simp: cluster_queue_registers_def rbind_Inr_iff rmap_Inr_iff Let_def split: prod.splits)
  then obtain l where l: "rmap_list (cluster_compute_resource_registers A C types_data ami q) (q_compute_resources q) = Inr l"
    "set (concat l) \<subseteq> set (fst own)" by blast
  from per_item_registered[OF l(1) assms(2)] obtain rs where rs: "cluster_compute_resource_registers A C types_data ami q cr = Inr rs"
    "rs \<in> set l" by blast
  have "\<exists>per. rmap_list (instance_registers C types_data ami q cr) ts = Inr per \<and> set (concat per) \<subseteq> set rs"
    using rs(1) assms(3) by (clarsimp simp: cluster_compute_resource_registers_def rbind_Inr_iff rmap_Inr_iff; blast)
  then obtain per where per: "rmap_list (instance_registers C types_data ami q cr) ts = Inr per" "set (concat per) \<subseteq> set rs"
    by blast
  from per_item_registered[OF per(1) assms(4)] obtain one where one: "instance_registers C types_data ami q cr t = Inr one" "one \<in> set per"
    by blast
  have "set (type_image_registers t ami (im_os (config_image C))) \<subseteq> set one"
    using one(1) by (auto simp: instance_registers_def Let_def split: option.splits)
  also have "set one \<subseteq> set (concat per)" using one(2) by auto
  also note per(2)
  also have "set rs \<subseteq> set (concat l)" using rs(2) by auto
  also note l(2)
  finally show ?thesis using ami by blast
qed

lemma cluster_queues_part:
  assumes "cluster_registers digest A C = Inr rs"
  shows "\<exists>types_data images part. image_dict A C = Inr images \<and>
    cluster_queues_registers A C types_data images True [] (queues (scheduling C)) = Inr part \<and> set part \<subseteq> set rs"
  using assms unfolding cluster_registers_def rbind_Inr_iff rmap_Inr_iff
  by (elim exE conjE) (rule exI conjI | assumption | (simp, blast))+


section \<open>Capacity reservations\<close>

text \<open>The compute resources that ask for a capacity reservation.\<close>

definition users_of :: "string \<Rightarrow> (slurm_queue \<times> slurm_compute_resource) list \<Rightarrow> (slurm_queue \<times> slurm_compute_resource) list" where
  "users_of r qcs = filter (\<lambda>(q, cr). Option.bind (target_of q cr) capacity_reservation_id = Some r) qcs"

definition instances_of :: "(slurm_queue \<times> slurm_compute_resource) list \<Rightarrow> int" where
  "instances_of qcs = sum_list (map (\<lambda>(q, cr). sc_max_count cr) qcs)"

lemma count_reservations:
  "map_of (fold count_reservation qcs m) r =
     (if r = [] \<or> users_of r qcs = [] then map_of m r else Some (or_default (map_of m r) 0 + instances_of (users_of r qcs)))"
proof (induction qcs arbitrary: m)
  case (Cons qc qcs)
  obtain q cr where qc: "qc = (q, cr)" by (cases qc)
  have one: "map_of (count_reservation (q, cr) m) r =
      (if r \<noteq> [] \<and> Option.bind (target_of q cr) capacity_reservation_id = Some r
       then Some (or_default (map_of m r) 0 + sc_max_count cr) else map_of m r)"
    by (auto simp: count_reservation_def update_conv' split: option.splits)
  have step: "users_of r (qc # qcs) =
      (if Option.bind (target_of q cr) capacity_reservation_id = Some r then [(q, cr)] else []) @ users_of r qcs"
    by (simp add: users_of_def qc)
  have "map_of (fold count_reservation (qc # qcs) m) r = map_of (fold count_reservation qcs (count_reservation (q, cr) m)) r"
    by (simp add: qc)
  also note Cons.IH[of "count_reservation (q, cr) m"]
  finally show ?case
    unfolding step one by (simp add: instances_of_def or_default_def)
qed (simp add: users_of_def)

lemma count_reservation_distinct: "distinct (map fst m) \<Longrightarrow> distinct (map fst (fold count_reservation qcs m))"
proof (induction qcs arbitrary: m)
  case (Cons qc qcs)
  then have "distinct (map fst (count_reservation qc m))"
    by (auto simp: count_reservation_def distinct_update split: option.splits)
  with Cons.IH show ?case by simp
qed simp

text \<open>
  C15: the size of a capacity reservation is checked exactly when a compute resource asks for it, itself or by its
  queue, against the sum of the largest counts of all the compute resources that do.
\<close>

theorem reservation_checked_for_all_users:
  "(''CapacityReservationSizeValidator'', [(''capacity_reservation_id'', tx r), (''num_of_instances'', num n)])
     \<in> set (reservation_size_registers C) \<longleftrightarrow>
   r \<noteq> [] \<and> users_of r (queue_resources C) \<noteq> [] \<and> n = instances_of (users_of r (queue_resources C))"
proof -
  let ?m = "capacity_reservation_id_max_count_map C"
  have distinct: "distinct (map fst ?m)"
    unfolding capacity_reservation_id_max_count_map_def by (rule count_reservation_distinct) simp
  have "(''CapacityReservationSizeValidator'', [(''capacity_reservation_id'', tx r), (''num_of_instances'', num n)])
      \<in> set (reservation_size_registers C) \<longleftrightarrow> (r, n) \<in> set ?m"
    by (force simp: reservation_size_registers_def argument_defs)
  also have "\<dots> \<longleftrightarrow> map_of ?m r = Some n" using distinct by simp
  also have "\<dots> \<longleftrightarrow> r \<noteq> [] \<and> users_of r (queue_resources C) \<noteq> [] \<and> n = instances_of (users_of r (queue_resources C))"
    by (auto simp: capacity_reservation_id_max_count_map_def count_reservations or_default_def)
  finally show ?thesis .
qed

section \<open>Instances, zones and storages\<close>

text \<open>Of instances with several types, the one with the least number of network cards decides.\<close>

lemma least_cards_found:
  assumes "least_cards n cards infos = Inr result"
  shows "(result = cards \<and> (\<forall>j \<in> set infos. \<exists>m. max_network_cards j = Inr m \<and> n \<le> m)
      \<and> rfold (\<lambda>i least. rmap (min least) (max_network_cards i)) infos n = Inr n)
    \<or> (\<exists>i \<in> set infos. \<exists>m. m < n \<and> max_network_cards i = Inr m \<and> network_cards_list i = Inr result
      \<and> (\<forall>j \<in> set infos. \<exists>k. max_network_cards j = Inr k \<and> m \<le> k)
      \<and> rfold (\<lambda>i least. rmap (min least) (max_network_cards i)) infos n = Inr m)"
  using assms
proof (induction infos arbitrary: n cards)
  case (Cons i infos)
  let ?least = "\<lambda>i least. rmap (min least) (max_network_cards i)"
  from Cons.prems obtain m where m: "max_network_cards i = Inr m" by (auto simp: rbind_Inr_iff)
  have fold: "rfold ?least (i # infos) n = rfold ?least infos (if m < n then m else n)"
    using m by (simp add: min_def not_less)
  show ?case
  proof (cases "m < n")
    case True
    with Cons.prems m obtain c where c: "network_cards_list i = Inr c" and rest: "least_cards m c infos = Inr result"
      by (auto simp: rbind_Inr_iff)
    from Cons.IH[OF rest] show ?thesis
    proof (elim disjE conjE bexE exE)
      assume "result = c" "\<forall>j \<in> set infos. \<exists>k. max_network_cards j = Inr k \<and> m \<le> k" "rfold ?least infos m = Inr m"
      with c m True fold show ?thesis by (intro disjI2 bexI[of _ i] exI[of _ m]) auto
    next
      fix k l assume "k \<in> set infos" "l < m" "max_network_cards k = Inr l" "network_cards_list k = Inr result"
        "\<forall>j \<in> set infos. \<exists>k. max_network_cards j = Inr k \<and> l \<le> k" "rfold ?least infos m = Inr l"
      with m True fold show ?thesis by (intro disjI2 bexI[of _ k] exI[of _ l]) auto
    qed
  next
    case False
    with Cons.prems m have rest: "least_cards n cards infos = Inr result" by (simp add: rbind_Inr_iff)
    from Cons.IH[OF rest] show ?thesis
    proof (elim disjE conjE bexE exE)
      assume "result = cards" "\<forall>j \<in> set infos. \<exists>k. max_network_cards j = Inr k \<and> n \<le> k" "rfold ?least infos n = Inr n"
      with m False fold show ?thesis by (intro disjI1) auto
    next
      fix k l assume "k \<in> set infos" "l < n" "max_network_cards k = Inr l" "network_cards_list k = Inr result"
        "\<forall>j \<in> set infos. \<exists>k. max_network_cards j = Inr k \<and> l \<le> k" "rfold ?least infos n = Inr l"
      with m False fold show ?thesis by (intro disjI2 bexI[of _ k] exI[of _ l]) auto
    qed
  qed
qed simp

text \<open>
  C17: the network cards of a compute resource with several instance types are those of one of its types, which has
  the least number of cards among them; that number is the maximum that is used for the whole resource.
\<close>

theorem network_cards_of_least_type:
  assumes "sc_instances cr = Flexible ts" and "compute_network_cards_list A cr = Inr cards"
  shows "\<exists>infos i n. type_infos A cr = Inr infos \<and> i \<in> set infos \<and> network_cards_list i = Inr cards \<and> max_network_cards i = Inr n
    \<and> compute_max_network_cards A cr = Inr n \<and> (\<forall>j \<in> set infos. \<exists>m. max_network_cards j = Inr m \<and> n \<le> m)"
proof -
  from assms obtain types where types: "type_infos A cr = Inr types"
    by (auto simp: compute_network_cards_list_def rbind_Inr_iff)
  with assms obtain i rest where "types = i # rest" by (cases types) (auto simp: compute_network_cards_list_def)
  with types assms obtain first c where infos: "type_infos A cr = Inr (i # rest)" and first: "max_network_cards i = Inr first"
    and c: "network_cards_list i = Inr c" and run: "least_cards first c rest = Inr cards"
    by (auto simp: compute_network_cards_list_def rbind_Inr_iff)
  have maximum: "compute_max_network_cards A cr = rfold (\<lambda>i least. rmap (min least) (max_network_cards i)) rest first"
    using assms(1) infos first by (simp add: compute_max_network_cards_def)
  from least_cards_found[OF run] consider
      (same) "cards = c" "\<forall>j \<in> set rest. \<exists>m. max_network_cards j = Inr m \<and> first \<le> m" "compute_max_network_cards A cr = Inr first"
    | (less) k m where "k \<in> set rest" "m < first" "max_network_cards k = Inr m" "network_cards_list k = Inr cards"
        "\<forall>j \<in> set rest. \<exists>l. max_network_cards j = Inr l \<and> m \<le> l" "compute_max_network_cards A cr = Inr m"
    unfolding maximum by blast
  then show ?thesis
  proof cases
    case same
    with infos first c show ?thesis by (intro exI[of _ "i # rest"] exI[of _ i] exI[of _ first]) auto
  next
    case less
    with infos first show ?thesis by (intro exI[of _ "i # rest"] exI[of _ k] exI[of _ m]) auto
  qed
qed

text \<open>The counter of the limits that a shared storage falls under.\<close>

datatype storage_slot = Plain_ebs | New_storage string | Existing_storage string

definition slot_when_existing :: "string \<Rightarrow> string option \<Rightarrow> storage_slot" where
  "slot_when_existing kind i = (if given_text i then Existing_storage kind else New_storage kind)"

fun slot_of :: "shared_storage \<Rightarrow> storage_slot" where
  "slot_of (SharedEbs e) = (if se_raid e \<noteq> None then New_storage ''raid'' else Plain_ebs)"
| "slot_of (SharedEfs e) = slot_when_existing ''efs'' (efs_file_system_id e)"
| "slot_of (SharedFsxLustre l) = slot_when_existing ''fsx'' (lu_file_system_id l)"
| "slot_of (ExistingFsxOpenZfs v) = Existing_storage ''fsx''"
| "slot_of (ExistingFsxOntap v) = Existing_storage ''fsx''"
| "slot_of (ExistingFileCache c) = Existing_storage ''fsx''"

fun slot_count :: "storage_tally \<Rightarrow> storage_slot \<Rightarrow> int" where
  "slot_count T Plain_ebs = ebs_count T"
| "slot_count T (New_storage k) = new_storage_count T k"
| "slot_count T (Existing_storage k) = existing_storage_count T k"

definition storages_in :: "shared_storage list \<Rightarrow> storage_slot \<Rightarrow> int" where
  "storages_in ss k = int (length (filter (\<lambda>s. slot_of s = k) ss))"

lemma tally_storage_counts:
  "tally_storage A C s T = Inr (rs, T') \<Longrightarrow> slot_count T' k = slot_count T k + (if slot_of s = k then 1 else 0)"
  by (cases k; cases s)
    (auto simp: tally_storage_def rmap_Inr_iff count_existing_fsx_def count_existing_def count_new_def slot_when_existing_def
      split: if_splits)

lemma storage_steps_count:
  "rfold (storage_step A C) ss st = Inr st' \<Longrightarrow> slot_count (snd st') k = slot_count (snd st) k + storages_in ss k"
proof (induction ss arbitrary: st)
  case (Cons s ss)
  then obtain st1 where step: "storage_step A C s st = Inr st1" and rest: "rfold (storage_step A C) ss st1 = Inr st'"
    by (auto simp: rbind_Inr_iff)
  from step obtain rs where "tally_storage A C s (snd st) = Inr (rs, snd st1)"
    by (auto simp: storage_step_def rmap_Inr_iff)
  from tally_storage_counts[OF this, of k] Cons.IH[OF rest] show ?case by (auto simp: storages_in_def)
qed (simp add: storages_in_def)

lemma storage_limits: "max_storage_count_registers T =
    [number_register ''new EFS'' (Some 1) (new_storage_count T ''efs''),
     number_register ''existing EFS'' (Some 20) (existing_storage_count T ''efs''),
     number_register ''new FSx'' (Some 1) (new_storage_count T ''fsx''),
     number_register ''existing FSx'' (Some 20) (existing_storage_count T ''fsx''),
     number_register ''new RAID'' (Some 1) (new_storage_count T ''raid''),
     number_register ''existing RAID'' (Some 0) (existing_storage_count T ''raid''),
     number_register ''EBS'' (Some 5) (ebs_count T)]"
proof -
  have lower: "to_lower CHR ''E'' = CHR ''e''" "to_lower CHR ''F'' = CHR ''f''" "to_lower CHR ''S'' = CHR ''s''" "to_lower CHR ''x'' = CHR ''x''" "to_lower CHR ''R'' = CHR ''r''" "to_lower CHR ''A'' = CHR ''a''" "to_lower CHR ''I'' = CHR ''i''" "to_lower CHR ''D'' = CHR ''d''"
    by code_simp+
  show ?thesis
    by (simp add: max_storage_count_registers_def Let_def lower MAX_NEW_STORAGE_COUNT_def MAX_EXISTING_STORAGE_COUNT_def
      MAX_EBS_COUNT_def)
qed

text \<open>
  C14: the limits on the number of storages are checked on the true numbers: every shared storage counts for one limit,
  a volume of a raid as a raid, and a file system as an existing one exactly when its id is given.
\<close>

theorem storage_limits_on_true_counts:
  assumes "storage_registers digest A C = Inr rs" and "shared_storages C \<noteq> []"
  shows "{number_register ''EBS'' (Some 5) (storages_in (shared_storages C) Plain_ebs),
      number_register ''new EFS'' (Some 1) (storages_in (shared_storages C) (New_storage ''efs'')),
      number_register ''existing EFS'' (Some 20) (storages_in (shared_storages C) (Existing_storage ''efs'')),
      number_register ''new FSx'' (Some 1) (storages_in (shared_storages C) (New_storage ''fsx'')),
      number_register ''existing FSx'' (Some 20) (storages_in (shared_storages C) (Existing_storage ''fsx'')),
      number_register ''new RAID'' (Some 1) (storages_in (shared_storages C) (New_storage ''raid''))} \<subseteq> set rs"
proof -
  have "\<exists>st. rfold (storage_step A C) (shared_storages C) ([], no_storages) = Inr st
      \<and> set (max_storage_count_registers (snd st)) \<subseteq> set rs"
    using assms by (clarsimp simp: storage_registers_def rbind_Inr_iff rmap_Inr_iff split: prod.splits)
  then obtain st where fold: "rfold (storage_step A C) (shared_storages C) ([], no_storages) = Inr st"
    and sub: "set (max_storage_count_registers (snd st)) \<subseteq> set rs" by blast
  have count: "slot_count (snd st) k = storages_in (shared_storages C) k" for k
    using storage_steps_count[OF fold, of k] by (cases k) (simp_all add: no_storages_def)
  have "ebs_count (snd st) = storages_in (shared_storages C) Plain_ebs"
    "new_storage_count (snd st) k = storages_in (shared_storages C) (New_storage k)"
    "existing_storage_count (snd st) k = storages_in (shared_storages C) (Existing_storage k)" for k
    using count[of Plain_ebs] count[of "New_storage k"] count[of "Existing_storage k"] by simp_all
  note counts = this
  from sub show ?thesis by (simp add: storage_limits counts)
qed

lemma update_keys: "fst ` set (AList.update k v m) = insert k (fst ` set m)"
  by (induction m) auto

lemma group_by_keys: "fst ` set (fold add_to_set kvs m) = fst ` set m \<union> fst ` set kvs"
  by (induction kvs arbitrary: m) (auto simp: add_to_set_def update_keys)

lemma group_by_distinct: "distinct (map fst m) \<Longrightarrow> distinct (map fst (fold add_to_set kvs m))"
  by (induction kvs arbitrary: m) (simp_all add: add_to_set_def distinct_update)

lemma more_than_one_iff: "distinct xs \<Longrightarrow> length xs > 1 \<longleftrightarrow> (\<exists>a \<in> set xs. \<exists>b \<in> set xs. a \<noteq> b)"
  by (cases xs rule: remdups_adj.cases) auto

text \<open>
  C18: a queue spans several availability zones exactly when two of its subnets are in different zones, however many
  subnets it has.
\<close>

theorem multi_az_enabled_iff:
  assumes "subnets_zones A (subnet_ids (q_networking q)) = Inr zones"
  shows "multi_az_enabled A q = Inr (\<exists>(s1, z1) \<in> set zones. \<exists>(s2, z2) \<in> set zones. z1 \<noteq> z2)"
proof -
  let ?keys = "map fst (group_by (map (\<lambda>(subnet, az). (az, subnet)) zones))"
  have keys: "distinct ?keys" "set ?keys = snd ` set zones"
    by (simp_all add: group_by_def group_by_distinct group_by_keys) force
  have "multi_az_enabled A q = Inr (length ?keys > 1)"
    using assms by (simp add: multi_az_enabled_def az_list_def az_subnet_ids_mapping_def subnet_id_az_mapping_def)
  with keys show ?thesis by (simp only: more_than_one_iff) (auto simp: Bex_def split: prod.splits; metis)
qed

text \<open>The region check of the queues: a member of another enumeration is in no entry of the unsupported features.\<close>

lemma capacity_block_region_never_refused:
  "FeatureRegionValidator env (Capacity_member c) region = []"
  "FeatureRegionValidator ''us-iso-east-1'' (Feature_member feature.CAPACITY_BLOCK) None \<noteq> []"
  by (simp_all add: FeatureRegionValidator_def fail_if_def) code_simp

text \<open>
  Managed placement groups: their keys differ within a queue whose compute resources have different names, but two
  queues may share one, as the names may hold the separator.
\<close>

lemma managed_placement_group_keys_distinct:
  "distinct (map sc_name (q_compute_resources q)) \<Longrightarrow> distinct (get_managed_placement_group_keys q)"
proof -
  define managed where "managed = (\<lambda>cr. \<not> given_text (assignment (get_chosen_placement_group_setting_for_compute_resource q cr))
    \<and> pg_enabled (get_chosen_placement_group_setting_for_compute_resource q cr) = Some True)"
  have "concat (map (\<lambda>cr. case get_placement_group_settings_for_compute_resource q cr of
        (Some key, True) \<Rightarrow> [key] | _ \<Rightarrow> []) crs) = map (\<lambda>cr. q_name q @ ''-'' @ sc_name cr) (filter managed crs)" for crs
    by (induction crs) (auto simp: get_placement_group_settings_for_compute_resource_def managed_def Let_def split: option.splits)
  then have keys: "get_managed_placement_group_keys q =
      map (\<lambda>cr. q_name q @ ''-'' @ sc_name cr) (filter managed (q_compute_resources q))"
    by (simp add: get_managed_placement_group_keys_def)
  assume "distinct (map sc_name (q_compute_resources q))"
  then show ?thesis unfolding keys by (auto simp: distinct_map inj_on_def)
qed

lemma placement_group_keys_collide:
  fixes q :: slurm_queue and cr :: slurm_compute_resource
  defines "managed_group \<equiv> \<lparr>pg_enabled = Some True, pg_name = None, pg_id = None, pg_implied = False\<rparr>"
  shows "get_placement_group_settings_for_compute_resource (q\<lparr>q_name := ''a-b''\<rparr>)
      (cr\<lparr>sc_name := ''c'', sc_placement_group := managed_group\<rparr>) = (Some ''a-b-c'', True)"
    and "get_placement_group_settings_for_compute_resource (q\<lparr>q_name := ''a''\<rparr>)
      (cr\<lparr>sc_name := ''b-c'', sc_placement_group := managed_group\<rparr>) = (Some ''a-b-c'', True)"
  by (simp_all add: get_placement_group_settings_for_compute_resource_def managed_group_def assignment_def
    get_chosen_placement_group_setting_for_compute_resource_def or_given_def or_default_def given_text_def)

section \<open>A cluster\<close>

text \<open>
  A cluster with one queue of one flexible compute resource, a managed file system and an existing one, on answers of
  AWS that depend on what is asked only where this matters.
\<close>

definition example_type :: "string \<Rightarrow> pyval list \<Rightarrow> pyval" where
  "example_type name cards = VDict
     [(''InstanceType'', VStr name), (''InstanceStorageSupported'', VBool False),
      (''ProcessorInfo'', VDict [(''SupportedArchitectures'', VList [VStr ''x86_64''])]),
      (''MemoryInfo'', VDict [(''SizeInMiB'', VInt 8192)]), (''NetworkInfo'', VDict [(''NetworkCards'', VList cards)])]"

definition example_card :: "int \<Rightarrow> pyval" where
  "example_card i = VDict [(''NetworkCardIndex'', VInt i)]"

definition example_info :: "string option \<Rightarrow> pyval result" where
  "example_info t = (case t of None \<Rightarrow> Inl TypeError
   | Some s \<Rightarrow> Inr (example_type s (if s = ''c5.large'' then [example_card 0] else [example_card 0, example_card 1])))"

definition example_ec2 :: ec2_api where
  "example_ec2 = \<lparr>list_instance_types = Inr [''t2.micro''], describe_image = (\<lambda>_. Inl KeyError),
     imagebuilder_image_id = (\<lambda>_. Inl KeyError), get_supported_architectures = (\<lambda>_. Inr [''x86_64'']),
     get_instance_type_info = (\<lambda>t. example_info (Some t)), describe_key_pair = (\<lambda>_. Inl KeyError),
     describe_placement_group = (\<lambda>_. Inl KeyError), describe_capacity_reservations = (\<lambda>_. Inr []),
     get_subnet_avail_zone = (\<lambda>_. Inr (VStr ''us-east-1a'')), describe_capacity_block_status = Inr [],
     group_reservation_ids = (\<lambda>_. Inr []), group_configuration = (\<lambda>_. Inl KeyError)\<rparr>"

definition example_aws :: aws where
  "example_aws = \<lparr>ec2 = example_ec2, type_info = example_info, region_name = ''us-east-1'',
     subnet_zone = (\<lambda>_. Inr ''us-east-1a''),
     subnets_zones = (\<lambda>ss. Inr (map (\<lambda>s. (s, if s = ''subnet-2'' then ''us-east-1b'' else ''us-east-1a'')) ss)),
     subnet_vpc = (\<lambda>_. Inr ''vpc-1''), public_subnet = (\<lambda>_. Inr False), volume_description = (\<lambda>_. Inl KeyError),
     file_system_info = (\<lambda>_. Inl KeyError), fsx_volume = (\<lambda>_. Inl KeyError), storage_virtual_machine = (\<lambda>_. Inl KeyError),
     file_cache_info = (\<lambda>_. Inl KeyError), image_device_and_size = (\<lambda>_. Inr (''/dev/xvda'', 40)),
     reservation_types = (\<lambda>_. Inr (None, None)), official_image_id = (\<lambda>_ _ _. Inr ''ami-1''),
     profile_role_arns = (\<lambda>_. Inr []), pick_architecture = (\<lambda>_. ''x86_64'')\<rparr>"

definition example_resource :: slurm_compute_resource where
  "example_resource = init_compute_resource ''compute'' (Flexible [''c5n.18xlarge'', ''c5.large'']) None None None None None
     None None None None None None None None None"

definition example_queue :: slurm_queue where
  "example_queue = projr (init_slurm_queue ''us-east-1'' ''batch'' None None None None None None [example_resource]
     \<lparr>security_groups = None, additional_security_groups = None, subnet_ids = [''subnet-1'', ''subnet-2''],
      assign_public_ip = None, q_placement_group = init_placement_group None, q_proxy = None\<rparr> None None None None None)"

definition example_efs :: "string \<Rightarrow> string option \<Rightarrow> shared_storage" where
  "example_efs name i = SharedEfs (init_shared_efs (''/'' @ name) name None None None None None i None None None None)"

definition example_head_node :: head_node where
  "example_head_node = init_head_node ''us-east-1'' ''t2.micro''
     \<lparr>security_groups = None, additional_security_groups = None, hn_subnet_id = ''subnet-1'', hn_elastic_ip = VNone, hn_proxy = None\<rparr>
     None None None None None None None None None None"

definition example_cluster :: cluster_config where
  "example_cluster = init_cluster_config ''us-east-1'' ''cluster'' \<lparr>im_os = ''alinux2'', im_custom_ami = None\<rparr>
     example_head_node (init_slurm_scheduling [example_queue] None None)
     (Some [example_efs ''data'' (Some ''fs-1''), example_efs ''home'' None])
     None None None None None None None None None None None"

text \<open>The validators of the example find one failure, in the names.\<close>

definition example_body :: "registration \<Rightarrow> failures result" where
  "example_body r = Inr (if fst r = ''NameValidator'' then [(''A name'', ERROR)] else [])"

lemmas example_defs = example_cluster_def example_head_node_def example_efs_def example_queue_def example_resource_def
  example_aws_def example_ec2_def example_info_def example_card_def example_type_def example_body_def

lemma example_validated: "\<exists>results. validate_cluster [] example_body (\<lambda>s. s) None example_aws example_cluster = Inr results"
proof -
  have "\<not> isl (validate_cluster [] example_body (\<lambda>s. s) None example_aws example_cluster)" by code_simp
  then show ?thesis by (cases "validate_cluster [] example_body (\<lambda>s. s) None example_aws example_cluster") simp_all
qed

lemma example_parts:
  "queues (scheduling example_cluster) = [example_queue]" "q_compute_resources example_queue = [example_resource]"
  "sc_instances example_resource = Flexible [''c5n.18xlarge'', ''c5.large'']" "sc_name example_resource = ''compute''"
  by (simp_all add: example_cluster_def example_queue_def example_resource_def init_cluster_config_def init_slurm_scheduling_def
    init_slurm_queue_def init_allocation_strategy_def init_compute_resource_def is_flexible_def given_text_def Let_def)

theorem every_resource_is_checked_witness:
  "\<exists>results. validate_cluster [] example_body (\<lambda>s. s) None example_aws example_cluster = Inr results
     \<and> set (validator_execute_sync (validator_of example_body (''NameValidator'', [(''name'', tx ''compute'')]))) \<subseteq> set results"
proof -
  from example_validated obtain results
    where run: "validate_cluster [] example_body (\<lambda>s. s) None example_aws example_cluster = Inr results" by blast
  have "(''NameValidator'', [(''name'', tx ''compute'')]) \<in> cluster_checks example_cluster"
    by (simp add: cluster_checks_def queue_checks_def example_parts)
  from every_resource_is_checked[OF run this] run show ?thesis by (auto simp: suppressed_def)
qed


theorem network_cards_of_least_type_witness:
  "\<exists>infos i. type_infos example_aws example_resource = Inr infos \<and> i \<in> set infos \<and> network_cards_list i = Inr [example_card 0]"
proof -
  have "compute_network_cards_list example_aws example_resource = Inr [example_card 0]" by code_simp
  from network_cards_of_least_type[OF example_parts(3) this] show ?thesis by blast
qed

theorem storage_limits_on_true_counts_witness:
  "\<exists>rs. storage_registers (\<lambda>s. s) example_aws example_cluster = Inr rs
     \<and> number_register ''new EFS'' (Some 1) 1 \<in> set rs \<and> number_register ''existing EFS'' (Some 20) 1 \<in> set rs"
proof -
  have "\<not> isl (storage_registers (\<lambda>s. s) example_aws example_cluster)" by code_simp
  then obtain rs where run: "storage_registers (\<lambda>s. s) example_aws example_cluster = Inr rs"
    by (cases "storage_registers (\<lambda>s. s) example_aws example_cluster") simp_all
  have "shared_storages example_cluster \<noteq> []" by code_simp
  note limits = storage_limits_on_true_counts[OF run this]
  have "storages_in (shared_storages example_cluster) (New_storage ''efs'') = 1"
    "storages_in (shared_storages example_cluster) (Existing_storage ''efs'') = 1" by code_simp+
  with run limits show ?thesis by auto
qed

theorem multi_az_enabled_iff_witness: "multi_az_enabled example_aws example_queue = Inr True"
proof -
  have "subnets_zones example_aws (subnet_ids (q_networking example_queue)) =
      Inr [(''subnet-1'', ''us-east-1a''), (''subnet-2'', ''us-east-1b'')]" by code_simp
  from multi_az_enabled_iff[OF this] show ?thesis by auto
qed

end
