(* ===== verification/Spec2Isabelle.thy ===== *)
theory Spec2Isabelle
  imports SchemaFacts ClusterValidators SlurmValidators SchemaChecks StorageValidators ApiControllers
    Subnets NetworkAccess ClusterDeletion InstanceValidators CallCache AwsServices ConverterFacts
    ConfigFacts
begin

text \<open>
  A model of the part of AWS ParallelCluster (\<open>cli/src/pcluster\<close>) that decides what a cluster
  configuration is and what may be done to a running cluster: the configuration schema and its
  validation, the comparison of two configurations, the policies that allow or refuse each change,
  the status of the compute fleet, the creation and the deletion of a cluster with what they leave in
  S3, and the API controllers that put these together.

  How the parts interact.  An update request reaches \<open>update_cluster\<close> (\<open>api/controllers\<close>), which
  asks \<open>Cluster.validate_update_request\<close> (\<open>models/cluster.py\<close>) to parse and validate the new
  configuration and to compare it with the old one: \<open>ConfigPatch\<close> (\<open>config/config_patch.py\<close>) walks
  the schema (\<open>schemas/cluster_schema.py\<close>), collects the changes and asks the policy of each changed
  parameter (\<open>config/update_policy.py\<close>), which consults the cluster: its fleet status (kept in DynamoDB,
  \<open>models/compute_fleet_status_manager.py\<close>), its login nodes (\<open>models/login_nodes_status.py\<close>).

  A creation (\<open>Cluster.create\<close>) validates the request, chooses an artifact directory, gets the bucket
  (\<open>models/s3_bucket.py\<close>), uploads the configuration, the template and its assets, and asks
  CloudFormation for the stack; what it uploaded is removed when a step fails.  A deletion retains the
  log groups, deletes the stack, and terminates the nodes when that fails.

  Theories, in the order of their imports.
  \<^item> \<open>Prelude\<close>: exceptions as values of a sum, results in sequence, strings.  \<open>PyValue\<close>: the values of
    a YAML document with Python's truth, equality, \<open>get\<close>, \<open>str\<close> and \<open>repr\<close>.
  \<^item> \<open>DictDiff\<close>: \<open>get_dictionary_diff\<close> of \<open>utils.py\<close>.
  \<^item> \<open>FleetStatus\<close>: the two managers of the fleet status over a DynamoDB table, \<open>update_status\<close> with its
    wait loop.  The locale \<open>dynamodb\<close> states the documented behaviour of conditional writes, the
    locale \<open>status_store\<close> what \<open>update_status\<close> relies on; both managers provide it.
  \<^item> \<open>LoginNodes\<close>, \<open>ClusterState\<close>: what a \<open>Cluster\<close> object answers about its nodes, with its caches.
    A check is a computation that may raise and that updates the caches.
  \<^item> \<open>UpdatePolicy\<close>, \<open>PolicyFacts\<close>: the policies and what their checks accept.
  \<^item> \<open>ConfigPatch\<close>, \<open>PatchFacts\<close>, \<open>PatchCheck\<close>: the comparison, its soundness, and the check of a patch
    with its report.
  \<^item> \<open>SchemaFields\<close>, \<open>ClusterSchema\<close>, \<open>SchemaFacts\<close>: the declarations of the schema and what follows for
    updates of real configurations.
  \<^item> \<open>Validation\<close>, \<open>StorageValidators\<close>, \<open>ClusterValidators\<close>, \<open>SlurmValidators\<close>, \<open>SchemaChecks\<close>: the framework
    of validators and the validators themselves.
  \<^item> \<open>ClusterUpdate\<close>, \<open>ApiControllers\<close>: the actions on a cluster with their errors, and the controllers.
  \<^item> \<open>Utils\<close>: the functions of \<open>utils.py\<close> on regions, names, chunks, waiting, retrying and caching.
  \<^item> \<open>Ipv4\<close>: addresses and networks of Python's \<open>ipaddress\<close>, with the locale \<open>address_collapse\<close> for what
    merging networks keeps.  \<open>Subnets\<close>: the search of a free block in a VPC
    (\<open>cli/commands/configure/subnet_computation.py\<close>).  \<open>NetworkAccess\<close>: whether security groups let the
    cluster reach a file system (\<open>validators/cluster_validators.py\<close>).
  \<^item> \<open>Artifacts\<close>: the bucket of the clusters.  A computation on a service returns or raises, and leaves a
    state either way; \<open>leads\<close> and \<open>moves\<close> are its rules.  \<open>s3_laws\<close> states the documented effects of S3.
  \<^item> \<open>ClusterLifecycle\<close>, \<open>ClusterDeletion\<close>: the creation and the deletion over these services.
  \<^item> \<open>CallCache\<close>: \<open>Cache.cached\<close> of \<open>aws/common.py\<close> with the threads of the validators, as a step relation.
  \<^item> \<open>InstanceTypes\<close>: what \<open>aws/aws_resources.py\<close> reads from the descriptions of EC2, FSx and CloudFormation.
    \<open>InstanceValidators\<close>: the validators over them (\<open>validators/instances_validators.py\<close>,
    \<open>validators/ec2_validators.py\<close>).
  \<^item> \<open>AwsClients\<close>, \<open>AwsServices\<close>: the clients of \<open>pcluster/aws\<close>: errors and retries of boto3, the caches of
    descriptions (the locale \<open>describing\<close> states what a service answers to a request by identifiers),
    official images, listings by page, stacks, buckets, log groups, mount targets.
  \<^item> \<open>ConfigConverter\<close>, \<open>ConverterFacts\<close>: the converter of the INI files of version 2
    (\<open>pcluster3_config_converter.py\<close>), its checks and the conversion of every section; what it writes conforms to
    the declarations of \<open>ClusterSchema\<close>.

  \<^item> \<open>ClusterResources\<close>, \<open>ClusterConfig\<close>: the classes of \<open>config/cluster_config.py\<close>, their constructors with the
    defaults, and the values derived from them (a property that keeps its answer is the value it computes; the
    elements of a set are listed as they were added).  \<open>ConfigValidators\<close>: which validators each resource registers
    with which arguments, as a tree that \<open>Validation\<close> walks.  \<open>ConfigFacts\<close>: what follows for a validated cluster.

  What the lemmas show.  The comparison misses nothing (no change means agreement on every parameter),
  invents nothing (a configuration compared with itself has no change) and gives every change the
  policy its parameter declares; a patch is allowed exactly when every check succeeded, and stopping
  the fleet never makes an allowed patch refused.  An update is accepted, and a dry run predicts it,
  exactly under these conditions; what is refused is reported completely.  No fleet request is lost,
  and waiting for a transition ends.  The validation reports the results of all validators that are
  not suppressed.  The validators accept exactly the values that the stated bounds describe.
  A failed creation leaves no artifact and a successful one all of them; the bucket is marked only once
  it is configured; a failed deletion terminates the nodes.  The subnet that is chosen is free.
  Concurrent callers of a cached function agree, the function succeeds once for a key, and every call can
  end; a converted configuration has only keys that the schema declares, with values of their kinds; a client describes just what it is asked for; a listing has the entries of all the pages.
  A validation of a cluster that returns has checked every queue, compute resource, instance type and shared storage,
  and its limits and reservations on the sums over all of them.

  Bounds and fuel.  No definition uses fuel.  The wait loops and the halving of the subnet size are
  \<open>partial_function (option)\<close>: the wait for a fleet status returns when the clock advances between
  two polls, the wait for a stack when it does not stay in the status, the halving always.  The
  interpolation of INI values ends because references nest at most ten deep, as in \<open>configparser\<close>.

  Not modelled: the schema library's loading and dumping and its regular expressions (the loaded
  values are parameters), calls to AWS and the CDK (their answers are parameters), the texts of the
  interpreter's own exceptions, logging, the command line, the parsing of INI texts, the image builder, the log exports, presigned
  addresses, the priming of the cache of reservations when a cluster configuration is made, the generated API models and client.  Floating-point ratios in two messages are a parameter.
\<close>

end
